(* ===== verification/Prelude.thy ===== *)
theory Prelude
  imports Complex_Main "HOL-Library.Finite_Map" "HOL-Library.List_Lexorder"
    "HOL-Library.Char_ord" "HOL-Library.Sublist"
begin

text \<open>
  What every component of the model shares: Python values, the string operations the source
  uses, the world the handlers run in (clock, random source, identifiers, metrics, log, store),
  the exceptions, and the state-and-exception monad in which the components are written.

  Conventions. Python's \<open>float\<close> values are exact rationals; strings are lists of
  characters with codes below 256 (letters change case in ASCII only); a \<open>dict\<close> with string keys is a finite map, so that two dicts are equal whatever
  the order of their keys, as in Python.
\<close>

named_theorems prog_simps \<open>unfolding the monad and the primitive effects\<close>
named_theorems prog_intros \<open>rules that push a postcondition through a program\<close>

section \<open>Values\<close>

text \<open>JSON values, which are also the untyped Python values the source passes around.\<close>

datatype json =
    JNull
  | JBool bool
  | JInt int
  | JFloat rat
  | JStr string
  | JArr "json list"
  | JObj "(string, json) fmap"

type_synonym dict = "(string, json) fmap"

abbreviation dget :: "dict \<Rightarrow> string \<Rightarrow> json option" where
  "dget d k \<equiv> fmlookup d k"

abbreviation dset :: "string \<Rightarrow> json \<Rightarrow> dict \<Rightarrow> dict" where
  "dset k v d \<equiv> fmupd k v d"

definition dget_or :: "dict \<Rightarrow> string \<Rightarrow> json \<Rightarrow> json" where
  "dget_or d k v = (case fmlookup d k of None \<Rightarrow> v | Some x \<Rightarrow> x)"

definition dsetdefault :: "string \<Rightarrow> json \<Rightarrow> dict \<Rightarrow> dict" where
  "dsetdefault k v d = (if fmlookup d k = None then fmupd k v d else d)"

definition dict_of :: "(string \<times> json) list \<Rightarrow> dict" where
  "dict_of kvs = fold (\<lambda>(k, v) d. fmupd k v d) kvs fmempty"

lemma dget_dict_of: "dget (dict_of kvs) k = map_of (rev kvs) k"
proof -
  have "fmlookup (fold (\<lambda>(k, v) d. fmupd k v d) kvs d0) k = (case map_of (rev kvs) k of None \<Rightarrow> fmlookup d0 k | Some x \<Rightarrow> Some x)" for d0
    by (induction kvs rule: rev_induct) auto
  then show ?thesis by (simp add: dict_of_def split: option.splits)
qed

lemma dget_or_dict_of: "dget_or (dict_of kvs) k v = (case map_of (rev kvs) k of None \<Rightarrow> v | Some x \<Rightarrow> x)"
  by (simp add: dget_or_def dget_dict_of)

text \<open>Python's truth value of an object.\<close>

fun truthy :: "json \<Rightarrow> bool" where
  "truthy JNull = False"
| "truthy (JBool b) = b"
| "truthy (JInt n) = (n \<noteq> 0)"
| "truthy (JFloat r) = (r \<noteq> 0)"
| "truthy (JStr s) = (s \<noteq> [])"
| "truthy (JArr xs) = (xs \<noteq> [])"
| "truthy (JObj d) = (d \<noteq> fmempty)"

fun is_dict :: "json \<Rightarrow> bool" where
  "is_dict (JObj d) = True"
| "is_dict _ = False"

text \<open>\<open>isinstance(v, (int, float))\<close>: a Python \<open>bool\<close> is an \<open>int\<close>.\<close>

fun number_of :: "json \<Rightarrow> rat option" where
  "number_of (JBool b) = Some (if b then 1 else 0)"
| "number_of (JInt n) = Some (of_int n)"
| "number_of (JFloat r) = Some r"
| "number_of _ = None"

text \<open>Truncation towards zero (\<open>int(x)\<close> of a float) and the ceiling the source uses.\<close>

definition trunc :: "rat \<Rightarrow> int" where
  "trunc r = (if 0 \<le> r then \<lfloor>r\<rfloor> else \<lceil>r\<rceil>)"

section \<open>Strings\<close>

definition is_ws :: "char \<Rightarrow> bool" where
  "is_ws c = (let n = of_char c :: nat in (9 \<le> n \<and> n \<le> 13) \<or> (28 \<le> n \<and> n \<le> 32) \<or> n = 133 \<or> n = 160)"

definition lstrip :: "string \<Rightarrow> string" where
  "lstrip s = dropWhile is_ws s"

definition strip :: "string \<Rightarrow> string" where
  "strip s = rev (dropWhile is_ws (rev (dropWhile is_ws s)))"

definition lower_char :: "char \<Rightarrow> char" where
  "lower_char c = (let n = of_char c :: nat in if 65 \<le> n \<and> n \<le> 90 then char_of (n + 32) else c)"

definition upper_char :: "char \<Rightarrow> char" where
  "upper_char c = (let n = of_char c :: nat in if 97 \<le> n \<and> n \<le> 122 then char_of (n - 32) else c)"

definition lower :: "string \<Rightarrow> string" where
  "lower s = map lower_char s"

definition upper :: "string \<Rightarrow> string" where
  "upper s = map upper_char s"

fun starts_with :: "string \<Rightarrow> string \<Rightarrow> bool" where
  "starts_with [] s = True"
| "starts_with (c # p) [] = False"
| "starts_with (c # p) (d # s) = (c = d \<and> starts_with p s)"

text \<open>\<open>p in s\<close>: substring test.\<close>

fun occurs_in :: "string \<Rightarrow> string \<Rightarrow> bool" where
  "occurs_in p [] = (p = [])"
| "occurs_in p (c # s) = (starts_with p (c # s) \<or> occurs_in p s)"

definition replace_char :: "char \<Rightarrow> char \<Rightarrow> string \<Rightarrow> string" where
  "replace_char a b s = map (\<lambda>c. if c = a then b else c) s"

fun split_on :: "char \<Rightarrow> string \<Rightarrow> string list" where
  "split_on a [] = [[]]"
| "split_on a (c # s) =
     (if c = a then [] # split_on a s
      else (case split_on a s of [] \<Rightarrow> [[c]] | w # ws \<Rightarrow> (c # w) # ws))"

fun join :: "string \<Rightarrow> string list \<Rightarrow> string" where
  "join sep [] = []"
| "join sep [w] = w"
| "join sep (w # ws) = w @ sep @ join sep ws"

definition or_default :: "string \<Rightarrow> string \<Rightarrow> string" where
  "or_default s d = (if s = [] then d else s)"

text \<open>Decimal text of an integer, and the reading of \<open>int(text)\<close> (blanks, sign, underscores).\<close>

definition digit_char :: "nat \<Rightarrow> char" where
  "digit_char n = char_of (48 + n)"

fun nat_text :: "nat \<Rightarrow> string" where
  "nat_text n = (if n < 10 then [digit_char n] else nat_text (n div 10) @ [digit_char (n mod 10)])"

declare nat_text.simps [simp del]

definition int_text :: "int \<Rightarrow> string" where
  "int_text n = (if n < 0 then ''-'' @ nat_text (nat (- n)) else nat_text (nat n))"

definition digit_val :: "char \<Rightarrow> nat option" where
  "digit_val c = (let n = of_char c :: nat in if 48 \<le> n \<and> n \<le> 57 then Some (n - 48) else None)"

fun read_digits :: "bool \<Rightarrow> nat \<Rightarrow> string \<Rightarrow> nat option" where
  "read_digits seen acc [] = (if seen then Some acc else None)"
| "read_digits seen acc (c # s) =
     (case digit_val c of
        Some d \<Rightarrow> read_digits True (10 * acc + d) s
      | None \<Rightarrow> if c = CHR ''_'' \<and> seen then read_digits False acc s else None)"

definition read_signed :: "(string \<Rightarrow> 'a option) \<Rightarrow> ('a \<Rightarrow> 'a) \<Rightarrow> string \<Rightarrow> 'a option" where
  "read_signed rd neg s =
     (case s of
        [] \<Rightarrow> None
      | c # cs \<Rightarrow> if c = CHR ''-'' then map_option neg (rd cs)
                   else if c = CHR ''+'' then rd cs else rd s)"

definition read_int :: "string \<Rightarrow> int option" where
  "read_int s = read_signed (\<lambda>t. map_option int (read_digits False 0 t)) uminus (strip s)"

text \<open>\<open>float(text)\<close> for decimal notation: digits, an optional fraction, an optional exponent.\<close>

definition split_first :: "(char \<Rightarrow> bool) \<Rightarrow> string \<Rightarrow> string \<times> string option" where
  "split_first p s = (takeWhile (\<lambda>c. \<not> p c) s,
     (case dropWhile (\<lambda>c. \<not> p c) s of [] \<Rightarrow> None | c # r \<Rightarrow> Some r))"

definition read_mantissa :: "string \<Rightarrow> rat option" where
  "read_mantissa s =
     (case split_first (\<lambda>c. c = CHR ''.'') s of
        (i, None) \<Rightarrow> map_option of_nat (read_digits False 0 i)
      | (i, Some f) \<Rightarrow>
          (if i = [] \<and> f = [] then None
           else case (if i = [] then Some 0 else read_digits False 0 i,
                      if f = [] then Some 0 else read_digits False 0 f) of
                  (Some a, Some b) \<Rightarrow>
                    Some (of_nat a + of_nat b / 10 ^ length (filter (\<lambda>c. c \<noteq> CHR ''_'') f))
                | _ \<Rightarrow> None))"

definition read_unsigned_float :: "string \<Rightarrow> rat option" where
  "read_unsigned_float s =
     (case split_first (\<lambda>c. c = CHR ''e'' \<or> c = CHR ''E'') s of
        (m, None) \<Rightarrow> read_mantissa m
      | (m, Some e) \<Rightarrow>
          (case (read_mantissa m,
                 read_signed (\<lambda>t. map_option int (read_digits False 0 t)) uminus e) of
             (Some a, Some k) \<Rightarrow>
               Some (if 0 \<le> k then a * 10 ^ nat k else a / 10 ^ nat (- k))
           | _ \<Rightarrow> None))"

definition read_float :: "string \<Rightarrow> rat option" where
  "read_float s = read_signed read_unsigned_float uminus (strip s)"

text \<open>\<open>f"{x:.6f}"\<close>: six decimals, ties to the even digit.\<close>

definition round_even :: "rat \<Rightarrow> int" where
  "round_even r =
     (let f = \<lfloor>r\<rfloor>; d = r - of_int f in
      if d < 1 / 2 then f else if d > 1 / 2 then f + 1 else if even f then f else f + 1)"

definition pad_left :: "nat \<Rightarrow> string \<Rightarrow> string" where
  "pad_left n s = replicate (n - length s) CHR ''0'' @ s"

definition fixed6 :: "rat \<Rightarrow> string" where
  "fixed6 r =
     (let n = round_even (\<bar>r\<bar> * 1000000); m = nat n
      in (if r < 0 then ''-'' else []) @ nat_text (m div 1000000) @ ''.'' @ pad_left 6 (nat_text (m mod 1000000)))"

text \<open>\<open>round(x, 3)\<close> on exact numbers.\<close>

definition round3 :: "rat \<Rightarrow> rat" where
  "round3 r = of_int (round_even (r * 1000)) / 1000"

section \<open>Exceptions\<close>

datatype redis_err = RTimeout | RConnection | ROther string

text \<open>
  The exceptions of the source. \<open>ChaosTriggered\<close> is \<open>ChaosFaultTriggered\<close>, with the flag set
  for its subclass \<open>ChaosDropTriggered\<close>; it carries the experiment's id and fault type, which
  is all its handlers read of the experiment.
\<close>

datatype exn =
    RedisError redis_err
  | SocketTimeout
  | ValueError string
  | TypeError string
  | KeyError string
  | AttributeError string
  | RuntimeError string
  | PermissionError string
  | ValidationException string
  | StorageException string
  | ChaosTriggered bool string string int string
  | SystemExit int
  | OtherError string string

text \<open>\<open>exc.__class__.__name__\<close>.\<close>

fun exn_name :: "exn \<Rightarrow> string" where
  "exn_name (RedisError RTimeout) = ''TimeoutError''"
| "exn_name (RedisError RConnection) = ''ConnectionError''"
| "exn_name (RedisError (ROther n)) = n"
| "exn_name SocketTimeout = ''timeout''"
| "exn_name (ValueError _) = ''ValueError''"
| "exn_name (TypeError _) = ''TypeError''"
| "exn_name (KeyError _) = ''KeyError''"
| "exn_name (AttributeError _) = ''AttributeError''"
| "exn_name (RuntimeError _) = ''RuntimeError''"
| "exn_name (PermissionError _) = ''PermissionError''"
| "exn_name (ValidationException _) = ''ValidationException''"
| "exn_name (StorageException _) = ''StorageException''"
| "exn_name (ChaosTriggered d _ _ _ _) = (if d then ''ChaosDropTriggered'' else ''ChaosFaultTriggered'')"
| "exn_name (SystemExit _) = ''SystemExit''"
| "exn_name (OtherError n _) = n"

text \<open>\<open>str(exc)\<close>; of an error of the store or the network, whose text is the client's, the name of its class.\<close>

fun exn_text :: "exn \<Rightarrow> string" where
  "exn_text (ValueError s) = s"
| "exn_text (TypeError s) = s"
| "exn_text (KeyError s) = CHR 0x27 # s @ [CHR 0x27]"
| "exn_text (AttributeError s) = s"
| "exn_text (RuntimeError s) = s"
| "exn_text (PermissionError s) = s"
| "exn_text (ValidationException s) = s"
| "exn_text (StorageException s) = s"
| "exn_text (ChaosTriggered d i ft st m) = m"
| "exn_text (OtherError n s) = s"
| "exn_text e = exn_name e"

text \<open>\<open>except Exception\<close> catches everything but \<open>SystemExit\<close>.\<close>

fun is_exception :: "exn \<Rightarrow> bool" where
  "is_exception (SystemExit _) = False"
| "is_exception _ = True"

section \<open>The monad\<close>

type_synonym ('w, 'a) prog = "'w \<Rightarrow> (exn + 'a) \<times> 'w"

definition ret :: "'a \<Rightarrow> ('w, 'a) prog" where
  "ret x = (\<lambda>w. (Inr x, w))"

definition raise :: "exn \<Rightarrow> ('w, 'a) prog" where
  "raise e = (\<lambda>w. (Inl e, w))"

definition bnd :: "('w, 'a) prog \<Rightarrow> ('a \<Rightarrow> ('w, 'b) prog) \<Rightarrow> ('w, 'b) prog" where
  "bnd m f = (\<lambda>w. case m w of (Inl e, w') \<Rightarrow> (Inl e, w') | (Inr x, w') \<Rightarrow> f x w')"

definition thn :: "('w, 'a) prog \<Rightarrow> ('w, 'b) prog \<Rightarrow> ('w, 'b) prog" where
  "thn m k = bnd m (\<lambda>_. k)"

text \<open>\<open>try: m except: h e\<close>; the effects of \<open>m\<close> before it raised remain.\<close>

definition catch :: "('w, 'a) prog \<Rightarrow> (exn \<Rightarrow> ('w, 'a) prog) \<Rightarrow> ('w, 'a) prog" where
  "catch m h = (\<lambda>w. case m w of (Inl e, w') \<Rightarrow> h e w' | (Inr x, w') \<Rightarrow> (Inr x, w'))"

text \<open>\<open>try: x = m; except: h e; else: k x\<close>: exceptions of \<open>k\<close> are not handled by \<open>h\<close>.\<close>

definition try_else ::
  "('w, 'a) prog \<Rightarrow> (exn \<Rightarrow> ('w, 'b) prog) \<Rightarrow> ('a \<Rightarrow> ('w, 'b) prog) \<Rightarrow> ('w, 'b) prog" where
  "try_else m h k = (\<lambda>w. case m w of (Inl e, w') \<Rightarrow> h e w' | (Inr x, w') \<Rightarrow> k x w')"

definition gets :: "('w \<Rightarrow> 'a) \<Rightarrow> ('w, 'a) prog" where
  "gets f = (\<lambda>w. (Inr (f w), w))"

definition modw :: "('w \<Rightarrow> 'w) \<Rightarrow> ('w, unit) prog" where
  "modw f = (\<lambda>w. (Inr (), f w))"

definition whenp :: "bool \<Rightarrow> ('w, unit) prog \<Rightarrow> ('w, unit) prog" where
  "whenp b m = (if b then m else ret ())"

fun for_each :: "'a list \<Rightarrow> ('a \<Rightarrow> ('w, unit) prog) \<Rightarrow> ('w, unit) prog" where
  "for_each [] f = ret ()"
| "for_each (x # xs) f = thn (f x) (for_each xs f)"

definition of_option :: "exn \<Rightarrow> 'a option \<Rightarrow> ('w, 'a) prog" where
  "of_option e v = (case v of None \<Rightarrow> raise e | Some x \<Rightarrow> ret x)"

text \<open>A loop that carries a value.\<close>

fun fold_prog :: "('a \<Rightarrow> 'b \<Rightarrow> ('w, 'b) prog) \<Rightarrow> 'a list \<Rightarrow> 'b \<Rightarrow> ('w, 'b) prog" where
  "fold_prog f [] acc = ret acc"
| "fold_prog f (x # xs) acc = bnd (f x acc) (fold_prog f xs)"

lemmas monad_defs = ret_def raise_def bnd_def thn_def catch_def try_else_def gets_def modw_def
  whenp_def of_option_def

declare monad_defs [prog_simps]

lemma bnd_ret [simp]: "bnd (ret x) f = f x"
  by (simp add: ret_def bnd_def)

lemma bnd_raise [simp]: "bnd (raise e) f = raise e"
  by (simp add: raise_def bnd_def)

lemma bnd_ret_right [simp]: "bnd m ret = m"
  by (rule ext) (simp add: ret_def bnd_def split: prod.splits sum.splits)

lemma bnd_assoc: "bnd (bnd m f) g = bnd m (\<lambda>x. bnd (f x) g)"
  by (rule ext) (simp add: bnd_def split: prod.splits sum.splits)

lemma thn_ret [simp]: "thn (ret x) k = k"
  by (simp add: thn_def)

lemma thn_assoc: "thn (thn m k) l = thn m (thn k l)"
  by (simp add: thn_def bnd_assoc)

lemma catch_ret [simp]: "catch (ret x) h = ret x"
  by (simp add: catch_def ret_def)

lemma catch_raise [simp]: "catch (raise e) h = h e"
  by (simp add: catch_def raise_def)

lemma for_each_append: "for_each (xs @ ys) f = thn (for_each xs f) (for_each ys f)"
  by (induction xs) (simp_all add: thn_assoc)

lemma bnd_Inr: "m w = (Inr x, w') \<Longrightarrow> bnd m f w = f x w'"
  by (simp add: bnd_def)

lemma bnd_Inl: "m w = (Inl e, w') \<Longrightarrow> bnd m f w = (Inl e, w')"
  by (simp add: bnd_def)

lemma bnd_eq_InrE:
  assumes "bnd m f w = (Inr y, w')"
  obtains x w1 where "m w = (Inr x, w1)" and "f x w1 = (Inr y, w')"
  using assms by (auto simp: bnd_def split: prod.splits sum.splits)

subsection \<open>Postconditions\<close>

text \<open>A state property that a program keeps, however it ends.\<close>

definition keeps :: "('w \<Rightarrow> bool) \<Rightarrow> ('w, 'a) prog \<Rightarrow> bool" where
  "keeps P m = (\<forall>w. P w \<longrightarrow> P (snd (m w)))"

lemma keepsI: "(\<And>w. P w \<Longrightarrow> P (snd (m w))) \<Longrightarrow> keeps P m"
  by (simp add: keeps_def)

lemma keepsD: "keeps P m \<Longrightarrow> P w \<Longrightarrow> P (snd (m w))"
  by (simp add: keeps_def)

lemma keeps_ret [prog_intros]: "keeps P (ret x)"
  by (simp add: keeps_def ret_def)

lemma keeps_raise [prog_intros]: "keeps P (raise e)"
  by (simp add: keeps_def raise_def)

lemma keeps_gets [prog_intros]: "keeps P (gets f)"
  by (simp add: keeps_def gets_def)

lemma keeps_modw: "(\<And>w. P w \<Longrightarrow> P (f w)) \<Longrightarrow> keeps P (modw f)"
  by (simp add: keeps_def modw_def)

lemma keeps_bnd [prog_intros]:
  assumes "keeps P m" and "\<And>x. keeps P (f x)"
  shows "keeps P (bnd m f)"
proof (rule keepsI)
  fix w assume "P w"
  with assms(1) have P': "P (snd (m w))" by (rule keepsD)
  show "P (snd (bnd m f w))"
  proof (cases "m w")
    case (Pair r w')
    with P' assms(2) show ?thesis by (cases r) (auto simp: bnd_def keeps_def)
  qed
qed

lemma keeps_thn [prog_intros]: "keeps P m \<Longrightarrow> keeps P k \<Longrightarrow> keeps P (thn m k)"
  by (simp add: thn_def keeps_bnd)

lemma keeps_catch [prog_intros]:
  assumes "keeps P m" and "\<And>e. keeps P (h e)"
  shows "keeps P (catch m h)"
proof (rule keepsI)
  fix w assume "P w"
  with assms(1) have P': "P (snd (m w))" by (rule keepsD)
  show "P (snd (catch m h w))"
  proof (cases "m w")
    case (Pair r w')
    with P' assms(2) show ?thesis by (cases r) (auto simp: catch_def keeps_def)
  qed
qed

lemma keeps_try_else [prog_intros]:
  assumes "keeps P m" and "\<And>e. keeps P (h e)" and "\<And>x. keeps P (k x)"
  shows "keeps P (try_else m h k)"
proof (rule keepsI)
  fix w assume "P w"
  with assms(1) have P': "P (snd (m w))" by (rule keepsD)
  show "P (snd (try_else m h k w))"
  proof (cases "m w")
    case (Pair r w')
    with P' assms(2,3) show ?thesis by (cases r) (auto simp: try_else_def keeps_def)
  qed
qed

lemma keeps_whenp [prog_intros]: "keeps P m \<Longrightarrow> keeps P (whenp b m)"
  by (simp add: whenp_def keeps_ret)

lemma keeps_if [prog_intros]: "keeps P m \<Longrightarrow> keeps P k \<Longrightarrow> keeps P (if b then m else k)"
  by simp

lemma keeps_of_option [prog_intros]: "keeps P (of_option e v)"
  by (cases v) (simp_all add: of_option_def keeps_ret keeps_raise)

lemma keeps_for_each [prog_intros]: "(\<And>x. keeps P (f x)) \<Longrightarrow> keeps P (for_each xs f)"
  by (induction xs) (simp_all add: keeps_ret keeps_thn)

lemma keeps_fold_prog [prog_intros]: "(\<And>x acc. keeps P (f x acc)) \<Longrightarrow> keeps P (fold_prog f xs acc)"
  by (induction xs arbitrary: acc) (simp_all add: keeps_ret keeps_bnd)

lemma fold_prog_inv:
  assumes "fold_prog f xs acc w = (Inr r, w')" and "P acc"
    and "\<And>x acc w r w'. x \<in> set xs \<Longrightarrow> P acc \<Longrightarrow> f x acc w = (Inr r, w') \<Longrightarrow> P r"
  shows "P r"
  using assms
proof (induction xs arbitrary: acc w)
  case Nil
  then show ?case by (simp add: ret_def)
next
  case (Cons x xs)
  from Cons.prems(1) obtain a w1 where "f x acc w = (Inr a, w1)" "fold_prog f xs a w1 = (Inr r, w')"
    by (auto elim: bnd_eq_InrE)
  with Cons show ?case by (metis list.set_intros)
qed

lemma keeps_case_option [prog_intros]:
  "keeps P m \<Longrightarrow> (\<And>x. keeps P (f x)) \<Longrightarrow> keeps P (case v of None \<Rightarrow> m | Some x \<Rightarrow> f x)"
  by (cases v) simp_all

lemma keeps_case_prod [prog_intros]:
  "(\<And>x y. keeps P (f x y)) \<Longrightarrow> keeps P (case v of (x, y) \<Rightarrow> f x y)"
  by (cases v) simp

subsection \<open>What a program gives\<close>

text \<open>Whatever the world: a value with \<open>Q\<close>, or an exception with \<open>E\<close>.\<close>

named_theorems gives_rules \<open>rules for what a program gives\<close>

definition gives :: "('a \<Rightarrow> bool) \<Rightarrow> (exn \<Rightarrow> bool) \<Rightarrow> ('w, 'a) prog \<Rightarrow> bool" where
  "gives Q E m = (\<forall>w. case m w of (Inl e, w') \<Rightarrow> E e | (Inr x, w') \<Rightarrow> Q x)"

lemma givesI: "(\<And>w x w'. m w = (Inr x, w') \<Longrightarrow> Q x) \<Longrightarrow> (\<And>w e w'. m w = (Inl e, w') \<Longrightarrow> E e) \<Longrightarrow> gives Q E m"
  unfolding gives_def by (metis (no_types, lifting) case_prod_conv old.sum.simps(5,6) prod.exhaust sum.exhaust)

lemma gives_Inr: "gives Q E m \<Longrightarrow> m w = (Inr x, w') \<Longrightarrow> Q x"
  unfolding gives_def by (drule spec [of _ w]) simp

lemma gives_Inl: "gives Q E m \<Longrightarrow> m w = (Inl e, w') \<Longrightarrow> E e"
  unfolding gives_def by (drule spec [of _ w]) simp

lemma gives_case: "gives Q E m \<Longrightarrow> case m w of (Inl e, w') \<Rightarrow> E e | (Inr x, w') \<Rightarrow> Q x"
  by (simp add: gives_def)

lemma gives_any: "gives (\<lambda>_. True) (\<lambda>_. True) m"
  by (simp add: gives_def split: prod.splits sum.splits)

lemma gives_weaken: "gives P F m \<Longrightarrow> (\<And>x. P x \<Longrightarrow> Q x) \<Longrightarrow> (\<And>e. F e \<Longrightarrow> E e) \<Longrightarrow> gives Q E m"
  by (rule givesI) (blast dest: gives_Inr gives_Inl)+

lemma gives_ret [gives_rules]: "Q x \<Longrightarrow> gives Q E (ret x)"
  by (simp add: gives_def ret_def)

lemma gives_raise [gives_rules]: "E e \<Longrightarrow> gives Q E (raise e)"
  by (simp add: gives_def raise_def)

lemma gives_gets [gives_rules]: "(\<And>w. Q (f w)) \<Longrightarrow> gives Q E (gets f)"
  by (simp add: gives_def gets_def)

lemma gives_modw [gives_rules]: "Q () \<Longrightarrow> gives Q E (modw f)"
  by (simp add: gives_def modw_def)

lemma gives_bnd:
  assumes "gives P E m" and "\<And>x. P x \<Longrightarrow> gives Q E (f x)"
  shows "gives Q E (bnd m f)"
proof (unfold gives_def, rule allI)
  fix w
  show "case bnd m f w of (Inl e, w') \<Rightarrow> E e | (Inr x, w') \<Rightarrow> Q x"
  proof (cases "m w")
    case (Pair r w')
    with assms show ?thesis
      by (cases r) (simp_all add: bnd_def gives_case gives_Inr [OF assms(1)] gives_Inl [OF assms(1)])
  qed
qed

lemma gives_thn: "gives (\<lambda>_. True) E m \<Longrightarrow> gives Q E k \<Longrightarrow> gives Q E (thn m k)"
  by (simp add: thn_def gives_bnd)

lemma gives_catch:
  assumes "gives Q F m" and "\<And>e. F e \<Longrightarrow> gives Q E (h e)"
  shows "gives Q E (catch m h)"
proof (unfold gives_def, rule allI)
  fix w
  show "case catch m h w of (Inl e, w') \<Rightarrow> E e | (Inr x, w') \<Rightarrow> Q x"
  proof (cases "m w")
    case (Pair r w')
    with assms show ?thesis
      by (cases r) (simp_all add: catch_def gives_case gives_Inr [OF assms(1)] gives_Inl [OF assms(1)])
  qed
qed

lemma gives_try_else:
  assumes "gives P F m" and "\<And>e. F e \<Longrightarrow> gives Q E (h e)" and "\<And>x. P x \<Longrightarrow> gives Q E (k x)"
  shows "gives Q E (try_else m h k)"
proof (unfold gives_def, rule allI)
  fix w
  show "case try_else m h k w of (Inl e, w') \<Rightarrow> E e | (Inr x, w') \<Rightarrow> Q x"
  proof (cases "m w")
    case (Pair r w')
    with assms show ?thesis
      by (cases r) (simp_all add: try_else_def gives_case gives_Inr [OF assms(1)] gives_Inl [OF assms(1)])
  qed
qed

lemma gives_fold_prog:
  assumes "I acc" and "\<And>x acc. x \<in> set xs \<Longrightarrow> I acc \<Longrightarrow> gives I E (f x acc)"
  shows "gives I E (fold_prog f xs acc)"
  using assms by (induction xs arbitrary: acc) (auto intro: gives_ret gives_bnd)

section \<open>Conversions of untyped values\<close>

text \<open>
  \<open>str(v)\<close>. The texts of floats, lists and dicts, which Python's \<open>repr\<close> makes, are left
  unspecified: nothing here depends on them.
\<close>

fun py_str :: "json \<Rightarrow> string" where
  "py_str (JStr s) = s"
| "py_str (JInt n) = int_text n"
| "py_str (JBool b) = (if b then ''True'' else ''False'')"
| "py_str JNull = ''None''"

text \<open>\<open>int(v)\<close>, \<open>float(v)\<close> and \<open>dict(v)\<close>; the dict made from a list of pairs is left unspecified.\<close>

definition int_error :: exn where
  "int_error = ValueError ''invalid literal for int()''"

definition float_error :: exn where
  "float_error = ValueError ''could not convert string to float''"

fun json_int :: "json \<Rightarrow> exn + int" where
  "json_int (JInt n) = Inr n"
| "json_int (JBool b) = Inr (if b then 1 else 0)"
| "json_int (JFloat r) = Inr (trunc r)"
| "json_int (JStr s) = (case read_int s of None \<Rightarrow> Inl int_error | Some n \<Rightarrow> Inr n)"
| "json_int _ = Inl (TypeError ''int() argument must be a string or a number'')"

fun json_float :: "json \<Rightarrow> exn + rat" where
  "json_float (JInt n) = Inr (of_int n)"
| "json_float (JBool b) = Inr (if b then 1 else 0)"
| "json_float (JFloat r) = Inr r"
| "json_float (JStr s) = (case read_float s of None \<Rightarrow> Inl float_error | Some r \<Rightarrow> Inr r)"
| "json_float _ = Inl (TypeError ''float() argument must be a string or a number'')"

fun json_dict :: "json \<Rightarrow> exn + dict" where
  "json_dict (JObj d) = Inr d"
| "json_dict (JStr s) = (if s = [] then Inr fmempty else Inl (ValueError ''dictionary update sequence''))"
| "json_dict (JArr []) = Inr fmempty"
| "json_dict JNull = Inl (TypeError ''object is not iterable'')"
| "json_dict (JBool b) = Inl (TypeError ''object is not iterable'')"
| "json_dict (JInt n) = Inl (TypeError ''object is not iterable'')"
| "json_dict (JFloat r) = Inl (TypeError ''object is not iterable'')"

definition lift :: "exn + 'a \<Rightarrow> ('w, 'a) prog" where
  "lift v = (case v of Inl e \<Rightarrow> raise e | Inr x \<Rightarrow> ret x)"

declare lift_def [prog_simps]

lemma keeps_lift [prog_intros]: "keeps P (lift v)"
  by (cases v) (simp_all add: lift_def keeps_ret keeps_raise)

lemma lift_Inr [simp]: "lift (Inr x) = ret x"
  by (simp add: lift_def)

text \<open>\<open>d[k]\<close>, and attribute access on a value that should be a dict.\<close>

definition dict_item :: "dict \<Rightarrow> string \<Rightarrow> ('w, json) prog" where
  "dict_item d k = of_option (KeyError k) (dget d k)"

definition as_dict :: "json \<Rightarrow> ('w, dict) prog" where
  "as_dict v = (case v of JObj d \<Rightarrow> ret d | _ \<Rightarrow> raise (AttributeError ''get''))"

definition subscript :: "json \<Rightarrow> string \<Rightarrow> ('w, json) prog" where
  "subscript v k = (case v of JObj d \<Rightarrow> dict_item d k | _ \<Rightarrow> raise (TypeError ''not subscriptable by a string''))"

lemma keeps_dict [prog_intros]: "keeps P (dict_item d k)" "keeps P (as_dict v)" "keeps P (subscript v k)"
  by (cases v; simp add: dict_item_def as_dict_def subscript_def keeps_of_option keeps_ret keeps_raise)+

section \<open>The world\<close>

type_synonym metric = "string \<times> (string \<times> string) list"

record log_entry =
  le_event :: string
  le_level :: string
  le_fields :: "(string \<times> json) list"

text \<open>
  The state the handlers run in. \<open>w_ticks\<close> gives the time that passes before each reading of the
  clock, \<open>w_rnd\<close> the samples of \<open>random.random()\<close> in \<open>[0, 1)\<close> and \<open>w_uuids\<close> the texts of the
  fresh identifiers: the environment's choices, which a theorem may constrain and a witness
  fixes. \<open>w_slept\<close> records the sleeps, in order.
\<close>

record 's world =
  w_redis :: 's
  w_now :: rat
  w_ticks :: "nat \<Rightarrow> rat"
  w_tick_no :: nat
  w_rnd :: "nat \<Rightarrow> rat"
  w_rnd_no :: nat
  w_uuids :: "nat \<Rightarrow> string"
  w_uuid_no :: nat
  w_counters :: "metric \<Rightarrow> rat"
  w_observed :: "metric \<Rightarrow> rat list"
  w_logs :: "log_entry list"
  w_slept :: "rat list"

definition py_time :: "(('s, 'z) world_scheme, rat) prog" where
  "py_time = (\<lambda>w. let t = w_now w + w_ticks w (w_tick_no w)
                  in (Inr t, w\<lparr>w_now := t, w_tick_no := Suc (w_tick_no w)\<rparr>))"

definition py_sleep :: "rat \<Rightarrow> (('s, 'z) world_scheme, unit) prog" where
  "py_sleep d = modw (\<lambda>w. w\<lparr>w_now := w_now w + d, w_slept := w_slept w @ [d]\<rparr>)"

definition py_random :: "(('s, 'z) world_scheme, rat) prog" where
  "py_random = (\<lambda>w. (Inr (w_rnd w (w_rnd_no w)), w\<lparr>w_rnd_no := Suc (w_rnd_no w)\<rparr>))"

text \<open>\<open>random.uniform(a, b)\<close> is \<open>a + (b - a) * random()\<close>.\<close>

definition py_uniform :: "rat \<Rightarrow> rat \<Rightarrow> (('s, 'z) world_scheme, rat) prog" where
  "py_uniform a b = bnd py_random (\<lambda>u. ret (a + (b - a) * u))"

definition py_uuid :: "(('s, 'z) world_scheme, string) prog" where
  "py_uuid = (\<lambda>w. (Inr (w_uuids w (w_uuid_no w)), w\<lparr>w_uuid_no := Suc (w_uuid_no w)\<rparr>))"

definition metric_add :: "string \<Rightarrow> (string \<times> string) list \<Rightarrow> rat \<Rightarrow> (('s, 'z) world_scheme, unit) prog" where
  "metric_add name labels d =
     modw (\<lambda>w. w\<lparr>w_counters := (w_counters w)((name, labels) := w_counters w (name, labels) + d)\<rparr>)"

definition metric_inc :: "string \<Rightarrow> (string \<times> string) list \<Rightarrow> (('s, 'z) world_scheme, unit) prog" where
  "metric_inc name labels = metric_add name labels 1"

definition metric_dec :: "string \<Rightarrow> (string \<times> string) list \<Rightarrow> (('s, 'z) world_scheme, unit) prog" where
  "metric_dec name labels = metric_add name labels (- 1)"

definition metric_set :: "string \<Rightarrow> (string \<times> string) list \<Rightarrow> rat \<Rightarrow> (('s, 'z) world_scheme, unit) prog" where
  "metric_set name labels v = modw (\<lambda>w. w\<lparr>w_counters := (w_counters w)((name, labels) := v)\<rparr>)"

definition metric_observe :: "string \<Rightarrow> (string \<times> string) list \<Rightarrow> rat \<Rightarrow> (('s, 'z) world_scheme, unit) prog" where
  "metric_observe name labels v =
     modw (\<lambda>w. w\<lparr>w_observed := (w_observed w)((name, labels) := w_observed w (name, labels) @ [v])\<rparr>)"

definition log_line :: "string \<Rightarrow> string \<Rightarrow> (string \<times> json) list \<Rightarrow> (('s, 'z) world_scheme, unit) prog" where
  "log_line event level fs =
     modw (\<lambda>w. w\<lparr>w_logs := w_logs w @ [\<lparr>le_event = event, le_level = level, le_fields = fs\<rparr>]\<rparr>)"

lemmas effect_defs = py_time_def py_sleep_def py_random_def py_uniform_def py_uuid_def
  metric_add_def metric_inc_def metric_dec_def metric_set_def metric_observe_def log_line_def

declare effect_defs [prog_simps] Let_def [prog_simps]

text \<open>A response of an HTTP handler: the status and the JSON body.\<close>

record response =
  rp_status :: int
  rp_body :: json

definition reply :: "int \<Rightarrow> (string \<times> json) list \<Rightarrow> response" where
  "reply st kvs = \<lparr>rp_status = st, rp_body = JObj (dict_of kvs)\<rparr>"

text \<open>The store is touched by no effect but the store's own calls.\<close>

definition store_is :: "'s \<Rightarrow> ('s, 'z) world_scheme \<Rightarrow> bool" where
  "store_is s w = (w_redis w = s)"

lemma keeps_store_effects [prog_intros]:
  "keeps (store_is s) py_time" "keeps (store_is s) (py_sleep d)" "keeps (store_is s) py_random"
  "keeps (store_is s) (py_uniform a b)" "keeps (store_is s) py_uuid"
  "keeps (store_is s) (metric_inc n l)" "keeps (store_is s) (metric_dec n l)"
  "keeps (store_is s) (metric_set n l v)" "keeps (store_is s) (metric_observe n l v)"
  "keeps (store_is s) (metric_add n l v)" "keeps (store_is s) (log_line e lv fs)"
  by (auto simp: keeps_def store_is_def prog_simps)

text \<open>A clock that never runs backwards.\<close>

definition mono_ticks :: "('s, 'z) world_scheme \<Rightarrow> bool" where
  "mono_ticks w = (\<forall>n. 0 \<le> w_ticks w n)"

text \<open>
  \<open>w'\<close> comes after \<open>w\<close>: the environment is the same, the clock has not gone back, and no identifier
  is taken twice.
\<close>

definition later :: "('s, 'z) world_scheme \<Rightarrow> ('s, 'z) world_scheme \<Rightarrow> bool" where
  "later w w' = (w_ticks w' = w_ticks w \<and> w_uuids w' = w_uuids w \<and> w_uuid_no w \<le> w_uuid_no w' \<and>
     world.more w' = world.more w \<and> (mono_ticks w \<longrightarrow> w_now w \<le> w_now w'))"

lemma later_refl [simp]: "later w w"
  by (simp add: later_def)

lemma later_trans [trans]: "later w1 w2 \<Longrightarrow> later w2 w3 \<Longrightarrow> later w1 w3"
  by (auto simp: later_def mono_ticks_def)

lemma laterD:
  "later w w' \<Longrightarrow> mono_ticks w \<Longrightarrow> mono_ticks w' \<and> w_now w \<le> w_now w'"
  by (simp add: later_def mono_ticks_def)

section \<open>Generic lemmas\<close>

lemma strip_Nil [simp]: "strip [] = []"
  by (simp add: strip_def)

lemma length_strip_le: "length (strip s) \<le> length s"
  by (metis (no_types) strip_def length_dropWhile_le length_rev le_trans)

lemma starts_with_prefix: "starts_with p s \<longleftrightarrow> prefix p s"
  by (induction p s rule: starts_with.induct) auto

lemma occurs_in_sublist: "occurs_in p s \<longleftrightarrow> sublist p s"
  by (induction s) (auto simp: starts_with_prefix sublist_Cons_right)

lemma replace_char_absent: "a \<noteq> b \<Longrightarrow> a \<notin> set (replace_char a b s)"
  by (auto simp: replace_char_def)

lemma replace_char_keeps: "c \<notin> set s \<Longrightarrow> c \<noteq> b \<Longrightarrow> c \<notin> set (replace_char a b s)"
  by (auto simp: replace_char_def)

lemma split_on_not_Nil [simp]: "split_on a s \<noteq> []"
  by (induction s) (auto split: list.splits)

lemma split_on_append: "split_on a (x @ a # y) = split_on a x @ split_on a y"
  by (induction x) (auto split: list.splits)

lemma split_on_id: "a \<notin> set s \<Longrightarrow> split_on a s = [s]"
  by (induction s) auto

lemma join_append: "xs \<noteq> [] \<Longrightarrow> ys \<noteq> [] \<Longrightarrow> join sep (xs @ ys) = join sep xs @ sep @ join sep ys"
proof (induction xs)
  case (Cons x xs)
  then show ?case by (cases xs; cases ys) auto
qed simp

lemma split_join:
  "ws \<noteq> [] \<Longrightarrow> \<forall>w \<in> set ws. a \<notin> set w \<Longrightarrow> split_on a (join [a] ws) = ws"
proof (induction ws)
  case (Cons w ws)
  then show ?case by (cases ws) (auto simp: split_on_id split_on_append)
qed simp

lemma join_split_on: "join [a] (split_on a s) = s"
proof (induction s)
  case Nil
  then show ?case by simp
next
  case (Cons c s)
  obtain w ws where w: "split_on a s = w # ws"
    using split_on_not_Nil [of a s] by (meson list.exhaust)
  with Cons show ?case by (cases ws) auto
qed

lemma dget_or_upd [simp]:
  "dget_or (fmupd k v d) k' x = (if k = k' then v else dget_or d k' x)"
  by (simp add: dget_or_def)

lemma dget_or_empty [simp]: "dget_or fmempty k x = x"
  by (simp add: dget_or_def)

lemma trunc_of_int [simp]: "trunc (of_int n) = n"
  by (simp add: trunc_def)

lemma last_field_eq:
  assumes "p @ [c] @ u = q @ [c] @ v" and "c \<notin> set u" and "c \<notin> set v"
  shows "u = v"
proof -
  have "takeWhile (\<lambda>x. x \<noteq> c) (rev u @ c # rev p) = rev u"
    and "takeWhile (\<lambda>x. x \<noteq> c) (rev v @ c # rev q) = rev v"
    using assms(2,3) by (simp_all add: takeWhile_append)
  moreover have "rev (p @ [c] @ u) = rev (q @ [c] @ v)" using assms(1) by (rule arg_cong)
  then have "rev u @ c # rev p = rev v @ c # rev q" by simp
  ultimately show ?thesis by (metis rev_rev_ident)
qed

text \<open>Fresh identifiers: pairwise different, and without a colon (hexadecimal digits).\<close>

definition fresh_uuids :: "('s, 'z) world_scheme \<Rightarrow> bool" where
  "fresh_uuids w = (inj (w_uuids w) \<and> (\<forall>n. CHR '':'' \<notin> set (w_uuids w n)))"

text \<open>The decimal text of an integer reads back as the integer.\<close>

lemma digit_char_val: "n < 10 \<Longrightarrow> digit_val (digit_char n) = Some n"
  by (simp add: digit_val_def digit_char_def)

definition is_digit :: "char \<Rightarrow> bool" where
  "is_digit c = (digit_val c \<noteq> None)"

lemma read_digits_value:
  assumes "list_all is_digit s" and "s \<noteq> []"
  shows "read_digits seen acc s = Some (foldl (\<lambda>a c. 10 * a + the (digit_val c)) acc s)"
  using assms
proof (induction s arbitrary: acc seen)
  case (Cons c s)
  then obtain d where "digit_val c = Some d" by (auto simp: is_digit_def)
  with Cons show ?case by (cases s) (auto simp: is_digit_def)
qed simp

lemma nat_text_digits: "list_all is_digit (nat_text n) \<and> nat_text n \<noteq> []"
proof (induction n rule: nat_text.induct)
  case (1 n)
  then show ?case
    using digit_char_val [of "n mod 10"] digit_char_val [of n]
    by (subst (1 2) nat_text.simps) (auto simp: is_digit_def [of "digit_char _"])
qed

lemma nat_text_value: "foldl (\<lambda>a c. 10 * a + the (digit_val c)) 0 (nat_text n) = n"
proof (induction n rule: nat_text.induct)
  case (1 n)
  then show ?case by (subst nat_text.simps) (auto simp: digit_char_val)
qed

lemma read_nat_text: "read_digits False 0 (nat_text n) = Some n"
  using nat_text_digits [of n] by (simp add: read_digits_value nat_text_value)

lemma digit_not_special:
  assumes "is_digit c"
  shows "\<not> is_ws c" and "c \<noteq> CHR ''-''" and "c \<noteq> CHR ''+''" and "c \<noteq> CHR '':''"
  using assms by (auto simp: is_digit_def digit_val_def is_ws_def Let_def split: if_splits)

lemma strip_id: "list_all (\<lambda>c. \<not> is_ws c) s \<Longrightarrow> strip s = s"
proof -
  assume a: "list_all (\<lambda>c. \<not> is_ws c) s"
  then have "dropWhile is_ws s = s" by (cases s) simp_all
  moreover from a have "dropWhile is_ws (rev s) = rev s"
    by (cases "rev s") (auto simp: list_all_iff dest: arg_cong [where f = set])
  ultimately show ?thesis by (simp add: strip_def)
qed

lemma read_int_text: "read_int (int_text n) = Some n"
proof -
  define m where "m = nat \<bar>n\<bar>"
  obtain c cs where c: "nat_text m = c # cs" "is_digit c" "list_all is_digit cs"
    using nat_text_digits [of m] by (cases "nat_text m") auto
  have ws: "list_all (\<lambda>c. \<not> is_ws c) (nat_text m)"
    using nat_text_digits [of m] digit_not_special(1) by (auto simp: list_all_iff)
  have "\<not> is_ws CHR ''-''" by (simp add: is_ws_def)
  then have "strip (int_text n) = int_text n"
    using ws by (intro strip_id) (cases "n < 0"; simp add: int_text_def m_def abs_if)
  moreover have "int_text n = (if n < 0 then CHR ''-'' # nat_text m else nat_text m)"
    by (simp add: int_text_def m_def)
  moreover have "int m = \<bar>n\<bar>" by (simp add: m_def)
  ultimately show ?thesis
    using read_nat_text [of m] digit_not_special [OF c(2)]
    by (simp add: read_int_def read_signed_def c(1))
qed

lemma inj_int_text: "inj int_text"
  by (rule inj_on_inverseI [where g = "\<lambda>s. the (read_int s)"]) (simp add: read_int_text)

lemma int_text_no_colon [simp]: "CHR '':'' \<notin> set (int_text n)"
proof -
  have "CHR '':'' \<notin> set (nat_text m)" for m
    using nat_text_digits [of m] digit_not_special(4) by (auto simp: list_all_iff)
  then show ?thesis by (simp add: int_text_def)
qed

end
