(* ===== verification/Redis_Store.thy ===== *)
theory Redis_Store
  imports Prelude
begin

text \<open>
  The store's interface. Redis is not part of the repository: its commands are a record of
  operations, a parameter \<open>R\<close> of every definition that calls the store. Each command gets the
  current time (keys expire) and the store's state, and answers or fails with a
  \<open>redis.RedisError\<close>. The locale \<open>redis_contract\<close> states what the components rely on, over
  abstraction functions that give the live text of a key and the members of a sorted set; it is
  interpreted on the repository's own in-memory double in the theory \<open>Fake_Redis\<close>.

  The text of a value is kept by what it was made from: plain text, the decimal text of a number
  (\<open>str(x)\<close>), or a serialised document (\<open>json.dumps\<close> with sorted keys, whose texts are equal
  exactly when the documents are).
\<close>

datatype rval = RText string | RNum rat | RDoc json

text \<open>Truth of the text: only the empty text is false.\<close>

definition rval_nonempty :: "rval \<Rightarrow> bool" where
  "rval_nonempty v = (v \<noteq> RText [])"

text \<open>\<open>json.loads\<close>: a document is read back; \<open>None\<close> stands for \<open>JSONDecodeError\<close>.\<close>

fun json_loads :: "rval \<Rightarrow> json option" where
  "json_loads (RDoc j) = Some j"
| "json_loads (RNum r) = Some (JFloat r)"
| "json_loads (RText s) = None"

text \<open>\<open>float(text)\<close>.\<close>

fun rval_float :: "rval \<Rightarrow> rat option" where
  "rval_float (RNum r) = Some r"
| "rval_float (RText s) = read_float s"
| "rval_float (RDoc j) = None"

text \<open>
  The commands, in the forms the source uses: \<open>r_set\<close> with an optional expiry and the \<open>nx\<close> flag,
  \<open>r_zremrangebyscore\<close> with the lower bound \<open>-inf\<close>, \<open>r_keys\<close> with a prefix pattern.
  \<open>r_lua_reply\<close> is the conversion of a Lua number in a script's reply and \<open>r_lua_text\<close> the number
  that the text of \<open>tostring\<close> reads back as.
\<close>

record 's redis_ops =
  r_ping :: "rat \<Rightarrow> 's \<Rightarrow> (redis_err + unit) \<times> 's"
  r_get :: "string \<Rightarrow> rat \<Rightarrow> 's \<Rightarrow> (redis_err + rval option) \<times> 's"
  r_setex :: "string \<Rightarrow> int \<Rightarrow> rval \<Rightarrow> rat \<Rightarrow> 's \<Rightarrow> (redis_err + unit) \<times> 's"
  r_set :: "string \<Rightarrow> rval \<Rightarrow> int option \<Rightarrow> bool \<Rightarrow> rat \<Rightarrow> 's \<Rightarrow> (redis_err + bool) \<times> 's"
  r_delete :: "string list \<Rightarrow> rat \<Rightarrow> 's \<Rightarrow> (redis_err + nat) \<times> 's"
  r_zadd :: "string \<Rightarrow> rat \<Rightarrow> string \<Rightarrow> rat \<Rightarrow> 's \<Rightarrow> (redis_err + unit) \<times> 's"
  r_zremrangebyscore :: "string \<Rightarrow> rat \<Rightarrow> rat \<Rightarrow> 's \<Rightarrow> (redis_err + nat) \<times> 's"
  r_zcard :: "string \<Rightarrow> rat \<Rightarrow> 's \<Rightarrow> (redis_err + nat) \<times> 's"
  r_incr :: "string \<Rightarrow> rat \<Rightarrow> 's \<Rightarrow> (redis_err + int) \<times> 's"
  r_expire :: "string \<Rightarrow> int \<Rightarrow> rat \<Rightarrow> 's \<Rightarrow> (redis_err + bool) \<times> 's"
  r_keys :: "string \<Rightarrow> rat \<Rightarrow> 's \<Rightarrow> (redis_err + string list) \<times> 's"
  r_lua_reply :: "rat \<Rightarrow> rat"
  r_lua_text :: "rat \<Rightarrow> rat"

text \<open>A call of one command from a handler.\<close>

definition redis_call ::
  "(rat \<Rightarrow> 's \<Rightarrow> (redis_err + 'a) \<times> 's) \<Rightarrow> (('s, 'z) world_scheme, 'a) prog" where
  "redis_call cmd = (\<lambda>w. case cmd (w_now w) (w_redis w) of
     (Inl e, s) \<Rightarrow> (Inl (RedisError e), w\<lparr>w_redis := s\<rparr>)
   | (Inr x, s) \<Rightarrow> (Inr x, w\<lparr>w_redis := s\<rparr>))"

text \<open>
  A Lua script runs on the server, at one moment and with no other command in between: it is a
  program over the store alone, given the time. \<open>lua_bnd\<close> sequences its \<open>redis.call\<close>s; an error of a
  command ends the script.
\<close>

type_synonym ('s, 'a) lua = "rat \<Rightarrow> 's \<Rightarrow> (redis_err + 'a) \<times> 's"

definition lua_ret :: "'a \<Rightarrow> ('s, 'a) lua" where
  "lua_ret x = (\<lambda>t s. (Inr x, s))"

definition lua_bnd :: "('s, 'a) lua \<Rightarrow> ('a \<Rightarrow> ('s, 'b) lua) \<Rightarrow> ('s, 'b) lua" where
  "lua_bnd m f = (\<lambda>t s. case m t s of (Inl e, s') \<Rightarrow> (Inl e, s') | (Inr x, s') \<Rightarrow> f x t s')"

definition lua_thn :: "('s, 'a) lua \<Rightarrow> ('s, 'b) lua \<Rightarrow> ('s, 'b) lua" where
  "lua_thn m k = lua_bnd m (\<lambda>_. k)"

definition lua_when :: "bool \<Rightarrow> ('s, unit) lua \<Rightarrow> ('s, unit) lua" where
  "lua_when b m = (if b then m else lua_ret ())"

lemmas lua_defs = lua_ret_def lua_bnd_def lua_thn_def lua_when_def

declare lua_defs [prog_simps] redis_call_def [prog_simps]

lemma lua_bnd_Inr:
  "lua_bnd m f t s = (Inr y, s') \<longleftrightarrow> (\<exists>x s1. m t s = (Inr x, s1) \<and> f x t s1 = (Inr y, s'))"
  by (auto simp: lua_bnd_def split: prod.splits sum.splits)

lemma lua_thn_Inr:
  "lua_thn m k t s = (Inr y, s') \<longleftrightarrow> (\<exists>x s1. m t s = (Inr x, s1) \<and> k t s1 = (Inr y, s'))"
  by (simp add: lua_thn_def lua_bnd_Inr)

lemma lua_when_Inr:
  "lua_when b m t s = (Inr u, s') \<longleftrightarrow> (if b then m t s = (Inr u, s') else s' = s)"
  by (auto simp: lua_when_def lua_ret_def)

lemma lua_ret_Inr: "lua_ret x t s = (Inr y, s') \<longleftrightarrow> y = x \<and> s' = s"
  by (auto simp: lua_ret_def)

lemmas lua_Inr = lua_bnd_Inr lua_thn_Inr lua_when_Inr lua_ret_Inr

section \<open>What the components rely on\<close>

text \<open>The members left after those with a score of at most \<open>hi\<close> are removed.\<close>

definition trim_map :: "rat \<Rightarrow> (string \<rightharpoonup> rat) \<Rightarrow> (string \<rightharpoonup> rat)" where
  "trim_map hi z = (\<lambda>m. case z m of None \<Rightarrow> None | Some sc \<Rightarrow> if sc \<le> hi then None else Some sc)"

lemma trim_map_Some: "trim_map hi z m = Some sc \<longleftrightarrow> z m = Some sc \<and> hi < sc"
  by (auto simp: trim_map_def split: option.splits if_splits)

lemma dom_trim_map: "dom (trim_map hi z) = {m. \<exists>sc. z m = Some sc \<and> hi < sc}"
  by (auto simp: trim_map_Some dom_def)

text \<open>
  \<open>kv s t k\<close>: the live text of \<open>k\<close> at time \<open>t\<close>; \<open>zs s t k\<close>: the members of the sorted set \<open>k\<close> with
  their scores; \<open>ct s t k\<close>: the value of the integer counter \<open>k\<close>; \<open>pk s k\<close>: \<open>k\<close> carries no expiry
  time. Each law is about a command that
  answered; after an error nothing is known of the keys it names. A command touches only its own
  keys.
\<close>

locale redis_contract =
  fixes R :: "'s redis_ops"
    and kv :: "'s \<Rightarrow> rat \<Rightarrow> string \<Rightarrow> rval option"
    and zs :: "'s \<Rightarrow> rat \<Rightarrow> string \<Rightarrow> string \<rightharpoonup> rat"
    and ct :: "'s \<Rightarrow> rat \<Rightarrow> string \<Rightarrow> int"
    and pk :: "'s \<Rightarrow> string \<Rightarrow> bool"
  assumes get_value: "r_get R k t s = (Inr ov, s') \<Longrightarrow> ov = kv s t k"
    and get_keeps: "r_get R k t s = (Inr ov, s') \<Longrightarrow> t \<le> t' \<Longrightarrow> kv s' t' k' = kv s t' k'"
    and get_zs: "r_get R k t s = (Inr ov, s') \<Longrightarrow> k' \<noteq> k \<Longrightarrow> zs s' t' k' = zs s t' k'"
    and get_pk: "r_get R k t s = (Inr ov, s') \<Longrightarrow> pk s k' \<Longrightarrow> pk s' k'"
    and setex_live: "r_setex R k d v t s = (Inr u, s') \<Longrightarrow> t \<le> t' \<Longrightarrow> t' < t + of_int d \<Longrightarrow>
          kv s' t' k = Some v"
    and setex_dead: "r_setex R k d v t s = (Inr u, s') \<Longrightarrow> t + of_int d < t' \<Longrightarrow> kv s' t' k = None"
    and setex_keeps: "r_setex R k d v t s = (Inr u, s') \<Longrightarrow> k' \<noteq> k \<Longrightarrow> kv s' t' k' = kv s t' k'"
    and setex_zs: "r_setex R k d v t s = (Inr u, s') \<Longrightarrow> k' \<noteq> k \<Longrightarrow> zs s' t' k' = zs s t' k'"
    and setex_pk: "r_setex R k d v t s = (Inr u, s') \<Longrightarrow> k' \<noteq> k \<Longrightarrow> pk s k' \<Longrightarrow> pk s' k'"
    and set_done: "r_set R k v ex nx t s = (Inr b, s') \<Longrightarrow> b = (\<not> nx \<or> kv s t k = None)"
    and set_live: "r_set R k v (Some d) nx t s = (Inr True, s') \<Longrightarrow> t \<le> t' \<Longrightarrow> t' < t + of_int d \<Longrightarrow>
          kv s' t' k = Some v"
    and set_dead: "r_set R k v (Some d) nx t s = (Inr True, s') \<Longrightarrow> t + of_int d < t' \<Longrightarrow>
          kv s' t' k = None"
    and set_plain: "r_set R k v None nx t s = (Inr True, s') \<Longrightarrow> pk s k \<Longrightarrow> t \<le> t' \<Longrightarrow>
          kv s' t' k = Some v"
    and set_plain_pk: "r_set R k v None nx t s = (Inr b, s') \<Longrightarrow> pk s k' \<Longrightarrow> pk s' k'"
    and set_refused: "r_set R k v ex nx t s = (Inr False, s') \<Longrightarrow> t \<le> t' \<Longrightarrow> kv s' t' k = kv s t' k"
    and set_keeps: "r_set R k v ex nx t s = (Inr b, s') \<Longrightarrow> k' \<noteq> k \<Longrightarrow> kv s' t' k' = kv s t' k'"
    and set_zs: "r_set R k v ex nx t s = (Inr b, s') \<Longrightarrow> k' \<noteq> k \<Longrightarrow> zs s' t' k' = zs s t' k'"
    and set_pk: "r_set R k v ex nx t s = (Inr b, s') \<Longrightarrow> k' \<noteq> k \<Longrightarrow> pk s k' \<Longrightarrow> pk s' k'"
    and delete_gone: "r_delete R ks t s = (Inr n, s') \<Longrightarrow> k \<in> set ks \<Longrightarrow> t \<le> t' \<Longrightarrow> kv s' t' k = None"
    and delete_zs_gone: "r_delete R ks t s = (Inr n, s') \<Longrightarrow> k \<in> set ks \<Longrightarrow> t \<le> t' \<Longrightarrow>
          zs s' t' k = Map.empty"
    and delete_keeps: "r_delete R ks t s = (Inr n, s') \<Longrightarrow> k \<notin> set ks \<Longrightarrow> kv s' t' k = kv s t' k"
    and delete_zs: "r_delete R ks t s = (Inr n, s') \<Longrightarrow> k \<notin> set ks \<Longrightarrow> zs s' t' k = zs s t' k"
    and delete_pk: "r_delete R ks t s = (Inr n, s') \<Longrightarrow> pk s k \<Longrightarrow> pk s' k"
    and delete_counted: "r_delete R [k] t s = (Inr n, s') \<Longrightarrow> kv s t k \<noteq> None \<Longrightarrow> n \<noteq> 0"
    and zadd_now: "r_zadd R k sc m t s = (Inr u, s') \<Longrightarrow> zs s' t k = (zs s t k)(m \<mapsto> sc)"
    and zadd_zs: "r_zadd R k sc m t s = (Inr u, s') \<Longrightarrow> k' \<noteq> k \<Longrightarrow> zs s' t' k' = zs s t' k'"
    and zadd_kv: "r_zadd R k sc m t s = (Inr u, s') \<Longrightarrow> k' \<noteq> k \<Longrightarrow> kv s' t' k' = kv s t' k'"
    and zadd_pk: "r_zadd R k sc m t s = (Inr u, s') \<Longrightarrow> k' \<noteq> k \<Longrightarrow> pk s k' \<Longrightarrow> pk s' k'"
    and zrem_now: "r_zremrangebyscore R k hi t s = (Inr n, s') \<Longrightarrow> t \<le> t' \<Longrightarrow>
          zs s' t' k = trim_map hi (zs s t' k)"
    and zrem_zs: "r_zremrangebyscore R k hi t s = (Inr n, s') \<Longrightarrow> k' \<noteq> k \<Longrightarrow> zs s' t' k' = zs s t' k'"
    and zrem_kv: "r_zremrangebyscore R k hi t s = (Inr n, s') \<Longrightarrow> k' \<noteq> k \<Longrightarrow> kv s' t' k' = kv s t' k'"
    and zrem_pk: "r_zremrangebyscore R k hi t s = (Inr n, s') \<Longrightarrow> k' \<noteq> k \<Longrightarrow> pk s k' \<Longrightarrow> pk s' k'"
    and zcard_count: "r_zcard R k t s = (Inr n, s') \<Longrightarrow> n = card (dom (zs s t k))"
    and zcard_zs: "r_zcard R k t s = (Inr n, s') \<Longrightarrow> t \<le> t' \<Longrightarrow> zs s' t' k' = zs s t' k'"
    and zcard_kv: "r_zcard R k t s = (Inr n, s') \<Longrightarrow> t \<le> t' \<Longrightarrow> kv s' t' k' = kv s t' k'"
    and zcard_pk: "r_zcard R k t s = (Inr n, s') \<Longrightarrow> pk s k' \<Longrightarrow> pk s' k'"
    and zs_finite: "finite (dom (zs s t k))"
    and incr_value: "r_incr R k t s = (Inr i, s') \<Longrightarrow> i = ct s t k + 1 \<and> ct s' t k = i"
    and incr_live: "r_incr R k t s = (Inr i, s') \<Longrightarrow> t \<le> t' \<Longrightarrow> ct s t' k \<noteq> 0 \<Longrightarrow> ct s' t' k = i"
    and incr_ct: "r_incr R k t s = (Inr i, s') \<Longrightarrow> k' \<noteq> k \<Longrightarrow> ct s' t' k' = ct s t' k'"
    and expire_zs: "r_expire R k d t s = (Inr b, s') \<Longrightarrow> t \<le> t' \<Longrightarrow> t' < t + of_int d \<Longrightarrow>
          zs s' t' k = zs s t k"
    and expire_zs_sub: "r_expire R k d t s = (Inr b, s') \<Longrightarrow> t \<le> t' \<Longrightarrow> zs s' t' k m = Some sc \<Longrightarrow>
          zs s t k m = Some sc"
    and expire_zs_keeps: "r_expire R k d t s = (Inr b, s') \<Longrightarrow> k' \<noteq> k \<Longrightarrow> zs s' t' k' = zs s t' k'"
    and expire_kv_keeps: "r_expire R k d t s = (Inr b, s') \<Longrightarrow> k' \<noteq> k \<Longrightarrow> kv s' t' k' = kv s t' k'"
    and expire_pk: "r_expire R k d t s = (Inr b, s') \<Longrightarrow> k' \<noteq> k \<Longrightarrow> pk s k' \<Longrightarrow> pk s' k'"
    and expire_ct: "r_expire R k d t s = (Inr b, s') \<Longrightarrow> ct s t k \<noteq> 0 \<Longrightarrow> t \<le> t' \<Longrightarrow>
          t' < t + of_int d \<Longrightarrow> ct s' t' k = ct s t k"
    and expire_ct_keeps: "r_expire R k d t s = (Inr b, s') \<Longrightarrow> k' \<noteq> k \<Longrightarrow> ct s' t' k' = ct s t' k'"
    and kv_shrinks: "t \<le> t' \<Longrightarrow> kv s t' k = kv s t k \<or> kv s t' k = None"
    and pk_stable: "pk s k \<Longrightarrow> kv s t k = kv s t' k"
    and keys_listed: "r_keys R p t s = (Inr ks, s') \<Longrightarrow>
          starts_with p k \<Longrightarrow> kv s t k \<noteq> None \<Longrightarrow> k \<in> set ks"
    and keys_prefix: "r_keys R p t s = (Inr ks, s') \<Longrightarrow> k \<in> set ks \<Longrightarrow> starts_with p k"
    and keys_keeps: "r_keys R p t s = (Inr ks, s') \<Longrightarrow> t \<le> t' \<Longrightarrow> kv s' t' k' = kv s t' k'"
    and keys_pk: "r_keys R p t s = (Inr ks, s') \<Longrightarrow> pk s k' \<Longrightarrow> pk s' k'"
    and keys_distinct: "r_keys R p t s = (Inr ks, s') \<Longrightarrow> distinct ks"

text \<open>
  A store that answers: while it is \<open>up\<close> every command succeeds and leaves it up. Numbers in a
  script's reply that are integers arrive unchanged.
\<close>

locale reliable_store = redis_contract R kv zs ct pk
  for R :: "'s redis_ops" and kv zs ct pk +
  fixes up :: "'s \<Rightarrow> bool"
  assumes up_ping: "up s \<Longrightarrow> \<exists>s'. r_ping R t s = (Inr (), s') \<and> up s'"
    and up_get: "up s \<Longrightarrow> \<exists>v s'. r_get R k t s = (Inr v, s') \<and> up s'"
    and up_setex: "up s \<Longrightarrow> \<exists>s'. r_setex R k d v t s = (Inr (), s') \<and> up s'"
    and up_set: "up s \<Longrightarrow> \<exists>b s'. r_set R k v ex nx t s = (Inr b, s') \<and> up s'"
    and up_delete: "up s \<Longrightarrow> \<exists>n s'. r_delete R ks t s = (Inr n, s') \<and> up s'"
    and up_zadd: "up s \<Longrightarrow> \<exists>s'. r_zadd R k sc m t s = (Inr (), s') \<and> up s'"
    and up_zrem: "up s \<Longrightarrow> \<exists>n s'. r_zremrangebyscore R k hi t s = (Inr n, s') \<and> up s'"
    and up_zcard: "up s \<Longrightarrow> \<exists>n s'. r_zcard R k t s = (Inr n, s') \<and> up s'"
    and up_incr: "up s \<Longrightarrow> \<exists>i s'. r_incr R k t s = (Inr i, s') \<and> up s'"
    and up_expire: "up s \<Longrightarrow> \<exists>b s'. r_expire R k d t s = (Inr b, s') \<and> up s'"
    and up_keys: "up s \<Longrightarrow> \<exists>ks s'. r_keys R p t s = (Inr ks, s') \<and> up s'"
    and lua_reply_int: "r_lua_reply R (of_int n) = of_int n"
begin

lemma get_answers: "up s \<Longrightarrow> \<exists>s'. r_get R k t s = (Inr (kv s t k), s') \<and> up s'"
  using up_get [of s k t] get_value [of k t s] by blast

lemma set_answers:
  "up s \<Longrightarrow> \<exists>s'. r_set R k v ex nx t s = (Inr (\<not> nx \<or> kv s t k = None), s') \<and> up s'"
  using up_set [of s k v ex nx t] set_done [of k v ex nx t s] by blast

text \<open>Programs that change no live text: \<open>w'\<close> comes after \<open>w\<close>, and from then on the same texts are live.\<close>

definition quiet :: "('s, 'z) world_scheme \<Rightarrow> ('s, 'z) world_scheme \<Rightarrow> bool" where
  "quiet w w' = (later w w' \<and> up (w_redis w') \<and>
     (\<forall>t k. w_now w' \<le> t \<longrightarrow> kv (w_redis w') t k = kv (w_redis w) t k) \<and>
     (\<forall>k. pk (w_redis w) k \<longrightarrow> pk (w_redis w') k))"

lemma quiet_refl: "up (w_redis w) \<Longrightarrow> quiet w w"
  by (simp add: quiet_def)

lemma quiet_trans: "quiet w1 w2 \<Longrightarrow> quiet w2 w3 \<Longrightarrow> mono_ticks w1 \<Longrightarrow> quiet w1 w3"
proof -
  assume q: "quiet w1 w2" "quiet w2 w3" and m: "mono_ticks w1"
  have "later w1 w2" "later w2 w3" using q by (simp_all add: quiet_def)
  moreover from this have "w_now w2 \<le> w_now w3" using laterD m by blast
  ultimately show "quiet w1 w3" using q later_trans by (fastforce simp: quiet_def)
qed

lemma quiet_same_store:
  "up (w_redis w) \<Longrightarrow> w_redis w' = w_redis w \<Longrightarrow> later w w' \<Longrightarrow> quiet w w'"
  by (simp add: quiet_def)

lemma quietD:
  assumes "quiet w w'"
  shows "later w w'" and "up (w_redis w')"
    and "w_now w' \<le> t \<Longrightarrow> kv (w_redis w') t k = kv (w_redis w) t k"
    and "pk (w_redis w) k \<Longrightarrow> pk (w_redis w') k"
  using assms by (simp_all add: quiet_def)

end

end
