(* ===== verification/Config.thy ===== *)
theory Config
  imports Prelude
begin

text \<open>
  \<open>app/config\<close>: the configuration read from the environment, one record per dataclass, and
  \<open>app/context.py\<close>: the flat attributes of \<open>AppRuntime\<close> that every handler reads (\<open>ctx\<close> in the
  source), and the request context with its deadline. A text that is not a number raises
  \<open>ValueError\<close>, as \<open>int()\<close> and \<open>float()\<close> do.
\<close>

type_synonym env = "string \<Rightarrow> string option"

definition getenv :: "env \<Rightarrow> string \<Rightarrow> string \<Rightarrow> string" where
  "getenv env name d = (case env name of None \<Rightarrow> d | Some v \<Rightarrow> v)"

definition py_int :: "string \<Rightarrow> ('w, int) prog" where
  "py_int s = of_option (ValueError ''invalid literal for int()'') (read_int s)"

definition py_float :: "string \<Rightarrow> ('w, rat) prog" where
  "py_float s = of_option (ValueError ''could not convert string to float'') (read_float s)"

definition env_flag :: "env \<Rightarrow> string \<Rightarrow> string \<Rightarrow> bool" where
  "env_flag env name d = (lower (strip (getenv env name d)) \<in> {''1'', ''true'', ''yes'', ''on''})"

section \<open>The configuration records\<close>

record redis_config =
  rc_host :: string
  rc_port :: int
  rc_decode_responses :: bool

record chaos_config =
  cc_enabled :: bool
  cc_fault_injection_enabled :: bool
  cc_default_ttl_sec :: int
  cc_max_latency_ms :: int
  cc_max_drop_rate :: rat

record rate_limit_config =
  rl_service_name :: string
  rl_resource :: string
  rl_dimension :: string
  rl_algorithm :: string
  rl_limit :: int
  rl_window_sec :: rat
  rl_lua_dir :: string

record breaker_config =
  bc_resource :: string
  bc_fail_threshold :: int
  bc_window_sec :: int
  bc_open_sec :: int
  bc_failure_rate_threshold :: rat
  bc_min_request_amount :: int
  bc_probe_ttl_sec :: int
  bc_key_open_until :: string
  bc_key_failures :: string
  bc_key_total_requests :: string
  bc_key_probe :: string

record retry_settings =
  rs_max_attempts :: int
  rs_base_delay_ms :: rat
  rs_max_delay_ms :: rat

record idempotency_config =
  ic_order_ttl_sec :: int
  ic_order_key_prefix :: string
  ic_ttl_sec :: int
  ic_pending_ttl_sec :: int
  ic_wait_timeout_ms :: int
  ic_wait_poll_ms :: int

record business_config =
  bz_timeout_ms :: int
  bz_inventory_busy_prob :: rat
  bz_resilience_enabled :: bool

record traffic_config =
  tc_enabled :: bool
  tc_record_file :: string
  tc_max_queue :: int

record app_config =
  ac_redis :: redis_config
  ac_chaos :: chaos_config
  ac_rate_limit :: rate_limit_config
  ac_breaker :: breaker_config
  ac_retry :: retry_settings
  ac_idempotency :: idempotency_config
  ac_business :: business_config
  ac_traffic :: traffic_config
  ac_log_json :: bool
  ac_app_env :: string
  ac_app_host :: string
  ac_app_port :: int

section \<open>Loading\<close>

definition load_redis_config :: "env \<Rightarrow> ('w, redis_config) prog" where
  "load_redis_config env =
     bnd (py_int (getenv env ''REDIS_PORT'' ''6379'')) (\<lambda>port.
     ret \<lparr>rc_host = getenv env ''REDIS_HOST'' ''localhost'', rc_port = port,
          rc_decode_responses = True\<rparr>)"

definition load_chaos_config :: "env \<Rightarrow> ('w, chaos_config) prog" where
  "load_chaos_config env =
     (let chaos_enabled = env_flag env ''CHAOS_ENABLED'' ''true'';
          fault_enabled = env_flag env ''ENABLE_FAULT_INJECTION'' ''true'' in
     bnd (py_int (getenv env ''FAULT_DEFAULT_TTL_SEC'' ''60'')) (\<lambda>ttl.
     bnd (py_int (getenv env ''FAULT_MAX_LATENCY_MS'' ''5000'')) (\<lambda>lat.
     bnd (py_float (getenv env ''FAULT_MAX_DROP_RATE'' ''1.0'')) (\<lambda>drop.
     ret \<lparr>cc_enabled = chaos_enabled, cc_fault_injection_enabled = (chaos_enabled \<and> fault_enabled),
          cc_default_ttl_sec = ttl, cc_max_latency_ms = lat, cc_max_drop_rate = drop\<rparr>))))"

definition load_rate_limit_config :: "env \<Rightarrow> string \<Rightarrow> ('w, rate_limit_config) prog" where
  "load_rate_limit_config env lua_dir =
     bnd (py_int (getenv env ''RATE_LIMIT_PER_SEC'' ''30'')) (\<lambda>limit.
     bnd (py_float (getenv env ''RATE_LIMIT_WINDOW_SEC'' ''1'')) (\<lambda>window.
     ret \<lparr>rl_service_name = or_default (strip (getenv env ''SERVICE_NAME'' ''chaos-demo'')) ''chaos-demo'',
          rl_resource = or_default (strip (getenv env ''RATE_LIMIT_RESOURCE'' ''order'')) ''order'',
          rl_dimension = or_default (strip (getenv env ''RATE_LIMIT_DIMENSION'' ''client_ip'')) ''client_ip'',
          rl_algorithm = lower (strip (getenv env ''RATE_LIMIT_ALGORITHM'' ''sliding'')),
          rl_limit = limit, rl_window_sec = window, rl_lua_dir = lua_dir\<rparr>))"

definition load_breaker_config :: "env \<Rightarrow> ('w, breaker_config) prog" where
  "load_breaker_config env =
     bnd (py_int (getenv env ''BREAKER_FAIL_THRESHOLD'' ''8'')) (\<lambda>fail.
     bnd (py_int (getenv env ''BREAKER_WINDOW_SEC'' ''10'')) (\<lambda>window.
     bnd (py_int (getenv env ''BREAKER_OPEN_SEC'' ''8'')) (\<lambda>opn.
     bnd (py_float (getenv env ''BREAKER_FAILURE_RATE_THRESHOLD'' ''0.5'')) (\<lambda>rate.
     bnd (py_int (getenv env ''MIN_REQUEST_AMOUNT'' ''100'')) (\<lambda>amount.
     bnd (py_int (getenv env ''CIRCUIT_PROBE_TTL_SEC'' ''30'')) (\<lambda>probe.
     ret \<lparr>bc_resource = or_default (strip (getenv env ''BREAKER_RESOURCE'' ''order'')) ''order'',
          bc_fail_threshold = fail, bc_window_sec = window, bc_open_sec = opn,
          bc_failure_rate_threshold = rate, bc_min_request_amount = amount,
          bc_probe_ttl_sec = probe, bc_key_open_until = ''cb:open_until'',
          bc_key_failures = ''cb:failures'', bc_key_total_requests = ''cb:total_requests'',
          bc_key_probe = ''cb:probe''\<rparr>))))))"

definition load_retry_config :: "env \<Rightarrow> ('w, retry_settings) prog" where
  "load_retry_config env =
     bnd (py_int (getenv env ''RETRY_MAX_ATTEMPTS'' ''3'')) (\<lambda>n.
     bnd (py_float (getenv env ''RETRY_BASE_DELAY_MS'' ''5'')) (\<lambda>base.
     bnd (py_float (getenv env ''RETRY_MAX_DELAY_MS'' ''50'')) (\<lambda>mx.
     ret \<lparr>rs_max_attempts = n, rs_base_delay_ms = base, rs_max_delay_ms = mx\<rparr>)))"

definition load_idempotency_config :: "env \<Rightarrow> ('w, idempotency_config) prog" where
  "load_idempotency_config env =
     bnd (py_int (getenv env ''ORDER_TTL_SEC'' ''604800'')) (\<lambda>ottl.
     bnd (py_int (getenv env ''IDEM_TTL_SEC'' ''300'')) (\<lambda>ttl.
     bnd (py_int (getenv env ''IDEM_PENDING_TTL_SEC'' ''15'')) (\<lambda>pend.
     bnd (py_int (getenv env ''IDEM_WAIT_TIMEOUT_MS'' ''120'')) (\<lambda>wait.
     bnd (py_int (getenv env ''IDEM_WAIT_POLL_MS'' ''10'')) (\<lambda>poll.
     ret \<lparr>ic_order_ttl_sec = ottl, ic_order_key_prefix = ''order:'', ic_ttl_sec = ttl,
          ic_pending_ttl_sec = pend, ic_wait_timeout_ms = wait, ic_wait_poll_ms = poll\<rparr>)))))"

definition load_business_config :: "env \<Rightarrow> ('w, business_config) prog" where
  "load_business_config env =
     bnd (py_int (getenv env ''BUSINESS_TIMEOUT_MS'' ''45'')) (\<lambda>timeout.
     bnd (py_float (getenv env ''INVENTORY_BUSY_PROB'' ''0.03'')) (\<lambda>prob.
     ret \<lparr>bz_timeout_ms = timeout, bz_inventory_busy_prob = prob,
          bz_resilience_enabled = (lower (strip (getenv env ''ENABLE_RESILIENCE'' ''true'')) = ''true'')\<rparr>))"

definition load_app_config :: "env \<Rightarrow> string \<Rightarrow> ('w, app_config) prog" where
  "load_app_config env project_root =
     (let lua_dir = getenv env ''RATE_LIMIT_LUA_DIR'' (project_root @ ''/lua'');
          traffic_enabled = (lower (strip (getenv env ''TRAFFIC_RECORD_ENABLED'' ''false'')) = ''true'') in
     bnd (load_redis_config env) (\<lambda>rds.
     bnd (load_chaos_config env) (\<lambda>chaos.
     bnd (load_rate_limit_config env lua_dir) (\<lambda>rl.
     bnd (load_breaker_config env) (\<lambda>br.
     bnd (load_retry_config env) (\<lambda>rt.
     bnd (load_idempotency_config env) (\<lambda>idem.
     bnd (load_business_config env) (\<lambda>biz.
     bnd (py_int (getenv env ''TRAFFIC_RECORD_MAX_QUEUE'' ''2000'')) (\<lambda>q.
     ret \<lparr>ac_redis = rds, ac_chaos = chaos, ac_rate_limit = rl, ac_breaker = br, ac_retry = rt,
          ac_idempotency = idem, ac_business = biz,
          ac_traffic = \<lparr>tc_enabled = traffic_enabled,
            tc_record_file = getenv env ''TRAFFIC_RECORD_FILE'' ''reports/traffic_record_latest.jsonl'',
            tc_max_queue = q\<rparr>,
          ac_log_json = (lower (strip (getenv env ''LOG_FORMAT'' ''json'')) = ''json''),
          ac_app_env = or_default (strip (getenv env ''APP_ENV'' ''dev'')) ''dev'',
          ac_app_host = ''0.0.0.0'', ac_app_port = 5000\<rparr>)))))))))"

section \<open>The runtime's attributes\<close>

record ctx =
  SERVICE_NAME :: string
  APP_ENV :: string
  RATE_LIMIT_RESOURCE :: string
  RATE_LIMIT_DIMENSION :: string
  RATE_LIMIT_ALGORITHM :: string
  RATE_LIMIT_PER_SEC :: int
  RATE_LIMIT_WINDOW_SEC :: rat
  RATE_LIMIT_LUA_DIR :: string
  BUSINESS_TIMEOUT_MS :: int
  ENABLE_RESILIENCE :: bool
  INVENTORY_BUSY_PROB :: rat
  BREAKER_RESOURCE :: string
  BREAKER_FAIL_THRESHOLD :: int
  BREAKER_WINDOW_SEC :: int
  BREAKER_OPEN_SEC :: int
  BREAKER_FAILURE_RATE_THRESHOLD :: rat
  MIN_REQUEST_AMOUNT :: int
  CIRCUIT_PROBE_TTL_SEC :: int
  CB_KEY_OPEN_UNTIL :: string
  CB_KEY_FAILURES :: string
  CB_KEY_TOTAL_REQUESTS :: string
  CB_KEY_PROBE :: string
  ORDER_TTL_SEC :: int
  ORDER_KEY_PREFIX :: string
  IDEM_TTL_SEC :: int
  IDEM_PENDING_TTL_SEC :: int
  IDEM_WAIT_TIMEOUT_MS :: int
  IDEM_WAIT_POLL_MS :: int
  RETRY_MAX_ATTEMPTS :: int
  RETRY_BASE_DELAY_MS :: rat
  RETRY_MAX_DELAY_MS :: rat
  CHAOS_ENABLED :: bool
  FAULT_INJECTION_ENABLED :: bool
  FAULT_DEFAULT_TTL_SEC :: int
  FAULT_MAX_LATENCY_MS :: int
  FAULT_MAX_DROP_RATE :: rat
  TRAFFIC_RECORD_ENABLED :: bool
  TRAFFIC_RECORD_FILE :: string
  TRAFFIC_RECORD_MAX_QUEUE :: int

definition sync_legacy_attributes :: "app_config \<Rightarrow> ctx" where
  "sync_legacy_attributes c =
    (let rl = ac_rate_limit c; bz = ac_business c; br = ac_breaker c; ic = ac_idempotency c;
         rs = ac_retry c; ch = ac_chaos c; tr = ac_traffic c in
     \<lparr>SERVICE_NAME = rl_service_name rl, APP_ENV = ac_app_env c,
      RATE_LIMIT_RESOURCE = rl_resource rl, RATE_LIMIT_DIMENSION = rl_dimension rl,
      RATE_LIMIT_ALGORITHM = rl_algorithm rl, RATE_LIMIT_PER_SEC = rl_limit rl,
      RATE_LIMIT_WINDOW_SEC = rl_window_sec rl, RATE_LIMIT_LUA_DIR = rl_lua_dir rl,
      BUSINESS_TIMEOUT_MS = bz_timeout_ms bz, ENABLE_RESILIENCE = bz_resilience_enabled bz,
      INVENTORY_BUSY_PROB = bz_inventory_busy_prob bz,
      BREAKER_RESOURCE = bc_resource br, BREAKER_FAIL_THRESHOLD = bc_fail_threshold br,
      BREAKER_WINDOW_SEC = bc_window_sec br, BREAKER_OPEN_SEC = bc_open_sec br,
      BREAKER_FAILURE_RATE_THRESHOLD = bc_failure_rate_threshold br,
      MIN_REQUEST_AMOUNT = bc_min_request_amount br, CIRCUIT_PROBE_TTL_SEC = bc_probe_ttl_sec br,
      CB_KEY_OPEN_UNTIL = bc_key_open_until br, CB_KEY_FAILURES = bc_key_failures br,
      CB_KEY_TOTAL_REQUESTS = bc_key_total_requests br, CB_KEY_PROBE = bc_key_probe br,
      ORDER_TTL_SEC = ic_order_ttl_sec ic, ORDER_KEY_PREFIX = ic_order_key_prefix ic,
      IDEM_TTL_SEC = ic_ttl_sec ic, IDEM_PENDING_TTL_SEC = ic_pending_ttl_sec ic,
      IDEM_WAIT_TIMEOUT_MS = ic_wait_timeout_ms ic, IDEM_WAIT_POLL_MS = ic_wait_poll_ms ic,
      RETRY_MAX_ATTEMPTS = rs_max_attempts rs, RETRY_BASE_DELAY_MS = rs_base_delay_ms rs,
      RETRY_MAX_DELAY_MS = rs_max_delay_ms rs,
      CHAOS_ENABLED = cc_enabled ch, FAULT_INJECTION_ENABLED = cc_fault_injection_enabled ch,
      FAULT_DEFAULT_TTL_SEC = cc_default_ttl_sec ch, FAULT_MAX_LATENCY_MS = cc_max_latency_ms ch,
      FAULT_MAX_DROP_RATE = cc_max_drop_rate ch,
      TRAFFIC_RECORD_ENABLED = tc_enabled tr, TRAFFIC_RECORD_FILE = tc_record_file tr,
      TRAFFIC_RECORD_MAX_QUEUE = tc_max_queue tr\<rparr>)"

text \<open>
  The request as the handlers see it: its method, path, client address and headers (looked up
  whatever their case), and the attributes the hooks put on it.
\<close>

record request =
  rq_method :: string
  rq_path :: string
  rq_remote_addr :: "string option"
  rq_headers :: "(string \<times> string) list"
  rq_start_time :: "rat option"

definition header :: "request \<Rightarrow> string \<Rightarrow> string option" where
  "header rq name = map_option snd (find (\<lambda>(k, v). lower k = lower name) (rq_headers rq))"

definition header_or :: "request \<Rightarrow> string \<Rightarrow> string \<Rightarrow> string" where
  "header_or rq name d = (case header rq name of None \<Rightarrow> d | Some v \<Rightarrow> v)"

record request_context =
  rx_request_id :: string
  rx_trace_id :: string
  rx_user_id :: "string option"
  rx_started_at :: rat
  rx_request :: request
  rx_deadline :: "rat option"

text \<open>
  \<open>getattr(request_obj, "_start_time", time.time())\<close>: the default is computed whether it is used
  or not, so the clock is read twice.
\<close>

definition build_request_context ::
  "ctx \<Rightarrow> request \<Rightarrow> string \<Rightarrow> string \<Rightarrow> string option \<Rightarrow> (('s, 'z) world_scheme, request_context) prog" where
  "build_request_context cx rq rid tid uid =
     bnd py_time (\<lambda>t1.
     bnd py_time (\<lambda>t2.
     (let start1 = (case rq_start_time rq of None \<Rightarrow> t1 | Some t \<Rightarrow> t);
          start2 = (case rq_start_time rq of None \<Rightarrow> t2 | Some t \<Rightarrow> t) in
      ret \<lparr>rx_request_id = rid, rx_trace_id = tid, rx_user_id = uid, rx_started_at = start2,
           rx_request = rq, rx_deadline = Some (start1 + of_int (BUSINESS_TIMEOUT_MS cx) / 1000)\<rparr>)))"

section \<open>Facts\<close>

lemma py_int_cases: "py_int s w = (Inl (ValueError ''invalid literal for int()''), w) \<or> (\<exists>n. py_int s w = (Inr n, w))"
  by (cases "read_int s") (simp_all add: py_int_def prog_simps)

lemma py_float_cases:
  "py_float s w = (Inl (ValueError ''could not convert string to float''), w) \<or> (\<exists>r. py_float s w = (Inr r, w))"
  by (cases "read_float s") (simp_all add: py_float_def prog_simps)

lemma load_chaos_config_fault_off:
  assumes "load_chaos_config env w = (Inr c, w')" and "\<not> cc_enabled c"
  shows "\<not> cc_fault_injection_enabled c"
  using assms by (auto simp: load_chaos_config_def Let_def elim!: bnd_eq_InrE) (auto simp: ret_def)

end
