(* ===== verification/Rate_Limiter.thy ===== *)
theory Rate_Limiter
  imports Redis_Store Config
begin

text \<open>
  \<open>chaos_service/rate_limiter.py\<close>, the two Lua scripts under \<open>lua/\<close> and the request filter of
  \<open>chaos_service/resilience/__init__.py\<close>: rules, the Redis backend with the fixed and the sliding
  window, the limiter that fails open, and the choice of the client identity.
\<close>

section \<open>Rules and decisions\<close>

record rate_limit_rule =
  rule_resource :: string
  rule_algorithm :: string
  rule_limit :: int
  rule_window :: rat
  rule_dimension :: string

text \<open>\<open>RateLimitRule.__post_init__\<close>.\<close>

definition rate_limit_rule_post_init :: "rate_limit_rule \<Rightarrow> ('w, rate_limit_rule) prog" where
  "rate_limit_rule_post_init r =
     (if rule_algorithm r \<notin> {''sliding'', ''fixed''} then raise (ValueError ''algorithm must be sliding|fixed'')
      else if rule_limit r < 0 then raise (ValueError ''limit must be >= 0'')
      else if rule_window r \<le> 0 then raise (ValueError ''window must be > 0'')
      else if rule_resource r = [] then raise (ValueError ''resource must not be empty'')
      else if rule_dimension r = [] then raise (ValueError ''dimension must not be empty'')
      else ret r)"

record rate_limit_decision =
  dec_allowed :: bool
  dec_key :: string
  dec_algorithm :: string
  dec_resource :: string
  dec_dimension :: string
  dec_backend_error :: bool

section \<open>The scripts\<close>

text \<open>\<open>LuaScriptManager.get\<close>: a script is read and registered once per file name.\<close>

definition script_manager_get ::
  "(string \<Rightarrow> 'script) \<Rightarrow> string \<Rightarrow> (string \<rightharpoonup> 'script) \<Rightarrow> 'script \<times> (string \<rightharpoonup> 'script)" where
  "script_manager_get register filename scripts =
     (case scripts filename of
        Some sc \<Rightarrow> (sc, scripts)
      | None \<Rightarrow> (let sc = register filename in (sc, scripts(filename \<mapsto> sc))))"

definition fixed_window_lua :: "'s redis_ops \<Rightarrow> string \<Rightarrow> int \<Rightarrow> ('s, int) lua" where
  "fixed_window_lua R key ttl =
     lua_bnd (r_incr R key) (\<lambda>current.
     lua_thn (lua_when (current = 1) (lua_thn (r_expire R key ttl) (lua_ret ())))
     (lua_ret current))"

definition sliding_window_lua ::
  "'s redis_ops \<Rightarrow> string \<Rightarrow> rat \<Rightarrow> rat \<Rightarrow> int \<Rightarrow> string \<Rightarrow> int \<Rightarrow> ('s, int) lua" where
  "sliding_window_lua R key time window limit member ttl =
     lua_thn (r_zremrangebyscore R key (time - window))
     (lua_bnd (r_zcard R key) (\<lambda>current.
      if int current \<ge> limit then lua_ret 0
      else lua_thn (r_zadd R key time member)
          (lua_thn (r_expire R key ttl)
           (lua_ret 1))))"

section \<open>The Redis backend\<close>

definition normalize_segment :: "string \<Rightarrow> string" where
  "normalize_segment value =
     (let text = strip value in
      if text = [] then ''unknown''
      else replace_char CHR '':'' CHR ''_'' (replace_char CHR ''/'' CHR ''_''
             (replace_char CHR '' '' CHR ''_'' text)))"

definition build_base_key :: "string \<Rightarrow> rate_limit_rule \<Rightarrow> string \<Rightarrow> string" where
  "build_base_key service rule subject =
     join '':'' [normalize_segment service, ''rate'', normalize_segment (rule_resource rule),
                normalize_segment (rule_dimension rule), normalize_segment subject]"

definition window_ttl :: "rate_limit_rule \<Rightarrow> int" where
  "window_ttl rule = max (\<lceil>rule_window rule\<rceil> + 1) 1"

definition decision :: "rate_limit_rule \<Rightarrow> bool \<Rightarrow> string \<Rightarrow> rate_limit_decision" where
  "decision rule ok key = \<lparr>dec_allowed = ok, dec_key = key, dec_algorithm = rule_algorithm rule,
     dec_resource = rule_resource rule, dec_dimension = rule_dimension rule, dec_backend_error = False\<rparr>"

definition allow_fixed ::
  "'s redis_ops \<Rightarrow> string \<Rightarrow> rate_limit_rule \<Rightarrow> string \<Rightarrow> (('s, 'z) world_scheme, rate_limit_decision) prog" where
  "allow_fixed R service rule subject =
     bnd py_time (\<lambda>t.
     (let bucket = \<lfloor>t / rule_window rule\<rfloor>;
          key = build_base_key service rule subject @ '':'' @ int_text bucket in
      bnd (redis_call (fixed_window_lua R key (window_ttl rule))) (\<lambda>current.
      ret (decision rule (current \<le> rule_limit rule) key))))"

definition allow_sliding ::
  "'s redis_ops \<Rightarrow> string \<Rightarrow> rate_limit_rule \<Rightarrow> string \<Rightarrow> (('s, 'z) world_scheme, rate_limit_decision) prog" where
  "allow_sliding R service rule subject =
     (let key = build_base_key service rule subject in
      bnd py_time (\<lambda>t.
      bnd py_uuid (\<lambda>u.
      (let member = fixed6 t @ '':'' @ u in
       bnd (redis_call (sliding_window_lua R key t (rule_window rule) (rule_limit rule) member (window_ttl rule)))
       (\<lambda>reply. ret (decision rule (reply \<noteq> 0) key))))))"

definition backend_allow ::
  "'s redis_ops \<Rightarrow> string \<Rightarrow> rate_limit_rule \<Rightarrow> string \<Rightarrow> (('s, 'z) world_scheme, rate_limit_decision) prog" where
  "backend_allow R service rule subject =
     (if rule_algorithm rule = ''fixed'' then allow_fixed R service rule subject
      else allow_sliding R service rule subject)"

section \<open>Metrics and the limiter\<close>

definition rule_labels :: "rate_limit_rule \<Rightarrow> (string \<times> string) list" where
  "rule_labels rule = [(''algorithm'', rule_algorithm rule), (''resource'', rule_resource rule),
     (''dimension'', rule_dimension rule)]"

definition record_allowed :: "rate_limit_rule \<Rightarrow> (('s, 'z) world_scheme, unit) prog" where
  "record_allowed rule = metric_inc ''RATE_LIMIT_ALLOWED_TOTAL'' (rule_labels rule)"

definition record_rejected :: "rate_limit_rule \<Rightarrow> (('s, 'z) world_scheme, unit) prog" where
  "record_rejected rule = metric_inc ''RATE_LIMIT_REJECTED_TOTAL'' (rule_labels rule)"

definition record_redis_error :: "rate_limit_rule \<Rightarrow> (('s, 'z) world_scheme, unit) prog" where
  "record_redis_error rule = metric_inc ''RATE_LIMIT_REDIS_ERROR_TOTAL'' (rule_labels rule)"

definition limiter_allow ::
  "'s redis_ops \<Rightarrow> string \<Rightarrow> rate_limit_rule \<Rightarrow> string \<Rightarrow> (('s, 'z) world_scheme, rate_limit_decision) prog" where
  "limiter_allow R service rule subject =
     try_else (backend_allow R service rule subject)
       (\<lambda>e. case e of
          RedisError _ \<Rightarrow>
            thn (record_redis_error rule)
            (ret \<lparr>dec_allowed = True, dec_key = [], dec_algorithm = rule_algorithm rule,
                  dec_resource = rule_resource rule, dec_dimension = rule_dimension rule,
                  dec_backend_error = True\<rparr>)
        | _ \<Rightarrow> raise e)
       (\<lambda>d. thn (if dec_allowed d then record_allowed rule else record_rejected rule) (ret d))"

definition build_default_rule :: "ctx \<Rightarrow> ('w, rate_limit_rule) prog" where
  "build_default_rule cx = rate_limit_rule_post_init
     \<lparr>rule_resource = RATE_LIMIT_RESOURCE cx,
      rule_algorithm = lower (strip (RATE_LIMIT_ALGORITHM cx)),
      rule_limit = RATE_LIMIT_PER_SEC cx, rule_window = RATE_LIMIT_WINDOW_SEC cx,
      rule_dimension = RATE_LIMIT_DIMENSION cx\<rparr>"

text \<open>
  \<open>build_redis_backend\<close>: the backend is kept on the context and made anew when its signature
  (the client's identity, the service name, the script directory) has changed.
\<close>

definition build_redis_backend ::
  "(nat \<times> string \<times> string \<Rightarrow> 'b) \<Rightarrow> nat \<times> string \<times> string \<Rightarrow>
   ((nat \<times> string \<times> string) \<times> 'b) option \<Rightarrow> 'b \<times> ((nat \<times> string \<times> string) \<times> 'b) option" where
  "build_redis_backend mk sig cached =
     (case cached of
        Some (sig', b) \<Rightarrow> if sig' = sig then (b, cached) else (mk sig, Some (sig, mk sig))
      | None \<Rightarrow> (mk sig, Some (sig, mk sig)))"

section \<open>The client's identity\<close>

definition trust_proxy_headers :: "env \<Rightarrow> bool" where
  "trust_proxy_headers env =
     (lower (strip (getenv env ''TRUST_PROXY_HEADERS'' [])) \<in> {''1'', ''true'', ''yes'', ''on''})"

definition trusted_hop_count :: "env \<Rightarrow> int" where
  "trusted_hop_count env =
     max 1 (case read_int (strip (getenv env ''XFF_TRUSTED_HOPS'' [])) of None \<Rightarrow> 1 | Some n \<Rightarrow> n)"

definition remote_of :: "request \<Rightarrow> string" where
  "remote_of rq = (case rq_remote_addr rq of None \<Rightarrow> ''unknown'' | Some a \<Rightarrow> or_default a ''unknown'')"

definition forwarded_hops :: "string \<Rightarrow> string list" where
  "forwarded_hops forwarded = filter (\<lambda>h. h \<noteq> []) (map strip (split_on CHR '','' forwarded))"

definition client_ip_from_request :: "env \<Rightarrow> request \<Rightarrow> string" where
  "client_ip_from_request env rq =
     (let remote = remote_of rq in
      if \<not> trust_proxy_headers env then remote
      else
        let hops = forwarded_hops (header_or rq ''X-Forwarded-For'' []) in
        if hops = [] then remote
        else
          let index = int (length hops) - trusted_hop_count env in
          if index < 0 then remote else or_default (hops ! nat index) remote)"

definition resolve_subject_id :: "env \<Rightarrow> request \<Rightarrow> string \<Rightarrow> string" where
  "resolve_subject_id env rq dimension =
     (if dimension = ''client_ip'' then client_ip_from_request env rq else remote_of rq)"

section \<open>The request filter\<close>

definition allow_request_by_rate_limit ::
  "'s redis_ops \<Rightarrow> ctx \<Rightarrow> string \<Rightarrow> (('s, 'z) world_scheme, bool) prog" where
  "allow_request_by_rate_limit R cx client_ip =
     bnd (build_default_rule cx) (\<lambda>rule.
     bnd (limiter_allow R (SERVICE_NAME cx) rule client_ip) (\<lambda>d.
     ret (dec_allowed d)))"

definition rate_limit_request ::
  "'s redis_ops \<Rightarrow> env \<Rightarrow> ctx \<Rightarrow> request \<Rightarrow> (('s, 'z) world_scheme, response option) prog" where
  "rate_limit_request R env cx rq =
     (if \<not> ENABLE_RESILIENCE cx then ret None
      else if rq_method rq \<noteq> ''POST'' \<or> rq_path rq \<noteq> ''/order'' then ret None
      else
        let subject = resolve_subject_id env rq (RATE_LIMIT_DIMENSION cx) in
        bnd (build_default_rule cx) (\<lambda>rule.
        bnd (limiter_allow R (SERVICE_NAME cx) rule subject) (\<lambda>d.
        if dec_allowed d then ret None
        else
          thn (metric_inc ''ORDER_RATE_LIMITED'' [])
          (thn (log_line ''rate_limited'' ''WARNING''
                 [(''component'', JStr ''rate_limiter''), (''operation'', JStr ''allow_request''),
                  (''result'', JStr ''rejected''), (''path'', JStr (rq_path rq)),
                  (''client_ip'', JStr subject), (''algorithm'', JStr (rule_algorithm rule)),
                  (''resource'', JStr (rule_resource rule)), (''dimension'', JStr (rule_dimension rule))])
           (ret (Some (reply 429 [(''error'', JStr ''rate limit exceeded'')])))))))"

section \<open>The sliding window never admits more than its limit\<close>

text \<open>How many of the times lie in the window that ends at \<open>T\<close>.\<close>

definition in_window :: "rat \<Rightarrow> rat \<Rightarrow> rat list \<Rightarrow> nat" where
  "in_window W T ts = length (filter (\<lambda>t. T - W < t \<and> t \<le> T) ts)"

lemma in_window_snoc:
  assumes le: "\<forall>x \<in> set ts. x \<le> t" and old: "\<forall>T. in_window W T ts \<le> n"
    and recent: "length (filter (\<lambda>x. t - W < x) ts) < n"
  shows "in_window W T (ts @ [t]) \<le> n"
proof (cases "T < t")
  case True
  then have "in_window W T (ts @ [t]) = in_window W T ts" by (simp add: in_window_def)
  with old show ?thesis by simp
next
  case False
  then have "in_window W T ts \<le> length (filter (\<lambda>x. t - W < x) ts)"
    unfolding in_window_def
    by (induction ts) (auto intro: le_SucI)
  with recent show ?thesis by (simp add: in_window_def)
qed

text \<open>A number of calls in a row; the answer lists the time of each call and whether it was admitted.\<close>

fun sliding_calls ::
  "'s redis_ops \<Rightarrow> string \<Rightarrow> rate_limit_rule \<Rightarrow> string \<Rightarrow> nat \<Rightarrow>
   (('s, 'z) world_scheme, (rat \<times> bool) list) prog" where
  "sliding_calls R service rule subject 0 = ret []"
| "sliding_calls R service rule subject (Suc n) =
     bnd (allow_sliding R service rule subject) (\<lambda>d.
     bnd (gets w_now) (\<lambda>t.
     bnd (sliding_calls R service rule subject n) (\<lambda>rest.
     ret ((t, dec_allowed d) # rest))))"

lemma ttl_exceeds_window: "rule_window rule < of_int (window_ttl rule)"
proof -
  have "rule_window rule \<le> of_int \<lceil>rule_window rule\<rceil>" by (rule le_of_int_ceiling)
  also have "\<dots> < of_int (\<lceil>rule_window rule\<rceil> + 1)" by simp
  also have "\<dots> \<le> of_int (window_ttl rule)"
    unfolding window_ttl_def of_int_le_iff by (rule max.cobounded1)
  finally show ?thesis .
qed

context redis_contract
begin

lemma sliding_script_refused:
  assumes "sliding_window_lua R key t W lmt m ttl t s = (Inr r, s')" and "r = 0"
  shows "lmt \<le> int (card (dom (trim_map (t - W) (zs s t key))))"
    and "t \<le> t' \<Longrightarrow> zs s' t' key = trim_map (t - W) (zs s t' key)"
proof -
  from assms obtain n1 s1 n where z: "r_zremrangebyscore R key (t - W) t s = (Inr n1, s1)"
    and c: "r_zcard R key t s1 = (Inr n, s')" and "lmt \<le> int n"
    by (auto simp: sliding_window_lua_def prog_simps split: prod.splits sum.splits if_splits)
  then show "lmt \<le> int (card (dom (trim_map (t - W) (zs s t key))))"
    using zcard_count [OF c] zrem_now [OF z, of t] by simp
  show "t \<le> t' \<Longrightarrow> zs s' t' key = trim_map (t - W) (zs s t' key)"
    using zrem_now [OF z, of t'] zcard_zs [OF c, of t'] by simp
qed

lemma sliding_script_admitted:
  assumes "sliding_window_lua R key t W lmt m ttl t s = (Inr r, s')" and "r \<noteq> 0"
  shows "int (card (dom (trim_map (t - W) (zs s t key)))) < lmt"
    and "t \<le> t' \<Longrightarrow> t' < t + of_int ttl \<Longrightarrow>
      zs s' t' key = (trim_map (t - W) (zs s t key))(m \<mapsto> t)"
proof -
  from assms obtain n1 s1 n s2 s3 b where z: "r_zremrangebyscore R key (t - W) t s = (Inr n1, s1)"
    and c: "r_zcard R key t s1 = (Inr n, s2)" and n: "int n < lmt"
    and a: "r_zadd R key t m t s2 = (Inr (), s3)" and e: "r_expire R key ttl t s3 = (Inr b, s')"
    by (auto simp: sliding_window_lua_def prog_simps split: prod.splits sum.splits if_splits)
  then show "int (card (dom (trim_map (t - W) (zs s t key)))) < lmt"
    using zcard_count [OF c] zrem_now [OF z, of t] by simp
  show "t \<le> t' \<Longrightarrow> t' < t + of_int ttl \<Longrightarrow>
      zs s' t' key = (trim_map (t - W) (zs s t key))(m \<mapsto> t)"
    using expire_zs [OF e, of t'] zadd_now [OF a] zcard_zs [OF c, of t] zrem_now [OF z, of t] by simp
qed

text \<open>
  What holds between two calls: the admitted requests \<open>H\<close> so far, whose members are still in the
  set as long as they are younger than the window.
\<close>

definition sliding_inv ::
  "string \<Rightarrow> rate_limit_rule \<Rightarrow> ('s, 'z) world_scheme \<Rightarrow> (rat \<times> string) list \<Rightarrow> bool" where
  "sliding_inv key rule w H =
     ((\<forall>(t, m) \<in> set H. t \<le> w_now w \<and>
         (\<forall>t' \<ge> w_now w. t' - rule_window rule < t \<longrightarrow> zs (w_redis w) t' key m = Some t)) \<and>
      distinct (map snd H) \<and>
      (\<forall>m \<in> snd ` set H. \<exists>i < w_uuid_no w. \<exists>p. m = p @ '':'' @ w_uuids w i) \<and>
      (\<forall>T. in_window (rule_window rule) T (map fst H) \<le> nat (rule_limit rule)))"

lemma recent_card:
  assumes inv: "sliding_inv key rule w H" and t: "w_now w \<le> t"
  shows "length (filter (\<lambda>x. t - rule_window rule < x) (map fst H))
    \<le> card (dom (trim_map (t - rule_window rule) (zs (w_redis w) t key)))"
proof -
  let ?W = "rule_window rule"
  let ?G = "filter (\<lambda>(x, m). t - ?W < x) H"
  have "distinct (map snd ?G)"
    using inv by (auto simp: sliding_inv_def intro: distinct_map_filter)
  then have "length ?G = card (snd ` set ?G)"
    by (metis distinct_card length_map set_map)
  also have "\<dots> \<le> card (dom (trim_map (t - ?W) (zs (w_redis w) t key)))"
  proof (rule card_mono)
    show "finite (dom (trim_map (t - ?W) (zs (w_redis w) t key)))"
      by (rule finite_subset [OF _ zs_finite [of "w_redis w" t key]]) (auto simp: dom_trim_map)
    show "snd ` set ?G \<subseteq> dom (trim_map (t - ?W) (zs (w_redis w) t key))"
    proof
      fix m assume "m \<in> snd ` set ?G"
      then obtain x where mem: "(x, m) \<in> set H" and x: "t - ?W < x" by auto
      from inv mem have "\<forall>t' \<ge> w_now w. t' - ?W < x \<longrightarrow> zs (w_redis w) t' key m = Some x"
        unfolding sliding_inv_def by blast
      with t x have "zs (w_redis w) t key m = Some x" by blast
      with x show "m \<in> dom (trim_map (t - ?W) (zs (w_redis w) t key))"
        by (auto simp: dom_trim_map)
    qed
  qed
  finally show ?thesis by (simp add: filter_map comp_def case_prod_unfold)
qed

lemma sliding_step:
  assumes run: "allow_sliding R service rule subject w = (Inr d, w')"
    and key: "key = build_base_key service rule subject"
    and inv: "sliding_inv key rule w H" and fresh: "fresh_uuids w" and mono: "mono_ticks w"
    and lim: "0 \<le> rule_limit rule"
  shows "\<exists>H'. sliding_inv key rule w' H' \<and>
    map fst H' = map fst H @ (if dec_allowed d then [w_now w'] else [])"
    and "fresh_uuids w'" and "mono_ticks w'"
proof -
  let ?W = "rule_window rule"
  define t where "t = w_now w + w_ticks w (w_tick_no w)"
  define m where "m = fixed6 t @ '':'' @ w_uuids w (w_uuid_no w)"
  from run obtain r s' where
    scr: "sliding_window_lua R key t ?W (rule_limit rule) m (window_ttl rule) t (w_redis w) = (Inr r, s')"
    and d: "dec_allowed d = (r \<noteq> 0)"
    and w': "w' = w\<lparr>w_now := t, w_tick_no := Suc (w_tick_no w), w_uuid_no := Suc (w_uuid_no w),
      w_redis := s'\<rparr>"
    by (auto simp: allow_sliding_def prog_simps decision_def key t_def m_def split: prod.splits sum.splits)
  show "fresh_uuids w'" using fresh by (simp add: fresh_uuids_def w')
  show "mono_ticks w'" using mono by (simp add: mono_ticks_def w')
  have now: "w_now w \<le> t" using mono by (simp add: t_def mono_ticks_def)
  show "\<exists>H'. sliding_inv key rule w' H' \<and>
    map fst H' = map fst H @ (if dec_allowed d then [w_now w'] else [])"
  proof (cases "r = 0")
    case True
    have "sliding_inv key rule w' H"
      using inv now sliding_script_refused(2) [OF scr True]
      by (fastforce simp: sliding_inv_def w' trim_map_Some less_Suc_eq)
    with True d show ?thesis by auto
  next
    case False
    note adm = sliding_script_admitted [OF scr False]
    let ?H = "H @ [(t, m)]"
    have new: "m \<notin> snd ` set H"
    proof
      assume "m \<in> snd ` set H"
      then obtain i p where "i < w_uuid_no w" and "m = p @ '':'' @ w_uuids w i"
        using inv by (auto simp: sliding_inv_def)
      moreover from this have "w_uuids w i = w_uuids w (w_uuid_no w)"
        using fresh last_field_eq [of p "CHR '':''" "w_uuids w i" "fixed6 t"]
        by (simp add: m_def fresh_uuids_def)
      ultimately show False using fresh by (auto simp: fresh_uuids_def inj_def)
    qed
    have live: "\<forall>(t0, m0) \<in> set ?H. t0 \<le> t \<and>
         (\<forall>t' \<ge> t. t' - ?W < t0 \<longrightarrow> zs s' t' key m0 = Some t0)"
    proof (clarify, intro conjI allI impI)
      fix t0 m0 assume mem: "(t0, m0) \<in> set ?H"
      show le: "t0 \<le> t" using mem inv now by (auto simp: sliding_inv_def)
      fix t' assume t': "t \<le> t'" "t' - ?W < t0"
      then have ttl: "t' < t + of_int (window_ttl rule)"
        using le ttl_exceeds_window [of rule] by linarith
      show "zs s' t' key m0 = Some t0"
      proof (cases "(t0, m0) \<in> set H")
        case True
        then have "m0 \<noteq> m" using new by force
        moreover from True have "zs (w_redis w) t key m0 = Some t0"
          using inv now t' by (auto simp: sliding_inv_def)
        ultimately show ?thesis
          using adm(2) [OF t'(1) ttl] t' by (auto simp: trim_map_Some)
      next
        case False
        with mem show ?thesis using adm(2) [OF t'(1) ttl] by simp
      qed
    qed
    have few: "length (filter (\<lambda>x. t - ?W < x) (map fst H)) < nat (rule_limit rule)"
      using recent_card [OF inv now] adm(1) by linarith
    have "\<forall>T. in_window ?W T (map fst ?H) \<le> nat (rule_limit rule)"
      using in_window_snoc [OF _ _ few] inv now by (fastforce simp: sliding_inv_def)
    moreover have "\<forall>m' \<in> snd ` set ?H. \<exists>i < Suc (w_uuid_no w). \<exists>p. m' = p @ '':'' @ w_uuids w i"
      using inv by (fastforce simp: sliding_inv_def m_def less_Suc_eq)
    ultimately have "sliding_inv key rule w' ?H"
      using live inv new by (auto simp: sliding_inv_def w')
    then show ?thesis using False d by (intro exI [of _ ?H]) (simp add: w')
  qed
qed

lemma sliding_inv_Nil: "sliding_inv key rule w []"
  by (simp add: sliding_inv_def in_window_def)

lemma sliding_calls_inv:
  assumes "sliding_calls R service rule subject n w = (Inr outs, w')"
    and "sliding_inv (build_base_key service rule subject) rule w H" and "fresh_uuids w"
    and "mono_ticks w" and "0 \<le> rule_limit rule"
  shows "in_window (rule_window rule) T (map fst H @ map fst (filter snd outs)) \<le> nat (rule_limit rule)"
  using assms
proof (induction n arbitrary: w H outs)
  case 0
  then show ?case by (simp add: sliding_inv_def ret_def)
next
  case (Suc n)
  from Suc.prems(1) obtain d w1 rest
    where one: "allow_sliding R service rule subject w = (Inr d, w1)"
      and rest: "sliding_calls R service rule subject n w1 = (Inr rest, w')"
      and outs: "outs = (w_now w1, dec_allowed d) # rest"
    by (auto simp: prog_simps split: prod.splits sum.splits)
  from sliding_step [OF one refl Suc.prems(2-5)] obtain H' where
    "sliding_inv (build_base_key service rule subject) rule w1 H'" and
    H': "map fst H' = map fst H @ (if dec_allowed d then [w_now w1] else [])" and
    "fresh_uuids w1" "mono_ticks w1" by blast
  from Suc.IH [OF rest this(1,3,4) Suc.prems(5)] show ?case
    by (cases "dec_allowed d") (simp_all add: H' outs)
qed

end

section \<open>The fixed window admits exactly the first requests of each bucket\<close>

fun fixed_calls ::
  "'s redis_ops \<Rightarrow> string \<Rightarrow> rate_limit_rule \<Rightarrow> string \<Rightarrow> nat \<Rightarrow>
   (('s, 'z) world_scheme, (int \<times> bool) list) prog" where
  "fixed_calls R service rule subject 0 = ret []"
| "fixed_calls R service rule subject (Suc n) =
     bnd (allow_fixed R service rule subject) (\<lambda>d.
     bnd (gets w_now) (\<lambda>t.
     bnd (fixed_calls R service rule subject n) (\<lambda>rest.
     ret ((\<lfloor>t / rule_window rule\<rfloor>, dec_allowed d) # rest))))"

text \<open>Which calls are admitted, when \<open>H\<close> lists the buckets of the calls before.\<close>

fun first_ones :: "nat \<Rightarrow> int list \<Rightarrow> (int \<times> bool) list \<Rightarrow> bool" where
  "first_ones n H [] = True"
| "first_ones n H ((b, ok) # outs) = (ok = (count_list H b < n) \<and> first_ones n (H @ [b]) outs)"

definition bucket_key :: "string \<Rightarrow> rate_limit_rule \<Rightarrow> string \<Rightarrow> int \<Rightarrow> string" where
  "bucket_key service rule subject b = build_base_key service rule subject @ '':'' @ int_text b"

lemma bucket_key_eq [simp]:
  "bucket_key service rule subject b = bucket_key service rule subject c \<longleftrightarrow> b = c"
  by (auto simp: bucket_key_def dest: injD [OF inj_int_text])

lemma bucket_end:
  fixes t :: rat
  assumes "0 < W" and "\<lfloor>t / W\<rfloor> = \<lfloor>t' / W\<rfloor>"
  shows "t' < t + W"
proof -
  have "t' / W < of_int \<lfloor>t' / W\<rfloor> + 1" by linarith
  also have "of_int \<lfloor>t' / W\<rfloor> \<le> t / W" using assms(2) by (metis of_int_floor_le)
  finally have "t' / W < (t + W) / W" using assms(1) by (simp add: add_divide_distrib)
  with assms(1) show ?thesis by (simp add: divide_less_cancel)
qed

context redis_contract
begin

lemma fixed_script:
  assumes "fixed_window_lua R key ttl t s = (Inr i, s')"
  shows "i = ct s t key + 1" and "k' \<noteq> key \<Longrightarrow> ct s' t' k' = ct s t' k'"
    and "ct s t key = 0 \<Longrightarrow> t \<le> t' \<Longrightarrow> t' < t + of_int ttl \<Longrightarrow> ct s' t' key = 1"
    and "ct s t key \<noteq> 0 \<Longrightarrow> t \<le> t' \<Longrightarrow> ct s t' key \<noteq> 0 \<Longrightarrow> ct s' t' key = i"
proof -
  from assms obtain s1 where inc: "r_incr R key t s = (Inr i, s1)"
    and rest: "if i = 1 then \<exists>b. r_expire R key ttl t s1 = (Inr b, s') else s' = s1"
    by (auto simp: fixed_window_lua_def prog_simps split: prod.splits sum.splits if_splits)
  show i: "i = ct s t key + 1" using incr_value [OF inc] by simp
  show "k' \<noteq> key \<Longrightarrow> ct s' t' k' = ct s t' k'"
    using rest incr_ct [OF inc] expire_ct_keeps by (metis (full_types))
  show "ct s t key = 0 \<Longrightarrow> t \<le> t' \<Longrightarrow> t' < t + of_int ttl \<Longrightarrow> ct s' t' key = 1"
    using rest incr_value [OF inc] expire_ct [of key ttl t s1 _ s' t'] by (auto split: if_splits)
  show "ct s t key \<noteq> 0 \<Longrightarrow> t \<le> t' \<Longrightarrow> ct s t' key \<noteq> 0 \<Longrightarrow> ct s' t' key = i"
    using rest i incr_live [OF inc] by auto
qed

definition fixed_inv ::
  "string \<Rightarrow> rate_limit_rule \<Rightarrow> string \<Rightarrow> ('s, 'z) world_scheme \<Rightarrow> int list \<Rightarrow> bool" where
  "fixed_inv service rule subject w H =
     (\<forall>b. (count_list H b = 0 \<longrightarrow> (\<forall>t'. ct (w_redis w) t' (bucket_key service rule subject b) = 0)) \<and>
          (count_list H b \<noteq> 0 \<longrightarrow> (\<forall>t' \<ge> w_now w. \<lfloor>t' / rule_window rule\<rfloor> = b \<longrightarrow>
             ct (w_redis w) t' (bucket_key service rule subject b) = int (count_list H b))))"

lemma fixed_step:
  assumes run: "allow_fixed R service rule subject w = (Inr d, w')"
    and inv: "fixed_inv service rule subject w H" and mono: "mono_ticks w"
    and win: "0 < rule_window rule" and b: "b = \<lfloor>w_now w' / rule_window rule\<rfloor>"
  shows "dec_allowed d = (int (count_list H b) < rule_limit rule)"
    and "fixed_inv service rule subject w' (H @ [b])" and "mono_ticks w'"
proof -
  let ?W = "rule_window rule" and ?key = "bucket_key service rule subject"
  define t where "t = w_now w + w_ticks w (w_tick_no w)"
  from run obtain i s' where
    scr: "fixed_window_lua R (?key \<lfloor>t / ?W\<rfloor>) (window_ttl rule) t (w_redis w) = (Inr i, s')"
    and d: "dec_allowed d = (i \<le> rule_limit rule)"
    and w': "w' = w\<lparr>w_now := t, w_tick_no := Suc (w_tick_no w), w_redis := s'\<rparr>"
    by (auto simp: allow_fixed_def prog_simps decision_def t_def bucket_key_def split: prod.splits sum.splits)
  have bt: "\<lfloor>t / ?W\<rfloor> = b" by (simp add: b w')
  note scr = scr [unfolded bt]
  show "mono_ticks w'" using mono by (simp add: mono_ticks_def w')
  have now: "w_now w \<le> t" using mono by (simp add: t_def mono_ticks_def)
  have old: "ct (w_redis w) t (?key b) = int (count_list H b)"
    using inv now bt by (cases "count_list H b = 0") (auto simp: fixed_inv_def)
  show "dec_allowed d = (int (count_list H b) < rule_limit rule)"
    using d fixed_script(1) [OF scr] old by auto
  have upd: "ct s' t' (?key b) = int (count_list H b) + 1" if "t \<le> t'" and "\<lfloor>t' / ?W\<rfloor> = b" for t'
  proof (cases "count_list H b = 0")
    case True
    have "t' < t + of_int (window_ttl rule)"
      using bucket_end [OF win, of t t'] that bt ttl_exceeds_window [of rule] by linarith
    then show ?thesis using fixed_script(3) [OF scr _ that(1)] old True by simp
  next
    case False
    then have "ct (w_redis w) t' (?key b) \<noteq> 0" using inv that now by (auto simp: fixed_inv_def)
    then show ?thesis using fixed_script(1,4) [OF scr] old False that(1) by simp
  qed
  show "fixed_inv service rule subject w' (H @ [b])"
    unfolding fixed_inv_def
  proof (intro allI conjI impI)
    fix c t' assume "count_list (H @ [b]) c = 0"
    then have "c \<noteq> b" "count_list H c = 0" by (auto split: if_splits)
    then show "ct (w_redis w') t' (?key c) = 0"
      using fixed_script(2) [OF scr, of "?key c" t'] inv by (simp add: w' fixed_inv_def)
  next
    fix c t' assume c: "count_list (H @ [b]) c \<noteq> 0" and t': "w_now w' \<le> t'" "\<lfloor>t' / ?W\<rfloor> = c"
    show "ct (w_redis w') t' (?key c) = int (count_list (H @ [b]) c)"
    proof (cases "c = b")
      case True
      with upd t' show ?thesis by (simp add: w')
    next
      case False
      then show ?thesis
        using c t' now fixed_script(2) [OF scr, of "?key c" t'] inv by (auto simp: w' fixed_inv_def)
    qed
  qed
qed

lemma fixed_inv_Nil:
  "\<forall>t b. ct (w_redis w) t (bucket_key service rule subject b) = 0 \<Longrightarrow>
   fixed_inv service rule subject w []"
  by (simp add: fixed_inv_def)

lemma fixed_calls_first:
  assumes "fixed_calls R service rule subject n w = (Inr outs, w')"
    and "fixed_inv service rule subject w H" and "mono_ticks w"
    and "0 < rule_window rule" and "0 \<le> rule_limit rule"
  shows "first_ones (nat (rule_limit rule)) H outs"
  using assms
proof (induction n arbitrary: w H outs)
  case 0
  then show ?case by (simp add: ret_def)
next
  case (Suc n)
  from Suc.prems(1) obtain d w1 rest
    where one: "allow_fixed R service rule subject w = (Inr d, w1)"
      and rest: "fixed_calls R service rule subject n w1 = (Inr rest, w')"
      and outs: "outs = (\<lfloor>w_now w1 / rule_window rule\<rfloor>, dec_allowed d) # rest"
    by (auto simp: prog_simps split: prod.splits sum.splits)
  note step = fixed_step [OF one Suc.prems(2,3,4) refl]
  from Suc.IH [OF rest step(2,3) Suc.prems(4,5)] step(1) Suc.prems(5) show ?case
    by (auto simp: outs)
qed

end

section \<open>Keys and identities\<close>

lemma normalize_segment_clean:
  "set (normalize_segment v) \<inter> {CHR '':'', CHR ''/'', CHR '' ''} = {}" and
  normalize_segment_nonempty: "normalize_segment v \<noteq> []"
proof -
  have ne: "(CHR '':'') \<noteq> CHR ''_''" "(CHR ''/'') \<noteq> CHR ''_''" "(CHR '' '') \<noteq> CHR ''_''" by simp_all
  show "set (normalize_segment v) \<inter> {CHR '':'', CHR ''/'', CHR '' ''} = {}"
    by (auto simp: normalize_segment_def Let_def replace_char_def split: if_splits)
  show "normalize_segment v \<noteq> []"
    by (simp add: normalize_segment_def Let_def replace_char_def)
qed

lemma normalize_segment_no_colon [simp]: "CHR '':'' \<notin> set (normalize_segment v)"
  using normalize_segment_clean [of v] by blast

lemma base_key_split:
  "split_on CHR '':'' (build_base_key service rule subject) =
     [normalize_segment service, ''rate'', normalize_segment (rule_resource rule),
      normalize_segment (rule_dimension rule), normalize_segment subject]"
  unfolding build_base_key_def by (rule split_join) auto

lemma forwarded_hops_append:
  "forwarded_hops (x @ '','' @ y) = forwarded_hops x @ forwarded_hops y"
  by (simp add: forwarded_hops_def split_on_append)

lemma trusted_hop_count_pos: "1 \<le> trusted_hop_count env"
  by (simp add: trusted_hop_count_def)

lemma build_default_rule_valid:
  assumes "build_default_rule cx w = (Inr rule, w')"
  shows "0 \<le> rule_limit rule" and "0 < rule_window rule" and "w' = w"
  using assms
  by (auto simp: build_default_rule_def rate_limit_rule_post_init_def prog_simps split: if_splits)

end
