(* ===== verification/Fake_Redis.thy ===== *)
theory Fake_Redis
  imports Redis_Store
begin

text \<open>
  \<open>FakeRedis\<close> of \<open>tests/conftest.py\<close>: the store double every test of the repository runs on, with
  its dictionaries of texts, counters and sorted sets, its expiry times and its \<open>broken\<close> flag, and
  the interpretation of \<open>redis_contract\<close> on it. The clock it reads is the time given to the call.
\<close>

record fake =
  f_store :: "(string, rval) fmap"
  f_counters :: "(string, int) fmap"
  f_zsets :: "(string, (string, rat) fmap) fmap"
  f_expiry :: "(string, rat) fmap"
  f_broken :: bool

definition fake_empty :: fake where
  "fake_empty = \<lparr>f_store = fmempty, f_counters = fmempty, f_zsets = fmempty,
     f_expiry = fmempty, f_broken = False\<rparr>"

definition is_expired :: "rat \<Rightarrow> fake \<Rightarrow> string \<Rightarrow> bool" where
  "is_expired t s k = (case fmlookup (f_expiry s) k of None \<Rightarrow> False | Some e \<Rightarrow> e < t)"

definition cleanup_if_expired :: "rat \<Rightarrow> string \<Rightarrow> fake \<Rightarrow> fake" where
  "cleanup_if_expired t k s =
     (if is_expired t s k
      then s\<lparr>f_store := fmdrop k (f_store s), f_counters := fmdrop k (f_counters s),
             f_zsets := fmdrop k (f_zsets s), f_expiry := fmdrop k (f_expiry s)\<rparr>
      else s)"

definition ensure_available :: "fake \<Rightarrow> (redis_err + 'a) \<times> fake \<Rightarrow> (redis_err + 'a) \<times> fake" where
  "ensure_available s r = (if f_broken s then (Inl RConnection, s) else r)"

definition fake_ping :: "rat \<Rightarrow> fake \<Rightarrow> (redis_err + unit) \<times> fake" where
  "fake_ping t s = ensure_available s (Inr (), s)"

definition fake_get :: "string \<Rightarrow> rat \<Rightarrow> fake \<Rightarrow> (redis_err + rval option) \<times> fake" where
  "fake_get k t s = ensure_available s
     (let s' = cleanup_if_expired t k s in (Inr (fmlookup (f_store s') k), s'))"

definition fake_setex :: "string \<Rightarrow> int \<Rightarrow> rval \<Rightarrow> rat \<Rightarrow> fake \<Rightarrow> (redis_err + unit) \<times> fake" where
  "fake_setex k d v t s = ensure_available s
     (Inr (), s\<lparr>f_store := fmupd k v (f_store s), f_expiry := fmupd k (t + of_int d) (f_expiry s)\<rparr>)"

definition fake_set ::
  "string \<Rightarrow> rval \<Rightarrow> int option \<Rightarrow> bool \<Rightarrow> rat \<Rightarrow> fake \<Rightarrow> (redis_err + bool) \<times> fake" where
  "fake_set k v ex nx t s = ensure_available s
     (let s1 = cleanup_if_expired t k s in
      if nx \<and> fmlookup (f_store s1) k \<noteq> None then (Inr False, s1)
      else let s2 = s1\<lparr>f_store := fmupd k v (f_store s1)\<rparr> in
        (Inr True, case ex of None \<Rightarrow> s2
                   | Some d \<Rightarrow> s2\<lparr>f_expiry := fmupd k (t + of_int d) (f_expiry s2)\<rparr>))"

definition fake_delete_one :: "string \<Rightarrow> nat \<times> fake \<Rightarrow> nat \<times> fake" where
  "fake_delete_one k = (\<lambda>(n, s).
     let (n1, s1) =
           (if fmlookup (f_store s) k \<noteq> None
            then (Suc n, s\<lparr>f_store := fmdrop k (f_store s), f_expiry := fmdrop k (f_expiry s)\<rparr>)
            else (n, s));
         s2 = s1\<lparr>f_counters := fmdrop k (f_counters s1)\<rparr>
     in if fmlookup (f_zsets s2) k \<noteq> None then (Suc n1, s2\<lparr>f_zsets := fmdrop k (f_zsets s2)\<rparr>)
        else (n1, s2))"

definition fake_delete :: "string list \<Rightarrow> rat \<Rightarrow> fake \<Rightarrow> (redis_err + nat) \<times> fake" where
  "fake_delete ks t s = ensure_available s
     (let (n, s') = fold fake_delete_one ks (0, s) in (Inr n, s'))"

definition zset_of :: "fake \<Rightarrow> string \<Rightarrow> (string, rat) fmap" where
  "zset_of s k = (case fmlookup (f_zsets s) k of None \<Rightarrow> fmempty | Some z \<Rightarrow> z)"

definition fake_zadd :: "string \<Rightarrow> rat \<Rightarrow> string \<Rightarrow> rat \<Rightarrow> fake \<Rightarrow> (redis_err + unit) \<times> fake" where
  "fake_zadd k sc m t s = ensure_available s
     (Inr (), s\<lparr>f_zsets := fmupd k (fmupd m sc (zset_of s k)) (f_zsets s)\<rparr>)"

definition trim_scores :: "rat \<Rightarrow> (string, rat) fmap \<Rightarrow> (string, rat) fmap" where
  "trim_scores hi z = fmfilter (\<lambda>m. case fmlookup z m of None \<Rightarrow> False | Some sc \<Rightarrow> \<not> sc \<le> hi) z"

definition fake_zremrangebyscore :: "string \<Rightarrow> rat \<Rightarrow> rat \<Rightarrow> fake \<Rightarrow> (redis_err + nat) \<times> fake" where
  "fake_zremrangebyscore k hi t s = ensure_available s
     (case fmlookup (f_zsets s) k of
        None \<Rightarrow> (Inr 0, s)
      | Some z \<Rightarrow>
          (Inr (fcard (fmdom z) - fcard (fmdom (trim_scores hi z))),
           s\<lparr>f_zsets := fmupd k (trim_scores hi z) (f_zsets s)\<rparr>))"

definition fake_zcard :: "string \<Rightarrow> rat \<Rightarrow> fake \<Rightarrow> (redis_err + nat) \<times> fake" where
  "fake_zcard k t s = ensure_available s (Inr (fcard (fmdom (zset_of s k))), s)"

definition counter_of :: "fake \<Rightarrow> string \<Rightarrow> int" where
  "counter_of s k = (case fmlookup (f_counters s) k of None \<Rightarrow> 0 | Some n \<Rightarrow> n)"

definition fake_incr :: "string \<Rightarrow> rat \<Rightarrow> fake \<Rightarrow> (redis_err + int) \<times> fake" where
  "fake_incr k t s = ensure_available s
     (let s1 = cleanup_if_expired t k s; n = counter_of s1 k + 1
      in (Inr n, s1\<lparr>f_counters := fmupd k n (f_counters s1)\<rparr>))"

definition fake_present :: "fake \<Rightarrow> string \<Rightarrow> bool" where
  "fake_present s k = (fmlookup (f_store s) k \<noteq> None \<or> fmlookup (f_counters s) k \<noteq> None
     \<or> fmlookup (f_zsets s) k \<noteq> None)"

definition fake_expire :: "string \<Rightarrow> int \<Rightarrow> rat \<Rightarrow> fake \<Rightarrow> (redis_err + bool) \<times> fake" where
  "fake_expire k d t s = ensure_available s
     (if \<not> fake_present s k then (Inr False, s)
      else (Inr True, s\<lparr>f_expiry := fmupd k (t + of_int d) (f_expiry s)\<rparr>))"

text \<open>\<open>keys(prefix + "*")\<close>: the enumeration of Python's set of keys is taken in ascending order.\<close>

definition all_keys :: "fake \<Rightarrow> string list" where
  "all_keys s = sorted_list_of_fset
     (fmdom (f_store s) |\<union>| fmdom (f_counters s) |\<union>| fmdom (f_zsets s))"

fun fake_scan :: "rat \<Rightarrow> string \<Rightarrow> string list \<Rightarrow> fake \<Rightarrow> string list \<times> fake" where
  "fake_scan t p [] s = ([], s)"
| "fake_scan t p (k # ks) s =
     (let s1 = cleanup_if_expired t k s; (rest, s2) = fake_scan t p ks s1
      in (if fake_present s1 k \<and> starts_with p k then k # rest else rest, s2))"

definition fake_keys :: "string \<Rightarrow> rat \<Rightarrow> fake \<Rightarrow> (redis_err + string list) \<times> fake" where
  "fake_keys p t s = ensure_available s
     (let (ks, s') = fake_scan t p (all_keys s) s in (Inr ks, s'))"

definition fake_redis :: "fake redis_ops" where
  "fake_redis = \<lparr>r_ping = fake_ping, r_get = fake_get, r_setex = fake_setex, r_set = fake_set,
     r_delete = fake_delete, r_zadd = fake_zadd, r_zremrangebyscore = fake_zremrangebyscore,
     r_zcard = fake_zcard, r_incr = fake_incr, r_expire = fake_expire, r_keys = fake_keys,
     r_lua_reply = (\<lambda>x. x), r_lua_text = (\<lambda>x. x)\<rparr>"

section \<open>The contract\<close>

text \<open>The abstraction: live texts, members of the sorted sets, counters, keys with no expiry.\<close>

definition fake_kv :: "fake \<Rightarrow> rat \<Rightarrow> string \<Rightarrow> rval option" where
  "fake_kv s t k = (if is_expired t s k then None else fmlookup (f_store s) k)"

definition fake_zs :: "fake \<Rightarrow> rat \<Rightarrow> string \<Rightarrow> string \<rightharpoonup> rat" where
  "fake_zs s t k = fmlookup (zset_of s k)"

definition fake_ct :: "fake \<Rightarrow> rat \<Rightarrow> string \<Rightarrow> int" where
  "fake_ct s t k = (if is_expired t s k then 0 else counter_of s k)"

definition fake_pk :: "fake \<Rightarrow> string \<Rightarrow> bool" where
  "fake_pk s k = (fmlookup (f_expiry s) k = None)"

lemmas fake_views = fake_kv_def fake_zs_def fake_ct_def fake_pk_def

lemma available_Inr: "ensure_available s r = (Inr x, s') \<longleftrightarrow> \<not> f_broken s \<and> r = (Inr x, s')"
  by (auto simp: ensure_available_def)

lemma views_cleanup [simp]:
  "fake_kv (cleanup_if_expired t k s) t k = fmlookup (f_store (cleanup_if_expired t k s)) k"
  "\<not> is_expired t (cleanup_if_expired t k s) k"
  by (auto simp: fake_views cleanup_if_expired_def is_expired_def split: option.splits)

lemma kv_cleanup: "t \<le> t' \<Longrightarrow> fake_kv (cleanup_if_expired t k s) t' k' = fake_kv s t' k'"
  by (auto simp: fake_views cleanup_if_expired_def is_expired_def split: option.splits)

lemma zs_cleanup: "k' \<noteq> k \<Longrightarrow> fake_zs (cleanup_if_expired t k s) t' k' = fake_zs s t' k'"
  by (auto simp: fake_views cleanup_if_expired_def zset_of_def)

lemma ct_cleanup: "t \<le> t' \<Longrightarrow> fake_ct (cleanup_if_expired t k s) t' k' = fake_ct s t' k'"
  by (auto simp: fake_views cleanup_if_expired_def is_expired_def counter_of_def split: option.splits)

lemma pk_cleanup: "fake_pk s k' \<Longrightarrow> fake_pk (cleanup_if_expired t k s) k'"
  by (auto simp: fake_views cleanup_if_expired_def)

lemma fake_redis_sel [simp]:
  "r_ping fake_redis = fake_ping" "r_get fake_redis = fake_get" "r_setex fake_redis = fake_setex"
  "r_set fake_redis = fake_set" "r_delete fake_redis = fake_delete" "r_zadd fake_redis = fake_zadd"
  "r_zremrangebyscore fake_redis = fake_zremrangebyscore" "r_zcard fake_redis = fake_zcard"
  "r_incr fake_redis = fake_incr" "r_expire fake_redis = fake_expire" "r_keys fake_redis = fake_keys"
  "r_lua_reply fake_redis = (\<lambda>x. x)" "r_lua_text fake_redis = (\<lambda>x. x)"
  by (simp_all add: fake_redis_def)

text \<open>Reading and writing texts.\<close>

lemma fake_get_spec:
  assumes "fake_get k t s = (Inr v, s')"
  shows "v = fake_kv s t k" and "t \<le> t' \<Longrightarrow> fake_kv s' t' k' = fake_kv s t' k'"
    and "k' \<noteq> k \<Longrightarrow> fake_zs s' t' k' = fake_zs s t' k'" and "fake_pk s k' \<Longrightarrow> fake_pk s' k'"
proof -
  from assms have s': "s' = cleanup_if_expired t k s"
    and v: "v = fmlookup (f_store (cleanup_if_expired t k s)) k"
    by (auto simp: fake_get_def available_Inr Let_def)
  show "v = fake_kv s t k"
    using v views_cleanup(1) [of t k s] kv_cleanup [of t t k s k] by simp
  show "t \<le> t' \<Longrightarrow> fake_kv s' t' k' = fake_kv s t' k'"
    by (simp add: s' kv_cleanup)
  show "k' \<noteq> k \<Longrightarrow> fake_zs s' t' k' = fake_zs s t' k'"
    by (simp add: s' zs_cleanup)
  show "fake_pk s k' \<Longrightarrow> fake_pk s' k'"
    by (simp add: s' pk_cleanup)
qed

lemma fake_setex_spec:
  assumes "fake_setex k d v t s = (Inr u, s')"
  shows "t' < t + of_int d \<Longrightarrow> fake_kv s' t' k = Some v"
    and "t + of_int d < t' \<Longrightarrow> fake_kv s' t' k = None"
    and "k' \<noteq> k \<Longrightarrow> fake_kv s' t' k' = fake_kv s t' k'"
    and "k' \<noteq> k \<Longrightarrow> fake_zs s' t' k' = fake_zs s t' k'"
    and "k' \<noteq> k \<Longrightarrow> fake_pk s k' \<Longrightarrow> fake_pk s' k'"
  using assms by (auto simp: fake_setex_def available_Inr fake_views is_expired_def zset_of_def)

lemma fake_set_spec:
  assumes "fake_set k v ex nx t s = (Inr b, s')"
  shows "b = (\<not> nx \<or> fake_kv s t k = None)"
    and "b \<Longrightarrow> ex = Some d \<Longrightarrow> t' < t + of_int d \<Longrightarrow> fake_kv s' t' k = Some v"
    and "b \<Longrightarrow> ex = Some d \<Longrightarrow> t + of_int d < t' \<Longrightarrow> fake_kv s' t' k = None"
    and "b \<Longrightarrow> ex = None \<Longrightarrow> fake_pk s k \<Longrightarrow> fake_kv s' t' k = Some v"
    and "ex = None \<Longrightarrow> fake_pk s k' \<Longrightarrow> fake_pk s' k'"
    and "\<not> b \<Longrightarrow> t \<le> t' \<Longrightarrow> fake_kv s' t' k = fake_kv s t' k"
    and "k' \<noteq> k \<Longrightarrow> fake_kv s' t' k' = fake_kv s t' k'"
    and "k' \<noteq> k \<Longrightarrow> fake_zs s' t' k' = fake_zs s t' k'"
    and "k' \<noteq> k \<Longrightarrow> fake_pk s k' \<Longrightarrow> fake_pk s' k'"
proof -
  have eq: "b = (\<not> nx \<or> fake_kv s t k = None)"
    "b \<Longrightarrow> ex = Some d \<Longrightarrow> s' = (cleanup_if_expired t k s)\<lparr>f_store := fmupd k v (f_store (cleanup_if_expired t k s)),
       f_expiry := fmupd k (t + of_int d) (f_expiry (cleanup_if_expired t k s))\<rparr>"
    "b \<Longrightarrow> ex = None \<Longrightarrow> s' = (cleanup_if_expired t k s)\<lparr>f_store := fmupd k v (f_store (cleanup_if_expired t k s))\<rparr>"
    "\<not> b \<Longrightarrow> s' = cleanup_if_expired t k s" for d
    using assms views_cleanup(1) [of t k s] kv_cleanup [of t t k s k]
    by (auto simp: fake_set_def available_Inr Let_def split: if_splits)
  show "b = (\<not> nx \<or> fake_kv s t k = None)" by (rule eq(1))
  show "b \<Longrightarrow> ex = Some d \<Longrightarrow> t' < t + of_int d \<Longrightarrow> fake_kv s' t' k = Some v"
    by (simp add: eq(2) fake_kv_def is_expired_def)
  show "b \<Longrightarrow> ex = Some d \<Longrightarrow> t + of_int d < t' \<Longrightarrow> fake_kv s' t' k = None"
    by (simp add: eq(2) fake_kv_def is_expired_def)
  show "b \<Longrightarrow> ex = None \<Longrightarrow> fake_pk s k \<Longrightarrow> fake_kv s' t' k = Some v"
    by (auto simp: eq(3) fake_kv_def is_expired_def fake_pk_def cleanup_if_expired_def)
  show "ex = None \<Longrightarrow> fake_pk s k' \<Longrightarrow> fake_pk s' k'"
    by (cases b) (auto simp: eq(3,4) pk_cleanup fake_pk_def cleanup_if_expired_def)
  show "\<not> b \<Longrightarrow> t \<le> t' \<Longrightarrow> fake_kv s' t' k = fake_kv s t' k"
    by (simp add: eq(4) kv_cleanup)
  show "k' \<noteq> k \<Longrightarrow> fake_kv s' t' k' = fake_kv s t' k'"
    by (cases b; cases ex)
      (auto simp: eq(2,3,4) fake_kv_def is_expired_def cleanup_if_expired_def)
  show "k' \<noteq> k \<Longrightarrow> fake_zs s' t' k' = fake_zs s t' k'"
    by (cases b; cases ex) (auto simp: eq(2,3,4) fake_zs_def zset_of_def cleanup_if_expired_def)
  show "k' \<noteq> k \<Longrightarrow> fake_pk s k' \<Longrightarrow> fake_pk s' k'"
    by (cases b; cases ex) (auto simp: eq(2,3,4) fake_pk_def cleanup_if_expired_def)
qed

lemma fake_delete_one_spec:
  assumes "fake_delete_one k (n, s) = (n', s')"
  shows "fake_kv s' t k' = (if k' = k then None else fake_kv s t k')"
    and "fake_zs s' t k' = (if k' = k then Map.empty else fake_zs s t k')"
    and "fake_pk s k' \<Longrightarrow> fake_pk s' k'"
  using assms
  by (auto simp: fake_delete_one_def Let_def fake_views is_expired_def zset_of_def
      split: if_splits option.splits)

lemma fake_delete_fold:
  assumes "fold fake_delete_one ks (n, s) = (n', s')"
  shows "fake_kv s' t k = (if k \<in> set ks then None else fake_kv s t k)
    \<and> fake_zs s' t k = (if k \<in> set ks then Map.empty else fake_zs s t k)
    \<and> (fake_pk s k \<longrightarrow> fake_pk s' k)"
  using assms
proof (induction ks arbitrary: n s)
  case Nil
  then show ?case by simp
next
  case (Cons k1 ks)
  obtain n1 s1 where one: "fake_delete_one k1 (n, s) = (n1, s1)" by (cases "fake_delete_one k1 (n, s)")
  with Cons.prems have "fold fake_delete_one ks (n1, s1) = (n', s')" by simp
  from Cons.IH [OF this] fake_delete_one_spec [OF one] show ?case by auto
qed

lemma fake_delete_spec:
  assumes "fake_delete ks t s = (Inr n, s')"
  shows "k \<in> set ks \<Longrightarrow> fake_kv s' t' k = None" and "k \<in> set ks \<Longrightarrow> fake_zs s' t' k = Map.empty"
    and "k \<notin> set ks \<Longrightarrow> fake_kv s' t' k = fake_kv s t' k"
    and "k \<notin> set ks \<Longrightarrow> fake_zs s' t' k = fake_zs s t' k"
    and "fake_pk s k \<Longrightarrow> fake_pk s' k"
  using assms fake_delete_fold [of ks 0 s n s']
  by (auto simp: fake_delete_def available_Inr split: prod.splits)

text \<open>Sorted sets and counters.\<close>

lemma fake_zadd_spec:
  assumes "fake_zadd k sc m t s = (Inr u, s')"
  shows "fake_zs s' t' k = (fake_zs s t' k)(m \<mapsto> sc)"
    and "k' \<noteq> k \<Longrightarrow> fake_zs s' t' k' = fake_zs s t' k'"
    and "fake_kv s' t' k' = fake_kv s t' k'" and "fake_pk s' k' = fake_pk s k'"
  using assms by (auto simp: fake_zadd_def available_Inr fake_views is_expired_def zset_of_def)

lemma fake_zrem_spec:
  assumes "fake_zremrangebyscore k hi t s = (Inr n, s')"
  shows "fake_zs s' t' k = trim_map hi (fake_zs s t' k)"
    and "k' \<noteq> k \<Longrightarrow> fake_zs s' t' k' = fake_zs s t' k'"
    and "fake_kv s' t' k' = fake_kv s t' k'" and "fake_pk s' k' = fake_pk s k'"
  using assms
  by (auto simp: fake_zremrangebyscore_def available_Inr fake_views is_expired_def zset_of_def
      trim_scores_def trim_map_def fun_eq_iff split: option.splits if_splits)

lemma fcard_fmdom: "fcard (fmdom z) = card (dom (fmlookup z))"
  by (simp add: fcard.rep_eq fmdom.rep_eq)

lemma fake_zcard_spec:
  assumes "fake_zcard k t s = (Inr n, s')"
  shows "n = card (dom (fake_zs s t' k))" and "s' = s"
  using assms by (auto simp: fake_zcard_def available_Inr fake_zs_def fcard_fmdom)

lemma fake_incr_spec:
  assumes "fake_incr k t s = (Inr i, s')"
  shows "i = fake_ct s t k + 1 \<and> fake_ct s' t k = i"
    and "t \<le> t' \<Longrightarrow> fake_ct s t' k \<noteq> 0 \<Longrightarrow> fake_ct s' t' k = i"
    and "k' \<noteq> k \<Longrightarrow> fake_ct s' t' k' = fake_ct s t' k'"
  using assms
  by (auto simp: fake_incr_def available_Inr Let_def fake_ct_def is_expired_def counter_of_def
      cleanup_if_expired_def split: option.splits if_splits)

lemma fake_expire_spec:
  assumes "fake_expire k d t s = (Inr b, s')"
  shows "fake_zs s' t' k' = fake_zs s t'' k'"
    and "k' \<noteq> k \<Longrightarrow> fake_kv s' t' k' = fake_kv s t' k'"
    and "k' \<noteq> k \<Longrightarrow> fake_pk s' k' = fake_pk s k'"
    and "fake_ct s t k \<noteq> 0 \<Longrightarrow> t' < t + of_int d \<Longrightarrow> fake_ct s' t' k = fake_ct s t k"
    and "k' \<noteq> k \<Longrightarrow> fake_ct s' t' k' = fake_ct s t' k'"
  using assms
  by (auto simp: fake_expire_def available_Inr fake_views is_expired_def zset_of_def counter_of_def
      fake_present_def split: option.splits if_splits)

lemma fake_scan_spec:
  assumes "fake_scan t p ks s = (xs, s')"
  shows "t \<le> t' \<Longrightarrow> fake_kv s' t' k = fake_kv s t' k"
    and "fake_pk s k \<Longrightarrow> fake_pk s' k"
    and "set xs \<subseteq> {k \<in> set ks. starts_with p k}"
    and "{k \<in> set ks. starts_with p k \<and> fake_kv s t k \<noteq> None} \<subseteq> set xs"
    and "distinct ks \<Longrightarrow> distinct xs"
proof -
  have "(t \<le> t' \<longrightarrow> fake_kv s' t' k = fake_kv s t' k) \<and> (fake_pk s k \<longrightarrow> fake_pk s' k) \<and>
    set xs \<subseteq> {k \<in> set ks. starts_with p k} \<and>
    {k \<in> set ks. starts_with p k \<and> fake_kv s t k \<noteq> None} \<subseteq> set xs \<and> (distinct ks \<longrightarrow> distinct xs)"
    using assms
  proof (induction ks arbitrary: s xs)
    case Nil
    then show ?case by simp
  next
    case (Cons k1 ks)
    let ?s1 = "cleanup_if_expired t k1 s"
    obtain rest s2 where r: "fake_scan t p ks ?s1 = (rest, s2)" by (cases "fake_scan t p ks ?s1")
    with Cons.prems have xs: "xs = (if fake_present ?s1 k1 \<and> starts_with p k1 then k1 # rest else rest)"
      and s': "s' = s2"
      by (auto simp: Let_def)
    have live: "fake_kv s t k1 \<noteq> None \<Longrightarrow> fake_present ?s1 k1"
      using kv_cleanup [of t t k1 s k1] views_cleanup(1) [of t k1 s] by (simp add: fake_present_def)
    have same: "fake_kv ?s1 t k' = fake_kv s t k'" for k' by (simp add: kv_cleanup)
    have IH: "(t \<le> t' \<longrightarrow> fake_kv s2 t' k = fake_kv ?s1 t' k) \<and> (fake_pk ?s1 k \<longrightarrow> fake_pk s2 k) \<and>
      set rest \<subseteq> {k \<in> set ks. starts_with p k} \<and>
      {k \<in> set ks. starts_with p k \<and> fake_kv ?s1 t k \<noteq> None} \<subseteq> set rest \<and> (distinct ks \<longrightarrow> distinct rest)"
      using Cons.IH [of ?s1 rest] r s' by simp
    have kvk: "t \<le> t' \<Longrightarrow> fake_kv ?s1 t' k = fake_kv s t' k" by (simp add: kv_cleanup)
    show ?case
      using IH xs s' live same kvk pk_cleanup [of s k t k1] by auto
  qed
  then show "t \<le> t' \<Longrightarrow> fake_kv s' t' k = fake_kv s t' k" "fake_pk s k \<Longrightarrow> fake_pk s' k"
    "set xs \<subseteq> {k \<in> set ks. starts_with p k}"
    "{k \<in> set ks. starts_with p k \<and> fake_kv s t k \<noteq> None} \<subseteq> set xs"
    "distinct ks \<Longrightarrow> distinct xs"
    by blast+
qed

lemma fake_keys_spec:
  assumes "fake_keys p t s = (Inr ks, s')"
  shows "starts_with p k \<Longrightarrow> fake_kv s t k \<noteq> None \<Longrightarrow> k \<in> set ks"
    and "k \<in> set ks \<Longrightarrow> starts_with p k"
    and "t \<le> t' \<Longrightarrow> fake_kv s' t' k = fake_kv s t' k"
    and "fake_pk s k \<Longrightarrow> fake_pk s' k" and "distinct ks"
proof -
  from assms have scan: "fake_scan t p (all_keys s) s = (ks, s')"
    by (auto simp: fake_keys_def available_Inr split: prod.splits)
  note spec = fake_scan_spec [OF scan]
  have "fake_kv s t k \<noteq> None \<Longrightarrow> k \<in> set (all_keys s)"
    by (auto simp: fake_kv_def all_keys_def fmlookup_dom_iff split: if_splits)
  then show "starts_with p k \<Longrightarrow> fake_kv s t k \<noteq> None \<Longrightarrow> k \<in> set ks"
    using spec(4) by auto
  show "k \<in> set ks \<Longrightarrow> starts_with p k" using spec(3) by auto
  show "t \<le> t' \<Longrightarrow> fake_kv s' t' k = fake_kv s t' k" by (rule spec(1))
  show "fake_pk s k \<Longrightarrow> fake_pk s' k" by (rule spec(2))
  have "distinct (all_keys s)" by (simp add: all_keys_def sorted_list_of_fset.rep_eq)
  then show "distinct ks" by (rule spec(5))
qed

lemma fake_set_some:
  assumes "fake_set k v (Some d) nx t s = (Inr True, s')"
  shows "t' < t + of_int d \<Longrightarrow> fake_kv s' t' k = Some v"
    and "t + of_int d < t' \<Longrightarrow> fake_kv s' t' k = None"
  using fake_set_spec(2,3) [OF assms, of d t'] by simp_all

lemma fake_set_none:
  "fake_set k v None nx t s = (Inr True, s') \<Longrightarrow> fake_pk s k \<Longrightarrow> fake_kv s' t' k = Some v"
  "fake_set k v None nx t s = (Inr b, s') \<Longrightarrow> fake_pk s k' \<Longrightarrow> fake_pk s' k'"
  "fake_set k v ex nx t s = (Inr False, s') \<Longrightarrow> t \<le> t' \<Longrightarrow> fake_kv s' t' k = fake_kv s t' k"
  using fake_set_spec(4,5) [of k v None nx t s] fake_set_spec(6) [of k v ex nx t s False s' t'] by auto

lemma fake_zcard_same:
  assumes "fake_zcard k t s = (Inr n, s')"
  shows "fake_zs s' t' k' = fake_zs s t' k'" and "fake_kv s' t' k' = fake_kv s t' k'"
    and "fake_pk s k' \<Longrightarrow> fake_pk s' k'" and "n = card (dom (fake_zs s t k))"
  using fake_zcard_spec [OF assms] by simp_all

lemma fake_frame_pk:
  "fake_zadd k sc m t s = (Inr u, s') \<Longrightarrow> fake_pk s k' \<Longrightarrow> fake_pk s' k'"
  "fake_zremrangebyscore k hi t s = (Inr n, s') \<Longrightarrow> fake_pk s k' \<Longrightarrow> fake_pk s' k'"
  "fake_expire k d t s = (Inr b, s') \<Longrightarrow> k' \<noteq> k \<Longrightarrow> fake_pk s k' \<Longrightarrow> fake_pk s' k'"
  using fake_zadd_spec(4) fake_zrem_spec(4) fake_expire_spec(3) by simp_all

lemma fake_pk_stable: "fake_pk s k \<Longrightarrow> fake_kv s t k = fake_kv s t' k"
  by (simp add: fake_views is_expired_def)

lemma fake_expire_sub:
  "fake_expire k d t s = (Inr b, s') \<Longrightarrow> fake_zs s' t' k m = Some sc \<Longrightarrow> fake_zs s t k m = Some sc"
  by (auto simp: fake_expire_def available_Inr fake_zs_def zset_of_def split: if_splits)

lemmas fake_laws = fake_get_spec fake_setex_spec fake_set_spec(1,7,8,9) fake_set_some fake_set_none
  fake_delete_spec fake_zadd_spec(1-3) fake_zrem_spec(1-3) fake_frame_pk fake_zcard_same
  fake_incr_spec fake_expire_spec(1,2,4,5) fake_keys_spec fake_expire_sub

interpretation fr: redis_contract fake_redis fake_kv fake_zs fake_ct fake_pk
proof unfold_locales
  show "finite (dom (fake_zs s t k))" for s t k
    by (simp add: fake_zs_def)
  show "r_delete fake_redis [k] t s = (Inr n, s') \<Longrightarrow> fake_kv s t k \<noteq> None \<Longrightarrow> n \<noteq> 0" for k t s n s'
    by (auto simp: fake_delete_def fake_delete_one_def fake_kv_def ensure_available_def Let_def split: if_splits)
  show "fake_pk s k \<Longrightarrow> fake_kv s t k = fake_kv s t' k" for s k t t'
    by (rule fake_pk_stable)
  show "t \<le> t' \<Longrightarrow> fake_kv s t' k = fake_kv s t k \<or> fake_kv s t' k = None" for s k t t'
    by (auto simp: fake_kv_def is_expired_def split: option.splits)
qed (simp_all only: fake_redis_sel, (rule fake_laws; assumption)+)

lemma sorted_list_of_fset_few [simp]:
  "sorted_list_of_fset {||} = []" "sorted_list_of_fset {|x|} = [x]"
  by (simp_all add: sorted_list_of_fset.rep_eq)

lemma fake_broken_kept [simp]:
  "f_broken (cleanup_if_expired t k s) = f_broken s"
  "f_broken (snd (fake_delete_one k (n, s))) = f_broken s"
  by (simp_all add: cleanup_if_expired_def fake_delete_one_def Let_def)

lemma fake_delete_broken: "f_broken (snd (fold fake_delete_one ks ns)) = f_broken (snd ns)"
proof (induction ks arbitrary: ns)
  case (Cons k ks)
  then show ?case by (cases ns) simp
qed simp

lemma fake_scan_broken: "f_broken (snd (fake_scan t p ks s)) = f_broken s"
proof (induction ks arbitrary: s)
  case (Cons k ks)
  then show ?case
    using Cons.IH [of "cleanup_if_expired t k s"]
    by (cases "fake_scan t p ks (cleanup_if_expired t k s)") (simp add: Let_def)
qed simp

interpretation fr: reliable_store fake_redis fake_kv fake_zs fake_ct fake_pk "\<lambda>s. \<not> f_broken s"
proof unfold_locales
  show "\<not> f_broken s \<Longrightarrow> \<exists>n s'. r_delete fake_redis ks t s = (Inr n, s') \<and> \<not> f_broken s'" for s ks t
    using fake_delete_broken [of ks "(0, s)"]
    by (auto simp: fake_delete_def ensure_available_def split: prod.splits)
  show "\<not> f_broken s \<Longrightarrow> \<exists>xs s'. r_keys fake_redis p t s = (Inr xs, s') \<and> \<not> f_broken s'" for s p t
    using fake_scan_broken [of t p "all_keys s" s]
    by (auto simp: fake_keys_def ensure_available_def split: prod.splits)
  show "\<not> f_broken s \<Longrightarrow> \<exists>b s'. r_set fake_redis k v ex nx t s = (Inr b, s') \<and> \<not> f_broken s'" for s k v ex nx t
    by (auto simp: fake_set_def ensure_available_def Let_def split: option.splits)
qed (auto simp: fake_ping_def fake_get_def fake_setex_def fake_zadd_def fake_zremrangebyscore_def
    fake_zcard_def fake_incr_def fake_expire_def ensure_available_def Let_def split: option.splits)

lemmas fake_eval = fake_get_def fake_setex_def fake_set_def fake_delete_def fake_delete_one_def
  fake_zadd_def fake_zremrangebyscore_def fake_zcard_def fake_incr_def fake_expire_def
  fake_keys_def fake_present_def cleanup_if_expired_def is_expired_def ensure_available_def
  zset_of_def trim_scores_def counter_of_def all_keys_def fake_empty_def fcard.rep_eq

end
