(* ===== verification/Demo_World.thy ===== *)
theory Demo_World
  imports Fake_Redis Config
begin

text \<open>
  The concrete world, configuration and request the witnesses are evaluated in: an empty store
  double, a clock that stands still, fixed samples, the configuration's default values (with a
  breaker that needs only two requests).
\<close>

definition demo_world :: "fake world" where
  "demo_world = \<lparr>w_redis = fake_empty, w_now = 1000, w_ticks = (\<lambda>_. 0), w_tick_no = 0,
     w_rnd = (\<lambda>_. 1 / 2), w_rnd_no = 0, w_uuids = (\<lambda>n. replicate n CHR ''a''), w_uuid_no = 0,
     w_counters = (\<lambda>_. 0), w_observed = (\<lambda>_. []), w_logs = [], w_slept = []\<rparr>"

lemma demo_world_sel [simp]: "w_redis demo_world = fake_empty" "w_now demo_world = 1000"
  by (simp_all add: demo_world_def)

lemma fake_empty_views [simp]: "fake_kv fake_empty t k = None" "fake_ct fake_empty t k = 0"
  "fake_zs fake_empty t k = Map.empty" "fake_pk fake_empty k" "\<not> f_broken fake_empty"
  by (simp_all add: fake_views fake_empty_def is_expired_def counter_of_def zset_of_def fun_eq_iff)

lemma fresh_demo_world [simp]: "fresh_uuids demo_world"
  by (auto simp: fresh_uuids_def demo_world_def inj_def replicate_eq_replicate)

lemma mono_demo_world [simp]: "mono_ticks demo_world"
  by (simp add: mono_ticks_def demo_world_def)

definition demo_ctx :: ctx where
  "demo_ctx = sync_legacy_attributes
     \<lparr>ac_redis = \<lparr>rc_host = ''localhost'', rc_port = 6379, rc_decode_responses = True\<rparr>,
      ac_chaos = \<lparr>cc_enabled = True, cc_fault_injection_enabled = True, cc_default_ttl_sec = 60,
        cc_max_latency_ms = 5000, cc_max_drop_rate = 1\<rparr>,
      ac_rate_limit = \<lparr>rl_service_name = ''chaos-demo'', rl_resource = ''order'',
        rl_dimension = ''client_ip'', rl_algorithm = ''sliding'', rl_limit = 30, rl_window_sec = 1,
        rl_lua_dir = ''lua''\<rparr>,
      ac_breaker = \<lparr>bc_resource = ''order'', bc_fail_threshold = 8, bc_window_sec = 10,
        bc_open_sec = 8, bc_failure_rate_threshold = 1 / 2, bc_min_request_amount = 2,
        bc_probe_ttl_sec = 30, bc_key_open_until = ''cb:open_until'', bc_key_failures = ''cb:failures'',
        bc_key_total_requests = ''cb:total_requests'', bc_key_probe = ''cb:probe''\<rparr>,
      ac_retry = \<lparr>rs_max_attempts = 3, rs_base_delay_ms = 5, rs_max_delay_ms = 50\<rparr>,
      ac_idempotency = \<lparr>ic_order_ttl_sec = 604800, ic_order_key_prefix = ''order:'', ic_ttl_sec = 300,
        ic_pending_ttl_sec = 15, ic_wait_timeout_ms = 120, ic_wait_poll_ms = 10\<rparr>,
      ac_business = \<lparr>bz_timeout_ms = 45, bz_inventory_busy_prob = 3 / 100, bz_resilience_enabled = True\<rparr>,
      ac_traffic = \<lparr>tc_enabled = False, tc_record_file = ''traffic'', tc_max_queue = 2000\<rparr>,
      ac_log_json = True, ac_app_env = ''dev'', ac_app_host = ''0.0.0.0'', ac_app_port = 5000\<rparr>"

definition demo_request :: request where
  "demo_request = \<lparr>rq_method = ''POST'', rq_path = ''/order'', rq_remote_addr = Some ''127.0.0.1'',
     rq_headers = [], rq_start_time = Some 1000\<rparr>"

definition broken_world :: "fake world" where
  "broken_world = demo_world\<lparr>w_redis := fake_empty\<lparr>f_broken := True\<rparr>\<rparr>"

lemmas demo_defs = demo_world_def demo_ctx_def demo_request_def broken_world_def
  sync_legacy_attributes_def

end
