(* ===== verification/Rate_Limiter_Correct.thy ===== *)
theory Rate_Limiter_Correct
  imports Rate_Limiter Demo_World
begin

text \<open>The properties of the rate limiter, with witnesses on the store double.\<close>

text \<open>
  C5. Sliding window: however the calls for one subject are spaced in time, no interval of the
  window's length contains more admitted calls than the limit, on any store that keeps the
  contract, as long as every call was answered.
\<close>

theorem sliding_window_limit:
  assumes "redis_contract R kv zs ct pk"
    and "sliding_calls R service rule subject n w = (Inr outs, w')"
    and "fresh_uuids w" and "mono_ticks w" and "0 \<le> rule_limit rule"
  shows "in_window (rule_window rule) T (map fst (filter snd outs)) \<le> nat (rule_limit rule)"
  using redis_contract.sliding_calls_inv [OF assms(1,2) redis_contract.sliding_inv_Nil [OF assms(1)]
      assms(3-5), of T]
  by simp

definition demo_rule :: "string \<Rightarrow> rate_limit_rule" where
  "demo_rule algorithm = \<lparr>rule_resource = ''order'', rule_algorithm = algorithm, rule_limit = 1,
     rule_window = 1, rule_dimension = ''client_ip''\<rparr>"

lemma sliding_demo_run:
  "fst (sliding_calls fake_redis ''s'' (demo_rule ''sliding'') ''ip'' 2 demo_world)
     = Inr [(1000, True), (1000, False)]"
  by (simp add: numeral_2_eq_2 allow_sliding_def sliding_window_lua_def decision_def demo_rule_def
      prog_simps fake_eval demo_world_def window_ttl_def build_base_key_def)

theorem sliding_window_limit_witness:
  "\<exists>outs w'. sliding_calls fake_redis ''s'' (demo_rule ''sliding'') ''ip'' 2 demo_world = (Inr outs, w')
     \<and> outs = [(1000, True), (1000, False)] \<and> in_window 1 1000 (map fst (filter snd outs)) \<le> 1"
proof -
  obtain w' where run: "sliding_calls fake_redis ''s'' (demo_rule ''sliding'') ''ip'' 2 demo_world
      = (Inr [(1000, True), (1000, False)], w')"
    using sliding_demo_run by (metis prod.collapse)
  have "in_window (rule_window (demo_rule ''sliding'')) 1000 (map fst (filter snd [(1000, True), (1000, False)]))
      \<le> nat (rule_limit (demo_rule ''sliding''))"
    by (rule sliding_window_limit [OF fr.redis_contract_axioms run]) (simp_all add: demo_rule_def)
  with run show ?thesis by (simp add: demo_rule_def)
qed

text \<open>
  Fixed window: starting from a store without counters for the subject, a call is admitted
  exactly when fewer than \<open>limit\<close> calls fell into its bucket of time before it.
\<close>

theorem fixed_window_exact:
  assumes "redis_contract R kv zs ct pk"
    and "fixed_calls R service rule subject n w = (Inr outs, w')"
    and "\<forall>t b. ct (w_redis w) t (bucket_key service rule subject b) = 0"
    and "mono_ticks w" and "0 < rule_window rule" and "0 \<le> rule_limit rule"
  shows "first_ones (nat (rule_limit rule)) [] outs"
  using redis_contract.fixed_calls_first [OF assms(1,2)
      redis_contract.fixed_inv_Nil [OF assms(1,3)] assms(4-6)] .

lemma fixed_demo_run:
  "fst (fixed_calls fake_redis ''s'' (demo_rule ''fixed'') ''ip'' 2 demo_world)
     = Inr [(1000, True), (1000, False)]"
  by (simp add: numeral_2_eq_2 allow_fixed_def fixed_window_lua_def decision_def demo_rule_def
      prog_simps fake_eval demo_world_def window_ttl_def build_base_key_def)

theorem fixed_window_exact_witness:
  "\<exists>outs w'. fixed_calls fake_redis ''s'' (demo_rule ''fixed'') ''ip'' 2 demo_world = (Inr outs, w')
     \<and> outs = [(1000, True), (1000, False)] \<and> first_ones 1 [] outs"
proof -
  obtain w' where run: "fixed_calls fake_redis ''s'' (demo_rule ''fixed'') ''ip'' 2 demo_world
      = (Inr [(1000, True), (1000, False)], w')"
    using fixed_demo_run by (metis prod.collapse)
  have "first_ones (nat (rule_limit (demo_rule ''fixed''))) [] [(1000, True), (1000, False)]"
    by (rule fixed_window_exact [OF fr.redis_contract_axioms run])
      (simp_all add: demo_rule_def)
  with run show ?thesis by (simp add: demo_rule_def)
qed

text \<open>
  A store failure never rejects an order: when the backend raises a \<open>RedisError\<close>, the filter
  lets the request through, and the failure is counted.
\<close>

theorem rate_limit_fails_open:
  assumes rule: "build_default_rule cx w = (Inr rule, w)"
    and err: "backend_allow R (SERVICE_NAME cx) rule (resolve_subject_id env rq (RATE_LIMIT_DIMENSION cx)) w
        = (Inl (RedisError e), w1)"
    and on: "ENABLE_RESILIENCE cx" "rq_method rq = ''POST''" "rq_path rq = ''/order''"
  shows "\<exists>w2. rate_limit_request R env cx rq w = (Inr None, w2) \<and> w_redis w2 = w_redis w1 \<and>
    w_counters w2 (''RATE_LIMIT_REDIS_ERROR_TOTAL'', rule_labels rule)
      = w_counters w1 (''RATE_LIMIT_REDIS_ERROR_TOTAL'', rule_labels rule) + 1"
  using assms
  by (simp add: rate_limit_request_def limiter_allow_def record_redis_error_def prog_simps)

theorem rate_limit_fails_open_witness:
  "fst (rate_limit_request fake_redis (\<lambda>_. None) demo_ctx demo_request broken_world) = Inr None"
proof -
  define rule where "rule = \<lparr>rule_resource = ''order'', rule_algorithm = ''sliding'',
    rule_limit = 30, rule_window = 1, rule_dimension = ''client_ip''\<rparr>"
  have rule: "build_default_rule demo_ctx broken_world = (Inr rule, broken_world)"
    by (simp add: build_default_rule_def rate_limit_rule_post_init_def demo_ctx_def rule_def prog_simps
        sync_legacy_attributes_def strip_def lower_def lower_char_def is_ws_def)
  obtain w1 where "backend_allow fake_redis (SERVICE_NAME demo_ctx) rule
      (resolve_subject_id (\<lambda>_. None) demo_request (RATE_LIMIT_DIMENSION demo_ctx)) broken_world
      = (Inl (RedisError RConnection), w1)"
    by (simp add: backend_allow_def rule_def allow_sliding_def sliding_window_lua_def prog_simps
        fake_eval demo_world_def broken_world_def)
  from rate_limit_fails_open [OF rule this] show ?thesis
    by (auto simp: demo_ctx_def demo_request_def sync_legacy_attributes_def)
qed

text \<open>
  Client identity behind proxies: whatever a caller writes at the left of the
  \<open>X-Forwarded-For\<close> header, the identity is read from the hops that the trusted proxies appended.
\<close>

theorem client_ip_ignores_forged_prefix:
  assumes "trust_proxy_headers env" and "header rq ''X-Forwarded-For'' = Some (forged @ '','' @ genuine)"
    and "trusted_hop_count env \<le> int (length (forwarded_hops genuine))"
  shows "client_ip_from_request env rq
    = forwarded_hops genuine ! nat (int (length (forwarded_hops genuine)) - trusted_hop_count env)"
proof -
  let ?F = "forwarded_hops forged" and ?H = "forwarded_hops genuine" and ?k = "trusted_hop_count env"
  have k: "1 \<le> ?k" by (rule trusted_hop_count_pos)
  with assms(3) have ne: "?H \<noteq> []" by auto
  have idx: "nat (int (length ?F + length ?H) - ?k) = length ?F + nat (int (length ?H) - ?k)"
    using assms(3) k by (simp add: nat_diff_distrib')
  have "?H ! nat (int (length ?H) - ?k) \<in> set ?H"
    using assms(3) k by (intro nth_mem) linarith
  then have "?H ! nat (int (length ?H) - ?k) \<noteq> []" by (auto simp: forwarded_hops_def)
  then show ?thesis
    using assms ne idx forwarded_hops_append [of forged genuine]
    by (simp add: client_ip_from_request_def header_or_def nth_append or_default_def Let_def)
qed

theorem client_ip_ignores_forged_prefix_witness:
  "client_ip_from_request (\<lambda>n. if n = ''TRUST_PROXY_HEADERS'' then Some ''1'' else None)
     (demo_request\<lparr>rq_headers := [(''X-Forwarded-For'', ''6.6.6.6, 10.0.0.7'')]\<rparr>) = ''10.0.0.7''"
proof -
  let ?env = "\<lambda>n. if n = ''TRUST_PROXY_HEADERS'' then Some ''1'' else None"
  let ?rq = "demo_request\<lparr>rq_headers := [(''X-Forwarded-For'', ''6.6.6.6, 10.0.0.7'')]\<rparr>"
  have trust: "trust_proxy_headers ?env"
    by (simp add: trust_proxy_headers_def getenv_def strip_def lower_def lower_char_def is_ws_def)
  have head: "header ?rq ''X-Forwarded-For'' = Some (''6.6.6.6'' @ '','' @ '' 10.0.0.7'')"
    by (simp add: header_def)
  have hops: "forwarded_hops '' 10.0.0.7'' = [''10.0.0.7'']"
    by (simp add: forwarded_hops_def strip_def is_ws_def)
  have count: "trusted_hop_count ?env = 1"
    by (simp add: trusted_hop_count_def getenv_def read_int_def read_signed_def)
  show ?thesis
    using client_ip_ignores_forged_prefix [OF trust head] by (simp add: hops count)
qed

text \<open>
  Two checks share a Redis key only if service, resource, dimension and subject agree after
  normalisation: the separator cannot be smuggled in by any of the parts.
\<close>

theorem base_key_injective:
  assumes "build_base_key s1 r1 u1 = build_base_key s2 r2 u2"
  shows "normalize_segment s1 = normalize_segment s2 \<and>
     normalize_segment (rule_resource r1) = normalize_segment (rule_resource r2) \<and>
     normalize_segment (rule_dimension r1) = normalize_segment (rule_dimension r2) \<and>
     normalize_segment u1 = normalize_segment u2"
  using arg_cong [where f = "split_on CHR '':''", OF assms] by (simp_all add: base_key_split)

theorem base_key_injective_witness:
  "build_base_key ''svc'' (demo_rule ''fixed'') ''a:b'' = build_base_key ''svc'' (demo_rule ''sliding'') ''a b''
   \<and> normalize_segment ''a:b'' = normalize_segment ''a b''"
proof -
  have same: "build_base_key ''svc'' (demo_rule ''fixed'') ''a:b''
      = build_base_key ''svc'' (demo_rule ''sliding'') ''a b''"
    by (simp add: build_base_key_def demo_rule_def normalize_segment_def strip_def is_ws_def replace_char_def)
  from base_key_injective [OF this] same show ?thesis by simp
qed

end
