(* ===== verification/Retry.thy ===== *)
theory Retry
  imports Config
begin

text \<open>
  \<open>chaos_service/retry.py\<close>: retries with exponential backoff, full jitter and an optional deadline,
  around an arbitrary operation of the program monad. \<open>time.perf_counter\<close> is read from the same
  clock as \<open>time.time\<close>; the log entries and metrics of the source are kept.
\<close>

section \<open>Configuration and deadline\<close>

record retry_config =
  rt_max_attempts :: int
  rt_base_delay_s :: rat
  rt_max_delay_s :: rat
  rt_retryable :: "exn \<Rightarrow> bool"

fun default_retryable :: "exn \<Rightarrow> bool" where
  "default_retryable (RedisError RTimeout) = True"
| "default_retryable (RedisError RConnection) = True"
| "default_retryable SocketTimeout = True"
| "default_retryable _ = False"

definition retry_config_post_init :: "retry_config \<Rightarrow> ('w, retry_config) prog" where
  "retry_config_post_init c =
     (if rt_max_attempts c < 1 then raise (ValueError ''max_attempts must be >= 1'')
      else if rt_base_delay_s c < 0 then raise (ValueError ''base_delay_s must be >= 0'')
      else if rt_max_delay_s c < 0 then raise (ValueError ''max_delay_s must be >= 0'')
      else ret c)"

text \<open>\<open>RetryDeadline\<close>, represented by its \<open>deadline_at\<close>.\<close>

definition remaining_seconds :: "rat \<Rightarrow> (('s, 'z) world_scheme, rat) prog" where
  "remaining_seconds dl_at = bnd py_time (\<lambda>t. ret (max (dl_at - t) 0))"

definition can_wait :: "rat \<Rightarrow> rat \<Rightarrow> (('s, 'z) world_scheme, bool) prog" where
  "can_wait dl_at d = bnd (remaining_seconds dl_at) (\<lambda>r. ret (r > max d 0))"

section \<open>Metrics and log\<close>

definition record_attempt :: "string \<Rightarrow> (('s, 'z) world_scheme, unit) prog" where
  "record_attempt operation = metric_inc ''RETRY_ATTEMPT_TOTAL'' [(''operation'', operation)]"

definition record_success :: "string \<Rightarrow> rat \<Rightarrow> (('s, 'z) world_scheme, unit) prog" where
  "record_success operation d =
     thn (metric_inc ''RETRY_SUCCESS_TOTAL'' [(''operation'', operation)])
     (metric_observe ''RETRY_DURATION_SECONDS'' [(''operation'', operation), (''result'', ''success'')] d)"

definition record_failure :: "string \<Rightarrow> string \<Rightarrow> rat \<Rightarrow> (('s, 'z) world_scheme, unit) prog" where
  "record_failure operation exception_type d =
     thn (metric_inc ''RETRY_FAILURE_TOTAL'' [(''operation'', operation), (''exception_type'', exception_type)])
     (metric_observe ''RETRY_DURATION_SECONDS'' [(''operation'', operation), (''result'', ''failure'')] d)"

definition opt_ms :: "rat option \<Rightarrow> json" where
  "opt_ms v = (case v of None \<Rightarrow> JNull | Some s \<Rightarrow> JFloat (round3 (s * 1000)))"

definition remaining_opt :: "rat option \<Rightarrow> (('s, 'z) world_scheme, rat option) prog" where
  "remaining_opt dl = (case dl of None \<Rightarrow> ret None
     | Some dl_at \<Rightarrow> bnd (remaining_seconds dl_at) (\<lambda>r. ret (Some r)))"

definition log_attempt ::
  "retry_config \<Rightarrow> rat option \<Rightarrow> string \<Rightarrow> nat \<Rightarrow> exn \<Rightarrow> rat \<Rightarrow> (('s, 'z) world_scheme, unit) prog" where
  "log_attempt c dl operation attempt e sleep_s =
     bnd (remaining_opt dl) (\<lambda>rem.
     log_line ''retry_attempt'' ''WARNING''
       [(''component'', JStr ''retry''), (''operation'', JStr operation), (''result'', JStr ''retrying''),
        (''attempt'', JInt (int attempt)), (''max_attempts'', JInt (rt_max_attempts c)),
        (''delay_ms'', JFloat (round3 (sleep_s * 1000))), (''exception_type'', JStr (exn_name e)),
        (''deadline_remaining_ms'', opt_ms rem)])"

definition log_exhausted ::
  "retry_config \<Rightarrow> rat option \<Rightarrow> string \<Rightarrow> nat \<Rightarrow> exn \<Rightarrow> string \<Rightarrow> rat option \<Rightarrow>
   (('s, 'z) world_scheme, unit) prog" where
  "log_exhausted c dl operation attempt e reason next_delay =
     bnd (remaining_opt dl) (\<lambda>rem.
     log_line ''retry_exhausted'' ''ERROR''
       [(''component'', JStr ''retry''), (''operation'', JStr operation), (''result'', JStr ''failed''),
        (''reason'', JStr reason), (''attempt'', JInt (int attempt)),
        (''max_attempts'', JInt (rt_max_attempts c)), (''next_delay_ms'', opt_ms next_delay),
        (''exception_type'', JStr (exn_name e)), (''deadline_remaining_ms'', opt_ms rem)])"

section \<open>The loop\<close>

definition compute_delay_cap :: "retry_config \<Rightarrow> nat \<Rightarrow> rat" where
  "compute_delay_cap c attempt = min (rt_max_delay_s c) (rt_base_delay_s c * 2 ^ (attempt - 1))"

definition give_up ::
  "string \<Rightarrow> rat \<Rightarrow> exn \<Rightarrow> (('s, 'z) world_scheme, 'a) prog" where
  "give_up operation started e =
     bnd py_time (\<lambda>t. thn (record_failure operation (exn_name e) (t - started)) (raise e))"

definition deadline_blocks :: "rat option \<Rightarrow> rat \<Rightarrow> (('s, 'z) world_scheme, bool) prog" where
  "deadline_blocks dl sleep_s = (case dl of None \<Rightarrow> ret False
     | Some dl_at \<Rightarrow> bnd (can_wait dl_at sleep_s) (\<lambda>ok. ret (\<not> ok)))"

text \<open>
  \<open>for attempt in range(1, max_attempts + 1)\<close>: \<open>left\<close> counts the iterations that remain.
\<close>

fun execute_loop ::
  "retry_config \<Rightarrow> rat option \<Rightarrow> (('s, 'z) world_scheme, 'a) prog \<Rightarrow> string \<Rightarrow> rat \<Rightarrow> nat \<Rightarrow> nat \<Rightarrow>
   (('s, 'z) world_scheme, 'a) prog" where
  "execute_loop c dl func operation started attempt 0 =
     raise (RuntimeError ''retry execution exited unexpectedly'')"
| "execute_loop c dl func operation started attempt (Suc left) =
     thn (record_attempt operation)
     (try_else func
       (\<lambda>e.
         if rt_retryable c e then
           if int attempt \<ge> rt_max_attempts c then
             thn (log_exhausted c dl operation attempt e ''max_attempts'' None)
             (give_up operation started e)
           else
             bnd (py_uniform 0 (compute_delay_cap c attempt)) (\<lambda>sleep_s.
             bnd (deadline_blocks dl sleep_s) (\<lambda>blocked.
             if blocked then
               thn (log_exhausted c dl operation attempt e ''deadline'' (Some sleep_s))
               (give_up operation started e)
             else
               thn (log_attempt c dl operation attempt e sleep_s)
               (thn (py_sleep sleep_s)
               (execute_loop c dl func operation started (Suc attempt) left))))
         else if is_exception e then give_up operation started e
         else raise e)
       (\<lambda>result. bnd py_time (\<lambda>t.
          thn (record_success operation (t - started)) (ret result))))"

definition execute ::
  "retry_config \<Rightarrow> rat option \<Rightarrow> (('s, 'z) world_scheme, 'a) prog \<Rightarrow> string \<Rightarrow>
   (('s, 'z) world_scheme, 'a) prog" where
  "execute c dl func operation =
     bnd py_time (\<lambda>started.
     execute_loop c dl func operation started 1 (nat (rt_max_attempts c)))"

section \<open>Construction\<close>

text \<open>
  \<open>build_request_deadline\<close>: no request context, no positive budget or no start time mean no
  deadline; \<open>req\<close> is the request the handler serves, if any.
\<close>

definition build_request_deadline :: "ctx \<Rightarrow> request option \<Rightarrow> rat option" where
  "build_request_deadline cx req =
     (case req of
        None \<Rightarrow> None
      | Some rq \<Rightarrow>
          if BUSINESS_TIMEOUT_MS cx \<le> 0 then None
          else (case rq_start_time rq of None \<Rightarrow> None
                | Some t \<Rightarrow> Some (t + of_int (BUSINESS_TIMEOUT_MS cx) / 1000)))"

definition build_retry_config :: "ctx \<Rightarrow> (exn \<Rightarrow> bool) \<Rightarrow> ('w, retry_config) prog" where
  "build_retry_config cx retryable = retry_config_post_init
     \<lparr>rt_max_attempts = RETRY_MAX_ATTEMPTS cx, rt_base_delay_s = RETRY_BASE_DELAY_MS cx / 1000,
      rt_max_delay_s = RETRY_MAX_DELAY_MS cx / 1000, rt_retryable = retryable\<rparr>"

text \<open>\<open>build_retry_policy(ctx)\<close> followed by \<open>execute\<close>, as every caller uses it.\<close>

definition retrying ::
  "ctx \<Rightarrow> request option \<Rightarrow> (('s, 'z) world_scheme, 'a) prog \<Rightarrow> string \<Rightarrow> (('s, 'z) world_scheme, 'a) prog" where
  "retrying cx req func operation =
     bnd (build_retry_config cx default_retryable) (\<lambda>c.
     execute c (build_request_deadline cx req) func operation)"

section \<open>Lemmas\<close>

lemmas retry_defs = record_attempt_def record_success_def record_failure_def log_attempt_def
  log_exhausted_def remaining_opt_def remaining_seconds_def give_up_def deadline_blocks_def
  can_wait_def

text \<open>The bookkeeping of the loop reads clocks and writes metrics and logs, nothing else.\<close>

definition same_env :: "('s, 'z) world_scheme \<Rightarrow> ('s, 'z) world_scheme \<Rightarrow> bool" where
  "same_env w w' = (w_redis w' = w_redis w \<and> w_ticks w' = w_ticks w \<and> w_rnd w' = w_rnd w \<and>
     w_uuids w' = w_uuids w \<and> w_uuid_no w' = w_uuid_no w \<and> world.more w' = world.more w)"

lemma same_env_refl [simp]: "same_env w w"
  by (simp add: same_env_def)

lemma same_env_trans [trans]: "same_env w1 w2 \<Longrightarrow> same_env w2 w3 \<Longrightarrow> same_env w1 w3"
  by (simp add: same_env_def)

text \<open>What the operation itself raises or returns is what the caller gets.\<close>

lemma execute_loop_transparent:
  assumes "execute_loop c dl func operation started attempt left w = (r, w')"
    and "0 < left" and "int attempt + int left = rt_max_attempts c + 1"
  shows "\<exists>w1 w2. func w1 = (r, w2)"
  using assms
proof (induction left arbitrary: attempt w)
  case 0
  then show ?case by simp
next
  case (Suc left)
  define w1 where "w1 = snd (record_attempt operation w)"
  have w1: "record_attempt operation w = (Inr (), w1)"
    by (simp add: w1_def record_attempt_def prog_simps)
  show ?case
  proof (cases "func w1")
    case (Pair q w2)
    show ?thesis
    proof (cases q)
      case (Inr x)
      with Pair Suc.prems(1) w1 have "r = Inr x"
        by (auto simp: prog_simps retry_defs)
      with Pair Inr show ?thesis by blast
    next
      case (Inl e)
      show ?thesis
      proof (cases "\<exists>w3. execute_loop c dl func operation started (Suc attempt) left w3 = (r, w')
          \<and> int attempt < rt_max_attempts c")
        case True
        then obtain w3 where w3: "execute_loop c dl func operation started (Suc attempt) left w3 = (r, w')"
          and less: "int attempt < rt_max_attempts c" by blast
        from Suc.IH [OF w3] less Suc.prems(3) show ?thesis by simp
      next
        case False
        with Pair Inl Suc.prems(1) w1 have "r = Inl e"
          by (auto simp: prog_simps retry_defs split: if_splits option.splits)
        with Pair Inl show ?thesis by blast
      qed
    qed
  qed
qed

text \<open>The sleeps of the loop.\<close>

definition keeps_sleep_env :: "(('s, 'z) world_scheme, 'a) prog \<Rightarrow> bool" where
  "keeps_sleep_env func = (\<forall>w. w_slept (snd (func w)) = w_slept w \<and> w_rnd (snd (func w)) = w_rnd w)"

lemma execute_loop_sleeps:
  assumes "execute_loop c dl func operation started attempt left w = (r, w')"
    and "keeps_sleep_env func" and "\<forall>n. 0 \<le> w_rnd w n \<and> w_rnd w n < 1"
    and "int attempt + int left = rt_max_attempts c + 1" and "1 \<le> attempt"
    and "0 \<le> rt_base_delay_s c" and "0 \<le> rt_max_delay_s c"
  shows "\<exists>ds. w_slept w' = w_slept w @ ds \<and> (left > 0 \<longrightarrow> length ds < left) \<and> (left = 0 \<longrightarrow> ds = []) \<and>
    (\<forall>i < length ds. 0 \<le> ds ! i \<and> ds ! i \<le> compute_delay_cap c (attempt + i))"
  using assms
proof (induction left arbitrary: attempt w)
  case 0
  then show ?case by (auto simp: prog_simps)
next
  case (Suc left)
  define w1 where "w1 = snd (record_attempt operation w)"
  have w1: "record_attempt operation w = (Inr (), w1)" and sl1: "w_slept w1 = w_slept w"
    and rn1: "w_rnd w1 = w_rnd w"
    by (simp_all add: w1_def record_attempt_def prog_simps)
  obtain q w2 where f: "func w1 = (q, w2)" by (cases "func w1")
  have sl2: "w_slept w2 = w_slept w" and rn2: "w_rnd w2 = w_rnd w"
    using Suc.prems(2) f sl1 rn1 by (auto simp: keeps_sleep_env_def dest: spec [of _ w1])
  define d where "d = compute_delay_cap c attempt * w_rnd w2 (w_rnd_no w2)"
  have cap0: "0 \<le> compute_delay_cap c attempt"
    using Suc.prems(6,7) by (simp add: compute_delay_cap_def)
  have d: "0 \<le> d" "d \<le> compute_delay_cap c attempt"
    using cap0 Suc.prems(3) rn2 unfolding d_def
    by (auto intro: mult_left_le less_imp_le)
  show ?case
  proof (cases "\<exists>w3. execute_loop c dl func operation started (Suc attempt) left w3 = (r, w')
      \<and> w_slept w3 = w_slept w @ [d] \<and> w_rnd w3 = w_rnd w \<and> int attempt < rt_max_attempts c")
    case True
    then obtain w3 where w3: "execute_loop c dl func operation started (Suc attempt) left w3 = (r, w')"
      and sl3: "w_slept w3 = w_slept w @ [d]" and rn3: "w_rnd w3 = w_rnd w"
      and less: "int attempt < rt_max_attempts c" by blast
    have pos: "0 < left" using less Suc.prems(4) by simp
    obtain ds where ds: "w_slept w' = w_slept w @ d # ds" "length ds < left"
      "\<forall>i < length ds. 0 \<le> ds ! i \<and> ds ! i \<le> compute_delay_cap c (Suc attempt + i)"
      using Suc.IH [OF w3 Suc.prems(2)] Suc.prems(3-7) rn3 sl3 pos by auto
    show ?thesis
      using ds d by (intro exI [of _ "d # ds"]) (auto simp: nth_Cons split: nat.splits)
  next
    case False
    have "w_slept w' = w_slept w"
    proof (rule ccontr)
      assume neq: "w_slept w' \<noteq> w_slept w"
      with Suc.prems(1) w1 f sl2 rn2 False show False
        by (auto simp: prog_simps retry_defs d_def mult.commute
            split: if_splits option.splits sum.splits)
    qed
    then show ?thesis by (intro exI [of _ "[]"]) simp
  qed
qed

end
