(* ===== verification/Retry_Correct.thy ===== *)
theory Retry_Correct
  imports Retry Redis_Store Demo_World
begin

text \<open>
  The properties of the retry loop: the bounds of the backoff, the deadline, and the refinement of
  a plain reference loop on the store; and the rules by which the components that call the store
  through \<open>retrying\<close> reason about it.
\<close>

section \<open>Rules\<close>

definition retry_valid :: "ctx \<Rightarrow> bool" where
  "retry_valid cx = (1 \<le> RETRY_MAX_ATTEMPTS cx \<and> 0 \<le> RETRY_BASE_DELAY_MS cx \<and> 0 \<le> RETRY_MAX_DELAY_MS cx)"

definition retry_config_of :: "ctx \<Rightarrow> retry_config" where
  "retry_config_of cx = \<lparr>rt_max_attempts = RETRY_MAX_ATTEMPTS cx,
     rt_base_delay_s = RETRY_BASE_DELAY_MS cx / 1000, rt_max_delay_s = RETRY_MAX_DELAY_MS cx / 1000,
     rt_retryable = default_retryable\<rparr>"

lemma retrying_valid:
  "retry_valid cx \<Longrightarrow> retrying cx req func operation =
     execute (retry_config_of cx) (build_request_deadline cx req) func operation"
  by (simp add: retrying_def build_retry_config_def retry_config_post_init_def retry_valid_def
      retry_config_of_def)

lemma retrying_invalid:
  "\<not> retry_valid cx \<Longrightarrow> \<exists>m. retrying cx req func operation w = (Inl (ValueError m), w)"
  by (auto simp: retrying_def build_retry_config_def retry_config_post_init_def retry_valid_def
      prog_simps)

text \<open>The world in which the operation is attempted first, and the one after its success.\<close>

definition attempt_world :: "string \<Rightarrow> ('s, 'z) world_scheme \<Rightarrow> ('s, 'z) world_scheme" where
  "attempt_world operation w = snd (thn py_time (record_attempt operation) w)"

lemma attempt_world_view [simp]:
  "w_redis (attempt_world operation w) = w_redis w"
  "w_now (attempt_world operation w) = w_now w + w_ticks w (w_tick_no w)"
  "w_ticks (attempt_world operation w) = w_ticks w"
  "w_slept (attempt_world operation w) = w_slept w"
  "w_rnd (attempt_world operation w) = w_rnd w"
  "w_uuids (attempt_world operation w) = w_uuids w"
  "w_uuid_no (attempt_world operation w) = w_uuid_no w"
  "world.more (attempt_world operation w) = world.more w"
  by (simp_all add: attempt_world_def record_attempt_def prog_simps)

text \<open>If the first attempt answers, \<open>retrying\<close> answers the same and leaves the store as it left it.\<close>

lemma retrying_first:
  assumes "retry_valid cx" and "func (attempt_world operation w) = (Inr x, w2)"
  shows "\<exists>w3. retrying cx req func operation w = (Inr x, w3) \<and> w_redis w3 = w_redis w2 \<and>
    later w2 w3 \<and> w_uuid_no w3 = w_uuid_no w2 \<and> w_slept w3 = w_slept w2"
proof -
  obtain m where m: "nat (rt_max_attempts (retry_config_of cx)) = Suc m"
    using assms(1) by (cases "nat (rt_max_attempts (retry_config_of cx))")
      (auto simp: retry_valid_def retry_config_of_def)
  obtain t w1 where t: "py_time w = (Inr t, w1)" by (simp add: py_time_def Let_def)
  have "attempt_world operation w = snd (record_attempt operation w1)"
    by (simp add: attempt_world_def thn_def bnd_def t)
  then have "record_attempt operation w1 = (Inr (), attempt_world operation w)"
    by (simp add: record_attempt_def prog_simps)
  then show ?thesis
    using assms(2) t
    by (auto simp: retrying_valid [OF assms(1)] execute_def m later_def mono_ticks_def record_success_def
        bnd_def thn_def try_else_def py_time_def metric_inc_def metric_add_def metric_observe_def
        modw_def ret_def Let_def)
qed

lemma retrying_redis:
  assumes "retry_valid cx" and "mono_ticks w"
    and "\<And>t. w_now w \<le> t \<Longrightarrow> \<exists>x s. cmd t (w_redis w) = (Inr x, s)"
  shows "\<exists>t x s w'. w_now w \<le> t \<and> cmd t (w_redis w) = (Inr x, s) \<and>
    retrying cx req (redis_call cmd) operation w = (Inr x, w') \<and> w_redis w' = s \<and> later w w' \<and>
    t \<le> w_now w' \<and> w_uuid_no w' = w_uuid_no w \<and> w_slept w' = w_slept w"
proof -
  let ?a = "attempt_world operation w"
  have le: "w_now w \<le> w_now ?a" using assms(2) by (simp add: mono_ticks_def)
  obtain x s where c: "cmd (w_now ?a) (w_redis w) = (Inr x, s)" using assms(3) [OF le] by blast
  have "redis_call cmd ?a = (Inr x, ?a\<lparr>w_redis := s\<rparr>)"
    using c by (simp add: redis_call_def)
  from retrying_first [where func = "redis_call cmd" and w = w and operation = operation, OF assms(1) this, of req] obtain w3 where w3:
    "retrying cx req (redis_call cmd) operation w = (Inr x, w3)" "w_redis w3 = s"
    "later (?a\<lparr>w_redis := s\<rparr>) w3" "w_uuid_no w3 = w_uuid_no w" "w_slept w3 = w_slept w"
    by auto
  have "later w (?a\<lparr>w_redis := s\<rparr>)" using le by (simp add: later_def)
  with w3(3) have "later w w3" by (rule later_trans [rotated])
  moreover have "w_now ?a \<le> w_now w3"
    using w3(3) assms(2) by (simp add: later_def mono_ticks_def)
  ultimately show ?thesis using c le w3 by blast
qed

text \<open>A store property that every attempt keeps is kept by the whole loop.\<close>

definition store_only :: "(('s, 'z) world_scheme \<Rightarrow> bool) \<Rightarrow> bool" where
  "store_only P = (\<forall>w w'. w_redis w' = w_redis w \<and> world.more w' = world.more w \<longrightarrow> P w \<longrightarrow> P w')"

lemma keeps_store_only:
  assumes "store_only P" and "\<And>w. w_redis (snd (m w)) = w_redis w \<and> world.more (snd (m w)) = world.more w"
  shows "keeps P m"
  using assms by (auto simp: keeps_def store_only_def)

lemma keeps_bookkeeping [prog_intros]:
  assumes "store_only P"
  shows "keeps P py_time" "keeps P (py_sleep d)" "keeps P (py_uniform a b)" "keeps P (record_attempt s)"
    "keeps P (record_success s r)" "keeps P (record_failure s n r)" "keeps P (log_line ev lv fs)"
    "keeps P (metric_inc n ls)" "keeps P (metric_set n ls v)" "keeps P (metric_observe n ls v)"
    "keeps P py_uuid" "keeps P (metric_dec n ls)"
  by (rule keeps_store_only [OF assms], simp add: record_attempt_def record_success_def
      record_failure_def prog_simps)+

lemma keeps_execute_loop:
  assumes "store_only P" and "keeps P func"
  shows "keeps P (execute_loop c dl func operation started attempt left)"
proof (induction left arbitrary: attempt)
  case 0
  then show ?case by (simp add: keeps_raise)
next
  case (Suc left)
  then show ?case
    using assms
    by (auto intro!: prog_intros simp: log_exhausted_def log_attempt_def give_up_def remaining_opt_def
        remaining_seconds_def deadline_blocks_def can_wait_def split: option.split)
qed

lemma keeps_retrying [prog_intros]:
  assumes "store_only P" and "keeps P func"
  shows "keeps P (retrying cx req func operation)"
proof (cases "retry_valid cx")
  case True
  then show ?thesis
    by (auto simp: retrying_valid execute_def assms intro!: prog_intros keeps_execute_loop)
next
  case False
  show ?thesis
  proof (rule keepsI)
    fix w assume "P w"
    then show "P (snd (retrying cx req func operation w))"
      using retrying_invalid [OF False, of req func operation w] by auto
  qed
qed

text \<open>What the loop does with a transient error of an attempt, and how it gives up.\<close>

definition attempt_failed ::
  "retry_config \<Rightarrow> rat option \<Rightarrow> (('s, 'z) world_scheme, 'a) prog \<Rightarrow> string \<Rightarrow> rat \<Rightarrow> nat \<Rightarrow> nat \<Rightarrow> exn \<Rightarrow>
   (('s, 'z) world_scheme, 'a) prog" where
  "attempt_failed c dl func operation started attempt left e =
     (if int attempt \<ge> rt_max_attempts c then
        thn (log_exhausted c dl operation attempt e ''max_attempts'' None) (give_up operation started e)
      else
        bnd (py_uniform 0 (compute_delay_cap c attempt)) (\<lambda>sleep_s.
        bnd (deadline_blocks dl sleep_s) (\<lambda>blocked.
        if blocked then
          thn (log_exhausted c dl operation attempt e ''deadline'' (Some sleep_s))
          (give_up operation started e)
        else
          thn (log_attempt c dl operation attempt e sleep_s)
          (thn (py_sleep sleep_s)
          (execute_loop c dl func operation started (Suc attempt) left)))))"

lemma retrying_first_failed:
  assumes "retry_valid cx" and "func (attempt_world operation w) = (Inl e, w2)" and "default_retryable e"
  shows "\<exists>started m. retrying cx req func operation w =
    attempt_failed (retry_config_of cx) (build_request_deadline cx req) func operation started 1 m e w2"
proof -
  obtain m where m: "nat (rt_max_attempts (retry_config_of cx)) = Suc m"
    using assms(1) by (cases "nat (rt_max_attempts (retry_config_of cx))")
      (auto simp: retry_valid_def retry_config_of_def)
  obtain t w1 where t: "py_time w = (Inr t, w1)" by (simp add: py_time_def Let_def)
  have "attempt_world operation w = snd (record_attempt operation w1)"
    by (simp add: attempt_world_def thn_def bnd_def t)
  then have ra: "record_attempt operation w1 = (Inr (), attempt_world operation w)"
    by (simp add: record_attempt_def prog_simps)
  show ?thesis
    using assms(2,3) m
    by (intro exI [of _ t] exI [of _ m])
      (simp add: retrying_valid [OF assms(1)] execute_def bnd_def [of py_time] t thn_def
        bnd_def [of "record_attempt operation"] ra try_else_def attempt_failed_def retry_config_of_def)
qed

lemma exhausted_gives_up:
  "\<exists>w'. thn (log_exhausted c dl operation attempt e reason nd) (give_up operation started e) w = (Inl e, w') \<and>
     w_slept w' = w_slept w \<and> w_redis w' = w_redis w \<and>
     w_counters w' (''RETRY_ATTEMPT_TOTAL'', ls) = w_counters w (''RETRY_ATTEMPT_TOTAL'', ls)"
  by (cases dl) (simp_all add: retry_defs prog_simps)

lemma deadline_passed:
  assumes "d \<le> w_now w" and "mono_ticks w"
  shows "\<exists>w'. deadline_blocks (Some d) s w = (Inr True, w') \<and> w_slept w' = w_slept w \<and>
    w_redis w' = w_redis w \<and> w_counters w' = w_counters w"
proof -
  have "d - (w_now w + w_ticks w (w_tick_no w)) \<le> 0"
    using assms by (simp add: mono_ticks_def add_increasing2)
  then show ?thesis
    by (simp add: deadline_blocks_def can_wait_def remaining_seconds_def prog_simps)
qed

section \<open>Properties\<close>

text \<open>
  C9. Bounded work and full jitter: whatever the operation does, \<open>retrying\<close> sleeps at most
  \<open>max_attempts - 1\<close> times, and the sleep after attempt \<open>i\<close> lies between 0 and
  \<open>min(max_delay, base_delay * 2^(i-1))\<close>.
\<close>

theorem retry_backoff_bounds:
  assumes "retrying cx req func operation w = (r, w')"
    and "keeps_sleep_env func" and "\<forall>n. 0 \<le> w_rnd w n \<and> w_rnd w n < 1"
  shows "\<exists>ds. w_slept w' = w_slept w @ ds \<and> length ds \<le> nat (RETRY_MAX_ATTEMPTS cx) - 1 \<and>
    (\<forall>i < length ds. 0 \<le> ds ! i \<and>
       ds ! i \<le> min (RETRY_MAX_DELAY_MS cx / 1000) (RETRY_BASE_DELAY_MS cx / 1000 * 2 ^ i))"
proof (cases "retry_valid cx")
  case False
  with retrying_invalid assms(1) have "w' = w" by (metis prod.inject)
  then show ?thesis by (intro exI [of _ "[]"]) simp
next
  case True
  let ?c = "retry_config_of cx" and ?n = "nat (RETRY_MAX_ATTEMPTS cx)"
  define w1 where "w1 = snd (py_time w)"
  obtain t where t: "py_time w = (Inr t, w1)" by (simp add: w1_def py_time_def Let_def)
  have same: "w_slept w1 = w_slept w" "w_rnd w1 = w_rnd w"
    by (simp_all add: w1_def py_time_def Let_def)
  have run: "execute_loop ?c (build_request_deadline cx req) func operation t 1 ?n w1 = (r, w')"
    using assms(1) by (simp add: retrying_valid [OF True] execute_def bnd_def t retry_config_of_def)
  have "\<exists>ds. w_slept w' = w_slept w1 @ ds \<and> (?n > 0 \<longrightarrow> length ds < ?n) \<and> (?n = 0 \<longrightarrow> ds = []) \<and>
    (\<forall>i < length ds. 0 \<le> ds ! i \<and> ds ! i \<le> compute_delay_cap ?c (1 + i))"
    using True by (intro execute_loop_sleeps [OF run assms(2)])
      (simp_all add: same assms(3) retry_valid_def retry_config_of_def)
  then obtain ds where "w_slept w' = w_slept w @ ds" "length ds \<le> ?n - 1"
    "\<forall>i < length ds. 0 \<le> ds ! i \<and> ds ! i \<le> compute_delay_cap ?c (1 + i)"
    using same True by (auto simp: retry_valid_def)
  then show ?thesis
    by (intro exI [of _ ds]) (simp add: compute_delay_cap_def retry_config_of_def)
qed

definition failing_op :: "(fake world, unit) prog" where
  "failing_op = raise SocketTimeout"

lemma failing_run:
  "w_slept (snd (retrying demo_ctx None failing_op ''op'' demo_world)) = [1 / 400, 1 / 200]"
  by (simp add: retrying_def build_retry_config_def retry_config_post_init_def demo_ctx_def
      sync_legacy_attributes_def execute_def eval_nat_numeral failing_op_def prog_simps retry_defs
      build_request_deadline_def compute_delay_cap_def demo_world_def)

theorem retry_backoff_bounds_witness:
  "\<exists>w'. retrying demo_ctx None failing_op ''op'' demo_world = (fst (retrying demo_ctx None failing_op ''op'' demo_world), w')
     \<and> w_slept w' = [1 / 400, 1 / 200] \<and> length (w_slept w') \<le> 2"
proof -
  have "keeps_sleep_env failing_op"
    by (simp add: keeps_sleep_env_def failing_op_def prog_simps)
  moreover have "\<forall>n. 0 \<le> w_rnd demo_world n \<and> w_rnd demo_world n < 1" by (simp add: demo_world_def)
  ultimately obtain ds where "w_slept (snd (retrying demo_ctx None failing_op ''op'' demo_world)) = w_slept demo_world @ ds"
    "length ds \<le> nat (RETRY_MAX_ATTEMPTS demo_ctx) - 1"
    using retry_backoff_bounds [OF prod.collapse [symmetric]] by blast
  then have "length (w_slept (snd (retrying demo_ctx None failing_op ''op'' demo_world))) \<le> 2"
    by (simp add: demo_world_def demo_ctx_def sync_legacy_attributes_def)
  then show ?thesis using failing_run by (metis prod.collapse)
qed

text \<open>
  The request's deadline: when an attempt fails with a transient error at or after the
  deadline, it is the last one: its error is raised, with no sleep and no further attempt.
\<close>

theorem retry_stops_at_deadline:
  assumes "retry_valid cx" and "build_request_deadline cx req = Some d"
    and "func (attempt_world operation w) = (Inl e, w2)" and "default_retryable e"
    and "d \<le> w_now w2" and "mono_ticks w2"
  shows "\<exists>w'. retrying cx req func operation w = (Inl e, w') \<and> w_slept w' = w_slept w2 \<and>
    w_redis w' = w_redis w2 \<and>
    w_counters w' (''RETRY_ATTEMPT_TOTAL'', [(''operation'', operation)])
      = w_counters w2 (''RETRY_ATTEMPT_TOTAL'', [(''operation'', operation)])"
proof -
  let ?c = "retry_config_of cx"
  obtain started m where run: "retrying cx req func operation w =
      attempt_failed ?c (Some d) func operation started 1 m e w2"
    using retrying_first_failed [where func = func, OF assms(1,3,4), of req] assms(2) by auto
  show ?thesis
  proof (cases "1 \<ge> rt_max_attempts ?c")
    case True
    then show ?thesis
      unfolding run using exhausted_gives_up [of ?c "Some d" operation 1 e "''max_attempts''" None started w2]
      by (simp add: attempt_failed_def)
  next
    case False
    define s where "s = compute_delay_cap ?c 1 * w_rnd w2 (w_rnd_no w2)"
    have u: "py_uniform 0 (compute_delay_cap ?c 1) w2 = (Inr s, w2\<lparr>w_rnd_no := Suc (w_rnd_no w2)\<rparr>)"
      by (simp add: prog_simps s_def)
    obtain w3 where b: "deadline_blocks (Some d) s (w2\<lparr>w_rnd_no := Suc (w_rnd_no w2)\<rparr>) = (Inr True, w3)"
      "w_slept w3 = w_slept w2" "w_redis w3 = w_redis w2" "w_counters w3 = w_counters w2"
      using deadline_passed [of d "w2\<lparr>w_rnd_no := Suc (w_rnd_no w2)\<rparr>" s] assms(5,6)
      by (auto simp: mono_ticks_def)
    have "retrying cx req func operation w = thn (log_exhausted ?c (Some d) operation 1 e ''deadline'' (Some s))
        (give_up operation started e) w3"
      unfolding run attempt_failed_def using False by (simp add: bnd_def u b(1) del: One_nat_def)
    then show ?thesis
      using exhausted_gives_up [of ?c "Some d" operation 1 e "''deadline''" "Some s" started w3] b by simp
  qed
qed

theorem retry_stops_at_deadline_witness:
  "\<exists>w'. retrying (demo_ctx\<lparr>BUSINESS_TIMEOUT_MS := 1\<rparr>) (Some (demo_request\<lparr>rq_start_time := Some 1\<rparr>))
     failing_op ''op'' demo_world = (Inl SocketTimeout, w') \<and> w_slept w' = []"
proof -
  let ?cx = "demo_ctx\<lparr>BUSINESS_TIMEOUT_MS := 1\<rparr>" and ?rq = "demo_request\<lparr>rq_start_time := Some 1\<rparr>"
  have a: "retry_valid ?cx" "build_request_deadline ?cx (Some ?rq) = Some (1 + 1 / 1000)"
    by (simp_all add: retry_valid_def demo_ctx_def sync_legacy_attributes_def build_request_deadline_def)
  have b: "failing_op (attempt_world ''op'' demo_world) = (Inl SocketTimeout, attempt_world ''op'' demo_world)"
    by (simp add: failing_op_def raise_def)
  have c: "default_retryable SocketTimeout" "mono_ticks (attempt_world ''op'' demo_world)"
    "1 + 1 / 1000 \<le> w_now (attempt_world ''op'' demo_world)" "w_slept demo_world = []"
    by (simp_all add: mono_ticks_def) (simp_all add: demo_world_def)
  from retry_stops_at_deadline [where func = failing_op, OF a b c(1,3,2)] c(4) show ?thesis by auto
qed

text \<open>
  Refinement: for an operation that acts on the store alone, \<open>retrying\<close> without a deadline does
  to the store and answers what the plain loop "run again on a transient error, at most
  \<open>max_attempts\<close> times" does; clocks, sleeps, metrics and logs have no influence.
\<close>

fun retry_reference :: "nat \<Rightarrow> ('s \<Rightarrow> (exn + 'a) \<times> 's) \<Rightarrow> 's \<Rightarrow> (exn + 'a) \<times> 's" where
  "retry_reference 0 g s = g s"
| "retry_reference (Suc n) g s = (case g s of
     (Inr x, s') \<Rightarrow> (Inr x, s')
   | (Inl e, s') \<Rightarrow> if default_retryable e then retry_reference n g s' else (Inl e, s'))"

definition store_view :: "(exn + 'a) \<times> ('s, 'z) world_scheme \<Rightarrow> (exn + 'a) \<times> 's" where
  "store_view res = (fst res, w_redis (snd res))"

lemma execute_loop_reference:
  assumes "\<And>w. store_view (func w) = g (w_redis w)"
    and "int attempt + int n = rt_max_attempts c" and "rt_retryable c = default_retryable"
  shows "store_view (execute_loop c None func operation started attempt (Suc n) w)
    = retry_reference n g (w_redis w)"
  using assms(2)
proof (induction n arbitrary: attempt w)
  case 0
  define w1 where "w1 = snd (record_attempt operation w)"
  have w1: "record_attempt operation w = (Inr (), w1)" "w_redis w1 = w_redis w"
    by (simp_all add: w1_def record_attempt_def prog_simps)
  show ?case
    using 0 assms(1) [of w1] w1 assms(3)
    by (cases "func w1"; cases "fst (func w1)")
      (auto simp: store_view_def prog_simps retry_defs split: option.splits)
next
  case (Suc n)
  define w1 where "w1 = snd (record_attempt operation w)"
  have w1: "record_attempt operation w = (Inr (), w1)" "w_redis w1 = w_redis w"
    by (simp_all add: w1_def record_attempt_def prog_simps)
  have less: "\<not> int attempt \<ge> rt_max_attempts c" using Suc.prems by simp
  obtain q w2 where f: "func w1 = (q, w2)" by (cases "func w1")
  then have g: "g (w_redis w) = (q, w_redis w2)" using assms(1) [of w1] w1 by (simp add: store_view_def)
  show ?case
  proof (cases q)
    case (Inr x)
    then show ?thesis using f g w1 by (simp add: store_view_def prog_simps retry_defs)
  next
    case (Inl e)
    show ?thesis
    proof (cases "default_retryable e")
      case True
      have IH: "store_view (execute_loop c None func operation started (Suc attempt) (Suc n) w3)
          = retry_reference n g (w_redis w3)" for w3
        using Suc.IH [of "Suc attempt" w3] Suc.prems by simp
      have "\<exists>w3. execute_loop c None func operation started attempt (Suc (Suc n)) w
          = execute_loop c None func operation started (Suc attempt) (Suc n) w3 \<and> w_redis w3 = w_redis w2"
        using Inl f w1 True less assms(3)
        by (simp add: prog_simps retry_defs del: execute_loop.simps(2) add: execute_loop.simps(2) [of _ _ _ _ _ attempt])
          (rule exI, rule conjI, rule refl, simp)
      with IH show ?thesis using Inl g True by auto
    next
      case False
      then show ?thesis using Inl f g w1 assms(3) by (simp add: store_view_def prog_simps retry_defs)
    qed
  qed
qed

theorem retry_refines_reference:
  assumes "retry_valid cx" and "build_request_deadline cx req = None"
    and "\<And>w. store_view (func w) = g (w_redis w)"
  shows "store_view (retrying cx req func operation w)
    = retry_reference (nat (RETRY_MAX_ATTEMPTS cx) - 1) g (w_redis w)"
proof -
  let ?n = "nat (RETRY_MAX_ATTEMPTS cx) - 1"
  have n: "nat (rt_max_attempts (retry_config_of cx)) = Suc ?n" "int 1 + int ?n = rt_max_attempts (retry_config_of cx)"
    using assms(1) by (auto simp: retry_valid_def retry_config_of_def of_nat_diff)
  have r: "rt_retryable (retry_config_of cx) = default_retryable" by (simp add: retry_config_of_def)
  obtain t w1 where t: "py_time w = (Inr t, w1)" "w_redis w1 = w_redis w" by (simp add: py_time_def Let_def)
  show ?thesis
    using execute_loop_reference [where func = func and g = g, OF assms(3) n(2) r, of operation t w1] t
    by (simp add: retrying_valid [OF assms(1)] execute_def bnd_def [of py_time] assms(2) n(1)
        del: execute_loop.simps One_nat_def)
qed

theorem retry_refines_reference_witness:
  "fst (retrying demo_ctx None (redis_call (r_ping fake_redis)) ''op'' broken_world)
     = Inl (RedisError RConnection)"
proof -
  have a: "retry_valid demo_ctx" "build_request_deadline demo_ctx None = None"
    by (simp_all add: retry_valid_def demo_ctx_def sync_legacy_attributes_def build_request_deadline_def)
  define g where "g = (\<lambda>s. case fake_ping 0 s of (Inl e, s') \<Rightarrow> (Inl (RedisError e) :: exn + unit, s')
    | (Inr x, s') \<Rightarrow> (Inr x, s'))"
  have g: "store_view (redis_call (r_ping fake_redis) w) = g (w_redis w)" for w :: "fake world"
    by (simp add: store_view_def redis_call_def g_def fake_redis_sel fake_ping_def ensure_available_def)
  have "store_view (retrying demo_ctx None (redis_call (r_ping fake_redis)) ''op'' broken_world)
      = retry_reference (nat (RETRY_MAX_ATTEMPTS demo_ctx) - 1) g (w_redis broken_world)"
    by (rule retry_refines_reference [where g = g and func = "redis_call (r_ping fake_redis)", OF a g])
  moreover have "fst (retry_reference (nat (RETRY_MAX_ATTEMPTS demo_ctx) - 1) g (w_redis broken_world))
      = Inl (RedisError RConnection)"
    by (simp add: demo_defs eval_nat_numeral g_def fake_ping_def ensure_available_def fake_empty_def)
  ultimately show ?thesis by (metis fst_conv store_view_def)
qed

end
