(* ===== verification/Breaker.thy ===== *)
theory Breaker
  imports Rate_Limiter Retry
begin

text \<open>
  The circuit breaker, \<open>chaos_service/resilience/breaker\<close>: the rule, the Redis-backed storage with
  its Lua script, the metrics, and the breaker object; and the helpers of
  \<open>chaos_service/resilience/__init__.py\<close>. A breaker object is made per request: its two mutable
  attributes are a record that the methods take and return. All sharing between requests goes
  through the store.
\<close>

section \<open>Rule\<close>

datatype circuit_state = CLOSED | OPEN | HALF_OPEN

fun state_text :: "circuit_state \<Rightarrow> string" where
  "state_text CLOSED = ''closed''"
| "state_text OPEN = ''open''"
| "state_text HALF_OPEN = ''half_open''"

record circuit_breaker_rule =
  cbr_resource :: string
  cbr_failure_rate_threshold :: rat
  cbr_min_request_count :: int
  cbr_window_seconds :: int
  cbr_open_timeout_seconds :: int

definition circuit_breaker_rule_post_init :: "circuit_breaker_rule \<Rightarrow> ('w, circuit_breaker_rule) prog" where
  "circuit_breaker_rule_post_init r =
     (if cbr_resource r = [] then raise (ValueError ''resource must not be empty'')
      else if \<not> (0 \<le> cbr_failure_rate_threshold r \<and> cbr_failure_rate_threshold r \<le> 1)
        then raise (ValueError ''failure_rate_threshold must be in [0, 1]'')
      else if cbr_min_request_count r < 1 then raise (ValueError ''min_request_count must be >= 1'')
      else if cbr_window_seconds r < 1 then raise (ValueError ''window_seconds must be >= 1'')
      else if cbr_open_timeout_seconds r < 1 then raise (ValueError ''open_timeout_seconds must be >= 1'')
      else ret r)"

definition legacy_resource :: "ctx \<Rightarrow> string" where
  "legacy_resource cx = or_default (strip (BREAKER_RESOURCE cx)) ''order''"

definition build_default_breaker_rule :: "ctx \<Rightarrow> ('w, circuit_breaker_rule) prog" where
  "build_default_breaker_rule cx = circuit_breaker_rule_post_init
     \<lparr>cbr_resource = legacy_resource cx,
      cbr_failure_rate_threshold = BREAKER_FAILURE_RATE_THRESHOLD cx,
      cbr_min_request_count = MIN_REQUEST_AMOUNT cx,
      cbr_window_seconds = BREAKER_WINDOW_SEC cx, cbr_open_timeout_seconds = BREAKER_OPEN_SEC cx\<rparr>"

section \<open>Storage\<close>

record cb_keys =
  ck_open_until :: string
  ck_failures :: string
  ck_totals :: string
  ck_probe :: string

definition cb_normalize :: "string \<Rightarrow> string" where
  "cb_normalize value =
     or_default (replace_char CHR '':'' CHR ''_'' (replace_char CHR ''/'' CHR ''_''
                   (replace_char CHR '' '' CHR ''_'' (strip value)))) ''unknown''"

definition cb_keys_of :: "ctx \<Rightarrow> circuit_breaker_rule \<Rightarrow> cb_keys" where
  "cb_keys_of cx rule =
     (if cbr_resource rule = legacy_resource cx then
        \<lparr>ck_open_until = CB_KEY_OPEN_UNTIL cx, ck_failures = CB_KEY_FAILURES cx,
         ck_totals = CB_KEY_TOTAL_REQUESTS cx, ck_probe = CB_KEY_PROBE cx\<rparr>
      else
        let resource = cb_normalize (cbr_resource rule) in
        \<lparr>ck_open_until = ''cb:open_until:'' @ resource, ck_failures = ''cb:failures:'' @ resource,
         ck_totals = ''cb:total_requests:'' @ resource, ck_probe = ''cb:probe:'' @ resource\<rparr>)"

record window_snapshot =
  sn_failure_count :: int
  sn_total_request_count :: int
  sn_failure_rate :: rat

record record_result =
  cr_opened :: bool
  cr_open_until :: rat
  cr_snapshot :: window_snapshot

definition failure_rate_of :: "nat \<Rightarrow> nat \<Rightarrow> rat" where
  "failure_rate_of f n = (if n > 0 then of_nat f / of_nat n else 0)"

text \<open>\<open>tonumber(redis.call('GET', k) or '0')\<close>; \<open>None\<close> is Lua's \<open>nil\<close>.\<close>

definition lua_tonumber :: "rval option \<Rightarrow> rat option" where
  "lua_tonumber raw = (case raw of None \<Rightarrow> Some 0 | Some v \<Rightarrow> rval_float v)"

text \<open>
  \<open>circuit_breaker.lua\<close>, first its end: with the counts known, it opens the breaker or not. Comparing
  \<open>nil\<close> with a number is a script error; a \<open>nil\<close> at the end of the returned table ends the reply.
\<close>

definition circuit_breaker_decide ::
  "'s redis_ops \<Rightarrow> cb_keys \<Rightarrow> rat \<Rightarrow> circuit_breaker_rule \<Rightarrow> nat \<Rightarrow> nat \<Rightarrow> rat option \<Rightarrow> ('s, rat list) lua" where
  "circuit_breaker_decide R ks now rule f n current =
     (let rate = failure_rate_of f n; answer = map (r_lua_reply R) in
      if int n \<ge> cbr_min_request_count rule \<and> rate \<ge> cbr_failure_rate_threshold rule then
        (case current of
           None \<Rightarrow> (\<lambda>t s. (Inl (ROther ''ResponseError''), s))
         | Some cur \<Rightarrow>
             if cur \<le> now then
               let next_open_until = now + of_int (cbr_open_timeout_seconds rule) in
               lua_thn (r_set R (ck_open_until ks) (RNum (r_lua_text R next_open_until)) None False)
               (lua_ret (answer [1, of_nat f, of_nat n, rate, next_open_until]))
             else lua_ret (answer [0, of_nat f, of_nat n, rate, cur]))
      else
        lua_ret (answer ([0, of_nat f, of_nat n, rate] @
          (case current of None \<Rightarrow> [] | Some cur \<Rightarrow> [cur]))))"

definition circuit_breaker_lua ::
  "'s redis_ops \<Rightarrow> cb_keys \<Rightarrow> string \<Rightarrow> rat \<Rightarrow> circuit_breaker_rule \<Rightarrow> int \<Rightarrow> string \<Rightarrow> string \<Rightarrow>
   ('s, rat list) lua" where
  "circuit_breaker_lua R ks action now rule ttl total_member failure_member =
      lua_thn (r_zremrangebyscore R (ck_failures ks) (now - of_int (cbr_window_seconds rule)))
     (lua_thn (r_zremrangebyscore R (ck_totals ks) (now - of_int (cbr_window_seconds rule)))
     (lua_thn (r_zadd R (ck_totals ks) now total_member)
     (lua_thn (r_expire R (ck_totals ks) ttl)
     (lua_thn (lua_when (action = ''failure'')
         (lua_thn (r_zadd R (ck_failures ks) now failure_member)
         (lua_thn (r_expire R (ck_failures ks) ttl) (lua_ret ()))))
     (lua_bnd (r_zcard R (ck_failures ks)) (\<lambda>f.
      lua_bnd (r_zcard R (ck_totals ks)) (\<lambda>n.
      lua_bnd (r_get R (ck_open_until ks)) (\<lambda>raw.
      circuit_breaker_decide R ks now rule f n (lua_tonumber raw)))))))))"

text \<open>\<open>_read\<close>: a read under the retry policy.\<close>

definition cb_read ::
  "ctx \<Rightarrow> request option \<Rightarrow> (rat \<Rightarrow> 's \<Rightarrow> (redis_err + 'a) \<times> 's) \<Rightarrow> string \<Rightarrow> (('s, 'z) world_scheme, 'a) prog" where
  "cb_read cx req cmd operation = retrying cx req (redis_call cmd) operation"

definition cb_parse_open_until :: "rval option \<Rightarrow> rat" where
  "cb_parse_open_until raw =
     (case raw of
        None \<Rightarrow> 0
      | Some v \<Rightarrow> if v = RText [] then 0 else (case rval_float v of None \<Rightarrow> 0 | Some r \<Rightarrow> r))"

definition get_open_until ::
  "'s redis_ops \<Rightarrow> ctx \<Rightarrow> request option \<Rightarrow> circuit_breaker_rule \<Rightarrow> (('s, 'z) world_scheme, rat) prog" where
  "get_open_until R cx req rule =
     bnd (cb_read cx req (r_get R (ck_open_until (cb_keys_of cx rule))) ''circuit_get_open_until'')
       (\<lambda>raw. ret (cb_parse_open_until raw))"

definition is_probe_active ::
  "'s redis_ops \<Rightarrow> ctx \<Rightarrow> request option \<Rightarrow> circuit_breaker_rule \<Rightarrow> (('s, 'z) world_scheme, bool) prog" where
  "is_probe_active R cx req rule =
     bnd (cb_read cx req (r_get R (ck_probe (cb_keys_of cx rule))) ''circuit_get_probe'')
       (\<lambda>raw. ret (case raw of None \<Rightarrow> False | Some v \<Rightarrow> rval_nonempty v))"

definition cb_get_state ::
  "'s redis_ops \<Rightarrow> ctx \<Rightarrow> request option \<Rightarrow> circuit_breaker_rule \<Rightarrow> (('s, 'z) world_scheme, circuit_state) prog" where
  "cb_get_state R cx req rule =
     bnd py_time (\<lambda>now.
     bnd (get_open_until R cx req rule) (\<lambda>open_until.
     if open_until > now then ret OPEN
     else if open_until > 0 then ret HALF_OPEN
     else bnd (is_probe_active R cx req rule) (\<lambda>active.
          ret (if active then HALF_OPEN else CLOSED))))"

definition try_acquire_probe ::
  "'s redis_ops \<Rightarrow> ctx \<Rightarrow> circuit_breaker_rule \<Rightarrow> (('s, 'z) world_scheme, bool) prog" where
  "try_acquire_probe R cx rule =
     redis_call (r_set R (ck_probe (cb_keys_of cx rule)) (RText ''1'')
       (Some (CIRCUIT_PROBE_TTL_SEC cx)) True)"

definition cb_close ::
  "'s redis_ops \<Rightarrow> ctx \<Rightarrow> circuit_breaker_rule \<Rightarrow> (('s, 'z) world_scheme, unit) prog" where
  "cb_close R cx rule =
     (let ks = cb_keys_of cx rule in
      thn (redis_call (r_delete R [ck_probe ks, ck_failures ks, ck_totals ks]))
      (thn (redis_call (r_set R (ck_open_until ks) (RText ''0'') None False)) (ret ())))"

definition cb_reopen ::
  "'s redis_ops \<Rightarrow> ctx \<Rightarrow> circuit_breaker_rule \<Rightarrow> (('s, 'z) world_scheme, rat) prog" where
  "cb_reopen R cx rule =
     (let ks = cb_keys_of cx rule in
      bnd py_time (\<lambda>now.
      let open_until = now + of_int (cbr_open_timeout_seconds rule) in
      thn (redis_call (r_delete R [ck_probe ks]))
      (thn (redis_call (r_set R (ck_open_until ks) (RNum open_until) None False))
      (ret open_until))))"

definition cb_snapshot ::
  "'s redis_ops \<Rightarrow> ctx \<Rightarrow> circuit_breaker_rule \<Rightarrow> (('s, 'z) world_scheme, window_snapshot) prog" where
  "cb_snapshot R cx rule =
     (let ks = cb_keys_of cx rule in
      bnd py_time (\<lambda>now.
      let cutoff = now - of_int (cbr_window_seconds rule) in
      thn (redis_call (r_zremrangebyscore R (ck_failures ks) cutoff))
      (thn (redis_call (r_zremrangebyscore R (ck_totals ks) cutoff))
      (bnd (redis_call (r_zcard R (ck_failures ks))) (\<lambda>f.
       bnd (redis_call (r_zcard R (ck_totals ks))) (\<lambda>n.
       ret \<lparr>sn_failure_count = int f, sn_total_request_count = int n,
            sn_failure_rate = failure_rate_of f n\<rparr>))))))"

text \<open>Reading a script's reply by position.\<close>

definition reply_item :: "rat list \<Rightarrow> nat \<Rightarrow> ('w, rat) prog" where
  "reply_item raw i = (if i < length raw then ret (raw ! i)
     else raise (OtherError ''IndexError'' ''list index out of range''))"

definition cb_record_outcome ::
  "'s redis_ops \<Rightarrow> ctx \<Rightarrow> circuit_breaker_rule \<Rightarrow> string \<Rightarrow> (('s, 'z) world_scheme, record_result) prog" where
  "cb_record_outcome R cx rule action =
     (let ks = cb_keys_of cx rule in
      bnd py_time (\<lambda>now.
      let ttl = cbr_window_seconds rule + 2 in
      bnd py_uuid (\<lambda>u.
      let total_member = ''total:'' @ fixed6 now @ '':'' @ u in
      bnd (if action = ''failure'' then bnd py_uuid (\<lambda>v. ret (''failure:'' @ fixed6 now @ '':'' @ v))
           else ret []) (\<lambda>failure_member.
      bnd (redis_call (circuit_breaker_lua R ks action now rule ttl total_member failure_member)) (\<lambda>raw.
      bnd (reply_item raw 0) (\<lambda>opened.
      bnd (reply_item raw 1) (\<lambda>f.
      bnd (reply_item raw 2) (\<lambda>n.
      bnd (reply_item raw 3) (\<lambda>rate.
      bnd (reply_item raw 4) (\<lambda>open_until.
      ret \<lparr>cr_opened = (trunc opened \<noteq> 0), cr_open_until = open_until,
           cr_snapshot = \<lparr>sn_failure_count = trunc f, sn_total_request_count = trunc n,
                          sn_failure_rate = rate\<rparr>\<rparr>))))))))))"

section \<open>Metrics\<close>

definition state_labels :: "string \<Rightarrow> circuit_state \<Rightarrow> (string \<times> string) list" where
  "state_labels resource st = [(''resource'', resource), (''state'', state_text st)]"

fun state_value :: "circuit_state \<Rightarrow> rat" where
  "state_value CLOSED = 0"
| "state_value OPEN = 1"
| "state_value HALF_OPEN = 2"

definition cbm_set_state :: "string \<Rightarrow> circuit_state \<Rightarrow> (('s, 'z) world_scheme, unit) prog" where
  "cbm_set_state resource st =
     metric_set ''CIRCUIT_BREAKER_STATE'' [(''resource'', resource)] (state_value st)"

definition cbm_record_request :: "string \<Rightarrow> circuit_state \<Rightarrow> (('s, 'z) world_scheme, unit) prog" where
  "cbm_record_request resource st =
     thn (metric_inc ''CIRCUIT_BREAKER_REQUESTS_TOTAL'' (state_labels resource st))
     (cbm_set_state resource st)"

definition cbm_record_failure :: "string \<Rightarrow> circuit_state \<Rightarrow> (('s, 'z) world_scheme, unit) prog" where
  "cbm_record_failure resource st = metric_inc ''CIRCUIT_BREAKER_FAILURES_TOTAL'' (state_labels resource st)"

definition cbm_record_state_change :: "string \<Rightarrow> circuit_state \<Rightarrow> (('s, 'z) world_scheme, unit) prog" where
  "cbm_record_state_change resource st =
     metric_inc ''CIRCUIT_BREAKER_STATE_CHANGE_TOTAL'' (state_labels resource st)"

definition cbm_record_open :: "string \<Rightarrow> (('s, 'z) world_scheme, unit) prog" where
  "cbm_record_open resource = metric_inc ''CIRCUIT_BREAKER_OPEN_TOTAL'' (state_labels resource OPEN)"

definition cbm_record_fallback :: "string \<Rightarrow> circuit_state \<Rightarrow> (('s, 'z) world_scheme, unit) prog" where
  "cbm_record_fallback resource st = metric_inc ''CIRCUIT_BREAKER_FALLBACK_TOTAL'' (state_labels resource st)"

definition cbm_record_timeout :: "string \<Rightarrow> (('s, 'z) world_scheme, unit) prog" where
  "cbm_record_timeout resource = metric_inc ''CIRCUIT_BREAKER_TIMEOUT_TOTAL'' [(''resource'', resource)]"

definition cbm_record_rejected :: "string \<Rightarrow> circuit_state \<Rightarrow> (('s, 'z) world_scheme, unit) prog" where
  "cbm_record_rejected resource st = metric_inc ''CIRCUIT_BREAKER_REJECTED_TOTAL'' (state_labels resource st)"

definition cbm_record_recovery :: "string \<Rightarrow> rat \<Rightarrow> int \<Rightarrow> (('s, 'z) world_scheme, unit) prog" where
  "cbm_record_recovery resource open_until timeout_seconds =
     (if open_until \<le> 0 then ret ()
      else bnd py_time (\<lambda>now.
        metric_observe ''CIRCUIT_BREAKER_RECOVERY_SECONDS'' [(''resource'', resource)]
          (max (now - (open_until - of_int timeout_seconds)) 0)))"

section \<open>The breaker\<close>

record breaker =
  br_rule :: circuit_breaker_rule
  br_last_state :: circuit_state
  br_probe_acquired :: bool

definition build_circuit_breaker :: "ctx \<Rightarrow> ('w, breaker) prog" where
  "build_circuit_breaker cx =
     bnd (build_default_breaker_rule cx) (\<lambda>rule.
     ret \<lparr>br_rule = rule, br_last_state = CLOSED, br_probe_acquired = False\<rparr>)"

definition emit_state_change ::
  "breaker \<Rightarrow> circuit_state \<Rightarrow> circuit_state \<Rightarrow> (('s, 'z) world_scheme, unit) prog" where
  "emit_state_change b old new =
     log_line ''breaker_state_change'' ''INFO''
       [(''component'', JStr ''circuit_breaker''), (''operation'', JStr ''state_transition''),
        (''result'', JStr (state_text new)), (''resource'', JStr (cbr_resource (br_rule b))),
        (''old_state'', JStr (state_text old)), (''new_state'', JStr (state_text new))]"

definition cb_allow_request ::
  "'s redis_ops \<Rightarrow> ctx \<Rightarrow> request option \<Rightarrow> breaker \<Rightarrow> (('s, 'z) world_scheme, bool \<times> breaker) prog" where
  "cb_allow_request R cx req b0 =
     (let rule = br_rule b0; res = cbr_resource rule in
      bnd (cb_get_state R cx req rule) (\<lambda>current.
      let b = b0\<lparr>br_last_state := current\<rparr> in
      thn (cbm_record_request res current)
      (if current = CLOSED then ret (True, b)
       else if current = OPEN then thn (cbm_record_rejected res current) (ret (False, b))
       else bnd (try_acquire_probe R cx rule) (\<lambda>acquired.
         if acquired then
           thn (emit_state_change b OPEN HALF_OPEN)
           (thn (cbm_set_state res HALF_OPEN)
           (ret (True, b\<lparr>br_probe_acquired := True, br_last_state := HALF_OPEN\<rparr>)))
         else thn (cbm_record_rejected res HALF_OPEN) (ret (False, b))))))"

text \<open>What both outcomes do when the window's script has answered.\<close>

definition after_outcome ::
  "breaker \<Rightarrow> record_result \<Rightarrow> (('s, 'z) world_scheme, record_result option \<times> breaker) prog" where
  "after_outcome b r =
     (let res = cbr_resource (br_rule b) in
      if cr_opened r then
        thn (emit_state_change b (br_last_state b) OPEN)
        (thn (cbm_record_state_change res OPEN)
        (thn (cbm_record_open res)
        (thn (cbm_set_state res OPEN)
        (ret (Some r, b\<lparr>br_last_state := OPEN\<rparr>)))))
      else
        thn (cbm_set_state res CLOSED) (ret (Some r, b\<lparr>br_last_state := CLOSED\<rparr>)))"

definition cb_record_success ::
  "'s redis_ops \<Rightarrow> ctx \<Rightarrow> request option \<Rightarrow> breaker \<Rightarrow>
   (('s, 'z) world_scheme, record_result option \<times> breaker) prog" where
  "cb_record_success R cx req b =
     (let rule = br_rule b; res = cbr_resource rule in
      if br_probe_acquired b then
        bnd (get_open_until R cx req rule) (\<lambda>open_until.
        thn (cb_close R cx rule)
        (thn (emit_state_change b HALF_OPEN CLOSED)
        (thn (cbm_record_state_change res CLOSED)
        (thn (cbm_set_state res CLOSED)
        (thn (cbm_record_recovery res open_until (cbr_open_timeout_seconds rule))
        (ret (None, b\<lparr>br_probe_acquired := False, br_last_state := CLOSED\<rparr>)))))))
      else bnd (cb_record_outcome R cx rule ''success'') (after_outcome b))"

definition cb_record_failure ::
  "'s redis_ops \<Rightarrow> ctx \<Rightarrow> breaker \<Rightarrow> (('s, 'z) world_scheme, record_result option \<times> breaker) prog" where
  "cb_record_failure R cx b =
     (let rule = br_rule b; res = cbr_resource rule in
      thn (cbm_record_failure res (br_last_state b))
      (if br_probe_acquired b then
        bnd (cb_reopen R cx rule) (\<lambda>open_until.
        let b' = b\<lparr>br_probe_acquired := False, br_last_state := OPEN\<rparr> in
        thn (emit_state_change b' HALF_OPEN OPEN)
        (thn (cbm_record_state_change res OPEN)
        (thn (cbm_record_open res)
        (thn (cbm_set_state res OPEN)
        (bnd (cb_snapshot R cx rule) (\<lambda>sn.
         ret (Some \<lparr>cr_opened = True, cr_open_until = open_until, cr_snapshot = sn\<rparr>, b')))))))
      else bnd (cb_record_outcome R cx rule ''failure'') (after_outcome b)))"

definition cb_record_timeout :: "breaker \<Rightarrow> (('s, 'z) world_scheme, unit) prog" where
  "cb_record_timeout b = cbm_record_timeout (cbr_resource (br_rule b))"

definition circuit_open_response :: response where
  "circuit_open_response = reply 202 [(''status'', JStr ''queued''), (''reason'', JStr ''circuit open'')]"

definition cb_execute_fallback :: "breaker \<Rightarrow> (('s, 'z) world_scheme, response) prog" where
  "cb_execute_fallback b =
     thn (cbm_record_fallback (cbr_resource (br_rule b)) (br_last_state b)) (ret circuit_open_response)"

section \<open>Helpers of the resilience package\<close>

definition validate_resilience_config :: "ctx \<Rightarrow> ('w, unit) prog" where
  "validate_resilience_config cx =
     thn (build_default_rule cx)
     (thn (build_default_breaker_rule cx)
     (if BUSINESS_TIMEOUT_MS cx < 0 then raise (ValueError ''BUSINESS_TIMEOUT_MS must be >= 0'')
      else if \<not> (0 \<le> INVENTORY_BUSY_PROB cx \<and> INVENTORY_BUSY_PROB cx \<le> 1)
        then raise (ValueError ''INVENTORY_BUSY_PROB must be in [0, 1]'')
      else if BREAKER_FAIL_THRESHOLD cx < 1 \<or> BREAKER_WINDOW_SEC cx < 1 \<or> BREAKER_OPEN_SEC cx < 1
        then raise (ValueError ''BREAKER_* must be >= 1 where applicable'')
      else if \<not> (0 \<le> BREAKER_FAILURE_RATE_THRESHOLD cx \<and> BREAKER_FAILURE_RATE_THRESHOLD cx \<le> 1)
        then raise (ValueError ''BREAKER_FAILURE_RATE_THRESHOLD must be in [0, 1]'')
      else if MIN_REQUEST_AMOUNT cx < 1 then raise (ValueError ''MIN_REQUEST_AMOUNT must be >= 1'')
      else if ORDER_TTL_SEC cx < 60 then raise (ValueError ''ORDER_TTL_SEC must be >= 60 (seconds)'')
      else if IDEM_TTL_SEC cx < 1 \<or> IDEM_PENDING_TTL_SEC cx < 1
        then raise (ValueError ''IDEM_*_TTL_SEC must be >= 1'')
      else if IDEM_WAIT_TIMEOUT_MS cx < 0 \<or> IDEM_WAIT_POLL_MS cx < 1
        then raise (ValueError ''IDEM_WAIT_TIMEOUT_MS must be >= 0 and IDEM_WAIT_POLL_MS >= 1'')
      else if CIRCUIT_PROBE_TTL_SEC cx < 1 then raise (ValueError ''CIRCUIT_PROBE_TTL_SEC must be >= 1'')
      else if RETRY_MAX_ATTEMPTS cx < 1 then raise (ValueError ''RETRY_MAX_ATTEMPTS must be >= 1'')
      else if RETRY_BASE_DELAY_MS cx < 0 \<or> RETRY_MAX_DELAY_MS cx < 0
        then raise (ValueError ''RETRY_*_DELAY_MS must be >= 0'')
      else ret ()))"

definition order_deadline_exceeded :: "rat \<Rightarrow> rat \<Rightarrow> int \<Rightarrow> bool" where
  "order_deadline_exceeded elapsed_s planned_s budget_ms = (elapsed_s + planned_s > of_int budget_ms / 1000)"

definition is_circuit_open ::
  "'s redis_ops \<Rightarrow> ctx \<Rightarrow> request option \<Rightarrow> (('s, 'z) world_scheme, bool) prog" where
  "is_circuit_open R cx req =
     bnd (build_circuit_breaker cx) (\<lambda>b.
     bnd (cb_allow_request R cx req b) (\<lambda>(ok, b'). ret (\<not> ok)))"

definition breaker_window :: "'s redis_ops \<Rightarrow> ctx \<Rightarrow> (('s, 'z) world_scheme, int \<times> int \<times> rat) prog" where
  "breaker_window R cx =
     bnd (build_circuit_breaker cx) (\<lambda>b.
     bnd (cb_snapshot R cx (br_rule b)) (\<lambda>sn.
     ret (sn_failure_count sn, sn_total_request_count sn, sn_failure_rate sn)))"

definition record_failure_and_maybe_open :: "'s redis_ops \<Rightarrow> ctx \<Rightarrow> (('s, 'z) world_scheme, unit) prog" where
  "record_failure_and_maybe_open R cx =
     bnd (build_circuit_breaker cx) (\<lambda>b. thn (cb_record_failure R cx b) (ret ()))"

definition resilience_record_success ::
  "'s redis_ops \<Rightarrow> ctx \<Rightarrow> request option \<Rightarrow> (('s, 'z) world_scheme, unit) prog" where
  "resilience_record_success R cx req =
     bnd (build_circuit_breaker cx) (\<lambda>b. thn (cb_record_success R cx req b) (ret ()))"

lemmas breaker_metric_defs = cbm_set_state_def cbm_record_request_def cbm_record_failure_def
  cbm_record_state_change_def cbm_record_open_def cbm_record_fallback_def cbm_record_timeout_def
  cbm_record_rejected_def emit_state_change_def

end
