(* ===== verification/Breaker_Correct.thy ===== *)
theory Breaker_Correct
  imports Breaker Retry_Correct
begin

text \<open>
  The properties of the circuit breaker: which state a request sees, that a half-open breaker lets
  one probe through, what the probe's outcome does, and that the shared window counts exactly the
  outcomes of its last seconds.
\<close>

section \<open>What the properties speak of\<close>

text \<open>The breaker's keys do not collide, and its \<open>open_until\<close> key carries no expiry.\<close>

definition breaker_ready ::
  "('s \<Rightarrow> string \<Rightarrow> bool) \<Rightarrow> ('s \<Rightarrow> bool) \<Rightarrow> ctx \<Rightarrow> circuit_breaker_rule \<Rightarrow> ('s, 'z) world_scheme \<Rightarrow> bool" where
  "breaker_ready pk up cx rule w =
     (let ks = cb_keys_of cx rule in
      retry_valid cx \<and> mono_ticks w \<and> up (w_redis w) \<and> pk (w_redis w) (ck_open_until ks) \<and>
      distinct [ck_open_until ks, ck_probe ks, ck_failures ks, ck_totals ks])"

definition open_until_of ::
  "('s \<Rightarrow> rat \<Rightarrow> string \<Rightarrow> rval option) \<Rightarrow> ctx \<Rightarrow> circuit_breaker_rule \<Rightarrow> ('s, 'z) world_scheme \<Rightarrow> rat" where
  "open_until_of kv cx rule w =
     cb_parse_open_until (kv (w_redis w) (w_now w) (ck_open_until (cb_keys_of cx rule)))"

text \<open>The default rule, when \<open>CircuitBreakerRule.__post_init__\<close> accepts it.\<close>

definition default_breaker_rule :: "ctx \<Rightarrow> circuit_breaker_rule \<Rightarrow> bool" where
  "default_breaker_rule cx rule =
     (rule = \<lparr>cbr_resource = legacy_resource cx,
        cbr_failure_rate_threshold = BREAKER_FAILURE_RATE_THRESHOLD cx,
        cbr_min_request_count = MIN_REQUEST_AMOUNT cx,
        cbr_window_seconds = BREAKER_WINDOW_SEC cx, cbr_open_timeout_seconds = BREAKER_OPEN_SEC cx\<rparr> \<and>
      0 \<le> BREAKER_FAILURE_RATE_THRESHOLD cx \<and> BREAKER_FAILURE_RATE_THRESHOLD cx \<le> 1 \<and>
      1 \<le> MIN_REQUEST_AMOUNT cx \<and> 1 \<le> BREAKER_WINDOW_SEC cx \<and> 1 \<le> BREAKER_OPEN_SEC cx)"

lemma default_breaker_rule_ret:
  "default_breaker_rule cx rule \<Longrightarrow> build_default_breaker_rule cx = ret rule"
  by (auto simp: default_breaker_rule_def build_default_breaker_rule_def circuit_breaker_rule_post_init_def
      legacy_resource_def or_default_def)

text \<open>What a request that asks for admission gets.\<close>

definition admission_spec ::
  "('s \<Rightarrow> rat \<Rightarrow> string \<Rightarrow> rval option) \<Rightarrow> ctx \<Rightarrow> breaker \<Rightarrow> rat \<Rightarrow> rat \<Rightarrow> ('s, 'z) world_scheme \<Rightarrow> ('s, 'z) world_scheme \<Rightarrow> bool \<Rightarrow> breaker \<Rightarrow> bool" where
  "admission_spec kv cx b U now w w' ok b' =
     (let probe = ck_probe (cb_keys_of cx (br_rule b)); free = (kv (w_redis w) (w_now w') probe = None) in
      br_rule b' = br_rule b \<and>
      (now < U \<longrightarrow> \<not> ok \<and> br_last_state b' = OPEN) \<and>
      (0 < U \<and> U \<le> now \<longrightarrow> ok = free \<and> br_last_state b' = HALF_OPEN) \<and>
      (U \<le> 0 \<and> U \<le> now \<and> (\<forall>t \<ge> now. kv (w_redis w) t probe = None) \<longrightarrow> ok \<and> br_last_state b' = CLOSED) \<and>
      br_probe_acquired b' = (br_probe_acquired b \<or> ok \<and> br_last_state b' = HALF_OPEN) \<and>
      (ok \<and> br_last_state b' = HALF_OPEN \<longrightarrow> free \<and>
        (\<forall>t. w_now w' \<le> t \<and> t < w_now w' + of_int (CIRCUIT_PROBE_TTL_SEC cx) \<longrightarrow>
          kv (w_redis w') t probe = Some (RText ''1''))) \<and>
      (\<not> (ok \<and> br_last_state b' = HALF_OPEN) \<longrightarrow>
        (\<forall>t \<ge> w_now w'. kv (w_redis w') t probe = kv (w_redis w) t probe)))"

section \<open>The state a request sees\<close>

context reliable_store
begin

lemma read_answers:
  assumes "retry_valid cx" and "mono_ticks w" and "up (w_redis w)"
  shows "\<exists>t w'. w_now w \<le> t \<and> t \<le> w_now w' \<and> quiet w w' \<and>
    cb_read cx req (r_get R k) operation w = (Inr (kv (w_redis w) t k), w')"
proof -
  have "\<exists>x s. r_get R k t (w_redis w) = (Inr x, s)" for t
    using get_answers [OF assms(3)] by blast
  from retrying_redis [where cmd = "r_get R k", OF assms(1,2) this, of req operation] obtain t x s w' where
    t: "w_now w \<le> t" and g: "r_get R k t (w_redis w) = (Inr x, s)"
    and run: "retrying cx req (redis_call (r_get R k)) operation w = (Inr x, w')" "w_redis w' = s"
    and l: "later w w'" "t \<le> w_now w'" by blast
  have "up s" using get_answers [OF assms(3), of k t] g by auto
  moreover have "x = kv (w_redis w) t k" using get_value [OF g] .
  ultimately show ?thesis
    using t g run l get_keeps [OF g] get_pk [OF g]
    by (intro exI [of _ t] exI [of _ w']) (simp add: cb_read_def quiet_def)
qed

lemma open_until_answers:
  assumes "retry_valid cx" and "mono_ticks w" and "up (w_redis w)"
    and "pk (w_redis w) (ck_open_until (cb_keys_of cx rule))"
  shows "\<exists>w'. quiet w w' \<and> get_open_until R cx req rule w =
    (Inr (cb_parse_open_until (kv (w_redis w) T (ck_open_until (cb_keys_of cx rule)))), w')"
proof -
  from read_answers [OF assms(1-3)] obtain t w' where "quiet w w'"
    "cb_read cx req (r_get R (ck_open_until (cb_keys_of cx rule))) ''circuit_get_open_until'' w =
       (Inr (kv (w_redis w) t (ck_open_until (cb_keys_of cx rule))), w')" by blast
  then show ?thesis
    using pk_stable [OF assms(4), of t T] by (auto simp: get_open_until_def prog_simps)
qed

lemma probe_active_answers:
  assumes "retry_valid cx" and "mono_ticks w" and "up (w_redis w)"
  shows "\<exists>t w'. w_now w \<le> t \<and> t \<le> w_now w' \<and> quiet w w' \<and> is_probe_active R cx req rule w =
    (Inr (case kv (w_redis w) t (ck_probe (cb_keys_of cx rule)) of None \<Rightarrow> False | Some v \<Rightarrow> rval_nonempty v), w')"
proof -
  from read_answers [OF assms] obtain t w' where "w_now w \<le> t" "t \<le> w_now w'" "quiet w w'"
    "cb_read cx req (r_get R (ck_probe (cb_keys_of cx rule))) ''circuit_get_probe'' w =
       (Inr (kv (w_redis w) t (ck_probe (cb_keys_of cx rule))), w')" by blast
  then show ?thesis by (auto simp: is_probe_active_def prog_simps)
qed

lemma get_state_answers:
  assumes "retry_valid cx" and "mono_ticks w" and "up (w_redis w)"
    and pk: "pk (w_redis w) (ck_open_until (cb_keys_of cx rule))"
    and U: "U = cb_parse_open_until (kv (w_redis w) (w_now w) (ck_open_until (cb_keys_of cx rule)))"
    and now: "now = w_now w + w_ticks w (w_tick_no w)"
  shows "\<exists>t w'. now \<le> t \<and> t \<le> w_now w' \<and> quiet w w' \<and> cb_get_state R cx req rule w =
    (Inr (if U > now then OPEN else if U > 0 then HALF_OPEN
          else if (case kv (w_redis w) t (ck_probe (cb_keys_of cx rule)) of None \<Rightarrow> False | Some v \<Rightarrow> rval_nonempty v)
          then HALF_OPEN else CLOSED), w')"
proof -
  define w0 where "w0 = snd (py_time w)"
  have t0: "py_time w = (Inr now, w0)" and r0: "w_redis w0 = w_redis w" and l0: "later w w0" and n0: "w_now w0 = now"
    using assms(2) by (simp_all add: w0_def now later_def mono_ticks_def prog_simps)
  have m0: "mono_ticks w0" using laterD [OF l0 assms(2)] by simp
  have q0: "quiet w w0" using quiet_same_store [OF assms(3) r0 l0] .
  have "pk (w_redis w0) (ck_open_until (cb_keys_of cx rule))" using pk r0 by simp
  from open_until_answers [OF assms(1) m0 quietD(2) [OF q0] this] obtain w1 where q1: "quiet w0 w1"
    and u: "get_open_until R cx req rule w0 = (Inr U, w1)"
    using U r0 by metis
  have m1: "mono_ticks w1" and n1: "now \<le> w_now w1" using laterD [OF quietD(1) [OF q1] m0] n0 by simp_all
  have q01: "quiet w w1" using quiet_trans [OF q0 q1 assms(2)] .
  show ?thesis
  proof (cases "U > now \<or> U > 0")
    case True
    then show ?thesis
      using q01 n1 by (intro exI [of _ "w_now w1"] exI [of _ w1]) (auto simp: cb_get_state_def bnd_def t0 u ret_def)
  next
    case False
    from probe_active_answers [OF assms(1) m1 quietD(2) [OF q1]] obtain t w2 where
      t: "w_now w1 \<le> t" "t \<le> w_now w2" and q2: "quiet w1 w2"
      and p: "is_probe_active R cx req rule w1 = (Inr (case kv (w_redis w1) t (ck_probe (cb_keys_of cx rule)) of
        None \<Rightarrow> False | Some v \<Rightarrow> rval_nonempty v), w2)" by blast
    have "kv (w_redis w1) t (ck_probe (cb_keys_of cx rule)) = kv (w_redis w) t (ck_probe (cb_keys_of cx rule))"
      using quietD(3) [OF q01 t(1)] .
    then show ?thesis
      using False t n1 p quiet_trans [OF q01 q2 assms(2)]
      by (intro exI [of _ t] exI [of _ w2]) (simp add: cb_get_state_def bnd_def t0 u ret_def)
  qed
qed

lemma allow_answers:
  assumes valid: "retry_valid cx" and mono: "mono_ticks w" and up: "up (w_redis w)"
    and ks: "ks = cb_keys_of cx (br_rule b)" and pk: "pk (w_redis w) (ck_open_until ks)"
    and U: "U = cb_parse_open_until (kv (w_redis w) (w_now w) (ck_open_until ks))"
    and now: "now = w_now w + w_ticks w (w_tick_no w)"
    and ne: "ck_probe ks \<noteq> ck_open_until ks"
  shows "\<exists>ok b' w'. cb_allow_request R cx req b w = (Inr (ok, b'), w') \<and> later w w' \<and> now \<le> w_now w' \<and>
    up (w_redis w') \<and> pk (w_redis w') (ck_open_until ks) \<and>
    (\<forall>t \<ge> w_now w'. kv (w_redis w') t (ck_open_until ks) = kv (w_redis w) t (ck_open_until ks)) \<and>
    admission_spec kv cx b U now w w' ok b'"
proof -
  let ?probe = "ck_probe ks"
  let ?held = "\<lambda>t. case kv (w_redis w) t ?probe of None \<Rightarrow> False | Some v \<Rightarrow> rval_nonempty v"
  from get_state_answers [OF valid mono up _ _ now, of "br_rule b" U req] obtain t w1 where
    t: "now \<le> t" "t \<le> w_now w1" and q: "quiet w w1" and st: "cb_get_state R cx req (br_rule b) w =
      (Inr (if U > now then OPEN else if U > 0 then HALF_OPEN else if ?held t then HALF_OPEN else CLOSED), w1)"
    using pk U ks by auto
  define st1 where "st1 = (if U > now then OPEN else if U > 0 then HALF_OPEN else if ?held t then HALF_OPEN else CLOSED)"
  note q' = quietD [OF q]
  show ?thesis
  proof (cases "st1 = HALF_OPEN")
    case False
    then show ?thesis
      using st t q' pk unfolding st1_def [symmetric]
      by (cases st1) (auto simp: cb_allow_request_def prog_simps breaker_metric_defs later_def admission_spec_def ks
          st1_def split: if_splits option.splits)
  next
    case True
    define free where "free = (kv (w_redis w) (w_now w1) ?probe = None)"
    have kv1: "kv (w_redis w1) (w_now w1) ?probe = kv (w_redis w) (w_now w1) ?probe" using q'(3) by simp
    obtain s2 where set: "r_set R ?probe (RText ''1'') (Some (CIRCUIT_PROBE_TTL_SEC cx)) True (w_now w1) (w_redis w1)
        = (Inr free, s2)" and up2: "up s2"
      using set_answers [OF q'(2), of ?probe "RText ''1''" "Some (CIRCUIT_PROBE_TTL_SEC cx)" True "w_now w1"] kv1
      by (auto simp: free_def)
    have op: "kv s2 t' (ck_open_until ks) = kv (w_redis w) t' (ck_open_until ks)" if "w_now w1 \<le> t'" for t'
      using set_keeps [OF set, of "ck_open_until ks" t'] q'(3) [OF that] ne by simp
    have pk2: "pk s2 (ck_open_until ks)" using set_pk [OF set, of "ck_open_until ks"] q'(4) [OF pk] ne by simp
    have refused: "\<not> free \<Longrightarrow> w_now w1 \<le> t' \<Longrightarrow> kv s2 t' ?probe = kv (w_redis w) t' ?probe" for t'
      using set_refused [of ?probe "RText ''1''" "Some (CIRCUIT_PROBE_TTL_SEC cx)" True "w_now w1" "w_redis w1" s2 t']
        set q'(3) [of t'] by simp
    have held: "free \<Longrightarrow> w_now w1 \<le> t' \<Longrightarrow> t' < w_now w1 + of_int (CIRCUIT_PROBE_TTL_SEC cx) \<Longrightarrow>
        kv s2 t' ?probe = Some (RText ''1'')" for t'
      using set_live [of ?probe "RText ''1''" "CIRCUIT_PROBE_TTL_SEC cx" True "w_now w1" "w_redis w1" s2 t'] set by simp
    show ?thesis
      using st t q' True op pk2 refused held set up2 unfolding st1_def [symmetric]
      by (cases free) (auto simp: cb_allow_request_def prog_simps breaker_metric_defs later_def admission_spec_def ks
          try_acquire_probe_def st1_def free_def split: if_splits option.splits)
  qed
qed

lemma allow_step:
  assumes "breaker_ready pk up cx (br_rule b) w"
  shows "\<exists>ok b' w'. cb_allow_request R cx req b w = (Inr (ok, b'), w') \<and> later w w' \<and>
    w_now w + w_ticks w (w_tick_no w) \<le> w_now w' \<and>
    breaker_ready pk up cx (br_rule b) w' \<and> open_until_of kv cx (br_rule b) w' = open_until_of kv cx (br_rule b) w \<and>
    admission_spec kv cx b (open_until_of kv cx (br_rule b) w) (w_now w + w_ticks w (w_tick_no w)) w w' ok b'"
proof -
  let ?ks = "cb_keys_of cx (br_rule b)"
  from assms have a: "retry_valid cx" "mono_ticks w" "up (w_redis w)" "pk (w_redis w) (ck_open_until ?ks)"
    "ck_probe ?ks \<noteq> ck_open_until ?ks" by (auto simp: breaker_ready_def Let_def)
  from allow_answers [OF a(1-3) refl a(4) refl refl a(5), of req] obtain ok b' w' where
    run: "cb_allow_request R cx req b w = (Inr (ok, b'), w')" "later w w'"
    "w_now w + w_ticks w (w_tick_no w) \<le> w_now w'" "up (w_redis w')" "pk (w_redis w') (ck_open_until ?ks)"
    and same: "\<forall>t \<ge> w_now w'. kv (w_redis w') t (ck_open_until ?ks) = kv (w_redis w) t (ck_open_until ?ks)"
    and spec: "admission_spec kv cx b (open_until_of kv cx (br_rule b) w) (w_now w + w_ticks w (w_tick_no w)) w w' ok b'"
    unfolding open_until_of_def by blast
  have "breaker_ready pk up cx (br_rule b) w'"
    using assms run laterD [OF run(2) a(2)] by (simp add: breaker_ready_def Let_def)
  moreover have "open_until_of kv cx (br_rule b) w' = open_until_of kv cx (br_rule b) w"
    using same pk_stable [OF a(4), of "w_now w'" "w_now w"] by (simp add: open_until_of_def)
  ultimately show ?thesis using run spec by blast
qed

end

section \<open>Admission\<close>

text \<open>
  C6. Admission by a breaker on a store that answers: before \<open>open_until\<close> nobody is admitted; after
  it a request is admitted exactly when the probe key is free, and it then holds the key for the
  probe's time to live; with \<open>open_until\<close> cleared and no probe held, everybody is admitted. The call
  never fails.
\<close>

theorem breaker_admission:
  assumes "reliable_store R kv zs ct pk up" and "breaker_ready pk up cx (br_rule b) w"
  shows "\<exists>ok b' w'. cb_allow_request R cx req b w = (Inr (ok, b'), w') \<and>
    admission_spec kv cx b (open_until_of kv cx (br_rule b) w) (w_now w + w_ticks w (w_tick_no w)) w w' ok b'"
  using reliable_store.allow_step [OF assms] by blast

definition demo_breaker :: breaker where
  "demo_breaker = \<lparr>br_rule = \<lparr>cbr_resource = ''order'', cbr_failure_rate_threshold = 1 / 2,
     cbr_min_request_count = 2, cbr_window_seconds = 10, cbr_open_timeout_seconds = 8\<rparr>,
     br_last_state = CLOSED, br_probe_acquired = False\<rparr>"

text \<open>The demonstration world with a breaker that opened and whose timeout has passed.\<close>

definition half_open_world :: "fake world" where
  "half_open_world = demo_world\<lparr>w_redis := fake_empty\<lparr>f_store := fmupd ''cb:open_until'' (RNum 990) fmempty\<rparr>\<rparr>"

lemma demo_cb_keys: "cb_keys_of demo_ctx (br_rule demo_breaker) =
   \<lparr>ck_open_until = ''cb:open_until'', ck_failures = ''cb:failures'',
    ck_totals = ''cb:total_requests'', ck_probe = ''cb:probe''\<rparr>"
  by (simp add: cb_keys_of_def demo_breaker_def legacy_resource_def demo_ctx_def sync_legacy_attributes_def
      strip_def is_ws_def or_default_def)

lemma retry_valid_demo [simp]: "retry_valid demo_ctx"
  by (simp add: retry_valid_def demo_ctx_def sync_legacy_attributes_def)

lemma half_open_ready: "breaker_ready fake_pk (\<lambda>s. \<not> f_broken s) demo_ctx (br_rule demo_breaker) half_open_world"
  by (simp add: breaker_ready_def demo_cb_keys half_open_world_def demo_world_def mono_ticks_def
      fake_empty_def fake_pk_def)

lemma half_open_until: "open_until_of fake_kv demo_ctx (br_rule demo_breaker) half_open_world = 990"
  by (simp add: open_until_of_def demo_cb_keys half_open_world_def fake_kv_def is_expired_def
      fake_empty_def cb_parse_open_until_def)

theorem breaker_admission_witness:
  "\<exists>b' w'. cb_allow_request fake_redis demo_ctx None demo_breaker half_open_world = (Inr (True, b'), w')
     \<and> br_probe_acquired b'"
proof -
  from breaker_admission [OF fr.reliable_store_axioms half_open_ready, of None] obtain ok b' w' where
    run: "cb_allow_request fake_redis demo_ctx None demo_breaker half_open_world = (Inr (ok, b'), w')"
    and spec: "admission_spec fake_kv demo_ctx demo_breaker 990 1000 half_open_world w' ok b'"
    unfolding half_open_until by (auto simp: half_open_world_def demo_world_def)
  have "fake_kv (w_redis half_open_world) t ''cb:probe'' = None" for t
    by (simp add: half_open_world_def fake_kv_def is_expired_def fake_empty_def)
  then show ?thesis
    using run spec by (auto simp: admission_spec_def demo_cb_keys Let_def)
qed

section \<open>One probe at a time\<close>

text \<open>
  A number of requests, each with a breaker of its own as the order service makes it; the answer
  lists the time of each decision and whether the request was admitted.
\<close>

fun allow_calls ::
  "'s redis_ops \<Rightarrow> ctx \<Rightarrow> request option \<Rightarrow> nat \<Rightarrow> (('s, 'z) world_scheme, (rat \<times> bool) list) prog" where
  "allow_calls R cx req 0 = ret []"
| "allow_calls R cx req (Suc n) =
     bnd (build_circuit_breaker cx) (\<lambda>b.
     bnd (cb_allow_request R cx req b) (\<lambda>(ok, b').
     bnd (gets w_now) (\<lambda>t.
     bnd (allow_calls R cx req n) (\<lambda>rest. ret ((t, ok) # rest)))))"

definition probes_apart :: "int \<Rightarrow> (rat \<times> bool) list \<Rightarrow> bool" where
  "probes_apart ttl outs =
     sorted_wrt (\<lambda>(t1, ok1) (t2, ok2). ok1 \<and> ok2 \<longrightarrow> t1 + of_int ttl \<le> t2) outs"

context reliable_store
begin

lemma allow_calls_apart:
  assumes rule: "default_breaker_rule cx rule" and ttl: "0 \<le> CIRCUIT_PROBE_TTL_SEC cx"
    and "breaker_ready pk up cx rule w" and "0 < open_until_of kv cx rule w" and "open_until_of kv cx rule w \<le> w_now w"
    and "\<And>t. w_now w \<le> t \<Longrightarrow> t < D \<Longrightarrow> kv (w_redis w) t (ck_probe (cb_keys_of cx rule)) \<noteq> None"
  shows "\<exists>outs w'. allow_calls R cx req n w = (Inr outs, w') \<and> length outs = n \<and>
    probes_apart (CIRCUIT_PROBE_TTL_SEC cx) outs \<and> (\<forall>(t, ok) \<in> set outs. ok \<longrightarrow> D \<le> t)"
  using assms(3-)
proof (induction n arbitrary: w D)
  case 0
  then show ?case by (simp add: ret_def probes_apart_def)
next
  case (Suc n)
  let ?probe = "ck_probe (cb_keys_of cx rule)" and ?U = "open_until_of kv cx rule w"
  define b where "b = \<lparr>br_rule = rule, br_last_state = CLOSED, br_probe_acquired = False\<rparr>"
  have br: "br_rule b = rule" by (simp add: b_def)
  have build: "build_circuit_breaker cx = ret b"
    by (simp add: build_circuit_breaker_def default_breaker_rule_ret [OF rule] b_def)
  from allow_step [of cx b w req] Suc.prems(1) obtain ok b' w1 where
    run: "cb_allow_request R cx req b w = (Inr (ok, b'), w1)" and l: "later w w1"
    and ready: "breaker_ready pk up cx rule w1" and same: "open_until_of kv cx rule w1 = ?U"
    and le: "w_now w + w_ticks w (w_tick_no w) \<le> w_now w1"
    and spec: "admission_spec kv cx b ?U (w_now w + w_ticks w (w_tick_no w)) w w1 ok b'"
    unfolding br by blast
  have mono: "mono_ticks w" using Suc.prems(1) by (simp add: breaker_ready_def Let_def)
  have now: "w_now w \<le> w_now w1" "w_now w \<le> w_now w + w_ticks w (w_tick_no w)"
    using laterD [OF l mono] mono by (simp_all add: mono_ticks_def)
  have half: "0 < ?U" "?U \<le> w_now w + w_ticks w (w_tick_no w)" "?U \<le> w_now w1"
    using Suc.prems(2,3) now by auto
  have ok: "ok \<longleftrightarrow> kv (w_redis w) (w_now w1) ?probe = None" and hs: "br_last_state b' = HALF_OPEN"
    using spec half by (auto simp: admission_spec_def Let_def br)
  define D' where "D' = (if ok then w_now w1 + of_int (CIRCUIT_PROBE_TTL_SEC cx) else D)"
  have held: "kv (w_redis w1) t ?probe \<noteq> None" if "w_now w1 \<le> t" "t < D'" for t
    using spec hs that Suc.prems(4) [of t] now
    by (auto simp: admission_spec_def Let_def br D'_def split: if_splits)
  have okD: "ok \<Longrightarrow> D \<le> w_now w1" using ok Suc.prems(4) [OF now(1)] by fastforce
  from Suc.IH [of w1 D', OF ready _ _ held] same half obtain outs w2 where
    rest: "allow_calls R cx req n w1 = (Inr outs, w2)" "length outs = n"
      "probes_apart (CIRCUIT_PROBE_TTL_SEC cx) outs" "\<forall>(t, ok) \<in> set outs. ok \<longrightarrow> D' \<le> t" by auto
  have "allow_calls R cx req (Suc n) w = (Inr ((w_now w1, ok) # outs), w2)"
    using rest(1) by (simp add: build bnd_def run gets_def ret_def)
  moreover have "probes_apart (CIRCUIT_PROBE_TTL_SEC cx) ((w_now w1, ok) # outs)"
    using rest(3,4) by (auto simp: probes_apart_def D'_def)
  moreover have "D \<le> D'"
    using okD ttl by (auto simp: D'_def intro: order_trans [of D "w_now w1"])
  ultimately show ?case using rest(2,4) okD by fastforce
qed

end

text \<open>
  C7. While a breaker is half open and no outcome is recorded, any number of requests at any times
  is answered, and two admitted requests are at least a probe's time to live apart.
\<close>

theorem half_open_single_probe:
  assumes "reliable_store R kv zs ct pk up" and "default_breaker_rule cx rule"
    and "breaker_ready pk up cx rule w" and "0 \<le> CIRCUIT_PROBE_TTL_SEC cx"
    and "0 < open_until_of kv cx rule w" and "open_until_of kv cx rule w \<le> w_now w"
  shows "\<exists>outs w'. allow_calls R cx req n w = (Inr outs, w') \<and> length outs = n \<and>
    probes_apart (CIRCUIT_PROBE_TTL_SEC cx) outs"
  using reliable_store.allow_calls_apart [OF assms(1,2,4,3,5,6), of "w_now w" req n] by fastforce

lemma demo_default_rule: "default_breaker_rule demo_ctx (br_rule demo_breaker)"
  by (simp add: default_breaker_rule_def demo_breaker_def legacy_resource_def demo_ctx_def
      sync_legacy_attributes_def strip_def is_ws_def or_default_def)

theorem half_open_single_probe_witness:
  "\<exists>outs w'. allow_calls fake_redis demo_ctx None 2 half_open_world = (Inr outs, w') \<and> length outs = 2
     \<and> probes_apart 30 outs"
  using half_open_single_probe [OF fr.reliable_store_axioms demo_default_rule half_open_ready, of None 2]
    half_open_until
  by (simp add: demo_ctx_def sync_legacy_attributes_def half_open_world_def demo_world_def)

section \<open>The outcome of the probe\<close>

lemma read_float_zero [simp]: "read_float ''0'' = Some 0"
  by (simp add: read_float_def read_signed_def strip_def is_ws_def read_unsigned_float_def split_first_def read_mantissa_def digit_val_def)

context reliable_store
begin

lemma close_answers:
  assumes "breaker_ready pk up cx rule w"
  shows "\<exists>w'. cb_close R cx rule w = (Inr (), w') \<and> breaker_ready pk up cx rule w' \<and> w_now w' = w_now w \<and>
    later w w' \<and> open_until_of kv cx rule w' = 0 \<and>
    (\<forall>t \<ge> w_now w. kv (w_redis w') t (ck_probe (cb_keys_of cx rule)) = None \<and>
      zs (w_redis w') t (ck_failures (cb_keys_of cx rule)) = Map.empty \<and>
      zs (w_redis w') t (ck_totals (cb_keys_of cx rule)) = Map.empty)"
proof -
  let ?ks = "cb_keys_of cx rule" and ?t = "w_now w"
  from assms have up: "up (w_redis w)" and pk: "pk (w_redis w) (ck_open_until ?ks)"
    and d: "distinct [ck_open_until ?ks, ck_probe ?ks, ck_failures ?ks, ck_totals ?ks]"
    by (simp_all add: breaker_ready_def Let_def)
  obtain n s1 where del: "r_delete R [ck_probe ?ks, ck_failures ?ks, ck_totals ?ks] ?t (w_redis w) = (Inr n, s1)"
    and up1: "up s1" using up_delete [OF up] by blast
  obtain s2 where set: "r_set R (ck_open_until ?ks) (RText ''0'') None False ?t s1 = (Inr True, s2)" and up2: "up s2"
    using set_answers [OF up1, of "ck_open_until ?ks" "RText ''0''" None False ?t] by auto
  have pk1: "pk s1 (ck_open_until ?ks)" using delete_pk [OF del pk] .
  have gone: "kv s2 t (ck_probe ?ks) = None" "zs s2 t (ck_failures ?ks) = Map.empty"
    "zs s2 t (ck_totals ?ks) = Map.empty" if "?t \<le> t" for t
    using delete_gone [OF del, of "ck_probe ?ks" t] delete_zs_gone [OF del, of _ t] that d
      set_keeps [OF set, of "ck_probe ?ks" t] set_zs [OF set, of _ t] by auto
  have "kv s2 ?t (ck_open_until ?ks) = Some (RText ''0'')" using set_plain [OF set pk1] by simp
  then show ?thesis
    using del set up2 set_plain_pk [OF set pk1] assms gone
    by (simp add: cb_close_def prog_simps breaker_ready_def open_until_of_def cb_parse_open_until_def
        later_def mono_ticks_def)
qed

lemma reopen_answers:
  assumes "breaker_ready pk up cx rule w" and "now = w_now w + w_ticks w (w_tick_no w)"
  shows "\<exists>w'. cb_reopen R cx rule w = (Inr (now + of_int (cbr_open_timeout_seconds rule)), w') \<and>
    breaker_ready pk up cx rule w' \<and> w_now w' = now \<and> later w w' \<and>
    open_until_of kv cx rule w' = now + of_int (cbr_open_timeout_seconds rule) \<and>
    (\<forall>t \<ge> now. kv (w_redis w') t (ck_probe (cb_keys_of cx rule)) = None)"
proof -
  let ?ks = "cb_keys_of cx rule" and ?u = "now + of_int (cbr_open_timeout_seconds rule)"
  from assms have up: "up (w_redis w)" and pk: "pk (w_redis w) (ck_open_until ?ks)" and m: "mono_ticks w"
    and d: "distinct [ck_open_until ?ks, ck_probe ?ks, ck_failures ?ks, ck_totals ?ks]"
    by (simp_all add: breaker_ready_def Let_def)
  obtain n s1 where del: "r_delete R [ck_probe ?ks] now (w_redis w) = (Inr n, s1)"
    and up1: "up s1" using up_delete [OF up] by blast
  obtain s2 where set: "r_set R (ck_open_until ?ks) (RNum ?u) None False now s1 = (Inr True, s2)" and up2: "up s2"
    using set_answers [OF up1, of "ck_open_until ?ks" "RNum ?u" None False now] by auto
  have pk1: "pk s1 (ck_open_until ?ks)" using delete_pk [OF del pk] .
  have gone: "kv s2 t (ck_probe ?ks) = None" if "now \<le> t" for t
    using delete_gone [OF del, of "ck_probe ?ks" t] that d set_keeps [OF set, of "ck_probe ?ks" t] by auto
  have "kv s2 now (ck_open_until ?ks) = Some (RNum ?u)" using set_plain [OF set pk1] by simp
  then show ?thesis
    using del set up2 set_plain_pk [OF set pk1] assms gone m
    by (simp add: cb_reopen_def prog_simps breaker_ready_def open_until_of_def cb_parse_open_until_def
        later_def mono_ticks_def)
qed

lemma snapshot_answers:
  assumes "breaker_ready pk up cx rule w"
  shows "\<exists>sn w'. cb_snapshot R cx rule w = (Inr sn, w') \<and> breaker_ready pk up cx rule w' \<and> later w w' \<and>
    (\<forall>t \<ge> w_now w'. kv (w_redis w') t (ck_probe (cb_keys_of cx rule)) = kv (w_redis w) t (ck_probe (cb_keys_of cx rule))) \<and>
    open_until_of kv cx rule w' = open_until_of kv cx rule w"
proof -
  let ?ks = "cb_keys_of cx rule" and ?t = "w_now w + w_ticks w (w_tick_no w)"
  from assms have up: "up (w_redis w)" and pk: "pk (w_redis w) (ck_open_until ?ks)" and m: "mono_ticks w"
    and d: "distinct [ck_open_until ?ks, ck_probe ?ks, ck_failures ?ks, ck_totals ?ks]"
    by (simp_all add: breaker_ready_def Let_def)
  let ?c = "?t - of_int (cbr_window_seconds rule)"
  obtain n1 s1 where z1: "r_zremrangebyscore R (ck_failures ?ks) ?c ?t (w_redis w) = (Inr n1, s1)" "up s1"
    using up_zrem [OF up] by blast
  obtain n2 s2 where z2: "r_zremrangebyscore R (ck_totals ?ks) ?c ?t s1 = (Inr n2, s2)" "up s2"
    using up_zrem [OF z1(2)] by blast
  obtain n3 s3 where z3: "r_zcard R (ck_failures ?ks) ?t s2 = (Inr n3, s3)" "up s3"
    using up_zcard [OF z2(2)] by blast
  obtain n4 s4 where z4: "r_zcard R (ck_totals ?ks) ?t s3 = (Inr n4, s4)" "up s4"
    using up_zcard [OF z3(2)] by blast
  have kv4: "kv s4 t k = kv (w_redis w) t k" if "?t \<le> t" "k \<noteq> ck_failures ?ks" "k \<noteq> ck_totals ?ks" for t k
    using zcard_kv [OF z4(1) that(1)] zcard_kv [OF z3(1) that(1)] zrem_kv [OF z2(1)] zrem_kv [OF z1(1)] that by simp
  have pk4: "pk s4 (ck_open_until ?ks)"
    using zcard_pk [OF z4(1)] zcard_pk [OF z3(1)] zrem_pk [OF z2(1)] zrem_pk [OF z1(1)] pk d by simp
  show ?thesis
    using z1 z2 z3 z4 assms kv4 pk4 m d pk_stable [OF pk, of ?t "w_now w"]
    by (simp add: cb_snapshot_def prog_simps breaker_ready_def open_until_of_def later_def mono_ticks_def)
qed

lemma state_after:
  assumes "breaker_ready pk up cx rule w" and "0 < open_until_of kv cx rule w" and "w_now w \<le> T"
  shows "\<exists>w'. cb_get_state R cx req rule (w\<lparr>w_now := T\<rparr>) =
    (Inr (if T + w_ticks w (w_tick_no w) < open_until_of kv cx rule w then OPEN else HALF_OPEN), w')"
proof -
  let ?w = "w\<lparr>w_now := T\<rparr>"
  from assms(1) have up: "up (w_redis w)" and pk: "pk (w_redis w) (ck_open_until (cb_keys_of cx rule))"
    and m: "mono_ticks w" and v: "retry_valid cx"
    by (simp_all add: breaker_ready_def Let_def)
  have "open_until_of kv cx rule w = cb_parse_open_until (kv (w_redis ?w) (w_now ?w) (ck_open_until (cb_keys_of cx rule)))"
    using pk_stable [OF pk, of T "w_now w"] by (simp add: open_until_of_def)
  from get_state_answers [OF v _ _ _ this, of _ req] up pk m assms(2) show ?thesis
    by (fastforce simp: mono_ticks_def)
qed

lemma success_closes:
  assumes "breaker_ready pk up cx (br_rule b) w"
    and "br_probe_acquired b" and "0 \<le> w_now w"
  shows "\<exists>b' w' w''. cb_record_success R cx req b w = (Inr (None, b'), w') \<and>
    \<not> br_probe_acquired b' \<and> br_last_state b' = CLOSED \<and>
    zs (w_redis w') (w_now w') (ck_failures (cb_keys_of cx (br_rule b))) = Map.empty \<and>
    zs (w_redis w') (w_now w') (ck_totals (cb_keys_of cx (br_rule b))) = Map.empty \<and>
    cb_get_state R cx req (br_rule b) w' = (Inr CLOSED, w'')"
proof -
  let ?rule = "br_rule b" and ?ks = "cb_keys_of cx (br_rule b)"
  from assms(1) have v: "retry_valid cx" "mono_ticks w" "up (w_redis w)" "pk (w_redis w) (ck_open_until ?ks)"
    by (simp_all add: breaker_ready_def Let_def)
  from open_until_answers [OF v, of req] obtain u w1 where q: "quiet w w1"
    and u: "get_open_until R cx req ?rule w = (Inr u, w1)" by blast
  have now1: "0 \<le> w_now w1" using laterD [OF quietD(1) [OF q] v(2)] assms(3) by linarith
  have "breaker_ready pk up cx ?rule w1"
    using assms(1) quietD(2) [OF q] quietD(4) [OF q v(4)] laterD [OF quietD(1) [OF q] v(2)]
    by (simp add: breaker_ready_def Let_def)
  from close_answers [OF this] obtain w2 where c: "cb_close R cx ?rule w1 = (Inr (), w2)"
    "breaker_ready pk up cx ?rule w2" "w_now w2 = w_now w1" "open_until_of kv cx ?rule w2 = 0"
    and gone: "\<forall>t \<ge> w_now w1. kv (w_redis w2) t (ck_probe ?ks) = None \<and>
      zs (w_redis w2) t (ck_failures ?ks) = Map.empty \<and> zs (w_redis w2) t (ck_totals ?ks) = Map.empty"
    by blast
  from c(2) have v2: "mono_ticks w2" "up (w_redis w2)" "pk (w_redis w2) (ck_open_until ?ks)"
    by (simp_all add: breaker_ready_def Let_def)
  obtain b' w3 where run: "cb_record_success R cx req b w = (Inr (None, b'), w3)"
    and b': "\<not> br_probe_acquired b'" "br_last_state b' = CLOSED"
    and w3: "w_redis w3 = w_redis w2" "w_now w2 \<le> w_now w3" "mono_ticks w3"
    using assms(2) u c(1) v2(1)
    by (cases "u \<le> 0") (auto simp: cb_record_success_def Let_def bnd_def thn_def breaker_metric_defs cbm_record_recovery_def
        effect_defs ret_def modw_def mono_ticks_def)
  have le: "w_now w1 \<le> w_now w3" using w3(2) c(3) by simp
  have zero: "0 = cb_parse_open_until (kv (w_redis w3) (w_now w3) (ck_open_until ?ks))"
    using c(4) pk_stable [OF v2(3), of "w_now w2" "w_now w3"] w3(1) by (simp add: open_until_of_def)
  have up3: "up (w_redis w3)" "pk (w_redis w3) (ck_open_until ?ks)" using v2 w3(1) by simp_all
  have tick: "w_now w3 \<le> w_now w3 + w_ticks w3 (w_tick_no w3)" using w3(3) by (simp add: mono_ticks_def)
  then have "0 \<le> w_now w3 + w_ticks w3 (w_tick_no w3)" using le now1 by linarith
  with get_state_answers [OF v(1) w3(3) up3 zero refl, of req] obtain t w4 where
    "w_now w3 \<le> t" "cb_get_state R cx req ?rule w3 = (Inr (if (case kv (w_redis w3) t (ck_probe ?ks) of
      None \<Rightarrow> False | Some v \<Rightarrow> rval_nonempty v) then HALF_OPEN else CLOSED), w4)"
    using order_trans [OF tick] by auto
  then have "cb_get_state R cx req ?rule w3 = (Inr CLOSED, w4)"
    using gone le w3(1) by (simp add: order_trans [of "w_now w1" "w_now w3" t])
  then show ?thesis using run b' gone le w3(1) by auto
qed

lemma failure_reopens:
  assumes "breaker_ready pk up cx (br_rule b) w"
    and "br_probe_acquired b" and "0 \<le> w_now w" and "1 \<le> cbr_open_timeout_seconds (br_rule b)"
    and now: "now = w_now w + w_ticks w (w_tick_no w)"
  shows "\<exists>r b' w'. cb_record_failure R cx b w = (Inr (Some r, b'), w') \<and>
    cr_opened r \<and> cr_open_until r = now + of_int (cbr_open_timeout_seconds (br_rule b)) \<and>
    \<not> br_probe_acquired b' \<and> br_last_state b' = OPEN \<and>
    (\<forall>t \<ge> w_now w'. kv (w_redis w') t (ck_probe (cb_keys_of cx (br_rule b))) = None) \<and>
    (\<forall>T \<ge> w_now w'. \<exists>w''. cb_get_state R cx req (br_rule b) (w'\<lparr>w_now := T\<rparr>) =
       (Inr (if T + w_ticks w' (w_tick_no w') < cr_open_until r then OPEN else HALF_OPEN), w''))"
proof -
  let ?rule = "br_rule b" and ?ks = "cb_keys_of cx (br_rule b)" and ?res = "cbr_resource (br_rule b)"
  define w1 where "w1 = snd (cbm_record_failure ?res (br_last_state b) w)"
  have m1: "cbm_record_failure ?res (br_last_state b) w = (Inr (), w1)"
    "breaker_ready pk up cx ?rule w1" "now = w_now w1 + w_ticks w1 (w_tick_no w1)"
    using assms(1) now by (simp_all add: w1_def breaker_metric_defs prog_simps breaker_ready_def mono_ticks_def)
  from reopen_answers [OF m1(2,3)] obtain w2 where
    re: "cb_reopen R cx ?rule w1 = (Inr (now + of_int (cbr_open_timeout_seconds ?rule)), w2)"
    "breaker_ready pk up cx ?rule w2" "w_now w2 = now"
    "open_until_of kv cx ?rule w2 = now + of_int (cbr_open_timeout_seconds ?rule)"
    and gone: "\<forall>t \<ge> now. kv (w_redis w2) t (ck_probe ?ks) = None" by blast
  define w3 where "w3 = snd (thn (emit_state_change b HALF_OPEN OPEN) (thn (cbm_record_state_change ?res OPEN)
    (thn (cbm_record_open ?res) (cbm_set_state ?res OPEN))) w2)"
  have m3: "thn (emit_state_change b HALF_OPEN OPEN) (thn (cbm_record_state_change ?res OPEN)
    (thn (cbm_record_open ?res) (cbm_set_state ?res OPEN))) w2 = (Inr (), w3)" "w_redis w3 = w_redis w2" "w_now w3 = now" "breaker_ready pk up cx ?rule w3"
    using re(2,3) by (simp_all add: w3_def breaker_metric_defs prog_simps breaker_ready_def mono_ticks_def)
  from snapshot_answers [OF m3(4)] obtain sn w4 where sn: "cb_snapshot R cx ?rule w3 = (Inr sn, w4)"
    and r4: "breaker_ready pk up cx ?rule w4" and l4: "later w3 w4"
    and p4: "\<forall>t \<ge> w_now w4. kv (w_redis w4) t (ck_probe ?ks) = kv (w_redis w3) t (ck_probe ?ks)"
    and u4: "open_until_of kv cx ?rule w4 = open_until_of kv cx ?rule w3" by blast
  have mono: "mono_ticks w3" "mono_ticks w" using m3(4) assms(1) by (simp_all add: breaker_ready_def Let_def)
  have le: "now \<le> w_now w4" using laterD [OF l4 mono(1)] m3(3) by simp
  let ?u = "now + of_int (cbr_open_timeout_seconds ?rule)"
  have u: "open_until_of kv cx ?rule w4 = ?u"
    using u4 re(3,4) m3(2,3) by (simp add: open_until_of_def)
  have "0 \<le> now" using assms(3) mono(2) by (simp add: now mono_ticks_def)
  then have pos: "0 < open_until_of kv cx ?rule w4" using assms(4) by (simp add: u)
  let ?b = "b\<lparr>br_probe_acquired := False, br_last_state := OPEN\<rparr>"
  have "cb_record_failure R cx b w = (Inr (Some \<lparr>cr_opened = True, cr_open_until = ?u, cr_snapshot = sn\<rparr>, ?b), w4)"
    using assms(2) m1(1) re(1) m3(1) sn
    by (auto simp: cb_record_failure_def Let_def bnd_def thn_def ret_def emit_state_change_def
        split: prod.splits sum.splits)
  moreover have "\<forall>t \<ge> w_now w4. kv (w_redis w4) t (ck_probe ?ks) = None"
    using p4 gone m3(2) le by simp
  moreover have "\<exists>w''. cb_get_state R cx req ?rule (w4\<lparr>w_now := T\<rparr>) =
       (Inr (if T + w_ticks w4 (w_tick_no w4) < ?u then OPEN else HALF_OPEN), w'')" if "w_now w4 \<le> T" for T
    using state_after [OF r4 pos that, of req] u by simp
  ultimately show ?thesis by fastforce
qed

end

text \<open>
  A successful probe closes the breaker: its key and the window's two sets are gone,
  \<open>open_until\<close> is cleared, and the next request sees the state CLOSED.
\<close>

theorem probe_success_closes:
  assumes "reliable_store R kv zs ct pk up" and "breaker_ready pk up cx (br_rule b) w"
    and "br_probe_acquired b" and "0 \<le> w_now w"
  shows "\<exists>b' w' w''. cb_record_success R cx req b w = (Inr (None, b'), w') \<and>
    \<not> br_probe_acquired b' \<and> br_last_state b' = CLOSED \<and>
    zs (w_redis w') (w_now w') (ck_failures (cb_keys_of cx (br_rule b))) = Map.empty \<and>
    zs (w_redis w') (w_now w') (ck_totals (cb_keys_of cx (br_rule b))) = Map.empty \<and>
    cb_get_state R cx req (br_rule b) w' = (Inr CLOSED, w'')"
  by (rule reliable_store.success_closes [OF assms])

definition probing_breaker :: breaker where
  "probing_breaker = demo_breaker\<lparr>br_probe_acquired := True, br_last_state := HALF_OPEN\<rparr>"

theorem probe_success_closes_witness:
  "\<exists>b' w'. cb_record_success fake_redis demo_ctx None probing_breaker half_open_world = (Inr (None, b'), w')
     \<and> br_last_state b' = CLOSED"
  using probe_success_closes [OF fr.reliable_store_axioms, of demo_ctx probing_breaker half_open_world None]
    half_open_ready
  by (auto simp: probing_breaker_def half_open_world_def demo_world_def)

text \<open>
  A failed probe opens the breaker again for its timeout, counted from the failure: at every
  later moment the state is OPEN before \<open>open_until\<close> and HALF_OPEN after it, with the probe key free.
\<close>

theorem probe_failure_reopens:
  assumes "reliable_store R kv zs ct pk up" and "breaker_ready pk up cx (br_rule b) w"
    and "br_probe_acquired b" and "0 \<le> w_now w" and "1 \<le> cbr_open_timeout_seconds (br_rule b)"
    and "now = w_now w + w_ticks w (w_tick_no w)"
  shows "\<exists>r b' w'. cb_record_failure R cx b w = (Inr (Some r, b'), w') \<and>
    cr_opened r \<and> cr_open_until r = now + of_int (cbr_open_timeout_seconds (br_rule b)) \<and>
    \<not> br_probe_acquired b' \<and> br_last_state b' = OPEN \<and>
    (\<forall>t \<ge> w_now w'. kv (w_redis w') t (ck_probe (cb_keys_of cx (br_rule b))) = None) \<and>
    (\<forall>T \<ge> w_now w'. \<exists>w''. cb_get_state R cx req (br_rule b) (w'\<lparr>w_now := T\<rparr>) =
       (Inr (if T + w_ticks w' (w_tick_no w') < cr_open_until r then OPEN else HALF_OPEN), w''))"
  by (rule reliable_store.failure_reopens [OF assms])

theorem probe_failure_reopens_witness:
  "\<exists>r b' w'. cb_record_failure fake_redis demo_ctx probing_breaker half_open_world = (Inr (Some r, b'), w')
     \<and> cr_open_until r = 1008 \<and> br_last_state b' = OPEN"
proof -
  have br: "br_rule probing_breaker = br_rule demo_breaker" "br_probe_acquired probing_breaker"
    "cbr_open_timeout_seconds (br_rule probing_breaker) = 8"
    by (simp_all add: probing_breaker_def demo_breaker_def)
  have w: "w_now half_open_world = 1000" "w_ticks half_open_world n = 0" for n
    by (simp_all add: half_open_world_def demo_world_def)
  have pre: "breaker_ready fake_pk (\<lambda>s. \<not> f_broken s) demo_ctx (br_rule probing_breaker) half_open_world"
    using half_open_ready by (simp add: br)
  have "0 \<le> w_now half_open_world" "1 \<le> cbr_open_timeout_seconds (br_rule probing_breaker)"
    "(1000::rat) = w_now half_open_world + w_ticks half_open_world (w_tick_no half_open_world)"
    by (simp_all add: br(3) w)
  from probe_failure_reopens [OF fr.reliable_store_axioms pre br(2) this, of None] obtain r b' w' where
    "cb_record_failure fake_redis demo_ctx probing_breaker half_open_world = (Inr (Some r, b'), w')"
    "cr_open_until r = 1000 + of_int (cbr_open_timeout_seconds (br_rule probing_breaker))" "br_last_state b' = OPEN"
    by blast
  then show ?thesis by (simp add: br(3))
qed

end
