(* ===== verification/Breaker_Window.thy ===== *)
theory Breaker_Window
  imports Breaker_Correct
begin

text \<open>
  The breaker's shared window: the counts its script works with are exactly the numbers of outcomes
  and of failures of the last seconds, and it opens the breaker exactly when the rule says so.
\<close>

section \<open>Sets of timed members\<close>

context redis_contract
begin

text \<open>\<open>G\<close> lists the members added so far, with their times.\<close>

definition win_inv :: "string \<Rightarrow> rat \<Rightarrow> ('s, 'z) world_scheme \<Rightarrow> (rat \<times> string) list \<Rightarrow> bool" where
  "win_inv K W w G =
     ((\<forall>(x, m) \<in> set G. x \<le> w_now w \<and>
         (\<forall>t \<ge> w_now w. t - W < x \<longrightarrow> zs (w_redis w) t K m = Some x)) \<and>
      (\<forall>t m sc. w_now w \<le> t \<and> zs (w_redis w) t K m = Some sc \<and> t - W < sc \<longrightarrow> (sc, m) \<in> set G) \<and>
      distinct (map snd G) \<and>
      (\<forall>m \<in> snd ` set G. \<exists>i < w_uuid_no w. \<exists>p. m = p @ '':'' @ w_uuids w i))"

lemma win_invI:
  assumes "\<And>x m. (x, m) \<in> set G \<Longrightarrow> x \<le> w_now w \<and> (\<forall>t \<ge> w_now w. t - W < x \<longrightarrow> zs (w_redis w) t K m = Some x)"
    and "\<And>t m sc. w_now w \<le> t \<Longrightarrow> zs (w_redis w) t K m = Some sc \<Longrightarrow> t - W < sc \<Longrightarrow> (sc, m) \<in> set G"
    and "distinct (map snd G)"
    and "\<And>m. m \<in> snd ` set G \<Longrightarrow> \<exists>i < w_uuid_no w. \<exists>p. m = p @ '':'' @ w_uuids w i"
  shows "win_inv K W w G"
  using assms unfolding win_inv_def by blast

definition recent :: "rat \<Rightarrow> (rat \<times> 'b) list \<Rightarrow> (rat \<times> 'b) list" where
  "recent lo G = filter (\<lambda>(x, m). lo < x) G"

lemma win_count:
  assumes "win_inv K W w G" and "w_now w \<le> t"
  shows "card (dom (trim_map (t - W) (zs (w_redis w) t K))) = length (recent (t - W) G)"
proof -
  have "dom (trim_map (t - W) (zs (w_redis w) t K)) = snd ` set (recent (t - W) G)"
  proof (intro equalityI subsetI)
    fix m assume "m \<in> dom (trim_map (t - W) (zs (w_redis w) t K))"
    then obtain sc where "zs (w_redis w) t K m = Some sc" "t - W < sc" by (auto simp: dom_trim_map)
    with assms have "(sc, m) \<in> set (recent (t - W) G)" by (auto simp: win_inv_def recent_def)
    then show "m \<in> snd ` set (recent (t - W) G)" by force
  next
    fix m assume "m \<in> snd ` set (recent (t - W) G)"
    then obtain x where x: "(x, m) \<in> set G" "t - W < x" by (auto simp: recent_def)
    with assms have "zs (w_redis w) t K m = Some x" unfolding win_inv_def by blast
    with x show "m \<in> dom (trim_map (t - W) (zs (w_redis w) t K))" by (auto simp: dom_trim_map)
  qed
  moreover have "distinct (map snd (recent (t - W) G))"
    using assms(1) by (auto simp: win_inv_def recent_def intro: distinct_map_filter)
  ultimately show ?thesis by (metis distinct_card length_map set_map)
qed

text \<open>What the script does to a set: members older than the window go, a member may come.\<close>

definition trimmed :: "'s \<Rightarrow> 's \<Rightarrow> rat \<Rightarrow> string \<Rightarrow> rat \<Rightarrow> bool" where
  "trimmed s s' t K W = (\<forall>t' \<ge> t. zs s' t' K = trim_map (t - W) (zs s t' K))"

definition extended :: "'s \<Rightarrow> 's \<Rightarrow> rat \<Rightarrow> string \<Rightarrow> rat \<Rightarrow> string \<Rightarrow> int \<Rightarrow> bool" where
  "extended s s' t K W m ttl =
     ((\<forall>t'. t \<le> t' \<and> t' < t + of_int ttl \<longrightarrow> zs s' t' K = (trim_map (t - W) (zs s t K))(m \<mapsto> t)) \<and>
      (\<forall>t' k sc. t \<le> t' \<and> zs s' t' K k = Some sc \<longrightarrow> ((trim_map (t - W) (zs s t K))(m \<mapsto> t)) k = Some sc))"

lemma win_inv_trim:
  assumes "win_inv K W w G" and "trimmed (w_redis w) (w_redis w') t K W"
    and "w_now w \<le> t" and "w_now w' = t" and "w_uuids w' = w_uuids w" and "w_uuid_no w \<le> w_uuid_no w'"
  shows "win_inv K W w' G"
proof -
  have inv: "\<forall>(x, m) \<in> set G. x \<le> w_now w \<and> (\<forall>t \<ge> w_now w. t - W < x \<longrightarrow> zs (w_redis w) t K m = Some x)"
    "\<forall>t m sc. w_now w \<le> t \<and> zs (w_redis w) t K m = Some sc \<and> t - W < sc \<longrightarrow> (sc, m) \<in> set G"
    using assms(1) by (simp_all add: win_inv_def)
  have "x \<le> t \<and> (\<forall>t' \<ge> t. t' - W < x \<longrightarrow> zs (w_redis w') t' K m = Some x)" if "(x, m) \<in> set G" for x m
    using inv(1) that assms(2,3) by (fastforce simp: trimmed_def trim_map_Some)
  moreover have "(sc, m) \<in> set G" if "t \<le> t'" "zs (w_redis w') t' K m = Some sc" "t' - W < sc" for t' m sc
    using inv(2) that assms(2) order_trans [OF assms(3) that(1)] by (auto simp: trimmed_def trim_map_Some)
  moreover have "\<exists>i < w_uuid_no w'. \<exists>p. m = p @ '':'' @ w_uuids w' i" if "m \<in> snd ` set G" for m
  proof -
    from assms(1) that obtain i p where "i < w_uuid_no w" "m = p @ '':'' @ w_uuids w i"
      unfolding win_inv_def by blast
    then have "i < w_uuid_no w'" "m = p @ '':'' @ w_uuids w' i" using assms(5,6) by simp_all
    then show ?thesis by blast
  qed
  moreover have "distinct (map snd G)" using assms(1) by (simp add: win_inv_def)
  ultimately show ?thesis using assms(4) by (intro win_invI) blast+
qed

lemma win_inv_extend:
  assumes inv: "win_inv K W w G" and ext: "extended (w_redis w) (w_redis w') t K W m ttl"
    and "w_now w \<le> t" and "w_now w' = t" and "w_uuids w' = w_uuids w" and "W < of_int ttl"
    and m: "m = p @ '':'' @ w_uuids w i" and i: "w_uuid_no w \<le> i" "i < w_uuid_no w'" and fresh: "fresh_uuids w"
  shows "win_inv K W w' (G @ [(t, m)])"
proof -
  have old: "\<forall>(x, m) \<in> set G. x \<le> w_now w \<and> (\<forall>t \<ge> w_now w. t - W < x \<longrightarrow> zs (w_redis w) t K m = Some x)"
    "\<forall>t m sc. w_now w \<le> t \<and> zs (w_redis w) t K m = Some sc \<and> t - W < sc \<longrightarrow> (sc, m) \<in> set G"
    "\<forall>m \<in> snd ` set G. \<exists>i < w_uuid_no w. \<exists>p. m = p @ '':'' @ w_uuids w i"
    using inv by (simp_all add: win_inv_def)
  have new: "m \<notin> snd ` set G"
  proof
    assume "m \<in> snd ` set G"
    with old(3) obtain j q where j: "j < w_uuid_no w" "m = q @ '':'' @ w_uuids w j" by blast
    then have "w_uuids w j = w_uuids w i"
      using fresh m last_field_eq [of q "CHR '':''" "w_uuids w j" p] by (simp add: fresh_uuids_def)
    then have "j = i" using fresh by (simp add: fresh_uuids_def inj_eq)
    with i j show False by simp
  qed
  have "x \<le> t \<and> (\<forall>t' \<ge> t. t' - W < x \<longrightarrow> zs (w_redis w') t' K k = Some x)" if "(x, k) \<in> set (G @ [(t, m)])" for x k
  proof (intro conjI allI impI)
    show le: "x \<le> t" using that old(1) assms(3) by auto
    fix t' assume t': "t \<le> t'" "t' - W < x"
    then have "zs (w_redis w') t' K = (trim_map (t - W) (zs (w_redis w) t K))(m \<mapsto> t)"
      using ext le assms(6) by (auto simp: extended_def)
    moreover have "k \<noteq> m \<Longrightarrow> zs (w_redis w) t K k = Some x"
      using that old(1) t' assms(3) by fastforce
    ultimately show "zs (w_redis w') t' K k = Some x"
      using that new t' by (cases "k = m") (force simp: trim_map_Some)+
  qed
  moreover have "(sc, k) \<in> set (G @ [(t, m)])" if "t \<le> t'" "zs (w_redis w') t' K k = Some sc" "t' - W < sc" for t' k sc
  proof -
    have "((trim_map (t - W) (zs (w_redis w) t K))(m \<mapsto> t)) k = Some sc"
      using ext that by (auto simp: extended_def)
    then show ?thesis using old(2) assms(3) by (auto simp: trim_map_Some split: if_splits)
  qed
  moreover have "\<exists>i < w_uuid_no w'. \<exists>p. k = p @ '':'' @ w_uuids w' i" if k: "k \<in> snd ` set (G @ [(t, m)])" for k
  proof (cases "k = m")
    case True
    with m i assms(5) have "k = p @ '':'' @ w_uuids w' i" by simp
    with i show ?thesis by blast
  next
    case False
    with k old(3) obtain j q where "j < w_uuid_no w" "k = q @ '':'' @ w_uuids w j" by auto
    then have "j < w_uuid_no w'" "k = q @ '':'' @ w_uuids w' j" using i assms(5) by simp_all
    then show ?thesis by blast
  qed
  moreover have "distinct (map snd (G @ [(t, m)]))" using inv new by (simp add: win_inv_def)
  ultimately show ?thesis using assms(4) by (intro win_invI) blast+
qed

lemma zrem_trimmed: "r_zremrangebyscore R K (t - W) t s = (Inr n, s') \<Longrightarrow> trimmed s s' t K W"
  using zrem_now by (simp add: trimmed_def)

lemma zadd_extended:
  assumes "zs s1 t K = trim_map (t - W) (zs s t K)"
    and "r_zadd R K t m t s1 = (Inr u, s2)" and "r_expire R K ttl t s2 = (Inr b, s3)"
    and "\<And>t'. t \<le> t' \<Longrightarrow> zs s' t' K = zs s3 t' K"
  shows "extended s s' t K W m ttl"
proof -
  have z2: "zs s2 t K = (trim_map (t - W) (zs s t K))(m \<mapsto> t)"
    using zadd_now [OF assms(2)] assms(1) by simp
  have "zs s' t' K = zs s2 t K" if "t \<le> t'" "t' < t + of_int ttl" for t'
    using assms(4) [OF that(1)] expire_zs [OF assms(3) that] by simp
  moreover have "zs s2 t K k = Some sc" if "t \<le> t'" "zs s' t' K k = Some sc" for t' k sc
    using assms(4) [OF that(1)] that expire_zs_sub [OF assms(3) that(1)] by simp
  ultimately show ?thesis unfolding extended_def z2 by blast
qed

text \<open>The end of the script, after the counts are known.\<close>

definition script_decides ::
  "cb_keys \<Rightarrow> circuit_breaker_rule \<Rightarrow> rat \<Rightarrow> nat \<Rightarrow> nat \<Rightarrow> rat \<Rightarrow> rat list \<Rightarrow> 's \<Rightarrow> 's \<Rightarrow> bool" where
  "script_decides ks rule t f n U raw s s' =
     (let opens = (int n \<ge> cbr_min_request_count rule \<and> failure_rate_of f n \<ge> cbr_failure_rate_threshold rule \<and> U \<le> t);
          next_until = t + of_int (cbr_open_timeout_seconds rule) in
      raw = map (r_lua_reply R) [of_bool opens, of_nat f, of_nat n, failure_rate_of f n,
        if opens then next_until else U] \<and>
      (if opens then r_set R (ck_open_until ks) (RNum (r_lua_text R next_until)) None False t s = (Inr True, s')
       else s' = s))"

lemma breaker_script_runs:
  assumes "circuit_breaker_lua R ks action t rule ttl tm fm t s = (Inr raw, s')"
    and "lua_tonumber (kv s t (ck_open_until ks)) = Some U"
    and d: "distinct [ck_open_until ks, ck_failures ks, ck_totals ks]"
  defines "c \<equiv> t - of_int (cbr_window_seconds rule)"
  obtains n1 s1 n2 s2 s3 b s4 s5 f s6 n s7 v s8 where
    "r_zremrangebyscore R (ck_failures ks) c t s = (Inr n1, s1)"
    "r_zremrangebyscore R (ck_totals ks) c t s1 = (Inr n2, s2)"
    "r_zadd R (ck_totals ks) t tm t s2 = (Inr (), s3)" "r_expire R (ck_totals ks) ttl t s3 = (Inr b, s4)"
    "lua_when (action = ''failure'') (lua_thn (r_zadd R (ck_failures ks) t fm)
       (lua_thn (r_expire R (ck_failures ks) ttl) (lua_ret ()))) t s4 = (Inr (), s5)"
    "r_zcard R (ck_failures ks) t s5 = (Inr f, s6)" "r_zcard R (ck_totals ks) t s6 = (Inr n, s7)"
    "r_get R (ck_open_until ks) t s7 = (Inr v, s8)"
    "lua_tonumber v = Some U \<Longrightarrow> script_decides ks rule t f n U raw s8 s'"
proof -
  from assms(1) [unfolded circuit_breaker_lua_def lua_thn_Inr lua_bnd_Inr, folded c_def] obtain n1 s1 n2 s2 s3 b s4 s5 f s6 n s7 v s8 where
    r: "r_zremrangebyscore R (ck_failures ks) c t s = (Inr n1, s1)"
    "r_zremrangebyscore R (ck_totals ks) c t s1 = (Inr n2, s2)"
    "r_zadd R (ck_totals ks) t tm t s2 = (Inr (), s3)" "r_expire R (ck_totals ks) ttl t s3 = (Inr b, s4)"
    "lua_when (action = ''failure'') (lua_thn (r_zadd R (ck_failures ks) t fm)
       (lua_thn (r_expire R (ck_failures ks) ttl) (lua_ret ()))) t s4 = (Inr (), s5)"
    "r_zcard R (ck_failures ks) t s5 = (Inr f, s6)" "r_zcard R (ck_totals ks) t s6 = (Inr n, s7)"
    "r_get R (ck_open_until ks) t s7 = (Inr v, s8)"
    and tail: "circuit_breaker_decide R ks t rule f n (lua_tonumber v) t s8 = (Inr raw, s')"
    by auto
  have "script_decides ks rule t f n U raw s8 s'" if v: "lua_tonumber v = Some U"
  proof (cases "cbr_min_request_count rule \<le> int n \<and> cbr_failure_rate_threshold rule \<le> failure_rate_of f n \<and> U \<le> t")
    case True
    then obtain x where x: "r_set R (ck_open_until ks) (RNum (r_lua_text R (t + of_int (cbr_open_timeout_seconds rule)))) None False t s8 = (Inr x, s')"
      and raw: "raw = map (r_lua_reply R) [1, of_nat f, of_nat n, failure_rate_of f n, t + of_int (cbr_open_timeout_seconds rule)]"
      using tail v by (auto simp: lua_Inr circuit_breaker_decide_def Let_def)
    with set_done [OF x] True show ?thesis by (simp add: script_decides_def)
  next
    case False
    with tail v show ?thesis by (auto simp: script_decides_def lua_Inr circuit_breaker_decide_def Let_def split: if_splits)
  qed
  with r show ?thesis by (rule that)
qed

lemma breaker_script:
  assumes run: "circuit_breaker_lua R ks action t rule ttl tm fm t s = (Inr raw, s')"
    and d: "distinct [ck_open_until ks, ck_failures ks, ck_totals ks]"
    and W: "W = of_int (cbr_window_seconds rule)" and pk: "pk s (ck_open_until ks)"
    and U: "lua_tonumber (kv s t (ck_open_until ks)) = Some U"
  defines "f \<equiv> card (dom (zs s' t (ck_failures ks)))" and "n \<equiv> card (dom (zs s' t (ck_totals ks)))"
  defines "opens \<equiv> int n \<ge> cbr_min_request_count rule \<and> failure_rate_of f n \<ge> cbr_failure_rate_threshold rule \<and> U \<le> t"
    and "next_until \<equiv> t + of_int (cbr_open_timeout_seconds rule)"
  shows "raw = map (r_lua_reply R) [of_bool opens, of_nat f, of_nat n, failure_rate_of f n,
      if opens then next_until else U]"
    and "extended s s' t (ck_totals ks) W tm ttl"
    and "if action = ''failure'' then extended s s' t (ck_failures ks) W fm ttl
         else trimmed s s' t (ck_failures ks) W"
    and "pk s' (ck_open_until ks)"
    and "\<forall>t' \<ge> t. lua_tonumber (kv s' t' (ck_open_until ks)) = Some (if opens then r_lua_text R next_until else U)"
proof -
  let ?F = "ck_failures ks" and ?T = "ck_totals ks" and ?O = "ck_open_until ks"
  have ne: "?F \<noteq> ?T" "?T \<noteq> ?F" "?F \<noteq> ?O" "?T \<noteq> ?O" "?O \<noteq> ?F" "?O \<noteq> ?T" using d by auto
  from breaker_script_runs [OF run U d] obtain n1 s1 n2 s2 s3 b s4 s5 f0 s6 n0 s7 v s8 where
    z1: "r_zremrangebyscore R ?F (t - W) t s = (Inr n1, s1)"
    and z2: "r_zremrangebyscore R ?T (t - W) t s1 = (Inr n2, s2)"
    and a: "r_zadd R ?T t tm t s2 = (Inr (), s3)" and e: "r_expire R ?T ttl t s3 = (Inr b, s4)"
    and fl0: "lua_when (action = ''failure'') (lua_thn (r_zadd R ?F t fm)
       (lua_thn (r_expire R ?F ttl) (lua_ret ()))) t s4 = (Inr (), s5)"
    and c1: "r_zcard R ?F t s5 = (Inr f0, s6)" and c2: "r_zcard R ?T t s6 = (Inr n0, s7)"
    and g: "r_get R ?O t s7 = (Inr v, s8)"
    and dec: "lua_tonumber v = Some U \<Longrightarrow> script_decides ks rule t f0 n0 U raw s8 s'"
    unfolding W by blast
  from fl0 have fl: "if action = ''failure'' then \<exists>sa b. r_zadd R ?F t fm t s4 = (Inr (), sa) \<and>
       r_expire R ?F ttl t sa = (Inr b, s5) else s5 = s4"
    by (auto simp: lua_Inr split: if_splits)
  have s4: "kv s4 t' ?O = kv s t' ?O" "pk s4 ?O" for t'
    using pk ne zrem_kv [OF z1] zrem_kv [OF z2] zadd_kv [OF a] expire_kv_keeps [OF e]
      zrem_pk [OF z1] zrem_pk [OF z2] zadd_pk [OF a] expire_pk [OF e] by simp_all
  have s5: "kv s5 t' ?O = kv s t' ?O" "pk s5 ?O" "zs s5 t' ?T = zs s4 t' ?T" for t'
  proof -
    have "kv s5 t' ?O = kv s4 t' ?O \<and> pk s5 ?O \<and> zs s5 t' ?T = zs s4 t' ?T"
    proof (cases "action = ''failure''")
      case True
      with fl obtain sa b' where fa: "r_zadd R ?F t fm t s4 = (Inr (), sa)" and fe: "r_expire R ?F ttl t sa = (Inr b', s5)"
        by auto
      show ?thesis
        using zadd_kv [OF fa ne(5), of t'] expire_kv_keeps [OF fe ne(5), of t'] zadd_pk [OF fa ne(5) s4(2)]
          expire_pk [OF fe ne(5)] zadd_zs [OF fa ne(2), of t'] expire_zs_keeps [OF fe ne(2), of t'] by simp
    qed (use fl s4 in simp)
    with s4 show "kv s5 t' ?O = kv s t' ?O" "pk s5 ?O" "zs s5 t' ?T = zs s4 t' ?T" by simp_all
  qed
  have s8: "t \<le> t' \<Longrightarrow> kv s8 t' ?O = kv s t' ?O" "pk s8 ?O" "t \<le> t' \<Longrightarrow> zs s8 t' ?T = zs s4 t' ?T"
      "t \<le> t' \<Longrightarrow> zs s8 t' ?F = zs s5 t' ?F" for t'
    using s5 ne zcard_kv [OF c1] zcard_kv [OF c2] get_keeps [OF g] zcard_pk [OF c1] zcard_pk [OF c2] get_pk [OF g]
      zcard_zs [OF c1] zcard_zs [OF c2] get_zs [OF g] by simp_all
  have "v = kv s t ?O" using get_value [OF g] zcard_kv [OF c2] zcard_kv [OF c1] s5(1) by simp
  with dec U have dec: "script_decides ks rule t f0 n0 U raw s8 s'" by simp
  have s': "zs s' t' ?T = zs s8 t' ?T" "zs s' t' ?F = zs s8 t' ?F" for t'
    using dec ne set_zs [of ?O "RNum (r_lua_text R (t + of_int (cbr_open_timeout_seconds rule)))" None False t s8 True s' _ t']
    by (auto simp: script_decides_def Let_def split: if_splits)
  have f0: "f0 = f" using zcard_count [OF c1] s' s8(4) [of t] by (simp add: f_def)
  have n0: "n0 = n" using zcard_count [OF c2] zcard_zs [OF c1, of t] s' s8(3) [of t] s5(3) [of t] by (simp add: n_def)
  note dec = dec [unfolded f0 n0 script_decides_def Let_def, folded opens_def next_until_def]
  show "raw = map (r_lua_reply R) [of_bool opens, of_nat f, of_nat n, failure_rate_of f n,
      if opens then next_until else U]" using dec by simp
  show "pk s' ?O" using dec s8(2) set_plain_pk by (auto split: if_splits)
  show "\<forall>t' \<ge> t. lua_tonumber (kv s' t' ?O) = Some (if opens then r_lua_text R next_until else U)"
  proof (intro allI impI)
    fix t' assume t': "t \<le> t'"
    show "lua_tonumber (kv s' t' ?O) = Some (if opens then r_lua_text R next_until else U)"
    proof (cases opens)
      case True
      then have "r_set R ?O (RNum (r_lua_text R next_until)) None False t s8 = (Inr True, s')" using dec by simp
      from set_plain [OF this s8(2) t'] True show ?thesis by (simp add: lua_tonumber_def)
    next
      case False
      then show ?thesis using dec s8(1) [OF t'] U pk_stable [OF pk, of t' t] by simp
    qed
  qed
  have T2: "zs s2 t ?T = trim_map (t - W) (zs s t ?T)"
    using zrem_now [OF z2, of t] zrem_zs [OF z1 ne(2)] by simp
  show "extended s s' t ?T W tm ttl"
    by (rule zadd_extended [OF T2 a e]) (simp add: s' s8(3))
  have F4: "zs s4 t' ?F = trim_map (t - W) (zs s t' ?F)" if "t \<le> t'" for t'
    using zrem_now [OF z1 that] zrem_zs [OF z2 ne(1)] zadd_zs [OF a ne(1)] expire_zs_keeps [OF e ne(1)] by simp
  show "if action = ''failure'' then extended s s' t ?F W fm ttl else trimmed s s' t ?F W"
  proof (cases "action = ''failure''")
    case True
    with fl obtain sa b' where "r_zadd R ?F t fm t s4 = (Inr (), sa)" "r_expire R ?F ttl t sa = (Inr b', s5)" by auto
    from zadd_extended [OF F4 this] True s' s8(4) show ?thesis by simp
  next
    case False
    then show ?thesis using fl F4 s' s8(4) by (simp add: trimmed_def)
  qed
qed

lemma extended_trim:
  assumes "extended s s' t K W m ttl" and "0 < W"
  shows "trim_map (t - W) (zs s' t K) = zs s' t K"
proof (rule ext)
  fix k
  have "t - W < sc" if "zs s' t K k = Some sc" for sc
  proof -
    have "((trim_map (t - W) (zs s t K))(m \<mapsto> t)) k = Some sc"
      using assms(1) that unfolding extended_def by blast
    then show ?thesis using assms(2) by (cases "k = m") (simp_all add: trim_map_Some)
  qed
  then show "trim_map (t - W) (zs s' t K) k = zs s' t K k"
    by (cases "zs s' t K k") (auto simp: trim_map_def)
qed

lemma trim_map_twice: "trim_map lo (trim_map lo z) = trim_map lo z"
  by (rule ext) (simp add: trim_map_def split: option.split)

lemma trimmed_trim:
  assumes "trimmed s s' t K W"
  shows "trim_map (t - W) (zs s' t K) = zs s' t K"
proof -
  have "zs s' t K = trim_map (t - W) (zs s t K)" using assms by (simp add: trimmed_def)
  then show ?thesis using trim_map_twice by metis
qed

end

section \<open>A run of outcomes\<close>

fun record_outcomes ::
  "'s redis_ops \<Rightarrow> ctx \<Rightarrow> circuit_breaker_rule \<Rightarrow> string list \<Rightarrow>
   (('s, 'z) world_scheme, (rat \<times> bool \<times> record_result) list) prog" where
  "record_outcomes R cx rule [] = ret []"
| "record_outcomes R cx rule (action # actions) =
     bnd (cb_record_outcome R cx rule action) (\<lambda>r.
     bnd (gets w_now) (\<lambda>t.
     bnd (record_outcomes R cx rule actions) (\<lambda>rest. ret ((t, action = ''failure'', r) # rest))))"

text \<open>
  The reference: \<open>H\<close> lists the outcomes before (time, failed), \<open>U\<close> is the moment until which the
  breaker is open.
\<close>

fun window_reference ::
  "circuit_breaker_rule \<Rightarrow> (rat \<Rightarrow> rat) \<Rightarrow> rat \<Rightarrow> (rat \<times> bool) list \<Rightarrow> (rat \<times> bool \<times> record_result) list \<Rightarrow> bool" where
  "window_reference rule as_text U H [] = True"
| "window_reference rule as_text U H ((t, failed, r) # outs) =
     (let H' = H @ [(t, failed)];
          recent = filter (\<lambda>(x, fl). t - of_int (cbr_window_seconds rule) < x) H';
          n = length recent; f = length (filter snd recent);
          opens = (int n \<ge> cbr_min_request_count rule \<and>
                   failure_rate_of f n \<ge> cbr_failure_rate_threshold rule \<and> U \<le> t);
          next_until = t + of_int (cbr_open_timeout_seconds rule) in
      cr_opened r = opens \<and> sn_failure_count (cr_snapshot r) = int f \<and>
      sn_total_request_count (cr_snapshot r) = int n \<and>
      window_reference rule as_text (if opens then as_text next_until else U) H' outs)"

context redis_contract
begin

text \<open>What holds between two outcomes.\<close>

definition outcome_inv ::
  "ctx \<Rightarrow> circuit_breaker_rule \<Rightarrow> ('s, 'z) world_scheme \<Rightarrow> rat \<Rightarrow> (rat \<times> bool) list \<Rightarrow> bool" where
  "outcome_inv cx rule w U H =
     (let ks = cb_keys_of cx rule; W = of_int (cbr_window_seconds rule) in
      (\<exists>F T. win_inv (ck_failures ks) W w F \<and> win_inv (ck_totals ks) W w T \<and>
         map fst T = map fst H \<and> map fst F = map fst (filter snd H)) \<and>
      pk (w_redis w) (ck_open_until ks) \<and> mono_ticks w \<and> fresh_uuids w \<and>
      (\<forall>t \<ge> w_now w. lua_tonumber (kv (w_redis w) t (ck_open_until ks)) = Some U))"

lemma count_fst:
  "length (filter (\<lambda>(x, fl). lo < x) H) = length (filter (\<lambda>x. lo < x) (map fst H))"
  "length (filter snd (filter (\<lambda>(x, fl). lo < x) H)) = length (filter (\<lambda>x. lo < x) (map fst (filter snd H)))"
  by (induction H) auto

lemma recent_fst: "length (recent lo G) = length (filter (\<lambda>x. lo < x) (map fst G))"
  by (simp add: recent_def filter_map comp_def case_prod_unfold)

lemma outcome_step:
  assumes run: "cb_record_outcome R cx rule action w = (Inr r, w')"
    and inv: "outcome_inv cx rule w U H" and win: "1 \<le> cbr_window_seconds rule"
    and d: "distinct [ck_open_until (cb_keys_of cx rule), ck_failures (cb_keys_of cx rule), ck_totals (cb_keys_of cx rule)]"
    and reply: "\<And>n. r_lua_reply R (of_int n) = of_int n"
  shows "\<exists>U'. outcome_inv cx rule w' U' (H @ [(w_now w', action = ''failure'')]) \<and>
    (\<forall>outs. window_reference rule (r_lua_text R) U H ((w_now w', action = ''failure'', r) # outs) =
       window_reference rule (r_lua_text R) U' (H @ [(w_now w', action = ''failure'')]) outs)"
proof -
  let ?ks = "cb_keys_of cx rule" and ?W = "of_int (cbr_window_seconds rule) :: rat" and ?ttl = "cbr_window_seconds rule + 2"
  define t where "t = w_now w + w_ticks w (w_tick_no w)"
  define tm where "tm = ''total:'' @ fixed6 t @ '':'' @ w_uuids w (w_uuid_no w)"
  define fm where "fm = (if action = ''failure'' then ''failure:'' @ fixed6 t @ '':'' @ w_uuids w (Suc (w_uuid_no w)) else [])"
  from inv obtain F T where F: "win_inv (ck_failures ?ks) ?W w F" and T: "win_inv (ck_totals ?ks) ?W w T"
    and mT: "map fst T = map fst H" and mF: "map fst F = map fst (filter snd H)"
    and pk: "pk (w_redis w) (ck_open_until ?ks)" and mono: "mono_ticks w" and fresh: "fresh_uuids w"
    and U: "\<forall>t \<ge> w_now w. lua_tonumber (kv (w_redis w) t (ck_open_until ?ks)) = Some U"
    by (auto simp: outcome_inv_def Let_def)
  have now: "w_now w \<le> t" using mono by (simp add: t_def mono_ticks_def)
  obtain raw s' where scr: "circuit_breaker_lua R ?ks action t rule ?ttl tm fm t (w_redis w) = (Inr raw, s')"
    and len: "4 < length raw"
    and r: "cr_opened r = (trunc (raw ! 0) \<noteq> 0)" "sn_failure_count (cr_snapshot r) = trunc (raw ! 1)"
      "sn_total_request_count (cr_snapshot r) = trunc (raw ! 2)"
    and w': "w' = w\<lparr>w_now := t, w_tick_no := Suc (w_tick_no w),
      w_uuid_no := (if action = ''failure'' then Suc (Suc (w_uuid_no w)) else Suc (w_uuid_no w)), w_redis := s'\<rparr>"
    using run by (auto simp: cb_record_outcome_def prog_simps t_def tm_def fm_def reply_item_def
        split: if_splits prod.splits sum.splits)
  have Ut: "lua_tonumber (kv (w_redis w) t (ck_open_until ?ks)) = Some U" using U now by simp
  note script = breaker_script [OF scr d refl pk Ut]
  define f where "f = length (filter snd (filter (\<lambda>(x, fl). t - ?W < x) (H @ [(t, action = ''failure'')])))"
  define n where "n = length (filter (\<lambda>(x, fl). t - ?W < x) (H @ [(t, action = ''failure'')]))"
  have W: "0 < ?W" "?W < of_int ?ttl" using win by simp_all
  have view: "w_now w' = t" "w_uuids w' = w_uuids w" "w_redis w' = s'" "w_uuid_no w < w_uuid_no w'"
    by (simp_all add: w')
  have T': "win_inv (ck_totals ?ks) ?W w' (T @ [(t, tm)])"
    by (rule win_inv_extend [where t = t and ttl = ?ttl and i = "w_uuid_no w", OF T _ now view(1,2) W(2) _ _ view(4) fresh])
      (use script(2) in \<open>simp_all add: view tm_def\<close>)
  have F': "win_inv (ck_failures ?ks) ?W w' (F @ (if action = ''failure'' then [(t, fm)] else []))"
  proof (cases "action = ''failure''")
    case True
    have "win_inv (ck_failures ?ks) ?W w' (F @ [(t, fm)])"
      by (rule win_inv_extend [where t = t and ttl = ?ttl and i = "Suc (w_uuid_no w)", OF F _ now view(1,2) W(2) _ _ _ fresh])
        (use script(3) True in \<open>simp_all add: w' fm_def\<close>)
    with True show ?thesis by simp
  next
    case False
    have "win_inv (ck_failures ?ks) ?W w' F"
      by (rule win_inv_trim [where t = t, OF F _ now view(1,2)]) (use script(3) False view in simp_all)
    with False show ?thesis by simp
  qed
  have cT: "card (dom (zs s' t (ck_totals ?ks))) = n"
  proof -
    have "card (dom (zs s' t (ck_totals ?ks))) = length (recent (t - ?W) (T @ [(t, tm)]))"
      using win_count [OF T', of t] extended_trim [OF script(2) W(1)] by (simp add: view)
    then show ?thesis unfolding recent_fst n_def count_fst by (simp add: mT)
  qed
  have cF: "card (dom (zs s' t (ck_failures ?ks))) = f"
  proof -
    have "trim_map (t - ?W) (zs s' t (ck_failures ?ks)) = zs s' t (ck_failures ?ks)"
      using script(3) extended_trim [OF _ W(1)] trimmed_trim by (cases "action = ''failure''") auto
    then have "card (dom (zs s' t (ck_failures ?ks))) =
        length (recent (t - ?W) (F @ (if action = ''failure'' then [(t, fm)] else [])))"
      using win_count [OF F', of t] by (simp add: view)
    then show ?thesis unfolding recent_fst f_def count_fst by (simp add: mF)
  qed
  define opens where "opens = (int n \<ge> cbr_min_request_count rule \<and>
    failure_rate_of f n \<ge> cbr_failure_rate_threshold rule \<and> U \<le> t)"
  define U' where "U' = (if opens then r_lua_text R (t + of_int (cbr_open_timeout_seconds rule)) else U)"
  have nat_reply: "r_lua_reply R (of_nat m) = of_nat m" for m using reply [of "int m"] by simp
  have raw: "raw ! 0 = of_bool opens" "raw ! 1 = of_nat f" "raw ! 2 = of_nat n"
    using script(1) reply [of 0] reply [of 1] nat_reply by (simp_all add: cT cF opens_def)
  have tr: "trunc (of_nat m) = int m" for m using trunc_of_int [of "int m"] by simp
  have r': "cr_opened r = opens" "sn_failure_count (cr_snapshot r) = int f" "sn_total_request_count (cr_snapshot r) = int n"
    using r raw tr trunc_of_int [of 0] trunc_of_int [of 1] by (simp_all add: of_bool_def)
  have "map fst (T @ [(t, tm)]) = map fst (H @ [(t, action = ''failure'')])"
    "map fst (F @ (if action = ''failure'' then [(t, fm)] else []))
      = map fst (filter snd (H @ [(t, action = ''failure'')]))" by (simp_all add: mT mF)
  moreover have "\<forall>t' \<ge> w_now w'. lua_tonumber (kv (w_redis w') t' (ck_open_until ?ks)) = Some U'"
    using script(5) by (simp add: view U'_def cT cF opens_def)
  moreover have "mono_ticks w'" "fresh_uuids w'" using mono fresh by (simp_all add: w' mono_ticks_def fresh_uuids_def)
  ultimately have "outcome_inv cx rule w' U' (H @ [(w_now w', action = ''failure'')])"
    unfolding outcome_inv_def Let_def using T' F' script(4)
    by (intro conjI exI [of _ "F @ (if action = ''failure'' then [(t, fm)] else [])"] exI [of _ "T @ [(t, tm)]"])
      (simp_all add: view)
  moreover have "window_reference rule (r_lua_text R) U H ((w_now w', action = ''failure'', r) # outs) =
       window_reference rule (r_lua_text R) U' (H @ [(w_now w', action = ''failure'')]) outs" for outs
    by (simp add: Let_def view r' U'_def opens_def n_def f_def)
  ultimately show ?thesis by blast
qed

lemma outcome_inv_Nil:
  assumes "mono_ticks w" and "fresh_uuids w" and "pk (w_redis w) (ck_open_until (cb_keys_of cx rule))"
    and "\<And>t. zs (w_redis w) t (ck_failures (cb_keys_of cx rule)) = Map.empty"
    and "\<And>t. zs (w_redis w) t (ck_totals (cb_keys_of cx rule)) = Map.empty"
    and "\<And>t. lua_tonumber (kv (w_redis w) t (ck_open_until (cb_keys_of cx rule))) = Some U"
  shows "outcome_inv cx rule w U []"
  using assms by (simp add: outcome_inv_def win_inv_def Let_def)

lemma outcomes_reference:
  assumes "record_outcomes R cx rule actions w = (Inr outs, w')"
    and "outcome_inv cx rule w U H" and "1 \<le> cbr_window_seconds rule"
    and "distinct [ck_open_until (cb_keys_of cx rule), ck_failures (cb_keys_of cx rule), ck_totals (cb_keys_of cx rule)]"
    and "\<And>n. r_lua_reply R (of_int n) = of_int n"
  shows "window_reference rule (r_lua_text R) U H outs"
  using assms(1,2)
proof (induction actions arbitrary: w U H outs)
  case Nil
  then show ?case by (simp add: ret_def)
next
  case (Cons action actions)
  from Cons.prems(1) obtain r w1 rest where
    one: "cb_record_outcome R cx rule action w = (Inr r, w1)"
    and rest: "record_outcomes R cx rule actions w1 = (Inr rest, w')"
    and outs: "outs = (w_now w1, action = ''failure'', r) # rest"
    by (auto simp: gets_def ret_def elim!: bnd_eq_InrE)
  from outcome_step [OF one Cons.prems(2) assms(3-5)] Cons.IH [OF rest] show ?case
    unfolding outs by blast
qed

end

text \<open>
  C8. The breaker's window is exact: starting from an empty window, each recorded outcome reports
  as many failures and requests as were recorded in the last \<open>window_seconds\<close>, and opens the breaker
  exactly when there were enough requests, the failure rate reached the threshold, and it was not
  open already.
\<close>

theorem breaker_window_exact:
  assumes "redis_contract R kv zs ct pk"
    and "record_outcomes R cx rule actions w = (Inr outs, w')"
    and "distinct [ck_open_until (cb_keys_of cx rule), ck_failures (cb_keys_of cx rule), ck_totals (cb_keys_of cx rule)]"
    and "\<And>n. r_lua_reply R (of_int n) = of_int n"
    and "1 \<le> cbr_window_seconds rule" and "mono_ticks w" and "fresh_uuids w"
    and "pk (w_redis w) (ck_open_until (cb_keys_of cx rule))"
    and "\<And>t. zs (w_redis w) t (ck_failures (cb_keys_of cx rule)) = Map.empty"
    and "\<And>t. zs (w_redis w) t (ck_totals (cb_keys_of cx rule)) = Map.empty"
    and "\<And>t. lua_tonumber (kv (w_redis w) t (ck_open_until (cb_keys_of cx rule))) = Some U"
  shows "window_reference rule (r_lua_text R) U [] outs"
  using redis_contract.outcomes_reference [OF assms(1,2)
      redis_contract.outcome_inv_Nil [OF assms(1,6-11)] assms(5,3,4)] .

lemma outcomes_demo_run:
  "\<exists>r1 r2 w'. record_outcomes fake_redis demo_ctx (br_rule demo_breaker) [''success'', ''failure''] demo_world
     = (Inr [(1000, False, r1), (1000, True, r2)], w')"
  by (simp add: cb_record_outcome_def circuit_breaker_lua_def circuit_breaker_decide_def demo_cb_keys
      demo_breaker_def prog_simps fake_eval demo_world_def reply_item_def lua_tonumber_def failure_rate_of_def)

theorem breaker_window_exact_witness:
  "\<exists>r1 r2 w'. record_outcomes fake_redis demo_ctx (br_rule demo_breaker) [''success'', ''failure''] demo_world
     = (Inr [(1000, False, r1), (1000, True, r2)], w') \<and> \<not> cr_opened r1 \<and> cr_opened r2 \<and>
     sn_failure_count (cr_snapshot r2) = 1 \<and> sn_total_request_count (cr_snapshot r2) = 2"
proof -
  from outcomes_demo_run obtain r1 r2 w' where run:
    "record_outcomes fake_redis demo_ctx (br_rule demo_breaker) [''success'', ''failure''] demo_world
     = (Inr [(1000, False, r1), (1000, True, r2)], w')" by blast
  have "window_reference (br_rule demo_breaker) (r_lua_text fake_redis) 0 [] [(1000, False, r1), (1000, True, r2)]"
    by (rule breaker_window_exact [OF fr.redis_contract_axioms run])
      (simp_all add: demo_cb_keys lua_tonumber_def, simp add: demo_breaker_def)
  then have "\<not> cr_opened r1 \<and> cr_opened r2 \<and>
     sn_failure_count (cr_snapshot r2) = 1 \<and> sn_total_request_count (cr_snapshot r2) = 2"
    by (simp add: demo_breaker_def Let_def failure_rate_of_def)
  with run show ?thesis by blast
qed

end
