(* ===== verification/Chaos_Model.thy ===== *)
theory Chaos_Model
  imports Redis_Store Config
begin

text \<open>
  \<open>chaos_service/chaos\<close>, the passive part: the experiment and its serialised form, the store of
  experiments and reports, the observer with its metrics, the matcher, and the reports.
\<close>

section \<open>Experiments\<close>

record chaos_experiment =
  ex_id :: string
  ex_name :: string
  ex_hypothesis :: string
  ex_target :: dict
  ex_fault_type :: string
  ex_params :: dict
  ex_duration :: int
  ex_status :: string
  ex_created_at :: rat
  ex_updated_at :: rat
  ex_legacy_api :: bool

abbreviation status_running :: string where "status_running \<equiv> ''running''"
abbreviation status_stopped :: string where "status_stopped \<equiv> ''stopped''"

definition experiment_to_dict :: "chaos_experiment \<Rightarrow> dict" where
  "experiment_to_dict e = dict_of
     [(''id'', JStr (ex_id e)), (''name'', JStr (ex_name e)), (''hypothesis'', JStr (ex_hypothesis e)),
      (''target'', JObj (ex_target e)), (''fault_type'', JStr (ex_fault_type e)),
      (''params'', JObj (ex_params e)), (''duration'', JInt (ex_duration e)),
      (''status'', JStr (ex_status e)), (''created_at'', JFloat (ex_created_at e)),
      (''updated_at'', JFloat (ex_updated_at e)), (''legacy_api'', JBool (ex_legacy_api e))]"

text \<open>\<open>data.get(k) or {}\<close>, made a dict.\<close>

definition dict_or_empty :: "dict \<Rightarrow> string \<Rightarrow> ('w, dict) prog" where
  "dict_or_empty d k = (let v = dget_or d k JNull in if truthy v then lift (json_dict v) else ret fmempty)"

text \<open>
  \<open>ChaosExperiment.from_dict\<close> on any JSON value. The defaults of the two times are computed
  whether they are used or not, so the clock is read twice.
\<close>

definition experiment_from_dict :: "json \<Rightarrow> (('s, 'z) world_scheme, chaos_experiment) prog" where
  "experiment_from_dict v =
     bnd (subscript v ''id'') (\<lambda>i.
     bnd (subscript v ''name'') (\<lambda>n.
     bnd (as_dict v) (\<lambda>d.
     bnd (dict_or_empty d ''target'') (\<lambda>target.
     bnd (dict_item d ''fault_type'') (\<lambda>ft.
     bnd (dict_or_empty d ''params'') (\<lambda>params.
     bnd (dict_item d ''duration'') (\<lambda>dur0.
     bnd (lift (json_int dur0)) (\<lambda>dur.
     bnd py_time (\<lambda>t1.
     bnd (lift (json_float (dget_or d ''created_at'' (JFloat t1)))) (\<lambda>created.
     bnd py_time (\<lambda>t2.
     bnd (lift (json_float (dget_or d ''updated_at'' (JFloat t2)))) (\<lambda>updated.
     ret \<lparr>ex_id = py_str i, ex_name = py_str n,
          ex_hypothesis = py_str (dget_or d ''hypothesis'' (JStr [])), ex_target = target,
          ex_fault_type = py_str ft, ex_params = params, ex_duration = dur,
          ex_status = py_str (dget_or d ''status'' (JStr status_running)),
          ex_created_at = created, ex_updated_at = updated,
          ex_legacy_api = truthy (dget_or d ''legacy_api'' (JBool False))\<rparr>))))))))))))"

definition build_legacy_experiment ::
  "string \<Rightarrow> dict \<Rightarrow> int \<Rightarrow> (('s, 'z) world_scheme, chaos_experiment) prog" where
  "build_legacy_experiment fault_type params duration =
     bnd py_time (\<lambda>now.
     bnd py_uuid (\<lambda>u.
     ret \<lparr>ex_id = u, ex_name = ''legacy_'' @ fault_type,
          ex_hypothesis = ''legacy fault injection for '' @ fault_type,
          ex_target = dict_of [(''endpoint'', JStr ''*''), (''phase'', JStr ''pre_request'')],
          ex_fault_type = fault_type, ex_params = params, ex_duration = duration,
          ex_status = status_running, ex_created_at = now, ex_updated_at = now, ex_legacy_api = True\<rparr>))"

text \<open>\<open>ChaosFaultTriggered.to_response\<close>, from what the exception carries.\<close>

definition fault_response :: "string \<Rightarrow> string \<Rightarrow> string \<Rightarrow> json" where
  "fault_response message experiment_id fault_type = JObj (dict_of
     [(''error'', JStr message), (''fault'', JBool True), (''experiment_id'', JStr experiment_id),
      (''fault_type'', JStr fault_type)])"

section \<open>The store\<close>

abbreviation report_ttl_buffer :: int where "report_ttl_buffer \<equiv> 300"

definition experiment_key :: "string \<Rightarrow> string" where
  "experiment_key i = ''chaos:experiment:'' @ i"

definition report_key :: "string \<Rightarrow> string" where
  "report_key i = ''chaos:report:'' @ i"

definition initial_report :: "chaos_experiment \<Rightarrow> dict" where
  "initial_report e = dict_of
     [(''experiment_id'', JStr (ex_id e)), (''experiment'', JStr (ex_name e)),
      (''fault_type'', JStr (ex_fault_type e)), (''target'', JObj (ex_target e)),
      (''hypothesis'', JStr (ex_hypothesis e)), (''created_at'', JFloat (ex_created_at e)),
      (''duration'', JInt (ex_duration e)), (''status'', JStr (ex_status e)),
      (''before_request_count'', JInt 0), (''before_error_count'', JInt 0),
      (''before_latency_ms'', JFloat 0), (''after_request_count'', JInt 0),
      (''after_error_count'', JInt 0), (''after_latency_ms'', JFloat 0),
      (''fallback_count'', JInt 0), (''fault_injected_count'', JInt 0), (''recovered'', JBool False)]"

definition store_create_experiment ::
  "'s redis_ops \<Rightarrow> chaos_experiment \<Rightarrow> (('s, 'z) world_scheme, chaos_experiment) prog" where
  "store_create_experiment R e =
     thn (redis_call (r_setex R (experiment_key (ex_id e)) (ex_duration e) (RDoc (JObj (experiment_to_dict e)))))
     (thn (redis_call (r_setex R (report_key (ex_id e))
            (max (ex_duration e + report_ttl_buffer) report_ttl_buffer) (RDoc (JObj (initial_report e)))))
     (ret e))"

text \<open>The exceptions that mean an unreadable experiment.\<close>

fun unreadable :: "exn \<Rightarrow> bool" where
  "unreadable (TypeError _) = True"
| "unreadable (KeyError _) = True"
| "unreadable (ValueError _) = True"
| "unreadable _ = False"

definition parse_experiment :: "rval \<Rightarrow> (('s, 'z) world_scheme, chaos_experiment option) prog" where
  "parse_experiment raw =
     (case json_loads raw of
        None \<Rightarrow> ret None
      | Some v \<Rightarrow>
          catch (bnd (experiment_from_dict v) (\<lambda>e. ret (Some e)))
            (\<lambda>e. if unreadable e then ret None else raise e))"

definition store_get_experiment ::
  "'s redis_ops \<Rightarrow> string \<Rightarrow> (('s, 'z) world_scheme, chaos_experiment option) prog" where
  "store_get_experiment R i =
     bnd (redis_call (r_get R (experiment_key i))) (\<lambda>raw.
     case raw of
       None \<Rightarrow> ret None
     | Some v \<Rightarrow> if rval_nonempty v then parse_experiment v else ret None)"

definition store_list_experiments ::
  "'s redis_ops \<Rightarrow> bool \<Rightarrow> (('s, 'z) world_scheme, chaos_experiment list) prog" where
  "store_list_experiments R include_stopped =
     bnd (redis_call (r_keys R ''chaos:experiment:'')) (\<lambda>ks.
     fold_prog (\<lambda>k acc.
       bnd (redis_call (r_get R k)) (\<lambda>raw.
       case raw of
         None \<Rightarrow> ret acc
       | Some v \<Rightarrow>
           if \<not> rval_nonempty v then ret acc
           else bnd (parse_experiment v) (\<lambda>oe.
             case oe of
               None \<Rightarrow> ret acc
             | Some e \<Rightarrow> ret (if include_stopped \<or> ex_status e = status_running then acc @ [e] else acc))))
       (sort ks) [])"

definition store_stop_experiment ::
  "'s redis_ops \<Rightarrow> string \<Rightarrow> (('s, 'z) world_scheme, chaos_experiment option) prog" where
  "store_stop_experiment R i =
     bnd (store_get_experiment R i) (\<lambda>oe.
     case oe of
       None \<Rightarrow> ret None
     | Some e0 \<Rightarrow>
         bnd py_time (\<lambda>now.
         let e = e0\<lparr>ex_status := status_stopped, ex_updated_at := now\<rparr> in
         thn (redis_call (r_setex R (experiment_key (ex_id e)) report_ttl_buffer (RDoc (JObj (experiment_to_dict e)))))
         (ret (Some e))))"

definition get_report :: "'s redis_ops \<Rightarrow> string \<Rightarrow> (('s, 'z) world_scheme, json option) prog" where
  "get_report R i =
     bnd (redis_call (r_get R (report_key i))) (\<lambda>raw.
     case raw of
       None \<Rightarrow> ret None
     | Some v \<Rightarrow> ret (if rval_nonempty v then json_loads v else None))"

definition save_report ::
  "'s redis_ops \<Rightarrow> string \<Rightarrow> dict \<Rightarrow> (('s, 'z) world_scheme, unit) prog" where
  "save_report R i report =
     bnd (lift (json_int (dget_or report ''duration'' (JInt 0)))) (\<lambda>dur.
     redis_call (r_setex R (report_key i) (max (dur + report_ttl_buffer) report_ttl_buffer) (RDoc (JObj report))))"

section \<open>The observer\<close>

definition target_label :: "dict \<Rightarrow> string" where
  "target_label target =
     upper (py_str (dget_or target ''method'' (JStr ''*''))) @ '':'' @
     py_str (dget_or target ''endpoint'' (JStr ''*'')) @ '':'' @
     py_str (dget_or target ''percentage'' (JStr ''*''))"

definition fault_labels :: "string \<Rightarrow> dict \<Rightarrow> (string \<times> string) list" where
  "fault_labels fault_type target = [(''fault_type'', fault_type), (''target'', target_label target)]"

definition experiment_labels :: "chaos_experiment \<Rightarrow> (string \<times> string) list" where
  "experiment_labels e = fault_labels (ex_fault_type e) (ex_target e)"

definition log_chaos ::
  "string \<Rightarrow> chaos_experiment \<Rightarrow> string \<Rightarrow> (string \<times> json) list \<Rightarrow> (('s, 'z) world_scheme, unit) prog" where
  "log_chaos event e result fs = log_line event ''INFO''
     ([(''component'', JStr ''chaos''), (''operation'', JStr ''experiment''), (''result'', JStr result),
       (''experiment_id'', JStr (ex_id e)), (''fault_type'', JStr (ex_fault_type e)),
       (''target'', JStr (target_label (ex_target e)))] @ fs)"

definition record_created :: "chaos_experiment \<Rightarrow> (('s, 'z) world_scheme, unit) prog" where
  "record_created e =
     thn (metric_inc ''CHAOS_EXPERIMENT_TOTAL'' (experiment_labels e))
     (thn (metric_inc ''CHAOS_ACTIVE_EXPERIMENT'' (experiment_labels e))
     (thn (metric_observe ''CHAOS_EXPERIMENT_DURATION_SECONDS'' (experiment_labels e) (max (of_int (ex_duration e)) 0))
     (log_chaos ''chaos_experiment_start'' e ''running'' [(''duration'', JInt (ex_duration e))])))"

text \<open>\<open>int(report.get(k, 0))\<close> and \<open>float(report.get(k, 0.0))\<close>.\<close>

definition report_int :: "dict \<Rightarrow> string \<Rightarrow> ('w, int) prog" where
  "report_int report k = lift (json_int (dget_or report k (JInt 0)))"

definition report_float :: "dict \<Rightarrow> string \<Rightarrow> ('w, rat) prog" where
  "report_float report k = lift (json_float (dget_or report k (JFloat 0)))"

text \<open>Run \<open>k\<close> on the report of an experiment, if it has one.\<close>

definition with_report ::
  "'s redis_ops \<Rightarrow> string \<Rightarrow> (dict \<Rightarrow> (('s, 'z) world_scheme, unit) prog) \<Rightarrow> (('s, 'z) world_scheme, unit) prog" where
  "with_report R i k =
     bnd (get_report R i) (\<lambda>orep. case orep of None \<Rightarrow> ret () | Some v \<Rightarrow> bnd (as_dict v) k)"

definition record_injected ::
  "'s redis_ops \<Rightarrow> chaos_experiment \<Rightarrow> string \<Rightarrow> (('s, 'z) world_scheme, unit) prog" where
  "record_injected R e phase =
     thn (metric_inc ''CHAOS_FAULT_INJECTED_TOTAL'' ((''phase'', phase) # experiment_labels e))
     (thn (log_chaos ''fault_injection'' e ''injected'' [(''phase'', JStr phase), (''params'', JObj (ex_params e))])
     (with_report R (ex_id e) (\<lambda>report.
       bnd (report_int report ''fault_injected_count'') (\<lambda>n.
       save_report R (ex_id e) (dset ''fault_injected_count'' (JInt (n + 1)) report)))))"

definition observe_response ::
  "'s redis_ops \<Rightarrow> chaos_experiment list \<Rightarrow> int \<Rightarrow> rat \<Rightarrow> (('s, 'z) world_scheme, unit) prog" where
  "observe_response R experiments status_code duration_ms =
     for_each experiments (\<lambda>e.
       with_report R (ex_id e) (\<lambda>report.
         bnd (report_int report ''after_request_count'') (\<lambda>n.
         let r1 = dset ''after_request_count'' (JInt (n + 1)) report in
         bnd (if status_code \<ge> 500 then bnd (report_int r1 ''after_error_count'') (\<lambda>m.
                ret (dset ''after_error_count'' (JInt (m + 1)) r1)) else ret r1) (\<lambda>r2.
         bnd (report_float r2 ''after_latency_ms'') (\<lambda>l.
         save_report R (ex_id e) (dset ''after_latency_ms'' (JFloat (l + duration_ms)) r2))))))"

definition observe_fallback ::
  "'s redis_ops \<Rightarrow> chaos_experiment list \<Rightarrow> (('s, 'z) world_scheme, unit) prog" where
  "observe_fallback R experiments =
     for_each experiments (\<lambda>e.
       with_report R (ex_id e) (\<lambda>report.
         bnd (report_int report ''fallback_count'') (\<lambda>n.
         save_report R (ex_id e) (dset ''fallback_count'' (JInt (n + 1)) report))))"

text \<open>\<open>report.get("target")\<close>, whose label needs a dict: \<open>dict(target or {})\<close>.\<close>

definition record_report_recovered_metrics :: "dict \<Rightarrow> (('s, 'z) world_scheme, unit) prog" where
  "record_report_recovered_metrics report =
     bnd (dict_or_empty report ''target'') (\<lambda>target.
     let labels = fault_labels (py_str (dget_or report ''fault_type'' (JStr ''unknown''))) target in
     thn (metric_inc ''CHAOS_FAULT_RECOVERED_TOTAL'' labels)
     (thn (metric_dec ''CHAOS_ACTIVE_EXPERIMENT'' labels)
     (bnd (report_int report ''after_error_count'') (\<lambda>n.
      thn (if n = 0 then metric_inc ''CHAOS_EXPERIMENT_SUCCESS_TOTAL'' labels
           else metric_inc ''CHAOS_EXPERIMENT_FAILED_TOTAL'' labels)
      (bnd py_time (\<lambda>now.
       bnd (report_float report ''created_at'') (\<lambda>created.
       metric_observe ''CHAOS_RECOVERY_DURATION_SECONDS'' labels (max (now - created) 0))))))))"

definition record_recovered :: "'s redis_ops \<Rightarrow> chaos_experiment \<Rightarrow> (('s, 'z) world_scheme, unit) prog" where
  "record_recovered R e =
     with_report R (ex_id e) (\<lambda>report.
       thn (record_report_recovered_metrics report)
       (thn (log_chaos ''chaos_experiment_end'' e ''stopped'' [])
       (save_report R (ex_id e)
          (dset ''status'' (JStr (ex_status e)) (dset ''recovered'' (JBool True) report)))))"

section \<open>Matching\<close>

definition percentage_match :: "dict \<Rightarrow> (('s, 'z) world_scheme, bool) prog" where
  "percentage_match target =
     (let percentage = dget_or target ''percentage'' JNull in
      if percentage = JNull then ret True
      else bnd (lift (json_float percentage)) (\<lambda>value0.
        let value = max 0 (min (if value0 > 1 then value0 / 100 else value0) 1) in
        bnd py_random (\<lambda>sample. ret (sample < value))))"

definition match_request :: "dict \<Rightarrow> request \<Rightarrow> (('s, 'z) world_scheme, bool) prog" where
  "match_request target rq =
     (let endpoint = dget_or target ''endpoint'' JNull; meth = dget_or target ''method'' JNull in
      if truthy endpoint \<and> endpoint \<notin> {JStr ''*'', JStr (rq_path rq)} then ret False
      else if truthy meth \<and> upper (py_str meth) \<noteq> upper (rq_method rq) then ret False
      else percentage_match target)"

section \<open>Reports\<close>

definition build_report ::
  "'s redis_ops \<Rightarrow> string \<Rightarrow> (('s, 'z) world_scheme, dict option) prog" where
  "build_report R i =
     bnd (get_report R i) (\<lambda>orep.
     bnd (store_get_experiment R i) (\<lambda>oe.
     case orep of
       None \<Rightarrow> ret None
     | Some v \<Rightarrow>
         bnd (if oe = None then
                bnd (as_dict v) (\<lambda>r.
                if truthy (dget_or r ''recovered'' (JBool False)) then ret v
                else let r' = dset ''status'' (JStr status_stopped) (dset ''recovered'' (JBool True) r) in
                  thn (save_report R i r') (ret (JObj r')))
              else ret v) (\<lambda>v'.
         bnd (as_dict v') (\<lambda>r.
         bnd (report_int r ''after_request_count'') (\<lambda>n.
         bnd (report_int r ''after_error_count'') (\<lambda>m.
         bnd (if n > 0 then bnd (report_float r ''after_latency_ms'') (\<lambda>l. ret (l / of_int n)) else ret 0) (\<lambda>avg.
         bnd (report_float r ''before_latency_ms'') (\<lambda>before.
         bnd (report_int r ''fault_injected_count'') (\<lambda>inj.
         bnd (report_int r ''fallback_count'') (\<lambda>fb.
         ret (Some (dict_of
           [(''experiment'', dget_or r ''experiment'' JNull), (''experiment_id'', JStr i),
            (''success'', JBool (m = 0)), (''before_error_rate'', JFloat 0),
            (''after_error_rate'', JFloat (if n \<noteq> 0 then of_int m / of_int n else 0)),
            (''before_latency_ms'', JFloat before), (''after_latency_ms'', JFloat avg),
            (''fault_injected_count'', JInt inj), (''fallback_count'', JInt fb),
            (''recovered'', JBool (truthy (dget_or r ''recovered'' (JBool False)))),
            (''status'', case oe of Some e \<Rightarrow> JStr (ex_status e)
                          | None \<Rightarrow> dget_or r ''status'' (JStr status_stopped))])))))))))))) "

text \<open>One report of \<open>finalize_expired_reports\<close>; the id is the last part of the key.\<close>

definition finalize_report ::
  "'s redis_ops \<Rightarrow> rat \<Rightarrow> string \<Rightarrow> (('s, 'z) world_scheme, unit) prog" where
  "finalize_report R now key =
     with_report R (last (split_on CHR '':'' key)) (\<lambda>report.
       if truthy (dget_or report ''recovered'' JNull) then ret ()
       else
         bnd (report_float report ''created_at'') (\<lambda>created.
         bnd (lift (json_float (dget_or report ''duration'' (JInt 0)))) (\<lambda>dur.
         if created + dur \<le> now then
           thn (record_report_recovered_metrics report)
           (let r' = dset ''status'' (JStr status_stopped) (dset ''recovered'' (JBool True) report) in
            bnd (dict_item r' ''experiment_id'') (\<lambda>i. save_report R (py_str i) r'))
         else ret ())))"

definition finalize_expired_reports :: "'s redis_ops \<Rightarrow> (('s, 'z) world_scheme, unit) prog" where
  "finalize_expired_reports R =
     bnd py_time (\<lambda>now.
     bnd (redis_call (r_keys R ''chaos:report:'')) (\<lambda>ks.
     for_each (sort ks) (finalize_report R now)))"

end
