(* ===== verification/Chaos_Control.thy ===== *)
theory Chaos_Control
  imports Chaos_Model
begin

text \<open>
  The active part of \<open>chaos_service/chaos\<close>: the four injectors and the orchestration, and the facade
  \<open>chaos_service/fault_injection.py\<close> with its module-level settings and the legacy fault records.
  The world is extended by those settings and by the experiments attached to the current request.
\<close>

record 's chaos_world = "'s world" +
  cg_enabled :: bool
  cg_default_ttl :: int
  cg_max_latency :: int
  cg_max_drop :: rat
  cq_experiments :: "chaos_experiment list"

section \<open>Injectors\<close>

datatype injector = LatencyInjector | ExceptionInjector | DropInjector | SlowDBInjector

definition build_injector :: "string \<Rightarrow> ('w, injector) prog" where
  "build_injector fault_type =
     (if fault_type = ''latency'' then ret LatencyInjector
      else if fault_type = ''exception'' then ret ExceptionInjector
      else if fault_type = ''drop'' then ret DropInjector
      else if fault_type = ''slow_db'' then ret SlowDBInjector
      else raise (KeyError fault_type))"

text \<open>\<open>float(params.get(k, 0))\<close>.\<close>

definition param_float :: "chaos_experiment \<Rightarrow> string \<Rightarrow> ('w, rat) prog" where
  "param_float e k = lift (json_float (dget_or (ex_params e) k (JFloat 0)))"

definition fault_triggered :: "bool \<Rightarrow> chaos_experiment \<Rightarrow> int \<Rightarrow> string \<Rightarrow> exn" where
  "fault_triggered dropped e status message = ChaosTriggered dropped (ex_id e) (ex_fault_type e) status message"

definition latency_before_request ::
  "'s redis_ops \<Rightarrow> chaos_experiment \<Rightarrow> (('s, 'z) world_scheme, unit) prog" where
  "latency_before_request R e =
     bnd (param_float e ''latency_ms'') (\<lambda>ms.
     if ms \<le> 0 then ret ()
     else thn (record_injected R e ''before_request'') (py_sleep (ms / 1000)))"

definition should_drop :: "chaos_experiment \<Rightarrow> (('s, 'z) world_scheme, bool) prog" where
  "should_drop e =
     bnd (param_float e ''drop_rate'') (\<lambda>rate. bnd py_random (\<lambda>sample. ret (sample < rate)))"

definition target_phase :: "chaos_experiment \<Rightarrow> string \<Rightarrow> string" where
  "target_phase e d = py_str (dget_or (ex_target e) ''phase'' (JStr d))"

definition drop_before_service ::
  "'s redis_ops \<Rightarrow> chaos_experiment \<Rightarrow> string \<Rightarrow> (('s, 'z) world_scheme, unit) prog" where
  "drop_before_service R e stage =
     (if target_phase e ''service'' \<noteq> stage then ret ()
      else bnd (should_drop e) (\<lambda>hit.
        if \<not> hit then ret ()
        else thn (record_injected R e stage)
             (raise (fault_triggered True e 503 ''fault injected: drop''))))"

definition exception_before_service ::
  "'s redis_ops \<Rightarrow> chaos_experiment \<Rightarrow> string \<Rightarrow> (('s, 'z) world_scheme, unit) prog" where
  "exception_before_service R e stage =
     (if target_phase e ''service'' \<noteq> stage then ret ()
      else thn (record_injected R e stage)
           (raise (fault_triggered False e 500
              (''fault injected: '' @ py_str (dget_or (ex_params e) ''error_type'' (JStr ''runtime''))))))"

text \<open>The delay of the slow-store injector, in milliseconds.\<close>

definition slow_db_delay :: "chaos_experiment \<Rightarrow> (('s, 'z) world_scheme, rat) prog" where
  "slow_db_delay e =
     bnd (param_float e ''base_ms'') (\<lambda>base.
     bnd (param_float e ''jitter_ms'') (\<lambda>jit.
     bnd (if jit > 0 then py_uniform 0 (max jit 0) else ret 0) (\<lambda>j. ret (base + j))))"

definition slow_db_before_store_call ::
  "'s redis_ops \<Rightarrow> chaos_experiment \<Rightarrow> string \<Rightarrow> (('s, 'z) world_scheme, unit) prog" where
  "slow_db_before_store_call R e operation =
     (let target_operation = dget_or (ex_target e) ''operation'' JNull in
      if target_phase e ''store'' \<noteq> ''store'' then ret ()
      else if truthy target_operation \<and> target_operation \<noteq> JStr operation then ret ()
      else
        bnd (param_float e ''base_ms'') (\<lambda>base.
        bnd (param_float e ''jitter_ms'') (\<lambda>jit.
        bnd (param_float e ''timeout_rate'') (\<lambda>rate.
        bnd (if jit > 0 then py_uniform 0 (max jit 0) else ret 0) (\<lambda>j.
        let total = base + j in
        thn (whenp (total > 0) (thn (record_injected R e ''store'') (py_sleep (total / 1000))))
        (bnd py_random (\<lambda>sample.
         if sample < rate then
           thn (record_injected R e ''store_timeout'') (raise (RedisError RTimeout))
         else ret ())))))))"

definition slow_db_legacy_apply ::
  "'s redis_ops \<Rightarrow> chaos_experiment \<Rightarrow> (('s, 'z) world_scheme, string option) prog" where
  "slow_db_legacy_apply R e =
     bnd (slow_db_delay e) (\<lambda>total.
     thn (whenp (total > 0) (thn (record_injected R e ''pre_request'') (py_sleep (total / 1000))))
     (bnd py_random (\<lambda>sample.
      bnd (param_float e ''timeout_rate'') (\<lambda>rate.
      ret (if sample < rate then Some ''drop'' else if total > 0 then Some ''latency'' else None)))))"

fun injector_before_request ::
  "'s redis_ops \<Rightarrow> injector \<Rightarrow> chaos_experiment \<Rightarrow> (('s, 'z) world_scheme, unit) prog" where
  "injector_before_request R LatencyInjector e = latency_before_request R e"
| "injector_before_request R _ e = ret ()"

fun injector_before_service ::
  "'s redis_ops \<Rightarrow> injector \<Rightarrow> chaos_experiment \<Rightarrow> string \<Rightarrow> (('s, 'z) world_scheme, unit) prog" where
  "injector_before_service R DropInjector e stage = drop_before_service R e stage"
| "injector_before_service R ExceptionInjector e stage = exception_before_service R e stage"
| "injector_before_service R _ e stage = ret ()"

fun injector_before_store_call ::
  "'s redis_ops \<Rightarrow> injector \<Rightarrow> chaos_experiment \<Rightarrow> string \<Rightarrow> (('s, 'z) world_scheme, unit) prog" where
  "injector_before_store_call R SlowDBInjector e operation = slow_db_before_store_call R e operation"
| "injector_before_store_call R _ e operation = ret ()"

fun injector_legacy_apply ::
  "'s redis_ops \<Rightarrow> injector \<Rightarrow> chaos_experiment \<Rightarrow> (('s, 'z) world_scheme, string option) prog" where
  "injector_legacy_apply R LatencyInjector e = thn (latency_before_request R e) (ret (Some ''latency''))"
| "injector_legacy_apply R ExceptionInjector e =
     thn (record_injected R e ''pre_request'') (ret (Some ''exception''))"
| "injector_legacy_apply R DropInjector e =
     bnd (should_drop e) (\<lambda>hit.
     if \<not> hit then ret None else thn (record_injected R e ''pre_request'') (ret (Some ''drop'')))"
| "injector_legacy_apply R SlowDBInjector e = slow_db_legacy_apply R e"

section \<open>Orchestration\<close>

record fault_settings =
  fs_enabled :: bool
  fs_default_ttl :: int
  fs_max_latency :: int
  fs_max_drop :: rat

definition settings_of :: "ctx \<Rightarrow> fault_settings" where
  "settings_of cx = \<lparr>fs_enabled = FAULT_INJECTION_ENABLED cx, fs_default_ttl = FAULT_DEFAULT_TTL_SEC cx,
     fs_max_latency = FAULT_MAX_LATENCY_MS cx, fs_max_drop = FAULT_MAX_DROP_RATE cx\<rparr>"

definition chaos_create_experiment ::
  "'s redis_ops \<Rightarrow> string \<Rightarrow> string \<Rightarrow> dict \<Rightarrow> string \<Rightarrow> dict \<Rightarrow> int \<Rightarrow>
   (('s, 'z) world_scheme, chaos_experiment) prog" where
  "chaos_create_experiment R name hypothesis target fault_type params duration =
     bnd py_time (\<lambda>now.
     bnd py_uuid (\<lambda>u.
     let e = \<lparr>ex_id = u, ex_name = name, ex_hypothesis = hypothesis, ex_target = target,
              ex_fault_type = fault_type, ex_params = params, ex_duration = duration,
              ex_status = status_running, ex_created_at = now, ex_updated_at = now, ex_legacy_api = False\<rparr> in
     thn (store_create_experiment R e) (thn (record_created e) (ret e))))"

definition create_legacy_experiment ::
  "'s redis_ops \<Rightarrow> fault_settings \<Rightarrow> string \<Rightarrow> dict \<Rightarrow> int option \<Rightarrow>
   (('s, 'z) world_scheme, chaos_experiment) prog" where
  "create_legacy_experiment R fs fault_type params ttl_sec =
     bnd (build_legacy_experiment fault_type params
            (case ttl_sec of Some d \<Rightarrow> d | None \<Rightarrow> fs_default_ttl fs)) (\<lambda>e.
     thn (store_create_experiment R e) (thn (record_created e) (ret e)))"

definition chaos_list_experiments ::
  "'s redis_ops \<Rightarrow> bool \<Rightarrow> (('s, 'z) world_scheme, chaos_experiment list) prog" where
  "chaos_list_experiments R include_stopped =
     thn (finalize_expired_reports R) (store_list_experiments R include_stopped)"

definition chaos_get_experiment ::
  "'s redis_ops \<Rightarrow> string \<Rightarrow> (('s, 'z) world_scheme, chaos_experiment option) prog" where
  "chaos_get_experiment R i = thn (finalize_expired_reports R) (store_get_experiment R i)"

definition chaos_stop_experiment ::
  "'s redis_ops \<Rightarrow> string \<Rightarrow> (('s, 'z) world_scheme, bool) prog" where
  "chaos_stop_experiment R i =
     bnd (store_stop_experiment R i) (\<lambda>oe.
     case oe of None \<Rightarrow> ret False | Some e \<Rightarrow> thn (record_recovered R e) (ret True))"

definition stop_all_experiments :: "'s redis_ops \<Rightarrow> (('s, 'z) world_scheme, int) prog" where
  "stop_all_experiments R =
     bnd (store_list_experiments R False) (\<lambda>es.
     fold_prog (\<lambda>e n. bnd (chaos_stop_experiment R (ex_id e)) (\<lambda>ok. ret (if ok then n + 1 else n))) es 0)"

definition stop_legacy_fault :: "'s redis_ops \<Rightarrow> string \<Rightarrow> (('s, 'z) world_scheme, bool) prog" where
  "stop_legacy_fault R fault_type =
     bnd (store_list_experiments R False) (\<lambda>es.
     let es' = filter (\<lambda>e. ex_fault_type e = fault_type) es in
     if es' = [] then ret False
     else thn (for_each es' (\<lambda>e. thn (chaos_stop_experiment R (ex_id e)) (ret ()))) (ret True))"

text \<open>The record of a legacy fault, shared by the listing, the lookup and the injection.\<close>

definition legacy_record :: "chaos_experiment \<Rightarrow> (string \<times> json) list" where
  "legacy_record e =
     [(''type'', JStr (ex_fault_type e)), (''params'', JObj (ex_params e)),
      (''injected_at'', JFloat (ex_created_at e)), (''ttl_sec'', JInt (ex_duration e)),
      (''experiment_id'', JStr (ex_id e))]"

definition get_legacy_fault ::
  "'s redis_ops \<Rightarrow> string \<Rightarrow> (('s, 'z) world_scheme, json option) prog" where
  "get_legacy_fault R fault_type =
     bnd (store_list_experiments R False) (\<lambda>es.
     ret (map_option (\<lambda>e. JObj (dict_of (legacy_record e))) (find (\<lambda>e. ex_fault_type e = fault_type) es)))"

definition list_legacy_faults :: "'s redis_ops \<Rightarrow> (('s, 'z) world_scheme, json list) prog" where
  "list_legacy_faults R =
     bnd (store_list_experiments R False) (\<lambda>es.
     ret (map (\<lambda>e. JObj (dict_of (legacy_record e @
       [(''target'', JObj (ex_target e)), (''status'', JStr (ex_status e))]))) es))"

definition chaos_prepare_request ::
  "'s redis_ops \<Rightarrow> request \<Rightarrow> (('s, 'z) chaos_world_scheme, chaos_experiment list) prog" where
  "chaos_prepare_request R rq =
     thn (finalize_expired_reports R)
     (bnd (store_list_experiments R False) (\<lambda>es.
      bnd (fold_prog (\<lambda>e active.
        bnd (match_request (ex_target e) rq) (\<lambda>hit.
        if \<not> hit then ret active
        else bnd (build_injector (ex_fault_type e)) (\<lambda>i.
             thn (injector_before_request R i e) (ret (active @ [e]))))) es []) (\<lambda>active.
      thn (modw (\<lambda>w. w\<lparr>cq_experiments := active\<rparr>)) (ret active))))"

definition inject_service_faults ::
  "'s redis_ops \<Rightarrow> string \<Rightarrow> (('s, 'z) chaos_world_scheme, unit) prog" where
  "inject_service_faults R stage =
     bnd (gets cq_experiments) (\<lambda>es.
     for_each es (\<lambda>e. bnd (build_injector (ex_fault_type e)) (\<lambda>i. injector_before_service R i e stage)))"

definition inject_store_faults ::
  "'s redis_ops \<Rightarrow> string \<Rightarrow> (('s, 'z) chaos_world_scheme, unit) prog" where
  "inject_store_faults R operation =
     bnd (gets cq_experiments) (\<lambda>es.
     for_each es (\<lambda>e. bnd (build_injector (ex_fault_type e)) (\<lambda>i. injector_before_store_call R i e operation)))"

definition chaos_record_response ::
  "'s redis_ops \<Rightarrow> int \<Rightarrow> rat \<Rightarrow> (('s, 'z) chaos_world_scheme, unit) prog" where
  "chaos_record_response R status_code duration_ms =
     bnd (gets cq_experiments) (\<lambda>es. observe_response R es status_code duration_ms)"

definition fault_status :: "bool \<Rightarrow> fault_settings \<Rightarrow> json list \<Rightarrow> json" where
  "fault_status enabled fs faults = JObj (dict_of
     [(''enabled'', JBool enabled), (''active_faults'', JInt (int (length faults))), (''faults'', JArr faults),
      (''defaults'', JObj (dict_of
        [(''ttl_sec'', JInt (fs_default_ttl fs)), (''max_latency_ms'', JInt (fs_max_latency fs)),
         (''max_drop_rate'', JFloat (fs_max_drop fs))]))])"

definition build_fault_status_response ::
  "'s redis_ops \<Rightarrow> ctx \<Rightarrow> (('s, 'z) world_scheme, json) prog" where
  "build_fault_status_response R cx =
     bnd (list_legacy_faults R) (\<lambda>faults.
     ret (fault_status (FAULT_INJECTION_ENABLED cx) (settings_of cx) faults))"

text \<open>
  \<open>apply_legacy_faults\<close>: the first matching experiment whose action is a drop or an exception ends
  the loop; the answer \<open>"latency"\<close> only says that some experiment is attached.
\<close>

fun apply_legacy_loop ::
  "'s redis_ops \<Rightarrow> request \<Rightarrow> chaos_experiment list \<Rightarrow> chaos_experiment list \<Rightarrow>
   (('s, 'z) chaos_world_scheme, string option) prog" where
  "apply_legacy_loop R rq active [] =
     thn (modw (\<lambda>w. w\<lparr>cq_experiments := active\<rparr>)) (ret (if active \<noteq> [] then Some ''latency'' else None))"
| "apply_legacy_loop R rq active (e # es) =
     (if \<not> ex_legacy_api e then apply_legacy_loop R rq active es
      else bnd (match_request (ex_target e) rq) (\<lambda>hit.
        if \<not> hit then apply_legacy_loop R rq active es
        else
          let active' = (if \<forall>x \<in> set active. ex_id x \<noteq> ex_id e then active @ [e] else active) in
          bnd (build_injector (ex_fault_type e)) (\<lambda>i.
          bnd (injector_legacy_apply R i e) (\<lambda>action.
          if action = Some ''drop'' \<or> action = Some ''exception'' then
            thn (modw (\<lambda>w. w\<lparr>cq_experiments := active'\<rparr>)) (ret action)
          else apply_legacy_loop R rq active' es))))"

definition apply_legacy_faults ::
  "'s redis_ops \<Rightarrow> request \<Rightarrow> (('s, 'z) chaos_world_scheme, string option) prog" where
  "apply_legacy_faults R rq =
     bnd (gets cq_experiments) (\<lambda>active.
     bnd (store_list_experiments R False) (\<lambda>es. apply_legacy_loop R rq active es))"

section \<open>The facade\<close>

definition sync_ctx_settings :: "ctx \<Rightarrow> (('s, 'z) chaos_world_scheme, unit) prog" where
  "sync_ctx_settings cx = modw (\<lambda>w. w\<lparr>cg_enabled := FAULT_INJECTION_ENABLED cx,
     cg_default_ttl := FAULT_DEFAULT_TTL_SEC cx, cg_max_latency := FAULT_MAX_LATENCY_MS cx,
     cg_max_drop := FAULT_MAX_DROP_RATE cx\<rparr>)"

definition global_settings :: "('s, 'z) chaos_world_scheme \<Rightarrow> fault_settings" where
  "global_settings w = \<lparr>fs_enabled = cg_enabled w, fs_default_ttl = cg_default_ttl w,
     fs_max_latency = cg_max_latency w, fs_max_drop = cg_max_drop w\<rparr>"

definition fault_key :: "string \<Rightarrow> string" where
  "fault_key fault_type = ''fault:'' @ fault_type"

text \<open>\<open>isinstance(v, (int, float)) and lo <= v <= hi\<close> (no upper bound for \<open>None\<close>).\<close>

definition number_in :: "json \<Rightarrow> rat option \<Rightarrow> bool" where
  "number_in v hi = (case number_of v of None \<Rightarrow> False
     | Some r \<Rightarrow> 0 \<le> r \<and> (case hi of None \<Rightarrow> True | Some h \<Rightarrow> r \<le> h))"

text \<open>\<open>_validate_fault_params\<close>; \<open>None\<close> when the parameters are valid. The text of the limit in a message is left out.\<close>

definition validate_fault_params :: "fault_settings \<Rightarrow> string \<Rightarrow> dict \<Rightarrow> string option" where
  "validate_fault_params fs fault_type params =
     (if fault_type = ''latency'' then
        (let ms = dget_or params ''latency_ms'' (JInt 0) in
         if \<not> number_in ms None then Some ''latency_ms must be >= 0''
         else if \<not> number_in ms (Some (of_int (fs_max_latency fs))) then Some ''latency_ms exceeds max''
         else None)
      else if fault_type = ''exception'' then
        (case dget_or params ''error_type'' (JStr []) of
           JStr s \<Rightarrow> if s = [] then Some ''error_type is required'' else None
         | _ \<Rightarrow> Some ''error_type is required'')
      else if fault_type = ''drop'' then
        (if \<not> number_in (dget_or params ''drop_rate'' (JInt 0)) (Some (fs_max_drop fs))
         then Some ''drop_rate must be in [0, max]'' else None)
      else if fault_type = ''slow_db'' then
        (if \<not> number_in (dget_or params ''base_ms'' (JInt 0)) None then Some ''base_ms must be >= 0''
         else if \<not> number_in (dget_or params ''jitter_ms'' (JInt 0)) None then Some ''jitter_ms must be >= 0''
         else if \<not> number_in (dget_or params ''timeout_rate'' (JInt 0)) (Some 1) then Some ''timeout_rate must be in [0, 1]''
         else None)
      else Some (''unknown fault type: '' @ fault_type))"

definition inject_fault ::
  "'s redis_ops \<Rightarrow> string \<Rightarrow> dict \<Rightarrow> int option \<Rightarrow> (('s, 'z) chaos_world_scheme, dict) prog" where
  "inject_fault R fault_type params ttl_sec =
     bnd (gets global_settings) (\<lambda>fs.
     case validate_fault_params fs fault_type params of
       Some err \<Rightarrow> raise (ValueError err)
     | None \<Rightarrow>
         bnd (create_legacy_experiment R fs fault_type params ttl_sec) (\<lambda>e.
         let rec = dict_of (legacy_record e) in
         thn (redis_call (r_setex R (fault_key fault_type) (ex_duration e) (RDoc (JObj rec)))) (ret rec)))"

definition clear_fault :: "'s redis_ops \<Rightarrow> string \<Rightarrow> (('s, 'z) world_scheme, bool) prog" where
  "clear_fault R fault_type =
     bnd (redis_call (r_delete R [fault_key fault_type])) (\<lambda>n.
     bnd (stop_legacy_fault R fault_type) (\<lambda>stopped. ret (stopped \<or> n \<noteq> 0)))"

definition clear_all_faults :: "'s redis_ops \<Rightarrow> (('s, 'z) world_scheme, int) prog" where
  "clear_all_faults R =
     bnd (redis_call (r_keys R ''fault:'')) (\<lambda>ks.
     bnd (if ks \<noteq> [] then redis_call (r_delete R ks) else ret 0) (\<lambda>deleted.
     bnd (stop_all_experiments R) (\<lambda>stopped. ret (max (int deleted) stopped))))"

definition list_faults :: "'s redis_ops \<Rightarrow> (('s, 'z) world_scheme, json list) prog" where
  "list_faults R =
     bnd (redis_call (r_keys R ''fault:'')) (\<lambda>ks.
     bnd (fold_prog (\<lambda>k acc.
       bnd (redis_call (r_get R k)) (\<lambda>raw.
       ret (case raw of None \<Rightarrow> acc
            | Some v \<Rightarrow> if \<not> rval_nonempty v then acc
                        else (case json_loads v of None \<Rightarrow> acc | Some j \<Rightarrow> acc @ [j])))) (sort ks) []) (\<lambda>faults.
     if faults \<noteq> [] then ret faults else list_legacy_faults R))"

definition get_fault :: "'s redis_ops \<Rightarrow> string \<Rightarrow> (('s, 'z) world_scheme, json option) prog" where
  "get_fault R fault_type =
     bnd (redis_call (r_get R (fault_key fault_type))) (\<lambda>raw.
     case raw of
       Some v \<Rightarrow> if rval_nonempty v then ret (json_loads v)
                 else thn (stop_legacy_fault R fault_type) (ret None)
     | None \<Rightarrow> thn (stop_legacy_fault R fault_type) (ret None))"

definition build_fault_api_response :: "json list \<Rightarrow> (('s, 'z) chaos_world_scheme, json) prog" where
  "build_fault_api_response faults =
     bnd (gets global_settings) (\<lambda>fs. ret (fault_status (fs_enabled fs) fs faults))"

definition prepare_request_experiments ::
  "'s redis_ops \<Rightarrow> ctx \<Rightarrow> request \<Rightarrow> (('s, 'z) chaos_world_scheme, chaos_experiment list) prog" where
  "prepare_request_experiments R cx rq =
     thn (sync_ctx_settings cx)
     (if \<not> FAULT_INJECTION_ENABLED cx then thn (modw (\<lambda>w. w\<lparr>cq_experiments := []\<rparr>)) (ret [])
      else chaos_prepare_request R rq)"

definition apply_faults ::
  "'s redis_ops \<Rightarrow> ctx \<Rightarrow> request \<Rightarrow> (('s, 'z) chaos_world_scheme, string option) prog" where
  "apply_faults R cx rq =
     thn (sync_ctx_settings cx)
     (if \<not> FAULT_INJECTION_ENABLED cx then ret None else apply_legacy_faults R rq)"

definition before_service_operation ::
  "'s redis_ops \<Rightarrow> ctx \<Rightarrow> string \<Rightarrow> (('s, 'z) chaos_world_scheme, unit) prog" where
  "before_service_operation R cx stage =
     thn (sync_ctx_settings cx)
     (if \<not> FAULT_INJECTION_ENABLED cx then ret () else inject_service_faults R stage)"

text \<open>\<open>req\<close> is the request of the current context, if there is one.\<close>

definition before_store_operation ::
  "'s redis_ops \<Rightarrow> ctx \<Rightarrow> request option \<Rightarrow> string \<Rightarrow> (('s, 'z) chaos_world_scheme, unit) prog" where
  "before_store_operation R cx req operation =
     thn (sync_ctx_settings cx)
     (if \<not> FAULT_INJECTION_ENABLED cx then ret ()
      else if req = None then ret () else inject_store_faults R operation)"

definition fi_record_response ::
  "'s redis_ops \<Rightarrow> int \<Rightarrow> rat \<Rightarrow> (('s, 'z) chaos_world_scheme, unit) prog" where
  "fi_record_response R status_code duration_ms = chaos_record_response R status_code duration_ms"

definition fi_record_fallback :: "'s redis_ops \<Rightarrow> (('s, 'z) chaos_world_scheme, unit) prog" where
  "fi_record_fallback R = bnd (gets cq_experiments) (\<lambda>es. observe_fallback R es)"

definition fi_create_experiment ::
  "'s redis_ops \<Rightarrow> ctx \<Rightarrow> string \<Rightarrow> string \<Rightarrow> dict \<Rightarrow> string \<Rightarrow> dict \<Rightarrow> int \<Rightarrow>
   (('s, 'z) chaos_world_scheme, chaos_experiment) prog" where
  "fi_create_experiment R cx name hypothesis target fault_type params duration =
     thn (sync_ctx_settings cx)
     (bnd (gets global_settings) (\<lambda>fs.
      case validate_fault_params fs fault_type params of
        Some err \<Rightarrow> raise (ValueError err)
      | None \<Rightarrow> chaos_create_experiment R name hypothesis target fault_type params duration))"

definition fi_list_experiments ::
  "'s redis_ops \<Rightarrow> ctx \<Rightarrow> (('s, 'z) chaos_world_scheme, chaos_experiment list) prog" where
  "fi_list_experiments R cx = thn (sync_ctx_settings cx) (chaos_list_experiments R False)"

definition fi_get_experiment ::
  "'s redis_ops \<Rightarrow> ctx \<Rightarrow> string \<Rightarrow> (('s, 'z) chaos_world_scheme, chaos_experiment option) prog" where
  "fi_get_experiment R cx i = thn (sync_ctx_settings cx) (chaos_get_experiment R i)"

definition fi_stop_experiment ::
  "'s redis_ops \<Rightarrow> ctx \<Rightarrow> string \<Rightarrow> (('s, 'z) chaos_world_scheme, bool) prog" where
  "fi_stop_experiment R cx i = thn (sync_ctx_settings cx) (chaos_stop_experiment R i)"

definition fi_get_report ::
  "'s redis_ops \<Rightarrow> string \<Rightarrow> (('s, 'z) world_scheme, dict option) prog" where
  "fi_get_report R i = build_report R i"

end
