(* ===== verification/Demo_Chaos_World.thy ===== *)
theory Demo_Chaos_World
  imports Demo_World Chaos_Control
begin

text \<open>The witnesses' world with the chaos layer's settings, and no experiment attached to the request.\<close>

definition demo_chaos_world :: "fake chaos_world" where
  "demo_chaos_world = world.extend demo_world
     \<lparr>cg_enabled = True, cg_default_ttl = 60, cg_max_latency = 5000, cg_max_drop = 1, cq_experiments = []\<rparr>"

lemma demo_chaos_world_sel [simp]:
  "w_redis demo_chaos_world = fake_empty" "w_now demo_chaos_world = 1000" "w_ticks demo_chaos_world n = 0"
  "w_rnd demo_chaos_world n = 1 / 2" "cq_experiments demo_chaos_world = []" "mono_ticks demo_chaos_world"
  by (simp_all add: demo_chaos_world_def demo_world_def world.defs mono_ticks_def)

end
