(* ===== verification/Chaos_Correct.thy ===== *)
theory Chaos_Correct
  imports Demo_Chaos_World
begin

text \<open>
  The properties of the chaos component: experiments survive serialisation and live for their
  duration, the kill switch and the parameter limits hold, only matching requests are hit, the
  active gauge is balanced, and stopping everything stops everything.
\<close>

section \<open>Serialisation\<close>

lemma experiment_to_dict_get [simp]:
  "fmlookup (experiment_to_dict e) ''id'' = Some (JStr (ex_id e))"
  "fmlookup (experiment_to_dict e) ''name'' = Some (JStr (ex_name e))"
  "fmlookup (experiment_to_dict e) ''hypothesis'' = Some (JStr (ex_hypothesis e))"
  "fmlookup (experiment_to_dict e) ''target'' = Some (JObj (ex_target e))"
  "fmlookup (experiment_to_dict e) ''fault_type'' = Some (JStr (ex_fault_type e))"
  "fmlookup (experiment_to_dict e) ''params'' = Some (JObj (ex_params e))"
  "fmlookup (experiment_to_dict e) ''duration'' = Some (JInt (ex_duration e))"
  "fmlookup (experiment_to_dict e) ''status'' = Some (JStr (ex_status e))"
  "fmlookup (experiment_to_dict e) ''created_at'' = Some (JFloat (ex_created_at e))"
  "fmlookup (experiment_to_dict e) ''updated_at'' = Some (JFloat (ex_updated_at e))"
  "fmlookup (experiment_to_dict e) ''legacy_api'' = Some (JBool (ex_legacy_api e))"
  by (simp_all add: experiment_to_dict_def dict_of_def)

text \<open>The clock read twice.\<close>

definition two_ticks :: "('s, 'z) world_scheme \<Rightarrow> ('s, 'z) world_scheme" where
  "two_ticks w = snd (thn py_time py_time w)"

lemma two_ticks_view [simp]:
  "w_redis (two_ticks w) = w_redis w" "w_ticks (two_ticks w) = w_ticks w"
  "w_uuids (two_ticks w) = w_uuids w" "w_uuid_no (two_ticks w) = w_uuid_no w"
  "w_counters (two_ticks w) = w_counters w" "w_slept (two_ticks w) = w_slept w"
  "world.more (two_ticks w) = world.more w"
  "w_now (two_ticks w) = w_now w + w_ticks w (w_tick_no w) + w_ticks w (Suc (w_tick_no w))"
  by (simp_all add: two_ticks_def prog_simps)

lemma two_ticks_mono: "mono_ticks w \<Longrightarrow> w_now w \<le> w_now (two_ticks w)"
  by (simp add: mono_ticks_def)

lemma experiment_roundtrip:
  "experiment_from_dict (JObj (experiment_to_dict e)) w = (Inr e, two_ticks w)"
  by (auto simp: experiment_from_dict_def subscript_def dict_item_def as_dict_def dict_or_empty_def
      dget_or_def two_ticks_def prog_simps)

lemma parse_experiment_doc:
  "parse_experiment (RDoc (JObj (experiment_to_dict e))) w = (Inr (Some e), two_ticks w)"
  by (simp add: parse_experiment_def catch_def bnd_def experiment_roundtrip ret_def)

lemma experiment_key_neq [simp]:
  "experiment_key i \<noteq> report_key j" "report_key j \<noteq> experiment_key i"
  "experiment_key i = experiment_key j \<longleftrightarrow> i = j" "report_key i = report_key j \<longleftrightarrow> i = j"
  by (simp_all add: experiment_key_def report_key_def)

context reliable_store
begin

lemma create_answers:
  assumes "up (w_redis w)"
  shows "\<exists>s'. store_create_experiment R e w = (Inr e, w\<lparr>w_redis := s'\<rparr>) \<and> up s' \<and>
    (\<forall>t \<ge> w_now w. t < w_now w + of_int (ex_duration e) \<longrightarrow>
       kv s' t (experiment_key (ex_id e)) = Some (RDoc (JObj (experiment_to_dict e)))) \<and>
    (\<forall>t. w_now w + of_int (ex_duration e) < t \<longrightarrow> kv s' t (experiment_key (ex_id e)) = None) \<and>
    (\<forall>t \<ge> w_now w. t < w_now w + of_int (max (ex_duration e + report_ttl_buffer) report_ttl_buffer) \<longrightarrow>
       kv s' t (report_key (ex_id e)) = Some (RDoc (JObj (initial_report e)))) \<and>
    (\<forall>t k. k \<noteq> experiment_key (ex_id e) \<and> k \<noteq> report_key (ex_id e) \<longrightarrow> kv s' t k = kv (w_redis w) t k)"
proof -
  let ?k = "experiment_key (ex_id e)" and ?r = "report_key (ex_id e)"
  let ?d = "max (ex_duration e + report_ttl_buffer) report_ttl_buffer"
  obtain s1 where a: "r_setex R ?k (ex_duration e) (RDoc (JObj (experiment_to_dict e))) (w_now w) (w_redis w) = (Inr (), s1)"
    and up1: "up s1" using up_setex [OF assms] by blast
  obtain s2 where b: "r_setex R ?r ?d (RDoc (JObj (initial_report e))) (w_now w) s1 = (Inr (), s2)"
    and up2: "up s2" using up_setex [OF up1] by blast
  show ?thesis
    using a b up2 setex_live [OF a] setex_dead [OF a] setex_keeps [OF a] setex_live [OF b] setex_keeps [OF b]
    by (intro exI [of _ s2]) (simp add: store_create_experiment_def prog_simps)
qed

lemma get_answers_experiment:
  assumes "up (w_redis w)" and "kv (w_redis w) (w_now w) (experiment_key i) = Some (RDoc (JObj (experiment_to_dict e)))"
  shows "\<exists>s'. store_get_experiment R i w = (Inr (Some e), two_ticks (w\<lparr>w_redis := s'\<rparr>)) \<and> up s' \<and>
    (\<forall>t \<ge> w_now w. \<forall>k. kv s' t k = kv (w_redis w) t k)"
proof -
  obtain s' where g: "r_get R (experiment_key i) (w_now w) (w_redis w) = (Inr (kv (w_redis w) (w_now w) (experiment_key i)), s')"
    and "up s'" using get_answers [OF assms(1)] by blast
  then show ?thesis
    using assms(2) get_keeps [OF g]
    by (auto simp: store_get_experiment_def bnd_def redis_call_def rval_nonempty_def parse_experiment_doc)
qed

lemma get_answers_no_experiment:
  assumes "up (w_redis w)" and "kv (w_redis w) (w_now w) (experiment_key i) = None"
  shows "\<exists>s'. store_get_experiment R i w = (Inr None, w\<lparr>w_redis := s'\<rparr>) \<and> up s'"
proof -
  obtain s' where g: "r_get R (experiment_key i) (w_now w) (w_redis w) = (Inr (kv (w_redis w) (w_now w) (experiment_key i)), s')"
    and "up s'" using get_answers [OF assms(1)] by blast
  then show ?thesis
    using assms(2) by (auto simp: store_get_experiment_def bnd_def redis_call_def ret_def)
qed

lemma create_get_roundtrip:
  assumes "up (w_redis w)"
  shows "\<exists>w'. store_create_experiment R e w = (Inr e, w') \<and>
    (\<forall>T \<ge> w_now w. (T < w_now w + of_int (ex_duration e) \<longrightarrow>
        fst (store_get_experiment R (ex_id e) (w'\<lparr>w_now := T\<rparr>)) = Inr (Some e)) \<and>
      (w_now w + of_int (ex_duration e) < T \<longrightarrow>
        fst (store_get_experiment R (ex_id e) (w'\<lparr>w_now := T\<rparr>)) = Inr None))"
proof -
  from create_answers [OF assms, of e] obtain s' where
    c: "store_create_experiment R e w = (Inr e, w\<lparr>w_redis := s'\<rparr>)" "up s'"
      "\<forall>t \<ge> w_now w. t < w_now w + of_int (ex_duration e) \<longrightarrow>
         kv s' t (experiment_key (ex_id e)) = Some (RDoc (JObj (experiment_to_dict e)))"
      "\<forall>t. w_now w + of_int (ex_duration e) < t \<longrightarrow> kv s' t (experiment_key (ex_id e)) = None" by blast
  show ?thesis
  proof (intro exI [of _ "w\<lparr>w_redis := s'\<rparr>"] conjI allI impI)
    fix T assume T: "w_now w \<le> T" "T < w_now w + of_int (ex_duration e)"
    with c get_answers_experiment [of "w\<lparr>w_redis := s', w_now := T\<rparr>" "ex_id e" e]
    show "fst (store_get_experiment R (ex_id e) (w\<lparr>w_redis := s'\<rparr>\<lparr>w_now := T\<rparr>)) = Inr (Some e)" by auto
  next
    fix T assume T: "w_now w \<le> T" "w_now w + of_int (ex_duration e) < T"
    with c get_answers_no_experiment [of "w\<lparr>w_redis := s', w_now := T\<rparr>" "ex_id e"]
    show "fst (store_get_experiment R (ex_id e) (w\<lparr>w_redis := s'\<rparr>\<lparr>w_now := T\<rparr>)) = Inr None" by auto
  qed (rule c(1))
qed

end

text \<open>
  C12. An experiment that was created is read back unchanged, with every attribute, until its
  duration is over, and is gone after it.
\<close>

theorem experiment_store_roundtrip:
  assumes "reliable_store R kv zs ct pk up" and "up (w_redis w)"
  shows "\<exists>w'. store_create_experiment R e w = (Inr e, w') \<and>
    (\<forall>T \<ge> w_now w. (T < w_now w + of_int (ex_duration e) \<longrightarrow>
        fst (store_get_experiment R (ex_id e) (w'\<lparr>w_now := T\<rparr>)) = Inr (Some e)) \<and>
      (w_now w + of_int (ex_duration e) < T \<longrightarrow>
        fst (store_get_experiment R (ex_id e) (w'\<lparr>w_now := T\<rparr>)) = Inr None))"
  by (rule reliable_store.create_get_roundtrip [OF assms])

definition demo_experiment :: chaos_experiment where
  "demo_experiment = \<lparr>ex_id = ''e1'', ex_name = ''n'', ex_hypothesis = ''h'',
     ex_target = dict_of [(''endpoint'', JStr ''/order'')], ex_fault_type = ''latency'',
     ex_params = dict_of [(''latency_ms'', JInt 100)], ex_duration = 60, ex_status = status_running,
     ex_created_at = 1000, ex_updated_at = 1000, ex_legacy_api = False\<rparr>"

theorem experiment_store_roundtrip_witness:
  "\<exists>w'. store_create_experiment fake_redis demo_experiment demo_world = (Inr demo_experiment, w') \<and>
     fst (store_get_experiment fake_redis ''e1'' (w'\<lparr>w_now := 1059\<rparr>)) = Inr (Some demo_experiment) \<and>
     fst (store_get_experiment fake_redis ''e1'' (w'\<lparr>w_now := 1061\<rparr>)) = Inr None"
proof -
  have "\<not> f_broken (w_redis demo_world)" by simp
  from experiment_store_roundtrip [OF fr.reliable_store_axioms this, of demo_experiment] obtain w' where
    "store_create_experiment fake_redis demo_experiment demo_world = (Inr demo_experiment, w')"
    and rt: "\<forall>T \<ge> 1000. (T < 1060 \<longrightarrow>
        fst (store_get_experiment fake_redis ''e1'' (w'\<lparr>w_now := T\<rparr>)) = Inr (Some demo_experiment)) \<and>
      (1060 < T \<longrightarrow> fst (store_get_experiment fake_redis ''e1'' (w'\<lparr>w_now := T\<rparr>)) = Inr None)"
    by (auto simp: demo_experiment_def)
  then show ?thesis using rt [rule_format, of 1059] rt [rule_format, of 1061] by auto
qed

section \<open>The active gauge\<close>

text \<open>A report that belongs to the experiment and whose numbers are readable.\<close>

definition report_matches :: "chaos_experiment \<Rightarrow> dict \<Rightarrow> bool" where
  "report_matches e rep =
     (fmlookup rep ''target'' = Some (JObj (ex_target e)) \<and>
      fmlookup rep ''fault_type'' = Some (JStr (ex_fault_type e)) \<and>
      (\<exists>n. fmlookup rep ''after_error_count'' = Some (JInt n)) \<and>
      (\<exists>r. fmlookup rep ''created_at'' = Some (JFloat r)) \<and>
      fmlookup rep ''duration'' = Some (JInt (ex_duration e)))"

lemma initial_report_matches: "report_matches e (initial_report e)"
  by (simp add: report_matches_def initial_report_def dict_of_def)

definition active_gauge :: "chaos_experiment \<Rightarrow> ('s, 'z) world_scheme \<Rightarrow> rat" where
  "active_gauge e w = w_counters w (''CHAOS_ACTIVE_EXPERIMENT'', experiment_labels e)"

lemma experiment_labels_upd [simp]:
  "experiment_labels (e\<lparr>ex_status := x, ex_updated_at := t\<rparr>) = experiment_labels e"
  by (simp add: experiment_labels_def)

lemma recovered_metrics_answers:
  assumes "report_matches e rep"
  shows "\<exists>w'. record_report_recovered_metrics rep w = (Inr (), w') \<and> w_redis w' = w_redis w \<and>
    w_now w' = w_now w + w_ticks w (w_tick_no w) \<and> w_ticks w' = w_ticks w \<and> world.more w' = world.more w \<and>
    active_gauge e w' = active_gauge e w - 1"
proof -
  from assms obtain n r where "fmlookup rep ''after_error_count'' = Some (JInt n)"
    "fmlookup rep ''created_at'' = Some (JFloat r)" by (auto simp: report_matches_def)
  with assms show ?thesis
    by (cases "n = 0"; cases "ex_target e = fmempty")
      (simp_all add: record_report_recovered_metrics_def dict_or_empty_def dget_or_def report_matches_def
        report_int_def report_float_def active_gauge_def experiment_labels_def prog_simps)
qed

context reliable_store
begin

lemma stop_answers:
  assumes up: "up (w_redis w)" and still: "w_ticks w = (\<lambda>_. 0)" and i: "ex_id e = i"
    and doc: "kv (w_redis w) (w_now w) (experiment_key i) = Some (RDoc (JObj (experiment_to_dict e)))"
    and rep: "kv (w_redis w) (w_now w) (report_key i) = Some (RDoc (JObj rep))" and m: "report_matches e rep"
  shows "\<exists>w' rep'. chaos_stop_experiment R i w = (Inr True, w') \<and> up (w_redis w') \<and> w_now w' = w_now w \<and>
    w_ticks w' = (\<lambda>_. 0) \<and> active_gauge e w' = active_gauge e w - 1 \<and> report_matches e rep' \<and>
    (\<forall>t. w_now w \<le> t \<and> t < w_now w + of_int report_ttl_buffer \<longrightarrow>
       kv (w_redis w') t (experiment_key i) =
         Some (RDoc (JObj (experiment_to_dict (e\<lparr>ex_status := status_stopped, ex_updated_at := w_now w\<rparr>)))) \<and>
       kv (w_redis w') t (report_key i) = Some (RDoc (JObj rep')))"
proof -
  let ?t = "w_now w" and ?k = "experiment_key i" and ?r = "report_key i"
  let ?e = "e\<lparr>ex_status := status_stopped, ex_updated_at := ?t\<rparr>"
  from get_answers_experiment [OF up doc] obtain s1 where
    g: "store_get_experiment R i w = (Inr (Some e), two_ticks (w\<lparr>w_redis := s1\<rparr>))" and up1: "up s1"
    and k1: "\<forall>t \<ge> ?t. \<forall>k. kv s1 t k = kv (w_redis w) t k" by blast
  obtain s2 where set: "r_setex R ?k report_ttl_buffer (RDoc (JObj (experiment_to_dict ?e))) ?t s1 = (Inr (), s2)"
    and up2: "up s2" using up_setex [OF up1] by blast
  define w2 where "w2 = (two_ticks (w\<lparr>w_redis := s1\<rparr>))\<lparr>w_tick_no := w_tick_no w + 3, w_redis := s2\<rparr>"
  have tn: "w_tick_no (two_ticks (w\<lparr>w_redis := s1\<rparr>)) = w_tick_no w + 2"
    by (simp add: two_ticks_def prog_simps)
  have st: "store_stop_experiment R i w = (Inr (Some ?e), w2)"
    using set still tn i
    by (simp add: store_stop_experiment_def bnd_def g thn_def py_time_def redis_call_def ret_def w2_def Let_def
        numeral_3_eq_3)
  have w2: "w_redis w2 = s2" "w_now w2 = ?t" "w_ticks w2 = (\<lambda>_. 0)" "active_gauge e w2 = active_gauge e w"
    using still by (simp_all add: w2_def active_gauge_def)
  have "kv s2 ?t ?r = Some (RDoc (JObj rep))"
    using setex_keeps [OF set, of ?r ?t] k1 rep by simp
  then obtain s3 where gr: "r_get R ?r ?t s2 = (Inr (Some (RDoc (JObj rep))), s3)" and up3: "up s3"
    using get_answers [OF up2, of ?r ?t] by auto
  define w3 where "w3 = w2\<lparr>w_redis := s3\<rparr>"
  have rd: "get_report R (ex_id e) w2 = (Inr (Some (JObj rep)), w3)"
    using gr i w2 by (simp add: get_report_def bnd_def redis_call_def rval_nonempty_def ret_def w3_def)
  from recovered_metrics_answers [OF m, of w3] obtain w4 where
    rm: "record_report_recovered_metrics rep w3 = (Inr (), w4)" and w4: "w_redis w4 = s3" "w_now w4 = ?t"
    "w_ticks w4 = (\<lambda>_. 0)" "active_gauge e w4 = active_gauge e w - 1"
    using w2 by (auto simp: w3_def active_gauge_def)
  define rep' where "rep' = dset ''status'' (JStr status_stopped) (dset ''recovered'' (JBool True) rep)"
  let ?d = "max (ex_duration e + report_ttl_buffer) report_ttl_buffer"
  obtain s5 where sr: "r_setex R ?r ?d (RDoc (JObj rep')) ?t s3 = (Inr (), s5)" and up5: "up s5"
    using up_setex [OF up3] by blast
  have rep'm: "report_matches e rep'" using m by (simp add: report_matches_def rep'_def)
  have dur: "json_int (dget_or rep' ''duration'' (JInt 0)) = Inr (ex_duration e)"
    using rep'm by (simp add: report_matches_def dget_or_def)
  obtain w5 where w5: "chaos_stop_experiment R i w = (Inr True, w5)" "w_redis w5 = s5" "w_now w5 = ?t"
    "w_ticks w5 = (\<lambda>_. 0)" "active_gauge e w5 = active_gauge e w - 1"
    using sr w4 dur i
    by (auto simp: chaos_stop_experiment_def bnd_def st record_recovered_def with_report_def rd as_dict_def ret_def
        thn_def rm log_chaos_def log_line_def modw_def save_report_def redis_call_def active_gauge_def rep'_def)
  have live: "kv s5 t ?k = Some (RDoc (JObj (experiment_to_dict ?e))) \<and> kv s5 t ?r = Some (RDoc (JObj rep'))"
    if t: "?t \<le> t" "t < ?t + of_int report_ttl_buffer" for t
  proof -
    have "t < ?t + of_int ?d" using t(2) by (simp add: less_le_trans)
    then show ?thesis
      using setex_live [OF sr t(1)] setex_keeps [OF sr, of ?k t] get_keeps [OF gr t(1), of ?k]
        setex_live [OF set t] by simp
  qed
  show ?thesis using w5 up5 rep'm live by blast
qed

lemma create_experiment_answers:
  assumes "up (w_redis w)" and "w_ticks w = (\<lambda>_. 0)"
  shows "\<exists>e w'. chaos_create_experiment R name hyp target ft params dur w = (Inr e, w') \<and> up (w_redis w') \<and>
    w_ticks w' = (\<lambda>_. 0) \<and> w_now w' = w_now w \<and> ex_duration e = dur \<and> active_gauge e w' = active_gauge e w + 1 \<and>
    (\<forall>t. w_now w \<le> t \<and> t < w_now w + of_int dur \<longrightarrow>
       kv (w_redis w') t (experiment_key (ex_id e)) = Some (RDoc (JObj (experiment_to_dict e))) \<and>
       kv (w_redis w') t (report_key (ex_id e)) = Some (RDoc (JObj (initial_report e))))"
proof -
  define e where "e = \<lparr>ex_id = w_uuids w (w_uuid_no w), ex_name = name, ex_hypothesis = hyp, ex_target = target,
    ex_fault_type = ft, ex_params = params, ex_duration = dur, ex_status = status_running,
    ex_created_at = w_now w, ex_updated_at = w_now w, ex_legacy_api = False\<rparr>"
  define w1 where "w1 = w\<lparr>w_tick_no := Suc (w_tick_no w), w_uuid_no := Suc (w_uuid_no w)\<rparr>"
  have up1: "up (w_redis w1)" using assms(1) by (simp add: w1_def)
  from create_answers [OF up1, of e] obtain s' where
    c: "store_create_experiment R e w1 = (Inr e, w1\<lparr>w_redis := s'\<rparr>)" "up s'"
    and live: "\<forall>t \<ge> w_now w1. t < w_now w1 + of_int (ex_duration e) \<longrightarrow>
       kv s' t (experiment_key (ex_id e)) = Some (RDoc (JObj (experiment_to_dict e)))"
      "\<forall>t \<ge> w_now w1. t < w_now w1 + of_int (max (ex_duration e + report_ttl_buffer) report_ttl_buffer) \<longrightarrow>
       kv s' t (report_key (ex_id e)) = Some (RDoc (JObj (initial_report e)))" by blast
  have dur: "ex_duration e = dur" by (simp add: e_def)
  obtain w2 where run: "chaos_create_experiment R name hyp target ft params dur w = (Inr e, w2)"
    and w2: "w_redis w2 = s'" "w_ticks w2 = (\<lambda>_. 0)" "w_now w2 = w_now w" "active_gauge e w2 = active_gauge e w + 1"
    using c(1) assms(2)
    by (auto simp: chaos_create_experiment_def bnd_def py_time_def py_uuid_def Let_def thn_def record_created_def
        metric_inc_def metric_add_def metric_observe_def log_chaos_def log_line_def modw_def ret_def w1_def
        active_gauge_def simp flip: e_def)
  have "kv s' t (experiment_key (ex_id e)) = Some (RDoc (JObj (experiment_to_dict e))) \<and>
       kv s' t (report_key (ex_id e)) = Some (RDoc (JObj (initial_report e)))"
    if "w_now w \<le> t" "t < w_now w + of_int dur" for t
  proof -
    have "of_int dur \<le> (of_int (max (dur + report_ttl_buffer) report_ttl_buffer) :: rat)"
      by (simp only: of_int_le_iff)
    then show ?thesis using live that by (simp add: w1_def dur)
  qed
  then show ?thesis using run w2 c(2) dur by blast
qed

lemma create_stop_stop:
  assumes "up (w_redis w)" and "w_ticks w = (\<lambda>_. 0)" and "w_now w \<le> T" and "T < w_now w + of_int dur"
  shows "\<exists>e w1 w2 w3. chaos_create_experiment R name hyp target ft params dur w = (Inr e, w1) \<and>
    chaos_stop_experiment R (ex_id e) (w1\<lparr>w_now := T\<rparr>) = (Inr True, w2) \<and>
    active_gauge e w2 = active_gauge e w \<and>
    chaos_stop_experiment R (ex_id e) w2 = (Inr True, w3) \<and>
    active_gauge e w3 = active_gauge e w - 1"
proof -
  from create_experiment_answers [OF assms(1,2), of name hyp target ft params dur] obtain e w1 where
    c: "chaos_create_experiment R name hyp target ft params dur w = (Inr e, w1)" "up (w_redis w1)"
      "w_ticks w1 = (\<lambda>_. 0)" "active_gauge e w1 = active_gauge e w + 1"
    and live: "kv (w_redis w1) T (experiment_key (ex_id e)) = Some (RDoc (JObj (experiment_to_dict e)))"
      "kv (w_redis w1) T (report_key (ex_id e)) = Some (RDoc (JObj (initial_report e)))"
    using assms(3,4) by blast
  let ?w = "w1\<lparr>w_now := T\<rparr>"
  from stop_answers [of ?w e "ex_id e" "initial_report e"] initial_report_matches c live obtain w2 rep where
    s: "chaos_stop_experiment R (ex_id e) ?w = (Inr True, w2)" "up (w_redis w2)" "w_now w2 = T"
      "w_ticks w2 = (\<lambda>_. 0)" "active_gauge e w2 = active_gauge e ?w - 1" "report_matches e rep"
      "kv (w_redis w2) T (experiment_key (ex_id e)) =
         Some (RDoc (JObj (experiment_to_dict (e\<lparr>ex_status := status_stopped, ex_updated_at := T\<rparr>))))"
      "kv (w_redis w2) T (report_key (ex_id e)) = Some (RDoc (JObj rep))"
    by force
  let ?e = "e\<lparr>ex_status := status_stopped, ex_updated_at := T\<rparr>"
  have g: "active_gauge ?e x = active_gauge e x" for x :: "('s, 'z) world_scheme"
    by (simp add: active_gauge_def)
  have "report_matches ?e rep" using s(6) by (simp add: report_matches_def)
  with stop_answers [of w2 ?e "ex_id e" rep] s obtain w3 where
    "chaos_stop_experiment R (ex_id e) w2 = (Inr True, w3)" "active_gauge ?e w3 = active_gauge ?e w2 - 1" by force
  moreover have "active_gauge e ?w = active_gauge e w1" by (simp add: active_gauge_def)
  ultimately show ?thesis using c(1,4) s(1,5) g by (auto simp: active_gauge_def)
qed

end

text \<open>
  Creating an experiment and stopping it while it runs leaves the gauge of active experiments
  where it was.
\<close>

theorem create_stop_balances_gauge:
  assumes "reliable_store R kv zs ct pk up" and "up (w_redis w)" and "w_ticks w = (\<lambda>_. 0)"
    and "w_now w \<le> T" and "T < w_now w + of_int dur"
  shows "\<exists>e w1 w2. chaos_create_experiment R name hyp target ft params dur w = (Inr e, w1) \<and>
    chaos_stop_experiment R (ex_id e) (w1\<lparr>w_now := T\<rparr>) = (Inr True, w2) \<and>
    active_gauge e w2 = active_gauge e w"
  using reliable_store.create_stop_stop [OF assms, of name hyp target ft params] by blast

theorem create_stop_balances_gauge_witness:
  "\<exists>e w1 w2. chaos_create_experiment fake_redis ''n'' ''h'' fmempty ''latency'' fmempty 60 demo_world = (Inr e, w1) \<and>
    chaos_stop_experiment fake_redis (ex_id e) (w1\<lparr>w_now := 1010\<rparr>) = (Inr True, w2) \<and> active_gauge e w2 = 0"
proof -
  have a: "\<not> f_broken (w_redis demo_world)" "w_ticks demo_world = (\<lambda>_. 0)" "w_now demo_world \<le> 1010"
    "1010 < w_now demo_world + of_int 60" by (simp_all add: demo_world_def)
  have "active_gauge e demo_world = 0" for e by (simp add: active_gauge_def demo_world_def)
  with create_stop_balances_gauge [OF fr.reliable_store_axioms a, of "''n''" "''h''" fmempty "''latency''" fmempty]
  show ?thesis by simp
qed

text \<open>
  Stopping is not idempotent: a second stop of the same experiment also reports success, and
  takes the gauge below where it was before the experiment.
\<close>

theorem second_stop_unbalances_gauge:
  assumes "reliable_store R kv zs ct pk up" and "up (w_redis w)" and "w_ticks w = (\<lambda>_. 0)"
    and "w_now w \<le> T" and "T < w_now w + of_int dur"
  shows "\<exists>e w1 w2 w3. chaos_create_experiment R name hyp target ft params dur w = (Inr e, w1) \<and>
    chaos_stop_experiment R (ex_id e) (w1\<lparr>w_now := T\<rparr>) = (Inr True, w2) \<and>
    chaos_stop_experiment R (ex_id e) w2 = (Inr True, w3) \<and>
    active_gauge e w3 = active_gauge e w - 1"
  using reliable_store.create_stop_stop [OF assms, of name hyp target ft params] by blast

theorem second_stop_unbalances_gauge_witness:
  "\<exists>e w1 w2 w3. chaos_create_experiment fake_redis ''n'' ''h'' fmempty ''latency'' fmempty 60 demo_world = (Inr e, w1) \<and>
    chaos_stop_experiment fake_redis (ex_id e) (w1\<lparr>w_now := 1010\<rparr>) = (Inr True, w2) \<and>
    chaos_stop_experiment fake_redis (ex_id e) w2 = (Inr True, w3) \<and> active_gauge e w3 = - 1"
proof -
  have a: "\<not> f_broken (w_redis demo_world)" "w_ticks demo_world = (\<lambda>_. 0)" "w_now demo_world \<le> 1010"
    "1010 < w_now demo_world + of_int 60" by (simp_all add: demo_world_def)
  have "active_gauge e demo_world = 0" for e by (simp add: active_gauge_def demo_world_def)
  with second_stop_unbalances_gauge [OF fr.reliable_store_axioms a, of "''n''" "''h''" fmempty "''latency''" fmempty]
  show ?thesis by simp
qed

section \<open>Limits of the injection\<close>

text \<open>
  C11. The kill switch: with fault injection disabled, none of the four entry points reads or
  writes the store, sleeps, counts or logs anything, or raises, and no experiment is attached to
  the request.
\<close>

theorem kill_switch:
  assumes "\<not> FAULT_INJECTION_ENABLED cx"
  shows "\<exists>w1 w2 w3 w4.
    prepare_request_experiments R cx rq w = (Inr [], w1) \<and> world.truncate w1 = world.truncate w \<and> cq_experiments w1 = [] \<and>
    apply_faults R cx rq w = (Inr None, w2) \<and> world.truncate w2 = world.truncate w \<and>
    before_service_operation R cx stage w = (Inr (), w3) \<and> world.truncate w3 = world.truncate w \<and>
    before_store_operation R cx req operation w = (Inr (), w4) \<and> world.truncate w4 = world.truncate w"
  using assms
  by (simp add: prepare_request_experiments_def apply_faults_def before_service_operation_def
      before_store_operation_def sync_ctx_settings_def prog_simps world.defs)

theorem kill_switch_witness:
  "fst (apply_faults fake_redis (demo_ctx\<lparr>FAULT_INJECTION_ENABLED := False\<rparr>) demo_request demo_chaos_world) = Inr None"
proof -
  have "\<not> FAULT_INJECTION_ENABLED (demo_ctx\<lparr>FAULT_INJECTION_ENABLED := False\<rparr>)" by simp
  from kill_switch [OF this, of fake_redis demo_request demo_chaos_world "''service''" None "''op''"]
  show ?thesis by auto
qed

lemma number_in_float:
  "number_in v hi \<Longrightarrow> \<exists>r. json_float v = Inr r \<and> 0 \<le> r \<and> (\<forall>h. hi = Some h \<longrightarrow> r \<le> h)"
  by (cases v) (auto simp: number_in_def split: option.splits)

lemma keeps_slept [prog_intros]:
  "keeps (\<lambda>w. w_slept w = sl) (redis_call cmd)" "keeps (\<lambda>w. w_slept w = sl) py_time"
  "keeps (\<lambda>w. w_slept w = sl) (metric_inc n ls)" "keeps (\<lambda>w. w_slept w = sl) (log_line ev lv fs)"
  by (auto simp: keeps_def prog_simps split: prod.split sum.split)

lemma record_injected_sleeps: "keeps (\<lambda>w. w_slept w = sl) (record_injected R e phase)"
  unfolding record_injected_def log_chaos_def with_report_def get_report_def save_report_def report_int_def
  by (intro prog_intros)

text \<open>
  The latency limit: an experiment that the service accepted delays a request, before it is
  handled, at most once and by at most the configured maximum.
\<close>

theorem created_latency_bounded:
  assumes created: "fi_create_experiment R cx name hyp target ft params dur w = (Inr e, w1)"
    and inj: "build_injector (ex_fault_type e) w2 = (Inr i, w2')"
    and run: "injector_before_request R i e w2' = (r, w3)"
  shows "\<exists>ds. w_slept w3 = w_slept w2' @ ds \<and> length ds \<le> 1 \<and>
    (\<forall>d \<in> set ds. 0 < d \<and> d \<le> of_int (FAULT_MAX_LATENCY_MS cx) / 1000)"
proof (cases "i = LatencyInjector")
  case False
  then have "w3 = w2'" using run by (cases i) (auto simp: ret_def)
  then show ?thesis by (intro exI [of _ "[]"]) simp
next
  case True
  then have "ex_fault_type e = ''latency''" using inj by (auto simp: build_injector_def prog_simps split: if_splits)
  moreover from created have e: "ex_fault_type e = ft \<and> ex_params e = params" and
    ok: "validate_fault_params (settings_of cx) ft params = None"
    by (auto simp: fi_create_experiment_def sync_ctx_settings_def global_settings_def settings_of_def
        thn_def gets_def modw_def chaos_create_experiment_def Let_def ret_def raise_def
        elim!: bnd_eq_InrE split: option.splits)
  ultimately have ft: "ft = ''latency''" by simp
  with ok have "number_in (dget_or params ''latency_ms'' (JInt 0)) (Some (of_int (FAULT_MAX_LATENCY_MS cx)))"
    by (simp add: validate_fault_params_def settings_of_def Let_def split: if_splits)
  then obtain ms where ms: "json_float (dget_or params ''latency_ms'' (JInt 0)) = Inr ms"
    "ms \<le> of_int (FAULT_MAX_LATENCY_MS cx)" using number_in_float by blast
  then have pf: "param_float e ''latency_ms'' w2' = (Inr ms, w2')"
    by (auto simp: param_float_def dget_or_def e ret_def split: option.splits)
  obtain q w4 where inj': "record_injected R e ''before_request'' w2' = (q, w4)"
    by (cases "record_injected R e ''before_request'' w2'")
  have sl: "w_slept w4 = w_slept w2'"
    using keepsD [OF record_injected_sleeps [of "w_slept w2'" R e "''before_request''"], of w2'] inj' by simp
  consider "w3 = w2'" | "w3 = w4" | "0 < ms" "w3 = snd (py_sleep (ms / 1000) w4)"
    using run True pf inj'
    by (cases q) (auto simp: latency_before_request_def thn_def bnd_def ret_def split: if_splits)
  then show ?thesis
  proof cases
    case 3
    then have "w_slept w3 = w_slept w2' @ [ms / 1000]" by (simp add: py_sleep_def modw_def sl)
    with 3 ms(2) show ?thesis
      by (intro exI [of _ "[ms / 1000]"]) (simp add: divide_right_mono)
  qed (use sl in \<open>auto intro: exI [of _ "[]"]\<close>)
qed

lemma demo_create_run:
  "\<exists>e w1. fi_create_experiment fake_redis demo_ctx ''n'' ''h'' fmempty ''latency''
     (dict_of [(''latency_ms'', JInt 100)]) 60 demo_chaos_world = (Inr e, w1) \<and> ex_fault_type e = ''latency''"
  by (simp add: fi_create_experiment_def sync_ctx_settings_def global_settings_def validate_fault_params_def
      number_in_def dict_of_def demo_ctx_def sync_legacy_attributes_def chaos_create_experiment_def
      store_create_experiment_def record_created_def log_chaos_def demo_chaos_world_def demo_world_def
      world.defs prog_simps fake_eval)

theorem created_latency_bounded_witness:
  "\<exists>e w1 r w3 ds. fi_create_experiment fake_redis demo_ctx ''n'' ''h'' fmempty ''latency''
     (dict_of [(''latency_ms'', JInt 100)]) 60 demo_chaos_world = (Inr e, w1) \<and>
     injector_before_request fake_redis LatencyInjector e w1 = (r, w3) \<and>
     w_slept w3 = w_slept w1 @ ds \<and> (\<forall>d \<in> set ds. d \<le> 5)"
proof -
  from demo_create_run obtain e and w1 :: "fake chaos_world" where
    c: "fi_create_experiment fake_redis demo_ctx ''n'' ''h'' fmempty ''latency''
     (dict_of [(''latency_ms'', JInt 100)]) 60 demo_chaos_world = (Inr e, w1)" "ex_fault_type e = ''latency''" by blast
  have i: "build_injector (ex_fault_type e) w1 = (Inr LatencyInjector, w1)"
    by (simp add: build_injector_def c(2) ret_def)
  obtain r w3 where r: "injector_before_request fake_redis LatencyInjector e w1 = (r, w3)"
    by (cases "injector_before_request fake_redis LatencyInjector e w1")
  from created_latency_bounded [OF c(1) i r] c(1) r show ?thesis
    by (auto simp: demo_ctx_def sync_legacy_attributes_def)
qed

section \<open>Only matching requests are hit\<close>

text \<open>What an experiment's target says of a request, its percentage aside.\<close>

definition targets_request :: "dict \<Rightarrow> request \<Rightarrow> bool" where
  "targets_request target rq =
     ((truthy (dget_or target ''endpoint'' JNull) \<longrightarrow>
        dget_or target ''endpoint'' JNull \<in> {JStr ''*'', JStr (rq_path rq)}) \<and>
      (truthy (dget_or target ''method'' JNull) \<longrightarrow>
        upper (py_str (dget_or target ''method'' JNull)) = upper (rq_method rq)))"

lemma match_request_targets:
  "match_request target rq w = (Inr True, w') \<Longrightarrow> targets_request target rq"
  by (auto simp: match_request_def targets_request_def Let_def ret_def split: if_splits)

lemma listed_running:
  assumes "store_list_experiments R False w = (Inr es, w')" and "e \<in> set es"
  shows "ex_status e = status_running"
proof -
  let ?P = "\<lambda>es. \<forall>e \<in> set es. ex_status e = status_running"
  from assms(1) obtain ks w1 where "fold_prog (\<lambda>k acc.
       bnd (redis_call (r_get R k)) (\<lambda>raw.
       case raw of
         None \<Rightarrow> ret acc
       | Some v \<Rightarrow>
           if \<not> rval_nonempty v then ret acc
           else bnd (parse_experiment v) (\<lambda>oe.
             case oe of
               None \<Rightarrow> ret acc
             | Some e \<Rightarrow> ret (if False \<or> ex_status e = status_running then acc @ [e] else acc))))
       (sort ks) [] w1 = (Inr es, w')"
    unfolding store_list_experiments_def by (elim bnd_eq_InrE) blast
  then have "?P es"
    by (rule fold_prog_inv [where P = ?P])
      (auto simp: ret_def elim!: bnd_eq_InrE split: option.splits if_splits)
  with assms(2) show ?thesis by blast
qed

text \<open>
  Isolation: whatever is stored, the experiments that \<open>prepare_request_experiments\<close> attaches to
  a request (and whose delays it has been given) are running and name its path and method.
\<close>

theorem prepared_only_matching:
  assumes "prepare_request_experiments R cx rq w = (Inr es, w')"
  shows "cq_experiments w' = es \<and>
    (\<forall>e \<in> set es. ex_status e = status_running \<and> targets_request (ex_target e) rq)"
proof (cases "FAULT_INJECTION_ENABLED cx")
  case False
  with assms show ?thesis by (auto simp: prepare_request_experiments_def sync_ctx_settings_def prog_simps)
next
  case True
  let ?body = "\<lambda>e active. bnd (match_request (ex_target e) rq) (\<lambda>hit.
        if \<not> hit then ret active
        else bnd (build_injector (ex_fault_type e)) (\<lambda>i.
             thn (injector_before_request R i e) (ret (active @ [e]))))"
  from assms True obtain w0 where "chaos_prepare_request R rq w0 = (Inr es, w')"
    by (auto simp: prepare_request_experiments_def sync_ctx_settings_def thn_def modw_def bnd_def)
  then obtain listed w1 w2 w3 where l: "store_list_experiments R False w1 = (Inr listed, w2)"
    and f: "fold_prog ?body listed [] w2 = (Inr es, w3)" and w': "w' = w3\<lparr>cq_experiments := es\<rparr>"
    by (auto simp: chaos_prepare_request_def thn_def modw_def ret_def elim!: bnd_eq_InrE)
  let ?P = "\<lambda>es. \<forall>e \<in> set es. ex_status e = status_running \<and> targets_request (ex_target e) rq"
  have "?P es"
  proof (rule fold_prog_inv [where P = ?P, OF f])
    fix e active w r w'
    assume e: "e \<in> set listed" and P: "?P active" and "?body e active w = (Inr r, w')"
    then show "?P r"
      using listed_running [OF l e] match_request_targets [of "ex_target e" rq w]
      by (auto simp: ret_def thn_def elim!: bnd_eq_InrE split: if_splits)
  qed simp
  then show ?thesis by (simp add: w')
qed

text \<open>The demonstration world with one stored experiment.\<close>

definition one_experiment_world :: "fake chaos_world" where
  "one_experiment_world = demo_chaos_world\<lparr>w_redis := fake_empty\<lparr>f_store :=
     fmupd (experiment_key ''e1'') (RDoc (JObj (experiment_to_dict demo_experiment))) fmempty\<rparr>\<rparr>"

lemma prepare_demo_run:
  "fst (prepare_request_experiments fake_redis demo_ctx demo_request one_experiment_world) = Inr [demo_experiment]"
  by (simp add: prepare_request_experiments_def sync_ctx_settings_def demo_ctx_def sync_legacy_attributes_def
        chaos_prepare_request_def finalize_expired_reports_def store_list_experiments_def one_experiment_world_def
        demo_chaos_world_def demo_world_def world.defs prog_simps fake_eval report_key_def experiment_key_def
        parse_experiment_doc rval_nonempty_def)
    (simp add: match_request_def demo_experiment_def demo_request_def percentage_match_def dict_of_def
        build_injector_def latency_before_request_def param_float_def record_injected_def log_chaos_def
        with_report_def get_report_def report_key_def two_ticks_def prog_simps fake_eval)

theorem prepared_only_matching_witness:
  "\<exists>w'. prepare_request_experiments fake_redis demo_ctx demo_request one_experiment_world = (Inr [demo_experiment], w') \<and>
     cq_experiments w' = [demo_experiment] \<and> targets_request (ex_target demo_experiment) demo_request"
proof -
  obtain w' where r: "prepare_request_experiments fake_redis demo_ctx demo_request one_experiment_world = (Inr [demo_experiment], w')"
    using prepare_demo_run by (metis prod.collapse)
  with prepared_only_matching [OF r] show ?thesis by simp
qed

end
