(* ===== verification/Chaos_Stop.thy ===== *)
theory Chaos_Stop
  imports Chaos_Correct
begin

text \<open>The emergency stop: after \<open>stop_all_experiments\<close> no experiment is active.\<close>

text \<open>The documents under the experiment and report keys are the ones the component writes.\<close>

definition experiments_wf :: "('s \<Rightarrow> rat \<Rightarrow> string \<Rightarrow> rval option) \<Rightarrow> 's \<Rightarrow> rat \<Rightarrow> bool" where
  "experiments_wf kv s t =
     ((\<forall>k v. starts_with ''chaos:experiment:'' k \<and> kv s t k = Some v \<longrightarrow>
         (\<exists>e. v = RDoc (JObj (experiment_to_dict e)) \<and> k = experiment_key (ex_id e))) \<and>
      (\<forall>i v. kv s t (report_key i) = Some v \<longrightarrow>
         (\<exists>e rep. v = RDoc (JObj rep) \<and> report_matches e rep)))"

lemma experiment_to_dict_inject: "experiment_to_dict e = experiment_to_dict e' \<longleftrightarrow> e = e'"
proof
  assume eq: "experiment_to_dict e = experiment_to_dict e'"
  have "experiment_from_dict (JObj (experiment_to_dict e)) (undefined :: unit world)
      = experiment_from_dict (JObj (experiment_to_dict e')) undefined" by (simp only: eq)
  then show "e = e'" unfolding experiment_roundtrip by (simp only: prod.inject sum.inject)
qed simp

lemma experiment_key_prefix [simp]: "starts_with ''chaos:experiment:'' (experiment_key i)"
  by (simp add: experiment_key_def)

context reliable_store
begin

lemma wf_later: "experiments_wf kv s t \<Longrightarrow> t \<le> t' \<Longrightarrow> experiments_wf kv s t'"
  unfolding experiments_wf_def using kv_shrinks [of t t' s] by (metis option.distinct(1))

lemma quiet_wf:
  assumes "quiet w w'" and "mono_ticks w" and "experiments_wf kv (w_redis w) (w_now w)"
  shows "experiments_wf kv (w_redis w') (w_now w')"
proof -
  have "experiments_wf kv (w_redis w) (w_now w')"
    using assms laterD [OF quietD(1) [OF assms(1)] assms(2)] wf_later by blast
  then show ?thesis using quietD(3) [OF assms(1)] by (simp add: experiments_wf_def)
qed

text \<open>A text that is live at the end was live before.\<close>

lemma quiet_live:
  assumes "quiet w w'" and "mono_ticks w" and "kv (w_redis w') (w_now w') k = Some v"
  shows "kv (w_redis w) (w_now w) k = Some v"
proof -
  have "kv (w_redis w) (w_now w') k = Some v" using quietD(3) [OF assms(1)] assms(3) by simp
  then show ?thesis
    using kv_shrinks [of "w_now w" "w_now w'" "w_redis w" k] laterD [OF quietD(1) [OF assms(1)] assms(2)] by auto
qed

lemma get_quiet:
  assumes "up (w_redis w)"
  shows "\<exists>s. redis_call (r_get R k) w = (Inr (kv (w_redis w) (w_now w) k), w\<lparr>w_redis := s\<rparr>) \<and> quiet w (w\<lparr>w_redis := s\<rparr>)"
proof -
  obtain s where g: "r_get R k (w_now w) (w_redis w) = (Inr (kv (w_redis w) (w_now w) k), s)" and "up s"
    using get_answers [OF assms] by blast
  then show ?thesis
    using get_keeps [OF g] get_pk [OF g] by (intro exI [of _ s]) (simp add: redis_call_def quiet_def later_def)
qed

lemma two_ticks_quiet:
  assumes "up (w_redis w)"
  shows "quiet w (two_ticks w)"
proof (rule quiet_same_store [OF assms])
  show "later w (two_ticks w)"
    unfolding later_def by (simp add: mono_ticks_def)
qed simp

text \<open>One key of the listing.\<close>

definition list_body :: "string \<Rightarrow> chaos_experiment list \<Rightarrow> (('s, 'z) world_scheme, chaos_experiment list) prog" where
  "list_body k acc =
       bnd (redis_call (r_get R k)) (\<lambda>raw.
       case raw of
         None \<Rightarrow> ret acc
       | Some v \<Rightarrow>
           if \<not> rval_nonempty v then ret acc
           else bnd (parse_experiment v) (\<lambda>oe.
             case oe of
               None \<Rightarrow> ret acc
             | Some e \<Rightarrow> ret (if False \<or> ex_status e = status_running then acc @ [e] else acc)))"

lemma list_body_answers:
  assumes "up (w_redis w)" and "mono_ticks w" and wf: "experiments_wf kv (w_redis w) (w_now w)"
    and k: "starts_with ''chaos:experiment:'' k"
  shows "\<exists>acc' w'. list_body k acc w = (Inr acc', w') \<and> quiet w w' \<and> set acc \<subseteq> set acc' \<and>
    (\<forall>e. kv (w_redis w) (w_now w) k = Some (RDoc (JObj (experiment_to_dict e))) \<and> ex_status e = status_running
       \<longrightarrow> e \<in> set acc') \<and>
    (\<forall>e \<in> set acc' - set acc. kv (w_redis w) (w_now w) (experiment_key (ex_id e)) =
       Some (RDoc (JObj (experiment_to_dict e))) \<and> ex_status e = status_running)"
proof -
  from get_quiet [OF assms(1), of k] obtain s where
    g: "redis_call (r_get R k) w = (Inr (kv (w_redis w) (w_now w) k), w\<lparr>w_redis := s\<rparr>)"
    and q: "quiet w (w\<lparr>w_redis := s\<rparr>)" by blast
  show ?thesis
  proof (cases "kv (w_redis w) (w_now w) k")
    case None
    with g q show ?thesis by (simp add: list_body_def bnd_def ret_def)
  next
    case (Some v)
    with wf k obtain e where v: "v = RDoc (JObj (experiment_to_dict e))" "k = experiment_key (ex_id e)"
      unfolding experiments_wf_def by blast
    have "quiet w (two_ticks (w\<lparr>w_redis := s\<rparr>))"
      using quiet_trans [OF q two_ticks_quiet assms(2)] quietD(2) [OF q] by blast
    then show ?thesis
      using Some g v by (auto simp: list_body_def bnd_def parse_experiment_doc ret_def rval_nonempty_def
          experiment_to_dict_inject)
  qed
qed

lemma list_fold_answers:
  assumes "up (w_redis w)" and "mono_ticks w" and "experiments_wf kv (w_redis w) (w_now w)"
    and "\<forall>k \<in> set ks. starts_with ''chaos:experiment:'' k"
  shows "\<exists>es w'. fold_prog list_body ks acc w = (Inr es, w') \<and> quiet w w' \<and> set acc \<subseteq> set es \<and>
    (\<forall>e k. k \<in> set ks \<and> kv (w_redis w') (w_now w') k = Some (RDoc (JObj (experiment_to_dict e))) \<and>
       ex_status e = status_running \<longrightarrow> e \<in> set es) \<and>
    (\<forall>e \<in> set es - set acc. kv (w_redis w) (w_now w) (experiment_key (ex_id e)) =
       Some (RDoc (JObj (experiment_to_dict e))) \<and> ex_status e = status_running)"
  using assms
proof (induction ks arbitrary: acc w)
  case Nil
  then show ?case by (simp add: ret_def quiet_refl)
next
  case (Cons k ks)
  from list_body_answers [OF Cons.prems(1-3), of k acc] Cons.prems(4) obtain acc1 w1 where
    b: "list_body k acc w = (Inr acc1, w1)" "quiet w w1" "set acc \<subseteq> set acc1"
      "\<forall>e. kv (w_redis w) (w_now w) k = Some (RDoc (JObj (experiment_to_dict e))) \<and> ex_status e = status_running
        \<longrightarrow> e \<in> set acc1"
      "\<forall>e \<in> set acc1 - set acc. kv (w_redis w) (w_now w) (experiment_key (ex_id e)) =
         Some (RDoc (JObj (experiment_to_dict e))) \<and> ex_status e = status_running" by auto
  have m1: "mono_ticks w1" using laterD [OF quietD(1) [OF b(2)] Cons.prems(2)] by simp
  from Cons.IH [OF quietD(2) [OF b(2)] m1 quiet_wf [OF b(2) Cons.prems(2,3)], of acc1] Cons.prems(4)
  obtain es w2 where f: "fold_prog list_body ks acc1 w1 = (Inr es, w2)" "quiet w1 w2" "set acc1 \<subseteq> set es"
    "\<forall>e k. k \<in> set ks \<and> kv (w_redis w2) (w_now w2) k = Some (RDoc (JObj (experiment_to_dict e))) \<and>
       ex_status e = status_running \<longrightarrow> e \<in> set es"
    "\<forall>e \<in> set es - set acc1. kv (w_redis w1) (w_now w1) (experiment_key (ex_id e)) =
       Some (RDoc (JObj (experiment_to_dict e))) \<and> ex_status e = status_running" by auto
  have q: "quiet w w2" using quiet_trans [OF b(2) f(2) Cons.prems(2)] .
  have new: "kv (w_redis w) (w_now w) (experiment_key (ex_id e)) =
       Some (RDoc (JObj (experiment_to_dict e))) \<and> ex_status e = status_running"
    if "e \<in> set es - set acc" for e
    using that b(5) f(5) quiet_live [OF b(2) Cons.prems(2)] by (cases "e \<in> set acc1") auto
  have "e \<in> set es" if "k' \<in> set (k # ks)" "ex_status e = status_running"
    "kv (w_redis w2) (w_now w2) k' = Some (RDoc (JObj (experiment_to_dict e)))" for e k'
  proof (cases "k' \<in> set ks")
    case False
    with that b(4) quiet_live [OF q Cons.prems(2) that(3)] f(3) show ?thesis by auto
  qed (use that f(4) in blast)
  then show ?case
    using b(1,3) f(1,3) q new by (intro exI [of _ es] exI [of _ w2]) (auto simp: bnd_def)
qed

lemma list_answers:
  assumes "up (w_redis w)" and "mono_ticks w" and wf: "experiments_wf kv (w_redis w) (w_now w)"
  shows "\<exists>es w'. store_list_experiments R False w = (Inr es, w') \<and> quiet w w' \<and>
    (\<forall>e. kv (w_redis w') (w_now w') (experiment_key (ex_id e)) = Some (RDoc (JObj (experiment_to_dict e))) \<and>
       ex_status e = status_running \<longrightarrow> e \<in> set es) \<and>
    (\<forall>e \<in> set es. kv (w_redis w) (w_now w) (experiment_key (ex_id e)) =
       Some (RDoc (JObj (experiment_to_dict e))) \<and> ex_status e = status_running)"
proof -
  obtain ks s where g: "r_keys R ''chaos:experiment:'' (w_now w) (w_redis w) = (Inr ks, s)" and up1: "up s"
    using up_keys [OF assms(1)] by blast
  let ?w = "w\<lparr>w_redis := s\<rparr>"
  have q1: "quiet w ?w" using keys_keeps [OF g] keys_pk [OF g] up1 by (simp add: quiet_def later_def)
  have m1: "mono_ticks ?w" using assms(2) by (simp add: mono_ticks_def)
  have "\<forall>k \<in> set (sort ks). starts_with ''chaos:experiment:'' k" using keys_prefix [OF g] by simp
  from list_fold_answers [OF quietD(2) [OF q1] m1 quiet_wf [OF q1 assms(2,3)] this, of "[]"] obtain es w2 where
    f: "fold_prog list_body (sort ks) [] ?w = (Inr es, w2)" "quiet ?w w2"
    "\<forall>e k. k \<in> set ks \<and> kv (w_redis w2) (w_now w2) k = Some (RDoc (JObj (experiment_to_dict e))) \<and>
       ex_status e = status_running \<longrightarrow> e \<in> set es"
    "\<forall>e \<in> set es. kv (w_redis ?w) (w_now ?w) (experiment_key (ex_id e)) =
       Some (RDoc (JObj (experiment_to_dict e))) \<and> ex_status e = status_running" by auto
  have q: "quiet w w2" using quiet_trans [OF q1 f(2) assms(2)] .
  have live: "\<forall>e \<in> set es. kv (w_redis w) (w_now w) (experiment_key (ex_id e)) =
       Some (RDoc (JObj (experiment_to_dict e))) \<and> ex_status e = status_running"
    using f(4) quiet_live [OF q1 assms(2)] by blast
  have run: "store_list_experiments R False w = (Inr es, w2)"
    using f(1) unfolding store_list_experiments_def list_body_def [abs_def] by (simp add: bnd_def redis_call_def g)
  have "e \<in> set es" if "ex_status e = status_running"
    "kv (w_redis w2) (w_now w2) (experiment_key (ex_id e)) = Some (RDoc (JObj (experiment_to_dict e)))" for e
    using keys_listed [OF g, of "experiment_key (ex_id e)"] quiet_live [OF q assms(2) that(2)] that f(3) by auto
  with run q live show ?thesis by blast
qed

text \<open>One experiment of the loop that stops them all.\<close>

lemma recovered_answers:
  assumes "up (w_redis w)" and m: "mono_ticks w" and wf: "experiments_wf kv (w_redis w) (w_now w)"
  shows "\<exists>w'. record_recovered R e w = (Inr (), w') \<and> later w w' \<and> up (w_redis w') \<and>
    experiments_wf kv (w_redis w') (w_now w') \<and>
    (\<forall>t k. w_now w' \<le> t \<and> k \<noteq> report_key (ex_id e) \<longrightarrow> kv (w_redis w') t k = kv (w_redis w) t k)"
proof -
  let ?r = "report_key (ex_id e)"
  from get_quiet [OF assms(1), of ?r] obtain s where
    g: "redis_call (r_get R ?r) w = (Inr (kv (w_redis w) (w_now w) ?r), w\<lparr>w_redis := s\<rparr>)"
    and q: "quiet w (w\<lparr>w_redis := s\<rparr>)" by blast
  show ?thesis
  proof (cases "kv (w_redis w) (w_now w) ?r")
    case None
    then have "record_recovered R e w = (Inr (), w\<lparr>w_redis := s\<rparr>)"
      using g by (simp add: record_recovered_def with_report_def get_report_def bnd_def ret_def)
    then show ?thesis using q quiet_wf [OF q m wf] quietD [OF q] by blast
  next
    case (Some v)
    with wf obtain e0 rep where v: "v = RDoc (JObj rep)" and rep: "report_matches e0 rep"
      unfolding experiments_wf_def by blast
    let ?w1 = "w\<lparr>w_redis := s\<rparr>"
    from recovered_metrics_answers [OF rep, of ?w1] obtain w2 where
      rm: "record_report_recovered_metrics rep ?w1 = (Inr (), w2)" and w2: "w_redis w2 = s"
      "w_now w2 = w_now w + w_ticks w (w_tick_no w)" "w_ticks w2 = w_ticks w" "world.more w2 = world.more w"
      by auto
    have un: "w_uuids w2 = w_uuids w \<and> w_uuid_no w2 = w_uuid_no w"
      using rm rep by (auto simp: record_report_recovered_metrics_def report_matches_def dict_or_empty_def
          dget_or_def report_int_def report_float_def prog_simps split: if_splits)
    define rep' where "rep' = dset ''status'' (JStr (ex_status e)) (dset ''recovered'' (JBool True) rep)"
    have rep': "report_matches e0 rep'" using rep by (simp add: report_matches_def rep'_def)
    then have dur: "json_int (dget_or rep' ''duration'' (JInt 0)) = Inr (ex_duration e0)"
      by (simp add: report_matches_def dget_or_def)
    have up2: "up (w_redis w2)" using quietD(2) [OF q] by (simp add: w2)
    obtain s3 where set: "r_setex R ?r (max (ex_duration e0 + report_ttl_buffer) report_ttl_buffer)
        (RDoc (JObj rep')) (w_now w2) (w_redis w2) = (Inr (), s3)" and up3: "up s3"
      using up_setex [OF up2] by blast
    obtain w3 where run: "record_recovered R e w = (Inr (), w3)" and w3: "w_redis w3 = s3" "w_now w3 = w_now w2"
      "later w w3"
    proof -
      let ?w3 = "w2\<lparr>w_logs := w_logs w2 @ [\<lparr>le_event = ''chaos_experiment_end'', le_level = ''INFO'', le_fields =
        [(''component'', JStr ''chaos''), (''operation'', JStr ''experiment''), (''result'', JStr ''stopped''),
         (''experiment_id'', JStr (ex_id e)), (''fault_type'', JStr (ex_fault_type e)),
         (''target'', JStr (target_label (ex_target e)))]\<rparr>], w_redis := s3\<rparr>"
      have "record_recovered R e w = (Inr (), ?w3)"
        using g Some v rm set dur
        by (simp add: record_recovered_def with_report_def get_report_def bnd_def ret_def rval_nonempty_def
            as_dict_def thn_def log_chaos_def log_line_def modw_def save_report_def redis_call_def rep'_def)
      moreover have "later w ?w3" using w2 un m by (simp add: later_def mono_ticks_def)
      ultimately show thesis by (intro that [of ?w3]) simp_all
    qed
    have now: "w_now w \<le> w_now w3" using laterD [OF w3(3) m] by simp
    have other: "kv s3 t k = kv (w_redis w) t k" if "w_now w3 \<le> t" "k \<noteq> ?r" for t k
      using setex_keeps [OF set that(2)] quietD(3) [OF q, of t k] that now by (simp add: w2)
    have wf3: "experiments_wf kv (w_redis w) (w_now w3)" using wf_later [OF wf now] .
    have "experiments_wf kv s3 (w_now w3)"
      unfolding experiments_wf_def
    proof (intro conjI allI impI)
      fix k v assume k: "starts_with ''chaos:experiment:'' k \<and> kv s3 (w_now w3) k = Some v"
      then have "k \<noteq> ?r" by (auto simp: report_key_def)
      with k wf3 other [of "w_now w3" k] show "\<exists>e. v = RDoc (JObj (experiment_to_dict e)) \<and> k = experiment_key (ex_id e)"
        by (simp add: experiments_wf_def)
    next
      fix i v assume i: "kv s3 (w_now w3) (report_key i) = Some v"
      show "\<exists>e rep. v = RDoc (JObj rep) \<and> report_matches e rep"
      proof (cases "report_key i = ?r")
        case True
        with i setex_live [OF set, of "w_now w3"] w3(2) rep' show ?thesis by auto
      next
        case False
        with i wf3 other [of "w_now w3" "report_key i"] show ?thesis by (simp add: experiments_wf_def)
      qed
    qed
    then show ?thesis using run w3 up3 other by auto
  qed
qed

text \<open>What remains to be stopped is in the list \<open>L\<close>.\<close>

definition covered :: "('s, 'z) world_scheme \<Rightarrow> chaos_experiment list \<Rightarrow> bool" where
  "covered w L = (up (w_redis w) \<and> mono_ticks w \<and> experiments_wf kv (w_redis w) (w_now w) \<and>
     (\<forall>e. kv (w_redis w) (w_now w) (experiment_key (ex_id e)) = Some (RDoc (JObj (experiment_to_dict e))) \<and>
        ex_status e = status_running \<longrightarrow> e \<in> set L))"

lemma stop_step:
  assumes cov: "covered w (e # L)"
  shows "\<exists>b w'. chaos_stop_experiment R (ex_id e) w = (Inr b, w') \<and> covered w' L"
proof -
  let ?k = "experiment_key (ex_id e)"
  from cov have up: "up (w_redis w)" and m: "mono_ticks w" and wf: "experiments_wf kv (w_redis w) (w_now w)"
    by (simp_all add: covered_def)
  show ?thesis
  proof (cases "kv (w_redis w) (w_now w) ?k")
    case None
    from get_quiet [OF up, of ?k] obtain s where
      g: "redis_call (r_get R ?k) w = (Inr None, w\<lparr>w_redis := s\<rparr>)" and q: "quiet w (w\<lparr>w_redis := s\<rparr>)"
      using None by auto
    have "chaos_stop_experiment R (ex_id e) w = (Inr False, w\<lparr>w_redis := s\<rparr>)"
      using g by (simp add: chaos_stop_experiment_def store_stop_experiment_def store_get_experiment_def bnd_def ret_def)
    moreover have "kv s (w_now w) k = kv (w_redis w) (w_now w) k" for k using quietD(3) [OF q, of "w_now w" k] by simp
    ultimately show ?thesis
      using cov quietD(2) [OF q] None by (auto simp: covered_def experiments_wf_def mono_ticks_def)
  next
    case (Some v)
    with wf experiment_key_prefix obtain e0 where v: "v = RDoc (JObj (experiment_to_dict e0))"
      and ek: "?k = experiment_key (ex_id e0)" unfolding experiments_wf_def by blast
    have id: "ex_id e0 = ex_id e" using ek by simp
    from get_answers_experiment [OF up, of "ex_id e" e0] Some v obtain s1 where
      g: "store_get_experiment R (ex_id e) w = (Inr (Some e0), two_ticks (w\<lparr>w_redis := s1\<rparr>))" and up1: "up s1"
      and k1: "\<forall>t \<ge> w_now w. \<forall>k. kv s1 t k = kv (w_redis w) t k" by auto
    define w1 where "w1 = snd (py_time (two_ticks (w\<lparr>w_redis := s1\<rparr>)))"
    have t1: "py_time (two_ticks (w\<lparr>w_redis := s1\<rparr>)) = (Inr (w_now w1), w1)"
      by (simp add: w1_def py_time_def Let_def)
    have w1: "w_redis w1 = s1" "mono_ticks w1" "w_now w \<le> w_now w1"
      using m by (simp_all add: w1_def py_time_def Let_def mono_ticks_def)
    let ?e = "e0\<lparr>ex_status := status_stopped, ex_updated_at := w_now w1\<rparr>"
    obtain s2 where set: "r_setex R ?k report_ttl_buffer (RDoc (JObj (experiment_to_dict ?e))) (w_now w1) s1 = (Inr (), s2)"
      and up2: "up s2" using up_setex [OF up1] by blast
    let ?w2 = "w1\<lparr>w_redis := s2\<rparr>"
    have stop: "store_stop_experiment R (ex_id e) w = (Inr (Some ?e), ?w2)"
      using set id t1 w1(1) by (simp add: store_stop_experiment_def bnd_def g thn_def redis_call_def ret_def Let_def)
    have other: "kv s2 t k = kv (w_redis w) t k" if "w_now w1 \<le> t" "k \<noteq> ?k" for t k
      using setex_keeps [OF set that(2)] k1 that(1) w1(3) by simp
    have stopped: "kv s2 (w_now w1) ?k = Some (RDoc (JObj (experiment_to_dict ?e)))"
      using setex_live [OF set, of "w_now w1"] by simp
    have wf1: "experiments_wf kv (w_redis w) (w_now w1)" using wf_later [OF wf w1(3)] .
    have wf2: "experiments_wf kv (w_redis ?w2) (w_now ?w2)"
      unfolding experiments_wf_def
    proof (intro conjI allI impI)
      fix k v assume k: "starts_with ''chaos:experiment:'' k \<and> kv (w_redis ?w2) (w_now ?w2) k = Some v"
      show "\<exists>e. v = RDoc (JObj (experiment_to_dict e)) \<and> k = experiment_key (ex_id e)"
      proof (cases "k = ?k")
        case True
        with k stopped id show ?thesis by (intro exI [of _ ?e]) simp
      next
        case False
        with k wf1 other [of "w_now w1" k] show ?thesis by (simp add: experiments_wf_def)
      qed
    next
      fix i v assume "kv (w_redis ?w2) (w_now ?w2) (report_key i) = Some v"
      with wf1 other [of "w_now w1" "report_key i"] show "\<exists>e rep. v = RDoc (JObj rep) \<and> report_matches e rep"
        by (simp add: experiments_wf_def)
    qed
    have m2: "mono_ticks ?w2" using w1(2) by (simp add: mono_ticks_def)
    from recovered_answers [OF _ m2 wf2, of ?e] up2 obtain w3 where
      r: "record_recovered R ?e ?w2 = (Inr (), w3)" "later ?w2 w3" "up (w_redis w3)"
        "experiments_wf kv (w_redis w3) (w_now w3)"
      and same: "\<forall>t k. w_now w3 \<le> t \<and> k \<noteq> report_key (ex_id ?e) \<longrightarrow> kv (w_redis w3) t k = kv s2 t k" by auto
    have run: "chaos_stop_experiment R (ex_id e) w = (Inr True, w3)"
      by (simp add: chaos_stop_experiment_def bnd_def stop thn_def r(1) ret_def)
    have m3: "mono_ticks w3" and n3: "w_now w1 \<le> w_now w3" using laterD [OF r(2) m2] by simp_all
    have "e' \<in> set L" if e': "kv (w_redis w3) (w_now w3) (experiment_key (ex_id e')) = Some (RDoc (JObj (experiment_to_dict e')))"
      "ex_status e' = status_running" for e'
    proof -
      have k3: "kv s2 (w_now w3) (experiment_key (ex_id e')) = Some (RDoc (JObj (experiment_to_dict e')))"
        using same e'(1) by simp
      have ne: "ex_id e' \<noteq> ex_id e"
      proof
        assume eq: "ex_id e' = ex_id e"
        have "kv s2 (w_now w3) ?k = Some (RDoc (JObj (experiment_to_dict ?e))) \<or> kv s2 (w_now w3) ?k = None"
          using kv_shrinks [OF n3, of s2 ?k] stopped by simp
        then have "experiment_to_dict e' = experiment_to_dict ?e" using k3 eq by auto
        then have "e' = ?e" by (simp only: experiment_to_dict_inject)
        then show False using e'(2) by simp
      qed
      have "kv (w_redis w) (w_now w3) (experiment_key (ex_id e')) = Some (RDoc (JObj (experiment_to_dict e')))"
        using other [OF n3, of "experiment_key (ex_id e')"] k3 ne by simp
      then have "kv (w_redis w) (w_now w) (experiment_key (ex_id e')) = Some (RDoc (JObj (experiment_to_dict e')))"
        using kv_shrinks [of "w_now w" "w_now w3" "w_redis w" "experiment_key (ex_id e')"] w1(3) n3 by auto
      then show ?thesis using cov e'(2) ne by (auto simp: covered_def)
    qed
    then have "covered w3 L" using r(3,4) m3 by (simp add: covered_def)
    with run show ?thesis by blast
  qed
qed

lemma stop_loop:
  assumes "covered w L"
  shows "\<exists>n w'. fold_prog (\<lambda>e n. bnd (chaos_stop_experiment R (ex_id e)) (\<lambda>ok. ret (if ok then n + 1 else n))) L (k :: int) w
    = (Inr n, w') \<and> covered w' []"
  using assms
proof (induction L arbitrary: w k)
  case Nil
  then show ?case by (simp add: ret_def)
next
  case (Cons e L)
  from stop_step [OF Cons.prems] obtain b w1 where s: "chaos_stop_experiment R (ex_id e) w = (Inr b, w1)" "covered w1 L"
    by blast
  from Cons.IH [OF s(2), of "if b then k + 1 else k"] show ?case
    using s(1) by (simp add: bnd_def ret_def)
qed

lemma stop_all_answers:
  assumes "up (w_redis w)" and "mono_ticks w" and "experiments_wf kv (w_redis w) (w_now w)"
  shows "\<exists>n w' w''. stop_all_experiments R w = (Inr n, w') \<and> store_list_experiments R False w' = (Inr [], w'')"
proof -
  from list_answers [OF assms] obtain es w1 where
    l: "store_list_experiments R False w = (Inr es, w1)" "quiet w w1"
    "\<forall>e. kv (w_redis w1) (w_now w1) (experiment_key (ex_id e)) = Some (RDoc (JObj (experiment_to_dict e))) \<and>
       ex_status e = status_running \<longrightarrow> e \<in> set es" by blast
  have "covered w1 es"
    using l quietD(2) [OF l(2)] laterD [OF quietD(1) [OF l(2)] assms(2)] quiet_wf [OF l(2) assms(2,3)]
    by (simp add: covered_def)
  from stop_loop [OF this, of 0] obtain n w2 where
    s: "fold_prog (\<lambda>e n. bnd (chaos_stop_experiment R (ex_id e)) (\<lambda>ok. ret (if ok then n + 1 else n))) es (0 :: int) w1
      = (Inr n, w2)" and cov: "covered w2 []" by blast
  have run: "stop_all_experiments R w = (Inr n, w2)"
    using s by (simp add: stop_all_experiments_def bnd_def l(1))
  from cov have "up (w_redis w2)" "mono_ticks w2" "experiments_wf kv (w_redis w2) (w_now w2)"
    by (simp_all add: covered_def)
  from list_answers [OF this] cov obtain w3 where "store_list_experiments R False w2 = (Inr [], w3)"
    unfolding covered_def by (metis (no_types, lifting) equals0D list.set(1) list.set_sel(1))
  with run show ?thesis by blast
qed

end

text \<open>
  C10. The emergency stop: on a store that answers, \<open>stop_all_experiments\<close> ends, and after it no
  experiment is listed as running.
\<close>

theorem stop_all_stops_all:
  assumes "reliable_store R kv zs ct pk up" and "up (w_redis w)" and "mono_ticks w"
    and "experiments_wf kv (w_redis w) (w_now w)"
  shows "\<exists>n w' w''. stop_all_experiments R w = (Inr n, w') \<and> store_list_experiments R False w' = (Inr [], w'')"
  by (rule reliable_store.stop_all_answers [OF assms])

lemma one_experiment_wf: "experiments_wf fake_kv (w_redis one_experiment_world) (w_now one_experiment_world)"
  by (auto simp: experiments_wf_def one_experiment_world_def fake_kv_def is_expired_def fake_empty_def
      experiment_key_def report_key_def demo_experiment_def)

theorem stop_all_stops_all_witness:
  "\<exists>n w' w''. stop_all_experiments fake_redis one_experiment_world = (Inr n, w') \<and>
     store_list_experiments fake_redis False w' = (Inr [], w'')"
proof (rule stop_all_stops_all [OF fr.reliable_store_axioms _ _ one_experiment_wf])
  show "\<not> f_broken (w_redis one_experiment_world)" "mono_ticks one_experiment_world"
    by (simp_all add: one_experiment_world_def demo_chaos_world_def demo_world_def world.defs mono_ticks_def fake_empty_def)
qed

end
