(* ===== verification/Idempotency.thy ===== *)
theory Idempotency
  imports Chaos_Control Retry
begin

text \<open>
  \<open>chaos_service/store.py\<close>: orders and idempotency records in the store. Every store call is retried
  and preceded by the faults of the current request. A record is the dict the source passes around
  (\<open>ir_fields\<close>) with the raw text it was read from or written as (the key \<open>_raw\<close> of the source,
  \<open>ir_raw\<close> here).
\<close>

section \<open>Texts\<close>

definition hex_digit :: "nat \<Rightarrow> char" where
  "hex_digit n = (if n < 10 then char_of (48 + n) else char_of (87 + n))"

text \<open>A character of a JSON string, as \<open>json.dumps(..., ensure_ascii=False)\<close> writes it.\<close>

definition json_char :: "char \<Rightarrow> string" where
  "json_char c = (let n = of_char c :: nat in
     if n = 34 then [CHR 0x5C, CHR 0x22]
     else if n = 92 then [CHR 0x5C, CHR 0x5C]
     else if n = 10 then [CHR 0x5C, CHR ''n'']
     else if n = 13 then [CHR 0x5C, CHR ''r'']
     else if n = 9 then [CHR 0x5C, CHR ''t'']
     else if n = 12 then [CHR 0x5C, CHR ''f'']
     else if n = 8 then [CHR 0x5C, CHR ''b'']
     else if n < 32 then [CHR 0x5C, CHR ''u'', CHR ''0'', CHR ''0'', hex_digit (n div 16), hex_digit (n mod 16)]
     else [c])"

definition json_quote :: "string \<Rightarrow> string" where
  "json_quote s = CHR 0x22 # concat (map json_char s) @ [CHR 0x22]"

text \<open>The sorted, compact document of the two fields.\<close>

definition idem_payload_fingerprint :: "string \<Rightarrow> int \<Rightarrow> string" where
  "idem_payload_fingerprint item_id quantity =
     ''{'' @ json_quote ''item_id'' @ '':'' @ json_quote item_id @ '','' @
     json_quote ''quantity'' @ '':'' @ int_text quantity @ ''}''"

text \<open>\<open>str(raw)\<close>: plain text only; nothing here depends on the text of a stored number or document.\<close>

fun rval_text :: "rval \<Rightarrow> string" where
  "rval_text (RText s) = s"

section \<open>Store access\<close>

definition log_idempotency_event :: "string \<Rightarrow> string \<Rightarrow> (('s, 'z) world_scheme, unit) prog" where
  "log_idempotency_event event result = log_line event ''INFO''
     [(''component'', JStr ''idempotency''), (''operation'', JStr ''idempotency''), (''result'', JStr result)]"

definition execute_redis_once ::
  "'s redis_ops \<Rightarrow> ctx \<Rightarrow> request option \<Rightarrow> string \<Rightarrow> (('s, 'z) chaos_world_scheme, 'a) prog \<Rightarrow>
   (('s, 'z) chaos_world_scheme, 'a) prog" where
  "execute_redis_once R cx req operation func = thn (before_store_operation R cx req operation) func"

definition execute_redis ::
  "'s redis_ops \<Rightarrow> ctx \<Rightarrow> request option \<Rightarrow> string \<Rightarrow> (('s, 'z) chaos_world_scheme, 'a) prog \<Rightarrow>
   (('s, 'z) chaos_world_scheme, 'a) prog" where
  "execute_redis R cx req operation func =
     retrying cx req (execute_redis_once R cx req operation func) operation"

definition order_key :: "ctx \<Rightarrow> string \<Rightarrow> string" where
  "order_key cx order_id = ORDER_KEY_PREFIX cx @ order_id"

definition get_order_from_store ::
  "'s redis_ops \<Rightarrow> ctx \<Rightarrow> request option \<Rightarrow> string \<Rightarrow> (('s, 'z) chaos_world_scheme, json option) prog" where
  "get_order_from_store R cx req order_id =
     bnd (execute_redis R cx req ''order_store_get'' (redis_call (r_get R (order_key cx order_id)))) (\<lambda>raw.
     ret (case raw of None \<Rightarrow> None
          | Some v \<Rightarrow> if rval_nonempty v then json_loads v else None))"

definition put_order_in_store ::
  "'s redis_ops \<Rightarrow> ctx \<Rightarrow> request option \<Rightarrow> string \<Rightarrow> dict \<Rightarrow> (('s, 'z) chaos_world_scheme, unit) prog" where
  "put_order_in_store R cx req order_id doc =
     execute_redis R cx req ''order_store_set''
       (redis_call (r_setex R (order_key cx order_id) (ORDER_TTL_SEC cx) (RDoc (JObj doc))))"

definition idem_store_key :: "string \<Rightarrow> string" where
  "idem_store_key idem_key = ''idem:'' @ idem_key"

section \<open>Records\<close>

record idem_record =
  ir_fields :: dict
  ir_raw :: "rval option"

definition no_record :: idem_record where
  "no_record = \<lparr>ir_fields = fmempty, ir_raw = None\<rparr>"

abbreviation ir_get :: "idem_record \<Rightarrow> string \<Rightarrow> json" where
  "ir_get r k \<equiv> dget_or (ir_fields r) k JNull"

definition idem_states :: "string list" where
  "idem_states = [''PROCESSING'', ''SUCCESS'', ''FAILED'', ''EXPIRED'']"

definition legacy_state_map :: "string \<Rightarrow> string option" where
  "legacy_state_map = map_of [(''processing'', ''PROCESSING''), (''succeeded'', ''SUCCESS''),
     (''failed'', ''FAILED''), (''expired'', ''EXPIRED'')]"

definition normalize_state :: "json \<Rightarrow> string" where
  "normalize_state st =
     (if \<not> truthy st then ''SUCCESS''
      else if st \<in> set (map JStr idem_states) then py_str st
      else (case legacy_state_map (lower (strip (py_str st))) of None \<Rightarrow> py_str st | Some s \<Rightarrow> s))"

definition record_timestamp :: "dict \<Rightarrow> (('s, 'z) world_scheme, int) prog" where
  "record_timestamp d =
     (case List.map_filter (\<lambda>k. number_of (dget_or d k JNull)) [''updated_at'', ''created_at'', ''timestamp''] of
        r # _ \<Rightarrow> ret (trunc r)
      | [] \<Rightarrow> bnd py_time (\<lambda>t. ret (trunc t)))"

definition is_processing_stale :: "ctx \<Rightarrow> dict \<Rightarrow> (('s, 'z) world_scheme, bool) prog" where
  "is_processing_stale cx d =
     (if normalize_state (dget_or d ''state'' JNull) \<noteq> ''PROCESSING'' then ret False
      else (case number_of (dget_or d ''created_at'' JNull) of
          None \<Rightarrow> ret False
        | Some created \<Rightarrow> bnd py_time (\<lambda>t. ret (t - created \<ge> of_int (max (IDEM_PENDING_TTL_SEC cx) 0)))))"

definition normalize_record ::
  "ctx \<Rightarrow> dict \<Rightarrow> rval option \<Rightarrow> (('s, 'z) world_scheme, idem_record) prog" where
  "normalize_record cx data raw =
     (let state = normalize_state (dget_or data ''state'' JNull);
          d1 = dset ''state'' (JStr state) data in
      bnd (record_timestamp d1) (\<lambda>ts.
      let d2 = dsetdefault ''timestamp'' (JInt ts) d1 in
      bnd (if state = ''PROCESSING'' then is_processing_stale cx d2 else ret False) (\<lambda>stale.
      let d3 = (if stale then dset ''state'' (JStr ''EXPIRED'') d2 else d2);
          order_id = dget_or d3 ''order_id'' JNull;
          d4 = (if state = ''SUCCESS'' then
                  dsetdefault ''response_status'' (JInt 201)
                    (if \<not> is_dict (dget_or d3 ''response_body'' JNull) \<and> truthy order_id
                     then dset ''response_body''
                            (JObj (dict_of [(''status'', JStr ''ok''), (''order_id'', order_id)])) d3
                     else d3)
                else d3);
          d5 = (if state = ''FAILED'' then dsetdefault ''response_status'' (JInt 503) d4 else d4) in
      ret \<lparr>ir_fields = d5, ir_raw = raw\<rparr>)))"

definition serialize_record :: "dict \<Rightarrow> rval" where
  "serialize_record d = RDoc (JObj (fmfilter (\<lambda>k. \<not> starts_with ''_'' k) d))"

definition build_processing_record :: "string \<Rightarrow> (('s, 'z) world_scheme, dict) prog" where
  "build_processing_record payload_fp =
     bnd py_time (\<lambda>t.
     let now = JInt (trunc t) in
     bnd py_uuid (\<lambda>u.
     ret (dict_of [(''state'', JStr ''PROCESSING''), (''owner_token'', JStr u),
       (''payload_fp'', JStr payload_fp), (''created_at'', now), (''updated_at'', now), (''timestamp'', now)])))"

definition build_success_record ::
  "string \<Rightarrow> string \<Rightarrow> int \<Rightarrow> dict \<Rightarrow> (('s, 'z) world_scheme, dict) prog" where
  "build_success_record payload_fp order_id response_status response_body =
     bnd py_time (\<lambda>t.
     let now = JInt (trunc t) in
     ret (dict_of [(''state'', JStr ''SUCCESS''), (''payload_fp'', JStr payload_fp),
       (''order_id'', JStr order_id), (''response_status'', JInt response_status),
       (''response_body'', JObj response_body), (''updated_at'', now), (''timestamp'', now)]))"

definition build_failed_record ::
  "string \<Rightarrow> string \<Rightarrow> int \<Rightarrow> dict \<Rightarrow> (('s, 'z) world_scheme, dict) prog" where
  "build_failed_record payload_fp error_message response_status response_body =
     bnd py_time (\<lambda>t.
     let now = JInt (trunc t) in
     ret (dict_of [(''state'', JStr ''FAILED''), (''payload_fp'', JStr payload_fp),
       (''error_message'', JStr error_message), (''response_status'', JInt response_status),
       (''response_body'', JObj response_body), (''updated_at'', now), (''timestamp'', now)]))"

text \<open>The script \<open>_COMPARE_AND_DELETE_LUA\<close>.\<close>

definition compare_and_delete_lua :: "'s redis_ops \<Rightarrow> string \<Rightarrow> rval \<Rightarrow> ('s, nat) lua" where
  "compare_and_delete_lua R key expected =
     lua_bnd (r_get R key) (\<lambda>v. if v = Some expected then r_delete R [key] else lua_ret 0)"

definition compare_and_delete ::
  "'s redis_ops \<Rightarrow> ctx \<Rightarrow> request option \<Rightarrow> string \<Rightarrow> rval option \<Rightarrow> (('s, 'z) chaos_world_scheme, bool) prog" where
  "compare_and_delete R cx req redis_key expected =
     (case expected of None \<Rightarrow> ret False
      | Some raw \<Rightarrow>
          if \<not> rval_nonempty raw then ret False
          else bnd (execute_redis R cx req ''idempotency_compare_delete''
                 (redis_call (compare_and_delete_lua R redis_key raw))) (\<lambda>deleted. ret (deleted \<noteq> 0)))"

text \<open>\<open>int(record.get("response_status") or 503)\<close> may raise.\<close>

definition build_replay_response :: "idem_record \<Rightarrow> ('w, int \<times> dict) prog" where
  "build_replay_response r =
     (let state = normalize_state (ir_get r ''state'');
          body = ir_get r ''response_body'';
          payload = (case body of JObj d \<Rightarrow> d | _ \<Rightarrow> fmempty) in
      if state = ''SUCCESS'' then
        (let p1 = (if dget payload ''order_id'' = None \<and> truthy (ir_get r ''order_id'')
                   then dset ''order_id'' (ir_get r ''order_id'') payload else payload) in
         ret (200, dset ''idempotent'' (JBool True) (dsetdefault ''status'' (JStr ''ok'') p1)))
      else if state = ''FAILED'' then
        (let p1 = (if payload = fmempty
                   then dict_of [(''error'', if truthy (ir_get r ''error_message'') then ir_get r ''error_message''
                                             else JStr ''request failed'')]
                   else payload);
             st = ir_get r ''response_status'' in
         bnd (lift (json_int (if truthy st then st else JInt 503))) (\<lambda>status.
         ret (status, dset ''idempotent'' (JBool True) p1)))
      else ret (202, dict_of [(''status'', JStr ''processing''), (''idempotent'', JBool True)]))"

section \<open>The state machine of a key\<close>

text \<open>The record a raw text stands for; a text that is no object is an order id of the old format.\<close>

definition decode_idempotency_record ::
  "ctx \<Rightarrow> rval option \<Rightarrow> (('s, 'z) world_scheme, idem_record option) prog" where
  "decode_idempotency_record cx raw =
     (case raw of None \<Rightarrow> ret None
     | Some v \<Rightarrow>
         if \<not> rval_nonempty v then ret None
         else (case json_loads v of
             Some (JObj data) \<Rightarrow> bnd (normalize_record cx data (Some v)) (\<lambda>r. ret (Some r))
           | _ \<Rightarrow>
             (let t = rval_text v in
              bnd (normalize_record cx (dict_of
                [(''state'', JStr ''SUCCESS''), (''order_id'', JStr t), (''response_status'', JInt 201),
                 (''response_body'', JObj (dict_of [(''status'', JStr ''ok''), (''order_id'', JStr t)]))])
                (Some (RText t))) (\<lambda>r. ret (Some r)))))"

definition load_idempotency_record ::
  "'s redis_ops \<Rightarrow> ctx \<Rightarrow> request option \<Rightarrow> string \<Rightarrow>
   (('s, 'z) chaos_world_scheme, idem_record option) prog" where
  "load_idempotency_record R cx req idem_key =
     bnd (execute_redis R cx req ''idempotency_get'' (redis_call (r_get R (idem_store_key idem_key))))
       (decode_idempotency_record cx)"

definition reserve_new_processing ::
  "'s redis_ops \<Rightarrow> ctx \<Rightarrow> request option \<Rightarrow> string \<Rightarrow> string \<Rightarrow>
   (('s, 'z) chaos_world_scheme, bool \<times> idem_record) prog" where
  "reserve_new_processing R cx req idem_key payload_fp =
     bnd (build_processing_record payload_fp) (\<lambda>pending.
     let raw = serialize_record pending in
     bnd (execute_redis R cx req ''idempotency_reserve''
       (redis_call (r_set R (idem_store_key idem_key) raw (Some (IDEM_PENDING_TTL_SEC cx)) True))) (\<lambda>ok.
     ret (ok, \<lparr>ir_fields = pending, ir_raw = Some raw\<rparr>)))"

definition load_or_empty ::
  "'s redis_ops \<Rightarrow> ctx \<Rightarrow> request option \<Rightarrow> string \<Rightarrow> (('s, 'z) chaos_world_scheme, idem_record) prog" where
  "load_or_empty R cx req idem_key =
     bnd (load_idempotency_record R cx req idem_key) (\<lambda>o'. ret (case o' of None \<Rightarrow> no_record | Some r \<Rightarrow> r))"

definition other_payload :: "idem_record \<Rightarrow> string \<Rightarrow> bool" where
  "other_payload r payload_fp =
     (truthy (ir_get r ''payload_fp'') \<and> ir_get r ''payload_fp'' \<noteq> JStr payload_fp)"

definition is_final :: "idem_record \<Rightarrow> bool" where
  "is_final r = (ir_get r ''state'' \<in> {JStr ''SUCCESS'', JStr ''FAILED''})"

text \<open>The part shared by every look at an existing record: a conflict, a replay, or neither.\<close>

definition conflict_or_replay ::
  "idem_record \<Rightarrow> string \<Rightarrow> (('s, 'z) world_scheme, string \<times> idem_record) prog \<Rightarrow>
   (('s, 'z) world_scheme, string \<times> idem_record) prog" where
  "conflict_or_replay r payload_fp k =
     (if other_payload r payload_fp then
        thn (log_idempotency_event ''idempotency_conflict'' ''conflict'') (ret (''conflict'', r))
      else if is_final r then
        thn (log_idempotency_event ''idempotency_replay'' ''replay'') (ret (''replay'', r))
      else k)"

definition reserve_owner :: "idem_record \<Rightarrow> (('s, 'z) world_scheme, string \<times> idem_record) prog" where
  "reserve_owner p = thn (log_idempotency_event ''idempotency_reserve'' ''owner'') (ret (''owner'', p))"

text \<open>What \<open>reserve_idempotency_key\<close> does with the record it found.\<close>

definition reserve_existing ::
  "'s redis_ops \<Rightarrow> ctx \<Rightarrow> request option \<Rightarrow> string \<Rightarrow> string \<Rightarrow> idem_record \<Rightarrow>
   (('s, 'z) chaos_world_scheme, string \<times> idem_record) prog" where
  "reserve_existing R cx req idem_key payload_fp existing =
     conflict_or_replay existing payload_fp
       (let again = bnd (load_or_empty R cx req idem_key) (\<lambda>e.
                      conflict_or_replay e payload_fp (ret (''processing'', e))) in
        if ir_get existing ''state'' = JStr ''EXPIRED'' then
          bnd (compare_and_delete R cx req (idem_store_key idem_key) (ir_raw existing)) (\<lambda>deleted.
          if deleted then
            bnd (reserve_new_processing R cx req idem_key payload_fp) (\<lambda>(reserved, pending).
            if reserved then reserve_owner pending else again)
          else thn (metric_inc ''IDEMPOTENCY_LOCK_FAILURE_TOTAL'' []) again)
        else ret (''processing'', existing))"

definition reserve_idempotency_key ::
  "'s redis_ops \<Rightarrow> ctx \<Rightarrow> request option \<Rightarrow> string \<Rightarrow> string \<Rightarrow>
   (('s, 'z) chaos_world_scheme, string \<times> idem_record) prog" where
  "reserve_idempotency_key R cx req idem_key payload_fp =
     bnd (reserve_new_processing R cx req idem_key payload_fp) (\<lambda>(reserved, pending).
     if reserved then reserve_owner pending
     else bnd (load_or_empty R cx req idem_key) (reserve_existing R cx req idem_key payload_fp))"

text \<open>
  The polling loop. \<open>fuel\<close> bounds the polls; \<open>None\<close> means that it ran out. \<open>wait_fuel\<close> is one more
  than the number of poll intervals in the waiting time.
\<close>

fun wait_loop ::
  "nat \<Rightarrow> 's redis_ops \<Rightarrow> ctx \<Rightarrow> request option \<Rightarrow> string \<Rightarrow> string \<Rightarrow> rat \<Rightarrow> rat \<Rightarrow>
   (('s, 'z) chaos_world_scheme, (string \<times> idem_record) option) prog" where
  "wait_loop 0 R cx req idem_key payload_fp deadline sleep_s = ret None"
| "wait_loop (Suc fuel) R cx req idem_key payload_fp deadline sleep_s =
     bnd py_time (\<lambda>t.
     if t < deadline then
       bnd (load_idempotency_record R cx req idem_key) (\<lambda>o'.
       case o' of None \<Rightarrow> ret (Some (''missing'', no_record))
       | Some current \<Rightarrow>
           if other_payload current payload_fp \<or> is_final current then
             bnd (conflict_or_replay current payload_fp (ret (''processing'', current))) (\<lambda>x. ret (Some x))
           else if ir_get current ''state'' = JStr ''EXPIRED'' then ret (Some (''missing'', current))
           else thn (py_sleep sleep_s) (wait_loop fuel R cx req idem_key payload_fp deadline sleep_s))
     else
       bnd (load_or_empty R cx req idem_key) (\<lambda>current.
       bnd (conflict_or_replay current payload_fp (ret (''processing'', current))) (\<lambda>x. ret (Some x))))"

definition wait_fuel :: "ctx \<Rightarrow> nat" where
  "wait_fuel cx = Suc (Suc (nat (max (IDEM_WAIT_TIMEOUT_MS cx) 0 div max (IDEM_WAIT_POLL_MS cx) 1)))"

definition wait_for_idempotency_result ::
  "'s redis_ops \<Rightarrow> ctx \<Rightarrow> request option \<Rightarrow> string \<Rightarrow> string \<Rightarrow>
   (('s, 'z) chaos_world_scheme, (string \<times> idem_record) option) prog" where
  "wait_for_idempotency_result R cx req idem_key payload_fp =
     bnd py_time (\<lambda>t.
     wait_loop (wait_fuel cx) R cx req idem_key payload_fp
       (t + of_int (max (IDEM_WAIT_TIMEOUT_MS cx) 0) / 1000) (of_int (max (IDEM_WAIT_POLL_MS cx) 1) / 1000))"

text \<open>\<open>response_body or default\<close>: an absent or empty body is replaced.\<close>

definition body_or :: "dict option \<Rightarrow> (string \<times> json) list \<Rightarrow> dict" where
  "body_or body d = (case body of None \<Rightarrow> dict_of d | Some b \<Rightarrow> if b = fmempty then dict_of d else b)"

definition finalize_idempotency_success ::
  "'s redis_ops \<Rightarrow> ctx \<Rightarrow> request option \<Rightarrow> string \<Rightarrow> string \<Rightarrow> string \<Rightarrow> int \<Rightarrow> dict option \<Rightarrow>
   (('s, 'z) chaos_world_scheme, unit) prog" where
  "finalize_idempotency_success R cx req idem_key payload_fp order_id response_status response_body =
     bnd (build_success_record payload_fp order_id response_status
       (body_or response_body [(''status'', JStr ''ok''), (''order_id'', JStr order_id)])) (\<lambda>rec.
     execute_redis R cx req ''idempotency_finalize''
       (redis_call (r_setex R (idem_store_key idem_key) (IDEM_TTL_SEC cx) (serialize_record rec))))"

definition idem_save_failed ::
  "'s redis_ops \<Rightarrow> ctx \<Rightarrow> request option \<Rightarrow> string \<Rightarrow> string \<Rightarrow> string \<Rightarrow> int \<Rightarrow> dict option \<Rightarrow>
   (('s, 'z) chaos_world_scheme, unit) prog" where
  "idem_save_failed R cx req idem_key payload_fp error_message response_status response_body =
     bnd (build_failed_record payload_fp error_message response_status
       (body_or response_body [(''error'', JStr error_message)])) (\<lambda>rec.
     execute_redis R cx req ''idempotency_save_failed''
       (redis_call (r_setex R (idem_store_key idem_key) (IDEM_TTL_SEC cx) (serialize_record rec))))"

definition release_idempotency_reservation ::
  "'s redis_ops \<Rightarrow> ctx \<Rightarrow> request option \<Rightarrow> string \<Rightarrow> idem_record option \<Rightarrow>
   (('s, 'z) chaos_world_scheme, bool) prog" where
  "release_idempotency_reservation R cx req idem_key rec =
     bnd (compare_and_delete R cx req (idem_store_key idem_key)
       (case rec of None \<Rightarrow> None | Some r \<Rightarrow> ir_raw r)) (\<lambda>deleted.
     thn (whenp (\<not> deleted) (metric_inc ''IDEMPOTENCY_LOCK_FAILURE_TOTAL'' [])) (ret deleted))"

end
