(* ===== verification/Clock.thy ===== *)
theory Clock
  imports Idempotency Retry_Correct
begin

text \<open>
  What the clock does while store calls are retried: the interface \<open>clock_invariant\<close> of a property of
  the clock that readings and sleeps keep, its preservation by every operation of the idempotency
  store, and two instances: a clock that does not go back, and one that stands still.
\<close>

text \<open>
  The chaos layer adds nothing: its settings are those of the runtime, and it is disabled or no
  experiment is attached to the request.
\<close>

definition settled :: "ctx \<Rightarrow> ('s, 'z) chaos_world_scheme \<Rightarrow> bool" where
  "settled cx w = (cg_enabled w = FAULT_INJECTION_ENABLED cx \<and> cg_default_ttl w = FAULT_DEFAULT_TTL_SEC cx \<and>
     cg_max_latency w = FAULT_MAX_LATENCY_MS cx \<and> cg_max_drop w = FAULT_MAX_DROP_RATE cx \<and>
     (FAULT_INJECTION_ENABLED cx \<longrightarrow> cq_experiments w = []))"

lemma settled_more:
  "settled cx w \<Longrightarrow> world.more w' = world.more w \<Longrightarrow> settled cx w'"
  by (cases w; cases w') (simp add: settled_def)

lemma settled_later: "settled cx w \<Longrightarrow> later w w' \<Longrightarrow> settled cx w'"
  by (rule settled_more) (simp_all add: later_def)

lemma settled_sync: "settled cx w \<Longrightarrow> sync_ctx_settings cx w = (Inr (), w)"
  by (cases w) (simp add: settled_def sync_ctx_settings_def modw_def)

lemma settled_no_fault: "settled cx w \<Longrightarrow> before_store_operation R cx req operation w = (Inr (), w)"
  using settled_sync [of cx w]
  by (auto simp: before_store_operation_def thn_def bnd_def inject_store_faults_def gets_def ret_def
      settled_def)

section \<open>Properties of the clock\<close>

lemma redis_call_view:
  fixes w :: "('s, 'z) world_scheme"
  shows "w_now (snd (redis_call cmd w)) = w_now w" "w_ticks (snd (redis_call cmd w)) = w_ticks w"
    "w_tick_no (snd (redis_call cmd w)) = w_tick_no w" "w_rnd (snd (redis_call cmd w)) = w_rnd w"
    "world.more (snd (redis_call cmd w)) = world.more w"
proof -
  obtain r s where c: "cmd (w_now w) (w_redis w) = (r, s)" by (cases "cmd (w_now w) (w_redis w)")
  have "redis_call cmd w = (case r of Inl e \<Rightarrow> Inl (RedisError e) | Inr x \<Rightarrow> Inr x, w\<lparr>w_redis := s\<rparr>)"
    by (cases r) (simp_all add: redis_call_def c)
  then show "w_now (snd (redis_call cmd w)) = w_now w" "w_ticks (snd (redis_call cmd w)) = w_ticks w"
    "w_tick_no (snd (redis_call cmd w)) = w_tick_no w" "w_rnd (snd (redis_call cmd w)) = w_rnd w"
    "world.more (snd (redis_call cmd w)) = world.more w"
    by simp_all
qed

text \<open>
  \<open>P\<close> is a property of the clock, the samples and the chaos settings. It is kept by readings of the
  clock, by sleeping for a delay in \<open>S\<close>, and every backoff sample is in \<open>S\<close>.
\<close>

locale clock_invariant =
  fixes cx :: ctx and P :: "('s, 'z) chaos_world_scheme \<Rightarrow> bool" and S :: "rat set"
  assumes clock_settled: "P w \<Longrightarrow> settled cx w"
    and clock_time: "keeps P py_time"
    and clock_sleep: "d \<in> S \<Longrightarrow> keeps P (py_sleep d)"
    and clock_sample: "P w \<Longrightarrow> 0 \<le> c \<Longrightarrow> c * w_rnd w n \<in> S"
    and clock_view: "P w \<Longrightarrow> w_now w' = w_now w \<Longrightarrow> w_ticks w' = w_ticks w \<Longrightarrow> w_tick_no w' = w_tick_no w \<Longrightarrow>
      w_rnd w' = w_rnd w \<Longrightarrow> world.more w' = world.more w \<Longrightarrow> P w'"
begin

lemma keeps_view:
  assumes "\<And>w. w_now (snd (m w)) = w_now w \<and> w_ticks (snd (m w)) = w_ticks w \<and>
    w_tick_no (snd (m w)) = w_tick_no w \<and> w_rnd (snd (m w)) = w_rnd w \<and> world.more (snd (m w)) = world.more w"
  shows "keeps P m"
  using assms clock_view by (simp add: keeps_def)

lemma keeps_plain [prog_intros]:
  "keeps P (py_uniform a b)" "keeps P py_uuid" "keeps P (log_line e lv fs)" "keeps P (metric_inc n ls)"
  "keeps P (metric_observe n ls v)"
  by (rule keeps_view; simp add: effect_defs bnd_def ret_def modw_def)+

lemma keeps_call [prog_intros]: "keeps P (redis_call cmd)"
  by (rule keeps_view) (simp only: redis_call_view)

declare clock_time [prog_intros] clock_sleep [prog_intros]

lemma keeps_uniform_bnd:
  assumes "0 \<le> c" and "\<And>s. s \<in> S \<Longrightarrow> keeps P (f s)"
  shows "keeps P (bnd (py_uniform 0 c) f)"
proof (rule keepsI)
  fix w assume p: "P w"
  let ?w = "w\<lparr>w_rnd_no := Suc (w_rnd_no w)\<rparr>"
  have "bnd (py_uniform 0 c) f w = f (c * w_rnd w (w_rnd_no w)) ?w"
    by (simp add: py_uniform_def py_random_def bnd_def ret_def)
  moreover have "P ?w" by (rule clock_view [OF p]) simp_all
  ultimately show "P (snd (bnd (py_uniform 0 c) f w))"
    using keepsD [OF assms(2) [OF clock_sample [OF p assms(1)]]] by simp
qed

lemma keeps_retry_parts:
  "keeps P (record_attempt operation)" "keeps P (record_success operation d)"
  "keeps P (record_failure operation n d)" "keeps P (remaining_opt dl)" "keeps P (deadline_blocks dl d)"
  unfolding retry_defs by (intro keeps_bnd keeps_thn keeps_ret keeps_case_option keeps_plain clock_time)+

lemma keeps_retry_ends:
  "keeps P (log_attempt c dl operation attempt e d)" "keeps P (log_exhausted c dl operation attempt e reason d')"
  "keeps P (give_up operation started e)"
  unfolding log_attempt_def log_exhausted_def give_up_def
  by (intro keeps_bnd keeps_thn keeps_raise keeps_retry_parts keeps_plain clock_time)+

lemma keeps_loop:
  assumes "keeps P func" and "0 \<le> rt_base_delay_s c" and "0 \<le> rt_max_delay_s c"
  shows "keeps P (execute_loop c dl func operation started attempt left)"
proof (induction left arbitrary: attempt)
  case 0
  then show ?case by (simp add: keeps_raise)
next
  case (Suc left)
  have "0 \<le> compute_delay_cap c attempt" using assms(2,3) by (simp add: compute_delay_cap_def)
  note uniform = keeps_uniform_bnd [OF this]
  show ?case
    unfolding execute_loop.simps
    by (intro keeps_thn keeps_try_else keeps_if assms(1) keeps_raise keeps_ret uniform Suc.IH clock_sleep
        keeps_bnd [OF keeps_retry_parts(5)] keeps_bnd [OF clock_time] keeps_retry_parts keeps_retry_ends)
qed

lemma keeps_retry [prog_intros]: "keeps P func \<Longrightarrow> keeps P (retrying cx' req func operation)"
proof -
  assume f: "keeps P func"
  show ?thesis
  proof (cases "retry_valid cx'")
    case True
    then have "0 \<le> rt_base_delay_s (retry_config_of cx')" "0 \<le> rt_max_delay_s (retry_config_of cx')"
      by (simp_all add: retry_valid_def retry_config_of_def)
    then show ?thesis
      unfolding retrying_valid [OF True] execute_def by (intro prog_intros keeps_loop f)
  next
    case False
    have "snd (retrying cx' req func operation w) = w" for w
      using retrying_invalid [OF False, of req func operation w] by auto
    then show ?thesis by (simp add: keeps_def)
  qed
qed

lemma keeps_exec [prog_intros]: "keeps P (execute_redis R cx req operation (redis_call cmd))"
  unfolding execute_redis_def
proof (rule keeps_retry, rule keepsI)
  fix w assume p: "P w"
  then have "execute_redis_once R cx req operation (redis_call cmd) w = redis_call cmd w"
    by (simp add: execute_redis_once_def thn_def bnd_def settled_no_fault clock_settled)
  with keepsD [OF keeps_call p, of cmd] show "P (snd (execute_redis_once R cx req operation (redis_call cmd) w))"
    by simp
qed

lemma keeps_json_case [prog_intros]:
  "(\<And>d. keeps P (f d)) \<Longrightarrow> keeps P m \<Longrightarrow> keeps P (case v of JObj d \<Rightarrow> f d | _ \<Rightarrow> m)"
  "keeps P m \<Longrightarrow> (\<And>a b. keeps P (h a b)) \<Longrightarrow> keeps P (case xs of [] \<Rightarrow> m | a # b \<Rightarrow> h a b)"
  by (simp_all split: json.splits list.splits)

lemma keeps_load [prog_intros]: "keeps P (load_idempotency_record R cx req k)"
  unfolding load_idempotency_record_def decode_idempotency_record_def normalize_record_def Let_def
    record_timestamp_def is_processing_stale_def
  by (intro prog_intros)

lemma keeps_reserve_new [prog_intros]: "keeps P (reserve_new_processing R cx req k fp)"
  unfolding reserve_new_processing_def build_processing_record_def Let_def by (intro prog_intros)

lemma keeps_conflict_or_replay [prog_intros]: "keeps P k \<Longrightarrow> keeps P (conflict_or_replay r fp k)"
  unfolding conflict_or_replay_def log_idempotency_event_def by (intro prog_intros)

lemma keeps_compare_and_delete [prog_intros]: "keeps P (compare_and_delete R cx req k raw)"
  unfolding compare_and_delete_def by (intro prog_intros)

lemma keeps_reserve [prog_intros]: "keeps P (reserve_idempotency_key R cx req k fp)"
  unfolding reserve_idempotency_key_def reserve_existing_def reserve_owner_def load_or_empty_def
    log_idempotency_event_def Let_def
  by (intro prog_intros)

lemma keeps_finalize [prog_intros]:
  "keeps P (finalize_idempotency_success R cx req k fp oid st body)"
  "keeps P (idem_save_failed R cx req k fp msg st body)"
  unfolding finalize_idempotency_success_def idem_save_failed_def build_success_record_def
    build_failed_record_def Let_def
  by (intro prog_intros)+

end

section \<open>Two clocks\<close>

text \<open>A clock that does not go back: it has reached \<open>T\<close>, and no sample is negative.\<close>

definition clock_past :: "ctx \<Rightarrow> rat \<Rightarrow> ('s, 'z) chaos_world_scheme \<Rightarrow> bool" where
  "clock_past cx T w = (settled cx w \<and> mono_ticks w \<and> (\<forall>n. 0 \<le> w_rnd w n) \<and> T \<le> w_now w)"

interpretation past: clock_invariant cx "clock_past cx T" "{d. 0 \<le> d}"
  by unfold_locales (auto simp: clock_past_def keeps_def py_time_def py_sleep_def modw_def Let_def mono_ticks_def
      add_increasing2 elim: settled_more)

text \<open>The same, with samples of at least \<open>q\<close>.\<close>

definition clock_stocked :: "ctx \<Rightarrow> rat \<Rightarrow> rat \<Rightarrow> ('s, 'z) chaos_world_scheme \<Rightarrow> bool" where
  "clock_stocked cx T q w = (clock_past cx T w \<and> (\<forall>n. q \<le> w_rnd w n))"

interpretation stocked: clock_invariant cx "clock_stocked cx T q" "{d. 0 \<le> d}"
  by unfold_locales (auto simp: clock_stocked_def clock_past_def keeps_def py_time_def py_sleep_def modw_def Let_def
      mono_ticks_def add_increasing2 elim: settled_more)

text \<open>A clock that stands still at \<open>T\<close>, with samples that make every backoff zero.\<close>

definition clock_still :: "ctx \<Rightarrow> rat \<Rightarrow> ('s, 'z) chaos_world_scheme \<Rightarrow> bool" where
  "clock_still cx T w = (settled cx w \<and> (\<forall>n. w_ticks w n = 0) \<and> (\<forall>n. w_rnd w n = 0) \<and> w_now w = T)"

interpretation still: clock_invariant cx "clock_still cx T" "{0}"
  by unfold_locales (auto simp: clock_still_def keeps_def py_time_def py_sleep_def modw_def Let_def
      elim: settled_more)

end
