(* ===== verification/Idempotency_Correct.thy ===== *)
theory Idempotency_Correct
  imports Clock Demo_Chaos_World
begin

text \<open>
  Correctness of \<open>chaos_service/store.py\<close>: fingerprints, the single owner of a key, replays of final
  records, releases by the owner only, and the end of the waiting loop.
\<close>

section \<open>Fingerprints\<close>

text \<open>A reader of one character of a JSON string, the inverse of \<open>json_char\<close>.\<close>

definition hex_value :: "char \<Rightarrow> nat" where
  "hex_value c = (let n = of_char c in if n < 58 then n - 48 else n - 87)"

definition read_json_char :: "string \<Rightarrow> char \<times> string" where
  "read_json_char s = (if hd s \<noteq> CHR 0x5C then (hd s, tl s)
     else let d = s ! 1; r = drop 2 s in
       if d = CHR ''n'' then (char_of (10 :: nat), r)
       else if d = CHR ''r'' then (char_of (13 :: nat), r)
       else if d = CHR ''t'' then (char_of (9 :: nat), r)
       else if d = CHR ''f'' then (char_of (12 :: nat), r)
       else if d = CHR ''b'' then (char_of (8 :: nat), r)
       else if d = CHR ''u'' then (char_of (16 * hex_value (s ! 4) + hex_value (s ! 5)), drop 6 s)
       else (d, r))"

lemma hex_value_digit: "n < 16 \<Longrightarrow> hex_value (hex_digit n) = n"
  by (simp add: hex_value_def hex_digit_def Let_def)

lemma of_char_eqD: "of_char c = (n :: nat) \<Longrightarrow> c = char_of n"
  by (metis char_of_char)

lemma char_of_literals: "char_of (34 :: nat) = CHR 0x22" "char_of (92 :: nat) = CHR 0x5C"
  by code_simp+

lemma read_json_char: "read_json_char (json_char c @ r) = (c, r)"
proof -
  consider n where "of_char c = (n :: nat)" "n \<in> {34, 92, 10, 13, 9, 12, 8}"
    | "of_char c < (32 :: nat)" "of_char c \<notin> {34, 92, 10, 13, 9, 12, 8 :: nat}"
    | "\<not> of_char c < (32 :: nat)" "of_char c \<notin> {34, 92, 10, 13, 9, 12, 8 :: nat}"
    by blast
  then show ?thesis
  proof cases
    case 1
    then have "c = char_of n" by (simp add: of_char_eqD)
    with 1 show ?thesis
      by (elim insertE emptyE) (simp_all add: json_char_def read_json_char_def Let_def char_of_literals)
  next
    case 2
    have "hex_value (hex_digit (of_char c div 16)) = of_char c div 16"
      "hex_value (hex_digit (of_char c mod 16)) = of_char c mod 16"
      using 2 by (simp_all add: hex_value_digit)
    with 2 show ?thesis by (simp add: json_char_def read_json_char_def Let_def)
  next
    case 3
    then have "c \<noteq> CHR 0x5C" by auto
    with 3 show ?thesis by (simp add: json_char_def read_json_char_def Let_def)
  qed
qed

lemma json_char_prefix_free: "json_char a @ r = json_char b @ s \<Longrightarrow> a = b \<and> r = s"
  by (metis read_json_char Pair_inject)

lemma json_char_head: "json_char a @ r \<noteq> CHR 0x22 # s"
proof
  assume eq: "json_char a @ r = CHR 0x22 # s"
  have "read_json_char (CHR 0x22 # s) = (CHR 0x22, s)" by (simp add: read_json_char_def)
  with eq read_json_char [of a r] have "a = CHR 0x22" "r = s" by simp_all
  with eq show False by (simp add: json_char_def)
qed

lemma escaped_eq:
  "concat (map json_char x) @ CHR 0x22 # r = concat (map json_char y) @ CHR 0x22 # s \<Longrightarrow> x = y \<and> r = s"
proof (induction x arbitrary: y)
  case Nil
  then show ?case by (cases y) (simp_all add: json_char_head [symmetric])
next
  case (Cons a x)
  show ?case
  proof (cases y)
    case Nil
    with Cons.prems show ?thesis by (simp add: json_char_head)
  next
    case (Cons b y')
    then have "json_char a @ (concat (map json_char x) @ CHR 0x22 # r) =
      json_char b @ (concat (map json_char y') @ CHR 0x22 # s)"
      using Cons.prems by simp
    from json_char_prefix_free [OF this] Cons.IH show ?thesis using Cons by blast
  qed
qed

text \<open>
  Fingerprints identify the order's payload: two orders have the same fingerprint only if item and
  quantity agree, whatever characters the item's name has (quotes and control characters are escaped).
\<close>

theorem fingerprint_injective:
  "idem_payload_fingerprint i q = idem_payload_fingerprint i' q' \<longleftrightarrow> i = i' \<and> q = q'"
proof
  assume "idem_payload_fingerprint i q = idem_payload_fingerprint i' q'"
  then have "concat (map json_char i) @ CHR 0x22 # '','' @ json_quote ''quantity'' @ '':'' @ int_text q @ ''}'' =
    concat (map json_char i') @ CHR 0x22 # '','' @ json_quote ''quantity'' @ '':'' @ int_text q' @ ''}''"
    by (simp add: idem_payload_fingerprint_def json_quote_def)
  from escaped_eq [OF this] have "i = i'" "int_text q = int_text q'" by auto
  then show "i = i' \<and> q = q'" using inj_int_text by (auto dest: injD)
qed simp

section \<open>Store access without faults\<close>

definition idem_ready :: "('s \<Rightarrow> bool) \<Rightarrow> ctx \<Rightarrow> ('s, 'z) chaos_world_scheme \<Rightarrow> bool" where
  "idem_ready up cx w = (retry_valid cx \<and> settled cx w \<and> mono_ticks w \<and> up (w_redis w))"

lemma idem_ready_later:
  "idem_ready up cx w \<Longrightarrow> later w w' \<Longrightarrow> up (w_redis w') \<Longrightarrow> idem_ready up cx w' \<and> w_now w \<le> w_now w'"
  using settled_later [of cx w w'] laterD [of w w'] by (simp add: idem_ready_def)

text \<open>Reading the clock and taking an identifier.\<close>

lemma later_time: "py_time w = (Inr t, w') \<Longrightarrow> later w w' \<and> t = w_now w' \<and> w_redis w' = w_redis w \<and>
    t = w_now w + w_ticks w (w_tick_no w) \<and> w_uuid_no w' = w_uuid_no w \<and> w_uuids w' = w_uuids w"
  by (auto simp: py_time_def Let_def later_def mono_ticks_def)

lemma later_uuid: "py_uuid w = (Inr u, w') \<Longrightarrow> later w w' \<and> w_now w' = w_now w \<and> w_redis w' = w_redis w \<and>
    u = w_uuids w (w_uuid_no w)"
  by (auto simp: py_uuid_def later_def)

lemma later_log: "log_line e lv fs w = (Inr u, w') \<Longrightarrow> later w w' \<and> w_now w' = w_now w \<and> w_redis w' = w_redis w"
  by (auto simp: log_line_def modw_def later_def)

lemma later_sleep: "py_sleep d w = (Inr u, w') \<Longrightarrow> 0 \<le> d \<Longrightarrow>
    later w w' \<and> w_now w' = w_now w + d \<and> w_redis w' = w_redis w"
  by (auto simp: py_sleep_def modw_def later_def)

text \<open>A command that answers, behind the faults and the retries.\<close>

lemma exec_answers:
  assumes "retry_valid cx" and "settled cx w" and "mono_ticks w"
    and "\<And>t. w_now w \<le> t \<Longrightarrow> \<exists>x s. cmd t (w_redis w) = (Inr x, s)"
  shows "\<exists>t x s w'. w_now w \<le> t \<and> cmd t (w_redis w) = (Inr x, s) \<and>
    execute_redis R cx req operation (redis_call cmd) w = (Inr x, w') \<and> w_redis w' = s \<and> later w w' \<and>
    t \<le> w_now w'"
proof -
  let ?a = "attempt_world operation w"
  let ?t = "w_now w + w_ticks w (w_tick_no w)"
  have le: "w_now w \<le> ?t" using assms(3) by (simp add: mono_ticks_def)
  from assms(4) [OF this] obtain x s where xs: "cmd ?t (w_redis w) = (Inr x, s)" by blast
  have "world.more ?a = world.more w"
    by (simp add: attempt_world_def thn_def bnd_def py_time_def Let_def record_attempt_def metric_inc_def
        metric_add_def modw_def)
  then have "settled cx ?a" by (rule settled_more [OF assms(2)])
  then have "execute_redis_once R cx req operation (redis_call cmd) ?a = redis_call cmd ?a"
    by (simp add: settled_no_fault execute_redis_once_def thn_def bnd_def)
  also have "\<dots> = (Inr x, ?a\<lparr>w_redis := s\<rparr>)" using xs by (simp add: redis_call_def)
  finally have run: "execute_redis_once R cx req operation (redis_call cmd) ?a = (Inr x, ?a\<lparr>w_redis := s\<rparr>)" .
  obtain w3 where w3: "execute_redis R cx req operation (redis_call cmd) w = (Inr x, w3)"
    "w_redis w3 = s" "later (?a\<lparr>w_redis := s\<rparr>) w3"
    using retrying_first [where func = "execute_redis_once R cx req operation (redis_call cmd)" and
        operation = operation and w = w, OF assms(1) run, of req]
    by (auto simp: execute_redis_def)
  have "later w (?a\<lparr>w_redis := s\<rparr>)"
    using le by (simp add: later_def attempt_world_def thn_def bnd_def py_time_def Let_def record_attempt_def
        metric_inc_def metric_add_def modw_def)
  moreover have "mono_ticks (?a\<lparr>w_redis := s\<rparr>)" using assms(3) by (simp add: mono_ticks_def)
  ultimately have "later w w3" "?t \<le> w_now w3"
    using w3(3) laterD [OF w3(3)] later_trans by auto
  with le xs w3 show ?thesis by blast
qed

section \<open>Programs that answer\<close>

text \<open>
  On a store that answers, a program returns a value, the clock does not go back, and the store still
  answers. The rules compose this through the monad.
\<close>

named_theorems answer_intros \<open>composition of programs that answer\<close>

definition answers :: "('s \<Rightarrow> bool) \<Rightarrow> ctx \<Rightarrow> (('s, 'z) chaos_world_scheme, 'a) prog \<Rightarrow> bool" where
  "answers up cx m = (\<forall>w. idem_ready up cx w \<longrightarrow> (\<exists>x w'. m w = (Inr x, w') \<and> later w w' \<and> up (w_redis w')))"

lemma answersD:
  assumes "answers up cx m" and "idem_ready up cx w"
  shows "\<exists>x w'. m w = (Inr x, w') \<and> later w w' \<and> idem_ready up cx w' \<and> w_now w \<le> w_now w'"
  using assms idem_ready_later unfolding answers_def by blast

lemma answers_run:
  assumes "answers up cx m" and "idem_ready up cx w" and "m w = (r, w')"
  shows "later w w' \<and> idem_ready up cx w' \<and> w_now w \<le> w_now w'"
  using answersD [OF assms(1,2)] assms(3) by auto

lemma answersI:
  "(\<And>w. idem_ready up cx w \<Longrightarrow> \<exists>x w'. m w = (Inr x, w') \<and> later w w' \<and> up (w_redis w')) \<Longrightarrow> answers up cx m"
  by (simp add: answers_def)

lemma answers_same_store:
  fixes m :: "(('s, 'z) chaos_world_scheme, 'a) prog"
  assumes "\<And>w. \<exists>x w'. m w = (Inr x, w') \<and> (mono_ticks w \<longrightarrow> later w w') \<and> w_redis w' = w_redis w"
  shows "answers up cx m"
proof (rule answersI)
  fix w :: "('s, 'z) chaos_world_scheme" assume r: "idem_ready up cx w"
  from assms [of w] obtain x w' where "m w = (Inr x, w')" "mono_ticks w \<longrightarrow> later w w'" "w_redis w' = w_redis w"
    by blast
  with r show "\<exists>x w'. m w = (Inr x, w') \<and> later w w' \<and> up (w_redis w')" by (simp add: idem_ready_def)
qed

lemma answers_effects [answer_intros]:
  "answers up cx (ret x)" "answers up cx py_time" "answers up cx py_uuid" "answers up cx (log_line e lv fs)"
  "answers up cx (metric_inc n l)" "answers up cx (gets f)"
  by (rule answers_same_store; simp add: ret_def py_time_def py_uuid_def log_line_def modw_def metric_inc_def
      metric_add_def gets_def Let_def later_def mono_ticks_def)+

lemma answers_sleep [answer_intros]: "0 \<le> d \<Longrightarrow> answers up cx (py_sleep d)"
  by (rule answers_same_store) (simp add: py_sleep_def modw_def later_def)

lemma answers_bnd [answer_intros]:
  fixes m :: "(('s, 'z) chaos_world_scheme, 'a) prog"
  assumes "answers up cx m" and "\<And>x. answers up cx (f x)"
  shows "answers up cx (bnd m f)"
proof (rule answersI)
  fix w :: "('s, 'z) chaos_world_scheme" assume "idem_ready up cx w"
  from answersD [OF assms(1) this] obtain x w1 where 1: "m w = (Inr x, w1)" "later w w1" "idem_ready up cx w1"
    by blast
  from answersD [OF assms(2) 1(3)] obtain y w2 where "f x w1 = (Inr y, w2)" "later w1 w2" "idem_ready up cx w2"
    by blast
  with 1 show "\<exists>x w'. bnd m f w = (Inr x, w') \<and> later w w' \<and> up (w_redis w')"
    using later_trans by (fastforce simp: bnd_def idem_ready_def)
qed

lemma answers_thn [answer_intros]: "answers up cx m \<Longrightarrow> answers up cx k \<Longrightarrow> answers up cx (thn m k)"
  by (simp add: thn_def answers_bnd)

lemma answers_if [answer_intros]: "answers up cx m \<Longrightarrow> answers up cx k \<Longrightarrow> answers up cx (if b then m else k)"
  by simp

lemma answers_whenp [answer_intros]: "answers up cx m \<Longrightarrow> answers up cx (whenp b m)"
  by (simp add: whenp_def answers_effects)

lemma answers_cases [answer_intros]:
  "answers up cx m \<Longrightarrow> (\<And>x. answers up cx (f x)) \<Longrightarrow> answers up cx (case v of None \<Rightarrow> m | Some x \<Rightarrow> f x)"
  "(\<And>x y. answers up cx (g x y)) \<Longrightarrow> answers up cx (case q of (x, y) \<Rightarrow> g x y)"
  "answers up cx m \<Longrightarrow> (\<And>a b. answers up cx (h a b)) \<Longrightarrow> answers up cx (case xs of [] \<Rightarrow> m | a # b \<Rightarrow> h a b)"
  by (simp_all split: option.splits prod.splits list.splits)

lemma answers_json_case [answer_intros]:
  "(\<And>d. answers up cx (f d)) \<Longrightarrow> answers up cx m \<Longrightarrow> answers up cx (case v of JObj d \<Rightarrow> f d | _ \<Rightarrow> m)"
  by (cases v) simp_all

lemma answers_exec:
  fixes R :: "'s redis_ops"
  assumes "\<And>t s. up s \<Longrightarrow> \<exists>x s'. cmd t s = (Inr x, s') \<and> up s'"
  shows "answers up cx (execute_redis R cx req operation (redis_call cmd) :: (('s, 'z) chaos_world_scheme, 'a) prog)"
proof (rule answersI)
  fix w :: "('s, 'z) chaos_world_scheme" assume r: "idem_ready up cx w"
  then have u: "retry_valid cx" "settled cx w" "mono_ticks w" "up (w_redis w)" by (simp_all add: idem_ready_def)
  have "\<exists>x s. cmd t (w_redis w) = (Inr x, s)" for t
    using assms [OF u(4), of t] by blast
  from exec_answers [where cmd = cmd, OF u(1-3) this, of R req operation] obtain t x s w' where
    *: "cmd t (w_redis w) = (Inr x, s)" "w_redis w' = s" "later w w'"
    "execute_redis R cx req operation (redis_call cmd) w = (Inr x, w')"
    by blast
  have "up s" using assms [OF u(4), of t] *(1) by auto
  with * show
    "\<exists>x w'. execute_redis R cx req operation (redis_call cmd) w = (Inr x, w') \<and> later w w' \<and> up (w_redis w')"
    by blast
qed

context reliable_store
begin

lemma answers_get [answer_intros]: "answers up cx (execute_redis R cx req operation (redis_call (r_get R k)))"
  by (rule answers_exec) (use up_get in blast)

lemma answers_set [answer_intros]:
  "answers up cx (execute_redis R cx req operation (redis_call (r_set R k v ex nx)))"
  by (rule answers_exec) (use up_set in blast)

lemma answers_setex [answer_intros]:
  "answers up cx (execute_redis R cx req operation (redis_call (r_setex R k d v)))"
  by (rule answers_exec) (use up_setex in blast)

lemma compare_and_delete_up:
  "up s \<Longrightarrow> \<exists>n s'. compare_and_delete_lua R k v t s = (Inr n, s') \<and> up s'"
  using get_answers [of s k t] up_delete
  by (fastforce simp: compare_and_delete_lua_def lua_bnd_def lua_ret_def)

lemma answers_compare_and_delete [answer_intros]: "answers up cx (compare_and_delete R cx req k raw)"
  by (auto simp: compare_and_delete_def intro!: answer_intros answers_exec compare_and_delete_up)

lemma answers_normalize [answer_intros]: "answers up cx (normalize_record cx d raw)"
  unfolding normalize_record_def Let_def record_timestamp_def is_processing_stale_def
  by (intro answer_intros)

lemma answers_decode [answer_intros]: "answers up cx (decode_idempotency_record cx raw)"
  unfolding decode_idempotency_record_def Let_def by (intro answer_intros)

lemma answers_load [answer_intros]: "answers up cx (load_idempotency_record R cx req k)"
  unfolding load_idempotency_record_def by (intro answer_intros)

lemma answers_reserve_new [answer_intros]: "answers up cx (reserve_new_processing R cx req k fp)"
  unfolding reserve_new_processing_def build_processing_record_def Let_def by (intro answer_intros)

lemma answers_conflict_or_replay [answer_intros]:
  "answers up cx k \<Longrightarrow> answers up cx (conflict_or_replay r fp k)"
  unfolding conflict_or_replay_def log_idempotency_event_def by (intro answer_intros)

lemma answers_load_or_empty [answer_intros]: "answers up cx (load_or_empty R cx req k)"
  unfolding load_or_empty_def by (intro answer_intros)

lemma answers_owner [answer_intros]: "answers up cx (reserve_owner p)"
  unfolding reserve_owner_def log_idempotency_event_def by (intro answer_intros)

lemma answers_existing [answer_intros]: "answers up cx (reserve_existing R cx req k fp e)"
  unfolding reserve_existing_def Let_def by (intro answer_intros)

lemma answers_reserve [answer_intros]: "answers up cx (reserve_idempotency_key R cx req k fp)"
  unfolding reserve_idempotency_key_def by (intro answer_intros)

lemma answers_finalize [answer_intros]:
  "answers up cx (finalize_idempotency_success R cx req k fp oid st body)"
  "answers up cx (idem_save_failed R cx req k fp msg st body)"
  unfolding finalize_idempotency_success_def idem_save_failed_def build_success_record_def
    build_failed_record_def Let_def
  by (intro answer_intros)+

end

section \<open>The records\<close>

definition processing_fields :: "string \<Rightarrow> string \<Rightarrow> int \<Rightarrow> dict" where
  "processing_fields fp u n = dict_of [(''state'', JStr ''PROCESSING''), (''owner_token'', JStr u),
     (''payload_fp'', JStr fp), (''created_at'', JInt n), (''updated_at'', JInt n), (''timestamp'', JInt n)]"

definition success_fields :: "string \<Rightarrow> string \<Rightarrow> int \<Rightarrow> dict \<Rightarrow> int \<Rightarrow> dict" where
  "success_fields fp oid st body n = dict_of [(''state'', JStr ''SUCCESS''), (''payload_fp'', JStr fp),
     (''order_id'', JStr oid), (''response_status'', JInt st), (''response_body'', JObj body),
     (''updated_at'', JInt n), (''timestamp'', JInt n)]"

definition failed_fields :: "string \<Rightarrow> string \<Rightarrow> int \<Rightarrow> dict \<Rightarrow> int \<Rightarrow> dict" where
  "failed_fields fp msg st body n = dict_of [(''state'', JStr ''FAILED''), (''payload_fp'', JStr fp),
     (''error_message'', JStr msg), (''response_status'', JInt st), (''response_body'', JObj body),
     (''updated_at'', JInt n), (''timestamp'', JInt n)]"

lemmas record_fields = processing_fields_def success_fields_def failed_fields_def dict_of_def

text \<open>The records have no private keys, so they are stored as they are.\<close>

lemma serialize_fields [simp]:
  "serialize_record (processing_fields fp u n) = RDoc (JObj (processing_fields fp u n))"
  "serialize_record (success_fields fp oid st body n) = RDoc (JObj (success_fields fp oid st body n))"
  "serialize_record (failed_fields fp msg st body n) = RDoc (JObj (failed_fields fp msg st body n))"
  by (simp_all add: serialize_record_def record_fields)

lemma normalize_state_known [simp]:
  "normalize_state (JStr ''PROCESSING'') = ''PROCESSING''" "normalize_state (JStr ''SUCCESS'') = ''SUCCESS''"
  "normalize_state (JStr ''FAILED'') = ''FAILED''"
  by (simp_all add: normalize_state_def idem_states_def)

lemma dsetdefault_get [simp]:
  "dget_or (dsetdefault k v d) k' x = (if k = k' \<and> fmlookup d k = None then v else dget_or d k' x)"
  by (auto simp: dsetdefault_def dget_or_def)

lemma record_timestamp_updated:
  "fmlookup d ''updated_at'' = Some (JInt n) \<Longrightarrow> record_timestamp d = ret n"
  by (simp add: record_timestamp_def dget_or_def List.map_filter_simps)

lemma normalize_processing:
  fixes w :: "('s, 'z) chaos_world_scheme"
  shows "\<exists>r w'. normalize_record cx (processing_fields fp u n) raw w = (Inr r, w') \<and> ir_raw r = raw \<and>
    ir_get r ''payload_fp'' = JStr fp \<and> w_redis w' = w_redis w \<and> (mono_ticks w \<longrightarrow> later w w') \<and>
    ir_get r ''state'' = JStr (if w_now w' - of_int n \<ge> of_int (max (IDEM_PENDING_TTL_SEC cx) 0)
                               then ''EXPIRED'' else ''PROCESSING'')"
  by (simp add: normalize_record_def record_fields record_timestamp_updated is_processing_stale_def
      dsetdefault_def py_time_def bnd_def ret_def Let_def later_def mono_ticks_def)

lemma normalize_success:
  "\<exists>r. normalize_record cx (success_fields fp oid st body n) raw w = (Inr r, w) \<and>
    ir_get r ''payload_fp'' = JStr fp \<and> ir_get r ''state'' = JStr ''SUCCESS'' \<and>
    ir_get r ''response_body'' = JObj body \<and> ir_get r ''order_id'' = JStr oid"
  by (simp add: normalize_record_def record_fields record_timestamp_updated dsetdefault_def bnd_def ret_def
      Let_def)

lemma normalize_failed:
  "\<exists>r. normalize_record cx (failed_fields fp msg st body n) raw w = (Inr r, w) \<and>
    ir_get r ''payload_fp'' = JStr fp \<and> ir_get r ''state'' = JStr ''FAILED'' \<and>
    ir_get r ''response_body'' = JObj body \<and> ir_get r ''response_status'' = JInt st"
  by (simp add: normalize_record_def record_fields record_timestamp_updated dsetdefault_def bnd_def ret_def
      Let_def)

section \<open>A key that is taken\<close>

text \<open>The text of the key \<open>K\<close> is \<open>v\<close>, up to the time \<open>E\<close>.\<close>

definition held ::
  "('s \<Rightarrow> rat \<Rightarrow> string \<Rightarrow> rval option) \<Rightarrow> string \<Rightarrow> rval \<Rightarrow> rat \<Rightarrow> ('s, 'z) world_scheme \<Rightarrow> bool" where
  "held kv K v E w = (\<forall>t. w_now w \<le> t \<and> t < E \<longrightarrow> kv (w_redis w) t K = Some v)"

lemma held_later: "held kv K v E w \<Longrightarrow> w_redis w' = w_redis w \<Longrightarrow> w_now w \<le> w_now w' \<Longrightarrow> held kv K v E w'"
  by (simp add: held_def)

text \<open>\<open>w'\<close> comes after \<open>w\<close>, and from then on the same texts are live.\<close>

definition same_texts ::
  "('s \<Rightarrow> rat \<Rightarrow> string \<Rightarrow> rval option) \<Rightarrow> ('s, 'z) world_scheme \<Rightarrow> ('s, 'z) world_scheme \<Rightarrow> bool" where
  "same_texts kv w w' = (w_now w \<le> w_now w' \<and>
     (\<forall>t k. w_now w' \<le> t \<longrightarrow> kv (w_redis w') t k = kv (w_redis w) t k))"

lemma same_texts_trans: "same_texts kv w1 w2 \<Longrightarrow> same_texts kv w2 w3 \<Longrightarrow> same_texts kv w1 w3"
  by (auto simp: same_texts_def)

lemma same_texts_store: "w_redis w' = w_redis w \<Longrightarrow> w_now w \<le> w_now w' \<Longrightarrow> same_texts kv w w'"
  by (simp add: same_texts_def)

lemma held_same: "held kv K v E w \<Longrightarrow> same_texts kv w w' \<Longrightarrow> held kv K v E w'"
  by (auto simp: held_def same_texts_def)

text \<open>Only the text of \<open>K\<close> may have changed.\<close>

definition touches ::
  "('s \<Rightarrow> rat \<Rightarrow> string \<Rightarrow> rval option) \<Rightarrow> string \<Rightarrow> ('s, 'z) world_scheme \<Rightarrow> ('s, 'z) world_scheme \<Rightarrow> bool" where
  "touches kv K w w' = (w_now w \<le> w_now w' \<and>
     (\<forall>t k. w_now w' \<le> t \<and> k \<noteq> K \<longrightarrow> kv (w_redis w') t k = kv (w_redis w) t k))"

lemma held_touches: "held kv K v E w \<Longrightarrow> touches kv K' w w' \<Longrightarrow> K \<noteq> K' \<Longrightarrow> held kv K v E w'"
  by (auto simp: held_def touches_def)

lemma touches_same: "same_texts kv w w1 \<Longrightarrow> touches kv K w1 w2 \<Longrightarrow> touches kv K w w2"
  by (auto simp: touches_def same_texts_def)

definition reserve_outcome :: "string \<Rightarrow> string \<Rightarrow> string \<Rightarrow> string" where
  "reserve_outcome fp0 s0 fp = (if fp0 \<noteq> [] \<and> fp \<noteq> fp0 then ''conflict''
     else if s0 = ''SUCCESS'' \<or> s0 = ''FAILED'' then ''replay'' else ''processing'')"

lemma conflict_or_replay_outcome:
  fixes w :: "('s, 'z) world_scheme"
  assumes "ir_get r ''payload_fp'' = JStr fp0" and "ir_get r ''state'' = JStr s0"
    and "conflict_or_replay r fp k w = (Inr (st, r'), w')"
    and "reserve_outcome fp0 s0 fp = ''processing'' \<Longrightarrow> k w = (Inr (''processing'', r), w)"
  shows "st = reserve_outcome fp0 s0 fp \<and> r' = r \<and> w_redis w' = w_redis w \<and> later w w'"
  using assms by (auto simp: conflict_or_replay_def reserve_outcome_def other_payload_def is_final_def thn_def
      bnd_def log_idempotency_event_def log_line_def modw_def ret_def later_def split: if_splits)

context reliable_store
begin

lemma exec_get_held:
  assumes "idem_ready up cx w" and "held kv K v E w" and "w_now w' < E"
    and "execute_redis R cx req operation (redis_call (r_get R K)) w = (Inr x, w')"
  shows "x = Some v \<and> same_texts kv w w'"
proof -
  have u: "retry_valid cx" "settled cx w" "mono_ticks w" "up (w_redis w)"
    using assms(1) by (simp_all add: idem_ready_def)
  have "\<exists>x s. r_get R K t (w_redis w) = (Inr x, s)" for t using up_get [OF u(4)] by blast
  from exec_answers [where cmd = "r_get R K", OF u(1-3) this, of R req operation] assms(4) obtain t where
    t: "w_now w \<le> t" "t \<le> w_now w'" "r_get R K t (w_redis w) = (Inr x, w_redis w')" by auto
  then have "x = kv (w_redis w) t K" using get_value by blast
  moreover have "same_texts kv w w'"
    using t get_keeps [OF t(3)] by (auto simp: same_texts_def)
  ultimately show ?thesis using assms(2,3) t by (simp add: held_def)
qed

lemma exec_set_held:
  assumes "idem_ready up cx w" and "held kv K v E w" and "w_now w' < E"
    and "execute_redis R cx req operation (redis_call (r_set R K v' ex True)) w = (Inr x, w')"
  shows "\<not> x \<and> same_texts kv w w'"
proof -
  have u: "retry_valid cx" "settled cx w" "mono_ticks w" "up (w_redis w)"
    using assms(1) by (simp_all add: idem_ready_def)
  have "\<exists>x s. r_set R K v' ex True t (w_redis w) = (Inr x, s)" for t using up_set [OF u(4)] by blast
  from exec_answers [where cmd = "r_set R K v' ex True", OF u(1-3) this, of R req operation] assms(4) obtain t where
    t: "w_now w \<le> t" "t \<le> w_now w'" "r_set R K v' ex True t (w_redis w) = (Inr x, w_redis w')" by auto
  have "kv (w_redis w) t K = Some v" using assms(2,3) t by (simp add: held_def)
  then have x: "\<not> x" using set_done [OF t(3)] by simp
  then have "kv (w_redis w') t' k = kv (w_redis w) t' k" if "w_now w' \<le> t'" for t' k
    using t that set_refused [of K v' ex True t "w_redis w" "w_redis w'"] set_keeps [OF t(3)]
    by (cases "k = K") auto
  then have "same_texts kv w w'" using t by (auto simp: same_texts_def)
  with x show ?thesis by blast
qed

lemma reserve_new_held:
  assumes "idem_ready up cx w" and "held kv (idem_store_key key) v E w" and "w_now w' < E"
    and "reserve_new_processing R cx req key fp w = (Inr (b, p), w')"
  shows "\<not> b \<and> same_texts kv w w'"
proof -
  from assms(4) obtain d w1 where d: "build_processing_record fp w = (Inr d, w1)"
    and run: "execute_redis R cx req ''idempotency_reserve'' (redis_call (r_set R (idem_store_key key)
        (serialize_record d) (Some (IDEM_PENDING_TTL_SEC cx)) True)) w1 = (Inr b, w')"
    by (auto simp: reserve_new_processing_def Let_def ret_def elim!: bnd_eq_InrE)
  have a: "answers up cx (build_processing_record fp)"
    unfolding build_processing_record_def Let_def by (intro answer_intros)
  from answers_run [OF a assms(1) d] have r1: "idem_ready up cx w1" and le: "w_now w \<le> w_now w1" by blast+
  have "w_redis w1 = w_redis w"
    using d by (auto simp: build_processing_record_def Let_def ret_def py_time_def py_uuid_def elim!: bnd_eq_InrE)
  from same_texts_store [OF this le, of kv] have s1: "same_texts kv w w1" .
  from exec_set_held [OF r1 held_same [OF assms(2) s1] assms(3) run] show ?thesis
    using same_texts_trans [OF s1] by blast
qed

lemma normalize_same_store:
  "normalize_record cx d raw w = (Inr r, w') \<Longrightarrow> w_redis w' = w_redis w"
  by (auto simp: normalize_record_def Let_def record_timestamp_def is_processing_stale_def
      bnd_def ret_def py_time_def split: if_splits option.splits list.splits)

lemma load_held:
  fixes w :: "('s, 'z) chaos_world_scheme"
  assumes "idem_ready up cx w" and "held kv (idem_store_key key) (RDoc (JObj d)) E w" and "w_now w' < E"
    and "load_idempotency_record R cx req key w = (Inr r', w')"
  shows "same_texts kv w w' \<and>
    (\<exists>r w1. r' = Some r \<and> normalize_record cx d (Some (RDoc (JObj d))) w1 = (Inr r, w'))"
proof -
  let ?v = "RDoc (JObj d)"
  from assms(4) obtain x w1 where x: "execute_redis R cx req ''idempotency_get''
      (redis_call (r_get R (idem_store_key key))) w = (Inr x, w1)"
    and rest: "decode_idempotency_record cx x w1 = (Inr r', w')"
    by (auto simp: load_idempotency_record_def elim!: bnd_eq_InrE)
  from answers_run [OF answers_get assms(1) x] have r1: "idem_ready up cx w1" by blast
  from answers_run [OF answers_decode r1 rest] have le: "w_now w1 \<le> w_now w'" by blast
  with assms(3) have "w_now w1 < E" by simp
  from exec_get_held [OF assms(1,2) this x] have "x = Some ?v" and s1: "same_texts kv w w1"
    by blast+
  with rest obtain r where r: "normalize_record cx d (Some ?v) w1 = (Inr r, w')" "r' = Some r"
    by (auto simp: decode_idempotency_record_def rval_nonempty_def ret_def elim!: bnd_eq_InrE)
  from same_texts_trans [OF s1 same_texts_store [OF normalize_same_store [OF r(1)] le]] r show ?thesis by blast
qed

text \<open>While a key holds a record, nobody becomes its owner; the record decides the answer.\<close>

lemma reserve_held:
  fixes w :: "('s, 'z) chaos_world_scheme"
  assumes "idem_ready up cx w" and "held kv (idem_store_key key) (RDoc (JObj d)) E w" and "w_now w' < E"
    and "reserve_idempotency_key R cx req key fp w = (Inr (st, r), w')"
    and N: "\<And>r w1 w2. normalize_record cx d (Some (RDoc (JObj d))) w1 = (Inr r, w2 :: ('s, 'z) chaos_world_scheme) \<Longrightarrow>
      w_now w2 < E \<Longrightarrow> ir_get r ''payload_fp'' = JStr fp0 \<and> ir_get r ''state'' = JStr s0 \<and> X r"
    and "s0 \<noteq> ''EXPIRED''"
  shows "st = reserve_outcome fp0 s0 fp \<and> X r \<and> same_texts kv w w' \<and> idem_ready up cx w' \<and> later w w'"
proof -
  from assms(4) obtain b p w1 where 1: "reserve_new_processing R cx req key fp w = (Inr (b, p), w1)"
    and rest: "(if b then reserve_owner p else bnd (load_or_empty R cx req key) (reserve_existing R cx req key fp)) w1
      = (Inr (st, r), w')"
    by (auto simp: reserve_idempotency_key_def elim!: bnd_eq_InrE)
  from answers_run [OF answers_reserve_new assms(1) 1] have r1: "idem_ready up cx w1" by blast
  have "answers up cx (if b then reserve_owner p
    else bnd (load_or_empty R cx req key) (reserve_existing R cx req key fp))" by (intro answer_intros)
  from answers_run [OF this r1 rest] assms(3) have "w_now w1 < E" by simp
  from reserve_new_held [OF assms(1,2) this 1] have "\<not> b"
    and s1: "same_texts kv w w1" by blast+
  note h1 = held_same [OF assms(2) s1]
  from rest \<open>\<not> b\<close> obtain o' w2 where 2: "load_idempotency_record R cx req key w1 = (Inr o', w2)"
    and rest2: "reserve_existing R cx req key fp (case o' of None \<Rightarrow> no_record | Some r \<Rightarrow> r) w2 = (Inr (st, r), w')"
    by (auto simp: load_or_empty_def ret_def elim!: bnd_eq_InrE)
  from answers_run [OF answers_load r1 2] have r2: "idem_ready up cx w2" by blast
  from answers_run [OF answers_existing r2 rest2] assms(3) have lt2: "w_now w2 < E" by simp
  from load_held [OF r1 h1 lt2 2] obtain e wn where e: "o' = Some e"
    "normalize_record cx d (Some (RDoc (JObj d))) wn = (Inr e, w2)"
    and s2: "same_texts kv w1 w2" by blast
  from N [OF e(2) lt2] have f: "ir_get e ''payload_fp'' = JStr fp0" "ir_get e ''state'' = JStr s0" "X e" by blast+
  have "st = reserve_outcome fp0 s0 fp \<and> r = e \<and> w_redis w' = w_redis w2 \<and> later w2 w'"
    using rest2 e(1) assms(6) f(2) unfolding reserve_existing_def
    by (intro conflict_or_replay_outcome [OF f(1,2)]) (simp_all add: ret_def Let_def)
  moreover from this have "w_now w2 \<le> w_now w'" using answers_run [OF answers_existing r2 rest2] by blast
  ultimately show ?thesis
    using f(3) same_texts_trans [OF same_texts_trans [OF s1 s2] same_texts_store, of w']
      answers_run [OF answers_reserve assms(1,4)] by auto
qed

end

section \<open>Sequences of reservations\<close>

text \<open>Reservations of one key, one after the other: the pause before each, its request and fingerprint.\<close>

fun reserve_calls ::
  "'s redis_ops \<Rightarrow> ctx \<Rightarrow> string \<Rightarrow> (rat \<times> request option \<times> string) list \<Rightarrow>
   (('s, 'z) chaos_world_scheme, (string \<times> idem_record) list) prog" where
  "reserve_calls R cx key [] = ret []"
| "reserve_calls R cx key ((d, req, fp) # cs) =
     thn (py_sleep d) (bnd (reserve_idempotency_key R cx req key fp) (\<lambda>x.
     bnd (reserve_calls R cx key cs) (\<lambda>xs. ret (x # xs))))"

definition pauses_ok :: "(rat \<times> request option \<times> string) list \<Rightarrow> bool" where
  "pauses_ok cs = list_all (\<lambda>(d, req, fp). 0 \<le> d) cs"

lemma outcomes_map:
  "list_all2 (\<lambda>(d, q, fp') (st, r). st = f fp' \<and> X r) cs rs \<Longrightarrow> map fst rs = map (\<lambda>(d, q, fp'). f fp') cs"
  by (induction rule: list_all2_induct) auto

context reliable_store
begin

lemma answers_reserve_calls [answer_intros]: "pauses_ok cs \<Longrightarrow> answers up cx (reserve_calls R cx key cs)"
  by (induction cs) (auto simp: pauses_ok_def intro!: answer_intros)

lemma reserve_calls_held:
  fixes w :: "('s, 'z) chaos_world_scheme"
  assumes "idem_ready up cx w" and "held kv (idem_store_key key) (RDoc (JObj d)) E w" and "w_now w' < E"
    and "reserve_calls R cx key cs w = (Inr rs, w')" and "pauses_ok cs"
    and N: "\<And>r w1 w2. normalize_record cx d (Some (RDoc (JObj d))) w1 = (Inr r, w2 :: ('s, 'z) chaos_world_scheme) \<Longrightarrow>
      w_now w2 < E \<Longrightarrow> ir_get r ''payload_fp'' = JStr fp0 \<and> ir_get r ''state'' = JStr s0 \<and> X r"
    and "s0 \<noteq> ''EXPIRED''"
  shows "list_all2 (\<lambda>(d, req, fp) (st, r). st = reserve_outcome fp0 s0 fp \<and> X r) cs rs"
  using assms(1,2,4,5)
proof (induction cs arbitrary: w rs)
  case Nil
  then show ?case by (simp add: ret_def)
next
  case (Cons c cs)
  obtain p q fp where c: "c = (p, q, fp)" by (cases c)
  with Cons.prems(4) have p: "0 \<le> p" "pauses_ok cs" by (simp_all add: pauses_ok_def)
  obtain w0 where w0: "py_sleep p w = (Inr (), w0)" by (simp add: py_sleep_def modw_def)
  note s = later_sleep [OF w0 p(1)]
  from answers_run [OF answers_sleep [OF p(1)] Cons.prems(1) w0] have r0: "idem_ready up cx w0" by blast
  have h0: "held kv (idem_store_key key) (RDoc (JObj d)) E w0"
    by (rule held_later [OF Cons.prems(2)]) (use s p in simp_all)
  from Cons.prems(3) c w0 obtain st r w1 rs' where 1: "reserve_idempotency_key R cx q key fp w0 = (Inr (st, r), w1)"
    and 2: "reserve_calls R cx key cs w1 = (Inr rs', w')" and rs: "rs = (st, r) # rs'"
    by (auto simp: thn_def ret_def elim!: bnd_eq_InrE)
  from answers_run [OF answers_reserve r0 1] have r1: "idem_ready up cx w1" by blast
  from answers_run [OF answers_reserve_calls [OF p(2)] r1 2] assms(3) have lt: "w_now w1 < E" by simp
  have "st = reserve_outcome fp0 s0 fp \<and> X r \<and> same_texts kv w0 w1 \<and> idem_ready up cx w1 \<and> later w0 w1"
    by (rule reserve_held [OF r0 h0 lt 1 _ assms(7)]) (rule N)
  then have "st = reserve_outcome fp0 s0 fp" "X r" and h1: "held kv (idem_store_key key) (RDoc (JObj d)) E w1"
    using held_same [OF h0] by blast+
  with Cons.IH [OF r1 h1 2 p(2)] rs c show ?case by simp
qed

text \<open>The first reservation of a free key.\<close>

lemma reserve_free:
  fixes w :: "('s, 'z) chaos_world_scheme"
  assumes "idem_ready up cx w" and "\<And>t. w_now w \<le> t \<Longrightarrow> kv (w_redis w) t (idem_store_key key) = None"
    and "0 \<le> w_now w" and n: "n = trunc (w_now w + w_ticks w (w_tick_no w))"
    and "reserve_idempotency_key R cx req key fp w = (Inr (st, r), w')"
  shows "st = ''owner'' \<and> held kv (idem_store_key key)
    (RDoc (JObj (processing_fields fp (w_uuids w (w_uuid_no w)) n))) (of_int n + of_int (IDEM_PENDING_TTL_SEC cx)) w'"
proof -
  let ?u = "w_uuids w (w_uuid_no w)"
  let ?K = "idem_store_key key"
  let ?t0 = "w_now w + w_ticks w (w_tick_no w)"
  let ?raw = "RDoc (JObj (processing_fields fp ?u n))"
  obtain wb where b: "build_processing_record fp w = (Inr (processing_fields fp ?u n), wb)"
    and wb: "w_redis wb = w_redis w" "w_now wb = ?t0"
    by (simp add: build_processing_record_def processing_fields_def bnd_def ret_def py_time_def py_uuid_def Let_def n)
  have a: "answers up cx (build_processing_record fp)"
    unfolding build_processing_record_def Let_def by (intro answer_intros)
  from answers_run [OF a assms(1) b] have rb: "idem_ready up cx wb" and le: "w_now w \<le> w_now wb" by blast+
  then have u: "retry_valid cx" "settled cx wb" "mono_ticks wb" "up (w_redis wb)" by (simp_all add: idem_ready_def)
  let ?cmd = "r_set R ?K ?raw (Some (IDEM_PENDING_TTL_SEC cx)) True"
  have "\<exists>x s. ?cmd t (w_redis wb) = (Inr x, s)" for t using up_set [OF u(4)] by blast
  from exec_answers [where cmd = ?cmd, OF u(1-3) this, of R req "''idempotency_reserve''"] obtain t x w2 where
    t: "w_now wb \<le> t" "t \<le> w_now w2" "?cmd t (w_redis wb) = (Inr x, w_redis w2)"
    and ex: "execute_redis R cx req ''idempotency_reserve'' (redis_call ?cmd) wb = (Inr x, w2)" by blast
  have x: "x" using set_done [OF t(3)] assms(2) t(1) le wb(1) by simp
  have "of_int n \<le> ?t0"
    using assms(3) le wb(2) by (simp add: n trunc_def)
  then have h: "held kv ?K ?raw (of_int n + of_int (IDEM_PENDING_TTL_SEC cx)) w2"
    using set_live [of ?K ?raw _ True t "w_redis wb" "w_redis w2"] t x wb(2) by (auto simp: held_def)
  have "reserve_idempotency_key R cx req key fp w =
    reserve_owner \<lparr>ir_fields = processing_fields fp ?u n, ir_raw = Some ?raw\<rparr> w2"
    using b ex x by (simp add: reserve_idempotency_key_def reserve_new_processing_def bnd_def ret_def Let_def)
  with assms(5) have "st = ''owner''" "w_redis w' = w_redis w2" "w_now w' = w_now w2"
    by (auto simp: reserve_owner_def log_idempotency_event_def log_line_def modw_def thn_def bnd_def ret_def)
  with h show ?thesis by (simp add: held_def)
qed

text \<open>A final record that has been written.\<close>

lemma setex_held:
  fixes w :: "('s, 'z) chaos_world_scheme"
  assumes "idem_ready up cx w"
    and "execute_redis R cx req operation (redis_call (r_setex R K d v)) w = (Inr u, w')"
  shows "held kv K v (w_now w + of_int d) w' \<and> touches kv K w w'"
proof -
  have u: "retry_valid cx" "settled cx w" "mono_ticks w" "up (w_redis w)"
    using assms(1) by (simp_all add: idem_ready_def)
  have "\<exists>x s. r_setex R K d v t (w_redis w) = (Inr x, s)" for t using up_setex [OF u(4)] by blast
  from exec_answers [where cmd = "r_setex R K d v", OF u(1-3) this, of R req operation] assms(2) obtain t x where
    t: "w_now w \<le> t" "t \<le> w_now w'" "r_setex R K d v t (w_redis w) = (Inr x, w_redis w')" by auto
  then show ?thesis using setex_live [OF t(3)] setex_keeps [OF t(3)] by (auto simp: held_def touches_def)
qed

lemma one_owner:
  fixes w :: "('s, 'z) chaos_world_scheme"
  assumes "idem_ready up cx w" and "\<And>t. w_now w \<le> t \<Longrightarrow> kv (w_redis w) t (idem_store_key key) = None"
    and "0 \<le> w_now w" and "fp \<noteq> []" and "pauses_ok cs" and "1 \<le> IDEM_PENDING_TTL_SEC cx"
    and E: "E = of_int (trunc (w_now w + w_ticks w (w_tick_no w))) + of_int (IDEM_PENDING_TTL_SEC cx)"
  shows "\<exists>rs w'. reserve_calls R cx key ((0, req, fp) # cs) w = (Inr rs, w') \<and>
    (w_now w' < E \<longrightarrow> map fst rs = ''owner'' # map (\<lambda>(d, q, fp'). if fp' = fp then ''processing'' else ''conflict'') cs)"
proof -
  let ?cs = "(0, req, fp) # cs"
  have ok: "pauses_ok ?cs" using assms(5) by (simp add: pauses_ok_def)
  from answersD [OF answers_reserve_calls [OF ok] assms(1), of key] obtain rs w' where
    run: "reserve_calls R cx key ?cs w = (Inr rs, w')" by blast
  define w0 where "w0 = w\<lparr>w_slept := w_slept w @ [0]\<rparr>"
  have w0: "py_sleep 0 w = (Inr (), w0)" by (simp add: py_sleep_def modw_def w0_def)
  have r0: "idem_ready up cx w0" using answers_run [OF answers_sleep assms(1) w0] by simp
  have v0: "w_now w0 = w_now w" "w_redis w0 = w_redis w" "w_ticks w0 = w_ticks w" "w_tick_no w0 = w_tick_no w"
    by (simp_all add: w0_def)
  from run w0 obtain st r w1 rs' where 1: "reserve_idempotency_key R cx req key fp w0 = (Inr (st, r), w1)"
    and 2: "reserve_calls R cx key cs w1 = (Inr rs', w')" and rs: "rs = (st, r) # rs'"
    by (auto simp: thn_def ret_def elim!: bnd_eq_InrE)
  let ?n = "trunc (w_now w + w_ticks w (w_tick_no w))"
  let ?d = "processing_fields fp (w_uuids w0 (w_uuid_no w0)) ?n"
  have free0: "kv (w_redis w0) t (idem_store_key key) = None" if "w_now w0 \<le> t" for t
    using assms(2) that v0 by simp
  have now0: "0 \<le> w_now w0" and n0: "?n = trunc (w_now w0 + w_ticks w0 (w_tick_no w0))"
    using assms(3) v0 by simp_all
  from reserve_free [OF r0 free0 now0 n0 1] have st: "st = ''owner''"
    and h: "held kv (idem_store_key key) (RDoc (JObj ?d)) E w1" using E by simp_all
  have r1: "idem_ready up cx w1" using answers_run [OF answers_reserve r0 1] by blast
  have N: "ir_get r ''payload_fp'' = JStr fp \<and> ir_get r ''state'' = JStr ''PROCESSING'' \<and> True"
    if "normalize_record cx ?d (Some (RDoc (JObj ?d))) wa = (Inr r, wb)" "w_now wb < E"
    for r and wa wb :: "('s, 'z) chaos_world_scheme"
    using normalize_processing [of cx fp "w_uuids w0 (w_uuid_no w0)" ?n "Some (RDoc (JObj ?d))" wa] that E assms(6)
    by auto
  have "map fst rs' = map (\<lambda>(d, q, fp'). if fp' = fp then ''processing'' else ''conflict'') cs" if "w_now w' < E"
  proof -
    from reserve_calls_held [OF r1 h that 2 assms(5) N]
    have "list_all2 (\<lambda>(d, q, fp') (st, r). st = reserve_outcome fp ''PROCESSING'' fp' \<and> True) cs rs'"
      by simp
    from outcomes_map [OF this] show ?thesis
      using assms(4) by (auto simp: reserve_outcome_def)
  qed
  with run rs st show ?thesis by simp
qed

end

end
