(* ===== verification/Idempotency_Guarantees.thy ===== *)
theory Idempotency_Guarantees
  imports Idempotency_Correct
begin

text \<open>
  What the idempotency store promises its clients: one owner per key, replays of final records,
  releases of one's own reservation only, and a waiting loop that ends.
\<close>

section \<open>One owner per key\<close>

text \<open>
  C1. One owner per key: starting from a store that answers and does not hold the key, the first
  reservation becomes the owner; until the reservation's time to live has passed, however many further
  reservations are made and at whatever times, none becomes the owner: those with the same payload
  are told that it is being processed, those with another payload that they conflict.
\<close>

theorem one_owner_per_key:
  fixes w :: "('s, 'z) chaos_world_scheme"
  assumes "reliable_store R kv zs ct pk up" and "idem_ready up cx w"
    and "\<And>t. w_now w \<le> t \<Longrightarrow> kv (w_redis w) t (idem_store_key key) = None"
    and "0 \<le> w_now w" and "fp \<noteq> []" and "pauses_ok cs" and "1 \<le> IDEM_PENDING_TTL_SEC cx"
    and "E = of_int (trunc (w_now w + w_ticks w (w_tick_no w))) + of_int (IDEM_PENDING_TTL_SEC cx)"
  shows "\<exists>rs w'. reserve_calls R cx key ((0, req, fp) # cs) w = (Inr rs, w') \<and>
    (w_now w' < E \<longrightarrow> map fst rs = ''owner'' # map (\<lambda>(d, q, fp'). if fp' = fp then ''processing'' else ''conflict'') cs)"
  by (rule reliable_store.one_owner [OF assms])

definition idem_world :: "fake chaos_world" where
  "idem_world = demo_chaos_world\<lparr>w_rnd := \<lambda>_. 0\<rparr>"

lemma idem_world_sel [simp]:
  "w_redis idem_world = fake_empty" "w_now idem_world = 1000" "w_ticks idem_world n = 0" "w_tick_no idem_world = 0"
  "w_uuid_no idem_world = 0"
  by (simp_all add: idem_world_def demo_chaos_world_def demo_world_def world.defs)

lemma idem_world_ready: "idem_ready (\<lambda>s. \<not> f_broken s) demo_ctx idem_world"
  by (simp add: idem_ready_def retry_valid_def settled_def idem_world_def demo_chaos_world_def demo_world_def
      demo_ctx_def sync_legacy_attributes_def world.defs mono_ticks_def)

lemma idem_world_still: "clock_still demo_ctx 1000 idem_world"
  using idem_world_ready
  by (simp add: idem_ready_def clock_still_def) (simp add: idem_world_def)

lemma calls_stand_still:
  "list_all (\<lambda>(d, req, fp). d = 0) cs \<Longrightarrow> keeps (clock_still cx T) (reserve_calls R cx key cs)"
  by (induction cs) (auto intro!: keeps_ret keeps_thn keeps_bnd still.clock_sleep still.keeps_reserve)

definition idem_calls :: "(rat \<times> request option \<times> string) list" where
  "idem_calls = [(0, Some demo_request, ''x''), (0, None, ''y''), (0, None, ''x'')]"

theorem one_owner_per_key_witness:
  "\<exists>rs w'. reserve_calls fake_redis demo_ctx ''k'' ((0, None, ''x'') # idem_calls) idem_world = (Inr rs, w') \<and>
     map fst rs = [''owner'', ''processing'', ''conflict'', ''processing'']"
proof -
  have t: "1 \<le> IDEM_PENDING_TTL_SEC demo_ctx" "IDEM_PENDING_TTL_SEC demo_ctx = 15"
    by (simp_all add: demo_ctx_def sync_legacy_attributes_def)
  have "pauses_ok idem_calls" "(0::rat) \<le> w_now idem_world" "''x'' \<noteq> []"
    by (simp_all add: pauses_ok_def idem_calls_def)
  moreover have "fake_kv (w_redis idem_world) t (idem_store_key ''k'') = None" for t by simp
  ultimately obtain rs w' where run: "reserve_calls fake_redis demo_ctx ''k'' ((0, None, ''x'') # idem_calls) idem_world = (Inr rs, w')"
    and res: "w_now w' < of_int (trunc (w_now idem_world + w_ticks idem_world (w_tick_no idem_world))) + of_int 15 \<longrightarrow>
      map fst rs = ''owner'' # map (\<lambda>(d, q, fp'). if fp' = ''x'' then ''processing'' else ''conflict'') idem_calls"
    using one_owner_per_key [OF fr.reliable_store_axioms idem_world_ready _ _ _ _ t(1) refl,
        of "''k''" "''x''" idem_calls None] t(2) by auto
  have "clock_still demo_ctx 1000 w'"
    using keepsD [OF calls_stand_still idem_world_still, of "(0, None, ''x'') # idem_calls" fake_redis "''k''"] run
    by (simp add: idem_calls_def)
  then have "w_now w' = 1000" by (simp add: clock_still_def)
  moreover have "trunc (1000 :: rat) = 1000" by (simp add: trunc_def)
  ultimately show ?thesis using run res by (simp add: idem_calls_def)
qed

section \<open>The waiting loop\<close>

lemma load_or_empty_some:
  "fst (bnd (load_or_empty R cx req k) (\<lambda>c. bnd (m c) (\<lambda>x. ret (Some x))) w) \<noteq> Inr None"
  by (auto simp: bnd_def ret_def split: prod.splits sum.splits)

lemma wait_loop_returns:
  fixes w :: "('s, 'z) chaos_world_scheme"
  assumes "clock_past cx T w" and "deadline \<le> T + of_nat m * poll" and "0 < poll" and "m < fuel"
  shows "fst (wait_loop fuel R cx req key fp deadline poll w) \<noteq> Inr None"
  using assms
proof (induction fuel arbitrary: w T m)
  case 0
  then show ?case by simp
next
  case (Suc fuel)
  obtain t w1 where t: "py_time w = (Inr t, w1)" by (simp add: py_time_def Let_def)
  note p1 = keepsD [OF past.clock_time Suc.prems(1)]
  have T1: "T \<le> t" using p1 t later_time [OF t] by (simp add: clock_past_def)
  show ?case
  proof (cases "t < deadline")
    case False
    with t show ?thesis using load_or_empty_some [of R cx req key _ w1] by (simp add: bnd_Inr)
  next
    case True
    with T1 Suc.prems(2) obtain m' where m: "m = Suc m'" by (cases m) auto
    obtain r w2 where l: "load_idempotency_record R cx req key w1 = (r, w2)"
      by (cases "load_idempotency_record R cx req key w1")
    have p2: "clock_past cx T w2" using keepsD [OF past.keeps_load p1, of R req key] t l by simp
    define w3 where "w3 = snd (py_sleep poll w2)"
    have s: "py_sleep poll w2 = (Inr (), w3)" by (simp add: w3_def py_sleep_def modw_def)
    have "clock_past cx (T + poll) w3"
      using p2 keepsD [OF past.clock_sleep, of poll cx T w2] Suc.prems(3)
      by (simp add: w3_def clock_past_def py_sleep_def modw_def)
    moreover have "deadline \<le> T + poll + of_nat m' * poll"
      using Suc.prems(2) by (simp add: m algebra_simps)
    ultimately have IH: "fst (wait_loop fuel R cx req key fp deadline poll w3) \<noteq> Inr None"
      using Suc.IH Suc.prems(3,4) m by simp
    show ?thesis
    proof (cases r)
      case (Inl e)
      with t True l show ?thesis by (simp add: bnd_def)
    next
      case (Inr c)
      with t True l s IH show ?thesis
        by (auto simp: bnd_def thn_def ret_def split: option.splits prod.splits sum.splits)
    qed
  qed
qed

text \<open>
  C16. Waiting ends: whatever the store answers, and if it does not answer at all, waiting for the
  result of another request returns or raises after at most \<open>wait_fuel\<close> polls, provided the clock does
  not go back. The bound is the waiting time divided by the poll interval, plus two.
\<close>

theorem waiting_ends:
  assumes "clock_past cx T w"
  shows "fst (wait_for_idempotency_result R cx req key fp w) \<noteq> Inr None"
proof -
  obtain t w1 where t: "py_time w = (Inr t, w1)" by (simp add: py_time_def Let_def)
  let ?a = "max (IDEM_WAIT_TIMEOUT_MS cx) 0" and ?p = "max (IDEM_WAIT_POLL_MS cx) 1"
  have p1: "clock_past cx t w1"
    using keepsD [OF past.clock_time assms] t later_time [OF t] by (simp add: clock_past_def)
  define m where "m = Suc (nat (?a div ?p))"
  have "?a = ?a div ?p * ?p + ?a mod ?p" by (simp only: div_mult_mod_eq)
  moreover have "?a mod ?p \<le> ?p" by (simp add: order_less_imp_le)
  ultimately have "?a \<le> (?a div ?p + 1) * ?p" by (simp only: distrib_right mult_1)
  moreover have "int m = ?a div ?p + 1" by (simp add: m_def pos_imp_zdiv_nonneg_iff)
  ultimately have "?a \<le> int m * ?p" by simp
  then have "(of_int ?a :: rat) \<le> of_int (int m * ?p)" by (simp only: of_int_le_iff)
  then have "(of_int ?a :: rat) \<le> of_nat m * of_int ?p" by simp
  then have "t + of_int ?a / 1000 \<le> t + of_nat m * (of_int ?p / 1000 :: rat)" by simp
  moreover have "m < wait_fuel cx" by (simp add: m_def wait_fuel_def)
  ultimately have "fst (wait_loop (wait_fuel cx) R cx req key fp (t + of_int ?a / 1000) (of_int ?p / 1000) w1) \<noteq> Inr None"
    using wait_loop_returns [OF p1, of _ m "of_int ?p / 1000"] by simp
  with t show ?thesis by (simp add: wait_for_idempotency_result_def bnd_Inr)
qed

theorem waiting_ends_witness:
  "fst (wait_for_idempotency_result fake_redis demo_ctx None ''k'' ''x'' idem_world) \<noteq> Inr None"
proof -
  have "clock_past demo_ctx 1000 idem_world"
    using idem_world_ready by (simp add: idem_ready_def clock_past_def) (simp add: idem_world_def)
  then show ?thesis by (rule waiting_ends)
qed

section \<open>Replays\<close>

context reliable_store
begin

lemma finalize_held:
  fixes w :: "('s, 'z) chaos_world_scheme"
  assumes "idem_ready up cx w" and "body \<noteq> fmempty"
  shows "\<exists>n w'. finalize_idempotency_success R cx req key fp oid st (Some body) w = (Inr (), w') \<and> idem_ready up cx w' \<and>
    held kv (idem_store_key key) (RDoc (JObj (success_fields fp oid st body n))) (w_now w + of_int (IDEM_TTL_SEC cx)) w' \<and>
    touches kv (idem_store_key key) w w'"
    and "\<exists>n w'. idem_save_failed R cx req key fp msg st (Some body) w = (Inr (), w') \<and> idem_ready up cx w' \<and>
    held kv (idem_store_key key) (RDoc (JObj (failed_fields fp msg st body n))) (w_now w + of_int (IDEM_TTL_SEC cx)) w' \<and>
    touches kv (idem_store_key key) w w'"
proof -
  obtain t w1 where t: "py_time w = (Inr t, w1)" by (simp add: py_time_def Let_def)
  from answers_run [OF answers_effects(2) assms(1) t] have r1: "idem_ready up cx w1" and le: "w_now w \<le> w_now w1"
    by blast+
  have s1: "same_texts kv w w1" using same_texts_store [OF _ le] later_time [OF t] by blast
  have mono: "held kv K v (w_now w1 + d) w' \<Longrightarrow> held kv K v (w_now w + d) w'"
    for K v d and w' :: "('s, 'z) chaos_world_scheme"
    using le by (simp add: held_def)
  have run: "\<exists>w'. execute_redis R cx req operation (redis_call (r_setex R (idem_store_key key) (IDEM_TTL_SEC cx) v)) w1
      = (Inr (), w') \<and> idem_ready up cx w' \<and>
      held kv (idem_store_key key) v (w_now w + of_int (IDEM_TTL_SEC cx)) w' \<and> touches kv (idem_store_key key) w w'"
      for operation v
  proof -
    from answersD [OF answers_setex r1, of req operation "idem_store_key key" "IDEM_TTL_SEC cx" v] obtain w' where
      e: "execute_redis R cx req operation (redis_call (r_setex R (idem_store_key key) (IDEM_TTL_SEC cx) v)) w1 = (Inr (), w')"
      "idem_ready up cx w'" by auto
    from setex_held [OF r1 e(1)] mono touches_same [OF s1] e show ?thesis by blast
  qed
  let ?s = "success_fields fp oid st body (trunc t)" and ?f = "failed_fields fp msg st body (trunc t)"
  have s: "finalize_idempotency_success R cx req key fp oid st (Some body) w =
      execute_redis R cx req ''idempotency_finalize''
        (redis_call (r_setex R (idem_store_key key) (IDEM_TTL_SEC cx) (RDoc (JObj ?s)))) w1"
    using t assms(2) by (simp add: finalize_idempotency_success_def build_success_record_def body_or_def bnd_def
        ret_def Let_def success_fields_def [symmetric])
  have f: "idem_save_failed R cx req key fp msg st (Some body) w =
      execute_redis R cx req ''idempotency_save_failed''
        (redis_call (r_setex R (idem_store_key key) (IDEM_TTL_SEC cx) (RDoc (JObj ?f)))) w1"
    using t assms(2) by (simp add: idem_save_failed_def build_failed_record_def body_or_def bnd_def
        ret_def Let_def failed_fields_def [symmetric])
  show "\<exists>n w'. finalize_idempotency_success R cx req key fp oid st (Some body) w = (Inr (), w') \<and> idem_ready up cx w' \<and>
    held kv (idem_store_key key) (RDoc (JObj (success_fields fp oid st body n))) (w_now w + of_int (IDEM_TTL_SEC cx)) w' \<and>
    touches kv (idem_store_key key) w w'"
    using run [of "''idempotency_finalize''" "RDoc (JObj ?s)"] s by metis
  show "\<exists>n w'. idem_save_failed R cx req key fp msg st (Some body) w = (Inr (), w') \<and> idem_ready up cx w' \<and>
    held kv (idem_store_key key) (RDoc (JObj (failed_fields fp msg st body n))) (w_now w + of_int (IDEM_TTL_SEC cx)) w' \<and>
    touches kv (idem_store_key key) w w'"
    using run [of "''idempotency_save_failed''" "RDoc (JObj ?f)"] f by metis
qed

text \<open>Reservations of a key that holds a final record, and the response each of them replays.\<close>

lemma final_replays:
  fixes w :: "('s, 'z) chaos_world_scheme"
  assumes "idem_ready up cx w" and "held kv (idem_store_key key) (RDoc (JObj d)) E w" and "pauses_ok cs"
    and "s0 = ''SUCCESS'' \<or> s0 = ''FAILED''" and "fp \<noteq> []"
    and N: "\<And>r w1 w2. normalize_record cx d (Some (RDoc (JObj d))) w1 = (Inr r, w2 :: ('s, 'z) chaos_world_scheme) \<Longrightarrow>
      ir_get r ''payload_fp'' = JStr fp \<and> ir_get r ''state'' = JStr s0 \<and> X r"
  shows "\<exists>rs w'. reserve_calls R cx key cs w = (Inr rs, w') \<and> (w_now w' < E \<longrightarrow>
    list_all2 (\<lambda>(d, q, fp') (st, r). st = (if fp' = fp then ''replay'' else ''conflict'') \<and> X r) cs rs)"
proof -
  from answersD [OF answers_reserve_calls [OF assms(3)] assms(1), of key] obtain rs w' where
    run: "reserve_calls R cx key cs w = (Inr rs, w')" by blast
  have "list_all2 (\<lambda>(d, q, fp') (st, r). st = (if fp' = fp then ''replay'' else ''conflict'') \<and> X r) cs rs"
    if "w_now w' < E"
  proof -
    have "s0 \<noteq> ''EXPIRED''" using assms(4) by auto
    then have "list_all2 (\<lambda>(d, q, fp') (st, r). st = reserve_outcome fp s0 fp' \<and> X r) cs rs"
      by (intro reserve_calls_held [OF assms(1,2) that run assms(3)] N)
    then show ?thesis
      by (rule list_all2_mono) (use assms(4,5) in \<open>auto simp: reserve_outcome_def\<close>)
  qed
  with run show ?thesis by blast
qed

end

text \<open>The body of an order's response, and what a replay makes of it.\<close>

definition order_body :: "string \<Rightarrow> dict" where
  "order_body oid = dict_of [(''status'', JStr ''ok''), (''order_id'', JStr oid)]"

lemma order_body_nonempty [simp]: "order_body oid \<noteq> fmempty"
  by (auto simp: order_body_def dict_of_def dest: arg_cong [where f = "\<lambda>d. fmlookup d ''status''"])

lemma success_reply:
  assumes "ir_get r ''state'' = JStr ''SUCCESS''" and "ir_get r ''response_body'' = JObj (order_body oid)"
  shows "build_replay_response r w = (Inr (200, dset ''idempotent'' (JBool True) (order_body oid)), w)"
  using assms by (simp add: build_replay_response_def order_body_def dict_of_def dsetdefault_def ret_def Let_def)

lemma failed_reply:
  assumes "ir_get r ''state'' = JStr ''FAILED''" and "ir_get r ''response_body'' = JObj body" and "body \<noteq> fmempty"
    and "ir_get r ''response_status'' = JInt st" and "st \<noteq> 0"
  shows "build_replay_response r w = (Inr (st, dset ''idempotent'' (JBool True) body), w)"
  using assms by (simp add: build_replay_response_def bnd_def ret_def Let_def)

text \<open>
  C15. A finished order is replayed: after \<open>finalize_idempotency_success\<close>, every reservation of the key within the
  record's time to live is a replay when its payload is the order's, and answers 200 with the order's body marked
  idempotent; with another payload it is a conflict. However many reservations are made, none becomes the owner.
\<close>

theorem finished_order_replayed:
  fixes w :: "('s, 'z) chaos_world_scheme"
  assumes "reliable_store R kv zs ct pk up" and "idem_ready up cx w" and "fp \<noteq> []" and "pauses_ok cs"
  shows "\<exists>w1 rs w2. finalize_idempotency_success R cx req key fp oid 201 (Some (order_body oid)) w = (Inr (), w1) \<and>
    reserve_calls R cx key cs w1 = (Inr rs, w2) \<and>
    (w_now w2 < w_now w + of_int (IDEM_TTL_SEC cx) \<longrightarrow>
     list_all2 (\<lambda>(d, q, fp') (st, r). st = (if fp' = fp then ''replay'' else ''conflict'') \<and>
       (\<forall>v :: ('s, 'z) chaos_world_scheme.
          build_replay_response r v = (Inr (200, dset ''idempotent'' (JBool True) (order_body oid)), v))) cs rs)"
proof -
  from reliable_store.finalize_held(1) [OF assms(1,2) order_body_nonempty, of req key fp oid 201] obtain n w1 where
    f: "finalize_idempotency_success R cx req key fp oid 201 (Some (order_body oid)) w = (Inr (), w1)"
    "idem_ready up cx w1" "held kv (idem_store_key key)
      (RDoc (JObj (success_fields fp oid 201 (order_body oid) n))) (w_now w + of_int (IDEM_TTL_SEC cx)) w1" by blast
  let ?d = "success_fields fp oid 201 (order_body oid) n"
  have N: "ir_get r ''payload_fp'' = JStr fp \<and> ir_get r ''state'' = JStr ''SUCCESS'' \<and>
      (\<forall>v :: ('s, 'z) chaos_world_scheme.
        build_replay_response r v = (Inr (200, dset ''idempotent'' (JBool True) (order_body oid)), v))"
    if "normalize_record cx ?d (Some (RDoc (JObj ?d))) wa = (Inr r, wb)"
    for r and wa wb :: "('s, 'z) chaos_world_scheme"
  proof -
    from that normalize_success [of cx fp oid 201 "order_body oid" n "Some (RDoc (JObj ?d))" wa]
    have "ir_get r ''payload_fp'' = JStr fp" "ir_get r ''state'' = JStr ''SUCCESS''"
      "ir_get r ''response_body'' = JObj (order_body oid)" by auto
    then show ?thesis by (simp add: success_reply)
  qed
  have s: "''SUCCESS'' = ''SUCCESS'' \<or> ''SUCCESS'' = ''FAILED''" by simp
  have E: "\<exists>rs w2. reserve_calls R cx key cs w1 = (Inr rs, w2) \<and> (w_now w2 < w_now w + of_int (IDEM_TTL_SEC cx) \<longrightarrow>
      list_all2 (\<lambda>(d, q, fp') (st, r). st = (if fp' = fp then ''replay'' else ''conflict'') \<and>
       (\<forall>v :: ('s, 'z) chaos_world_scheme.
          build_replay_response r v = (Inr (200, dset ''idempotent'' (JBool True) (order_body oid)), v))) cs rs)"
    by (rule reliable_store.final_replays [OF assms(1) f(2,3) assms(4) s assms(3)]) (rule N)
  show ?thesis
    by (rule exE [OF E], erule exE, rule exI [of _ w1], rule exI, rule exI, rule conjI [OF f(1)], assumption)
qed

theorem finished_order_replayed_witness:
  "\<exists>w1 rs w2. finalize_idempotency_success fake_redis demo_ctx None ''k'' ''x'' ''o1'' 201 (Some (order_body ''o1'')) idem_world
       = (Inr (), w1) \<and>
     reserve_calls fake_redis demo_ctx ''k'' idem_calls w1 = (Inr rs, w2) \<and>
     list_all2 (\<lambda>(d, q, fp') (st, r). st = (if fp' = ''x'' then ''replay'' else ''conflict'') \<and>
       (\<forall>v :: fake chaos_world.
          build_replay_response r v = (Inr (200, dset ''idempotent'' (JBool True) (order_body ''o1'')), v))) idem_calls rs"
proof -
  have ok: "pauses_ok idem_calls" "''x'' \<noteq> []" by (simp_all add: pauses_ok_def idem_calls_def)
  from finished_order_replayed [OF fr.reliable_store_axioms idem_world_ready ok(2,1), of None "''k''" "''o1''"]
  obtain w1 rs w2 where f: "finalize_idempotency_success fake_redis demo_ctx None ''k'' ''x'' ''o1'' 201
      (Some (order_body ''o1'')) idem_world = (Inr (), w1)"
    and r: "reserve_calls fake_redis demo_ctx ''k'' idem_calls w1 = (Inr rs, w2)"
    and q: "w_now w2 < w_now idem_world + of_int (IDEM_TTL_SEC demo_ctx) \<longrightarrow>
     list_all2 (\<lambda>(d, q, fp') (st, r). st = (if fp' = ''x'' then ''replay'' else ''conflict'') \<and>
       (\<forall>v :: fake chaos_world.
          build_replay_response r v = (Inr (200, dset ''idempotent'' (JBool True) (order_body ''o1'')), v))) idem_calls rs"
    by blast
  have "clock_still demo_ctx 1000 w1"
    using keepsD [OF still.keeps_finalize(1) idem_world_still, of fake_redis None "''k''" "''x''" "''o1''" 201
        "Some (order_body ''o1'')"] f by simp
  then have "clock_still demo_ctx 1000 w2"
    using keepsD [OF calls_stand_still, of idem_calls demo_ctx 1000 w1 fake_redis "''k''"] r
    by (simp add: idem_calls_def)
  then have "w_now w2 < w_now idem_world + of_int (IDEM_TTL_SEC demo_ctx)"
    by (simp add: clock_still_def demo_ctx_def sync_legacy_attributes_def)
  from q [THEN mp, OF this] f r show ?thesis
    by (intro exI conjI)
qed

text \<open>
  A failure is replayed as well: after \<open>save_failed\<close> with a response that is not empty, every reservation of the key with
  the same payload within the record's time to live answers with that status and that body, marked idempotent.
\<close>

theorem failure_replayed:
  fixes w :: "('s, 'z) chaos_world_scheme"
  assumes "reliable_store R kv zs ct pk up" and "idem_ready up cx w" and "fp \<noteq> []" and "pauses_ok cs"
    and "body \<noteq> fmempty" and "st \<noteq> 0"
  shows "\<exists>w1 rs w2. idem_save_failed R cx req key fp msg st (Some body) w = (Inr (), w1) \<and>
    reserve_calls R cx key cs w1 = (Inr rs, w2) \<and>
    (w_now w2 < w_now w + of_int (IDEM_TTL_SEC cx) \<longrightarrow>
     list_all2 (\<lambda>(d, q, fp') (s0, r). s0 = (if fp' = fp then ''replay'' else ''conflict'') \<and>
       (\<forall>v :: ('s, 'z) chaos_world_scheme.
          build_replay_response r v = (Inr (st, dset ''idempotent'' (JBool True) body), v))) cs rs)"
proof -
  from reliable_store.finalize_held(2) [OF assms(1,2,5), of req key fp msg st] obtain n w1 where
    f: "idem_save_failed R cx req key fp msg st (Some body) w = (Inr (), w1)"
    "idem_ready up cx w1" "held kv (idem_store_key key)
      (RDoc (JObj (failed_fields fp msg st body n))) (w_now w + of_int (IDEM_TTL_SEC cx)) w1" by blast
  let ?d = "failed_fields fp msg st body n"
  have N: "ir_get r ''payload_fp'' = JStr fp \<and> ir_get r ''state'' = JStr ''FAILED'' \<and>
      (\<forall>v :: ('s, 'z) chaos_world_scheme.
        build_replay_response r v = (Inr (st, dset ''idempotent'' (JBool True) body), v))"
    if "normalize_record cx ?d (Some (RDoc (JObj ?d))) wa = (Inr r, wb)"
    for r and wa wb :: "('s, 'z) chaos_world_scheme"
  proof -
    from that normalize_failed [of cx fp msg st body n "Some (RDoc (JObj ?d))" wa]
    have "ir_get r ''payload_fp'' = JStr fp" "ir_get r ''state'' = JStr ''FAILED''"
      "ir_get r ''response_body'' = JObj body" "ir_get r ''response_status'' = JInt st" by auto
    then show ?thesis by (simp add: failed_reply assms(5,6))
  qed
  have s: "''FAILED'' = ''SUCCESS'' \<or> ''FAILED'' = ''FAILED''" by simp
  have E: "\<exists>rs w2. reserve_calls R cx key cs w1 = (Inr rs, w2) \<and> (w_now w2 < w_now w + of_int (IDEM_TTL_SEC cx) \<longrightarrow>
      list_all2 (\<lambda>(d, q, fp') (s0, r). s0 = (if fp' = fp then ''replay'' else ''conflict'') \<and>
       (\<forall>v :: ('s, 'z) chaos_world_scheme.
          build_replay_response r v = (Inr (st, dset ''idempotent'' (JBool True) body), v))) cs rs)"
    by (rule reliable_store.final_replays [OF assms(1) f(2,3) assms(4) s assms(3)]) (rule N)
  show ?thesis
    by (rule exE [OF E], erule exE, rule exI [of _ w1], rule exI, rule exI, rule conjI [OF f(1)], assumption)
qed

theorem failure_replayed_witness:
  "\<exists>w1 rs w2. idem_save_failed fake_redis demo_ctx None ''k'' ''x'' ''inventory busy'' 503 (Some (order_body ''b'')) idem_world
       = (Inr (), w1) \<and>
     reserve_calls fake_redis demo_ctx ''k'' idem_calls w1 = (Inr rs, w2) \<and>
     list_all2 (\<lambda>(d, q, fp') (st, r). st = (if fp' = ''x'' then ''replay'' else ''conflict'') \<and>
       (\<forall>v :: fake chaos_world.
          build_replay_response r v = (Inr (503, dset ''idempotent'' (JBool True) (order_body ''b'')), v))) idem_calls rs"
proof -
  have ok: "pauses_ok idem_calls" "''x'' \<noteq> []" "(503::int) \<noteq> 0" by (simp_all add: pauses_ok_def idem_calls_def)
  from failure_replayed [OF fr.reliable_store_axioms idem_world_ready ok(2,1) order_body_nonempty ok(3),
      of None "''k''" "''inventory busy''" "''b''"]
  obtain w1 rs w2 where f: "idem_save_failed fake_redis demo_ctx None ''k'' ''x'' ''inventory busy'' 503
      (Some (order_body ''b'')) idem_world = (Inr (), w1)"
    and r: "reserve_calls fake_redis demo_ctx ''k'' idem_calls w1 = (Inr rs, w2)"
    and q: "w_now w2 < w_now idem_world + of_int (IDEM_TTL_SEC demo_ctx) \<longrightarrow>
     list_all2 (\<lambda>(d, q, fp') (st, r). st = (if fp' = ''x'' then ''replay'' else ''conflict'') \<and>
       (\<forall>v :: fake chaos_world.
          build_replay_response r v = (Inr (503, dset ''idempotent'' (JBool True) (order_body ''b'')), v))) idem_calls rs"
    by blast
  have "clock_still demo_ctx 1000 w1"
    using keepsD [OF still.keeps_finalize(2) idem_world_still, of fake_redis None "''k''" "''x''" "''inventory busy''" 503
        "Some (order_body ''b'')"] f by simp
  then have "clock_still demo_ctx 1000 w2"
    using keepsD [OF calls_stand_still, of idem_calls demo_ctx 1000 w1 fake_redis "''k''"] r
    by (simp add: idem_calls_def)
  then have "w_now w2 < w_now idem_world + of_int (IDEM_TTL_SEC demo_ctx)"
    by (simp add: clock_still_def demo_ctx_def sync_legacy_attributes_def)
  from q [THEN mp, OF this] f r show ?thesis
    by (intro exI conjI)
qed

section \<open>Releases\<close>

context reliable_store
begin

lemma compare_and_delete_lua_run:
  assumes "compare_and_delete_lua R K raw t s = (Inr n, s')"
  shows "(n \<noteq> 0) = (kv s t K = Some raw)"
    and "t \<le> t' \<Longrightarrow> kv s' t' K = (if kv s t K = Some raw then None else kv s t' K)"
    and "t \<le> t' \<Longrightarrow> k \<noteq> K \<Longrightarrow> kv s' t' k = kv s t' k"
proof -
  from assms obtain v s1 where g: "r_get R K t s = (Inr v, s1)"
    and d: "(if v = Some raw then r_delete R [K] else lua_ret 0) t s1 = (Inr n, s')"
    by (auto simp: compare_and_delete_lua_def lua_bnd_Inr)
  note v = get_value [OF g] and k = get_keeps [OF g]
  show "(n \<noteq> 0) = (kv s t K = Some raw)"
    using d v k delete_counted [of K t s1 n s'] by (auto simp: lua_ret_def split: if_splits)
  show "t \<le> t' \<Longrightarrow> kv s' t' K = (if kv s t K = Some raw then None else kv s t' K)"
    using d v k delete_gone [of "[K]" t s1 n s' K] by (auto simp: lua_ret_def split: if_splits)
  show "t \<le> t' \<Longrightarrow> k \<noteq> K \<Longrightarrow> kv s' t' k = kv s t' k"
    using d v k delete_keeps [of "[K]" t s1 n s' k] by (auto simp: lua_ret_def split: if_splits)
qed

lemma release_run:
  fixes w :: "('s, 'z) chaos_world_scheme"
  assumes "idem_ready up cx w" and "ir_raw r = Some raw" and "rval_nonempty raw"
  shows "\<exists>t b w'. w_now w \<le> t \<and> t \<le> w_now w' \<and>
    release_idempotency_reservation R cx req key (Some r) w = (Inr b, w') \<and>
    b = (kv (w_redis w) t (idem_store_key key) = Some raw) \<and>
    (\<forall>t' \<ge> w_now w'. kv (w_redis w') t' (idem_store_key key) =
       (if b then None else kv (w_redis w) t' (idem_store_key key))) \<and>
    (\<forall>t' \<ge> w_now w'. \<forall>k. k \<noteq> idem_store_key key \<longrightarrow> kv (w_redis w') t' k = kv (w_redis w) t' k)"
proof -
  let ?K = "idem_store_key key" and ?cmd = "compare_and_delete_lua R (idem_store_key key) raw"
  have u: "retry_valid cx" "settled cx w" "mono_ticks w" "up (w_redis w)"
    using assms(1) by (simp_all add: idem_ready_def)
  have "\<exists>x s. ?cmd t (w_redis w) = (Inr x, s)" for t using compare_and_delete_up [OF u(4)] by blast
  from exec_answers [where cmd = ?cmd, OF u(1-3) this, of R req "''idempotency_compare_delete''"] obtain t n w1 where
    t: "w_now w \<le> t" "t \<le> w_now w1" "?cmd t (w_redis w) = (Inr n, w_redis w1)"
    and ex: "execute_redis R cx req ''idempotency_compare_delete'' (redis_call ?cmd) w = (Inr n, w1)" by blast
  define w' where "w' = snd (whenp (n = 0) (metric_inc ''IDEMPOTENCY_LOCK_FAILURE_TOTAL'' []) w1)"
  have w': "whenp (n = 0) (metric_inc ''IDEMPOTENCY_LOCK_FAILURE_TOTAL'' []) w1 = (Inr (), w')"
    "w_redis w' = w_redis w1" "w_now w' = w_now w1"
    by (simp_all add: w'_def whenp_def metric_inc_def metric_add_def modw_def ret_def)
  have "release_idempotency_reservation R cx req key (Some r) w = (Inr (n \<noteq> 0), w')"
    using ex w'(1) assms(2,3)
    by (simp add: release_idempotency_reservation_def compare_and_delete_def bnd_def thn_def ret_def)
  then show ?thesis
    using t compare_and_delete_lua_run [OF t(3)] w'(2,3)
    by (intro exI [of _ t] exI [of _ "n \<noteq> 0"] exI [of _ w']) auto
qed

end

text \<open>
  A reservation is released by its owner only: on a store that answers, releasing with a record
  deletes the key exactly when the store still holds that record's own text (which contains its owner
  token); otherwise, when the reservation has expired, was taken over or was finished, the store keeps
  every text, and the failed release is reported.
\<close>

theorem release_only_own:
  fixes w :: "('s, 'z) chaos_world_scheme"
  assumes "reliable_store R kv zs ct pk up" and "idem_ready up cx w" and "ir_raw r = Some raw"
    and "rval_nonempty raw"
  shows "\<exists>t b w'. w_now w \<le> t \<and> t \<le> w_now w' \<and>
    release_idempotency_reservation R cx req key (Some r) w = (Inr b, w') \<and>
    b = (kv (w_redis w) t (idem_store_key key) = Some raw) \<and>
    (\<forall>t' \<ge> w_now w'. kv (w_redis w') t' (idem_store_key key) =
       (if b then None else kv (w_redis w) t' (idem_store_key key))) \<and>
    (\<forall>t' \<ge> w_now w'. \<forall>k. k \<noteq> idem_store_key key \<longrightarrow> kv (w_redis w') t' k = kv (w_redis w) t' k)"
  by (rule reliable_store.release_run [OF assms])

definition foreign_record :: idem_record where
  "foreign_record = \<lparr>ir_fields = fmempty, ir_raw = Some (RText ''mine'')\<rparr>"

theorem release_only_own_witness:
  "\<exists>w'. release_idempotency_reservation fake_redis demo_ctx None ''k'' (Some foreign_record) idem_world = (Inr False, w')"
proof -
  have "ir_raw foreign_record = Some (RText ''mine'')" "rval_nonempty (RText ''mine'')"
    by (simp_all add: foreign_record_def rval_nonempty_def)
  from release_only_own [OF fr.reliable_store_axioms idem_world_ready this, of None "''k''"]
  show ?thesis by auto
qed

end
