(* ===== verification/Order_Service.thy ===== *)
theory Order_Service
  imports Idempotency Breaker
begin

text \<open>
  \<open>app/repository\<close> and \<open>app/service\<close>: the repositories, which turn every exception of the store layer
  into a \<open>StorageException\<close>, the order service, and the service behind the chaos control routes.
  The lock of the service has no counterpart: the model runs one request at a time.
\<close>

section \<open>Repositories\<close>

text \<open>\<open>try: m except Exception as exc: raise StorageException(message) from exc\<close>.\<close>

definition storage_guard :: "string \<Rightarrow> ('w, 'a) prog \<Rightarrow> ('w, 'a) prog" where
  "storage_guard message m = catch m (\<lambda>e. if is_exception e then raise (StorageException message) else raise e)"

definition idem_reserve ::
  "'s redis_ops \<Rightarrow> ctx \<Rightarrow> request option \<Rightarrow> string \<Rightarrow> string \<Rightarrow>
   (('s, 'z) chaos_world_scheme, string \<times> idem_record) prog" where
  "idem_reserve R cx req idem_key payload_fp =
     storage_guard ''idempotency store unavailable'' (reserve_idempotency_key R cx req idem_key payload_fp)"

text \<open>The loop's fuel is enough (\<open>waiting_ends\<close>), so the error for its end is never raised.\<close>

definition idem_wait_for_result ::
  "'s redis_ops \<Rightarrow> ctx \<Rightarrow> request option \<Rightarrow> string \<Rightarrow> string \<Rightarrow>
   (('s, 'z) chaos_world_scheme, string \<times> idem_record) prog" where
  "idem_wait_for_result R cx req idem_key payload_fp =
     bnd (storage_guard ''idempotency store unavailable''
       (wait_for_idempotency_result R cx req idem_key payload_fp)) (\<lambda>x.
     of_option (OtherError ''OutOfFuel'' ''wait_loop'') x)"

definition idem_finalize_success ::
  "'s redis_ops \<Rightarrow> ctx \<Rightarrow> request option \<Rightarrow> string \<Rightarrow> string \<Rightarrow> string \<Rightarrow> int \<Rightarrow> dict \<Rightarrow>
   (('s, 'z) chaos_world_scheme, unit) prog" where
  "idem_finalize_success R cx req idem_key payload_fp order_id response_status response_body =
     storage_guard ''idempotency finalize unavailable''
       (finalize_idempotency_success R cx req idem_key payload_fp order_id response_status (Some response_body))"

definition idem_repo_save_failed ::
  "'s redis_ops \<Rightarrow> ctx \<Rightarrow> request option \<Rightarrow> string \<Rightarrow> string \<Rightarrow> string \<Rightarrow> int \<Rightarrow> dict \<Rightarrow>
   (('s, 'z) chaos_world_scheme, unit) prog" where
  "idem_repo_save_failed R cx req idem_key payload_fp error_message response_status response_body =
     storage_guard ''idempotency store unavailable''
       (idem_save_failed R cx req idem_key payload_fp error_message response_status (Some response_body))"

definition idem_release_reservation ::
  "'s redis_ops \<Rightarrow> ctx \<Rightarrow> request option \<Rightarrow> string \<Rightarrow> idem_record option \<Rightarrow>
   (('s, 'z) chaos_world_scheme, bool) prog" where
  "idem_release_reservation R cx req idem_key rec =
     storage_guard ''idempotency store unavailable'' (release_idempotency_reservation R cx req idem_key rec)"

definition order_repo_get ::
  "'s redis_ops \<Rightarrow> ctx \<Rightarrow> request option \<Rightarrow> string \<Rightarrow> (('s, 'z) chaos_world_scheme, json option) prog" where
  "order_repo_get R cx req order_id =
     storage_guard ''order store unavailable'' (get_order_from_store R cx req order_id)"

definition order_repo_save ::
  "'s redis_ops \<Rightarrow> ctx \<Rightarrow> request option \<Rightarrow> string \<Rightarrow> dict \<Rightarrow> (('s, 'z) chaos_world_scheme, unit) prog" where
  "order_repo_save R cx req order_id doc =
     storage_guard ''order store unavailable'' (put_order_in_store R cx req order_id doc)"

section \<open>Creating an order\<close>

record create_order_command =
  co_item_id :: "string option"
  co_quantity :: int
  co_idempotency_key :: "string option"

text \<open>\<open>try: m except StorageException: k\<close>.\<close>

definition on_storage_error :: "('w, 'a) prog \<Rightarrow> ('w, 'a) prog \<Rightarrow> ('w, 'a) prog" where
  "on_storage_error m k = catch m (\<lambda>e. case e of StorageException _ \<Rightarrow> k | _ \<Rightarrow> raise e)"

definition order_log :: "string \<Rightarrow> string \<Rightarrow> string \<Rightarrow> (string \<times> json) list \<Rightarrow> (('s, 'z) world_scheme, unit) prog" where
  "order_log event level result fs = log_line event level
     ([(''component'', JStr ''order_service''), (''operation'', JStr ''create_order''), (''result'', JStr result)] @ fs)"

definition given :: "string option \<Rightarrow> bool" where
  "given v = (case v of None \<Rightarrow> False | Some s \<Rightarrow> s \<noteq> [])"

text \<open>\<open>OrderService._save_failed\<close>.\<close>

definition order_save_failed ::
  "'s redis_ops \<Rightarrow> ctx \<Rightarrow> request option \<Rightarrow> string \<Rightarrow> string \<Rightarrow> string \<Rightarrow> int \<Rightarrow> dict \<Rightarrow>
   (('s, 'z) chaos_world_scheme, unit) prog" where
  "order_save_failed R cx req idem_key payload_fp error_message response_status response_body =
     on_storage_error
       (thn (idem_repo_save_failed R cx req idem_key payload_fp error_message response_status response_body)
        (metric_inc ''IDEMPOTENCY_FAILED_TOTAL'' []))
       (ret ())"

text \<open>What the idempotency block decides: the response to return at once, or the reservation to go on with.\<close>

datatype idem_decision = Answer response | Proceed bool "idem_record option"

definition answer_replay :: "idem_record \<Rightarrow> (('s, 'z) world_scheme, idem_decision) prog" where
  "answer_replay rec =
     thn (metric_inc ''ORDER_IDEMPOTENT_HIT'' [])
     (thn (metric_inc ''IDEMPOTENCY_REPLAY_TOTAL'' [])
     (bnd (build_replay_response rec) (\<lambda>(status, body).
      ret (Answer \<lparr>rp_status = status, rp_body = JObj body\<rparr>))))"

definition answer_conflict :: "(('s, 'z) world_scheme, idem_decision) prog" where
  "answer_conflict =
     thn (metric_inc ''ORDER_IDEMPOTENT_CONFLICT'' [])
     (thn (metric_inc ''IDEMPOTENCY_CONFLICT_TOTAL'' [])
     (ret (Answer (reply 409 [(''error'', JStr ''idempotency key reused with different payload'')]))))"

definition idem_decide ::
  "'s redis_ops \<Rightarrow> ctx \<Rightarrow> request option \<Rightarrow> string \<Rightarrow> string \<Rightarrow> string \<Rightarrow> idem_record \<Rightarrow>
   (('s, 'z) chaos_world_scheme, idem_decision) prog" where
  "idem_decide R cx req k payload_fp state rec =
     (if state = ''replay'' then answer_replay rec
      else if state = ''conflict'' then answer_conflict
      else if state = ''processing'' then
        bnd (idem_wait_for_result R cx req k payload_fp) (\<lambda>(waited_state, waited_record).
        if waited_state = ''replay'' then answer_replay waited_record
        else if waited_state = ''conflict'' then answer_conflict
        else
          thn (metric_inc ''ORDER_IDEMPOTENT_PROCESSING'' [])
          (thn (metric_inc ''IDEMPOTENCY_PROCESSING_TOTAL'' [])
          (ret (Answer (reply 202 [(''status'', JStr ''processing''), (''idempotent'', JBool True)])))))
      else ret (Proceed True (Some rec)))"

definition idem_stage ::
  "'s redis_ops \<Rightarrow> ctx \<Rightarrow> request option \<Rightarrow> string option \<Rightarrow> string \<Rightarrow>
   (('s, 'z) chaos_world_scheme, idem_decision) prog" where
  "idem_stage R cx req key payload_fp =
     (if \<not> given key then ret (Proceed False None)
      else
        thn (metric_inc ''IDEMPOTENCY_REQUEST_TOTAL'' [])
        (on_storage_error
          (bnd (idem_reserve R cx req (the key) payload_fp) (\<lambda>(state, rec).
           idem_decide R cx req (the key) payload_fp state rec))
          (ret (Proceed False None))))"

text \<open>The optional breaker's operations.\<close>

definition breaker_failed :: "'s redis_ops \<Rightarrow> ctx \<Rightarrow> breaker option \<Rightarrow> (('s, 'z) world_scheme, unit) prog" where
  "breaker_failed R cx b = (case b of None \<Rightarrow> ret () | Some br \<Rightarrow> thn (cb_record_failure R cx br) (ret ()))"

definition breaker_succeeded ::
  "'s redis_ops \<Rightarrow> ctx \<Rightarrow> request option \<Rightarrow> breaker option \<Rightarrow> (('s, 'z) world_scheme, unit) prog" where
  "breaker_succeeded R cx req b =
     (case b of None \<Rightarrow> ret () | Some br \<Rightarrow> thn (cb_record_success R cx req br) (ret ()))"

definition order_document :: "string \<Rightarrow> int \<Rightarrow> dict" where
  "order_document item_id quantity = dict_of
     [(''item_id'', JStr item_id), (''quantity'', JInt quantity), (''status'', JStr ''created'')]"

definition error_body :: "string \<Rightarrow> dict" where
  "error_body message = dict_of [(''error'', JStr message)]"

text \<open>
  The protected work: \<open>Inl\<close> the response of a failure, \<open>Inr\<close> the new order's id. A failure is recorded
  by the breaker and, for the owner of the idempotency key, saved to be replayed.
\<close>

definition fail_order ::
  "'s redis_ops \<Rightarrow> ctx \<Rightarrow> request option \<Rightarrow> breaker option \<Rightarrow> string option \<Rightarrow> bool \<Rightarrow> string \<Rightarrow> string \<Rightarrow> int \<Rightarrow> dict \<Rightarrow>
   (('s, 'z) chaos_world_scheme, unit) prog \<Rightarrow> (('s, 'z) chaos_world_scheme, response + string) prog" where
  "fail_order R cx req b key reserved fp message status body logging =
     thn (breaker_failed R cx b)
     (thn logging
     (thn (whenp (given key \<and> reserved) (order_save_failed R cx req (the key) fp message status body))
     (ret (Inl \<lparr>rp_status = status, rp_body = JObj body\<rparr>))))"

definition order_work ::
  "'s redis_ops \<Rightarrow> ctx \<Rightarrow> request option \<Rightarrow> breaker option \<Rightarrow> string option \<Rightarrow> bool \<Rightarrow> string \<Rightarrow> string \<Rightarrow> int \<Rightarrow> rat \<Rightarrow>
   (('s, 'z) chaos_world_scheme, response + string) prog" where
  "order_work R cx req b key reserved fp item_id quantity processing_time =
     thn (before_service_operation R cx ''service'')
     (thn (py_sleep processing_time)
     (bnd py_random (\<lambda>u.
      if u < INVENTORY_BUSY_PROB cx then
        thn (metric_inc ''ORDER_REJECTED'' [])
        (fail_order R cx req b key reserved fp ''inventory busy'' 503 (error_body ''inventory busy'')
          (order_log ''inventory_busy'' ''WARNING'' ''failed'' [(''path'', JStr ''/order'')]))
      else
        bnd py_uuid (\<lambda>order_id.
        bnd (on_storage_error
               (thn (order_repo_save R cx req order_id (order_document item_id quantity)) (ret True)) (ret False)) (\<lambda>saved.
        if \<not> saved then
          fail_order R cx req b key reserved fp ''order store unavailable'' 503 (error_body ''order store unavailable'') (ret ())
        else thn (breaker_succeeded R cx req b) (ret (Inr order_id)))))))"

text \<open>
  The two handlers around the work differ in the status they save: 503 for a dropped call, the
  exception's own otherwise. The exceptions come from \<open>before_service_operation\<close>, before the breaker
  has recorded anything.
\<close>

definition chaos_body :: "string \<Rightarrow> string \<Rightarrow> string \<Rightarrow> dict" where
  "chaos_body message i ft = (case fault_response message i ft of JObj d \<Rightarrow> d | _ \<Rightarrow> fmempty)"

definition guarded_work ::
  "'s redis_ops \<Rightarrow> ctx \<Rightarrow> request option \<Rightarrow> breaker option \<Rightarrow> string option \<Rightarrow> bool \<Rightarrow> string \<Rightarrow> string \<Rightarrow> int \<Rightarrow> rat \<Rightarrow>
   (('s, 'z) chaos_world_scheme, response + string) prog" where
  "guarded_work R cx req b key reserved fp item_id quantity processing_time =
     catch (order_work R cx req b key reserved fp item_id quantity processing_time) (\<lambda>e.
       case e of
         ChaosTriggered dropped i ft status message \<Rightarrow>
           thn (breaker_failed R cx b)
           (thn (whenp (given key \<and> reserved)
             (order_save_failed R cx req (the key) fp message (if dropped then 503 else status) (chaos_body message i ft)))
           (ret (Inl \<lparr>rp_status = status, rp_body = JObj (chaos_body message i ft)\<rparr>)))
       | _ \<Rightarrow> raise e)"

definition order_done :: "string \<Rightarrow> (('s, 'z) world_scheme, response) prog" where
  "order_done order_id =
     thn (metric_inc ''ORDER_COUNT'' [])
     (thn (order_log ''order_created'' ''INFO'' ''success'' [(''order_id'', JStr order_id)])
     (ret (reply 201 [(''status'', JStr ''ok''), (''order_id'', JStr order_id)])))"

definition finish_order ::
  "'s redis_ops \<Rightarrow> ctx \<Rightarrow> request option \<Rightarrow> string option \<Rightarrow> string \<Rightarrow> string \<Rightarrow>
   (('s, 'z) chaos_world_scheme, response) prog" where
  "finish_order R cx req key fp order_id =
     thn (whenp (given key) (on_storage_error
       (idem_finalize_success R cx req (the key) fp order_id 201
         (dict_of [(''status'', JStr ''ok''), (''order_id'', JStr order_id)])) (ret ())))
     (order_done order_id)"

definition timeout_protected ::
  "'s redis_ops \<Rightarrow> ctx \<Rightarrow> request option \<Rightarrow> breaker option \<Rightarrow> string option \<Rightarrow> bool \<Rightarrow> idem_record option \<Rightarrow> rat \<Rightarrow> rat \<Rightarrow>
   (('s, 'z) chaos_world_scheme, response) prog" where
  "timeout_protected R cx req b key reserved rec elapsed processing_time =
     thn (case b of None \<Rightarrow> ret () | Some br \<Rightarrow> cb_record_timeout br)
     (thn (metric_inc ''ORDER_TIMEOUT'' [])
     (thn (metric_inc ''ORDER_DEGRADED'' [])
     (thn (order_log ''order_timeout_protected'' ''INFO'' ''queued''
        [(''elapsed_ms'', JFloat (round3 (elapsed * 1000))), (''planned_work_ms'', JFloat (round3 (processing_time * 1000))),
         (''budget_ms'', JInt (BUSINESS_TIMEOUT_MS cx))])
     (thn (whenp (given key \<and> reserved \<and> rec \<noteq> None)
        (on_storage_error (thn (idem_release_reservation R cx req (the key) rec) (ret ())) (ret ())))
     (ret (reply 202 [(''status'', JStr ''queued''), (''reason'', JStr ''timeout protected'')]))))))"

text \<open>The second half of \<open>create_order\<close>: deadline, work and completion.\<close>

definition process_order ::
  "'s redis_ops \<Rightarrow> ctx \<Rightarrow> request_context \<Rightarrow> breaker option \<Rightarrow> create_order_command \<Rightarrow> string \<Rightarrow> bool \<Rightarrow> idem_record option \<Rightarrow>
   (('s, 'z) chaos_world_scheme, response) prog" where
  "process_order R cx rx b cmd fp reserved rec =
     (let req = Some (rx_request rx); key = co_idempotency_key cmd in
      bnd (py_uniform (1 / 100) (5 / 100)) (\<lambda>processing_time.
      bnd py_time (\<lambda>now.
      let elapsed = now - rx_started_at rx in
      if ENABLE_RESILIENCE cx \<and> order_deadline_exceeded elapsed processing_time (BUSINESS_TIMEOUT_MS cx) then
        timeout_protected R cx req b key reserved rec elapsed processing_time
      else
        bnd (guarded_work R cx req b key reserved fp (the (co_item_id cmd)) (co_quantity cmd) processing_time) (\<lambda>res.
        case res of Inl response \<Rightarrow> ret response | Inr order_id \<Rightarrow> finish_order R cx req key fp order_id))))"

definition valid_order :: "create_order_command \<Rightarrow> bool" where
  "valid_order cmd = (given (co_item_id cmd) \<and> co_quantity cmd > 0)"

definition order_decided ::
  "'s redis_ops \<Rightarrow> ctx \<Rightarrow> request_context \<Rightarrow> breaker option \<Rightarrow> create_order_command \<Rightarrow> string \<Rightarrow> idem_decision \<Rightarrow>
   (('s, 'z) chaos_world_scheme, response) prog" where
  "order_decided R cx rx b cmd fp d =
     (case d of Answer response \<Rightarrow> ret response
      | Proceed reserved rec \<Rightarrow> process_order R cx rx b cmd fp reserved rec)"

definition admitted_order ::
  "'s redis_ops \<Rightarrow> ctx \<Rightarrow> request_context \<Rightarrow> breaker option \<Rightarrow> create_order_command \<Rightarrow>
   (('s, 'z) chaos_world_scheme, response) prog" where
  "admitted_order R cx rx b cmd =
     (if \<not> valid_order cmd then
        thn (metric_inc ''ORDER_REJECTED'' []) (raise (ValidationException ''invalid request''))
      else
        let fp = idem_payload_fingerprint (the (co_item_id cmd)) (co_quantity cmd) in
        bnd (idem_stage R cx (Some (rx_request rx)) (co_idempotency_key cmd) fp) (order_decided R cx rx b cmd fp))"

definition circuit_rejected :: "'s redis_ops \<Rightarrow> (('s, 'z) chaos_world_scheme, response) prog" where
  "circuit_rejected R =
     thn (metric_inc ''ORDER_CIRCUIT_OPEN'' [])
     (thn (metric_inc ''ORDER_DEGRADED'' [])
     (thn (fi_record_fallback R)
     (thn (order_log ''breaker_open'' ''INFO'' ''queued'' [(''path'', JStr ''/order'')])
     (ret (reply 202 [(''status'', JStr ''queued''), (''reason'', JStr ''circuit open'')])))))"

definition create_order ::
  "'s redis_ops \<Rightarrow> ctx \<Rightarrow> create_order_command \<Rightarrow> request_context \<Rightarrow>
   (('s, 'z) chaos_world_scheme, response) prog" where
  "create_order R cx cmd rx =
     (if \<not> ENABLE_RESILIENCE cx then admitted_order R cx rx None cmd
      else
        bnd (build_circuit_breaker cx) (\<lambda>b0.
        bnd (cb_allow_request R cx (Some (rx_request rx)) b0) (\<lambda>(ok, b).
        if \<not> ok then circuit_rejected R else admitted_order R cx rx (Some b) cmd)))"

section \<open>Reading and cancelling\<close>

definition order_not_found :: response where
  "order_not_found = reply 404 [(''error'', JStr ''order not found'')]"

text \<open>A stored document that is true but no object has no \<open>get\<close>.\<close>

definition get_order ::
  "'s redis_ops \<Rightarrow> ctx \<Rightarrow> request option \<Rightarrow> string \<Rightarrow> (('s, 'z) chaos_world_scheme, response) prog" where
  "get_order R cx req order_id =
     bnd (order_repo_get R cx req order_id) (\<lambda>ov.
     case ov of None \<Rightarrow> ret order_not_found
     | Some v \<Rightarrow>
         if \<not> truthy v then ret order_not_found
         else bnd (as_dict v) (\<lambda>d.
           ret (reply 200 [(''order_id'', JStr order_id), (''item_id'', dget_or d ''item_id'' JNull),
             (''quantity'', dget_or d ''quantity'' JNull), (''status'', dget_or d ''status'' JNull)])))"

definition cancel_order ::
  "'s redis_ops \<Rightarrow> ctx \<Rightarrow> request option \<Rightarrow> string \<Rightarrow> (('s, 'z) chaos_world_scheme, response) prog" where
  "cancel_order R cx req order_id =
     bnd (order_repo_get R cx req order_id) (\<lambda>ov.
     case ov of None \<Rightarrow> ret order_not_found
     | Some v \<Rightarrow>
         if \<not> truthy v then ret order_not_found
         else bnd (as_dict v) (\<lambda>d.
           if dget_or d ''status'' JNull = JStr ''cancelled'' then
             ret (reply 200 [(''status'', JStr ''ok''), (''order_id'', JStr order_id), (''already_cancelled'', JBool True)])
           else
             thn (order_repo_save R cx req order_id (dset ''status'' (JStr ''cancelled'') d))
             (ret (reply 200 [(''status'', JStr ''ok''), (''order_id'', JStr order_id), (''cancelled'', JBool True)]))))"

section \<open>Chaos control\<close>

definition ensure_enabled :: "ctx \<Rightarrow> ('w, unit) prog" where
  "ensure_enabled cx = (if \<not> CHAOS_ENABLED cx then raise (PermissionError ''chaos control disabled'') else ret ())"

definition cc_fault_status :: "'s redis_ops \<Rightarrow> ctx \<Rightarrow> (('s, 'z) chaos_world_scheme, json) prog" where
  "cc_fault_status R cx = thn (ensure_enabled cx) (bnd (list_faults R) build_fault_api_response)"

definition cc_inject_fault ::
  "'s redis_ops \<Rightarrow> ctx \<Rightarrow> string \<Rightarrow> dict \<Rightarrow> int option \<Rightarrow> (('s, 'z) chaos_world_scheme, dict) prog" where
  "cc_inject_fault R cx fault_type params ttl_sec = thn (ensure_enabled cx) (inject_fault R fault_type params ttl_sec)"

definition cc_clear_fault :: "'s redis_ops \<Rightarrow> ctx \<Rightarrow> string \<Rightarrow> (('s, 'z) chaos_world_scheme, bool) prog" where
  "cc_clear_fault R cx fault_type = thn (ensure_enabled cx) (clear_fault R fault_type)"

definition cc_clear_all_faults :: "'s redis_ops \<Rightarrow> ctx \<Rightarrow> (('s, 'z) chaos_world_scheme, int) prog" where
  "cc_clear_all_faults R cx = thn (ensure_enabled cx) (clear_all_faults R)"

definition cc_list_experiments ::
  "'s redis_ops \<Rightarrow> ctx \<Rightarrow> (('s, 'z) chaos_world_scheme, chaos_experiment list) prog" where
  "cc_list_experiments R cx = thn (ensure_enabled cx) (fi_list_experiments R cx)"

definition cc_create_experiment ::
  "'s redis_ops \<Rightarrow> ctx \<Rightarrow> string \<Rightarrow> string \<Rightarrow> dict \<Rightarrow> string \<Rightarrow> dict \<Rightarrow> int \<Rightarrow>
   (('s, 'z) chaos_world_scheme, chaos_experiment) prog" where
  "cc_create_experiment R cx name hypothesis target fault_type params duration =
     thn (ensure_enabled cx) (fi_create_experiment R cx name hypothesis target fault_type params duration)"

definition cc_get_experiment ::
  "'s redis_ops \<Rightarrow> ctx \<Rightarrow> string \<Rightarrow> (('s, 'z) chaos_world_scheme, chaos_experiment option) prog" where
  "cc_get_experiment R cx i = thn (ensure_enabled cx) (fi_get_experiment R cx i)"

definition cc_get_report ::
  "'s redis_ops \<Rightarrow> ctx \<Rightarrow> string \<Rightarrow> (('s, 'z) chaos_world_scheme, dict option) prog" where
  "cc_get_report R cx i = thn (ensure_enabled cx) (fi_get_report R i)"

definition cc_stop_experiment ::
  "'s redis_ops \<Rightarrow> ctx \<Rightarrow> string \<Rightarrow> (('s, 'z) chaos_world_scheme, bool) prog" where
  "cc_stop_experiment R cx i = thn (ensure_enabled cx) (fi_stop_experiment R cx i)"

end
