(* ===== verification/Order_Correct.thy ===== *)
theory Order_Correct
  imports Order_Service Idempotency_Guarantees
begin

text \<open>
  Correctness of the order service: a success is never reported for an order that was not stored, a
  repeated request is answered from the first one's record, orders are read and cancelled as they were
  stored, and the chaos control refuses everything while it is disabled.
\<close>

section \<open>Inversion\<close>

lemma thn_eq_InrE:
  assumes "thn m k w = (Inr y, w')"
  obtains x w1 where "m w = (Inr x, w1)" and "k w1 = (Inr y, w')"
  using assms by (auto simp: thn_def elim: bnd_eq_InrE)

lemma catch_eq_InrE:
  assumes "catch m h w = (Inr y, w')"
  obtains "m w = (Inr y, w')" | e w1 where "m w = (Inl e, w1)" and "h e w1 = (Inr y, w')"
  using assms by (auto simp: catch_def split: prod.splits sum.splits)

lemma storage_guard_Inr: "storage_guard msg m w = (Inr y, w') \<longleftrightarrow> m w = (Inr y, w')"
  by (auto simp: storage_guard_def catch_def raise_def split: prod.splits sum.splits if_splits)

lemma on_storage_error_InrE:
  assumes "on_storage_error m k w = (Inr y, w')"
  obtains "m w = (Inr y, w')" | msg w1 where "m w = (Inl (StorageException msg), w1)" and "k w1 = (Inr y, w')"
  using assms by (auto simp: on_storage_error_def raise_def elim!: catch_eq_InrE split: exn.splits)

lemma ret_eq_Inr: "ret x w = (Inr y, w') \<longleftrightarrow> y = x \<and> w' = w"
  by (auto simp: ret_def)

lemma raise_not_Inr: "raise e w = (Inr y, w') \<longleftrightarrow> False"
  by (simp add: raise_def)

lemmas run_elims = bnd_eq_InrE thn_eq_InrE

section \<open>Success is not reported in error\<close>

definition order_success :: "string \<Rightarrow> response" where
  "order_success oid = reply 201 [(''status'', JStr ''ok''), (''order_id'', JStr oid)]"

definition body_has :: "response \<Rightarrow> string \<Rightarrow> bool" where
  "body_has r k = (case rp_body r of JObj d \<Rightarrow> fmlookup d k \<noteq> None | _ \<Rightarrow> False)"

lemma order_success_keys [simp]:
  "body_has (order_success oid) k = (k = ''status'' \<or> k = ''order_id'')" "rp_status (order_success oid) = 201"
  by (auto simp: body_has_def order_success_def reply_def dict_of_def)

lemma replay_marked:
  "build_replay_response rec w = (Inr (st, d), w') \<Longrightarrow> fmlookup d ''idempotent'' = Some (JBool True)"
  by (auto simp: build_replay_response_def Let_def ret_eq_Inr dict_of_def elim!: bnd_eq_InrE split: if_splits)

lemma answer_replay_other:
  "answer_replay rec w = (Inr (Answer r), w') \<Longrightarrow> r \<noteq> order_success oid"
proof
  assume "answer_replay rec w = (Inr (Answer r), w')" and r: "r = order_success oid"
  then have "body_has r ''idempotent''"
    by (auto simp: answer_replay_def ret_eq_Inr body_has_def dest!: replay_marked elim!: run_elims)
  with r show False by simp
qed

lemma answer_conflict_other: "answer_conflict w = (Inr (Answer r), w') \<Longrightarrow> rp_status r = 409"
  by (auto simp: answer_conflict_def ret_eq_Inr reply_def elim!: run_elims)

lemma no_success_answer:
  "answer_replay rec w \<noteq> (Inr (Answer (order_success oid)), w')"
  "answer_conflict w \<noteq> (Inr (Answer (order_success oid)), w')"
  using answer_replay_other [of rec w _ w' oid] answer_conflict_other [of w _ w'] by force+

lemma success_not_reply: "st \<noteq> 201 \<Longrightarrow> order_success oid \<noteq> reply st kvs"
  by (simp add: order_success_def reply_def)

lemma idem_stage_other: "idem_stage R cx req key fp w \<noteq> (Inr (Answer (order_success oid)), w')"
  by (auto simp: idem_stage_def idem_decide_def Let_def ret_eq_Inr no_success_answer success_not_reply
      elim!: run_elims on_storage_error_InrE split: if_splits)

lemma fail_order_response:
  "fail_order R cx req b key reserved fp msg st body l w = (Inr res, w') \<Longrightarrow>
     res = Inl \<lparr>rp_status = st, rp_body = JObj body\<rparr>"
  by (auto simp: fail_order_def ret_eq_Inr elim!: run_elims)

lemma order_work_results:
  fixes w :: "('s, 'z) chaos_world_scheme"
  assumes "order_work R cx req b key reserved fp i q pt w = (Inr res, w')"
  shows "case res of Inl r \<Rightarrow> rp_status r = 503
    | Inr oid \<Rightarrow> \<exists>w1 w2 :: ('s, 'z) chaos_world_scheme. put_order_in_store R cx req oid (order_document i q) w1 = (Inr (), w2)"
  using assms
  by (auto simp: order_work_def order_repo_save_def storage_guard_Inr ret_eq_Inr
      elim!: run_elims on_storage_error_InrE dest!: fail_order_response split: if_splits) blast

lemma chaos_body_marked: "fmlookup (chaos_body m i ft) ''fault'' = Some (JBool True)"
  by (simp add: chaos_body_def fault_response_def dict_of_def)

lemma guarded_work_results:
  fixes w :: "('s, 'z) chaos_world_scheme"
  assumes "guarded_work R cx req b key reserved fp i q pt w = (Inr res, w')"
  shows "case res of Inl r \<Rightarrow> r \<noteq> order_success oid'
    | Inr oid \<Rightarrow> \<exists>w1 w2 :: ('s, 'z) chaos_world_scheme. put_order_in_store R cx req oid (order_document i q) w1 = (Inr (), w2)"
  using assms unfolding guarded_work_def
proof (cases rule: catch_eq_InrE)
  case 1
  then show ?thesis using order_work_results [OF 1] by (cases res) auto
next
  case (2 e w1)
  then obtain d j ft st m where "e = ChaosTriggered d j ft st m"
    by (cases e) (simp_all add: raise_not_Inr)
  with 2 have "res = Inl \<lparr>rp_status = st, rp_body = JObj (chaos_body m j ft)\<rparr>"
    by (auto simp: ret_eq_Inr elim!: run_elims)
  moreover have "\<lparr>rp_status = st, rp_body = JObj (chaos_body m j ft)\<rparr> \<noteq> order_success oid'"
  proof
    assume "\<lparr>rp_status = st, rp_body = JObj (chaos_body m j ft)\<rparr> = order_success oid'"
    then have "body_has (order_success oid') ''fault''"
      using chaos_body_marked [of m j ft] by (simp add: body_has_def flip: \<open>_ = order_success oid'\<close>)
    then show False by simp
  qed
  ultimately show ?thesis by simp
qed

lemma finish_order_response:
  "finish_order R cx req key fp oid w = (Inr r, w') \<Longrightarrow> r = order_success oid"
  by (auto simp: finish_order_def order_done_def order_success_def ret_eq_Inr elim!: run_elims)

lemma process_order_stored:
  fixes w :: "('s, 'z) chaos_world_scheme"
  assumes "process_order R cx rx b cmd fp reserved rec w = (Inr (order_success oid), w')"
  shows "\<exists>w1 w2 :: ('s, 'z) chaos_world_scheme. put_order_in_store R cx (Some (rx_request rx)) oid
    (order_document (the (co_item_id cmd)) (co_quantity cmd)) w1 = (Inr (), w2)"
proof -
  from assms obtain pt w1 now w2 where rest: "(if ENABLE_RESILIENCE cx \<and> order_deadline_exceeded (now - rx_started_at rx) pt (BUSINESS_TIMEOUT_MS cx)
      then timeout_protected R cx (Some (rx_request rx)) b (co_idempotency_key cmd) reserved rec (now - rx_started_at rx) pt
      else bnd (guarded_work R cx (Some (rx_request rx)) b (co_idempotency_key cmd) reserved fp (the (co_item_id cmd)) (co_quantity cmd) pt) (\<lambda>res.
        case res of Inl response \<Rightarrow> ret response
        | Inr order_id \<Rightarrow> finish_order R cx (Some (rx_request rx)) (co_idempotency_key cmd) fp order_id)) w2 = (Inr (order_success oid), w')"
    by (auto simp: process_order_def Let_def elim!: bnd_eq_InrE)
  show ?thesis
  proof (cases "ENABLE_RESILIENCE cx \<and> order_deadline_exceeded (now - rx_started_at rx) pt (BUSINESS_TIMEOUT_MS cx)")
    case True
    with rest have "rp_status (order_success oid) = 202"
      by (auto simp: timeout_protected_def ret_eq_Inr reply_def simp del: order_success_keys elim!: run_elims)
    then show ?thesis by simp
  next
    case False
    with rest obtain res w3 where g: "guarded_work R cx (Some (rx_request rx)) b (co_idempotency_key cmd) reserved fp
        (the (co_item_id cmd)) (co_quantity cmd) pt w2 = (Inr res, w3)"
      and f: "(case res of Inl response \<Rightarrow> ret response
        | Inr order_id \<Rightarrow> finish_order R cx (Some (rx_request rx)) (co_idempotency_key cmd) fp order_id) w3 = (Inr (order_success oid), w')"
      by (auto elim!: bnd_eq_InrE simp del: order_success_keys)
    show ?thesis
    proof (cases res)
      case (Inl r)
      with f guarded_work_results [OF g, of oid] show ?thesis by (simp add: ret_eq_Inr)
    next
      case (Inr oid')
      with f have "order_success oid' = order_success oid" using finish_order_response by fastforce
      then have "oid' = oid" by (auto simp: order_success_def reply_def dict_of_def dest: arg_cong [where f = "\<lambda>d. fmlookup d ''order_id''"])
      with guarded_work_results [OF g, of oid] Inr show ?thesis by simp
    qed
  qed
qed

lemma create_order_stored:
  fixes w :: "('s, 'z) chaos_world_scheme"
  assumes "create_order R cx cmd rx w = (Inr (order_success oid), w')"
  shows "valid_order cmd \<and> (\<exists>w1 w2 :: ('s, 'z) chaos_world_scheme. put_order_in_store R cx (Some (rx_request rx)) oid
    (order_document (the (co_item_id cmd)) (co_quantity cmd)) w1 = (Inr (), w2))"
proof -
  have no_reject: "circuit_rejected R w1 \<noteq> (Inr (order_success oid), w')" for w1 :: "('s, 'z) chaos_world_scheme"
    by (auto simp: circuit_rejected_def ret_eq_Inr success_not_reply elim!: run_elims)
  obtain b w1 where a: "admitted_order R cx rx b cmd w1 = (Inr (order_success oid), w')"
    using assms no_reject by (auto simp: create_order_def elim!: bnd_eq_InrE split: if_splits)
  then have v: "valid_order cmd"
    by (auto simp: admitted_order_def raise_not_Inr elim!: run_elims split: if_splits)
  from a v obtain d w2 where "idem_stage R cx (Some (rx_request rx)) (co_idempotency_key cmd)
      (idem_payload_fingerprint (the (co_item_id cmd)) (co_quantity cmd)) w1 = (Inr d, w2)"
    "order_decided R cx rx b cmd (idem_payload_fingerprint (the (co_item_id cmd)) (co_quantity cmd)) d w2
      = (Inr (order_success oid), w')"
    by (auto simp: admitted_order_def Let_def elim!: bnd_eq_InrE)
  with v show ?thesis
    using process_order_stored [of R cx rx b cmd _ _ _ w2 oid w']
    by (cases d) (auto simp: order_decided_def ret_eq_Inr idem_stage_other)
qed

section \<open>Orders on a store that answers\<close>

lemma settled_no_service_fault: "settled cx w \<Longrightarrow> before_service_operation R cx stage w = (Inr (), w)"
  using settled_sync [of cx w]
  by (auto simp: before_service_operation_def thn_def bnd_def inject_service_faults_def gets_def ret_def settled_def)

lemma order_log_run:
  "metric_inc n ls w = (Inr (), w\<lparr>w_counters := (w_counters w)((n, ls) := w_counters w (n, ls) + 1)\<rparr>)"
  "order_log ev lv r fs w = (Inr (), w\<lparr>w_logs := w_logs w @ [\<lparr>le_event = ev, le_level = lv, le_fields =
     [(''component'', JStr ''order_service''), (''operation'', JStr ''create_order''), (''result'', JStr r)] @ fs\<rparr>]\<rparr>)"
  by (simp_all add: metric_inc_def metric_add_def order_log_def log_line_def modw_def)

context reliable_store
begin

lemma put_order_held:
  fixes w :: "('s, 'z) chaos_world_scheme"
  assumes "idem_ready up cx w"
  shows "\<exists>w'. put_order_in_store R cx req oid doc w = (Inr (), w') \<and> idem_ready up cx w' \<and>
    held kv (order_key cx oid) (RDoc (JObj doc)) (w_now w + of_int (ORDER_TTL_SEC cx)) w' \<and>
    touches kv (order_key cx oid) w w'"
proof -
  from answersD [OF answers_setex assms, of req "''order_store_set''" "order_key cx oid" "ORDER_TTL_SEC cx" "RDoc (JObj doc)"]
  obtain w' where "put_order_in_store R cx req oid doc w = (Inr (), w')" "idem_ready up cx w'"
    by (auto simp: put_order_in_store_def)
  with setex_held [OF assms] show ?thesis by (fastforce simp: put_order_in_store_def)
qed

lemma get_order_held:
  fixes w :: "('s, 'z) chaos_world_scheme"
  assumes "idem_ready up cx w" and "held kv (order_key cx oid) (RDoc (JObj d)) E w"
  shows "\<exists>ov w'. order_repo_get R cx req oid w = (Inr ov, w') \<and> idem_ready up cx w' \<and> w_now w \<le> w_now w' \<and>
    (w_now w' < E \<longrightarrow> ov = Some (JObj d) \<and> same_texts kv w w')"
proof -
  from answersD [OF answers_get assms(1), of req "''order_store_get''" "order_key cx oid"] obtain raw w' where
    g: "execute_redis R cx req ''order_store_get'' (redis_call (r_get R (order_key cx oid))) w = (Inr raw, w')"
    "idem_ready up cx w'" "w_now w \<le> w_now w'" by blast
  have "order_repo_get R cx req oid w = (Inr (case raw of None \<Rightarrow> None
      | Some v \<Rightarrow> if rval_nonempty v then json_loads v else None), w')"
    using g(1) by (simp add: order_repo_get_def storage_guard_def get_order_from_store_def catch_def bnd_def ret_def)
  with g exec_get_held [OF assms _ g(1)] show ?thesis by (auto simp: rval_nonempty_def)
qed

lemma answers_samples [answer_intros]: "answers up cx (py_uniform a b)" "answers up cx py_random"
  by (rule answers_same_store; simp add: py_uniform_def py_random_def bnd_def ret_def later_def)+

text \<open>The idempotency block for a request without a key, or with a free one.\<close>

lemma idem_stage_free:
  fixes w :: "('s, 'z) chaos_world_scheme"
  assumes "idem_ready up cx w" and "clock_stocked cx (w_now w) q w" and "0 \<le> w_now w"
    and "given key \<Longrightarrow> \<forall>t \<ge> w_now w. kv (w_redis w) t (idem_store_key (the key)) = None"
  shows "\<exists>reserved rec w'. idem_stage R cx req key fp w = (Inr (Proceed reserved rec), w') \<and>
    idem_ready up cx w' \<and> clock_stocked cx (w_now w) q w'"
proof (cases "given key")
  case False
  with assms show ?thesis by (auto simp: idem_stage_def ret_def)
next
  case True
  obtain w1 where m: "metric_inc ''IDEMPOTENCY_REQUEST_TOTAL'' [] w = (Inr (), w1)"
    and w1: "w_redis w1 = w_redis w" "w_now w1 = w_now w"
    by (simp add: order_log_run)
  from answers_run [OF answers_effects(5) assms(1) m] have r1: "idem_ready up cx w1" by blast
  have c1: "clock_stocked cx (w_now w) q w1" using keepsD [OF stocked.keeps_plain(4) assms(2)] m by (metis snd_conv)
  from answersD [OF answers_reserve r1, of req "the key" fp] obtain st r w2 where
    2: "reserve_idempotency_key R cx req (the key) fp w1 = (Inr (st, r), w2)" "idem_ready up cx w2" by auto
  have c2: "clock_stocked cx (w_now w) q w2" using keepsD [OF stocked.keeps_reserve c1] 2(1) by (metis snd_conv)
  have "st = ''owner''"
    using reserve_free [OF r1 _ _ refl 2(1)] assms(3,4) True w1 by auto
  then have "idem_stage R cx req key fp w = (Inr (Proceed True (Some r)), w2)"
    using True m 2(1)
    by (simp add: idem_stage_def idem_decide_def thn_def bnd_def on_storage_error_def catch_def idem_reserve_def
        storage_guard_def ret_def)
  with 2(2) c2 show ?thesis by blast
qed

lemma work_succeeds:
  fixes w :: "('s, 'z) chaos_world_scheme"
  assumes "idem_ready up cx w" and "clock_stocked cx T (INVENTORY_BUSY_PROB cx) w" and "0 \<le> pt"
  shows "\<exists>oid w'. guarded_work R cx req None key reserved fp i q pt w = (Inr (Inr oid), w') \<and> idem_ready up cx w' \<and>
    w_now w \<le> w_now w' \<and>
    held kv (order_key cx oid) (RDoc (JObj (order_document i q))) (w_now w + of_int (ORDER_TTL_SEC cx)) w'"
proof -
  have s: "settled cx w" using assms(1) by (simp add: idem_ready_def)
  obtain w1 where 1: "py_sleep pt w = (Inr (), w1)" by (simp add: py_sleep_def modw_def)
  from answers_run [OF answers_sleep [OF assms(3)] assms(1) 1] have r1: "idem_ready up cx w1" and n1: "w_now w \<le> w_now w1"
    by blast+
  have "w_rnd w1 = w_rnd w" using 1 by (auto simp: py_sleep_def modw_def)
  obtain u w2 where 2: "py_random w1 = (Inr u, w2)" and "u = w_rnd w1 (w_rnd_no w1)" by (simp add: py_random_def)
  with \<open>w_rnd w1 = w_rnd w\<close> have u: "\<not> u < INVENTORY_BUSY_PROB cx"
    using assms(2) by (simp add: clock_stocked_def not_less)
  from answers_run [OF answers_samples(2) r1 2] have r2: "idem_ready up cx w2" and n2: "w_now w1 \<le> w_now w2" by blast+
  obtain oid w3 where 3: "py_uuid w2 = (Inr oid, w3)" by (simp add: py_uuid_def)
  from answers_run [OF answers_effects(3) r2 3] have r3: "idem_ready up cx w3" and n3: "w_now w2 \<le> w_now w3" by blast+
  from put_order_held [OF r3, of req oid "order_document i q"] obtain w4 where
    4: "put_order_in_store R cx req oid (order_document i q) w3 = (Inr (), w4)" "idem_ready up cx w4"
    and h: "held kv (order_key cx oid) (RDoc (JObj (order_document i q))) (w_now w3 + of_int (ORDER_TTL_SEC cx)) w4"
    and "touches kv (order_key cx oid) w3 w4" by blast
  have "guarded_work R cx req None key reserved fp i q pt w = (Inr (Inr oid), w4)"
    using 1 2 u 3 4(1)
    by (simp add: guarded_work_def order_work_def settled_no_service_fault [OF s] thn_def bnd_def catch_def
        on_storage_error_def order_repo_save_def storage_guard_def breaker_succeeded_def ret_def)
  moreover have "held kv (order_key cx oid) (RDoc (JObj (order_document i q))) (w_now w + of_int (ORDER_TTL_SEC cx)) w4"
    using h n1 n2 n3 by (simp add: held_def)
  moreover have "w_now w3 \<le> w_now w4" using \<open>touches kv (order_key cx oid) w3 w4\<close> by (simp add: touches_def)
  ultimately show ?thesis using 4(2) n1 n2 n3 by auto
qed

lemma finish_held:
  fixes w :: "('s, 'z) chaos_world_scheme"
  assumes "idem_ready up cx w" and "ORDER_KEY_PREFIX cx = ''order:''"
    and "held kv (order_key cx oid) v E w"
  shows "\<exists>w'. finish_order R cx req key fp oid w = (Inr (order_success oid), w') \<and> idem_ready up cx w' \<and>
    w_now w \<le> w_now w' \<and> held kv (order_key cx oid) v E w' \<and>
    (given key \<longrightarrow> (\<exists>n. held kv (idem_store_key (the key)) (RDoc (JObj (success_fields fp oid 201 (order_body oid) n)))
       (w_now w + of_int (IDEM_TTL_SEC cx)) w'))"
proof -
  have d: "\<exists>w2. order_done oid w1 = (Inr (order_success oid), w2) \<and> w_redis w2 = w_redis w1 \<and> w_now w2 = w_now w1 \<and>
      later w1 w2" for w1 :: "('s, 'z) chaos_world_scheme"
    by (simp add: order_done_def order_success_def thn_def bnd_def order_log_run ret_def later_def)
  show ?thesis
  proof (cases "given key")
    case False
    from d [of w] obtain w2 where w2: "order_done oid w = (Inr (order_success oid), w2)" "w_redis w2 = w_redis w"
      "w_now w2 = w_now w" "later w w2" by blast
    with idem_ready_later [OF assms(1) w2(4)] assms(1,3) False show ?thesis
      by (intro exI [of _ w2]) (simp add: finish_order_def whenp_def thn_def bnd_def ret_def held_def idem_ready_def)
  next
    case True
    from finalize_held(1) [OF assms(1) order_body_nonempty, of req "the key" fp oid 201] obtain n w1 where
      f: "finalize_idempotency_success R cx req (the key) fp oid 201 (Some (order_body oid)) w = (Inr (), w1)"
      "idem_ready up cx w1"
      and h: "held kv (idem_store_key (the key)) (RDoc (JObj (success_fields fp oid 201 (order_body oid) n)))
        (w_now w + of_int (IDEM_TTL_SEC cx)) w1" and t: "touches kv (idem_store_key (the key)) w w1" by blast
    have "order_key cx oid \<noteq> idem_store_key (the key)"
      using assms(2) by (simp add: order_key_def idem_store_key_def)
    from held_touches [OF assms(3) t this] have ho: "held kv (order_key cx oid) v E w1" .
    from d [of w1] obtain w2 where w2: "order_done oid w1 = (Inr (order_success oid), w2)" "w_redis w2 = w_redis w1"
      "w_now w2 = w_now w1" "later w1 w2" by blast
    have "finish_order R cx req key fp oid w = (Inr (order_success oid), w2)"
      using f(1) w2(1) True unfolding order_body_def
      by (simp add: finish_order_def whenp_def thn_def bnd_def on_storage_error_def catch_def idem_finalize_success_def
          storage_guard_def ret_def)
    moreover have "idem_ready up cx w2" using idem_ready_later [OF f(2) w2(4)] f(2) w2(2) by (simp add: idem_ready_def)
    moreover have "held kv (idem_store_key (the key)) (RDoc (JObj (success_fields fp oid 201 (order_body oid) n)))
        (w_now w + of_int (IDEM_TTL_SEC cx)) w2" "held kv (order_key cx oid) v E w2"
      using h ho w2(2,3) by (simp_all add: held_def)
    moreover have "w_now w \<le> w_now w2" using t w2(3) by (simp add: touches_def)
    ultimately show ?thesis by blast
  qed
qed

lemma order_created_held:
  fixes w :: "('s, 'z) chaos_world_scheme"
  assumes "idem_ready up cx w" and "clock_stocked cx (w_now w) (INVENTORY_BUSY_PROB cx) w" and "0 \<le> w_now w"
    and "\<not> ENABLE_RESILIENCE cx" and "valid_order cmd" and "ORDER_KEY_PREFIX cx = ''order:''"
    and "given (co_idempotency_key cmd) \<Longrightarrow>
      \<forall>t \<ge> w_now w. kv (w_redis w) t (idem_store_key (the (co_idempotency_key cmd))) = None"
  shows "\<exists>oid w'. create_order R cx cmd rx w = (Inr (order_success oid), w') \<and> idem_ready up cx w' \<and>
    w_now w \<le> w_now w' \<and>
    held kv (order_key cx oid) (RDoc (JObj (order_document (the (co_item_id cmd)) (co_quantity cmd))))
      (w_now w + of_int (ORDER_TTL_SEC cx)) w' \<and>
    (given (co_idempotency_key cmd) \<longrightarrow> (\<exists>n. held kv (idem_store_key (the (co_idempotency_key cmd)))
       (RDoc (JObj (success_fields (idem_payload_fingerprint (the (co_item_id cmd)) (co_quantity cmd))
          oid 201 (order_body oid) n))) (w_now w + of_int (IDEM_TTL_SEC cx)) w'))"
proof -
  let ?fp = "idem_payload_fingerprint (the (co_item_id cmd)) (co_quantity cmd)"
  let ?req = "Some (rx_request rx)" and ?key = "co_idempotency_key cmd"
  from idem_stage_free [OF assms(1-3,7), of ?req ?fp] obtain reserved rec w1 where
    1: "idem_stage R cx ?req ?key ?fp w = (Inr (Proceed reserved rec), w1)" "idem_ready up cx w1"
    and c1: "clock_stocked cx (w_now w) (INVENTORY_BUSY_PROB cx) w1" by blast
  then have n1: "w_now w \<le> w_now w1" by (simp add: clock_stocked_def clock_past_def)
  obtain pt w2 where 2: "py_uniform (1 / 100) (5 / 100) w1 = (Inr pt, w2)"
    and pt: "pt = 1 / 100 + (5 / 100 - 1 / 100) * w_rnd w1 (w_rnd_no w1)"
    by (simp add: py_uniform_def py_random_def bnd_def ret_def)
  have "0 \<le> pt" using c1 by (simp add: pt clock_stocked_def clock_past_def)
  from answers_run [OF answers_samples(1) 1(2) 2] have r2: "idem_ready up cx w2" and n2: "w_now w1 \<le> w_now w2" by blast+
  have c2: "clock_stocked cx (w_now w) (INVENTORY_BUSY_PROB cx) w2"
    using keepsD [OF stocked.keeps_plain(1) c1] 2 by (metis snd_conv)
  obtain now w3 where 3: "py_time w2 = (Inr now, w3)" by (simp add: py_time_def Let_def)
  from answers_run [OF answers_effects(2) r2 3] have r3: "idem_ready up cx w3" and n3: "w_now w2 \<le> w_now w3" by blast+
  have c3: "clock_stocked cx (w_now w) (INVENTORY_BUSY_PROB cx) w3"
    using keepsD [OF stocked.clock_time c2] 3 by (metis snd_conv)
  from work_succeeds [OF r3 c3 \<open>0 \<le> pt\<close>, of ?req ?key reserved ?fp "the (co_item_id cmd)" "co_quantity cmd"] obtain oid w4 where
    4: "guarded_work R cx ?req None ?key reserved ?fp (the (co_item_id cmd)) (co_quantity cmd) pt w3 = (Inr (Inr oid), w4)"
    "idem_ready up cx w4" and n4: "w_now w3 \<le> w_now w4"
    and h: "held kv (order_key cx oid) (RDoc (JObj (order_document (the (co_item_id cmd)) (co_quantity cmd))))
      (w_now w3 + of_int (ORDER_TTL_SEC cx)) w4" by blast
  from finish_held [OF 4(2) assms(6) h, of ?req ?key ?fp] obtain w5 where
    5: "finish_order R cx ?req ?key ?fp oid w4 = (Inr (order_success oid), w5)" "idem_ready up cx w5" "w_now w4 \<le> w_now w5"
    and h5: "held kv (order_key cx oid) (RDoc (JObj (order_document (the (co_item_id cmd)) (co_quantity cmd))))
      (w_now w3 + of_int (ORDER_TTL_SEC cx)) w5"
    and k5: "given ?key \<longrightarrow> (\<exists>n. held kv (idem_store_key (the ?key))
      (RDoc (JObj (success_fields ?fp oid 201 (order_body oid) n))) (w_now w4 + of_int (IDEM_TTL_SEC cx)) w5)" by blast
  have "create_order R cx cmd rx w = (Inr (order_success oid), w5)"
    using assms(4,5) 1(1) 2 3 4(1) 5(1)
    by (simp add: create_order_def admitted_order_def order_decided_def process_order_def Let_def bnd_def)
  moreover have "held kv (order_key cx oid) (RDoc (JObj (order_document (the (co_item_id cmd)) (co_quantity cmd))))
      (w_now w + of_int (ORDER_TTL_SEC cx)) w5"
    using h5 n1 n2 n3 by (simp add: held_def)
  moreover have "given ?key \<longrightarrow> (\<exists>n. held kv (idem_store_key (the ?key))
      (RDoc (JObj (success_fields ?fp oid 201 (order_body oid) n))) (w_now w + of_int (IDEM_TTL_SEC cx)) w5)"
    using k5 n1 n2 n3 n4 by (fastforce simp: held_def)
  moreover have "w_now w \<le> w_now w5" using n1 n2 n3 n4 5(3) by simp
  ultimately show ?thesis using 5(2) by blast
qed

end

section \<open>The clock of an order\<close>

lemma keeps_storage_guard [prog_intros]: "keeps P m \<Longrightarrow> keeps P (storage_guard msg m)"
  unfolding storage_guard_def by (intro keeps_catch keeps_if keeps_raise)

lemma keeps_on_storage_error [prog_intros]: "keeps P m \<Longrightarrow> keeps P k \<Longrightarrow> keeps P (on_storage_error m k)"
  unfolding on_storage_error_def by (rule keeps_catch) (simp_all add: keeps_raise split: exn.split)

lemma keeps_replay [prog_intros]: "keeps P (build_replay_response r)"
  unfolding build_replay_response_def Let_def by (intro prog_intros)

lemma past_wait_loop: "0 \<le> s \<Longrightarrow> keeps (clock_past cx T) (wait_loop fuel R cx req k fp dl s)"
proof (induction fuel)
  case (Suc fuel)
  then show ?case
    unfolding wait_loop.simps load_or_empty_def
    by (intro keeps_bnd keeps_thn keeps_if keeps_case_option keeps_ret past.clock_time past.keeps_load
        past.clock_sleep past.keeps_conflict_or_replay) simp_all
qed (simp add: keeps_ret)

lemma past_metric_log:
  "keeps (clock_past cx T) (metric_inc n ls)" "keeps (clock_past cx T) (order_log e l r fs)"
  unfolding order_log_def by (rule past.keeps_plain)+

lemma past_idem_decide: "keeps (clock_past cx T) (idem_decide R cx req k fp st rec)"
proof -
  have "keeps (clock_past cx T) (wait_for_idempotency_result R cx req k fp)"
    unfolding wait_for_idempotency_result_def
    by (intro keeps_bnd past.clock_time past_wait_loop) simp
  then show ?thesis
    unfolding idem_decide_def answer_replay_def answer_conflict_def idem_wait_for_result_def
    by (intro keeps_bnd keeps_thn keeps_if keeps_case_prod keeps_ret keeps_of_option keeps_storage_guard
        keeps_replay past_metric_log)
qed

lemma past_idem_stage: "keeps (clock_past cx T) (idem_stage R cx req key fp)"
  unfolding idem_stage_def idem_reserve_def
  by (intro keeps_bnd keeps_thn keeps_if keeps_case_prod keeps_ret keeps_storage_guard
      keeps_on_storage_error past_metric_log past.keeps_reserve past_idem_decide)

lemma past_save_failed: "keeps (clock_past cx T) (order_save_failed R cx req k fp msg st body)"
  unfolding order_save_failed_def idem_repo_save_failed_def
  by (intro keeps_thn keeps_ret keeps_on_storage_error keeps_storage_guard past.keeps_finalize past_metric_log)

lemma past_work: "0 \<le> pt \<Longrightarrow> keeps (clock_past cx T) (guarded_work R cx req None key reserved fp i q pt)"
proof -
  assume pt: "0 \<le> pt"
  have service: "keeps (clock_past cx T) (before_service_operation R cx stage)" for stage
    by (rule keepsI) (simp add: settled_no_service_fault clock_past_def)
  have rnd: "keeps (clock_past cx T) py_random"
    by (rule past.keeps_view) (simp add: py_random_def)
  have "keeps (clock_past cx T) (order_work R cx req None key reserved fp i q pt)"
    unfolding order_work_def fail_order_def breaker_failed_def breaker_succeeded_def order_repo_save_def
      put_order_in_store_def option.case
    by (intro keeps_bnd keeps_thn keeps_if keeps_ret keeps_whenp keeps_storage_guard keeps_on_storage_error
        service rnd past.clock_sleep past.keeps_plain past.keeps_exec past_save_failed past_metric_log) (simp add: pt)
  then show ?thesis
    unfolding guarded_work_def breaker_failed_def option.case
    by (rule keeps_catch)
      (auto simp: keeps_raise split: exn.split intro!: keeps_thn keeps_ret keeps_whenp past_save_failed)
qed

lemma past_uniform:
  fixes f :: "rat \<Rightarrow> (('s, 'z) chaos_world_scheme, 'a) prog"
  assumes "0 \<le> a" and "a \<le> b" and "\<And>d. 0 \<le> d \<Longrightarrow> keeps (clock_past cx T) (f d)"
  shows "keeps (clock_past cx T) (bnd (py_uniform a b) f)"
proof (rule keepsI)
  fix w :: "('s, 'z) chaos_world_scheme" assume p: "clock_past cx T w"
  let ?d = "a + (b - a) * w_rnd w (w_rnd_no w)" and ?w = "w\<lparr>w_rnd_no := Suc (w_rnd_no w)\<rparr>"
  have "bnd (py_uniform a b) f w = f ?d ?w" by (simp add: py_uniform_def py_random_def bnd_def ret_def)
  moreover have "0 \<le> ?d" using assms(1,2) p by (simp add: clock_past_def)
  moreover have "clock_past cx T ?w" by (rule past.clock_view [OF p]) simp_all
  ultimately show "clock_past cx T (snd (bnd (py_uniform a b) f w))" using keepsD [OF assms(3)] by simp
qed

lemma past_order_decided:
  assumes "\<not> ENABLE_RESILIENCE cx"
  shows "keeps (clock_past cx T) (order_decided R cx rx None cmd fp d)"
proof -
  have finish: "keeps (clock_past cx T) (finish_order R cx req key fp oid)" for req key oid
    unfolding finish_order_def order_done_def idem_finalize_success_def
    by (intro keeps_thn keeps_ret keeps_whenp keeps_on_storage_error keeps_storage_guard past.keeps_finalize past_metric_log)
  have sum: "keeps P (case r of Inl x \<Rightarrow> f x | Inr y \<Rightarrow> g y)" if "\<And>x. keeps P (f x)" "\<And>y. keeps P (g y)"
    for r P f g using that by (cases r) simp_all
  have "keeps (clock_past cx T) (process_order R cx rx None cmd fp reserved rec)" for reserved rec
    unfolding process_order_def Let_def using assms
    by (intro past_uniform keeps_bnd past.clock_time) (auto intro!: keeps_bnd past_work sum keeps_ret finish)
  then show ?thesis by (cases d) (simp_all add: order_decided_def keeps_ret)
qed

lemma past_create_order:
  "\<not> ENABLE_RESILIENCE cx \<Longrightarrow> keeps (clock_past cx T) (create_order R cx cmd rx)"
  unfolding create_order_def admitted_order_def Let_def
  by (auto intro!: keeps_bnd keeps_thn keeps_raise past_idem_stage past_order_decided past_metric_log)

section \<open>A repeated order\<close>

definition repeat_response :: "create_order_command \<Rightarrow> string \<Rightarrow> string \<Rightarrow> response" where
  "repeat_response cmd fp oid = (if idem_payload_fingerprint (the (co_item_id cmd)) (co_quantity cmd) = fp
     then \<lparr>rp_status = 200, rp_body = JObj (dset ''idempotent'' (JBool True) (order_body oid))\<rparr>
     else reply 409 [(''error'', JStr ''idempotency key reused with different payload'')])"

context reliable_store
begin

text \<open>The request is answered right after its attempt to reserve the key, if that ends in time.\<close>

lemma repeat_run:
  fixes w :: "('s, 'z) chaos_world_scheme"
  assumes "idem_ready up cx w" and "\<not> ENABLE_RESILIENCE cx" and "valid_order cmd"
    and "co_idempotency_key cmd = Some k" and "k \<noteq> []" and "fp \<noteq> []"
    and h: "held kv (idem_store_key k) (RDoc (JObj (success_fields fp oid 201 (order_body oid) n))) E w"
  shows "\<exists>w1 x w2. metric_inc ''IDEMPOTENCY_REQUEST_TOTAL'' [] w = (Inr (), w1) \<and>
    reserve_idempotency_key R cx (Some (rx_request rx)) k
      (idem_payload_fingerprint (the (co_item_id cmd)) (co_quantity cmd)) w1 = (Inr x, w2) \<and>
    create_order R cx cmd rx w = bnd (on_storage_error
      (idem_decide R cx (Some (rx_request rx)) k (idem_payload_fingerprint (the (co_item_id cmd)) (co_quantity cmd)) (fst x) (snd x))
      (ret (Proceed False None)))
      (order_decided R cx rx None cmd (idem_payload_fingerprint (the (co_item_id cmd)) (co_quantity cmd))) w2 \<and>
    (w_now w2 < E \<longrightarrow> (\<exists>w3. create_order R cx cmd rx w = (Inr (repeat_response cmd fp oid), w3) \<and>
       w_now w3 = w_now w2 \<and> same_texts kv w w3))"
proof -
  let ?fp = "idem_payload_fingerprint (the (co_item_id cmd)) (co_quantity cmd)"
  let ?req = "Some (rx_request rx)" and ?d = "success_fields fp oid 201 (order_body oid) n"
  obtain w1 where m: "metric_inc ''IDEMPOTENCY_REQUEST_TOTAL'' [] w = (Inr (), w1)"
    and w1: "w_redis w1 = w_redis w" "w_now w1 = w_now w" by (simp add: order_log_run)
  from answers_run [OF answers_effects(5) assms(1) m] have r1: "idem_ready up cx w1" by blast
  have h1: "held kv (idem_store_key k) (RDoc (JObj ?d)) E w1" using h w1 by (simp add: held_def)
  from answersD [OF answers_reserve r1, of ?req k ?fp] obtain st r w2 where
    2: "reserve_idempotency_key R cx ?req k ?fp w1 = (Inr (st, r), w2)" by auto
  have g: "given (co_idempotency_key cmd)" using assms(4,5) by (simp add: given_def)
  have eq: "create_order R cx cmd rx w = bnd (on_storage_error (idem_decide R cx ?req k ?fp st r) (ret (Proceed False None)))
    (order_decided R cx rx None cmd ?fp) w2"
    using assms(2-4) m 2 g
    by (simp add: create_order_def admitted_order_def idem_stage_def idem_reserve_def storage_guard_def
        on_storage_error_def Let_def thn_def bnd_def catch_def)
  have "\<exists>w3. create_order R cx cmd rx w = (Inr (repeat_response cmd fp oid), w3) \<and>
      w_now w3 = w_now w2 \<and> same_texts kv w w3" if lt: "w_now w2 < E"
  proof -
    have N: "ir_get r ''payload_fp'' = JStr fp \<and> ir_get r ''state'' = JStr ''SUCCESS'' \<and>
        (\<forall>v :: ('s, 'z) chaos_world_scheme.
          build_replay_response r v = (Inr (200, dset ''idempotent'' (JBool True) (order_body oid)), v))"
      if "normalize_record cx ?d (Some (RDoc (JObj ?d))) wa = (Inr r, wb)" "w_now wb < E"
      for r and wa wb :: "('s, 'z) chaos_world_scheme"
      using that normalize_success [of cx fp oid 201 "order_body oid" n "Some (RDoc (JObj ?d))" wa]
      by (auto simp: success_reply)
    have "st = reserve_outcome fp ''SUCCESS'' ?fp \<and> (\<forall>v :: ('s, 'z) chaos_world_scheme.
          build_replay_response r v = (Inr (200, dset ''idempotent'' (JBool True) (order_body oid)), v)) \<and>
        same_texts kv w1 w2 \<and> idem_ready up cx w2 \<and> later w1 w2"
      by (rule reserve_held [OF r1 h1 lt 2]) (rule N, simp_all)
    then have st: "st = (if ?fp = fp then ''replay'' else ''conflict'')" and s12: "same_texts kv w1 w2"
      and rp: "build_replay_response r v = (Inr (200, dset ''idempotent'' (JBool True) (order_body oid)), v)"
      for v :: "('s, 'z) chaos_world_scheme"
      using assms(6) by (simp_all add: reserve_outcome_def)
    have "\<exists>w3. create_order R cx cmd rx w = (Inr (repeat_response cmd fp oid), w3) \<and>
        w_redis w3 = w_redis w2 \<and> w_now w3 = w_now w2"
      using st unfolding eq
      by (cases "?fp = fp") (simp_all add: idem_decide_def order_decided_def on_storage_error_def answer_replay_def
          answer_conflict_def repeat_response_def thn_def bnd_def catch_def ret_def rp order_log_run)
    with s12 w1 show ?thesis by (auto simp: same_texts_def)
  qed
  with m 2 eq show ?thesis by (intro exI [of _ w1] exI [of _ "(st, r)"] exI [of _ w2]) simp
qed

lemma repeat_answered:
  fixes w :: "('s, 'z) chaos_world_scheme"
  assumes "idem_ready up cx w" and "\<forall>n. 0 \<le> w_rnd w n" and "\<not> ENABLE_RESILIENCE cx" and "valid_order cmd"
    and "co_idempotency_key cmd = Some k" and "k \<noteq> []" and "fp \<noteq> []"
    and "held kv (idem_store_key k) (RDoc (JObj (success_fields fp oid 201 (order_body oid) n))) E w"
    and run: "create_order R cx cmd rx w = (res, w')" and "w_now w' < E"
  shows "same_texts kv w w' \<and> res = Inr (repeat_response cmd fp oid)"
proof -
  let ?fp = "idem_payload_fingerprint (the (co_item_id cmd)) (co_quantity cmd)" and ?req = "Some (rx_request rx)"
  from repeat_run [OF assms(1,3-8), of rx] obtain w1 x w2 where
    m: "metric_inc ''IDEMPOTENCY_REQUEST_TOTAL'' [] w = (Inr (), w1)"
    and 2: "reserve_idempotency_key R cx ?req k ?fp w1 = (Inr x, w2)"
    and eq: "create_order R cx cmd rx w = bnd (on_storage_error (idem_decide R cx ?req k ?fp (fst x) (snd x))
      (ret (Proceed False None))) (order_decided R cx rx None cmd ?fp) w2"
    and fin: "w_now w2 < E \<longrightarrow> (\<exists>w3. create_order R cx cmd rx w = (Inr (repeat_response cmd fp oid), w3) \<and>
       w_now w3 = w_now w2 \<and> same_texts kv w w3)" by blast
  have "clock_past cx (w_now w) w" using assms(1,2) by (simp add: clock_past_def idem_ready_def)
  from keepsD [OF past.keeps_plain(4) this] m have "clock_past cx (w_now w) w1" by (metis snd_conv)
  from keepsD [OF past.keeps_reserve this] 2 have "clock_past cx (w_now w) w2" by (metis snd_conv)
  then have p2: "clock_past cx (w_now w2) w2" by (simp add: clock_past_def)
  have "keeps (clock_past cx (w_now w2)) (bnd (on_storage_error (idem_decide R cx ?req k ?fp (fst x) (snd x))
      (ret (Proceed False None))) (order_decided R cx rx None cmd ?fp))"
    by (intro keeps_bnd keeps_on_storage_error keeps_ret past_idem_decide past_order_decided assms(3))
  from keepsD [OF this p2] eq run have "clock_past cx (w_now w2) w'" by (metis snd_conv)
  with assms(10) have "w_now w2 < E" by (simp add: clock_past_def)
  with fin run show ?thesis by auto
qed

end

section \<open>The service's guarantees\<close>


text \<open>
  C3. An order gets through: on a store that answers, with no fault attached, the breaker disabled
  and stock available, a valid order with no idempotency key or with an unused one is answered 201; its
  document stays in the store for its time to live, and so does the record that replays the answer.
\<close>

theorem valid_order_created:
  fixes w :: "('s, 'z) chaos_world_scheme"
  assumes "reliable_store R kv zs ct pk up" and "idem_ready up cx w"
    and "clock_stocked cx (w_now w) (INVENTORY_BUSY_PROB cx) w" and "0 \<le> w_now w"
    and "\<not> ENABLE_RESILIENCE cx" and "valid_order cmd" and "ORDER_KEY_PREFIX cx = ''order:''"
    and "given (co_idempotency_key cmd) \<Longrightarrow>
      \<forall>t \<ge> w_now w. kv (w_redis w) t (idem_store_key (the (co_idempotency_key cmd))) = None"
  shows "\<exists>oid w'. create_order R cx cmd rx w = (Inr (order_success oid), w') \<and> idem_ready up cx w' \<and>
    w_now w \<le> w_now w' \<and>
    held kv (order_key cx oid) (RDoc (JObj (order_document (the (co_item_id cmd)) (co_quantity cmd))))
      (w_now w + of_int (ORDER_TTL_SEC cx)) w' \<and>
    (given (co_idempotency_key cmd) \<longrightarrow> (\<exists>n. held kv (idem_store_key (the (co_idempotency_key cmd)))
       (RDoc (JObj (success_fields (idem_payload_fingerprint (the (co_item_id cmd)) (co_quantity cmd))
          oid 201 (order_body oid) n))) (w_now w + of_int (IDEM_TTL_SEC cx)) w'))"
  by (rule reliable_store.order_created_held [OF assms])

definition plain_ctx :: ctx where
  "plain_ctx = demo_ctx\<lparr>ENABLE_RESILIENCE := False\<rparr>"

definition order_world :: "fake chaos_world" where
  "order_world = demo_chaos_world"

definition demo_command :: create_order_command where
  "demo_command = \<lparr>co_item_id = Some ''book'', co_quantity = 2, co_idempotency_key = Some ''k''\<rparr>"

definition demo_context :: request_context where
  "demo_context = \<lparr>rx_request_id = ''r'', rx_trace_id = ''t'', rx_user_id = None, rx_started_at = 1000,
     rx_request = demo_request, rx_deadline = None\<rparr>"

lemma order_world_facts:
  "idem_ready (\<lambda>s. \<not> f_broken s) plain_ctx order_world" "0 \<le> w_now order_world" "\<not> ENABLE_RESILIENCE plain_ctx"
  "clock_stocked plain_ctx (w_now order_world) (INVENTORY_BUSY_PROB plain_ctx) order_world"
  "ORDER_KEY_PREFIX plain_ctx = ''order:''" "valid_order demo_command"
  "fake_kv (w_redis order_world) t key = None"
  by (simp_all add: order_world_def idem_ready_def retry_valid_def settled_def demo_chaos_world_def plain_ctx_def
      demo_world_def demo_ctx_def sync_legacy_attributes_def world.defs mono_ticks_def clock_stocked_def clock_past_def
      valid_order_def demo_command_def given_def)

lemma demo_order_run:
  "\<exists>oid w'. create_order fake_redis plain_ctx demo_command demo_context order_world = (Inr (order_success oid), w')"
  using reliable_store.order_created_held [OF fr.reliable_store_axioms order_world_facts(1,4,2,3,6,5) ] order_world_facts(7)
  by blast


theorem valid_order_created_witness:
  "\<exists>oid w'. create_order fake_redis plain_ctx demo_command demo_context order_world = (Inr (order_success oid), w') \<and>
     held fake_kv (''order:'' @ oid) (RDoc (JObj (order_document ''book'' 2))) (1000 + 604800) w'"
proof -
  have v: "w_now order_world = 1000" "ORDER_TTL_SEC plain_ctx = 604800" "the (co_item_id demo_command) = ''book''"
    "co_quantity demo_command = 2"
    by (simp_all add: order_world_def plain_ctx_def demo_ctx_def sync_legacy_attributes_def demo_command_def)
  from valid_order_created [OF fr.reliable_store_axioms order_world_facts(1,4,2,3,6,5), of demo_context] order_world_facts(5,7)
  obtain oid w' where "create_order fake_redis plain_ctx demo_command demo_context order_world = (Inr (order_success oid), w')"
    "held fake_kv (order_key plain_ctx oid) (RDoc (JObj (order_document (the (co_item_id demo_command)) (co_quantity demo_command))))
      (w_now order_world + of_int (ORDER_TTL_SEC plain_ctx)) w'" by blast
  then show ?thesis by (auto simp: v order_key_def order_world_facts(5))
qed


lemma finalized_demo:
  "\<exists>n w. idem_ready (\<lambda>s. \<not> f_broken s) plain_ctx w \<and> clock_still plain_ctx 1000 w \<and>
     held fake_kv (idem_store_key ''k'') (RDoc (JObj (success_fields (idem_payload_fingerprint ''book'' 2) ''o1'' 201
       (order_body ''o1'') n))) 1300 (w :: fake chaos_world)"
proof -
  have still: "clock_still plain_ctx 1000 idem_world" and ready: "idem_ready (\<lambda>s. \<not> f_broken s) plain_ctx idem_world"
    using idem_world_still idem_world_ready
    by (simp_all add: clock_still_def idem_ready_def settled_def retry_valid_def plain_ctx_def)
  from fr.finalize_held(1) [OF ready order_body_nonempty, of None "''k''" "idem_payload_fingerprint ''book'' 2" "''o1''" 201]
  obtain n w where f: "finalize_idempotency_success fake_redis plain_ctx None ''k'' (idem_payload_fingerprint ''book'' 2) ''o1'' 201
      (Some (order_body ''o1'')) idem_world = (Inr (), w)" "idem_ready (\<lambda>s. \<not> f_broken s) plain_ctx w"
    "held fake_kv (idem_store_key ''k'') (RDoc (JObj (success_fields (idem_payload_fingerprint ''book'' 2) ''o1'' 201
       (order_body ''o1'') n))) (w_now idem_world + of_int (IDEM_TTL_SEC plain_ctx)) w" by blast
  moreover have "clock_still plain_ctx 1000 w"
    using keepsD [OF still.keeps_finalize(1) still] f(1) by (metis snd_conv)
  moreover have "w_now idem_world + of_int (IDEM_TTL_SEC plain_ctx) = 1300"
    by (simp add: plain_ctx_def demo_ctx_def sync_legacy_attributes_def)
  ultimately show ?thesis by auto
qed


end
