(* ===== verification/Order_Lifecycle.thy ===== *)
theory Order_Lifecycle
  imports Order_Correct Breaker_Correct
begin

text \<open>
  An order after it was created: any sequence of reads and cancellations of a stored order is answered
  as the small machine \<open>order_answers\<close> answers it. And the breaker's side of \<open>create_order\<close>: what an
  invalid request does to the half-open breaker that admits it.
\<close>

section \<open>Sequences of reads and cancellations\<close>

datatype order_call = Read | Cancel

text \<open>The calls on one order: the pause before each, its request and what it asks for.\<close>

fun order_calls ::
  "'s redis_ops \<Rightarrow> ctx \<Rightarrow> string \<Rightarrow> (rat \<times> request option \<times> order_call) list \<Rightarrow>
   (('s, 'z) chaos_world_scheme, response list) prog" where
  "order_calls R cx oid [] = ret []"
| "order_calls R cx oid ((d, req, c) # cs) =
     thn (py_sleep d)
     (bnd (case c of Read \<Rightarrow> get_order R cx req oid | Cancel \<Rightarrow> cancel_order R cx req oid) (\<lambda>r.
      bnd (order_calls R cx oid cs) (\<lambda>rs. ret (r # rs))))"

definition call_pauses_ok :: "(rat \<times> request option \<times> order_call) list \<Rightarrow> bool" where
  "call_pauses_ok cs = list_all (\<lambda>(d, req, c). 0 \<le> d) cs"

text \<open>The machine: its state is the document, cancelling changes its status once.\<close>

definition order_view :: "string \<Rightarrow> dict \<Rightarrow> response" where
  "order_view oid d = reply 200 [(''order_id'', JStr oid), (''item_id'', dget_or d ''item_id'' JNull),
     (''quantity'', dget_or d ''quantity'' JNull), (''status'', dget_or d ''status'' JNull)]"

definition order_cancelled :: "string \<Rightarrow> string \<Rightarrow> response" where
  "order_cancelled oid mark = reply 200 [(''status'', JStr ''ok''), (''order_id'', JStr oid), (mark, JBool True)]"

fun order_answers :: "string \<Rightarrow> dict \<Rightarrow> order_call list \<Rightarrow> response list" where
  "order_answers oid d [] = []"
| "order_answers oid d (Read # cs) = order_view oid d # order_answers oid d cs"
| "order_answers oid d (Cancel # cs) =
     (if dget_or d ''status'' JNull = JStr ''cancelled''
      then order_cancelled oid ''already_cancelled'' # order_answers oid d cs
      else order_cancelled oid ''cancelled'' # order_answers oid (dset ''status'' (JStr ''cancelled'') d) cs)"

context clock_invariant
begin

lemma keeps_order_store [prog_intros]:
  "keeps P (order_repo_get R cx req oid)" "keeps P (order_repo_save R cx req oid doc)"
  unfolding order_repo_get_def order_repo_save_def get_order_from_store_def put_order_in_store_def
  by (intro prog_intros keeps_storage_guard)+

lemma keeps_order_read [prog_intros]: "keeps P (get_order R cx req oid)" "keeps P (cancel_order R cx req oid)"
  unfolding get_order_def cancel_order_def by (intro prog_intros)+

lemma keeps_order_calls:
  assumes "list_all (\<lambda>(d, req, c). d \<in> S) cs"
  shows "keeps P (order_calls R cx oid cs)"
  using assms
proof (induction cs)
  case (Cons x cs)
  obtain d req c where "x = (d, req, c)" by (cases x)
  with Cons show ?case by (cases c) (auto intro!: prog_intros)
qed (simp add: keeps_ret)

end

context reliable_store
begin

lemma get_order_run:
  fixes w :: "('s, 'z) chaos_world_scheme"
  assumes "idem_ready up cx w" and "held kv (order_key cx oid) (RDoc (JObj d)) E w" and "d \<noteq> fmempty"
    and "get_order R cx req oid w = (out, w')" and "w_now w' < E"
  shows "out = Inr (order_view oid d) \<and> idem_ready up cx w' \<and> held kv (order_key cx oid) (RDoc (JObj d)) E w' \<and>
    w_now w \<le> w_now w'"
proof -
  from get_order_held [OF assms(1,2), of req] obtain ov w1 where
    g: "order_repo_get R cx req oid w = (Inr ov, w1)" "idem_ready up cx w1" "w_now w \<le> w_now w1"
    and v: "w_now w1 < E \<longrightarrow> ov = Some (JObj d) \<and> same_texts kv w w1" by blast
  have "w1 = w'" using assms(4) g(1)
    by (auto simp: get_order_def bnd_def ret_def as_dict_def raise_def split: option.splits if_splits json.splits)
  with g v assms(3-5) show ?thesis
    by (auto simp: get_order_def bnd_def ret_def as_dict_def order_view_def intro: held_same [OF assms(2)])
qed

lemma cancel_order_run:
  fixes w :: "('s, 'z) chaos_world_scheme"
  assumes "idem_ready up cx w" and "held kv (order_key cx oid) (RDoc (JObj d)) E w" and "d \<noteq> fmempty"
    and "cancel_order R cx req oid w = (out, w')" and "w_now w' < E"
  shows "\<exists>d' E'. out = Inr (hd (order_answers oid d [Cancel])) \<and> idem_ready up cx w' \<and>
    held kv (order_key cx oid) (RDoc (JObj d')) E' w' \<and> d' \<noteq> fmempty \<and>
    min E (w_now w + of_int (ORDER_TTL_SEC cx)) \<le> E' \<and> w_now w \<le> w_now w' \<and>
    (\<forall>cs. order_answers oid d (Cancel # cs) = hd (order_answers oid d [Cancel]) # order_answers oid d' cs)"
proof -
  let ?c = "dset ''status'' (JStr ''cancelled'') d"
  from get_order_held [OF assms(1,2), of req] obtain ov w1 where
    g: "order_repo_get R cx req oid w = (Inr ov, w1)" "idem_ready up cx w1" "w_now w \<le> w_now w1"
    and v: "w_now w1 < E \<longrightarrow> ov = Some (JObj d) \<and> same_texts kv w w1" by blast
  from put_order_held [OF g(2), of req oid ?c] obtain w2 where
    p: "put_order_in_store R cx req oid ?c w1 = (Inr (), w2)" "idem_ready up cx w2"
    "held kv (order_key cx oid) (RDoc (JObj ?c)) (w_now w1 + of_int (ORDER_TTL_SEC cx)) w2"
    "touches kv (order_key cx oid) w1 w2" by blast
  have n: "w_now w1 \<le> w_now w2" using p(4) by (simp add: touches_def)
  have saved: "order_repo_save R cx req oid ?c w1 = (Inr (), w2)"
    using p(1) by (simp add: order_repo_save_def storage_guard_def catch_def)
  have lt: "w_now w1 < E"
  proof (rule ccontr)
    assume "\<not> w_now w1 < E"
    moreover have "w_now w1 \<le> w_now w'"
    proof -
      have "\<exists>w2. order_repo_save R cx req oid (dset ''status'' (JStr ''cancelled'') e) w1 = (Inr (), w2) \<and> w_now w1 \<le> w_now w2" for e
        using put_order_held [OF g(2), of req oid "dset ''status'' (JStr ''cancelled'') e"]
        by (auto simp: order_repo_save_def storage_guard_def catch_def touches_def)
      then show ?thesis using assms(4) g(1)
        by (auto simp: cancel_order_def bnd_def thn_def ret_def as_dict_def raise_def
            split: option.splits if_splits json.splits prod.splits sum.splits) (metis prod.inject order_refl)+
    qed
    ultimately show False using assms(5) by simp
  qed
  with v have ov: "ov = Some (JObj d)" "same_texts kv w w1" by simp_all
  show ?thesis
  proof (cases "dget_or d ''status'' JNull = JStr ''cancelled''")
    case True
    with assms(3,4) g ov show ?thesis
      by (intro exI [of _ d] exI [of _ E])
        (auto simp: cancel_order_def bnd_def ret_def as_dict_def order_cancelled_def intro: held_same [OF assms(2)])
  next
    case False
    have ne: "?c \<noteq> fmempty" by (metis fmempty_lookup fmupd_lookup option.distinct(1))
    have "out = Inr (order_cancelled oid ''cancelled'') \<and> w' = w2"
      using False assms(3,4) g(1) ov(1) saved
      by (simp add: cancel_order_def bnd_def thn_def ret_def as_dict_def order_cancelled_def)
    with False ne p(2,3) g(3) n show ?thesis
      by (intro exI [of _ ?c] exI [of _ "w_now w1 + of_int (ORDER_TTL_SEC cx)"]) auto
  qed
qed

lemma order_calls_run:
  fixes w :: "('s, 'z) chaos_world_scheme"
  assumes "idem_ready up cx w" and "clock_past cx T w" and "call_pauses_ok cs"
    and "held kv (order_key cx oid) (RDoc (JObj d)) E w" and "d \<noteq> fmempty"
    and "order_calls R cx oid cs w = (out, w')"
    and "w_now w' < E" and "w_now w' < w_now w + of_int (ORDER_TTL_SEC cx)"
  shows "out = Inr (order_answers oid d (map (\<lambda>(p, req, c). c) cs))"
  using assms
proof (induction cs arbitrary: w d E out)
  case Nil
  then show ?case by (simp add: ret_def)
next
  case (Cons x cs)
  obtain p req c where x: "x = (p, req, c)" by (cases x)
  let ?call = "case c of Read \<Rightarrow> get_order R cx req oid | Cancel \<Rightarrow> cancel_order R cx req oid"
  have ok: "0 \<le> p" "call_pauses_ok cs" using Cons.prems(3) x by (simp_all add: call_pauses_ok_def)
  obtain w0 where w0: "py_sleep p w = (Inr (), w0)" by (simp add: py_sleep_def modw_def)
  note s = later_sleep [OF w0 ok(1)]
  from answers_run [OF answers_sleep [OF ok(1)] Cons.prems(1) w0] have r0: "idem_ready up cx w0" by blast
  have c0: "clock_past cx T w0" using keepsD [OF past.clock_sleep Cons.prems(2), of p] w0 ok(1) by simp
  have h0: "held kv (order_key cx oid) (RDoc (JObj d)) E w0"
    by (rule held_later [OF Cons.prems(4)]) (use s ok in simp_all)
  obtain r w1 where call: "?call w0 = (r, w1)" by (cases "?call w0")
  have c1: "clock_past cx T w1"
    using keepsD [OF past.keeps_order_read(1) c0, of R req oid] keepsD [OF past.keeps_order_read(2) c0, of R req oid] call
    by (cases c) simp_all
  have p1: "clock_past cx (w_now w1) w1" using c1 by (simp add: clock_past_def)
  have "keeps (clock_past cx (w_now w1)) (order_calls R cx oid cs)"
    using ok(2) by (intro past.keeps_order_calls) (auto simp: call_pauses_ok_def list_all_def)
  from keepsD [OF this p1] obtain out1 w2 where rest: "order_calls R cx oid cs w1 = (out1, w2)" and le: "w_now w1 \<le> w_now w2"
    by (metis clock_past_def prod.collapse)
  have w': "w' = (case r of Inl e \<Rightarrow> w1 | Inr y \<Rightarrow> w2)" "out = (case r of Inl e \<Rightarrow> Inl e
      | Inr y \<Rightarrow> (case out1 of Inl e \<Rightarrow> Inl e | Inr ys \<Rightarrow> Inr (y # ys)))"
    using Cons.prems(6) w0 call rest unfolding x by (auto simp: thn_def bnd_def ret_def split: sum.splits)
  have lt: "w_now w1 < E" using w'(1) le Cons.prems(7) by (auto split: sum.splits)
  have n0: "w_now w \<le> w_now w0" using s ok by simp
  show ?case
  proof (cases c)
    case Read
    with call have "get_order R cx req oid w0 = (r, w1)" by simp
    from get_order_run [OF r0 h0 Cons.prems(5) this lt]
    have g: "r = Inr (order_view oid d)" "idem_ready up cx w1" "held kv (order_key cx oid) (RDoc (JObj d)) E w1"
      "w_now w0 \<le> w_now w1" by blast+
    have w2: "w' = w2" using w'(1) g(1) by simp
    have "out1 = Inr (order_answers oid d (map (\<lambda>(p, req, c). c) cs))"
      by (rule Cons.IH [OF g(2) c1 ok(2) g(3) Cons.prems(5) rest [folded w2]])
        (insert w2 Cons.prems(7,8) g(4) n0, simp_all)
    with w' g(1) Read x show ?thesis by simp
  next
    case Cancel
    with call have "cancel_order R cx req oid w0 = (r, w1)" by simp
    from cancel_order_run [OF r0 h0 Cons.prems(5) this lt] obtain d' E' where
      g: "r = Inr (hd (order_answers oid d [Cancel]))" "idem_ready up cx w1"
      "held kv (order_key cx oid) (RDoc (JObj d')) E' w1" "d' \<noteq> fmempty"
      "min E (w_now w0 + of_int (ORDER_TTL_SEC cx)) \<le> E'" "w_now w0 \<le> w_now w1"
      and step: "\<And>cs. order_answers oid d (Cancel # cs) = hd (order_answers oid d [Cancel]) # order_answers oid d' cs" by blast
    have w2: "w' = w2" using w'(1) g(1) by simp
    have "out1 = Inr (order_answers oid d' (map (\<lambda>(p, req, c). c) cs))"
      by (rule Cons.IH [OF g(2) c1 ok(2) g(3) g(4) rest [folded w2]])
        (insert w2 Cons.prems(7,8) g(5,6) n0, simp_all)
    then have "out = Inr (hd (order_answers oid d [Cancel]) # order_answers oid d' (map (\<lambda>(p, req, c). c) cs))"
      using w'(2) g(1) by (simp del: order_answers.simps)
    with step [of "map (\<lambda>(p, req, c). c) cs"] Cancel x show ?thesis by (simp del: order_answers.simps)
  qed
qed

end

text \<open>
  C13. Orders behave as the small machine says: while the document lives (its own time to live, renewed
  by the cancellation), any sequence of reads and cancellations of a stored order, at any times, is
  answered exactly as \<open>order_answers\<close> answers it. A read shows the fields as stored, the first
  cancellation changes the status and nothing else, every later one reports that it was cancelled before.
\<close>

theorem order_calls_refine:
  fixes w :: "('s, 'z) chaos_world_scheme"
  assumes "reliable_store R kv zs ct pk up" and "idem_ready up cx w" and "\<forall>n. 0 \<le> w_rnd w n"
    and "call_pauses_ok cs"
    and "held kv (order_key cx oid) (RDoc (JObj d)) E w" and "d \<noteq> fmempty"
    and "order_calls R cx oid cs w = (out, w')"
    and "w_now w' < min E (w_now w + of_int (ORDER_TTL_SEC cx))"
  shows "out = Inr (order_answers oid d (map (\<lambda>(p, req, c). c) cs))"
proof -
  have "clock_past cx (w_now w) w" using assms(2,3) by (simp add: clock_past_def idem_ready_def)
  from reliable_store.order_calls_run [OF assms(1,2) this assms(4-7)] assms(8) show ?thesis by simp
qed

text \<open>A store that holds one order.\<close>

definition shop_world :: "fake chaos_world" where
  "shop_world = demo_chaos_world\<lparr>w_rnd := (\<lambda>_. 0),
     w_redis := fake_empty\<lparr>f_store := fmupd ''order:o1'' (RDoc (JObj (order_document ''book'' 2))) fmempty\<rparr>\<rparr>"

lemma shop_world_ready: "idem_ready (\<lambda>s. \<not> f_broken s) plain_ctx shop_world"
  by (simp add: shop_world_def idem_ready_def retry_valid_def settled_def demo_chaos_world_def plain_ctx_def
      demo_world_def demo_ctx_def sync_legacy_attributes_def world.defs mono_ticks_def fake_empty_def)

lemma shop_world_still: "clock_still plain_ctx 1000 shop_world"
  by (simp add: clock_still_def shop_world_def settled_def demo_chaos_world_def plain_ctx_def
      demo_world_def demo_ctx_def sync_legacy_attributes_def world.defs)

lemma shop_world_holds:
  "held fake_kv (order_key plain_ctx ''o1'') (RDoc (JObj (order_document ''book'' 2))) 2000 shop_world"
  by (simp add: held_def shop_world_def fake_kv_def is_expired_def fake_empty_def order_key_def plain_ctx_def
      demo_ctx_def sync_legacy_attributes_def)

lemma order_document_nonempty: "order_document i q \<noteq> fmempty"
proof
  assume "order_document i q = fmempty"
  then have "fmlookup (order_document i q) ''status'' = None" by simp
  then show False by (simp add: order_document_def dict_of_def)
qed

definition shop_calls :: "(rat \<times> request option \<times> order_call) list" where
  "shop_calls = [(0, None, Read), (0, None, Cancel), (0, Some demo_request, Read), (0, None, Cancel)]"

theorem order_calls_refine_witness:
  "fst (order_calls fake_redis plain_ctx ''o1'' shop_calls shop_world) =
     Inr (order_answers ''o1'' (order_document ''book'' 2) [Read, Cancel, Read, Cancel])"
proof -
  obtain out w' where run: "order_calls fake_redis plain_ctx ''o1'' shop_calls shop_world = (out, w')"
    by (cases "order_calls fake_redis plain_ctx ''o1'' shop_calls shop_world")
  have ok: "call_pauses_ok shop_calls" "\<forall>n. 0 \<le> w_rnd shop_world n" "order_document ''book'' 2 \<noteq> fmempty"
    by (simp_all add: call_pauses_ok_def shop_calls_def shop_world_def order_document_nonempty)
  have "clock_still plain_ctx 1000 w'"
    using keepsD [OF still.keeps_order_calls shop_world_still, of shop_calls fake_redis "''o1''"] run
    by (simp add: shop_calls_def)
  then have "w_now w' < min 2000 (w_now shop_world + of_int (ORDER_TTL_SEC plain_ctx))"
    by (simp add: clock_still_def shop_world_def plain_ctx_def demo_ctx_def sync_legacy_attributes_def)
  from order_calls_refine [OF fr.reliable_store_axioms shop_world_ready ok(2,1) shop_world_holds ok(3) run this] run
  show ?thesis by (simp add: shop_calls_def)
qed

section \<open>An invalid probe\<close>

context reliable_store
begin

text \<open>A request that asks a half-open breaker: it takes the probe key, or finds it taken.\<close>

lemma half_open_request:
  assumes "default_breaker_rule cx rule" and "breaker_ready pk up cx rule w"
    and "0 < open_until_of kv cx rule w" and "open_until_of kv cx rule w \<le> w_now w"
    and "ENABLE_RESILIENCE cx"
  shows "\<exists>b w'. w_now w \<le> w_now w' \<and> breaker_ready pk up cx rule w' \<and>
    open_until_of kv cx rule w' = open_until_of kv cx rule w \<and>
    (if kv (w_redis w) (w_now w') (ck_probe (cb_keys_of cx rule)) = None
     then create_order R cx cmd rx w = admitted_order R cx rx (Some b) cmd w' \<and>
       (\<forall>t. w_now w' \<le> t \<and> t < w_now w' + of_int (CIRCUIT_PROBE_TTL_SEC cx) \<longrightarrow>
          kv (w_redis w') t (ck_probe (cb_keys_of cx rule)) \<noteq> None)
     else create_order R cx cmd rx w = circuit_rejected R w')"
proof -
  define b where "b = \<lparr>br_rule = rule, br_last_state = CLOSED, br_probe_acquired = False\<rparr>"
  have br: "br_rule b = rule" by (simp add: b_def)
  have build: "build_circuit_breaker cx = ret b"
    by (simp add: build_circuit_breaker_def default_breaker_rule_ret [OF assms(1)] b_def)
  from allow_step [of cx b w "Some (rx_request rx)"] assms(2) obtain ok b' w1 where
    run: "cb_allow_request R cx (Some (rx_request rx)) b w = (Inr (ok, b'), w1)" and l: "later w w1"
    and ready: "breaker_ready pk up cx rule w1" "open_until_of kv cx rule w1 = open_until_of kv cx rule w"
    and le: "w_now w + w_ticks w (w_tick_no w) \<le> w_now w1"
    and spec: "admission_spec kv cx b (open_until_of kv cx rule w) (w_now w + w_ticks w (w_tick_no w)) w w1 ok b'"
    unfolding br by blast
  have mono: "mono_ticks w" using assms(2) by (simp add: breaker_ready_def Let_def)
  have now: "w_now w \<le> w_now w1" "w_now w \<le> w_now w + w_ticks w (w_tick_no w)"
    using laterD [OF l mono] mono by (simp_all add: mono_ticks_def)
  then have half: "open_until_of kv cx rule w \<le> w_now w + w_ticks w (w_tick_no w)" using assms(4) by linarith
  have ok: "ok \<longleftrightarrow> kv (w_redis w) (w_now w1) (ck_probe (cb_keys_of cx rule)) = None" and hs: "br_last_state b' = HALF_OPEN"
    using spec assms(3) half by (auto simp: admission_spec_def Let_def br)
  have eq: "create_order R cx cmd rx w = (if ok then admitted_order R cx rx (Some b') cmd else circuit_rejected R) w1"
    using assms(5) run by (simp add: create_order_def build bnd_def ret_def)
  have "\<forall>t. w_now w1 \<le> t \<and> t < w_now w1 + of_int (CIRCUIT_PROBE_TTL_SEC cx) \<longrightarrow>
      kv (w_redis w1) t (ck_probe (cb_keys_of cx rule)) \<noteq> None" if ok
    using spec that hs by (auto simp: admission_spec_def Let_def br)
  with eq ok ready now(1) show ?thesis
    by (intro exI [of _ b'] exI [of _ w1]) auto
qed

lemma breaker_ready_wait:
  assumes "breaker_ready pk up cx rule w" and "w_now w \<le> T"
  shows "breaker_ready pk up cx rule (w\<lparr>w_now := T\<rparr>)"
    and "open_until_of kv cx rule (w\<lparr>w_now := T\<rparr>) = open_until_of kv cx rule w"
  using assms pk_stable [of "w_redis w" "ck_open_until (cb_keys_of cx rule)" T "w_now w"]
  by (simp_all add: breaker_ready_def Let_def mono_ticks_def open_until_of_def)

end


definition probing_world :: "fake chaos_world" where
  "probing_world = demo_chaos_world\<lparr>w_redis := w_redis half_open_world\<rparr>"

definition bad_command :: create_order_command where
  "bad_command = demo_command\<lparr>co_quantity := 0\<rparr>"

lemma probing_world_facts:
  "breaker_ready fake_pk (\<lambda>s. \<not> f_broken s) demo_ctx (br_rule demo_breaker) probing_world"
  "open_until_of fake_kv demo_ctx (br_rule demo_breaker) probing_world = 990" "w_now probing_world = 1000"
  "fake_kv (w_redis probing_world) t (ck_probe (cb_keys_of demo_ctx (br_rule demo_breaker))) = None"
  "ENABLE_RESILIENCE demo_ctx" "\<not> valid_order bad_command"
proof -
  show "ENABLE_RESILIENCE demo_ctx" by (simp add: demo_ctx_def sync_legacy_attributes_def)
qed (simp_all add: breaker_ready_def open_until_of_def demo_cb_keys probing_world_def half_open_world_def mono_ticks_def
    fake_empty_def fake_pk_def fake_kv_def is_expired_def cb_parse_open_until_def valid_order_def bad_command_def)


end
