(* ===== verification/Http_Model.thy ===== *)
theory Http_Model
  imports Order_Service Rate_Limiter
begin

text \<open>
  The HTTP side of the service: the request as Flask gives it, what the hooks keep of it, the logging
  context, the business exceptions and their handlers, and the token of the admin routes. The token's
  environment variable is read at every request, as in the source.
\<close>

section \<open>Requests\<close>

text \<open>The query string, the parsed body (\<open>get_json(silent=True)\<close>), the matched rule and the endpoint.\<close>

record http_request = request +
  hr_query :: string
  hr_body :: "json option"
  hr_rule :: "string option"
  hr_endpoint :: "string option"

text \<open>
  The attributes the hooks put on the request, the two context variables of the logging context and
  the queue and file of the traffic recording.
\<close>

record 's http_world = "'s chaos_world" +
  hw_start_time :: "rat option"
  hw_request_id :: "string option"
  hw_trace_id :: "string option"
  hw_context :: "request_context option"
  hw_route :: "string option"
  hw_in_progress :: bool
  lc_request :: dict
  lc_default :: dict
  tr_queue :: "json list"
  tr_file :: "json list"

definition plain_request :: "('z) http_request_scheme \<Rightarrow> request" where
  "plain_request rq = request.truncate rq"

section \<open>The logging context\<close>

text \<open>Unset context variables are empty dicts: the source reads them through \<open>or {}\<close>.\<close>

definition configure_default_context :: "string option \<Rightarrow> string option \<Rightarrow> (('s, 'z) http_world_scheme, unit) prog" where
  "configure_default_context service environment = modw (\<lambda>w. w\<lparr>lc_default :=
     (let d1 = (if given service then dset ''service'' (JStr (the service)) (lc_default w) else lc_default w) in
      if given environment then dset ''environment'' (JStr (the environment)) d1 else d1)\<rparr>)"

definition set_fields :: "(string \<times> json) list \<Rightarrow> dict \<Rightarrow> dict" where
  "set_fields fs d = fold (\<lambda>(k, v) c. if v = JNull then c else dset k v c) fs d"

definition set_context :: "(string \<times> json) list \<Rightarrow> (('s, 'z) http_world_scheme, unit) prog" where
  "set_context fs = modw (\<lambda>w. w\<lparr>lc_request := set_fields fs fmempty\<rparr>)"

definition bind_context :: "(string \<times> json) list \<Rightarrow> (('s, 'z) http_world_scheme, unit) prog" where
  "bind_context fs = modw (\<lambda>w. w\<lparr>lc_request := set_fields fs (lc_request w)\<rparr>)"

definition get_context :: "(('s, 'z) http_world_scheme, dict) prog" where
  "get_context = gets (\<lambda>w. lc_default w ++\<^sub>f lc_request w)"

definition clear_context :: "(('s, 'z) http_world_scheme, unit) prog" where
  "clear_context = modw (\<lambda>w. w\<lparr>lc_request := fmempty\<rparr>)"

section \<open>Business exceptions\<close>

record business_exception =
  be_message :: string
  be_status_code :: int
  be_error_code :: string
  be_payload :: dict

definition validation_exception :: "string \<Rightarrow> dict \<Rightarrow> business_exception" where
  "validation_exception message payload =
     \<lparr>be_message = message, be_status_code = 400, be_error_code = ''validation_error'', be_payload = payload\<rparr>"

definition storage_exception :: "string \<Rightarrow> dict \<Rightarrow> business_exception" where
  "storage_exception message payload =
     \<lparr>be_message = message, be_status_code = 503, be_error_code = ''storage_error'', be_payload = payload\<rparr>"

definition timeout_exception :: "string \<Rightarrow> int \<Rightarrow> dict \<Rightarrow> business_exception" where
  "timeout_exception message status_code payload =
     \<lparr>be_message = message, be_status_code = status_code, be_error_code = ''timeout'', be_payload = payload\<rparr>"

definition chaos_exception :: "string \<Rightarrow> int \<Rightarrow> dict \<Rightarrow> business_exception" where
  "chaos_exception message status_code payload =
     \<lparr>be_message = message, be_status_code = status_code, be_error_code = ''chaos_error'', be_payload = payload\<rparr>"

definition business_response :: "business_exception \<Rightarrow> response" where
  "business_response e = \<lparr>rp_status = be_status_code e, rp_body =
     JObj (dict_of [(''error'', JStr (be_message e)), (''code'', JStr (be_error_code e))] ++\<^sub>f be_payload e)\<rparr>"

text \<open>
  The handlers of \<open>register_error_handlers\<close>; the services raise the first two business exceptions,
  with no payload. \<open>None\<close>: no handler is registered and the exception goes on. The text of the
  permission error is its own.
\<close>

fun error_response :: "exn \<Rightarrow> response option" where
  "error_response (ValidationException m) = Some (business_response (validation_exception m fmempty))"
| "error_response (StorageException m) = Some (business_response (storage_exception m fmempty))"
| "error_response (PermissionError m) = Some (reply 403 [(''error'', JStr m), (''code'', JStr ''forbidden'')])"
| "error_response (RedisError _) =
     Some (reply 503 [(''error'', JStr ''redis unavailable''), (''code'', JStr ''redis_error'')])"
| "error_response _ = None"

definition handled :: "('w, response) prog \<Rightarrow> ('w, response) prog" where
  "handled m = catch m (\<lambda>e. case error_response e of Some r \<Rightarrow> ret r | None \<Rightarrow> raise e)"

section \<open>The token of the admin routes\<close>

definition admin_token_header :: string where
  "admin_token_header = ''X-Chaos-Admin-Token''"

definition protected_prefixes :: "string list" where
  "protected_prefixes = [''/fault'', ''/chaos'']"

definition safe_methods :: "string list" where
  "safe_methods = [''GET'', ''HEAD'', ''OPTIONS'']"

definition configured_admin_token :: "env \<Rightarrow> string option" where
  "configured_admin_token env =
     (let token = strip (getenv env ''CHAOS_ADMIN_TOKEN'' []) in if token = [] then None else Some token)"

definition admin_auth_enabled :: "env \<Rightarrow> bool" where
  "admin_auth_enabled env = (configured_admin_token env \<noteq> None)"

definition admin_auth_status :: "env \<Rightarrow> string" where
  "admin_auth_status env = (if admin_auth_enabled env then ''token'' else ''open'')"

text \<open>\<open>hmac.compare_digest\<close> of two texts raises \<open>TypeError\<close> unless both are ASCII.\<close>

definition is_ascii :: "string \<Rightarrow> bool" where
  "is_ascii s = list_all (\<lambda>c. of_char c < (128 :: nat)) s"

definition compare_digest :: "string \<Rightarrow> string \<Rightarrow> ('w, bool) prog" where
  "compare_digest a b =
     (if \<not> is_ascii a \<or> \<not> is_ascii b
      then raise (TypeError ''comparing strings with non-ASCII characters is not supported'')
      else ret (a = b))"

definition token_accepted :: "env \<Rightarrow> string option \<Rightarrow> ('w, bool) prog" where
  "token_accepted env provided =
     (case configured_admin_token env of
        None \<Rightarrow> ret True
      | Some expected \<Rightarrow> if \<not> given provided then ret False else compare_digest (strip (the provided)) expected)"

definition is_protected_request :: "string \<Rightarrow> string \<Rightarrow> bool" where
  "is_protected_request meth path =
     (upper meth \<notin> set safe_methods \<and> list_ex (\<lambda>p. starts_with p path) protected_prefixes)"

text \<open>The warning at registration, and the guard: \<open>None\<close> lets the request pass. The words of \<open>detail\<close> that are not ASCII are left out.\<close>

definition register_admin_guard :: "env \<Rightarrow> (('s, 'z) world_scheme, unit) prog" where
  "register_admin_guard env = whenp (\<not> admin_auth_enabled env)
     (log_line ''chaos admin API is unauthenticated'' ''WARNING'' [])"

definition admin_guard :: "env \<Rightarrow> ('z) http_request_scheme \<Rightarrow> ('w, response option) prog" where
  "admin_guard env rq =
     (if \<not> is_protected_request (rq_method rq) (rq_path rq) then ret None
      else bnd (token_accepted env (header (plain_request rq) admin_token_header)) (\<lambda>ok.
        if ok then ret None
        else ret (Some (reply 401 [(''error'', JStr ''unauthorized''), (''detail'', JStr admin_token_header),
               (''code'', JStr ''admin_auth_required'')]))))"

end
