(* ===== verification/Traffic.thy ===== *)
theory Traffic
  imports Http_Model
begin

text \<open>
  \<open>chaos_service/traffic.py\<close>: the recording of successful requests, with personal data masked, into a
  bounded queue that a thread writes to a file. The thread's steps are operations of their own, so that
  they can be interleaved with the requests. Texts have no Chinese characters here, so the rule for
  Chinese names has nothing to match.
\<close>

section \<open>Masking\<close>

definition is_digit :: "char \<Rightarrow> bool" where
  "is_digit c = (digit_val c \<noteq> None)"

definition is_word :: "char \<Rightarrow> bool" where
  "is_word c = (let n = of_char (lower_char c) :: nat in is_digit c \<or> c = CHR ''_'' \<or> 97 \<le> n \<and> n \<le> 122)"

text \<open>\<open>\b1[3-9]\d{9}\b\<close> at the start of a word: the word is a mobile number.\<close>

definition is_phone :: "string \<Rightarrow> bool" where
  "is_phone t = (length t = 11 \<and> list_all is_digit t \<and> t ! 0 = CHR ''1'' \<and> t ! 1 \<notin> {CHR ''0'', CHR ''1'', CHR ''2''})"

definition phone_at :: "string \<Rightarrow> bool" where
  "phone_at s = is_phone (takeWhile is_word s)"

definition phone_mask :: string where
  "phone_mask = ''1**********''"

text \<open>\<open>prev\<close>: the character before is part of a word.\<close>

fun mask_phones :: "bool \<Rightarrow> string \<Rightarrow> string" where
  "mask_phones prev [] = []"
| "mask_phones prev (c # s) =
     (if \<not> prev \<and> phone_at (c # s) then phone_mask @ mask_phones True (drop 10 s)
      else c # mask_phones (is_word c) s)"

definition phone_words :: "string list" where
  "phone_words = [''phone'', ''mobile'']"

text \<open>The masked value as a function of the key it stands under.\<close>

primrec mask_value :: "json \<Rightarrow> string \<Rightarrow> json" where
  "mask_value JNull key = (if list_ex (\<lambda>k. occurs_in k (lower key)) phone_words then JStr ''***-****-****''
     else if occurs_in ''name'' (lower key) then JStr ''***'' else JNull)"
| "mask_value (JBool b) key = (if list_ex (\<lambda>k. occurs_in k (lower key)) phone_words then JStr ''***-****-****''
     else if occurs_in ''name'' (lower key) then JStr ''***'' else JBool b)"
| "mask_value (JInt n) key = (if list_ex (\<lambda>k. occurs_in k (lower key)) phone_words then JStr ''***-****-****''
     else if occurs_in ''name'' (lower key) then JStr ''***'' else JInt n)"
| "mask_value (JFloat r) key = (if list_ex (\<lambda>k. occurs_in k (lower key)) phone_words then JStr ''***-****-****''
     else if occurs_in ''name'' (lower key) then JStr ''***'' else JFloat r)"
| "mask_value (JStr s) key = (if list_ex (\<lambda>k. occurs_in k (lower key)) phone_words then JStr ''***-****-****''
     else if occurs_in ''name'' (lower key) then JStr ''***'' else JStr (mask_phones False s))"
| "mask_value (JArr xs) key = (if list_ex (\<lambda>k. occurs_in k (lower key)) phone_words then JStr ''***-****-****''
     else if occurs_in ''name'' (lower key) then JStr ''***'' else JArr (map (\<lambda>f. f []) (map mask_value xs)))"
| "mask_value (JObj d) key = (if list_ex (\<lambda>k. occurs_in k (lower key)) phone_words then JStr ''***-****-****''
     else if occurs_in ''name'' (lower key) then JStr ''***''
     else JObj (fmmap_keys (\<lambda>k f. f k) (fmmap mask_value d)))"

definition allowed_headers :: "string list" where
  "allowed_headers = [''content-type'', ''x-idempotency-key'', ''x-request-id'', ''user-agent'', ''x-forwarded-for'']"

definition sanitize_headers :: "(string \<times> string) list \<Rightarrow> dict" where
  "sanitize_headers headers = dict_of (map (\<lambda>(k, v). (k, mask_value (JStr v) k))
     (filter (\<lambda>(k, v). lower k \<in> set allowed_headers) headers))"

section \<open>Recording\<close>

definition unrecorded_path :: "string \<Rightarrow> bool" where
  "unrecorded_path path = (path \<in> {''/healthz'', ''/live'', ''/ready'', ''/metrics''} \<or> starts_with ''/static/'' path)"

definition traffic_event :: "('z) http_request_scheme \<Rightarrow> int \<Rightarrow> int \<Rightarrow> json" where
  "traffic_event rq ts status = JObj (dict_of
     [(''ts'', JInt ts), (''method'', JStr (rq_method rq)), (''path'', JStr (rq_path rq)),
      (''query'', mask_value (JStr (hr_query rq)) ''query''), (''headers'', JObj (sanitize_headers (rq_headers rq))),
      (''body'', mask_value (case hr_body rq of None \<Rightarrow> JNull | Some v \<Rightarrow> v) ''body''), (''status'', JInt status)])"

text \<open>\<open>put_nowait\<close>: a queue with a positive bound that is full drops the event.\<close>

definition put_nowait :: "ctx \<Rightarrow> json \<Rightarrow> (('s, 'z) http_world_scheme, unit) prog" where
  "put_nowait cx e = modw (\<lambda>w.
     if TRAFFIC_RECORD_MAX_QUEUE cx > 0 \<and> int (length (tr_queue w)) \<ge> TRAFFIC_RECORD_MAX_QUEUE cx then w
     else w\<lparr>tr_queue := tr_queue w @ [e]\<rparr>)"

definition record_success_traffic ::
  "ctx \<Rightarrow> ('y) http_request_scheme \<Rightarrow> int \<Rightarrow> (('s, 'z) http_world_scheme, unit) prog" where
  "record_success_traffic cx rq status =
     (if \<not> TRAFFIC_RECORD_ENABLED cx then ret ()
      else if unrecorded_path (rq_path rq) then ret ()
      else if status \<ge> 400 then ret ()
      else bnd py_time (\<lambda>t. put_nowait cx (traffic_event rq (trunc t) status)))"

text \<open>One turn of the writing thread: it blocks on an empty queue.\<close>

definition traffic_writer :: "(('s, 'z) http_world_scheme, unit) prog" where
  "traffic_writer = modw (\<lambda>w. case tr_queue w of [] \<Rightarrow> w
     | e # es \<Rightarrow> w\<lparr>tr_queue := es, tr_file := tr_file w @ [e]\<rparr>)"

section \<open>What masking leaves\<close>

text \<open>No number in a text, at any place where one could start.\<close>

fun no_phone :: "bool \<Rightarrow> string \<Rightarrow> bool" where
  "no_phone prev [] = True"
| "no_phone prev (c # s) = ((prev \<or> \<not> phone_at (c # s)) \<and> no_phone (is_word c) s)"

lemma phone_mask_chars: "phone_mask = CHR ''1'' # replicate 10 CHR ''*''"
  by (simp add: phone_mask_def numeral_eq_Suc)

lemma star_no_word [simp]: "\<not> is_word CHR ''*''" "is_word CHR ''1''"
  by (simp_all add: is_word_def is_digit_def digit_val_def lower_char_def)

lemma digit_word: "is_digit c \<Longrightarrow> is_word c"
  by (simp add: is_word_def)

lemma mask_word: "list_all is_word u \<Longrightarrow> mask_phones True (u @ r) = u @ mask_phones True r"
  by (induction u) simp_all

lemma mask_head: "mask_phones prev s = [] \<longleftrightarrow> s = []" "s \<noteq> [] \<Longrightarrow> hd (mask_phones prev s) = hd s"
proof -
  have "hd (mask_phones prev s) = hd s" if "s \<noteq> []"
  proof (cases s)
    case (Cons c r)
    have "is_phone (takeWhile is_word (c # r)) \<Longrightarrow> c = CHR ''1''"
      by (auto simp: is_phone_def split: if_splits)
    then show ?thesis using Cons by (auto simp: phone_at_def phone_mask_chars)
  qed (use that in simp)
  then show "s \<noteq> [] \<Longrightarrow> hd (mask_phones prev s) = hd s" .
  show "mask_phones prev s = [] \<longleftrightarrow> s = []" by (cases s) (simp_all add: phone_mask_def)
qed

text \<open>The word at the head stays as it is while the scan is inside it.\<close>

lemma mask_takeWhile: "takeWhile is_word (mask_phones True s) = takeWhile is_word s"
proof -
  let ?u = "takeWhile is_word s" and ?r = "dropWhile is_word s"
  have s: "s = ?u @ ?r" by simp
  have u: "list_all is_word ?u" by (auto simp: list_all_iff dest: set_takeWhileD)
  have eq: "mask_phones True s = ?u @ mask_phones True ?r" using mask_word [OF u, of ?r] by simp
  have "takeWhile is_word (mask_phones True ?r) = []"
  proof (cases ?r)
    case Nil
    then show ?thesis by (simp only: mask_phones.simps takeWhile.simps)
  next
    case (Cons c r)
    then have "\<not> is_word c" by (metis dropWhile_eq_Cons_conv)
    moreover have "hd (mask_phones True ?r) = c" "mask_phones True ?r \<noteq> []" using Cons mask_head [where prev = True and s = ?r] by simp_all
    ultimately show ?thesis by (cases "mask_phones True ?r") simp_all
  qed
  then show ?thesis using u unfolding eq by (simp add: takeWhile_append list_all_iff)
qed

lemma no_phone_stars: "no_phone prev (replicate n CHR ''*'' @ s) \<longleftrightarrow> (if n = 0 then no_phone prev s else no_phone False s)"
  by (induction n arbitrary: prev) (auto simp: phone_at_def is_phone_def)

lemma no_phone_blank: "no_phone True s \<Longrightarrow> s = [] \<or> \<not> is_word (hd s) \<Longrightarrow> no_phone False s"
  by (cases s) (auto simp: phone_at_def is_phone_def)

lemma mask_no_phone: "no_phone prev (mask_phones prev s)"
proof (induction prev s rule: mask_phones.induct)
  case (2 prev c s)
  show ?case
  proof (cases "\<not> prev \<and> phone_at (c # s)")
    case True
    let ?r = "drop 10 s"
    have ph: "is_phone (takeWhile is_word (c # s))" using True by (simp add: phone_at_def)
    then have w: "is_word c" "length (takeWhile is_word s) = 10" by (auto simp: is_phone_def split: if_splits)
    have "?r = dropWhile is_word s" using w(2) by (metis dropWhile_eq_drop)
    then have "?r = [] \<or> \<not> is_word (hd ?r)" by (metis hd_dropWhile)
    then have hd: "mask_phones True ?r = [] \<or> \<not> is_word (hd (mask_phones True ?r))" using mask_head [where prev = True and s = ?r] by auto
    have "no_phone False (mask_phones True ?r)" using no_phone_blank [OF 2(1) [OF True] hd] .
    then show ?thesis
      using True by (simp add: phone_mask_chars no_phone_stars) (auto simp: phone_at_def is_phone_def)
  next
    case False
    have "\<not> prev \<Longrightarrow> is_word c \<Longrightarrow> phone_at (c # mask_phones True s) = phone_at (c # s)"
      by (simp add: phone_at_def mask_takeWhile)
    moreover have "\<not> is_word c \<Longrightarrow> \<not> phone_at (c # x)" for x by (simp add: phone_at_def is_phone_def)
    ultimately show ?thesis using False 2(2) by (cases "is_word c") auto
  qed
qed simp

text \<open>A value with no number in any of its texts.\<close>

primrec clean :: "json \<Rightarrow> bool" where
  "clean JNull = True"
| "clean (JBool b) = True"
| "clean (JInt n) = True"
| "clean (JFloat r) = True"
| "clean (JStr s) = no_phone False s"
| "clean (JArr xs) = list_all (\<lambda>b. b) (map clean xs)"
| "clean (JObj d) = fmpred (\<lambda>k b. b) (fmmap clean d)"

lemma clean_marks: "clean (JStr ''***-****-****'')" "clean (JStr ''***'')"
  by (simp_all add: phone_at_def is_phone_def is_word_def is_digit_def digit_val_def lower_char_def)

lemma mask_value_clean: "clean (mask_value v key)"
proof (induction v arbitrary: key)
  case (JObj d)
  have "fmpred (\<lambda>k b. b) (fmmap clean (fmmap_keys (\<lambda>k f. f k) (fmmap mask_value d)))"
    by (auto simp: fmpred_iff fmlookup_fmmap_keys intro!: JObj fmran'I)
  then show ?case using clean_marks by (simp del: no_phone.simps)
qed (use clean_marks in \<open>auto simp: list_all_iff mask_no_phone simp del: no_phone.simps\<close>)

end
