(* ===== verification/Http_Api.thy ===== *)
theory Http_Api
  imports Traffic
begin

text \<open>
  The hooks around every request and the handlers of the routes, under \<open>app/api\<close> and
  \<open>app/observability/middleware.py\<close>. A handler is given the parsed body (\<open>None\<close>: no JSON) and answers
  with a response or an exception; Flask is not modelled.
\<close>

section \<open>Metrics around a request\<close>

definition resolve_route_label :: "('z) http_request_scheme \<Rightarrow> string" where
  "resolve_route_label rq =
     (if given (hr_rule rq) then the (hr_rule rq)
      else if given (hr_endpoint rq) then the (hr_endpoint rq) else ''__unmatched__'')"

definition request_labels :: "('z) http_request_scheme \<Rightarrow> string \<Rightarrow> (string \<times> string) list" where
  "request_labels rq route = [(''method'', rq_method rq), (''route'', route)]"

definition before_request_metrics :: "('y) http_request_scheme \<Rightarrow> (('s, 'z) http_world_scheme, unit) prog" where
  "before_request_metrics rq =
     bnd (gets hw_start_time) (\<lambda>st.
     thn (whenp (st = None) (bnd py_time (\<lambda>t. modw (\<lambda>w. w\<lparr>hw_start_time := Some t\<rparr>))))
     (let route = resolve_route_label rq in
      thn (modw (\<lambda>w. w\<lparr>hw_route := Some route, hw_in_progress := True\<rparr>))
      (metric_inc ''REQUESTS_IN_PROGRESS'' (request_labels rq route))))"

definition finish_in_progress ::
  "('y) http_request_scheme \<Rightarrow> string \<Rightarrow> (('s, 'z) http_world_scheme, unit) prog" where
  "finish_in_progress rq route =
     bnd (gets hw_in_progress) (\<lambda>on.
     if \<not> on then ret ()
     else thn (metric_dec ''REQUESTS_IN_PROGRESS'' (request_labels rq route))
       (modw (\<lambda>w. w\<lparr>hw_in_progress := False\<rparr>)))"

definition metrics_route :: "('y) http_request_scheme \<Rightarrow> (('s, 'z) http_world_scheme, string) prog" where
  "metrics_route rq = gets (\<lambda>w. case hw_route w of None \<Rightarrow> resolve_route_label rq | Some r \<Rightarrow> r)"

text \<open>\<open>time.time() - getattr(req, "_start_time", time.time())\<close>: the clock is read twice.\<close>

definition request_duration :: "(('s, 'z) http_world_scheme, rat) prog" where
  "request_duration = bnd py_time (\<lambda>t. bnd py_time (\<lambda>t'.
     gets (\<lambda>w. t - (case hw_start_time w of None \<Rightarrow> t' | Some s \<Rightarrow> s))))"

definition after_request_metrics ::
  "('y) http_request_scheme \<Rightarrow> int \<Rightarrow> (('s, 'z) http_world_scheme, unit) prog" where
  "after_request_metrics rq status =
     bnd (metrics_route rq) (\<lambda>route.
     bnd request_duration (\<lambda>duration.
     thn (metric_inc ''REQUEST_COUNT'' (request_labels rq route @ [(''status'', int_text status)]))
     (thn (metric_observe ''REQUEST_LATENCY'' (request_labels rq route) duration)
     (thn (whenp (status \<ge> 500) (metric_inc ''REQUEST_ERRORS'' (request_labels rq route)))
     (finish_in_progress rq route)))))"

definition teardown_request_metrics :: "('y) http_request_scheme \<Rightarrow> (('s, 'z) http_world_scheme, unit) prog" where
  "teardown_request_metrics rq = bnd (metrics_route rq) (finish_in_progress rq)"

section \<open>The hooks of every request\<close>

definition clean_id :: "string option \<Rightarrow> string option" where
  "clean_id raw = (let cleaned = strip (case raw of None \<Rightarrow> [] | Some s \<Rightarrow> s) in
     if cleaned = [] \<or> length cleaned > 256 then None else Some (take 128 cleaned))"

definition resolve_request_id :: "('y) http_request_scheme \<Rightarrow> (('s, 'z) world_scheme, string) prog" where
  "resolve_request_id rq =
     (case clean_id (header (plain_request rq) ''X-Request-Id'') of None \<Rightarrow> py_uuid | Some i \<Rightarrow> ret i)"

definition resolve_trace_id :: "('y) http_request_scheme \<Rightarrow> string \<Rightarrow> string" where
  "resolve_trace_id rq d = (case clean_id (header (plain_request rq) ''X-Trace-Id'') of None \<Rightarrow> d | Some i \<Rightarrow> i)"

definition opt_str :: "string option \<Rightarrow> json" where
  "opt_str v = (case v of None \<Rightarrow> JNull | Some s \<Rightarrow> JStr s)"

text \<open>The attributes a request gets: the start, its ids, its context and the logging context.\<close>

definition open_request :: "ctx \<Rightarrow> ('y) http_request_scheme \<Rightarrow> (('s, 'z) http_world_scheme, request) prog" where
  "open_request cx rq =
     bnd py_time (\<lambda>t.
     bnd (resolve_request_id rq) (\<lambda>rid.
     let tid = resolve_trace_id rq rid; uid = header (plain_request rq) ''X-User-Id'';
         req = (plain_request rq)\<lparr>rq_start_time := Some t\<rparr> in
     bnd (build_request_context cx req rid tid uid) (\<lambda>rx.
     thn (modw (\<lambda>w. w\<lparr>hw_start_time := Some t, hw_request_id := Some rid, hw_trace_id := Some tid, hw_context := Some rx\<rparr>))
     (thn (set_context [(''request_id'', JStr rid), (''trace_id'', JStr tid), (''user_id'', opt_str uid),
        (''service'', JStr (SERVICE_NAME cx)), (''environment'', JStr (APP_ENV cx))])
     (ret req)))))"

definition admin_path :: "string \<Rightarrow> bool" where
  "admin_path path = (starts_with ''/fault'' path \<or> starts_with ''/chaos'' path)"

definition probe_path :: "string \<Rightarrow> bool" where
  "probe_path path = list_ex (\<lambda>p. starts_with p path) [''/healthz'', ''/live'', ''/ready'', ''/metrics'']"

text \<open>\<open>(get_fault(...) or {}).get("params", {}).get("error_type", "runtime")\<close>.\<close>

definition fault_error_type :: "json option \<Rightarrow> ('w, json) prog" where
  "fault_error_type f =
     bnd (case f of None \<Rightarrow> ret fmempty | Some v \<Rightarrow> if truthy v then as_dict v else ret fmempty) (\<lambda>d.
     bnd (as_dict (dget_or d ''params'' (JObj fmempty))) (\<lambda>p.
     ret (dget_or p ''error_type'' (JStr ''runtime''))))"

definition prepare_faults ::
  "'s redis_ops \<Rightarrow> ctx \<Rightarrow> request \<Rightarrow> (('s, 'z) http_world_scheme, response option) prog" where
  "prepare_faults R cx req =
     bnd (prepare_request_experiments R cx req) (\<lambda>es.
     thn (modw (\<lambda>w. w\<lparr>cq_experiments := es\<rparr>))
     (bnd (apply_faults R cx req) (\<lambda>action.
      if action = Some ''drop'' then
        thn (metric_inc ''ORDER_DEGRADED'' [])
          (ret (Some (reply 503 [(''error'', JStr ''fault injected: drop''), (''fault'', JBool True)])))
      else if action = Some ''exception'' then
        bnd (get_fault R ''exception'') (\<lambda>f.
        bnd (fault_error_type f) (\<lambda>et. raise (RuntimeError (''fault injected: '' @ py_str et))))
      else ret None)))"

definition guarded_faults ::
  "'s redis_ops \<Rightarrow> ctx \<Rightarrow> request \<Rightarrow> (('s, 'z) http_world_scheme, response option) prog" where
  "guarded_faults R cx req = catch (prepare_faults R cx req) (\<lambda>e.
     case e of RuntimeError _ \<Rightarrow> raise e
     | _ \<Rightarrow> if is_exception e then
         thn (log_line ''chaos_prepare_failed'' ''ERROR''
           [(''component'', JStr ''chaos''), (''operation'', JStr ''prepare_request_experiments''),
            (''result'', JStr ''error''), (''error'', JStr (exn_text e))]) (ret None)
       else raise e)"

definition before_request ::
  "'s redis_ops \<Rightarrow> env \<Rightarrow> ctx \<Rightarrow> ('y) http_request_scheme \<Rightarrow> (('s, 'z) http_world_scheme, response option) prog" where
  "before_request R env cx rq =
     bnd (open_request cx rq) (\<lambda>req.
     if admin_path (rq_path req) then ret None
     else
       bnd (if probe_path (rq_path req) then ret None else guarded_faults R cx req) (\<lambda>early.
       case early of Some r \<Rightarrow> ret (Some r) | None \<Rightarrow> rate_limit_request R env cx req))"

text \<open>The headers set on the response.\<close>

definition id_headers :: "('s, 'z) http_world_scheme \<Rightarrow> (string \<times> string) list" where
  "id_headers w = (if given (hw_request_id w) then [(''X-Request-Id'', the (hw_request_id w))] else []) @
     (if given (hw_trace_id w) then [(''X-Trace-Id'', the (hw_trace_id w))] else [])"

definition after_request ::
  "'s redis_ops \<Rightarrow> ctx \<Rightarrow> ('y) http_request_scheme \<Rightarrow> int \<Rightarrow> (('s, 'z) http_world_scheme, (string \<times> string) list) prog" where
  "after_request R cx rq status =
     bnd request_duration (\<lambda>duration.
     thn (record_success_traffic cx rq status)
     (thn (fi_record_response R status (duration * 1000)) (gets id_headers)))"

definition teardown_request :: "(('s, 'z) http_world_scheme, unit) prog" where
  "teardown_request = clear_context"

section \<open>Orders\<close>

text \<open>The body's fields: a body that is no object counts as empty; wrong types become values that are rejected.\<close>

definition order_item :: "json option \<Rightarrow> string option" where
  "order_item body = (case body of
     Some (JObj d) \<Rightarrow> (case dget_or d ''item_id'' JNull of JStr s \<Rightarrow> Some s | _ \<Rightarrow> None) | _ \<Rightarrow> None)"

definition order_quantity :: "json option \<Rightarrow> int" where
  "order_quantity body = (case body of
     Some (JObj d) \<Rightarrow> (case dget_or d ''quantity'' (JInt 1) of JInt n \<Rightarrow> n | _ \<Rightarrow> -1) | _ \<Rightarrow> 1)"

definition order_command :: "('y) http_request_scheme \<Rightarrow> create_order_command" where
  "order_command rq = \<lparr>co_item_id = order_item (hr_body rq), co_quantity = order_quantity (hr_body rq),
     co_idempotency_key = header (plain_request rq) ''X-Idempotency-Key''\<rparr>"

definition post_order ::
  "'s redis_ops \<Rightarrow> ctx \<Rightarrow> ('y) http_request_scheme \<Rightarrow> (('s, 'z) http_world_scheme, response) prog" where
  "post_order R cx rq =
     bnd (gets hw_context) (\<lambda>c.
     bnd (of_option (AttributeError ''_request_context'') c) (create_order R cx (order_command rq)))"

definition store_unavailable :: response where
  "store_unavailable = reply 503 [(''error'', JStr ''order store unavailable'')]"

definition read_order ::
  "'s redis_ops \<Rightarrow> ctx \<Rightarrow> request \<Rightarrow> string \<Rightarrow> (('s, 'z) chaos_world_scheme, response) prog" where
  "read_order R cx req order_id =
     on_storage_error (get_order R cx (Some req) order_id) (ret store_unavailable)"

definition post_cancel ::
  "'s redis_ops \<Rightarrow> ctx \<Rightarrow> request \<Rightarrow> string \<Rightarrow> (('s, 'z) chaos_world_scheme, response) prog" where
  "post_cancel R cx req order_id =
     on_storage_error (cancel_order R cx (Some req) order_id) (ret store_unavailable)"

definition liveness :: "('w, response) prog" where
  "liveness = ret (reply 200 [(''status'', JStr ''ok''), (''check'', JStr ''liveness'')])"

text \<open>\<open>try: ping() except RedisError\<close>.\<close>

definition redis_alive :: "'s redis_ops \<Rightarrow> (('s, 'z) world_scheme, bool) prog" where
  "redis_alive R = catch (thn (redis_call (r_ping R)) (ret True)) (\<lambda>e.
     case e of RedisError _ \<Rightarrow> ret False | _ \<Rightarrow> raise e)"

definition readiness :: "'s redis_ops \<Rightarrow> ctx \<Rightarrow> (('s, 'z) world_scheme, response) prog" where
  "readiness R cx = bnd (redis_alive R) (\<lambda>ok.
     ret (reply (if ok then 200 else 503)
       [(''status'', JStr (if ok then ''ready'' else ''not_ready'')), (''check'', JStr ''readiness''),
        (''redis'', JBool ok), (''resilience'', JBool (ENABLE_RESILIENCE cx))]))"

definition healthz :: "'s redis_ops \<Rightarrow> ctx \<Rightarrow> (('s, 'z) world_scheme, response) prog" where
  "healthz R cx = bnd (redis_alive R) (\<lambda>ok.
     ret (reply 200 [(''status'', JStr (if ok then ''healthy'' else ''degraded'')), (''redis'', JBool ok),
       (''resilience'', JBool (ENABLE_RESILIENCE cx)),
       (''note'', JStr ''prefer /live + /ready for K8s-style probes'')]))"

section \<open>Faults and experiments\<close>

text \<open>\<open>request.get_json(silent=True) or {}\<close>, read with \<open>get\<close>: a true value that is no object raises.\<close>

definition body_dict :: "json option \<Rightarrow> ('w, dict) prog" where
  "body_dict body = (case body of None \<Rightarrow> ret fmempty | Some v \<Rightarrow> if truthy v then as_dict v else ret fmempty)"

definition bad_request :: "string \<Rightarrow> ('w, response) prog" where
  "bad_request message = ret (reply 400 [(''error'', JStr message)])"

definition on_value_error :: "('w, response) prog \<Rightarrow> ('w, response) prog" where
  "on_value_error m = catch m (\<lambda>e. case e of ValueError s \<Rightarrow> bad_request s | _ \<Rightarrow> raise e)"

definition get_fault_status :: "'s redis_ops \<Rightarrow> ctx \<Rightarrow> (('s, 'z) chaos_world_scheme, response) prog" where
  "get_fault_status R cx = bnd (cc_fault_status R cx) (\<lambda>v. ret \<lparr>rp_status = 200, rp_body = v\<rparr>)"

text \<open>
  The parameters are checked before the time to live is converted; a type that is no text is unknown.
\<close>

definition inject_typed ::
  "'s redis_ops \<Rightarrow> ctx \<Rightarrow> json \<Rightarrow> json \<Rightarrow> json \<Rightarrow> (('s, 'z) chaos_world_scheme, dict) prog" where
  "inject_typed R cx fault_type params ttl =
     thn (ensure_enabled cx)
     (case fault_type of
        JStr t \<Rightarrow>
          if t \<notin> {''latency'', ''exception'', ''drop'', ''slow_db''} then raise (ValueError (''unknown fault type: '' @ t))
          else bnd (as_dict params) (\<lambda>p.
            bnd (gets global_settings) (\<lambda>fs.
            case validate_fault_params fs t p of
              Some err \<Rightarrow> raise (ValueError err)
            | None \<Rightarrow>
                bnd (if ttl = JNull then ret None else bnd (lift (json_int ttl)) (\<lambda>n. ret (Some n))) (\<lambda>d.
                cc_inject_fault R cx t p d)))
      | _ \<Rightarrow> raise (ValueError ''unknown fault type: ''))"

definition post_fault_inject ::
  "'s redis_ops \<Rightarrow> ctx \<Rightarrow> json option \<Rightarrow> (('s, 'z) chaos_world_scheme, response) prog" where
  "post_fault_inject R cx body =
     bnd (body_dict body) (\<lambda>d.
     let t = dget_or d ''type'' (JStr []) in
     if \<not> truthy t then bad_request ''type is required''
     else on_value_error (bnd (inject_typed R cx t (dget_or d ''params'' (JObj fmempty)) (dget_or d ''ttl_sec'' JNull))
       (\<lambda>rec. ret (reply 201 [(''status'', JStr ''injected''), (''fault'', JObj rec)]))))"

definition fault_cleared :: "json \<Rightarrow> bool \<Rightarrow> response" where
  "fault_cleared t existed = reply 200 [(''status'', JStr ''cleared''), (''type'', t), (''existed'', JBool existed)]"

definition post_fault_clear ::
  "'s redis_ops \<Rightarrow> ctx \<Rightarrow> json option \<Rightarrow> (('s, 'z) chaos_world_scheme, response) prog" where
  "post_fault_clear R cx body =
     bnd (body_dict body) (\<lambda>d.
     let t = dget_or d ''type'' (JStr []) in
     if \<not> truthy t then bad_request ''type is required''
     else bnd (cc_clear_fault R cx (py_str t)) (\<lambda>existed. ret (fault_cleared t existed)))"

definition post_fault_clear_all :: "'s redis_ops \<Rightarrow> ctx \<Rightarrow> (('s, 'z) chaos_world_scheme, response) prog" where
  "post_fault_clear_all R cx = bnd (cc_clear_all_faults R cx) (\<lambda>n.
     ret (reply 200 [(''status'', JStr ''all_cleared''), (''count'', JInt n)]))"

definition delete_fault :: "'s redis_ops \<Rightarrow> ctx \<Rightarrow> string \<Rightarrow> (('s, 'z) chaos_world_scheme, response) prog" where
  "delete_fault R cx t = bnd (cc_clear_fault R cx t) (\<lambda>existed. ret (fault_cleared (JStr t) existed))"

definition get_experiments :: "'s redis_ops \<Rightarrow> ctx \<Rightarrow> (('s, 'z) chaos_world_scheme, response) prog" where
  "get_experiments R cx = bnd (cc_list_experiments R cx) (\<lambda>es.
     ret (reply 200 [(''experiments'', JArr (map (\<lambda>e. JObj (experiment_to_dict e)) es)), (''count'', JInt (int (length es)))]))"

text \<open>
  The fields of the body but the duration have their documented types: \<open>name\<close>, \<open>hypothesis\<close> and
  \<open>fault_type\<close> texts, \<open>target\<close> and \<open>params\<close> objects. \<open>int(duration or 0)\<close> is outside the \<open>try\<close>.
\<close>

definition post_experiment ::
  "'s redis_ops \<Rightarrow> ctx \<Rightarrow> string \<Rightarrow> string \<Rightarrow> dict \<Rightarrow> string \<Rightarrow> dict \<Rightarrow> json \<Rightarrow>
   (('s, 'z) chaos_world_scheme, response) prog" where
  "post_experiment R cx name hypothesis target fault_type params duration =
     bnd (if name = [] \<or> fault_type = [] then ret 0 else lift (json_int (if truthy duration then duration else JInt 0))) (\<lambda>n.
     if n \<le> 0 then bad_request ''name, fault_type, duration are required''
     else on_value_error (bnd (cc_create_experiment R cx name hypothesis target fault_type params n) (\<lambda>e.
       ret (reply 201 [(''experiment'', JObj (experiment_to_dict e))]))))"

definition experiment_not_found :: response where
  "experiment_not_found = reply 404 [(''error'', JStr ''experiment not found'')]"

definition read_experiment :: "'s redis_ops \<Rightarrow> ctx \<Rightarrow> string \<Rightarrow> (('s, 'z) chaos_world_scheme, response) prog" where
  "read_experiment R cx i = bnd (cc_get_experiment R cx i) (\<lambda>oe.
     case oe of None \<Rightarrow> ret experiment_not_found
     | Some e \<Rightarrow> bnd (cc_get_report R cx i) (\<lambda>rep.
         ret (reply 200 [(''experiment'', JObj (experiment_to_dict e)),
           (''report'', case rep of None \<Rightarrow> JNull | Some d \<Rightarrow> JObj d)])))"

definition post_experiment_stop :: "'s redis_ops \<Rightarrow> ctx \<Rightarrow> string \<Rightarrow> (('s, 'z) chaos_world_scheme, response) prog" where
  "post_experiment_stop R cx i = bnd (cc_stop_experiment R cx i) (\<lambda>stopped.
     ret (if stopped then reply 200 [(''status'', JStr ''stopped''), (''experiment_id'', JStr i)]
          else experiment_not_found))"

end
