(* ===== verification/Http_Correct.thy ===== *)
theory Http_Correct
  imports Http_Api Order_Correct
begin

text \<open>
  What the HTTP side promises: writes on the admin routes need the token, an order that is created is
  the one in the request's body, the control routes do nothing while they are disabled, the ids of a
  request are bounded and the same everywhere, the recorded traffic carries no mobile number, and the
  gauge of requests in progress is balanced.
\<close>

section \<open>The admin token\<close>


definition web_request :: http_request where
  "web_request = request.extend demo_request \<lparr>hr_query = [], hr_body = None, hr_rule = Some ''/order'', hr_endpoint = None\<rparr>"

lemma web_request_sel [simp]:
  "rq_method web_request = ''POST''" "rq_path web_request = ''/order''" "rq_headers web_request = []"
  "hr_query web_request = []" "hr_body web_request = None" "hr_rule web_request = Some ''/order''"
  by (simp_all add: web_request_def demo_request_def request.defs)

lemma plain_request_sel [simp]:
  "rq_method (plain_request rq) = rq_method rq" "rq_path (plain_request rq) = rq_path rq"
  "rq_headers (plain_request rq) = rq_headers rq"
  by (simp_all add: plain_request_def request.defs)

definition stop_request :: http_request where
  "stop_request = web_request\<lparr>rq_path := ''/chaos/experiments/x/stop'', rq_headers := [(''x-chaos-admin-token'', '' s3 '')]\<rparr>"


section \<open>Orders from a body\<close>

text \<open>The body describes an order: an object with a non-empty text and, if it is given, a positive integer.\<close>

definition describes_order :: "json option \<Rightarrow> string \<Rightarrow> int \<Rightarrow> bool" where
  "describes_order body item n = (\<exists>d. body = Some (JObj d) \<and> dget d ''item_id'' = Some (JStr item) \<and> item \<noteq> [] \<and>
     dget_or d ''quantity'' (JInt 1) = JInt n \<and> 0 < n)"

lemma order_item_Some: "order_item body = Some s \<longleftrightarrow> (\<exists>d. body = Some (JObj d) \<and> dget d ''item_id'' = Some (JStr s))"
  by (auto simp: order_item_def dget_or_def split: json.splits option.splits)

lemma order_quantity_pos:
  "0 < n \<Longrightarrow> order_quantity (Some (JObj d)) = n \<longleftrightarrow> dget_or d ''quantity'' (JInt 1) = JInt n"
  by (cases "dget_or d ''quantity'' (JInt 1)") (simp_all add: order_quantity_def)

lemma valid_describes:
  "valid_order (order_command rq) \<longleftrightarrow> (\<exists>item n. describes_order (hr_body rq) item n)"
  "describes_order (hr_body rq) item n \<Longrightarrow>
     co_item_id (order_command rq) = Some item \<and> co_quantity (order_command rq) = n"
proof -
  show D: "describes_order (hr_body rq) item n \<Longrightarrow>
     co_item_id (order_command rq) = Some item \<and> co_quantity (order_command rq) = n" for item n
    unfolding describes_order_def order_command_def create_order_command.simps
    by (elim exE conjE) (simp add: order_item_def order_quantity_def dget_or_def)
  have "describes_order (hr_body rq) item n" if "order_item (hr_body rq) = Some item" "item \<noteq> []"
    "0 < n" "order_quantity (hr_body rq) = n" for item n
  proof -
    from that(1) obtain d where "hr_body rq = Some (JObj d)" "dget d ''item_id'' = Some (JStr item)"
      unfolding order_item_Some by blast
    with that show ?thesis by (simp add: describes_order_def order_quantity_pos)
  qed
  moreover have "valid_order (order_command rq) \<longleftrightarrow> (\<exists>item. order_item (hr_body rq) = Some item \<and> item \<noteq> []) \<and> 0 < order_quantity (hr_body rq)"
    by (cases "order_item (hr_body rq)") (simp_all add: valid_order_def given_def order_command_def)
  moreover have "describes_order (hr_body rq) item n \<Longrightarrow> item \<noteq> [] \<and> 0 < n" for item n
    by (simp add: describes_order_def) blast
  moreover have "order_item (hr_body rq) = Some item \<and> order_quantity (hr_body rq) = n"
    if "describes_order (hr_body rq) item n" for item n
    using D [OF that] by (simp add: order_command_def)
  ultimately show "valid_order (order_command rq) \<longleftrightarrow> (\<exists>item n. describes_order (hr_body rq) item n)" by metis
qed

text \<open>
  Types are checked end to end: a request that is answered with the success of an order had a body
  that describes an order, a text and a positive integer and no boolean, float, list or null in their
  place, and the document that was written has exactly those two values.
\<close>

theorem created_order_typed:
  fixes w :: "('s, 'z) http_world_scheme"
  assumes "post_order R cx rq w = (Inr (order_success oid), w')"
  shows "\<exists>item n. describes_order (hr_body rq) item n \<and>
    (\<exists>c (w1 :: ('s, 'z) http_world_scheme) w2. hw_context w = Some c \<and>
      put_order_in_store R cx (Some (rx_request c)) oid (order_document item n) w1 = (Inr (), w2))"
proof -
  from assms obtain c where c: "hw_context w = Some c" and run: "create_order R cx (order_command rq) c w = (Inr (order_success oid), w')"
    by (auto simp: post_order_def gets_def bnd_def of_option_def raise_def ret_def split: option.splits)
  from create_order_stored [OF run] obtain w1 w2 :: "('s, 'z) http_world_scheme" where
    v: "valid_order (order_command rq)"
    and p: "put_order_in_store R cx (Some (rx_request c)) oid
      (order_document (the (co_item_id (order_command rq))) (co_quantity (order_command rq))) w1 = (Inr (), w2)" by blast
  from v valid_describes(1) obtain item n where d: "describes_order (hr_body rq) item n" by blast
  from valid_describes(2) [OF d] p c d show ?thesis by (intro exI conjI) (assumption | simp)+
qed

text \<open>
  Whatever else a client sends, no body at all included, is answered 400 and nothing is stored.
\<close>

theorem other_bodies_refused:
  fixes w :: "('s, 'z) http_world_scheme"
  assumes "\<not> ENABLE_RESILIENCE cx" and "hw_context w = Some c" and "\<nexists>item n. describes_order (hr_body rq) item n"
  shows "\<exists>r w'. handled (post_order R cx rq) w = (Inr r, w') \<and> rp_status r = 400 \<and> w_redis w' = w_redis w \<and>
    w_counters w' (''ORDER_REJECTED'', []) = w_counters w (''ORDER_REJECTED'', []) + 1"
  using assms valid_describes(1) [of rq]
  by (simp add: handled_def catch_def post_order_def gets_def bnd_def of_option_def ret_def create_order_def
      admitted_order_def thn_def raise_def order_log_run business_response_def validation_exception_def)

definition web_world :: "fake http_world" where
  "web_world = chaos_world.extend order_world \<lparr>hw_start_time = None, hw_request_id = None, hw_trace_id = None,
     hw_context = Some demo_context, hw_route = None, hw_in_progress = False, lc_request = fmempty,
     lc_default = fmempty, tr_queue = [], tr_file = []\<rparr>"

definition list_request :: http_request where
  "list_request = web_request\<lparr>hr_body := Some (JArr [JNull, JNull])\<rparr>"

theorem other_bodies_refused_witness:
  "\<exists>r w'. handled (post_order fake_redis plain_ctx list_request) web_world = (Inr r, w') \<and> rp_status r = 400"
proof -
  have "\<nexists>item n. describes_order (hr_body list_request) item n" by (simp add: describes_order_def list_request_def)
  moreover have "hw_context web_world = Some demo_context" by (simp add: web_world_def chaos_world.defs)
  ultimately show ?thesis using other_bodies_refused [of plain_ctx web_world demo_context list_request fake_redis] order_world_facts(3) by blast
qed

definition book_request :: http_request where
  "book_request = web_request\<lparr>hr_body := Some (JObj (dict_of [(''item_id'', JStr ''book''), (''quantity'', JInt 2)]))\<rparr>"

lemma web_world_facts:
  "idem_ready (\<lambda>s. \<not> f_broken s) plain_ctx web_world" "0 \<le> w_now web_world"
  "clock_stocked plain_ctx (w_now web_world) (INVENTORY_BUSY_PROB plain_ctx) web_world"
  by (simp_all add: web_world_def chaos_world.defs order_world_def idem_ready_def retry_valid_def settled_def demo_chaos_world_def plain_ctx_def
      demo_world_def demo_ctx_def sync_legacy_attributes_def world.defs mono_ticks_def clock_stocked_def clock_past_def)

theorem created_order_typed_witness:
  "\<exists>oid w'. post_order fake_redis plain_ctx book_request web_world = (Inr (order_success oid), w') \<and>
     (\<exists>item n. describes_order (hr_body book_request) item n)"
proof -
  let ?cmd = "order_command book_request"
  have "describes_order (hr_body book_request) ''book'' 2"
    by (simp add: describes_order_def book_request_def dict_of_def dget_or_def)
  then have v: "valid_order ?cmd" using valid_describes(1) by blast
  have k: "\<not> given (co_idempotency_key ?cmd)" by (simp add: order_command_def header_def book_request_def given_def)
  from reliable_store.order_created_held [OF fr.reliable_store_axioms web_world_facts(1,3,2) order_world_facts(3) v order_world_facts(5),
      of demo_context] k
  obtain oid w' where "create_order fake_redis plain_ctx ?cmd demo_context web_world = (Inr (order_success oid), w')" by blast
  moreover have "hw_context web_world = Some demo_context" by (simp add: web_world_def chaos_world.defs)
  ultimately have run: "post_order fake_redis plain_ctx book_request web_world = (Inr (order_success oid), w')"
    by (simp add: post_order_def gets_def bnd_def of_option_def ret_def)
  from created_order_typed [OF run] run show ?thesis by blast
qed

section \<open>The control routes\<close>

text \<open>The calls of \<open>chaos_controller.register_routes\<close>, with what the handler takes from the request.\<close>

datatype control_call =
    FaultStatus
  | FaultInject "json option"
  | FaultClear "json option"
  | FaultClearAll
  | FaultDelete string
  | ExperimentList
  | ExperimentCreate string string dict string dict json
  | ExperimentGet string
  | ExperimentStop string

fun control_route :: "'s redis_ops \<Rightarrow> ctx \<Rightarrow> control_call \<Rightarrow> (('s, 'z) chaos_world_scheme, response) prog" where
  "control_route R cx FaultStatus = get_fault_status R cx"
| "control_route R cx (FaultInject body) = post_fault_inject R cx body"
| "control_route R cx (FaultClear body) = post_fault_clear R cx body"
| "control_route R cx FaultClearAll = post_fault_clear_all R cx"
| "control_route R cx (FaultDelete t) = delete_fault R cx t"
| "control_route R cx ExperimentList = get_experiments R cx"
| "control_route R cx (ExperimentCreate n h tg t p d) = post_experiment R cx n h tg t p d"
| "control_route R cx (ExperimentGet i) = read_experiment R cx i"
| "control_route R cx (ExperimentStop i) = post_experiment_stop R cx i"

text \<open>The outcomes of a refused call: 400, a permission error, or one no handler takes. The world stays as it is.\<close>

definition refusal :: "exn + response \<Rightarrow> bool" where
  "refusal v = (case v of Inr r \<Rightarrow> rp_status r = 400
     | Inl e \<Rightarrow> error_response e = None \<or> (\<exists>m. e = PermissionError m))"

definition refuses :: "('w, response) prog \<Rightarrow> bool" where
  "refuses m = (\<forall>w. \<exists>v. m w = (v, w) \<and> refusal v)"

lemma refuses_raise: "error_response e = None \<or> (\<exists>s. e = PermissionError s) \<Longrightarrow> refuses (raise e)"
  by (simp add: refuses_def refusal_def raise_def)

lemma refuses_forbidden:
  assumes "\<not> CHAOS_ENABLED cx"
  shows "refuses (bnd (thn (ensure_enabled cx) m) f)"
  using assms by (simp add: ensure_enabled_def thn_def refuses_raise)

lemma refuses_bad_request: "refuses (bad_request msg)"
  by (simp add: refuses_def refusal_def bad_request_def ret_def reply_def)

lemma refuses_value_error: "refuses m \<Longrightarrow> refuses (on_value_error m)"
  unfolding refuses_def
proof (intro allI, elim allE exE conjE)
  fix w v assume m: "m w = (v, w)" and v: "refusal v"
  show "\<exists>v. on_value_error m w = (v, w) \<and> refusal v"
  proof (cases v)
    case (Inl e)
    with m v show ?thesis
      by (cases e) (auto simp: on_value_error_def catch_def bad_request_def raise_def ret_def reply_def refusal_def)
  qed (use m v in \<open>simp add: on_value_error_def catch_def\<close>)
qed

lemma refuses_body: "(\<And>d. refuses (f d)) \<Longrightarrow> refuses (bnd (body_dict body) f)"
  by (cases body) (auto simp: body_dict_def as_dict_def intro!: refuses_raise split: json.splits)

lemma json_int_error: "json_int v = Inl e \<Longrightarrow> error_response e = None"
  by (cases v) (auto simp: int_error_def split: option.splits)

lemma refuses_int: "(\<And>n. refuses (f n)) \<Longrightarrow> refuses (bnd (lift (json_int v)) f)"
  by (cases "json_int v") (auto simp: lift_def intro!: refuses_raise dest: json_int_error)

lemma refuses_if: "refuses a \<Longrightarrow> refuses b \<Longrightarrow> refuses (if c then a else b)"
  by simp

lemma bnd_if: "bnd (if c then a else b) f = (if c then bnd a f else bnd b f)"
  by simp

lemmas refuse_rules = refuses_bad_request refuses_value_error refuses_body refuses_int refuses_if

lemma control_refuses:
  assumes "\<not> CHAOS_ENABLED cx"
  shows "refuses (control_route R cx c)"
proof -
  note off = refuses_forbidden [OF assms]
  show ?thesis
  proof (cases c)
    case (FaultInject body)
    then show ?thesis
      by (auto simp: post_fault_inject_def inject_typed_def Let_def intro!: refuse_rules off)
  next
    case (FaultClear body)
    then show ?thesis by (auto simp: post_fault_clear_def cc_clear_fault_def Let_def intro!: refuse_rules off)
  next
    case (ExperimentCreate n h tg t p d)
    then show ?thesis
      by (auto simp: post_experiment_def cc_create_experiment_def bnd_if intro!: refuse_rules off)
  qed (simp_all add: off get_fault_status_def cc_fault_status_def post_fault_clear_all_def cc_clear_all_faults_def
      delete_fault_def cc_clear_fault_def get_experiments_def cc_list_experiments_def read_experiment_def
      cc_get_experiment_def post_experiment_stop_def cc_stop_experiment_def)
qed

text \<open>
  With chaos disabled no control route does anything: whatever it is called with, it reads and writes
  nothing, and what the client gets from the error handlers is 400 or 403, unless the body is one that
  no handler is registered for.
\<close>

theorem disabled_control_does_nothing:
  assumes "\<not> CHAOS_ENABLED cx"
  shows "\<exists>v. handled (control_route R cx c) w = (v, w) \<and> (\<forall>r. v = Inr r \<longrightarrow> rp_status r \<in> {400, 403})"
proof -
  from control_refuses [OF assms, of R c] obtain v where m: "control_route R cx c w = (v, w)" and v: "refusal v"
    unfolding refuses_def by blast
  show ?thesis
  proof (cases v)
    case (Inl e)
    with m v show ?thesis
      by (cases e) (auto simp: handled_def catch_def refusal_def ret_def raise_def reply_def)
  qed (use m v in \<open>simp add: handled_def catch_def refusal_def\<close>)
qed

theorem disabled_control_does_nothing_witness:
  "\<exists>v. handled (control_route fake_redis (demo_ctx\<lparr>CHAOS_ENABLED := False\<rparr>) (ExperimentStop ''x'')) web_world = (v, web_world) \<and>
     (\<forall>r. v = Inr r \<longrightarrow> rp_status r \<in> {400, 403})"
  by (rule disabled_control_does_nothing) simp

section \<open>Ids\<close>

lemma clean_id_bounds: "clean_id raw = Some i \<Longrightarrow> i \<noteq> [] \<and> length i \<le> 128"
  by (auto simp: clean_id_def Let_def split: if_splits)

text \<open>
  Whatever the headers of a request hold, it gets a request id and a trace id that are not empty and
  have at most 128 characters (a fresh identifier when the header is missing, blank or too long), and
  these are the ids in its context, in the logging context and in the headers of the answer.
\<close>

theorem request_ids_bounded:
  fixes w :: "('s, 'z) http_world_scheme"
  assumes "\<forall>n. w_uuids w n \<noteq> [] \<and> length (w_uuids w n) \<le> 128"
  shows "\<exists>req w' rid tid rx. open_request cx rq w = (Inr req, w') \<and>
    rid \<noteq> [] \<and> length rid \<le> 128 \<and> tid \<noteq> [] \<and> length tid \<le> 128 \<and>
    hw_context w' = Some rx \<and> rx_request_id rx = rid \<and> rx_trace_id rx = tid \<and>
    dget (lc_request w') ''request_id'' = Some (JStr rid) \<and> dget (lc_request w') ''trace_id'' = Some (JStr tid) \<and>
    id_headers w' = [(''X-Request-Id'', rid), (''X-Trace-Id'', tid)]"
proof -
  let ?w1 = "snd (py_time w)"
  define rid where "rid = (case clean_id (header (plain_request rq) ''X-Request-Id'') of None \<Rightarrow> w_uuids w (w_uuid_no w) | Some i \<Rightarrow> i)"
  define tid where "tid = resolve_trace_id rq rid"
  have r: "rid \<noteq> [] \<and> length rid \<le> 128"
    using assms clean_id_bounds by (auto simp: rid_def split: option.split)
  then have t: "tid \<noteq> [] \<and> length tid \<le> 128"
    using clean_id_bounds by (auto simp: tid_def resolve_trace_id_def split: option.split)
  obtain w2 where w2: "resolve_request_id rq ?w1 = (Inr rid, w2)"
    by (cases "clean_id (header (plain_request rq) ''X-Request-Id'')")
      (auto simp: resolve_request_id_def rid_def py_uuid_def py_time_def ret_def Let_def)
  show ?thesis
    using r t w2 unfolding open_request_def Let_def
    by (auto simp: bnd_def thn_def py_time_def build_request_context_def ret_def modw_def set_context_def set_fields_def
        id_headers_def given_def tid_def Let_def)
qed

theorem request_ids_bounded_witness:
  "\<exists>req w' rid. open_request demo_ctx web_request (web_world\<lparr>w_uuids := (\<lambda>n. ''u1'')\<rparr>) = (Inr req, w') \<and>
     dget (lc_request w') ''request_id'' = Some (JStr rid) \<and> length rid \<le> 128 \<and> rid \<noteq> []"
  using request_ids_bounded [of "web_world\<lparr>w_uuids := (\<lambda>n. ''u1'')\<rparr>" demo_ctx web_request] by auto

section \<open>Recorded traffic\<close>

text \<open>Answered requests and turns of the writing thread, in any order.\<close>

datatype traffic_op = Served http_request int | Written

fun traffic_run :: "ctx \<Rightarrow> traffic_op list \<Rightarrow> (('s, 'z) http_world_scheme, unit) prog" where
  "traffic_run cx [] = ret ()"
| "traffic_run cx (Served rq status # ops) = thn (record_success_traffic cx rq status) (traffic_run cx ops)"
| "traffic_run cx (Written # ops) = thn traffic_writer (traffic_run cx ops)"

text \<open>What may be recorded: a success, with allowed headers only and no mobile number in query, headers or body.\<close>

definition safe_event :: "json \<Rightarrow> bool" where
  "safe_event e = (\<exists>d h. e = JObj d \<and> clean (dget_or d ''query'' JNull) \<and> clean (dget_or d ''body'' JNull) \<and>
     dget d ''headers'' = Some (JObj h) \<and>
     (\<forall>k v. dget h k = Some v \<longrightarrow> lower k \<in> set allowed_headers \<and> clean v) \<and>
     (\<exists>s < 400. dget d ''status'' = Some (JInt s)))"

definition traffic_ok :: "ctx \<Rightarrow> ('s, 'z) http_world_scheme \<Rightarrow> bool" where
  "traffic_ok cx w = ((\<forall>e \<in> set (tr_file w @ tr_queue w). safe_event e) \<and>
     (TRAFFIC_RECORD_MAX_QUEUE cx > 0 \<longrightarrow> int (length (tr_queue w)) \<le> TRAFFIC_RECORD_MAX_QUEUE cx))"

lemma dict_of_member: "dget (dict_of kvs) k = Some v \<Longrightarrow> (k, v) \<in> set kvs"
  by (auto simp: dget_dict_of dest!: map_of_SomeD)

lemma sanitized_headers:
  "dget (sanitize_headers hs) k = Some v \<Longrightarrow> lower k \<in> set allowed_headers \<and> clean v"
  by (auto simp: sanitize_headers_def mask_value_clean simp del: mask_value.simps clean.simps dest!: dict_of_member)

lemma traffic_event_safe: "status < 400 \<Longrightarrow> safe_event (traffic_event rq ts status)"
  unfolding safe_event_def traffic_event_def
  by (intro exI conjI, rule refl)
    (auto simp: dict_of_def mask_value_clean simp del: mask_value.simps clean.simps dest: sanitized_headers)

lemma keeps_traffic: "keeps (traffic_ok cx) (record_success_traffic cx rq status)" "keeps (traffic_ok cx) traffic_writer"
proof -
  have "keeps (traffic_ok cx) (py_time :: (('s, 'z) http_world_scheme, rat) prog)"
    by (simp add: keeps_def py_time_def traffic_ok_def Let_def)
  moreover have "status < 400 \<Longrightarrow> keeps (traffic_ok cx) (put_nowait cx (traffic_event rq ts status))" for ts
    by (auto simp: keeps_def put_nowait_def modw_def traffic_ok_def dest!: traffic_event_safe)
  ultimately show "keeps (traffic_ok cx) (record_success_traffic cx rq status :: (('s, 'z) http_world_scheme, unit) prog)"
    unfolding record_success_traffic_def by (auto intro!: keeps_bnd keeps_ret)
  show "keeps (traffic_ok cx) traffic_writer"
    by (auto simp: keeps_def traffic_writer_def modw_def traffic_ok_def split: list.splits)
qed

lemma keeps_traffic_run: "keeps (traffic_ok cx) (traffic_run cx ops)"
  by (induction cx ops rule: traffic_run.induct) (auto intro!: keeps_thn keeps_traffic keeps_ret)



section \<open>Requests in progress\<close>

text \<open>
  The metrics hooks of one request: it is answered with a status or ends without an answer, with any
  handling in between, and is torn down at least once.
\<close>

definition metered ::
  "('y) http_request_scheme \<Rightarrow> (('s, 'z) http_world_scheme, unit) prog \<Rightarrow> int option \<Rightarrow> nat \<Rightarrow>
   (('s, 'z) http_world_scheme, unit) prog" where
  "metered rq handling status tears =
     thn (before_request_metrics rq)
     (thn (catch handling (\<lambda>e. ret ()))
     (thn (case status of None \<Rightarrow> ret () | Some s \<Rightarrow> after_request_metrics rq s)
     (for_each (replicate (Suc tears) ()) (\<lambda>_. teardown_request_metrics rq))))"

text \<open>The handling leaves the gauge and the attributes of the metrics alone.\<close>

definition progress_view :: "('y) http_request_scheme \<Rightarrow> ('s, 'z) http_world_scheme \<Rightarrow> rat \<times> string option \<times> bool" where
  "progress_view rq w =
     (w_counters w (''REQUESTS_IN_PROGRESS'', request_labels rq (resolve_route_label rq)), hw_route w, hw_in_progress w)"

definition unmetered :: "('y) http_request_scheme \<Rightarrow> (('s, 'z) http_world_scheme, unit) prog \<Rightarrow> bool" where
  "unmetered rq m = (\<forall>w. progress_view rq (snd (m w)) = progress_view rq w)"

lemma teardown_idle: "\<not> hw_in_progress w \<Longrightarrow> teardown_request_metrics rq w = (Inr (), w)"
  by (simp add: teardown_request_metrics_def metrics_route_def finish_in_progress_def gets_def bnd_def ret_def)

lemma teardowns_idle:
  "\<not> hw_in_progress w \<Longrightarrow> for_each xs (\<lambda>_. teardown_request_metrics rq) w = (Inr (), w)"
  by (induction xs) (simp_all add: ret_def thn_def bnd_def teardown_idle)

lemma finish_busy:
  assumes "progress_view rq w = (g + 1, Some (resolve_route_label rq), True)"
  shows "\<exists>w'. finish_in_progress rq (resolve_route_label rq) w = (Inr (), w') \<and>
    progress_view rq w' = (g, Some (resolve_route_label rq), False)"
  using assms by (simp add: finish_in_progress_def gets_def bnd_def thn_def metric_dec_def metric_add_def modw_def
      progress_view_def)

lemma after_request_progress:
  fixes w :: "('s, 'z) http_world_scheme"
  assumes "progress_view rq w = (g + 1, Some (resolve_route_label rq), True)"
  shows "\<exists>w'. after_request_metrics rq s w = (Inr (), w') \<and> progress_view rq w' = (g, Some (resolve_route_label rq), False)"
proof -
  let ?route = "resolve_route_label rq"
  have r: "metrics_route rq w = (Inr ?route, w)" using assms by (simp add: metrics_route_def gets_def progress_view_def)
  obtain d wa where a: "request_duration w = (Inr d, wa)" "progress_view rq wa = progress_view rq w"
    by (simp add: request_duration_def bnd_def py_time_def gets_def progress_view_def Let_def)
  have m: "\<exists>w'. metric_inc n ls x = (Inr (), w') \<and> progress_view rq w' = progress_view rq x"
    if "n \<noteq> ''REQUESTS_IN_PROGRESS''" for n ls and x :: "('s, 'z) http_world_scheme"
    using that by (simp add: metric_inc_def metric_add_def modw_def progress_view_def)
  obtain wb where b: "metric_inc ''REQUEST_COUNT'' (request_labels rq ?route @ [(''status'', int_text s)]) wa = (Inr (), wb)"
    "progress_view rq wb = progress_view rq wa" using m [of "''REQUEST_COUNT''" "request_labels rq ?route @ [(''status'', int_text s)]" wa] by auto
  obtain wc where c: "metric_observe ''REQUEST_LATENCY'' (request_labels rq ?route) d wb = (Inr (), wc)"
    "progress_view rq wc = progress_view rq wb" by (simp add: metric_observe_def modw_def progress_view_def)
  obtain wd where d: "whenp (s \<ge> 500) (metric_inc ''REQUEST_ERRORS'' (request_labels rq ?route)) wc = (Inr (), wd)"
    "progress_view rq wd = progress_view rq wc"
    using m [of "''REQUEST_ERRORS''" "request_labels rq ?route" wc]
    by (cases "s \<ge> 500") (auto simp: whenp_def ret_def)
  from finish_busy [of rq wd g] a(2) b(2) c(2) d(2) assms obtain we where
    "finish_in_progress rq ?route wd = (Inr (), we)" "progress_view rq we = (g, Some ?route, False)" by auto
  with r a(1) b(1) c(1) d(1) show ?thesis by (simp add: after_request_metrics_def bnd_def thn_def)
qed

text \<open>
  C19. The gauge of requests in progress is balanced: it counts a request while it is handled, and after
  its teardown it is back where it was, however the handling ended and whether or not an answer was
  given; the request's mark is gone, so further teardowns change nothing.
\<close>

theorem in_progress_balanced:
  fixes w :: "('s, 'z) http_world_scheme"
  assumes "unmetered rq handling" and "progress_view rq w = (g, v, False)"
  shows "\<exists>w1 w2. before_request_metrics rq w = (Inr (), w1) \<and>
    progress_view rq w1 = (g + 1, Some (resolve_route_label rq), True) \<and>
    metered rq handling status tears w = (Inr (), w2) \<and>
    progress_view rq w2 = (g, Some (resolve_route_label rq), False)"
proof -
  let ?route = "resolve_route_label rq"
  obtain w1 where 1: "before_request_metrics rq w = (Inr (), w1)" "progress_view rq w1 = (g + 1, Some ?route, True)"
    using assms(2) by (cases "hw_start_time w") (simp_all add: before_request_metrics_def gets_def bnd_def thn_def whenp_def ret_def
        py_time_def modw_def metric_inc_def metric_add_def progress_view_def Let_def)
  obtain w2 where 2: "catch handling (\<lambda>e. ret ()) w1 = (Inr (), w2)" "progress_view rq w2 = (g + 1, Some ?route, True)"
  proof -
    have "\<exists>w2. catch handling (\<lambda>e. ret ()) w1 = (Inr (), w2) \<and> w2 = snd (handling w1)"
      by (cases "handling w1"; cases "fst (handling w1)") (simp_all add: catch_def ret_def)
    with assms(1) 1(2) that show ?thesis by (auto simp: unmetered_def)
  qed
  obtain w3 where 3: "(case status of None \<Rightarrow> ret () | Some s \<Rightarrow> after_request_metrics rq s) w2 = (Inr (), w3)"
    "progress_view rq w3 = (g + 1, Some ?route, True) \<or> progress_view rq w3 = (g, Some ?route, False)"
  proof (cases status)
    case None
    with 2(2) that show ?thesis by (simp add: ret_def)
  next
    case (Some s)
    with after_request_progress [OF 2(2), of s] that show ?thesis by auto
  qed
  obtain w4 where 4: "teardown_request_metrics rq w3 = (Inr (), w4)" "progress_view rq w4 = (g, Some ?route, False)"
  proof (cases "hw_in_progress w3")
    case True
    with 3(2) have v: "progress_view rq w3 = (g + 1, Some ?route, True)" by (auto simp: progress_view_def)
    then have "metrics_route rq w3 = (Inr ?route, w3)" by (simp add: metrics_route_def gets_def progress_view_def)
    with finish_busy [OF v] that show ?thesis by (auto simp: teardown_request_metrics_def bnd_def)
  next
    case False
    with 3(2) have "progress_view rq w3 = (g, Some ?route, False)" by (auto simp: progress_view_def)
    with teardown_idle [OF False, of rq] that show ?thesis by blast
  qed
  have "for_each (replicate (Suc tears) ()) (\<lambda>_. teardown_request_metrics rq) w3 = (Inr (), w4)"
    using 4 by (simp add: thn_def bnd_def teardowns_idle progress_view_def)
  then have "metered rq handling status tears w = (Inr (), w4)"
    using 1(1) 2(1) 3(1) by (simp add: metered_def thn_def bnd_def)
  with 1 4(2) show ?thesis by blast
qed

theorem in_progress_balanced_witness:
  "\<exists>w2. metered web_request (raise (RuntimeError ''x'')) (Some 500) 1 web_world = (Inr (), w2) \<and>
     progress_view web_request w2 = (0, Some ''/order'', False)"
proof -
  have "unmetered web_request (raise (RuntimeError ''x'') :: (fake http_world, unit) prog)"
    by (simp add: unmetered_def raise_def)
  moreover have "progress_view web_request web_world = (0, None, False)"
    by (simp add: progress_view_def web_world_def chaos_world.defs order_world_def demo_chaos_world_def demo_world_def world.defs)
  moreover have "resolve_route_label web_request = ''/order''" by (simp add: resolve_route_label_def given_def)
  ultimately show ?thesis using in_progress_balanced [of web_request "raise (RuntimeError ''x'')" web_world 0 None "Some 500" 1] by auto
qed

end
