(* ===== verification/Observability.thy ===== *)
theory Observability
  imports Prelude
begin

text \<open>
  \<open>ai_platform/observability\<close>: events, spans and traces, the in-memory metrics and the collector. A trace
  and its spans are shared objects, so the collector holds the list of traces and everything else refers
  to a trace by its place in it, and to a span by its place in its trace. Locks have no counterpart: the
  model runs one operation at a time. Both clocks of the source are the world's clock.
\<close>

section \<open>Spans and traces\<close>

datatype span_status = SpanOk | SpanError

fun span_status_text :: "span_status \<Rightarrow> string" where
  "span_status_text SpanOk = ''ok''"
| "span_status_text SpanError = ''error''"

record span =
  sp_id :: string
  sp_name :: string
  sp_start :: rat
  sp_end :: "rat option"
  sp_duration :: "rat option"
  sp_status :: span_status
  sp_attributes :: dict
  sp_events :: "json list"

record trace_context =
  tx_id :: string
  tx_run_id :: string
  tx_start :: rat
  tx_end :: "rat option"
  tx_duration :: "rat option"
  tx_spans :: "span list"
  tx_metadata :: dict

definition new_span :: "string \<Rightarrow> dict \<Rightarrow> (('s, 'z) world_scheme, span) prog" where
  "new_span name attributes =
     bnd py_uuid (\<lambda>u. bnd py_time (\<lambda>t.
     ret \<lparr>sp_id = take 12 u, sp_name = name, sp_start = t, sp_end = None, sp_duration = None,
       sp_status = SpanOk, sp_attributes = attributes, sp_events = []\<rparr>))"

definition span_finish :: "span_status option \<Rightarrow> dict option \<Rightarrow> span \<Rightarrow> (('s, 'z) world_scheme, span) prog" where
  "span_finish status attributes s =
     bnd py_time (\<lambda>t.
     ret (s\<lparr>sp_end := Some t, sp_duration := Some ((t - sp_start s) * 1000),
       sp_status := (case status of None \<Rightarrow> sp_status s | Some st \<Rightarrow> st),
       sp_attributes := (case attributes of None \<Rightarrow> sp_attributes s | Some d \<Rightarrow> sp_attributes s ++\<^sub>f d)\<rparr>))"

definition span_add_event :: "string \<Rightarrow> dict option \<Rightarrow> span \<Rightarrow> (('s, 'z) world_scheme, span) prog" where
  "span_add_event name attributes s =
     bnd py_time (\<lambda>t.
     ret (s\<lparr>sp_events := sp_events s @ [JObj (dict_of [(''name'', JStr name), (''timestamp'', JFloat t),
       (''attributes'', JObj (case attributes of None \<Rightarrow> fmempty | Some d \<Rightarrow> d))])]\<rparr>))"

definition opt_float :: "rat option \<Rightarrow> json" where
  "opt_float v = (case v of None \<Rightarrow> JNull | Some r \<Rightarrow> JFloat r)"

definition span_as_dict :: "span \<Rightarrow> json" where
  "span_as_dict s = JObj (dict_of
     [(''span_id'', JStr (sp_id s)), (''name'', JStr (sp_name s)), (''start_time'', JFloat (sp_start s)),
      (''end_time'', opt_float (sp_end s)), (''duration_ms'', opt_float (map_option round3 (sp_duration s))),
      (''status'', JStr (span_status_text (sp_status s))), (''attributes'', JObj (sp_attributes s)),
      (''events'', JArr (sp_events s))])"

definition new_trace :: "dict \<Rightarrow> (('s, 'z) world_scheme, trace_context) prog" where
  "new_trace metadata =
     bnd py_uuid (\<lambda>u. bnd py_uuid (\<lambda>r. bnd py_time (\<lambda>t.
     ret \<lparr>tx_id = take 16 u, tx_run_id = take 16 r, tx_start = t, tx_end = None, tx_duration = None,
       tx_spans = [], tx_metadata = metadata\<rparr>)))"

definition trace_finish :: "trace_context \<Rightarrow> (('s, 'z) world_scheme, trace_context) prog" where
  "trace_finish x = bnd py_time (\<lambda>t. ret (x\<lparr>tx_end := Some t, tx_duration := Some ((t - tx_start x) * 1000)\<rparr>))"

definition error_spans :: "trace_context \<Rightarrow> span list" where
  "error_spans x = filter (\<lambda>s. sp_status s = SpanError) (tx_spans x)"

definition trace_as_dict :: "trace_context \<Rightarrow> json" where
  "trace_as_dict x = JObj (dict_of
     [(''trace_id'', JStr (tx_id x)), (''run_id'', JStr (tx_run_id x)), (''start_time'', JFloat (tx_start x)),
      (''end_time'', opt_float (tx_end x)), (''duration_ms'', opt_float (map_option round3 (tx_duration x))),
      (''span_count'', JInt (int (length (tx_spans x)))), (''error_count'', JInt (int (length (error_spans x)))),
      (''spans'', JArr (map span_as_dict (tx_spans x))), (''metadata'', JObj (tx_metadata x))])"

section \<open>Metrics\<close>

record simple_counter =
  sc_name :: string
  sc_description :: string
  sc_value :: int

record simple_gauge =
  sg_name :: string
  sg_description :: string
  sg_value :: rat

record histogram =
  hi_name :: string
  hi_description :: string
  hi_buckets :: "rat list"
  hi_values :: "rat list"

definition counter_as_dict :: "simple_counter \<Rightarrow> json" where
  "counter_as_dict c = JObj (dict_of [(''name'', JStr (sc_name c)), (''type'', JStr ''counter''),
     (''value'', JInt (sc_value c)), (''labels'', JObj fmempty)])"

definition gauge_as_dict :: "simple_gauge \<Rightarrow> json" where
  "gauge_as_dict g = JObj (dict_of [(''name'', JStr (sg_name g)), (''type'', JStr ''gauge''),
     (''value'', JFloat (sg_value g)), (''labels'', JObj fmempty)])"

definition histogram_record :: "rat \<Rightarrow> histogram \<Rightarrow> histogram" where
  "histogram_record v h = h\<lparr>hi_values := hi_values h @ [v]\<rparr>"

text \<open>A bucket is its bound, \<open>None\<close> for the last one; the source's keys are their texts.\<close>

definition bucket_of :: "rat list \<Rightarrow> rat \<Rightarrow> rat option" where
  "bucket_of bs v = find (\<lambda>b. v \<le> b) bs"

definition count_in :: "rat option \<Rightarrow> (rat option, nat) fmap \<Rightarrow> (rat option, nat) fmap" where
  "count_in b m = fmupd b (Suc (case fmlookup m b of None \<Rightarrow> 0 | Some n \<Rightarrow> n)) m"

definition count_from_zero :: "rat option \<Rightarrow> (rat option, nat) fmap \<Rightarrow> (rat option, nat) fmap" where
  "count_from_zero b m = (if fmlookup m b = None then fmupd b 0 m else m)"

definition compute_buckets :: "histogram \<Rightarrow> (rat option, nat) fmap" where
  "compute_buckets h =
     (let bs = sort (hi_buckets h);
          counts = fold (\<lambda>v. count_in (bucket_of bs v)) (hi_values h) fmempty in
      count_from_zero None (fold (\<lambda>b. count_from_zero (Some b)) bs counts))"

definition histogram_count :: "histogram \<Rightarrow> nat" where
  "histogram_count h = length (hi_values h)"

definition histogram_sum :: "histogram \<Rightarrow> rat" where
  "histogram_sum h = sum_list (hi_values h)"

definition histogram_avg :: "histogram \<Rightarrow> rat option" where
  "histogram_avg h = (if hi_values h = [] then None else Some (sum_list (hi_values h) / of_nat (length (hi_values h))))"

definition histogram_percentile :: "rat \<Rightarrow> histogram \<Rightarrow> rat option" where
  "histogram_percentile p h =
     (if hi_values h = [] then None
      else let arr = sort (hi_values h); n = int (length arr);
               rank = round_even (p / 100 * of_int (n - 1));
               rank' = max 0 (min rank (n - 1)) in
           Some (arr ! nat rank'))"

definition histogram_p50 :: "histogram \<Rightarrow> rat option" where
  "histogram_p50 h = histogram_percentile 50 h"

definition histogram_p99 :: "histogram \<Rightarrow> rat option" where
  "histogram_p99 h = histogram_percentile 99 h"

record metrics_registry =
  mr_counters :: "(string, simple_counter) fmap"
  mr_gauges :: "(string, simple_gauge) fmap"
  mr_histograms :: "(string, histogram) fmap"

definition default_buckets :: "rat list" where
  "default_buckets = [1, 5, 10, 25, 50, 100, 250, 500, 1000, 2500, 5000, 10000]"

definition empty_registry :: metrics_registry where
  "empty_registry = \<lparr>mr_counters = fmempty, mr_gauges = fmempty, mr_histograms = fmempty\<rparr>"

definition registry_counter :: "string \<Rightarrow> string \<Rightarrow> metrics_registry \<Rightarrow> simple_counter \<times> metrics_registry" where
  "registry_counter name description m =
     (case fmlookup (mr_counters m) name of
        Some c \<Rightarrow> (c, m)
      | None \<Rightarrow> let c = \<lparr>sc_name = name, sc_description = description, sc_value = 0\<rparr> in
          (c, m\<lparr>mr_counters := fmupd name c (mr_counters m)\<rparr>))"

definition registry_gauge :: "string \<Rightarrow> string \<Rightarrow> metrics_registry \<Rightarrow> simple_gauge \<times> metrics_registry" where
  "registry_gauge name description m =
     (case fmlookup (mr_gauges m) name of
        Some g \<Rightarrow> (g, m)
      | None \<Rightarrow> let g = \<lparr>sg_name = name, sg_description = description, sg_value = 0\<rparr> in
          (g, m\<lparr>mr_gauges := fmupd name g (mr_gauges m)\<rparr>))"

definition registry_histogram ::
  "string \<Rightarrow> string \<Rightarrow> rat list option \<Rightarrow> metrics_registry \<Rightarrow> histogram \<times> metrics_registry" where
  "registry_histogram name description buckets m =
     (case fmlookup (mr_histograms m) name of
        Some h \<Rightarrow> (h, m)
      | None \<Rightarrow> let h = \<lparr>hi_name = name, hi_description = description,
            hi_buckets = (case buckets of None \<Rightarrow> default_buckets | Some [] \<Rightarrow> default_buckets | Some bs \<Rightarrow> bs), hi_values = []\<rparr> in
          (h, m\<lparr>mr_histograms := fmupd name h (mr_histograms m)\<rparr>))"

text \<open>The program's bounds are all whole numbers, whose texts are their digits.\<close>

definition bucket_label :: "rat option \<Rightarrow> string" where
  "bucket_label b = ''le_'' @ (case b of None \<Rightarrow> ''inf'' | Some r \<Rightarrow> int_text \<lfloor>r\<rfloor>)"

definition histogram_as_dict :: "histogram \<Rightarrow> json" where
  "histogram_as_dict h = (let bs = map Some (sort (hi_buckets h)) @ [None] in JObj (dict_of
     [(''name'', JStr (hi_name h)), (''type'', JStr ''histogram''), (''count'', JInt (int (histogram_count h))),
      (''sum'', JFloat (round3 (histogram_sum h))), (''avg'', opt_float (map_option round3 (histogram_avg h))),
      (''p50'', opt_float (map_option round3 (histogram_p50 h))), (''p99'', opt_float (map_option round3 (histogram_p99 h))),
      (''buckets'', JObj (dict_of (map (\<lambda>b. (bucket_label b,
         JInt (case fmlookup (compute_buckets h) b of None \<Rightarrow> 0 | Some n \<Rightarrow> int n))) bs)))]))"

definition registry_snapshot :: "metrics_registry \<Rightarrow> json" where
  "registry_snapshot m = JObj (dict_of [(''counters'', JObj (fmmap counter_as_dict (mr_counters m))),
     (''gauges'', JObj (fmmap gauge_as_dict (mr_gauges m))), (''histograms'', JObj (fmmap histogram_as_dict (mr_histograms m)))])"

text \<open>Getting a metric and changing it: the object is shared, so the registry sees the change.\<close>

definition counter_inc :: "string \<Rightarrow> int \<Rightarrow> metrics_registry \<Rightarrow> metrics_registry" where
  "counter_inc name delta m = (case registry_counter name [] m of (c, m') \<Rightarrow>
     m'\<lparr>mr_counters := fmupd name (c\<lparr>sc_value := sc_value c + delta\<rparr>) (mr_counters m')\<rparr>)"

definition gauge_add :: "string \<Rightarrow> string \<Rightarrow> rat \<Rightarrow> metrics_registry \<Rightarrow> metrics_registry" where
  "gauge_add name description delta m = (case registry_gauge name description m of (g, m') \<Rightarrow>
     m'\<lparr>mr_gauges := fmupd name (g\<lparr>sg_value := sg_value g + delta\<rparr>) (mr_gauges m')\<rparr>)"

definition gauge_set :: "string \<Rightarrow> rat \<Rightarrow> metrics_registry \<Rightarrow> metrics_registry" where
  "gauge_set name v m = (case registry_gauge name [] m of (g, m') \<Rightarrow>
     m'\<lparr>mr_gauges := fmupd name (g\<lparr>sg_value := v\<rparr>) (mr_gauges m')\<rparr>)"

definition histogram_add :: "string \<Rightarrow> rat \<Rightarrow> metrics_registry \<Rightarrow> metrics_registry" where
  "histogram_add name v m = (case registry_histogram name [] None m of (h, m') \<Rightarrow>
     m'\<lparr>mr_histograms := fmupd name (histogram_record v h) (mr_histograms m')\<rparr>)"

definition gauge_value :: "string \<Rightarrow> metrics_registry \<Rightarrow> rat" where
  "gauge_value name m = (case fmlookup (mr_gauges m) name of None \<Rightarrow> 0 | Some g \<Rightarrow> sg_value g)"

definition counter_value :: "string \<Rightarrow> metrics_registry \<Rightarrow> int" where
  "counter_value name m = (case fmlookup (mr_counters m) name of None \<Rightarrow> 0 | Some c \<Rightarrow> sc_value c)"

section \<open>Events\<close>

record base_event =
  ev_type :: string
  ev_timestamp :: rat
  ev_trace_id :: string
  ev_span_id :: "string option"
  ev_payload :: dict

definition event_as_dict :: "base_event \<Rightarrow> json" where
  "event_as_dict e = JObj (dict_of [(''event_type'', JStr (ev_type e)), (''timestamp'', JFloat (ev_timestamp e)),
     (''trace_id'', JStr (ev_trace_id e)), (''span_id'', case ev_span_id e of None \<Rightarrow> JNull | Some s \<Rightarrow> JStr s),
     (''payload'', JObj (ev_payload e))])"

definition new_event ::
  "string \<Rightarrow> string \<Rightarrow> string option \<Rightarrow> (string \<times> json) list \<Rightarrow> (('s, 'z) world_scheme, base_event) prog" where
  "new_event ty trace span_id payload = bnd py_time (\<lambda>t.
     ret \<lparr>ev_type = ty, ev_timestamp = t, ev_trace_id = trace, ev_span_id = span_id, ev_payload = dict_of payload\<rparr>)"

definition dict_or_empty :: "dict option \<Rightarrow> json" where
  "dict_or_empty d = JObj (case d of None \<Rightarrow> fmempty | Some x \<Rightarrow> x)"

definition text_or_null :: "string option \<Rightarrow> json" where
  "text_or_null v = (case v of None \<Rightarrow> JNull | Some s \<Rightarrow> JStr s)"

definition int_or_null :: "int option \<Rightarrow> json" where
  "int_or_null v = (case v of None \<Rightarrow> JNull | Some n \<Rightarrow> JInt n)"

text \<open>\<open>str(v)[:500] if v is not None else None\<close>.\<close>

definition preview :: "nat \<Rightarrow> json \<Rightarrow> json" where
  "preview n v = (if v = JNull then JNull else JStr (take n (py_str v)))"

definition agent_start :: "string \<Rightarrow> json \<Rightarrow> dict option \<Rightarrow> (('s, 'z) world_scheme, base_event) prog" where
  "agent_start trace req metadata = new_event ''agent.run.start'' trace None
     [(''request'', preview 500 req), (''metadata'', dict_or_empty metadata)]"

definition agent_end :: "string \<Rightarrow> string \<Rightarrow> rat option \<Rightarrow> (('s, 'z) world_scheme, base_event) prog" where
  "agent_end trace status duration_ms = new_event ''agent.run.end'' trace None
     [(''status'', JStr status), (''duration_ms'', opt_float duration_ms)]"

definition agent_error :: "string \<Rightarrow> string \<Rightarrow> string \<Rightarrow> (('s, 'z) world_scheme, base_event) prog" where
  "agent_error trace error_type message = new_event ''agent.error'' trace None
     [(''error_type'', JStr error_type), (''message'', JStr message)]"

definition node_start :: "string \<Rightarrow> string \<Rightarrow> string \<Rightarrow> dict option \<Rightarrow> (('s, 'z) world_scheme, base_event) prog" where
  "node_start trace span_id name metadata = new_event ''node.start'' trace (Some span_id)
     [(''node_name'', JStr name), (''metadata'', dict_or_empty metadata)]"

definition node_end :: "string \<Rightarrow> string \<Rightarrow> string \<Rightarrow> rat option \<Rightarrow> string \<Rightarrow> (('s, 'z) world_scheme, base_event) prog" where
  "node_end trace span_id name duration_ms status = new_event ''node.end'' trace (Some span_id)
     [(''node_name'', JStr name), (''duration_ms'', opt_float duration_ms), (''status'', JStr status)]"

definition tool_call :: "string \<Rightarrow> string \<Rightarrow> string \<Rightarrow> json \<Rightarrow> (('s, 'z) world_scheme, base_event) prog" where
  "tool_call trace span_id name params = new_event ''tool.call'' trace (Some span_id)
     [(''tool_name'', JStr name), (''params'', if truthy params then params else JObj fmempty)]"

definition tool_result_event ::
  "string \<Rightarrow> string \<Rightarrow> string \<Rightarrow> bool \<Rightarrow> rat option \<Rightarrow> json \<Rightarrow> string option \<Rightarrow> (('s, 'z) world_scheme, base_event) prog" where
  "tool_result_event trace span_id name ok duration_ms result err = new_event ''tool.result'' trace (Some span_id)
     [(''tool_name'', JStr name), (''ok'', JBool ok), (''duration_ms'', opt_float duration_ms),
      (''result'', preview 500 result), (''error'', text_or_null err)]"

definition llm_call_event :: "string \<Rightarrow> string \<Rightarrow> string \<Rightarrow> string \<Rightarrow> string option \<Rightarrow> (('s, 'z) world_scheme, base_event) prog" where
  "llm_call_event trace span_id provider model prompt = new_event ''llm.call'' trace (Some span_id)
     [(''provider'', JStr provider), (''model'', JStr model),
      (''prompt_preview'', case prompt of None \<Rightarrow> JNull | Some p \<Rightarrow> if p = [] then JNull else JStr (take 200 p))]"

definition llm_response_event ::
  "string \<Rightarrow> string \<Rightarrow> string \<Rightarrow> string \<Rightarrow> rat option \<Rightarrow> int option \<Rightarrow> int option \<Rightarrow> int option \<Rightarrow>
   (('s, 'z) world_scheme, base_event) prog" where
  "llm_response_event trace span_id provider model duration_ms prompt_tokens completion_tokens total_tokens =
     new_event ''llm.response'' trace (Some span_id)
     [(''provider'', JStr provider), (''model'', JStr model), (''duration_ms'', opt_float duration_ms),
      (''prompt_tokens'', int_or_null prompt_tokens), (''completion_tokens'', int_or_null completion_tokens),
      (''total_tokens'', int_or_null total_tokens)]"

definition llm_error_event ::
  "string \<Rightarrow> string \<Rightarrow> string \<Rightarrow> string \<Rightarrow> string \<Rightarrow> string \<Rightarrow> (('s, 'z) world_scheme, base_event) prog" where
  "llm_error_event trace span_id provider model error_type message = new_event ''llm.error'' trace (Some span_id)
     [(''provider'', JStr provider), (''model'', JStr model), (''error_type'', JStr error_type), (''message'', JStr message)]"

definition evaluation_start :: "string \<Rightarrow> string list \<Rightarrow> (('s, 'z) world_scheme, base_event) prog" where
  "evaluation_start trace evaluators = new_event ''evaluation.start'' trace None
     [(''evaluators'', JArr (map JStr evaluators))]"

definition evaluation_result_event ::
  "string \<Rightarrow> rat option \<Rightarrow> bool \<Rightarrow> dict option \<Rightarrow> rat option \<Rightarrow> (('s, 'z) world_scheme, base_event) prog" where
  "evaluation_result_event trace score success metrics duration_ms = new_event ''evaluation.result'' trace None
     [(''score'', opt_float score), (''success'', JBool success), (''duration_ms'', opt_float duration_ms),
      (''metrics'', dict_or_empty metrics)]"

definition gate_check :: "string \<Rightarrow> dict \<Rightarrow> (('s, 'z) world_scheme, base_event) prog" where
  "gate_check trace thresholds = new_event ''gate.check'' trace None [(''thresholds'', JObj thresholds)]"

definition gate_result_event ::
  "string \<Rightarrow> bool \<Rightarrow> string list option \<Rightarrow> dict option \<Rightarrow> (('s, 'z) world_scheme, base_event) prog" where
  "gate_result_event trace passed reasons metrics = new_event (if passed then ''gate.pass'' else ''gate.fail'') trace None
     [(''passed'', JBool passed), (''reasons'', JArr (map JStr (case reasons of None \<Rightarrow> [] | Some rs \<Rightarrow> rs))),
      (''metrics'', dict_or_empty metrics)]"

definition workflow_start :: "string \<Rightarrow> int \<Rightarrow> string list option \<Rightarrow> (('s, 'z) world_scheme, base_event) prog" where
  "workflow_start trace node_count node_names = new_event ''workflow.start'' trace None
     [(''node_count'', JInt node_count), (''node_names'', JArr (map JStr (case node_names of None \<Rightarrow> [] | Some ns \<Rightarrow> ns)))]"

definition workflow_end :: "string \<Rightarrow> int \<Rightarrow> rat option \<Rightarrow> (('s, 'z) world_scheme, base_event) prog" where
  "workflow_end trace node_count duration_ms = new_event ''workflow.end'' trace None
     [(''node_count'', JInt node_count), (''duration_ms'', opt_float duration_ms)]"

text \<open>
  Events of the security checks (\<open>security_event.py\<close>) are objects of their own with fields of the same
  names, so the collector takes both kinds.
\<close>

record security_event =
  se_type :: string
  se_timestamp :: rat
  se_trace_id :: string
  se_check_name :: string
  se_passed :: bool
  se_risk_level :: string
  se_violations :: "string list"
  se_metadata :: dict

definition block_event ::
  "string \<Rightarrow> string \<Rightarrow> string list \<Rightarrow> string \<Rightarrow> dict \<Rightarrow> (('s, 'z) world_scheme, security_event) prog" where
  "block_event check_name risk_level violations trace metadata = bnd py_time (\<lambda>t.
     ret \<lparr>se_type = ''security.block'', se_timestamp = t, se_trace_id = trace, se_check_name = check_name,
       se_passed = False, se_risk_level = risk_level, se_violations = violations, se_metadata = metadata\<rparr>)"

definition pass_event :: "string \<Rightarrow> string \<Rightarrow> dict \<Rightarrow> (('s, 'z) world_scheme, security_event) prog" where
  "pass_event check_name trace metadata = bnd py_time (\<lambda>t.
     ret \<lparr>se_type = ''security.pass'', se_timestamp = t, se_trace_id = trace, se_check_name = check_name,
       se_passed = True, se_risk_level = ''none'', se_violations = [], se_metadata = metadata\<rparr>)"

definition security_event_as_dict :: "security_event \<Rightarrow> json" where
  "security_event_as_dict e = JObj (dict_of [(''event_type'', JStr (se_type e)), (''timestamp'', JFloat (se_timestamp e)),
     (''trace_id'', JStr (se_trace_id e)), (''check_name'', JStr (se_check_name e)), (''passed'', JBool (se_passed e)),
     (''risk_level'', JStr (se_risk_level e)), (''violations'', JArr (map JStr (se_violations e))),
     (''metadata'', JObj (se_metadata e))])"

datatype event_object = BaseEvent base_event | SecurityEvent security_event

fun object_type :: "event_object \<Rightarrow> string" where
  "object_type (BaseEvent e) = ev_type e"
| "object_type (SecurityEvent e) = se_type e"

fun object_trace_id :: "event_object \<Rightarrow> string" where
  "object_trace_id (BaseEvent e) = ev_trace_id e"
| "object_trace_id (SecurityEvent e) = se_trace_id e"

fun with_trace_id :: "string \<Rightarrow> event_object \<Rightarrow> event_object" where
  "with_trace_id i (BaseEvent e) = BaseEvent (e\<lparr>ev_trace_id := i\<rparr>)"
| "with_trace_id i (SecurityEvent e) = SecurityEvent (e\<lparr>se_trace_id := i\<rparr>)"

fun object_as_dict :: "event_object \<Rightarrow> json" where
  "object_as_dict (BaseEvent e) = event_as_dict e"
| "object_as_dict (SecurityEvent e) = security_event_as_dict e"

end
