(* ===== verification/Collector.thy ===== *)
theory Collector
  imports Observability
begin

text \<open>
  The collector (\<open>ai_platform/observability/collector.py\<close>), the state of an agent run and its context
  (\<open>ai_platform/agent/state.py\<close>, \<open>context.py\<close>), and the world of the platform. An \<open>AgentState\<close> is an object
  that the steps of a workflow change in place, so the world holds the states and a step is given the
  place of one.
\<close>

section \<open>State and context of a run\<close>

record agent_state =
  as_request :: json
  as_plan :: json
  as_tool_result :: "json list"
  as_llm_call :: "json list"
  as_answer :: json
  as_error :: "dict option"
  as_status :: string
  as_metadata :: dict

definition new_state :: "json \<Rightarrow> agent_state" where
  "new_state req = \<lparr>as_request = req, as_plan = JNull, as_tool_result = [], as_llm_call = [], as_answer = JNull,
     as_error = None, as_status = ''new'', as_metadata = fmempty\<rparr>"

definition mark_running :: "agent_state \<Rightarrow> agent_state" where
  "mark_running s = s\<lparr>as_status := ''running''\<rparr>"

definition mark_succeeded :: "agent_state \<Rightarrow> agent_state" where
  "mark_succeeded s = s\<lparr>as_status := ''succeeded''\<rparr>"

definition mark_failed :: "agent_state \<Rightarrow> agent_state" where
  "mark_failed s = s\<lparr>as_status := ''failed''\<rparr>"

definition set_plan :: "json \<Rightarrow> agent_state \<Rightarrow> agent_state" where
  "set_plan plan s = s\<lparr>as_plan := plan, as_metadata := dset ''has_plan'' (JBool True) (as_metadata s)\<rparr>"

definition set_answer :: "json \<Rightarrow> agent_state \<Rightarrow> agent_state" where
  "set_answer answer s = s\<lparr>as_answer := answer, as_metadata := dset ''has_answer'' (JBool True) (as_metadata s)\<rparr>"

text \<open>\<open>set_error\<close> of an exception: the name of its class and its text.\<close>

definition set_error :: "string \<Rightarrow> string \<Rightarrow> agent_state \<Rightarrow> agent_state" where
  "set_error ty message s = s\<lparr>as_error := Some (dict_of [(''type'', JStr ty), (''message'', JStr message)])\<rparr>"

definition set_error_text :: "string \<Rightarrow> agent_state \<Rightarrow> agent_state" where
  "set_error_text message s = set_error ''Error'' message s"

text \<open>The optional fields of an entry are left out when they are absent.\<close>

definition given_fields :: "(string \<times> json option) list \<Rightarrow> (string \<times> json) list" where
  "given_fields fs = List.map_filter (\<lambda>(k, v). map_option (\<lambda>x. (k, x)) v) fs"

definition nonempty_dict :: "dict option \<Rightarrow> json option" where
  "nonempty_dict d = (case d of None \<Rightarrow> None | Some x \<Rightarrow> if x = fmempty then None else Some (JObj x))"

definition add_llm_call ::
  "string \<Rightarrow> string \<Rightarrow> string option \<Rightarrow> string option \<Rightarrow> rat option \<Rightarrow> string option \<Rightarrow> dict option \<Rightarrow>
   agent_state \<Rightarrow> agent_state" where
  "add_llm_call provider model prompt response latency_ms err metadata s =
     s\<lparr>as_llm_call := as_llm_call s @ [JObj (dict_of
       ([(''provider'', JStr provider), (''model'', JStr model)] @ given_fields
        [(''prompt'', map_option JStr prompt), (''response'', map_option JStr response),
         (''latency_ms'', map_option JFloat latency_ms), (''error'', map_option JStr err),
         (''metadata'', nonempty_dict metadata)]))]\<rparr>"

definition add_tool_result ::
  "string \<Rightarrow> json \<Rightarrow> json \<Rightarrow> dict option \<Rightarrow> agent_state \<Rightarrow> agent_state" where
  "add_tool_result tool result err metadata s =
     s\<lparr>as_tool_result := as_tool_result s @ [JObj (dict_of
       ([(''tool'', JStr tool), (''result'', result)] @ given_fields
        [(''error'', if err = JNull then None else Some err), (''metadata'', nonempty_dict metadata)]))]\<rparr>"

definition state_as_dict :: "agent_state \<Rightarrow> json" where
  "state_as_dict s = JObj (dict_of
     [(''request'', as_request s), (''plan'', as_plan s), (''tool_result'', JArr (as_tool_result s)),
      (''llm_call'', JArr (as_llm_call s)), (''answer'', as_answer s),
      (''error'', case as_error s of None \<Rightarrow> JNull | Some d \<Rightarrow> JObj d), (''status'', JStr (as_status s)),
      (''metadata'', JObj (as_metadata s))])"

record agent_context =
  ax_request_id :: string
  ax_trace_id :: string
  ax_run_id :: string
  ax_caller :: string
  ax_metadata :: dict

definition new_agent_context :: "(('s, 'z) world_scheme, agent_context) prog" where
  "new_agent_context = bnd py_uuid (\<lambda>a. bnd py_uuid (\<lambda>b. bnd py_uuid (\<lambda>c.
     ret \<lparr>ax_request_id = a, ax_trace_id = b, ax_run_id = c, ax_caller = [], ax_metadata = fmempty\<rparr>)))"

section \<open>The platform's world\<close>

record collector =
  cl_metrics :: metrics_registry
  cl_events :: "event_object list"
  cl_traces :: "trace_context list"
  cl_active :: "nat option"

definition empty_collector :: collector where
  "empty_collector = \<lparr>cl_metrics = empty_registry, cl_events = [], cl_traces = [], cl_active = None\<rparr>"

record 's platform_world = "'s world" +
  pw_collector :: collector
  pw_context :: "agent_context option"
  pw_log_trace :: "string option"
  pw_states :: "agent_state list"

definition with_collector :: "(collector \<Rightarrow> collector) \<Rightarrow> (('s, 'z) platform_world_scheme, unit) prog" where
  "with_collector f = modw (\<lambda>w. w\<lparr>pw_collector := f (pw_collector w)\<rparr>)"

definition with_metrics :: "(metrics_registry \<Rightarrow> metrics_registry) \<Rightarrow> (('s, 'z) platform_world_scheme, unit) prog" where
  "with_metrics f = with_collector (\<lambda>c. c\<lparr>cl_metrics := f (cl_metrics c)\<rparr>)"

definition count :: "string \<Rightarrow> (('s, 'z) platform_world_scheme, unit) prog" where
  "count name = with_metrics (counter_inc name 1)"

section \<open>Collector\<close>

definition start_trace :: "dict \<Rightarrow> (('s, 'z) platform_world_scheme, nat) prog" where
  "start_trace metadata =
     bnd (new_trace metadata) (\<lambda>x.
     bnd (gets (\<lambda>w. length (cl_traces (pw_collector w)))) (\<lambda>i.
     thn (with_collector (\<lambda>c. c\<lparr>cl_traces := cl_traces c @ [x], cl_active := Some i\<rparr>)) (ret i)))"

definition trace_at :: "nat \<Rightarrow> (('s, 'z) platform_world_scheme, trace_context) prog" where
  "trace_at i = gets (\<lambda>w. cl_traces (pw_collector w) ! i)"

definition put_trace :: "nat \<Rightarrow> trace_context \<Rightarrow> (('s, 'z) platform_world_scheme, unit) prog" where
  "put_trace i x = with_collector (\<lambda>c. c\<lparr>cl_traces := (cl_traces c)[i := x]\<rparr>)"

text \<open>A span is referred to by its trace and its place in it.\<close>

definition create_span :: "string \<Rightarrow> dict \<Rightarrow> (('s, 'z) platform_world_scheme, nat \<times> nat) prog" where
  "create_span name attributes =
     bnd (gets (\<lambda>w. cl_active (pw_collector w))) (\<lambda>a.
     bnd (case a of Some i \<Rightarrow> ret i | None \<Rightarrow> start_trace fmempty) (\<lambda>i.
     bnd (new_span name attributes) (\<lambda>s.
     bnd (trace_at i) (\<lambda>x.
     thn (put_trace i (x\<lparr>tx_spans := tx_spans x @ [s]\<rparr>)) (ret (i, length (tx_spans x)))))))"

definition span_at :: "nat \<times> nat \<Rightarrow> (('s, 'z) platform_world_scheme, span) prog" where
  "span_at p = gets (\<lambda>w. tx_spans (cl_traces (pw_collector w) ! fst p) ! snd p)"

definition finish_span :: "span_status option \<Rightarrow> nat \<times> nat \<Rightarrow> (('s, 'z) platform_world_scheme, unit) prog" where
  "finish_span status p =
     bnd (span_at p) (\<lambda>s.
     bnd (span_finish status None s) (\<lambda>s'.
     bnd (trace_at (fst p)) (\<lambda>x. put_trace (fst p) (x\<lparr>tx_spans := (tx_spans x)[snd p := s']\<rparr>))))"

definition record_span_metrics :: "span \<Rightarrow> (('s, 'z) platform_world_scheme, unit) prog" where
  "record_span_metrics s =
     thn (case sp_duration s of None \<Rightarrow> ret ()
          | Some d \<Rightarrow> with_metrics (histogram_add (''span.'' @ sp_name s @ ''.duration_ms'') d))
     (whenp (sp_status s = SpanError) (count (''span.'' @ sp_name s @ ''.error_count'')))"

definition record_trace_metrics :: "trace_context \<Rightarrow> (('s, 'z) platform_world_scheme, unit) prog" where
  "record_trace_metrics x =
     thn (count ''trace.count'')
     (thn (with_metrics (histogram_add ''trace.duration_ms'' (case tx_duration x of None \<Rightarrow> 0 | Some d \<Rightarrow> d)))
     (thn (with_metrics (histogram_add ''trace.span_count'' (of_nat (length (tx_spans x)))))
     (for_each (tx_spans x) record_span_metrics)))"

text \<open>The finished trace stays the active one.\<close>

definition finish_trace :: "nat option \<Rightarrow> (('s, 'z) platform_world_scheme, unit) prog" where
  "finish_trace t =
     bnd (gets (\<lambda>w. case t of Some i \<Rightarrow> Some i | None \<Rightarrow> cl_active (pw_collector w))) (\<lambda>o'.
     case o' of
       None \<Rightarrow> bnd (new_trace fmempty) (\<lambda>_. ret ())
     | Some i \<Rightarrow>
         bnd (trace_at i) (\<lambda>x.
         bnd (if tx_end x = None then bnd (trace_finish x) (\<lambda>x'. thn (put_trace i x') (ret x')) else ret x)
           record_trace_metrics))"

definition record_event :: "event_object \<Rightarrow> (('s, 'z) platform_world_scheme, unit) prog" where
  "record_event e = with_collector (\<lambda>c. c\<lparr>cl_events := cl_events c @
     [case cl_active c of Some i \<Rightarrow> if object_trace_id e = [] then with_trace_id (tx_id (cl_traces c ! i)) e else e
      | None \<Rightarrow> e]\<rparr>)"

definition events_by_type :: "string \<Rightarrow> collector \<Rightarrow> event_object list" where
  "events_by_type ty c = filter (\<lambda>e. object_type e = ty) (cl_events c)"

definition active_trace_id :: "('s, 'z) platform_world_scheme \<Rightarrow> string option" where
  "active_trace_id w = map_option (\<lambda>i. tx_id (cl_traces (pw_collector w) ! i)) (cl_active (pw_collector w))"

definition reset_collector :: "(('s, 'z) platform_world_scheme, unit) prog" where
  "reset_collector = with_collector (\<lambda>c. empty_collector)"

definition collector_snapshot :: "collector \<Rightarrow> json" where
  "collector_snapshot c = JObj (dict_of
     [(''active_trace_id'', text_or_null (map_option (\<lambda>i. tx_id (cl_traces c ! i)) (cl_active c))),
      (''total_traces'', JInt (int (length (cl_traces c)))), (''total_events'', JInt (int (length (cl_events c)))),
      (''traces'', JArr (map trace_as_dict (cl_traces c))),
      (''events'', JArr (map object_as_dict (drop (length (cl_events c) - 200) (cl_events c)))),
      (''metrics'', registry_snapshot (cl_metrics c))])"

text \<open>Recording of an event that is being made.\<close>

definition emit ::
  "(('s, 'z) platform_world_scheme, base_event) prog \<Rightarrow> (('s, 'z) platform_world_scheme, unit) prog" where
  "emit e = bnd e (\<lambda>x. record_event (BaseEvent x))"

section \<open>States\<close>

definition state_at :: "nat \<Rightarrow> (('s, 'z) platform_world_scheme, agent_state) prog" where
  "state_at i = gets (\<lambda>w. pw_states w ! i)"

definition update_state :: "nat \<Rightarrow> (agent_state \<Rightarrow> agent_state) \<Rightarrow> (('s, 'z) platform_world_scheme, unit) prog" where
  "update_state i f = modw (\<lambda>w. w\<lparr>pw_states := (pw_states w)[i := f (pw_states w ! i)]\<rparr>)"

definition alloc_state :: "agent_state \<Rightarrow> (('s, 'z) platform_world_scheme, nat) prog" where
  "alloc_state s = bnd (gets (\<lambda>w. length (pw_states w))) (\<lambda>i.
     thn (modw (\<lambda>w. w\<lparr>pw_states := pw_states w @ [s]\<rparr>)) (ret i))"

text \<open>\<open>with agent_context(context) as active\<close>: the variable is reset afterwards, also after an exception.\<close>

definition in_agent_context ::
  "agent_context option \<Rightarrow> (agent_context \<Rightarrow> (('s, 'z) platform_world_scheme, 'a) prog) \<Rightarrow>
   (('s, 'z) platform_world_scheme, 'a) prog" where
  "in_agent_context c body =
     bnd (case c of Some x \<Rightarrow> ret x | None \<Rightarrow> new_agent_context) (\<lambda>active.
     bnd (gets pw_context) (\<lambda>old.
     thn (modw (\<lambda>w. w\<lparr>pw_context := Some active\<rparr>))
     (try_else (body active) (\<lambda>e. thn (modw (\<lambda>w. w\<lparr>pw_context := old\<rparr>)) (raise e))
        (\<lambda>x. thn (modw (\<lambda>w. w\<lparr>pw_context := old\<rparr>)) (ret x)))))"

end
