(* ===== verification/Security.thy ===== *)
theory Security
  imports Observability
begin

text \<open>
  \<open>ai_platform/security\<close>: the policy, the checks of input, prompt, tools and output, the guard that runs
  them, and the strict loading of a policy from a file. Python's regular expressions are a parameter:
  \<open>rx pattern text\<close> tells whether the pattern is found, \<open>None\<close> when it is no pattern. So is the reading
  of the YAML file. Lists in a policy are lists of texts.
\<close>

section \<open>Policy\<close>

record tool_role =
  tr_description :: string
  tr_allowed_tools :: "string list"
  tr_blocked_tools :: "string list"

record security_policy =
  sy_max_input_length :: int
  sy_min_input_length :: int
  sy_blocked_keywords :: "string list"
  sy_blocked_patterns :: "string list"
  sy_prompt_injection_enabled :: bool
  sy_prompt_injection_patterns :: "string list"
  sy_tool_permission_enabled :: bool
  sy_allowed_tools :: "string list"
  sy_blocked_tools :: "string list"
  sy_roles :: "(string, tool_role) fmap"
  sy_default_role :: string
  sy_policy_version :: string
  sy_output_check_enabled :: bool
  sy_max_output_length :: int
  sy_sensitive_keywords :: "string list"
  sy_output_required :: bool
  sy_security_enabled :: bool
  sy_block_on_input_violation :: bool
  sy_block_on_injection :: bool
  sy_block_on_permission_denied :: bool
  sy_block_on_output_violation :: bool

definition default_injection_patterns :: "string list" where
  "default_injection_patterns =
     [''ignore previous instruction'', ''ignore all previous instructions'', ''ignore the above'',
      ''disregard previous'', ''forget previous instructions'', ''system prompt'', ''system message'',
      ''developer message'', ''you are now'', ''you are a new'', ''new personality'', ''pretend you are'',
      ''act as if'', ''jailbreak'', ''dan mode'', ''developer mode'', ''override'', ''bypass'',
      ''ignore your programming'', ''ignore your training'', ''ignore all rules'', ''do not follow your'']"

definition default_policy :: security_policy where
  "default_policy = \<lparr>sy_max_input_length = 4096, sy_min_input_length = 1, sy_blocked_keywords = [],
     sy_blocked_patterns = [], sy_prompt_injection_enabled = True,
     sy_prompt_injection_patterns = default_injection_patterns, sy_tool_permission_enabled = True,
     sy_allowed_tools = [], sy_blocked_tools = [], sy_roles = fmempty, sy_default_role = [],
     sy_policy_version = [], sy_output_check_enabled = True, sy_max_output_length = 8192,
     sy_sensitive_keywords = [], sy_output_required = False, sy_security_enabled = True,
     sy_block_on_input_violation = True, sy_block_on_injection = True, sy_block_on_permission_denied = True,
     sy_block_on_output_violation = True\<rparr>"

definition permissive_policy :: security_policy where
  "permissive_policy = default_policy\<lparr>sy_security_enabled := False, sy_prompt_injection_enabled := False,
     sy_tool_permission_enabled := False, sy_output_check_enabled := False, sy_block_on_input_violation := False,
     sy_block_on_injection := False, sy_block_on_permission_denied := False, sy_block_on_output_violation := False\<rparr>"

definition text_list :: "string list \<Rightarrow> json" where
  "text_list ts = JArr (map JStr ts)"

definition role_to_dict :: "tool_role \<Rightarrow> json" where
  "role_to_dict r = JObj (dict_of [(''description'', JStr (tr_description r)),
     (''allowed_tools'', text_list (tr_allowed_tools r)), (''blocked_tools'', text_list (tr_blocked_tools r))])"

definition policy_to_dict :: "security_policy \<Rightarrow> dict" where
  "policy_to_dict p = dict_of
     [(''max_input_length'', JInt (sy_max_input_length p)), (''min_input_length'', JInt (sy_min_input_length p)),
      (''blocked_keywords'', text_list (sy_blocked_keywords p)), (''blocked_patterns'', text_list (sy_blocked_patterns p)),
      (''prompt_injection_enabled'', JBool (sy_prompt_injection_enabled p)),
      (''prompt_injection_patterns'', text_list (sy_prompt_injection_patterns p)),
      (''tool_permission_enabled'', JBool (sy_tool_permission_enabled p)),
      (''allowed_tools'', text_list (sy_allowed_tools p)), (''blocked_tools'', text_list (sy_blocked_tools p)),
      (''roles'', JObj (fmmap role_to_dict (sy_roles p))), (''default_role'', JStr (sy_default_role p)),
      (''policy_version'', JStr (sy_policy_version p)), (''output_check_enabled'', JBool (sy_output_check_enabled p)),
      (''max_output_length'', JInt (sy_max_output_length p)), (''sensitive_keywords'', text_list (sy_sensitive_keywords p)),
      (''output_required'', JBool (sy_output_required p)), (''security_enabled'', JBool (sy_security_enabled p)),
      (''block_on_input_violation'', JBool (sy_block_on_input_violation p)),
      (''block_on_injection'', JBool (sy_block_on_injection p)),
      (''block_on_permission_denied'', JBool (sy_block_on_permission_denied p)),
      (''block_on_output_violation'', JBool (sy_block_on_output_violation p))]"

text \<open>\<open>[str(t) for t in v]\<close> and \<open>list(v)\<close>; the texts of a text are its characters.\<close>

fun str_items :: "json \<Rightarrow> exn + string list" where
  "str_items (JArr xs) = Inr (map py_str xs)"
| "str_items (JStr s) = Inr (map (\<lambda>c. [c]) s)"
| "str_items (JObj d) = Inr (sorted_list_of_fset (fmdom d))"
| "str_items _ = Inl (TypeError ''object is not iterable'')"

definition role_from_dict :: "dict \<Rightarrow> exn + tool_role" where
  "role_from_dict d =
     (case str_items (dget_or d ''allowed_tools'' (JArr [])) of Inl e \<Rightarrow> Inl e | Inr a \<Rightarrow>
     (case str_items (dget_or d ''blocked_tools'' (JArr [])) of Inl e \<Rightarrow> Inl e | Inr b \<Rightarrow>
      Inr \<lparr>tr_description = py_str (dget_or d ''description'' (JStr [])), tr_allowed_tools = a, tr_blocked_tools = b\<rparr>))"

text \<open>\<open>{name: ToolRole.from_dict(v) for ... if isinstance(v, dict)}\<close>, in the order of the names.\<close>

fun roles_from :: "dict \<Rightarrow> string list \<Rightarrow> exn + (string, tool_role) fmap" where
  "roles_from d [] = Inr fmempty"
| "roles_from d (n # ns) =
     (case dget d n of
        Some (JObj r) \<Rightarrow>
          (case role_from_dict r of Inl e \<Rightarrow> Inl e | Inr role \<Rightarrow>
           (case roles_from d ns of Inl e \<Rightarrow> Inl e | Inr m \<Rightarrow> Inr (fmupd n role m)))
      | _ \<Rightarrow> roles_from d ns)"

definition field_list :: "dict \<Rightarrow> string \<Rightarrow> string list \<Rightarrow> ('w, string list) prog" where
  "field_list d k v = lift (str_items (dget_or d k (text_list v)))"

definition field_bool :: "dict \<Rightarrow> string \<Rightarrow> bool \<Rightarrow> bool" where
  "field_bool d k v = truthy (dget_or d k (JBool v))"

definition field_int :: "dict \<Rightarrow> string \<Rightarrow> int \<Rightarrow> ('w, int) prog" where
  "field_int d k v = lift (json_int (dget_or d k (JInt v)))"

definition policy_from_dict :: "dict \<Rightarrow> ('w, security_policy) prog" where
  "policy_from_dict d =
     bnd (field_int d ''max_input_length'' 4096) (\<lambda>maxin.
     bnd (field_int d ''min_input_length'' 1) (\<lambda>minin.
     bnd (field_list d ''blocked_keywords'' []) (\<lambda>kws.
     bnd (field_list d ''blocked_patterns'' []) (\<lambda>pats.
     bnd (field_list d ''prompt_injection_patterns'' default_injection_patterns) (\<lambda>inj.
     bnd (field_list d ''allowed_tools'' []) (\<lambda>allowed.
     bnd (field_list d ''blocked_tools'' []) (\<lambda>blocked.
     bnd (lift (json_dict (dget_or d ''roles'' (JObj fmempty)))) (\<lambda>rd.
     bnd (lift (roles_from rd (sorted_list_of_fset (fmdom rd)))) (\<lambda>roles.
     bnd (field_int d ''max_output_length'' 8192) (\<lambda>maxout.
     bnd (field_list d ''sensitive_keywords'' []) (\<lambda>sens.
     ret \<lparr>sy_max_input_length = maxin, sy_min_input_length = minin, sy_blocked_keywords = kws,
       sy_blocked_patterns = pats, sy_prompt_injection_enabled = field_bool d ''prompt_injection_enabled'' True,
       sy_prompt_injection_patterns = inj, sy_tool_permission_enabled = field_bool d ''tool_permission_enabled'' True,
       sy_allowed_tools = allowed, sy_blocked_tools = blocked, sy_roles = roles,
       sy_default_role = py_str (dget_or d ''default_role'' (JStr [])),
       sy_policy_version = py_str (dget_or d ''policy_version'' (JStr [])),
       sy_output_check_enabled = field_bool d ''output_check_enabled'' True, sy_max_output_length = maxout,
       sy_sensitive_keywords = sens, sy_output_required = field_bool d ''output_required'' False,
       sy_security_enabled = field_bool d ''security_enabled'' True,
       sy_block_on_input_violation = field_bool d ''block_on_input_violation'' True,
       sy_block_on_injection = field_bool d ''block_on_injection'' True,
       sy_block_on_permission_denied = field_bool d ''block_on_permission_denied'' True,
       sy_block_on_output_violation = field_bool d ''block_on_output_violation'' True\<rparr>)))))))))))"

section \<open>Results\<close>

record security_result =
  sr_passed :: bool
  sr_risk_level :: string
  sr_violations :: "string list"
  sr_metadata :: dict
  sr_timestamp :: rat
  sr_check_name :: string

definition pass_result :: "string \<Rightarrow> (string \<times> json) list \<Rightarrow> (('s, 'z) world_scheme, security_result) prog" where
  "pass_result check_name metadata = bnd py_time (\<lambda>t.
     ret \<lparr>sr_passed = True, sr_risk_level = ''none'', sr_violations = [], sr_metadata = dict_of metadata,
       sr_timestamp = t, sr_check_name = check_name\<rparr>)"

definition block_result ::
  "string \<Rightarrow> string list \<Rightarrow> string \<Rightarrow> (string \<times> json) list \<Rightarrow> (('s, 'z) world_scheme, security_result) prog" where
  "block_result risk_level violations check_name metadata = bnd py_time (\<lambda>t.
     ret \<lparr>sr_passed = False, sr_risk_level = risk_level, sr_violations = violations, sr_metadata = dict_of metadata,
       sr_timestamp = t, sr_check_name = check_name\<rparr>)"

definition result_as_dict :: "security_result \<Rightarrow> json" where
  "result_as_dict r = JObj (dict_of [(''passed'', JBool (sr_passed r)), (''risk_level'', JStr (sr_risk_level r)),
     (''violations'', text_list (sr_violations r)), (''check_name'', JStr (sr_check_name r)),
     (''timestamp'', JFloat (sr_timestamp r)), (''metadata'', JObj (sr_metadata r))])"

definition risk_order :: "string \<Rightarrow> int" where
  "risk_order level = (case map_of [(''none'', 0), (''low'', 1), (''medium'', 2), (''high'', 3), (''critical'', 4)] level of
     None \<Rightarrow> 0 | Some n \<Rightarrow> n)"

text \<open>The violations of the second that the first does not have, without repetitions.\<close>

fun merge_new :: "string list \<Rightarrow> string list \<Rightarrow> string list" where
  "merge_new seen [] = []"
| "merge_new seen (v # vs) = (if v \<in> set seen then merge_new seen vs else v # merge_new (v # seen) vs)"

definition worst :: "security_result \<Rightarrow> security_result \<Rightarrow> security_result" where
  "worst a b =
     (let ao = risk_order (sr_risk_level a); bo = risk_order (sr_risk_level b);
          merged = sr_violations a @ merge_new (sr_violations a) (sr_violations b) in
      if \<not> sr_passed a \<or> \<not> sr_passed b then
        (let base = (if ao \<ge> bo \<and> \<not> sr_passed a then a else if \<not> sr_passed b then b else a) in
         \<lparr>sr_passed = False, sr_risk_level = sr_risk_level base, sr_violations = merged,
          sr_metadata = sr_metadata base ++\<^sub>f sr_metadata a ++\<^sub>f sr_metadata b,
          sr_timestamp = sr_timestamp base, sr_check_name = sr_check_name base\<rparr>)
      else
        (let base = (if ao \<ge> bo then a else b) in
         \<lparr>sr_passed = True, sr_risk_level = sr_risk_level base, sr_violations = merged,
          sr_metadata = sr_metadata base, sr_timestamp = sr_timestamp base, sr_check_name = sr_check_name base\<rparr>))"

section \<open>Checks\<close>

definition extract_text :: "json \<Rightarrow> string" where
  "extract_text req = (case req of JStr s \<Rightarrow> s
     | JObj d \<Rightarrow> py_str (dget_or d ''input'' (dget_or d ''content'' (JStr [])))
     | JNull \<Rightarrow> [] | v \<Rightarrow> py_str v)"

definition len_text :: "string \<Rightarrow> string" where
  "len_text s = int_text (int (length s))"

definition keyword_violations :: "string \<Rightarrow> string list \<Rightarrow> string \<Rightarrow> string list" where
  "keyword_violations label kws text = map (\<lambda>k. label @ k) (filter (\<lambda>k. occurs_in (lower k) (lower text)) kws)"

definition validate_input ::
  "(string \<Rightarrow> string \<Rightarrow> bool option) \<Rightarrow> security_policy \<Rightarrow> json \<Rightarrow> (('s, 'z) world_scheme, security_result) prog" where
  "validate_input rx p req =
     (if \<not> sy_security_enabled p then pass_result ''input_validator'' []
      else let text = extract_text req in
        if sy_min_input_length p > 0 \<and> strip text = [] then
          block_result ''high'' [''input_empty''] ''input_validator'' [(''input_length'', JInt 0)]
        else let violations =
            (if int (length text) > sy_max_input_length p
             then [''input_too_long: '' @ len_text text @ '' > '' @ int_text (sy_max_input_length p)] else []) @
            (if int (length text) < sy_min_input_length p
             then [''input_too_short: '' @ len_text text @ '' < '' @ int_text (sy_min_input_length p)] else []) @
            keyword_violations ''blocked_keyword: '' (sy_blocked_keywords p) text @
            map (\<lambda>pat. ''blocked_pattern: '' @ pat) (filter (\<lambda>pat. rx pat text = Some True) (sy_blocked_patterns p)) in
          if violations \<noteq> [] then
            block_result (if sy_block_on_input_violation p then ''high'' else ''medium'') violations ''input_validator''
              [(''input_length'', JInt (int (length text)))]
          else pass_result ''input_validator'' [(''input_length'', JInt (int (length text)))])"

definition prompt_guard_check ::
  "security_policy \<Rightarrow> json \<Rightarrow> (('s, 'z) world_scheme, security_result) prog" where
  "prompt_guard_check p req =
     (if \<not> sy_security_enabled p \<or> \<not> sy_prompt_injection_enabled p then pass_result ''prompt_guard'' []
      else let text = extract_text req;
               matched = filter (\<lambda>k. occurs_in (lower k) (lower text)) (sy_prompt_injection_patterns p) in
        if matched \<noteq> [] then
          block_result ''critical''
            [''prompt_injection_detected: '' @ int_text (int (length matched)) @ '' pattern(s) matched''] ''prompt_guard''
            [(''matched_patterns'', text_list matched), (''input_length'', JInt (int (length text)))]
        else pass_result ''prompt_guard'' [(''input_length'', JInt (int (length text)))])"

definition output_text :: "json \<Rightarrow> string" where
  "output_text answer = (case answer of JNull \<Rightarrow> [] | JStr s \<Rightarrow> s | v \<Rightarrow> py_str v)"

definition check_output :: "security_policy \<Rightarrow> json \<Rightarrow> (('s, 'z) world_scheme, security_result) prog" where
  "check_output p answer =
     (if \<not> sy_security_enabled p \<or> \<not> sy_output_check_enabled p then pass_result ''output_checker'' []
      else let text = output_text answer;
               violations =
                 (if sy_output_required p \<and> strip text = [] then [''output_empty''] else []) @
                 (if int (length text) > sy_max_output_length p
                  then [''output_too_long: '' @ len_text text @ '' > '' @ int_text (sy_max_output_length p)] else []) @
                 keyword_violations ''sensitive_keyword: '' (sy_sensitive_keywords p) text in
        if violations \<noteq> [] then
          block_result (if sy_block_on_output_violation p then ''high'' else ''medium'') violations ''output_checker''
            [(''output_length'', JInt (int (length text)))]
        else pass_result ''output_checker'' [(''output_length'', JInt (int (length text)))])"

text \<open>
  The tool permission. The tools a call may use: those of the policy, restricted to the role's when the
  role lists any. A list that is empty restricts nothing.
\<close>

definition effective_role :: "security_policy \<Rightarrow> string option \<Rightarrow> string option" where
  "effective_role p role = (case role of Some r \<Rightarrow> Some r
     | None \<Rightarrow> if sy_default_role p = [] then None else Some (sy_default_role p))"

definition role_allowed :: "string list \<Rightarrow> tool_role \<Rightarrow> string list" where
  "role_allowed global r =
     (if tr_allowed_tools r = [] then global
      else if global \<noteq> [] then filter (\<lambda>t. t \<in> set (tr_allowed_tools r)) global
      else tr_allowed_tools r)"

definition check_lists ::
  "string \<Rightarrow> string list \<Rightarrow> string list \<Rightarrow> (('s, 'z) world_scheme, security_result) prog" where
  "check_lists tool blocked allowed =
     (if tool \<in> set blocked then
        block_result ''high'' [''tool_blocked: '' @ tool] ''permission_checker''
          [(''tool_name'', JStr tool), (''reason'', JStr ''blocklisted'')]
      else if allowed \<noteq> [] \<and> tool \<notin> set allowed then
        block_result ''high'' [''tool_not_allowed: '' @ tool] ''permission_checker''
          [(''tool_name'', JStr tool), (''reason'', JStr ''not_in_allowlist''), (''allowed_tools'', text_list allowed)]
      else pass_result ''permission_checker'' [(''tool_name'', JStr tool)])"

definition check_permission ::
  "security_policy \<Rightarrow> string \<Rightarrow> string option \<Rightarrow> (('s, 'z) world_scheme, security_result) prog" where
  "check_permission p tool role =
     (if \<not> sy_security_enabled p \<or> \<not> sy_tool_permission_enabled p then pass_result ''permission_checker'' []
      else (case effective_role p role of
          None \<Rightarrow> check_lists tool (sy_blocked_tools p) (sy_allowed_tools p)
        | Some r \<Rightarrow> (case fmlookup (sy_roles p) r of
              None \<Rightarrow> block_result ''high'' [''unknown_role: '' @ r] ''permission_checker''
                [(''tool_name'', JStr tool), (''role'', JStr r), (''reason'', JStr ''fail_closed_unknown_role'')]
            | Some tr \<Rightarrow> check_lists tool (sy_blocked_tools p @ tr_blocked_tools tr) (role_allowed (sy_allowed_tools p) tr))))"

section \<open>The guard\<close>

definition guard_check_input ::
  "(string \<Rightarrow> string \<Rightarrow> bool option) \<Rightarrow> security_policy \<Rightarrow> json \<Rightarrow> (('s, 'z) world_scheme, security_result) prog" where
  "guard_check_input rx p req =
     (if \<not> sy_security_enabled p then pass_result ''security_guard'' []
      else bnd (validate_input rx p req) (\<lambda>r.
        if \<not> sr_passed r \<and> sy_block_on_input_violation p then ret r
        else bnd (prompt_guard_check p req) (\<lambda>i.
          if \<not> sr_passed i \<and> sy_block_on_injection p then ret i else ret (worst r i))))"

definition guard_check_tool ::
  "security_policy \<Rightarrow> string \<Rightarrow> string option \<Rightarrow> (('s, 'z) world_scheme, security_result) prog" where
  "guard_check_tool p tool role = check_permission p tool role"

definition guard_check_output :: "security_policy \<Rightarrow> json \<Rightarrow> (('s, 'z) world_scheme, security_result) prog" where
  "guard_check_output p answer = check_output p answer"

definition guard_full_check ::
  "(string \<Rightarrow> string \<Rightarrow> bool option) \<Rightarrow> security_policy \<Rightarrow> json \<Rightarrow> json \<Rightarrow> (('s, 'z) world_scheme, security_result) prog" where
  "guard_full_check rx p req answer =
     bnd (guard_check_input rx p req) (\<lambda>r. if \<not> sr_passed r then ret r else guard_check_output p answer)"

section \<open>Policy files\<close>

definition policy_error :: "string \<Rightarrow> exn" where
  "policy_error message = OtherError ''PolicyFileError'' message"

definition allowed_top_level_keys :: "string list" where
  "allowed_top_level_keys = [''version'', ''name'', ''roles'', ''default_role'', ''security'']"

definition allowed_role_keys :: "string list" where
  "allowed_role_keys = [''description'', ''allowed_tools'', ''blocked_tools'']"

definition only_keys :: "string list \<Rightarrow> dict \<Rightarrow> bool" where
  "only_keys ks d = (fset (fmdom d) \<subseteq> set ks)"

definition tool_names :: "json \<Rightarrow> bool" where
  "tool_names v = (case v of JArr xs \<Rightarrow> list_all (\<lambda>x. case x of JStr s \<Rightarrow> s \<noteq> [] | _ \<Rightarrow> False) xs | _ \<Rightarrow> False)"

definition is_list :: "json \<Rightarrow> bool" where
  "is_list v = (case v of JArr xs \<Rightarrow> True | _ \<Rightarrow> False)"

definition parse_role :: "string \<Rightarrow> json \<Rightarrow> exn + tool_role" where
  "parse_role name entry =
     (if name = [] then Inl (policy_error ''empty role name'')
      else (case entry of
          JObj d \<Rightarrow>
            if \<not> only_keys allowed_role_keys d then Inl (policy_error ''unknown keys in role'')
            else let a = dget_or d ''allowed_tools'' (JArr []); b = dget_or d ''blocked_tools'' (JArr []) in
              if \<not> is_list a \<or> \<not> is_list b then Inl (policy_error ''allowed_tools/blocked_tools must be lists'')
              else if \<not> tool_names a \<or> \<not> tool_names b then Inl (policy_error ''non-string tool names'')
              else role_from_dict d
        | _ \<Rightarrow> Inl (policy_error ''role must be a mapping'')))"

text \<open>The roles in the order of their names; the first that is not valid is reported.\<close>

fun parse_role_list :: "dict \<Rightarrow> string list \<Rightarrow> exn + (string, tool_role) fmap" where
  "parse_role_list d [] = Inr fmempty"
| "parse_role_list d (n # ns) =
     (case parse_role n (dget_or d n JNull) of Inl e \<Rightarrow> Inl e | Inr role \<Rightarrow>
      (case parse_role_list d ns of Inl e \<Rightarrow> Inl e | Inr m \<Rightarrow> Inr (fmupd n role m)))"

definition parse_roles :: "json \<Rightarrow> exn + (string, tool_role) fmap" where
  "parse_roles raw = (case raw of JObj d \<Rightarrow> parse_role_list d (sorted_list_of_fset (fmdom d))
     | _ \<Rightarrow> Inl (policy_error ''roles section must be a mapping''))"

definition policy_keys :: "string list" where
  "policy_keys = sorted_list_of_fset (fmdom (policy_to_dict default_policy))"

text \<open>
  What the file contains: \<open>None\<close> when it is no file, an error when it is no YAML. Messages carry neither
  the path nor the offending keys here. \<open>True\<close> and \<open>1.0\<close> are equal to 1 in Python.
\<close>

definition load_policy_file :: "(exn + json) option \<Rightarrow> ('w, security_policy) prog" where
  "load_policy_file contents =
     (case contents of
        None \<Rightarrow> raise (policy_error ''security policy file not found'')
      | Some (Inl e) \<Rightarrow> raise (policy_error ''invalid YAML in policy file'')
      | Some (Inr (JObj raw)) \<Rightarrow>
          if \<not> only_keys allowed_top_level_keys raw then raise (policy_error ''unknown top-level keys'')
          else if number_of (dget_or raw ''version'' JNull) \<noteq> Some 1 then raise (policy_error ''unsupported policy version'')
          else
            bnd (lift (parse_roles (dget_or raw ''roles'' (JObj fmempty)))) (\<lambda>roles.
            let dv = dget_or raw ''default_role'' (JStr []);
                default_role = (if truthy dv then py_str dv else []) in
            if default_role \<noteq> [] \<and> fmlookup roles default_role = None
            then raise (policy_error ''default_role is not defined in roles'')
            else (case dget_or raw ''security'' (JObj fmempty) of
                JObj section \<Rightarrow>
                  if \<not> only_keys policy_keys section then raise (policy_error ''unknown keys in security section'')
                  else bnd (policy_from_dict section) (\<lambda>p.
                    ret (p\<lparr>sy_roles := roles, sy_default_role := default_role,
                      sy_policy_version := py_str (dget_or raw ''version'' JNull)\<rparr>))
              | _ \<Rightarrow> raise (policy_error ''security section must be a mapping'')))
      | _ \<Rightarrow> raise (policy_error ''policy file must be a YAML mapping''))"

end
