(* ===== verification/Platform_Tools.thy ===== *)
theory Platform_Tools
  imports Collector Security
begin

text \<open>
  \<open>ai_platform/tools\<close>: the registry, the executor and the adapters of the order tools. What a tool does is
  its \<open>execute\<close> method, so a tool is a record with that program in it; the tool client of the adapters
  is a parameter. The texts of the answers lie outside the characters of the model and are a parameter
  too.
\<close>

section \<open>Tools and their registry\<close>

datatype py_type = TyStr | TyInt | TyFloat | TyBool | TyList | TyDict

fun type_name :: "py_type \<Rightarrow> string" where
  "type_name TyStr = ''str''"
| "type_name TyInt = ''int''"
| "type_name TyFloat = ''float''"
| "type_name TyBool = ''bool''"
| "type_name TyList = ''list''"
| "type_name TyDict = ''dict''"

fun type_name_of :: "json \<Rightarrow> string" where
  "type_name_of JNull = ''NoneType''"
| "type_name_of (JBool b) = ''bool''"
| "type_name_of (JInt n) = ''int''"
| "type_name_of (JFloat r) = ''float''"
| "type_name_of (JStr s) = ''str''"
| "type_name_of (JArr xs) = ''list''"
| "type_name_of (JObj d) = ''dict''"

text \<open>\<open>isinstance\<close>: a \<open>bool\<close> is an \<open>int\<close>.\<close>

fun is_instance :: "json \<Rightarrow> py_type \<Rightarrow> bool" where
  "is_instance (JStr s) ty = (ty = TyStr)"
| "is_instance (JInt n) ty = (ty = TyInt)"
| "is_instance (JBool b) ty = (ty = TyInt \<or> ty = TyBool)"
| "is_instance (JFloat r) ty = (ty = TyFloat)"
| "is_instance (JArr xs) ty = (ty = TyList)"
| "is_instance (JObj d) ty = (ty = TyDict)"
| "is_instance JNull ty = False"

record param_spec =
  ps_required :: bool
  ps_type :: "py_type option"

record execution_result =
  er_tool :: string
  er_ok :: bool
  er_result :: json
  er_error :: "string option"
  er_attempts :: "json list"
  er_metadata :: dict

datatype tool_output = Raw json | Executed execution_result

text \<open>The schema keeps the order of its fields: the first that is violated is reported.\<close>

record 'w base_tool =
  to_name :: string
  to_description :: string
  to_schema :: "(string \<times> param_spec) list"
  to_execute :: "dict \<Rightarrow> agent_context option \<Rightarrow> ('w, tool_output) prog"

type_synonym 'w tool_registry = "(string, 'w base_tool) fmap"

definition tools_register :: "'w base_tool \<Rightarrow> 'w tool_registry \<Rightarrow> exn + 'w tool_registry" where
  "tools_register tool reg =
     (if fmlookup reg (to_name tool) \<noteq> None then Inl (ValueError (''Tool already registered: '' @ to_name tool))
      else Inr (fmupd (to_name tool) tool reg))"

definition tools_get :: "string \<Rightarrow> 'w tool_registry \<Rightarrow> 'w base_tool option" where
  "tools_get name reg = fmlookup reg name"

definition tools_list :: "'w tool_registry \<Rightarrow> string list" where
  "tools_list reg = sorted_list_of_fset (fmdom reg)"

fun tools_register_all :: "'w base_tool list \<Rightarrow> 'w tool_registry \<Rightarrow> exn + 'w tool_registry" where
  "tools_register_all [] reg = Inr reg"
| "tools_register_all (t # ts) reg =
     (case tools_register t reg of Inl e \<Rightarrow> Inl e | Inr reg' \<Rightarrow> tools_register_all ts reg')"

section \<open>Executor\<close>

text \<open>
  A checker in the executor is always the checker of a policy. \<open>exe_ask_text\<close> is the text every refused
  call is answered with.
\<close>

record 'w tool_executor =
  exe_registry :: "'w tool_registry"
  exe_metadata :: dict
  exe_security :: "security_policy option"
  exe_ask_text :: string

definition tool_not_found :: "string \<Rightarrow> exn" where
  "tool_not_found name = OtherError ''ToolNotFoundError'' (''Tool not registered: '' @ name)"

definition tool_validation_error :: "string \<Rightarrow> exn" where
  "tool_validation_error message = OtherError ''ToolValidationError'' message"

definition require_tool :: "'w tool_executor \<Rightarrow> string \<Rightarrow> ('v, 'w base_tool) prog" where
  "require_tool ex name = of_option (tool_not_found name) (tools_get name (exe_registry ex))"

fun check_fields :: "(string \<times> param_spec) list \<Rightarrow> dict \<Rightarrow> exn + unit" where
  "check_fields [] d = Inr ()"
| "check_fields ((k, sp) # fs) d =
     (case (dget d k, ps_type sp) of
        (None, _) \<Rightarrow> if ps_required sp then Inl (tool_validation_error (''Missing required param: '' @ k)) else check_fields fs d
      | (Some v, None) \<Rightarrow> check_fields fs d
      | (Some v, Some ty) \<Rightarrow>
          if is_instance v ty then check_fields fs d
          else Inl (tool_validation_error (''Param '' @ [CHR 0x27] @ k @ [CHR 0x27] @ '' expected '' @ type_name ty @
            '', got '' @ type_name_of v)))"

definition validate_params :: "(string \<times> param_spec) list \<Rightarrow> json \<Rightarrow> exn + dict" where
  "validate_params schema params =
     (case params of
        JObj d \<Rightarrow> (case check_fields schema d of Inl e \<Rightarrow> Inl e | Inr _ \<Rightarrow> Inr d)
      | _ \<Rightarrow> Inl (tool_validation_error ''Tool params must be a dict''))"

definition record_permission_block ::
  "string \<Rightarrow> security_result \<Rightarrow> string \<Rightarrow> (('s, 'z) platform_world_scheme, unit) prog" where
  "record_permission_block trace r name =
     thn (bnd (block_event (sr_check_name r) (sr_risk_level r) (sr_violations r) trace
            (dict_of [(''tool_name'', JStr name)])) (\<lambda>e. record_event (SecurityEvent e)))
     (thn (count ''security.block.count'')
     (thn (count (''security.'' @ sr_check_name r @ ''.block_count''))
     (count ''tool.blocked.count'')))"

text \<open>The span of a call, with the id of the trace, when a trace is active.\<close>

definition open_tool_span ::
  "string \<Rightarrow> json \<Rightarrow> (('s, 'z) platform_world_scheme, (string \<times> (nat \<times> nat)) option) prog" where
  "open_tool_span name params =
     bnd (gets active_trace_id) (\<lambda>t.
     case t of None \<Rightarrow> ret None
     | Some trace \<Rightarrow>
         bnd (create_span (''tool.'' @ name) (dict_of [(''tool'', JStr name)])) (\<lambda>p.
         bnd (span_at p) (\<lambda>s.
         thn (emit (tool_call trace (sp_id s) name params))
         (thn (count ''tool.call.count'')
         (thn (count (''tool.'' @ name @ ''.count''))
         (ret (Some (trace, p))))))))"

definition close_tool_span ::
  "(string \<times> (nat \<times> nat)) option \<Rightarrow> string \<Rightarrow> bool \<Rightarrow> rat \<Rightarrow> json \<Rightarrow> string option \<Rightarrow>
   (('s, 'z) platform_world_scheme, unit) prog" where
  "close_tool_span sp name ok duration_ms result err =
     (case sp of None \<Rightarrow> ret ()
      | Some (trace, p) \<Rightarrow>
          thn (finish_span (Some (if ok then SpanOk else SpanError)) p)
          (bnd (span_at p) (\<lambda>s.
           thn (emit (tool_result_event trace (sp_id s) name ok (Some duration_ms) result err))
           (whenp (\<not> ok) (count ''tool.error.count'')))))"

definition as_result :: "string \<Rightarrow> tool_output \<Rightarrow> execution_result" where
  "as_result name out = (case out of Executed r \<Rightarrow> r
     | Raw v \<Rightarrow> \<lparr>er_tool = name, er_ok = True, er_result = v, er_error = None,
         er_attempts = [JObj (dict_of [(''tool'', JStr name), (''result'', v)])], er_metadata = fmempty\<rparr>)"

definition refused_result :: "string \<Rightarrow> string \<Rightarrow> (string \<times> json) list \<Rightarrow> execution_result" where
  "refused_result name err metadata = \<lparr>er_tool = name, er_ok = False, er_result = JNull, er_error = Some err,
     er_attempts = [], er_metadata = dict_of metadata\<rparr>"

definition or_empty_dict :: "json \<Rightarrow> json" where
  "or_empty_dict params = (if truthy params then params else JObj fmempty)"

definition run_tool ::
  "'w tool_executor \<Rightarrow> string \<Rightarrow> json \<Rightarrow> agent_context option \<Rightarrow> ('w, tool_output) prog" where
  "run_tool ex name params context =
     bnd (require_tool ex name) (\<lambda>tool.
     bnd (lift (validate_params (to_schema tool) (or_empty_dict params))) (\<lambda>d.
     to_execute tool d context))"

definition attempt_tool ::
  "('s, 'z) platform_world_scheme tool_executor \<Rightarrow> string \<Rightarrow> json \<Rightarrow> agent_context option \<Rightarrow>
   (string \<times> (nat \<times> nat)) option \<Rightarrow> (('s, 'z) platform_world_scheme, execution_result) prog" where
  "attempt_tool ex name params context sp =
     bnd py_time (\<lambda>start.
     catch
       (bnd (run_tool ex name params context) (\<lambda>raw.
        bnd py_time (\<lambda>t. let r = as_result name raw in
        thn (close_tool_span sp name (er_ok r) ((t - start) * 1000) (er_result r) (er_error r)) (ret r))))
       (\<lambda>e. if is_exception e then
            bnd py_time (\<lambda>t.
            thn (close_tool_span sp name False ((t - start) * 1000) JNull (Some (exn_text e)))
            (ret (refused_result name (exn_text e) [(''response_text'', JStr (exe_ask_text ex))])))
          else raise e))"

definition execute_tool ::
  "('s, 'z) platform_world_scheme tool_executor \<Rightarrow> string \<Rightarrow> json \<Rightarrow> agent_context option \<Rightarrow>
   (('s, 'z) platform_world_scheme, execution_result) prog" where
  "execute_tool ex name params context =
     bnd (open_tool_span name params) (\<lambda>sp.
     case exe_security ex of
       None \<Rightarrow> attempt_tool ex name params context sp
     | Some policy \<Rightarrow>
         bnd (check_permission policy name None) (\<lambda>perm.
         if sr_passed perm then attempt_tool ex name params context sp
         else
           thn (record_permission_block (case sp of None \<Rightarrow> [] | Some (trace, _) \<Rightarrow> trace) perm name)
           (ret (refused_result name (''Tool blocked: '' @ join '', '' (sr_violations perm))
             [(''security'', result_as_dict perm)]))))"

section \<open>The order tools\<close>

record reply_texts =
  rx_order_ok :: string
  rx_order_ok_simple :: string
  rx_order_fail :: string
  rx_query_ok :: string
  rx_query_fail :: string
  rx_cancel_ok :: string
  rx_cancel_fail :: string
  rx_ask_user :: string

text \<open>
  The client of the tools: its three calls (placing an order is told how often it was tried) and its
  chaos mode, \<open>none\<close> when there is no client.
\<close>

record 'w tools_client =
  tc_place :: "json \<Rightarrow> int \<Rightarrow> json \<Rightarrow> nat \<Rightarrow> ('w, dict) prog"
  tc_query :: "json \<Rightarrow> ('w, dict) prog"
  tc_cancel :: "json \<Rightarrow> ('w, dict) prog"
  tc_chaos_mode :: string

definition dict_ok :: "dict \<Rightarrow> bool" where
  "dict_ok res = truthy (dget_or res ''ok'' JNull)"

definition tool_attempt :: "string \<Rightarrow> dict \<Rightarrow> json" where
  "tool_attempt name res = JObj (dict_of [(''tool'', JStr name), (''result'', JObj res)])"

definition legacy_result ::
  "'w tools_client \<Rightarrow> string \<Rightarrow> dict \<Rightarrow> json list \<Rightarrow> string \<Rightarrow> nat \<Rightarrow> execution_result" where
  "legacy_result c name res attempts text retries =
     \<lparr>er_tool = name, er_ok = dict_ok res, er_result = JObj res, er_error = None, er_attempts = attempts,
      er_metadata = dict_of [(''response_text'', JStr text), (''retry_count'', JInt (int retries)),
        (''chaos_mode'', JStr (tc_chaos_mode c))]\<rparr>"

definition place_call :: "'w tools_client \<Rightarrow> dict \<Rightarrow> nat \<Rightarrow> ('w, dict) prog" where
  "place_call c params i =
     bnd (lift (json_int (dget_or params ''quantity'' (JInt 1)))) (\<lambda>q.
     tc_place c (dget_or params ''item_name'' (JStr [])) q (dget_or params ''address'' (JStr [])) i)"

text \<open>The loop of retries: \<open>i\<close> of them were made, \<open>n\<close> may follow.\<close>

fun place_retries ::
  "'w tools_client \<Rightarrow> dict \<Rightarrow> nat \<Rightarrow> nat \<Rightarrow> dict \<Rightarrow> json list \<Rightarrow> ('w, dict \<times> json list \<times> nat) prog" where
  "place_retries c params 0 i res attempts = ret (res, attempts, i)"
| "place_retries c params (Suc n) i res attempts =
     (if dict_ok res then ret (res, attempts, i)
      else bnd (place_call c params (Suc i)) (\<lambda>res'.
        place_retries c params n (Suc i) res'
          (attempts @ [tool_attempt (''place_order_retry_'' @ nat_text (Suc i)) res'])))"

definition placed_text :: "reply_texts \<Rightarrow> dict \<Rightarrow> ('w, string) prog" where
  "placed_text tx res =
     (if \<not> dict_ok res then ret (rx_order_fail tx)
      else bnd (as_dict (dget_or res ''body'' (JObj fmempty))) (\<lambda>body.
        let i = dget_or body ''order_id'' JNull in
        ret (if truthy i then rx_order_ok tx @ py_str i else rx_order_ok_simple tx)))"

definition execute_place_order ::
  "reply_texts \<Rightarrow> 'w tools_client \<Rightarrow> int \<Rightarrow> dict \<Rightarrow> ('w, tool_output) prog" where
  "execute_place_order tx c max_retry params =
     bnd (place_call c params 0) (\<lambda>res.
     bnd (place_retries c params (nat max_retry) 0 res [tool_attempt ''place_order'' res]) (\<lambda>(res', attempts, retries).
     bnd (placed_text tx res') (\<lambda>text.
     ret (Executed (legacy_result c ''place_order'' res' attempts text retries)))))"

definition execute_query_order :: "reply_texts \<Rightarrow> 'w tools_client \<Rightarrow> dict \<Rightarrow> ('w, tool_output) prog" where
  "execute_query_order tx c params =
     bnd (tc_query c (dget_or params ''order_id'' (JStr []))) (\<lambda>res.
     ret (Executed (legacy_result c ''query_order'' res [tool_attempt ''query_order'' res]
       (if dict_ok res then rx_query_ok tx else rx_query_fail tx) 0)))"

definition execute_cancel_order :: "reply_texts \<Rightarrow> 'w tools_client \<Rightarrow> dict \<Rightarrow> ('w, tool_output) prog" where
  "execute_cancel_order tx c params =
     bnd (tc_cancel c (dget_or params ''order_id'' (JStr []))) (\<lambda>res.
     ret (Executed (legacy_result c ''cancel_order'' res [tool_attempt ''cancel_order'' res]
       (if dict_ok res then rx_cancel_ok tx else rx_cancel_fail tx) 0)))"

definition execute_ask_user :: "reply_texts \<Rightarrow> dict \<Rightarrow> ('w, tool_output) prog" where
  "execute_ask_user tx params =
     (let res = dict_of [(''ok'', JBool True), (''reason'', dget_or params ''reason'' (JStr ''missing args''))] in
      ret (Executed \<lparr>er_tool = ''ask_user'', er_ok = True, er_result = JObj res, er_error = None,
        er_attempts = [tool_attempt ''ask_user'' res],
        er_metadata = dict_of [(''response_text'', JStr (rx_ask_user tx)), (''retry_count'', JInt 0)]\<rparr>))"

text \<open>The adapter: which of the four it is follows from its name; \<open>None\<close> stands for a missing action.\<close>

definition legacy_execute ::
  "reply_texts \<Rightarrow> 'w tools_client option \<Rightarrow> int \<Rightarrow> string \<Rightarrow> dict \<Rightarrow> agent_context option \<Rightarrow> ('w, tool_output) prog" where
  "legacy_execute tx action max_retry name params context =
     (if name = ''ask_user'' then execute_ask_user tx params
      else case action of
        None \<Rightarrow> raise (RuntimeError (''Legacy tool action missing: '' @ name))
      | Some c \<Rightarrow>
          if name = ''place_order'' then execute_place_order tx c max_retry params
          else if name = ''query_order'' then execute_query_order tx c params
          else if name = ''cancel_order'' then execute_cancel_order tx c params
          else raise (RuntimeError (''Unsupported legacy tool: '' @ name)))"

definition required_param :: "py_type \<Rightarrow> param_spec" where
  "required_param ty = \<lparr>ps_required = True, ps_type = Some ty\<rparr>"

definition legacy_tools :: "reply_texts \<Rightarrow> 'w tools_client \<Rightarrow> int \<Rightarrow> 'w base_tool list" where
  "legacy_tools tx c max_retry =
     [\<lparr>to_name = ''place_order'', to_description = ''Place an order via legacy HTTP tool client.'',
       to_schema = [(''item_name'', required_param TyStr), (''quantity'', required_param TyInt), (''address'', required_param TyStr)],
       to_execute = legacy_execute tx (Some c) max_retry ''place_order''\<rparr>,
      \<lparr>to_name = ''query_order'', to_description = ''Query an order via legacy HTTP tool client.'',
       to_schema = [(''order_id'', required_param TyStr)], to_execute = legacy_execute tx (Some c) 0 ''query_order''\<rparr>,
      \<lparr>to_name = ''cancel_order'', to_description = ''Cancel an order via legacy HTTP tool client.'',
       to_schema = [(''order_id'', required_param TyStr)], to_execute = legacy_execute tx (Some c) 0 ''cancel_order''\<rparr>,
      \<lparr>to_name = ''ask_user'', to_description = ''Ask user for more information when args are missing or invalid.'',
       to_schema = [(''reason'', \<lparr>ps_required = False, ps_type = Some TyStr\<rparr>)],
       to_execute = legacy_execute tx None 0 ''ask_user''\<rparr>]"

definition build_legacy_registry :: "reply_texts \<Rightarrow> 'w tools_client \<Rightarrow> int \<Rightarrow> exn + 'w tool_registry" where
  "build_legacy_registry tx c max_retry = tools_register_all (legacy_tools tx c max_retry) fmempty"

end
