(* ===== verification/Agent_Runtime.thy ===== *)
theory Agent_Runtime
  imports Platform_Tools
begin

text \<open>
  \<open>ai_platform/workflow\<close> (router, engine) and \<open>ai_platform/agent/runtime.py\<close>: how a request becomes a
  state, the security check before the workflow, the workflow itself, and what is recorded about it. What
  the nodes and steps do is theirs, so they are programs in the records below. A reset of the collector
  while something runs is outside the model.
\<close>

section \<open>Steps\<close>

text \<open>What a step is given and answers: a state, by its place, or another value; \<open>None\<close> is \<open>RValue JNull\<close>.\<close>

datatype step_value = RState nat | RValue json

record 'w node =
  nd_name :: string
  nd_execute :: "step_value \<Rightarrow> agent_context \<Rightarrow> ('w, step_value) prog"

text \<open>A step of a runtime may also be an object with a name and a \<open>run\<close> method only, or a function.\<close>

datatype 'w workflow_step =
    NodeStep "'w node"
  | RunStep string "step_value \<Rightarrow> ('w, step_value) prog"
  | CallStep "step_value \<Rightarrow> ('w, step_value) prog"

text \<open>\<open>BaseNode.run\<close>: the node in the active context.\<close>

definition node_run ::
  "('s, 'z) platform_world_scheme node \<Rightarrow> step_value \<Rightarrow> (('s, 'z) platform_world_scheme, step_value) prog" where
  "node_run n v =
     bnd (gets pw_context) (\<lambda>c.
     bnd (case c of Some x \<Rightarrow> ret x | None \<Rightarrow> new_agent_context) (nd_execute n v))"

section \<open>Workflow engine\<close>

record 'w workflow_engine =
  we_router :: "string list option"
  we_nodes :: "'w node list"

definition engine_register :: "'w node \<Rightarrow> 'w workflow_engine \<Rightarrow> 'w workflow_engine" where
  "engine_register n en = en\<lparr>we_nodes := we_nodes en @ [n]\<rparr>"

definition get_node :: "string \<Rightarrow> 'w workflow_engine \<Rightarrow> 'w node option" where
  "get_node name en = find (\<lambda>n. nd_name n = name) (we_nodes en)"

text \<open>The index of the router: of several nodes with one name it has the last.\<close>

definition node_index :: "'w node list \<Rightarrow> string \<Rightarrow> 'w node option" where
  "node_index nodes name = find (\<lambda>n. nd_name n = name) (rev nodes)"

definition router_order :: "string list \<Rightarrow> 'w node list \<Rightarrow> 'w node list" where
  "router_order names nodes = (if names = [] then nodes else List.map_filter (node_index nodes) names)"

definition ordered_nodes :: "'w workflow_engine \<Rightarrow> 'w node list" where
  "ordered_nodes en = (case we_router en of None \<Rightarrow> we_nodes en | Some names \<Rightarrow> router_order names (we_nodes en))"

definition open_node_span ::
  "string \<Rightarrow> (('s, 'z) platform_world_scheme, (string \<times> (nat \<times> nat)) option) prog" where
  "open_node_span name =
     bnd (gets active_trace_id) (\<lambda>t.
     case t of None \<Rightarrow> ret None
     | Some trace \<Rightarrow>
         bnd (create_span (''node.'' @ name) (dict_of [(''node'', JStr name)])) (\<lambda>p.
         bnd (span_at p) (\<lambda>s.
         thn (emit (node_start trace (sp_id s) name None))
         (thn (count (''node.'' @ name @ ''.count''))
         (ret (Some (trace, p)))))))"

definition close_node_span ::
  "(string \<times> (nat \<times> nat)) option \<Rightarrow> string \<Rightarrow> span_status \<Rightarrow> (('s, 'z) platform_world_scheme, unit) prog" where
  "close_node_span sp name status =
     (case sp of None \<Rightarrow> ret ()
      | Some (trace, p) \<Rightarrow>
          thn (finish_span (Some status) p)
          (bnd (gets active_trace_id) (\<lambda>t.
           whenp (t \<noteq> None) (bnd (span_at p) (\<lambda>s.
             emit (node_end trace (sp_id s) name (sp_duration s) (span_status_text status)))))))"

definition run_node ::
  "('s, 'z) platform_world_scheme node \<Rightarrow> agent_context \<Rightarrow> nat \<Rightarrow> (string \<times> (nat \<times> nat)) option \<Rightarrow>
   (('s, 'z) platform_world_scheme, nat) prog" where
  "run_node n context cur sp =
     try_else (nd_execute n (RState cur) context)
       (\<lambda>e. thn (whenp (is_exception e) (close_node_span sp (nd_name n) SpanError)) (raise e))
       (\<lambda>r. thn (close_node_span sp (nd_name n) SpanOk) (ret (case r of RState j \<Rightarrow> j | RValue v \<Rightarrow> cur)))"

text \<open>The nodes in order; with the state goes the id of the trace that was read last.\<close>

fun run_nodes ::
  "('s, 'z) platform_world_scheme node list \<Rightarrow> agent_context \<Rightarrow> nat \<Rightarrow> string option \<Rightarrow>
   (('s, 'z) platform_world_scheme, nat \<times> string option) prog" where
  "run_nodes [] context cur trace = ret (cur, trace)"
| "run_nodes (n # ns) context cur trace =
     bnd (open_node_span (nd_name n)) (\<lambda>sp.
     bnd (run_node n context cur sp) (\<lambda>cur'.
     run_nodes ns context cur' (case sp of None \<Rightarrow> trace | Some (t, _) \<Rightarrow> Some t)))"

definition engine_run ::
  "('s, 'z) platform_world_scheme workflow_engine \<Rightarrow> nat \<Rightarrow> agent_context \<Rightarrow>
   (('s, 'z) platform_world_scheme, nat) prog" where
  "engine_run en i context =
     (let ns = ordered_nodes en; n = int (length ns) in
      bnd (gets active_trace_id) (\<lambda>t0.
      thn (case t0 of None \<Rightarrow> ret () | Some t \<Rightarrow> emit (workflow_start t n (Some (map nd_name ns))))
      (bnd (run_nodes ns context i t0) (\<lambda>(cur, trace).
       bnd (gets active_trace_id) (\<lambda>t1.
       thn (case trace of Some t \<Rightarrow> whenp (t0 \<noteq> None \<and> t1 \<noteq> None) (emit (workflow_end t n None)) | None \<Rightarrow> ret ())
       (ret cur))))))"

section \<open>Runtime\<close>

text \<open>The workflow of a runtime; of a collection of steps or a function the name of its type is recorded.\<close>

datatype 'w workflow =
    NoWorkflow
  | Engine "'w workflow_engine"
  | Steps string "'w workflow_step list"
  | Function string "step_value \<Rightarrow> ('w, step_value) prog"

record 'w agent_runtime =
  rt_workflow :: "'w workflow"
  rt_context :: "agent_context option"
  rt_default_metadata :: dict
  rt_observability :: bool
  rt_security :: "security_policy option"
  rt_rx :: "string \<Rightarrow> string \<Rightarrow> bool option"

fun workflow_type :: "'w workflow \<Rightarrow> string" where
  "workflow_type NoWorkflow = ''none''"
| "workflow_type (Engine en) = ''WorkflowEngine''"
| "workflow_type (Steps ty ss) = (if ss = [] then ''none'' else ty)"
| "workflow_type (Function ty f) = ty"

fun run_step ::
  "('s, 'z) platform_world_scheme workflow_step \<Rightarrow> step_value \<Rightarrow> agent_context \<Rightarrow>
   (('s, 'z) platform_world_scheme, step_value) prog" where
  "run_step (NodeStep n) v context = nd_execute n v context"
| "run_step (RunStep name f) v context = f v"
| "run_step (CallStep f) v context = f v"

text \<open>The loop over the steps: a step that answers \<open>None\<close> hands on the last state.\<close>

fun run_steps ::
  "('s, 'z) platform_world_scheme workflow_step list \<Rightarrow> agent_context \<Rightarrow> nat \<Rightarrow> step_value \<Rightarrow>
   (('s, 'z) platform_world_scheme, step_value) prog" where
  "run_steps [] context st v = ret v"
| "run_steps (s # ss) context st v =
     bnd (run_step s (if v = RValue JNull then RState st else v) context) (\<lambda>r.
     run_steps ss context (case r of RState j \<Rightarrow> j | RValue _ \<Rightarrow> st) r)"

fun dispatch ::
  "('s, 'z) platform_world_scheme workflow \<Rightarrow> nat \<Rightarrow> agent_context \<Rightarrow>
   (('s, 'z) platform_world_scheme, step_value) prog" where
  "dispatch NoWorkflow i context = ret (RState i)"
| "dispatch (Engine en) i context = bnd (engine_run en i context) (\<lambda>j. ret (RState j))"
| "dispatch (Function ty f) i context = f (RState i)"
| "dispatch (Steps ty ss) i context = run_steps ss context i (RState i)"

definition set_log_trace :: "string option \<Rightarrow> (('s, 'z) platform_world_scheme, unit) prog" where
  "set_log_trace t = modw (\<lambda>w. w\<lparr>pw_log_trace := t\<rparr>)"

definition running_gauge :: "rat \<Rightarrow> (('s, 'z) platform_world_scheme, unit) prog" where
  "running_gauge d = with_metrics (gauge_add ''agent.running'' ''Currently running agents'' d)"

definition request_preview :: "json \<Rightarrow> json" where
  "request_preview req = JStr (take 200 (py_str req))"

definition trace_id_at :: "nat \<Rightarrow> (('s, 'z) platform_world_scheme, string) prog" where
  "trace_id_at t = bnd (trace_at t) (\<lambda>x. ret (tx_id x))"

definition begin_run ::
  "('s, 'z) platform_world_scheme agent_runtime \<Rightarrow> nat \<Rightarrow> (('s, 'z) platform_world_scheme, nat) prog" where
  "begin_run rt i =
     bnd (state_at i) (\<lambda>s.
     bnd (start_trace (dict_of [(''workflow_type'', JStr (workflow_type (rt_workflow rt))),
            (''request'', request_preview (as_request s))])) (\<lambda>t.
     bnd (trace_id_at t) (\<lambda>tid.
     thn (emit (agent_start tid (as_request s) None))
     (thn (running_gauge 1)
     (thn (set_log_trace (Some tid)) (ret t))))))"

definition record_security_block ::
  "nat option \<Rightarrow> security_result \<Rightarrow> nat \<Rightarrow> (('s, 'z) platform_world_scheme, unit) prog" where
  "record_security_block trace r i =
     (case trace of None \<Rightarrow> ret ()
      | Some t \<Rightarrow>
          bnd (trace_id_at t) (\<lambda>tid. bnd (state_at i) (\<lambda>s.
          thn (bnd (block_event (sr_check_name r) (sr_risk_level r) (sr_violations r) tid
                 (dict_of [(''request'', request_preview (as_request s))])) (\<lambda>e. record_event (SecurityEvent e)))
          (thn (count ''security.block.count'')
          (count (''security.'' @ sr_check_name r @ ''.block_count''))))))"

text \<open>A refused request: the state is marked and the trace finished, and the state returned.\<close>

definition refuse_run :: "nat option \<Rightarrow> security_result \<Rightarrow> nat \<Rightarrow> (('s, 'z) platform_world_scheme, nat) prog" where
  "refuse_run trace r i =
     thn (record_security_block trace r i)
     (thn (update_state i (\<lambda>s. (set_error ''SecurityBlockedError'' (''Security blocked: '' @ join '', '' (sr_violations r))
        (mark_failed s))\<lparr>as_metadata := dset ''security_result'' (result_as_dict r) (as_metadata s)\<rparr>))
     (thn (case trace of None \<Rightarrow> ret () | Some t \<Rightarrow> finish_trace (Some t))
     (ret i)))"

definition finish_run :: "bool \<Rightarrow> nat option \<Rightarrow> (('s, 'z) platform_world_scheme, unit) prog" where
  "finish_run obs trace =
     thn (case trace of None \<Rightarrow> ret () | Some t \<Rightarrow> thn (finish_trace (Some t)) (running_gauge (-1)))
     (whenp obs (set_log_trace None))"

definition emit_for ::
  "nat option \<Rightarrow> (string \<Rightarrow> (('s, 'z) platform_world_scheme, base_event) prog) \<Rightarrow>
   (('s, 'z) platform_world_scheme, unit) prog" where
  "emit_for trace e = (case trace of None \<Rightarrow> ret () | Some t \<Rightarrow> bnd (trace_id_at t) (\<lambda>tid. emit (e tid)))"

definition run_workflow ::
  "('s, 'z) platform_world_scheme agent_runtime \<Rightarrow> nat \<Rightarrow> agent_context \<Rightarrow> nat option \<Rightarrow>
   (('s, 'z) platform_world_scheme, nat) prog" where
  "run_workflow rt i context trace =
     thn (update_state i mark_running)
     (bnd py_time (\<lambda>start.
      bnd (dispatch (rt_workflow rt) i context) (\<lambda>r.
      bnd py_time (\<lambda>t.
      let j = (case r of RState k \<Rightarrow> k | RValue v \<Rightarrow> i) in
      thn (case r of RState k \<Rightarrow> ret () | RValue v \<Rightarrow> whenp (v \<noteq> JNull) (update_state i (\<lambda>s. s\<lparr>as_answer := v\<rparr>)))
      (bnd (state_at j) (\<lambda>s.
       thn (whenp (as_status s \<noteq> ''failed'') (update_state j mark_succeeded))
       (bnd (state_at j) (\<lambda>s'.
        thn (emit_for trace (\<lambda>tid. agent_end tid (as_status s') (Some ((t - start) * 1000))))
        (ret j)))))))))"

definition record_run_failure :: "nat \<Rightarrow> nat option \<Rightarrow> exn \<Rightarrow> (('s, 'z) platform_world_scheme, nat) prog" where
  "record_run_failure i trace e =
     thn (update_state i (\<lambda>s. mark_failed (set_error (exn_name e) (exn_text e) s)))
     (thn (emit_for trace (\<lambda>tid. agent_error tid (exn_name e) (exn_text e)))
     (ret i))"

definition guarded_run ::
  "('s, 'z) platform_world_scheme agent_runtime \<Rightarrow> nat \<Rightarrow> nat option \<Rightarrow> (('s, 'z) platform_world_scheme, nat) prog" where
  "guarded_run rt i trace =
     in_agent_context (rt_context rt) (\<lambda>context.
       try_else
         (catch (run_workflow rt i context trace) (\<lambda>e. if is_exception e then record_run_failure i trace e else raise e))
         (\<lambda>e. thn (finish_run (rt_observability rt) trace) (raise e))
         (\<lambda>j. thn (finish_run (rt_observability rt) trace) (ret j)))"

definition run_state ::
  "('s, 'z) platform_world_scheme agent_runtime \<Rightarrow> nat \<Rightarrow> (('s, 'z) platform_world_scheme, nat) prog" where
  "run_state rt i =
     bnd (if rt_observability rt then bnd (begin_run rt i) (\<lambda>t. ret (Some t)) else ret None) (\<lambda>trace.
     case rt_security rt of
       None \<Rightarrow> guarded_run rt i trace
     | Some policy \<Rightarrow>
         if \<not> sy_security_enabled policy then guarded_run rt i trace
         else bnd (state_at i) (\<lambda>s.
           bnd (guard_check_input (rt_rx rt) policy (as_request s)) (\<lambda>r.
           if sr_passed r then guarded_run rt i trace else refuse_run trace r i)))"

definition runtime_run ::
  "('s, 'z) platform_world_scheme agent_runtime \<Rightarrow> json \<Rightarrow> dict option \<Rightarrow> (('s, 'z) platform_world_scheme, nat) prog" where
  "runtime_run rt req metadata =
     bnd (alloc_state ((new_state req)\<lparr>as_metadata :=
        fmempty ++\<^sub>f rt_default_metadata rt ++\<^sub>f (case metadata of None \<Rightarrow> fmempty | Some m \<Rightarrow> m)\<rparr>)) (run_state rt)"

end
