(* ===== verification/Security_Correct.thy ===== *)
theory Security_Correct
  imports Security
begin

text \<open>
  What the security checks decide: which requests the input check passes, which tools a role may use, and
  that a policy survives being written to a dict and read back.
\<close>

section \<open>Every check answers\<close>

text \<open>A check does not raise and does nothing but read the clock; what matters is whether it passes.\<close>

definition clock_only :: "('s, 'z) world_scheme \<Rightarrow> ('s, 'z) world_scheme \<Rightarrow> bool" where
  "clock_only w w' \<longleftrightarrow> (\<exists>t n. w' = w\<lparr>w_now := t, w_tick_no := n\<rparr>)"

definition verdict :: "(('s, 'z) world_scheme, security_result) prog \<Rightarrow> ('s, 'z) world_scheme \<Rightarrow> bool \<Rightarrow> bool" where
  "verdict m w b \<longleftrightarrow> (\<exists>r w'. m w = (Inr r, w') \<and> sr_passed r = b \<and> clock_only w w')"

lemma clock_only_refl [simp]: "clock_only w w"
  unfolding clock_only_def by (rule exI [of _ "w_now w"], rule exI [of _ "w_tick_no w"]) simp

lemma clock_only_tick [simp]: "clock_only w (w\<lparr>w_now := t, w_tick_no := n\<rparr>)"
  by (auto simp: clock_only_def)

lemma clock_only_trans: "clock_only w1 w2 \<Longrightarrow> clock_only w2 w3 \<Longrightarrow> clock_only w1 w3"
  unfolding clock_only_def by force

lemma verdict_pass [simp]: "verdict (pass_result n md) w b = b"
  by (auto simp: verdict_def pass_result_def py_time_def monad_defs Let_def)

lemma verdict_block [simp]: "verdict (block_result l v n md) w b = (\<not> b)"
  by (auto simp: verdict_def block_result_def py_time_def monad_defs Let_def)

lemma verdict_if [simp]: "verdict (if c then m else k) w b = (if c then verdict m w b else verdict k w b)"
  by simp

section \<open>Tool permission\<close>

text \<open>A list of tools restricts a call to its members, an empty one does not.\<close>

definition allowed_by :: "string list \<Rightarrow> string \<Rightarrow> bool" where
  "allowed_by ts tool \<longleftrightarrow> ts = [] \<or> tool \<in> set ts"

definition enforced :: "security_policy \<Rightarrow> bool" where
  "enforced p \<longleftrightarrow> sy_security_enabled p \<and> sy_tool_permission_enabled p"

text \<open>What the documentation promises: the constraints of the policy and of the role together.\<close>

definition permits :: "security_policy \<Rightarrow> string option \<Rightarrow> string \<Rightarrow> bool" where
  "permits p role tool \<longleftrightarrow>
     tool \<notin> set (sy_blocked_tools p) \<and> allowed_by (sy_allowed_tools p) tool \<and>
     (case effective_role p role of None \<Rightarrow> True
      | Some r \<Rightarrow> (case fmlookup (sy_roles p) r of None \<Rightarrow> False
          | Some tr \<Rightarrow> tool \<notin> set (tr_blocked_tools tr) \<and> allowed_by (tr_allowed_tools tr) tool))"

text \<open>The lists of the policy and of the role have no tool in common.\<close>

definition lists_disjoint :: "security_policy \<Rightarrow> string option \<Rightarrow> bool" where
  "lists_disjoint p role =
     (case effective_role p role of None \<Rightarrow> False
      | Some r \<Rightarrow> (case fmlookup (sy_roles p) r of None \<Rightarrow> False
          | Some tr \<Rightarrow> sy_allowed_tools p \<noteq> [] \<and> tr_allowed_tools tr \<noteq> [] \<and>
              list_all (\<lambda>t. t \<notin> set (tr_allowed_tools tr)) (sy_allowed_tools p)))"

lemma verdict_check_lists:
  "verdict (check_lists tool blocked allowed) w b \<longleftrightarrow> b = (tool \<notin> set blocked \<and> allowed_by allowed tool)"
  by (auto simp: check_lists_def allowed_by_def)

lemma allowed_role:
  "\<not> (g \<noteq> [] \<and> tr_allowed_tools tr \<noteq> [] \<and> list_all (\<lambda>t. t \<notin> set (tr_allowed_tools tr)) g) \<Longrightarrow>
   allowed_by (role_allowed g tr) tool \<longleftrightarrow> allowed_by g tool \<and> allowed_by (tr_allowed_tools tr) tool"
  by (auto simp: allowed_by_def role_allowed_def list_all_iff filter_empty_conv)

lemma disjoint_role_allowed:
  assumes "g \<noteq> []" "tr_allowed_tools tr \<noteq> []" "list_all (\<lambda>t. t \<notin> set (tr_allowed_tools tr)) g"
  shows "role_allowed g tr = []"
  using assms by (simp add: role_allowed_def filter_empty_conv list_all_iff)

lemma verdict_permission:
  assumes "\<not> lists_disjoint p role"
  shows "verdict (check_permission p tool role) w (\<not> enforced p \<or> permits p role tool)"
  using assms
  by (auto simp: check_permission_def enforced_def permits_def lists_disjoint_def verdict_check_lists
      allowed_role split: option.splits)

lemma verdict_disjoint:
  assumes "lists_disjoint p role" and "effective_role p role = Some r" and "fmlookup (sy_roles p) r = Some tr"
  shows "verdict (check_permission p tool role) w
    (\<not> enforced p \<or> tool \<notin> set (sy_blocked_tools p) \<union> set (tr_blocked_tools tr))"
  using assms
  by (auto simp: check_permission_def enforced_def lists_disjoint_def verdict_check_lists disjoint_role_allowed allowed_by_def)

text \<open>The decision of the check, whatever the lists.\<close>

definition role_blocks :: "security_policy \<Rightarrow> string option \<Rightarrow> string \<Rightarrow> bool" where
  "role_blocks p role tool =
     (case effective_role p role of None \<Rightarrow> False
      | Some r \<Rightarrow> (case fmlookup (sy_roles p) r of None \<Rightarrow> True | Some tr \<Rightarrow> tool \<in> set (tr_blocked_tools tr)))"

definition passes_check :: "security_policy \<Rightarrow> string option \<Rightarrow> string \<Rightarrow> bool" where
  "passes_check p role tool =
     (if \<not> enforced p then True
      else if lists_disjoint p role then tool \<notin> set (sy_blocked_tools p) \<and> \<not> role_blocks p role tool
      else permits p role tool)"

lemma verdict_passes: "verdict (check_permission p tool role) w (passes_check p role tool)"
proof (cases "lists_disjoint p role")
  case True
  then obtain r tr where "effective_role p role = Some r" "fmlookup (sy_roles p) r = Some tr"
    by (auto simp: lists_disjoint_def split: option.splits)
  then show ?thesis using verdict_disjoint [OF True, of r tr tool w] True
    by (cases "enforced p") (simp_all add: passes_check_def role_blocks_def)
next
  case False
  then show ?thesis using verdict_permission [OF False, of tool w] by (cases "enforced p") (simp_all add: passes_check_def)
qed

text \<open>
  C21. Unless the list of the policy and the list of the role are disjoint, the permission check passes a
  tool exactly when it is off, or neither the policy nor the role blocks the tool and each of their lists
  that is not empty names it; an unknown role passes nothing.
\<close>

theorem permission_exact:
  assumes "\<not> lists_disjoint p role"
  shows "verdict (check_permission p tool role) w (\<not> enforced p \<or> permits p role tool)"
  by (rule verdict_permission [OF assms])

definition shop_roles_policy :: security_policy where
  "shop_roles_policy = default_policy\<lparr>sy_allowed_tools := [''query_order'', ''cancel_order''], sy_roles := fmap_of_list
     [(''reader'', \<lparr>tr_description = [], tr_allowed_tools = [''query_order''], tr_blocked_tools = []\<rparr>),
      (''writer'', \<lparr>tr_description = [], tr_allowed_tools = [''place_order''], tr_blocked_tools = []\<rparr>)]\<rparr>"

theorem permission_exact_witness:
  "\<not> lists_disjoint shop_roles_policy (Some ''reader'') \<and>
   (\<forall>w :: nat world. verdict (check_permission shop_roles_policy ''cancel_order'' (Some ''reader'')) w False)"
proof -
  have d: "\<not> lists_disjoint shop_roles_policy (Some ''reader'')"
    by (simp add: lists_disjoint_def effective_role_def shop_roles_policy_def)
  have e: "enforced shop_roles_policy \<and> \<not> permits shop_roles_policy (Some ''reader'') ''cancel_order''"
    by (simp add: enforced_def permits_def effective_role_def shop_roles_policy_def allowed_by_def default_policy_def)
  have "verdict (check_permission shop_roles_policy ''cancel_order'' (Some ''reader'')) w False" for w :: "nat world"
    using e permission_exact [OF d, of "''cancel_order''" w] by simp
  then show ?thesis using d by simp
qed

text \<open>
  When both lists name tools but none in common, the check passes every tool that is not blocked: the
  empty intersection is taken for the absence of a restriction.
\<close>

theorem disjoint_lists_pass_all:
  assumes "lists_disjoint p role" and "effective_role p role = Some r" and "fmlookup (sy_roles p) r = Some tr"
  shows "verdict (check_permission p tool role) w
    (\<not> enforced p \<or> tool \<notin> set (sy_blocked_tools p) \<union> set (tr_blocked_tools tr))"
  by (rule verdict_disjoint [OF assms])

theorem disjoint_lists_pass_all_witness:
  "\<forall>w :: nat world. verdict (check_permission shop_roles_policy ''delete_everything'' (Some ''writer'')) w True"
proof -
  let ?tr = "\<lparr>tr_description = [], tr_allowed_tools = [''place_order''], tr_blocked_tools = []\<rparr>"
  have d: "lists_disjoint shop_roles_policy (Some ''writer'')"
    by (simp add: lists_disjoint_def effective_role_def shop_roles_policy_def)
  have r: "effective_role shop_roles_policy (Some ''writer'') = Some ''writer''" by (simp add: effective_role_def)
  have t: "fmlookup (sy_roles shop_roles_policy) ''writer'' = Some ?tr" by (simp add: shop_roles_policy_def)
  have e: "''delete_everything'' \<notin> set (sy_blocked_tools shop_roles_policy) \<union> set (tr_blocked_tools ?tr)"
    by (simp add: shop_roles_policy_def default_policy_def)
  have "verdict (check_permission shop_roles_policy ''delete_everything'' (Some ''writer'')) w True" for w :: "nat world"
    using e disjoint_lists_pass_all [OF d r t, of "''delete_everything''" w] by simp
  then show ?thesis by blast
qed

section \<open>Input\<close>

definition mentions :: "string list \<Rightarrow> string \<Rightarrow> bool" where
  "mentions ws text = list_ex (\<lambda>k. occurs_in (lower k) (lower text)) ws"

definition valid_text :: "(string \<Rightarrow> string \<Rightarrow> bool option) \<Rightarrow> security_policy \<Rightarrow> string \<Rightarrow> bool" where
  "valid_text rx p text \<longleftrightarrow>
     \<not> (sy_min_input_length p > 0 \<and> strip text = []) \<and>
     sy_min_input_length p \<le> int (length text) \<and> int (length text) \<le> sy_max_input_length p \<and>
     \<not> mentions (sy_blocked_keywords p) text \<and>
     list_all (\<lambda>pat. rx pat text \<noteq> Some True) (sy_blocked_patterns p)"

definition injection_free :: "security_policy \<Rightarrow> string \<Rightarrow> bool" where
  "injection_free p text \<longleftrightarrow> sy_prompt_injection_enabled p \<longrightarrow> \<not> mentions (sy_prompt_injection_patterns p) text"

definition accepts_input :: "(string \<Rightarrow> string \<Rightarrow> bool option) \<Rightarrow> security_policy \<Rightarrow> json \<Rightarrow> bool" where
  "accepts_input rx p req =
     (if sy_security_enabled p then valid_text rx p (extract_text req) \<and> injection_free p (extract_text req) else True)"

lemma verdict_bnd:
  "verdict (bnd m f) w b \<longleftrightarrow>
   (\<exists>r w'. m w = (Inr r, w') \<and> (\<exists>r' w''. f r w' = (Inr r', w'') \<and> sr_passed r' = b \<and> clock_only w w''))"
  by (auto simp: verdict_def bnd_def split: prod.splits sum.splits)

lemma worst_passed: "sr_passed (worst a b) \<longleftrightarrow> sr_passed a \<and> sr_passed b"
  by (simp add: worst_def Let_def)

lemma verdict_validate:
  "sy_security_enabled p \<Longrightarrow> verdict (validate_input rx p req) w (valid_text rx p (extract_text req))"
  by (auto simp: validate_input_def valid_text_def Let_def keyword_violations_def mentions_def list_ex_iff list_all_iff
      filter_empty_conv)

lemma verdict_prompt_guard:
  "sy_security_enabled p \<Longrightarrow> verdict (prompt_guard_check p req) w (injection_free p (extract_text req))"
  by (auto simp: prompt_guard_check_def injection_free_def Let_def mentions_def list_ex_iff filter_empty_conv)

lemma verdict_guard_input:
  "verdict (guard_check_input rx p req) w (accepts_input rx p req)"
proof (cases "sy_security_enabled p")
  case True
  obtain r w' where r: "validate_input rx p req w = (Inr r, w')"
      "sr_passed r = valid_text rx p (extract_text req)" "clock_only w w'"
    using verdict_validate [OF True, of rx req w] by (auto simp: verdict_def)
  obtain i w'' where i: "prompt_guard_check p req w' = (Inr i, w'')"
      "sr_passed i = injection_free p (extract_text req)" "clock_only w' w''"
    using verdict_prompt_guard [OF True, of req w'] by (auto simp: verdict_def)
  show ?thesis using True r i by (auto simp: accepts_input_def guard_check_input_def verdict_bnd bnd_Inr ret_def worst_passed
        intro: clock_only_trans)
qed (simp add: accepts_input_def guard_check_input_def)

text \<open>
  C22. The input check of an enabled policy passes a request exactly when its text is neither blank nor too
  short nor too long, contains none of the blocked words or patterns, and none of the injection phrases
  when these are looked for. The flags that say whether to block have no say in it.
\<close>

theorem input_check_exact:
  "verdict (guard_check_input rx p req) w (accepts_input rx p req)"
  by (rule verdict_guard_input)

section \<open>Policies as dicts\<close>

lemma str_items_texts [simp]: "str_items (text_list ts) = Inr ts"
  by (simp add: text_list_def comp_def)

lemma role_roundtrip: "role_from_dict (dict_of [(''description'', JStr (tr_description r)),
     (''allowed_tools'', text_list (tr_allowed_tools r)), (''blocked_tools'', text_list (tr_blocked_tools r))]) = Inr r"
  by (simp add: role_from_dict_def dget_or_dict_of)

lemma roles_roundtrip:
  "distinct ns \<Longrightarrow> set ns \<subseteq> fset (fmdom m) \<Longrightarrow>
   \<exists>m'. roles_from (fmmap role_to_dict m) ns = Inr m' \<and>
     (\<forall>n. fmlookup m' n = (if n \<in> set ns then fmlookup m n else None))"
proof (induction ns)
  case (Cons n ns)
  then obtain r where r: "fmlookup m n = Some r" by (auto dest: fmdomE)
  obtain m' where m': "roles_from (fmmap role_to_dict m) ns = Inr m'"
      "\<forall>n. fmlookup m' n = (if n \<in> set ns then fmlookup m n else None)"
    using Cons by auto
  have "roles_from (fmmap role_to_dict m) (n # ns) = Inr (fmupd n r m')"
    using r m'(1) by (simp add: role_to_dict_def [of r] role_roundtrip)
  then show ?case using r m'(2) by auto
qed simp

lemma all_roles_roundtrip:
  "roles_from (fmmap role_to_dict m) (sorted_list_of_fset (fmdom m)) = Inr m"
proof -
  let ?ns = "sorted_list_of_fset (fmdom m)"
  obtain m' where m': "roles_from (fmmap role_to_dict m) ?ns = Inr m'"
      "\<forall>n. fmlookup m' n = (if n \<in> set ?ns then fmlookup m n else None)"
    using roles_roundtrip [of ?ns m] by (auto simp: sorted_list_of_fset.rep_eq)
  have "m' = m"
    by (rule fmap_ext) (use m' in \<open>auto simp: sorted_list_of_fset.rep_eq fmlookup_dom_iff\<close>)
  then show ?thesis using m' by simp
qed

text \<open>A policy that is written to a dict and read back is the same policy, with its roles.\<close>

theorem policy_roundtrip:
  "policy_from_dict (policy_to_dict p) w = (Inr p, w)"
  by (simp add: policy_from_dict_def policy_to_dict_def field_int_def field_list_def field_bool_def dget_or_dict_of
      all_roles_roundtrip) (simp add: ret_def)

end
