(* ===== verification/Platform_Quiet.thy ===== *)
theory Platform_Quiet
  imports Agent_Runtime Security_Correct
begin

text \<open>
  What recording leaves alone. Spans, events, counters and histograms are kept in the collector; none of
  the operations on them raises an exception, and none of them changes the states of the runs, the active
  context, the logger, the store or a gauge. The proofs about tools and runs rest on this.
\<close>

named_theorems quiet_rules \<open>programs that record and do nothing else\<close>

type_synonym view = "agent_state list \<times> agent_context option \<times> string option \<times> (string, simple_gauge) fmap"

definition view :: "('s, 'z) platform_world_scheme \<Rightarrow> view" where
  "view w = (pw_states w, pw_context w, pw_log_trace w, mr_gauges (cl_metrics (pw_collector w)))"

definition quiet :: "(('s, 'z) platform_world_scheme, 'a) prog \<Rightarrow> bool" where
  "quiet m \<longleftrightarrow> (\<forall>w. \<exists>x w'. m w = (Inr x, w') \<and> view w' = view w \<and> w_redis w' = w_redis w)"

lemma recording_ends: "quiet m \<Longrightarrow> \<exists>x w'. m w = (Inr x, w') \<and> view w' = view w \<and> w_redis w' = w_redis w"
  by (simp add: quiet_def)

lemma quietE:
  assumes "quiet m"
  obtains x w' where "m w = (Inr x, w')" "view w' = view w" "w_redis w' = w_redis w"
  using recording_ends [OF assms, of w] by blast

lemma quiet_unitE:
  fixes m :: "(('s, 'z) platform_world_scheme, unit) prog"
  assumes "quiet m"
  obtains w' where "m w = (Inr (), w')" "view w' = view w" "w_redis w' = w_redis w"
  using recording_ends [OF assms, of w] by (metis (full_types) old.unit.exhaust)

lemma quiet_ret [quiet_rules]: "quiet (ret x)"
  by (simp add: quiet_def ret_def)

lemma quiet_gets [quiet_rules]: "quiet (gets f)"
  by (simp add: quiet_def gets_def)

lemma quiet_bnd [quiet_rules]:
  assumes "quiet m" and "\<And>x. quiet (f x)"
  shows "quiet (bnd m f)"
  unfolding quiet_def
proof (intro allI)
  fix w
  obtain x w1 where 1: "m w = (Inr x, w1)" "view w1 = view w" "w_redis w1 = w_redis w" by (rule quietE [OF assms(1)])
  obtain y w2 where 2: "f x w1 = (Inr y, w2)" "view w2 = view w1" "w_redis w2 = w_redis w1" by (rule quietE [OF assms(2)])
  show "\<exists>y w'. bnd m f w = (Inr y, w') \<and> view w' = view w \<and> w_redis w' = w_redis w"
    using 1 2 by (simp add: bnd_def)
qed

lemma quiet_thn [quiet_rules]: "quiet m \<Longrightarrow> quiet k \<Longrightarrow> quiet (thn m k)"
  by (simp add: thn_def quiet_bnd)

lemma quiet_whenp [quiet_rules]: "(b \<Longrightarrow> quiet m) \<Longrightarrow> quiet (whenp b m)"
  by (simp add: whenp_def quiet_ret)

lemma quiet_if [quiet_rules]: "(b \<Longrightarrow> quiet m) \<Longrightarrow> (\<not> b \<Longrightarrow> quiet k) \<Longrightarrow> quiet (if b then m else k)"
  by simp

lemma quiet_option [quiet_rules]:
  "(v = None \<Longrightarrow> quiet m) \<Longrightarrow> (\<And>x. v = Some x \<Longrightarrow> quiet (f x)) \<Longrightarrow> quiet (case v of None \<Rightarrow> m | Some x \<Rightarrow> f x)"
  by (cases v) simp_all

lemma quiet_prod [quiet_rules]: "(\<And>x y. quiet (f x y)) \<Longrightarrow> quiet (case p of (x, y) \<Rightarrow> f x y)"
  by (cases p) simp

lemma quiet_for_each [quiet_rules]: "(\<And>x. quiet (f x)) \<Longrightarrow> quiet (for_each xs f)"
  by (induction xs) (simp_all add: quiet_ret quiet_thn)

lemma quiet_clock [quiet_rules]: "quiet py_time" "quiet py_uuid"
  by (auto simp: quiet_def py_time_def py_uuid_def view_def Let_def)

section \<open>The collector is quiet\<close>

lemma gauges_counter [simp]: "mr_gauges (counter_inc n d m) = mr_gauges m"
  by (simp add: counter_inc_def registry_counter_def Let_def split: option.splits)

lemma gauges_histogram [simp]: "mr_gauges (histogram_add n v m) = mr_gauges m"
  by (simp add: histogram_add_def registry_histogram_def Let_def split: option.splits)

lemma quiet_with_collector:
  "(\<And>c. mr_gauges (cl_metrics (f c)) = mr_gauges (cl_metrics c)) \<Longrightarrow> quiet (with_collector f)"
  by (simp add: quiet_def with_collector_def modw_def view_def)

lemma quiet_metrics [quiet_rules]:
  "quiet (count n)" "quiet (with_metrics (histogram_add n v))"
  by (simp_all add: count_def with_metrics_def quiet_with_collector)

lemma quiet_makers [quiet_rules]:
  "quiet (new_span n a)" "quiet (span_finish st as s)" "quiet (new_trace md)" "quiet (trace_finish x)"
  "quiet (new_event ty t sp pl)" "quiet new_agent_context" "quiet (block_event c l v t md)"
  by (simp_all add: new_span_def span_finish_def new_trace_def trace_finish_def new_event_def new_agent_context_def
      block_event_def quiet_rules)

lemma quiet_record [quiet_rules]: "quiet (record_event e)"
  by (simp add: record_event_def quiet_with_collector)

lemma quiet_emit [quiet_rules]: "quiet e \<Longrightarrow> quiet (emit e)"
  by (simp add: emit_def quiet_rules)

lemma quiet_traces [quiet_rules]:
  "quiet (start_trace md)" "quiet (trace_at i)" "quiet (put_trace i x)" "quiet (span_at p)"
  by (simp_all add: start_trace_def trace_at_def put_trace_def span_at_def quiet_rules quiet_with_collector)

lemma quiet_spans [quiet_rules]: "quiet (create_span n a)" "quiet (finish_span st p)"
  by (simp_all add: create_span_def finish_span_def quiet_rules)

lemma quiet_trace_metrics [quiet_rules]: "quiet (record_span_metrics s)" "quiet (record_trace_metrics x)"
  by (simp_all add: record_span_metrics_def record_trace_metrics_def quiet_rules)

lemma quiet_finish_trace [quiet_rules]: "quiet (finish_trace t)"
  unfolding finish_trace_def by (intro quiet_rules)

lemma quiet_events [quiet_rules]:
  "quiet (agent_start t r md)" "quiet (agent_end t st d)" "quiet (agent_error t ty m)" "quiet (node_start t s n md)"
  "quiet (node_end t s n d st)" "quiet (tool_call t s n p)" "quiet (tool_result_event t s n ok d r e)"
  "quiet (workflow_start t k ns)" "quiet (workflow_end t k d)"
  by (simp_all add: agent_start_def agent_end_def agent_error_def node_start_def node_end_def tool_call_def
      tool_result_event_def workflow_start_def workflow_end_def quiet_rules)

lemma quiet_tool_spans [quiet_rules]:
  "quiet (open_tool_span n p)" "quiet (close_tool_span sp n ok d r e)" "quiet (record_permission_block t sr n)"
  unfolding open_tool_span_def close_tool_span_def record_permission_block_def by (intro quiet_rules)+

lemma quiet_node_spans [quiet_rules]: "quiet (open_node_span n)" "quiet (close_node_span sp n st)"
  unfolding open_node_span_def close_node_span_def by (intro quiet_rules)+

lemma quiet_run [quiet_rules]:
  "quiet (state_at i)" "quiet (trace_id_at t)" "quiet (record_security_block tr r i)"
  unfolding state_at_def trace_id_at_def record_security_block_def by (intro quiet_rules)+

lemma quiet_emit_for [quiet_rules]: "(\<And>t. quiet (e t)) \<Longrightarrow> quiet (emit_for tr e)"
  unfolding emit_for_def by (intro quiet_rules)

lemma quiet_pass_block [quiet_rules]: "quiet (pass_result n md)" "quiet (block_result l v n md)"
  by (simp_all add: pass_result_def block_result_def quiet_rules)

lemma quiet_checks [quiet_rules]:
  "quiet (check_permission p t r)" "quiet (guard_check_input rx p req)"
  unfolding check_permission_def check_lists_def guard_check_input_def validate_input_def prompt_guard_check_def Let_def
  by (intro quiet_rules)+

end
