(* ===== verification/Tools_Correct.thy ===== *)
theory Tools_Correct
  imports Platform_Quiet
begin

text \<open>
  What the tool executor guarantees: a tool runs only when the permission check passes it and its
  parameters fit its schema, and a call is answered, never ended by an exception.
\<close>

section \<open>Parameters\<close>

definition fits_spec :: "dict \<Rightarrow> string \<times> param_spec \<Rightarrow> bool" where
  "fits_spec d f = (case f of (k, sp) \<Rightarrow>
     (case dget d k of
        None \<Rightarrow> \<not> ps_required sp
      | Some v \<Rightarrow> (case ps_type sp of None \<Rightarrow> True | Some ty \<Rightarrow> is_instance v ty)))"

definition fits :: "(string \<times> param_spec) list \<Rightarrow> dict \<Rightarrow> bool" where
  "fits schema d = list_all (fits_spec d) schema"

lemma check_fields_fits: "check_fields schema d = Inr () \<longleftrightarrow> fits schema d"
  by (induction schema d rule: check_fields.induct)
     (auto simp: fits_def fits_spec_def split: option.splits if_splits)

lemma check_fields_error:
  "check_fields schema d = Inl e \<Longrightarrow> \<exists>m. e = tool_validation_error m"
  by (induction schema d rule: check_fields.induct) (auto split: option.splits if_splits)

text \<open>The parameters of a call, \<open>None\<close> taken for none, are a dict that fits the schema.\<close>

definition fitting_params :: "(string \<times> param_spec) list \<Rightarrow> json \<Rightarrow> dict option" where
  "fitting_params schema params =
     (case or_empty_dict params of JObj d \<Rightarrow> if fits schema d then Some d else None | _ \<Rightarrow> None)"

lemma validate_params_cases:
  "case fitting_params schema params of
     Some d \<Rightarrow> validate_params schema (or_empty_dict params) = Inr d
   | None \<Rightarrow> \<exists>m. validate_params schema (or_empty_dict params) = Inl (tool_validation_error m)"
proof (cases "or_empty_dict params")
  case (JObj d)
  show ?thesis
  proof (cases "check_fields schema d")
    case (Inl e)
    then have "\<not> fits schema d" using check_fields_fits [of schema d] by simp
    then show ?thesis using JObj Inl check_fields_error [OF Inl] by (auto simp: fitting_params_def validate_params_def)
  next
    case (Inr u)
    then have "fits schema d" using check_fields_fits [of schema d] by simp
    then show ?thesis using JObj Inr by (simp add: fitting_params_def validate_params_def)
  qed
qed (auto simp: fitting_params_def validate_params_def)

lemma run_tool_fitting:
  "tools_get name (exe_registry ex) = Some tool \<Longrightarrow> fitting_params (to_schema tool) params = Some d \<Longrightarrow>
   run_tool ex name params c w = to_execute tool d c w"
  using validate_params_cases [of "to_schema tool" params]
  by (simp add: run_tool_def require_tool_def of_option_def)

lemma run_tool_misfit:
  "tools_get name (exe_registry ex) = Some tool \<Longrightarrow> fitting_params (to_schema tool) params = None \<Longrightarrow>
   \<exists>m. run_tool ex name params c w = (Inl (tool_validation_error m), w)"
  using validate_params_cases [of "to_schema tool" params]
  by (auto simp: run_tool_def require_tool_def of_option_def lift_def raise_def bnd_def ret_def)

text \<open>
  A registered tool is executed exactly on parameters that fit its schema (every required field is
  there and every given field has its type), and on others the call fails with a validation error before
  the tool does anything.
\<close>

theorem tool_gets_fitting_params:
  assumes "tools_get name (exe_registry ex) = Some tool"
  shows "case fitting_params (to_schema tool) params of
      Some d \<Rightarrow> run_tool ex name params c w = to_execute tool d c w
    | None \<Rightarrow> \<exists>m. run_tool ex name params c w = (Inl (tool_validation_error m), w)"
  using assms run_tool_fitting [OF assms, of params] run_tool_misfit [OF assms, of params] by (auto split: option.splits)

definition echo_tool :: "'w base_tool" where
  "echo_tool = \<lparr>to_name = ''echo'', to_description = [], to_schema = [(''message'', required_param TyStr)],
     to_execute = (\<lambda>d c. ret (Raw (dget_or d ''message'' JNull)))\<rparr>"

definition echo_executor :: "security_policy option \<Rightarrow> 'w tool_executor" where
  "echo_executor p = \<lparr>exe_registry = fmupd ''echo'' echo_tool fmempty, exe_metadata = fmempty, exe_security = p,
     exe_ask_text = []\<rparr>"

lemma echo_registered: "tools_get ''echo'' (exe_registry (echo_executor p)) = Some echo_tool"
  by (simp add: tools_get_def echo_executor_def)

definition echo_call :: "json \<Rightarrow> json" where
  "echo_call v = JObj (dict_of [(''message'', v)])"

lemma echo_fitting:
  "fitting_params (to_schema echo_tool) (echo_call (JStr s)) = Some (dict_of [(''message'', JStr s)])"
  "fitting_params (to_schema echo_tool) (echo_call (JInt n)) = None"
proof -
  have "dict_of [(''message'', v)] \<noteq> fmempty" for v
    by (simp add: dict_of_def)
  then show "fitting_params (to_schema echo_tool) (echo_call (JStr s)) = Some (dict_of [(''message'', JStr s)])"
    "fitting_params (to_schema echo_tool) (echo_call (JInt n)) = None"
    by (simp_all add: fitting_params_def or_empty_dict_def echo_call_def echo_tool_def fits_def fits_spec_def required_param_def
        dict_of_def)
qed

lemma echo_executes: "to_execute echo_tool (dict_of [(''message'', v)]) c = ret (Raw v)"
  by (simp add: echo_tool_def dget_or_def dict_of_def)

theorem tool_gets_fitting_params_witness:
  "\<forall>w :: nat platform_world.
     run_tool (echo_executor None) ''echo'' (echo_call (JStr ''hi'')) None w = (Inr (Raw (JStr ''hi'')), w) \<and>
     (\<exists>m. run_tool (echo_executor None) ''echo'' (echo_call (JInt 3)) None w = (Inl (tool_validation_error m), w))"
proof
  fix w :: "nat platform_world"
  show "run_tool (echo_executor None) ''echo'' (echo_call (JStr ''hi'')) None w = (Inr (Raw (JStr ''hi'')), w) \<and>
     (\<exists>m. run_tool (echo_executor None) ''echo'' (echo_call (JInt 3)) None w = (Inl (tool_validation_error m), w))"
    using tool_gets_fitting_params [OF echo_registered [of None], where params = "echo_call (JStr ''hi'')" and c = None and w = w]
      tool_gets_fitting_params [OF echo_registered [of None], where params = "echo_call (JInt 3)" and c = None and w = w]
    by (simp add: echo_fitting echo_executes ret_def)
qed

section \<open>Calls\<close>

definition tool_passes :: "'w tool_executor \<Rightarrow> string \<Rightarrow> bool" where
  "tool_passes ex name = (case exe_security ex of None \<Rightarrow> True | Some p \<Rightarrow> passes_check p None name)"

text \<open>What a call makes of what the tool did.\<close>

definition call_answer :: "'w tool_executor \<Rightarrow> string \<Rightarrow> exn + tool_output \<Rightarrow> exn + execution_result" where
  "call_answer ex name out =
     (case out of Inr raw \<Rightarrow> Inr (as_result name raw)
      | Inl e \<Rightarrow> if is_exception e
          then Inr (refused_result name (exn_text e) [(''response_text'', JStr (exe_ask_text ex))]) else Inl e)"

lemma attempt_tool_answer:
  fixes w :: "('s, 'z) platform_world_scheme"
  shows "\<exists>w1 w'. view w1 = view w \<and> w_redis w1 = w_redis w \<and>
    attempt_tool ex name params c sp w = (call_answer ex name (fst (run_tool ex name params c w1)), w')"
proof -
  obtain start w1 where 1: "py_time w = (Inr start, w1)" "view w1 = view w" "w_redis w1 = w_redis w"
    by (rule quietE [OF quiet_clock(1)])
  obtain out w2 where out: "run_tool ex name params c w1 = (out, w2)" by (cases "run_tool ex name params c w1")
  obtain t w3 where 3: "py_time w2 = (Inr t, w3)" by (rule quietE [OF quiet_clock(1)])
  have close: "\<exists>w4. close_tool_span sp name ok d r e w3 = (Inr (), w4)" for ok d r e
    using recording_ends [OF quiet_tool_spans(2), of sp name ok d r e w3] by auto
  have "\<exists>w'. attempt_tool ex name params c sp w = (call_answer ex name out, w')"
  proof (cases out)
    case (Inl e)
    then show ?thesis using 1 out 3 close [of False "(t - start) * 1000" JNull "Some (exn_text e)"]
      by (auto simp: attempt_tool_def monad_defs call_answer_def)
  next
    case (Inr raw)
    then show ?thesis
      using 1 out 3 close [of "er_ok (as_result name raw)" "(t - start) * 1000" "er_result (as_result name raw)"
          "er_error (as_result name raw)"]
      by (auto simp: attempt_tool_def monad_defs call_answer_def Let_def)
  qed
  then show ?thesis using 1 out by (metis fst_conv)
qed

lemma permission_verdict:
  fixes w :: "('s, 'z) platform_world_scheme"
  shows "\<exists>r w'. check_permission p name None w = (Inr r, w') \<and> sr_passed r = passes_check p None name \<and>
    view w' = view w \<and> w_redis w' = w_redis w"
  using verdict_passes [of p name None w] by (auto simp: verdict_def clock_only_def view_def)

text \<open>
  A call whose tool passes the permission check is answered with what the tool answers, or, when the
  tool is missing, its parameters do not fit or it raises, with a refusal that carries the error's text;
  only an exit of the process leaves the executor. Before the tool runs nothing but the trace has changed.
\<close>

theorem permitted_call_answered:
  fixes w :: "('s, 'z) platform_world_scheme"
  assumes "tool_passes ex name"
  shows "\<exists>w1 w'. view w1 = view w \<and> w_redis w1 = w_redis w \<and>
    execute_tool ex name params c w = (call_answer ex name (fst (run_tool ex name params c w1)), w')"
proof -
  obtain sp w1 where 1: "open_tool_span name params w = (Inr sp, w1)" "view w1 = view w" "w_redis w1 = w_redis w"
    by (rule quietE [OF quiet_tool_spans(1)])
  show ?thesis
  proof (cases "exe_security ex")
    case None
    then show ?thesis using 1 attempt_tool_answer [of w1 ex name params c sp] by (simp add: execute_tool_def bnd_Inr)
  next
    case (Some p)
    obtain r w2 where r: "check_permission p name None w1 = (Inr r, w2)" "sr_passed r"
        "view w2 = view w1" "w_redis w2 = w_redis w1"
      using permission_verdict [of p name w1] assms Some by (auto simp: tool_passes_def)
    then show ?thesis using Some 1 attempt_tool_answer [of w2 ex name params c sp] by (simp add: execute_tool_def bnd_Inr)
  qed
qed

theorem permitted_call_answered_witness:
  "\<forall>w :: nat platform_world. \<exists>w'.
     execute_tool (echo_executor (Some default_policy)) ''echo'' (echo_call (JStr ''hi'')) None w =
       (Inr (as_result ''echo'' (Raw (JStr ''hi''))), w')"
proof
  fix w :: "nat platform_world"
  have p: "tool_passes (echo_executor (Some default_policy)) ''echo''"
    by (simp add: tool_passes_def echo_executor_def passes_check_def permits_def lists_disjoint_def effective_role_def
        default_policy_def allowed_by_def)
  have "run_tool (echo_executor (Some default_policy)) ''echo'' (echo_call (JStr ''hi'')) None w1 =
      (Inr (Raw (JStr ''hi'')), w1)" for w1 :: "nat platform_world"
    using run_tool_fitting [OF echo_registered echo_fitting(1)]
    by (simp add: echo_executes) (simp add: ret_def)
  then show "\<exists>w'. execute_tool (echo_executor (Some default_policy)) ''echo'' (echo_call (JStr ''hi'')) None w =
       (Inr (as_result ''echo'' (Raw (JStr ''hi''))), w')"
    using permitted_call_answered [OF p, where w = w and params = "echo_call (JStr ''hi'')" and c = None] by (auto simp: call_answer_def)
qed

lemma execute_refused:
  fixes w :: "('s, 'z) platform_world_scheme"
  assumes "\<not> tool_passes ex name"
  shows "\<exists>r w'. execute_tool ex name params c w = (Inr r, w') \<and> \<not> er_ok r \<and>
      view w' = view w \<and> w_redis w' = w_redis w \<and>
      (\<forall>reg. execute_tool (ex\<lparr>exe_registry := reg\<rparr>) name params c w = (Inr r, w'))"
proof -
  obtain p where p: "exe_security ex = Some p" "\<not> passes_check p None name"
    using assms by (auto simp: tool_passes_def split: option.splits)
  obtain sp w1 where 1: "open_tool_span name params w = (Inr sp, w1)" "view w1 = view w" "w_redis w1 = w_redis w"
    by (rule quietE [OF quiet_tool_spans(1)])
  obtain r w2 where r: "check_permission p name None w1 = (Inr r, w2)" "\<not> sr_passed r"
      "view w2 = view w1" "w_redis w2 = w_redis w1"
    using permission_verdict [of p name w1] p by auto
  obtain w3 where 3: "record_permission_block (case sp of None \<Rightarrow> [] | Some (trace, _) \<Rightarrow> trace) r name w2 = (Inr (), w3)"
      "view w3 = view w2" "w_redis w3 = w_redis w2"
    by (rule quiet_unitE [OF quiet_tool_spans(3)])
  let ?r = "refused_result name (''Tool blocked: '' @ join '', '' (sr_violations r)) [(''security'', result_as_dict r)]"
  have "exe_security ex' = Some p \<Longrightarrow> execute_tool ex' name params c w = (Inr ?r, w3)"
    for ex' :: "('s, 'z) platform_world_scheme tool_executor"
    using 1 r 3 by (simp add: execute_tool_def bnd_Inr thn_def ret_def)
  moreover have "\<not> er_ok ?r" by (simp add: refused_result_def)
  ultimately show ?thesis using p 1 r 3 by auto
qed

text \<open>
  C20. A call whose tool does not pass the permission check is refused whatever tools are registered: no
  tool runs, and no state of a run, no gauge and nothing in the store changes.
\<close>

theorem refused_tool_never_runs:
  fixes w :: "('s, 'z) platform_world_scheme"
  assumes "\<not> tool_passes ex name"
  shows "\<exists>r w'. execute_tool ex name params c w = (Inr r, w') \<and> \<not> er_ok r \<and>
      view w' = view w \<and> w_redis w' = w_redis w \<and>
      (\<forall>reg. execute_tool (ex\<lparr>exe_registry := reg\<rparr>) name params c w = (Inr r, w'))"
  by (rule execute_refused [OF assms])

theorem refused_tool_never_runs_witness:
  "\<forall>w :: nat platform_world. \<exists>r w'.
     execute_tool (echo_executor (Some (default_policy\<lparr>sy_blocked_tools := [''echo'']\<rparr>))) ''echo'' JNull None w = (Inr r, w') \<and>
     \<not> er_ok r"
proof
  fix w :: "nat platform_world"
  let ?ex = "echo_executor (Some (default_policy\<lparr>sy_blocked_tools := [''echo'']\<rparr>)) :: nat platform_world tool_executor"
  have p: "\<not> tool_passes ?ex ''echo''"
    by (simp add: tool_passes_def echo_executor_def passes_check_def permits_def lists_disjoint_def effective_role_def
        default_policy_def enforced_def)
  show "\<exists>r w'. execute_tool ?ex ''echo'' JNull None w = (Inr r, w') \<and> \<not> er_ok r"
    using refused_tool_never_runs [OF p, where params = JNull and c = None and w = w] by blast
qed

end
