(* ===== verification/Runtime_Correct.thy ===== *)
theory Runtime_Correct
  imports Platform_Quiet
begin

text \<open>
  What a run of an agent guarantees: it answers a finished state, a refused request runs nothing, the
  gauge of running agents, and the workflow engine against a plain loop over its nodes.
\<close>

section \<open>Programs that answer and leave the states alone\<close>

definition gauge :: "('s, 'z) platform_world_scheme \<Rightarrow> rat" where
  "gauge w = gauge_value ''agent.running'' (cl_metrics (pw_collector w))"

lemma view_gauge: "view w' = view w \<Longrightarrow> gauge w' = gauge w"
  by (simp add: view_def gauge_def gauge_value_def)

lemma view_states: "view w' = view w \<Longrightarrow> pw_states w' = pw_states w"
  by (simp add: view_def)

definition adds :: "rat \<Rightarrow> (('s, 'z) platform_world_scheme, 'a) prog \<Rightarrow> bool" where
  "adds d m \<longleftrightarrow> (\<forall>w. \<exists>x w'. m w = (Inr x, w') \<and> pw_states w' = pw_states w \<and> gauge w' = gauge w + d \<and>
     w_redis w' = w_redis w)"

lemma addsE:
  assumes "adds d m"
  obtains x w' where "m w = (Inr x, w')" "pw_states w' = pw_states w" "gauge w' = gauge w + d" "w_redis w' = w_redis w"
  using assms unfolding adds_def by blast

lemma quiet_adds: "quiet m \<Longrightarrow> adds 0 m"
  unfolding quiet_def adds_def by (metis add.right_neutral view_gauge view_states)

lemma adds_bnd:
  assumes "adds a m" and "\<And>x. adds b (f x)"
  shows "adds (a + b) (bnd m f)"
  unfolding adds_def
proof
  fix w
  obtain x w1 where 1: "m w = (Inr x, w1)" "pw_states w1 = pw_states w" "gauge w1 = gauge w + a" "w_redis w1 = w_redis w"
    by (rule addsE [OF assms(1)])
  obtain y w2 where 2: "f x w1 = (Inr y, w2)" "pw_states w2 = pw_states w1" "gauge w2 = gauge w1 + b" "w_redis w2 = w_redis w1"
    by (rule addsE [OF assms(2)])
  show "\<exists>y w'. bnd m f w = (Inr y, w') \<and> pw_states w' = pw_states w \<and> gauge w' = gauge w + (a + b) \<and> w_redis w' = w_redis w"
    using 1 2 by (simp add: bnd_def)
qed

lemma adds_thn: "adds a m \<Longrightarrow> adds b k \<Longrightarrow> adds (a + b) (thn m k)"
  by (simp add: thn_def adds_bnd)

lemma adds_after_quiet: "quiet m \<Longrightarrow> (\<And>x. adds d (f x)) \<Longrightarrow> adds d (bnd m f)"
  using adds_bnd [OF quiet_adds] by fastforce

lemma adds_running: "adds d (running_gauge d)"
  by (simp add: adds_def running_gauge_def with_metrics_def with_collector_def modw_def gauge_def gauge_value_def gauge_add_def
      registry_gauge_def Let_def split: option.splits)

lemma adds_log: "adds 0 (set_log_trace t)"
  by (simp add: adds_def set_log_trace_def modw_def gauge_def)

lemma adds_begin: "adds 1 (begin_run rt i)"
proof -
  have "adds (1 + (0 + 0)) (thn (running_gauge 1) (thn (set_log_trace l) (ret t)))" for l and t :: nat
    by (intro adds_thn adds_running adds_log quiet_adds quiet_rules)
  then have last: "adds 1 (thn (running_gauge 1) (thn (set_log_trace l) (ret t)))" for l and t :: nat by simp
  show ?thesis
    unfolding begin_run_def thn_def [of "emit _"]
    by (intro adds_after_quiet quiet_rules last)
qed

lemma adds_finish: "adds (if tr = None then 0 else - 1) (finish_run obs tr)"
proof -
  have log: "adds 0 (whenp obs (set_log_trace None))" by (simp add: whenp_def adds_log quiet_adds quiet_ret)
  show ?thesis
  proof (cases tr)
    case None
    then show ?thesis using adds_thn [OF quiet_adds [OF quiet_ret] log] by (simp add: finish_run_def)
  next
    case (Some t)
    have "adds (0 + - 1) (thn (finish_trace (Some t)) (running_gauge (- 1)))"
      by (intro adds_thn quiet_adds adds_running quiet_rules)
    then show ?thesis using adds_thn [OF _ log] Some by (fastforce simp: finish_run_def)
  qed
qed

section \<open>Runs of a workflow\<close>

text \<open>A workflow neither drops states nor answers a place where there is none.\<close>

definition lawful :: "('s, 'z) platform_world_scheme workflow \<Rightarrow> bool" where
  "lawful flow \<longleftrightarrow> (\<forall>i c w. i < length (pw_states w) \<longrightarrow>
     (case dispatch flow i c w of (out, w') \<Rightarrow> length (pw_states w) \<le> length (pw_states w') \<and>
        (case out of Inr (RState j) \<Rightarrow> j < length (pw_states w') | _ \<Rightarrow> True)))"

definition finished :: "nat \<Rightarrow> ('s, 'z) platform_world_scheme \<Rightarrow> bool" where
  "finished j w \<longleftrightarrow> j < length (pw_states w) \<and> as_status (pw_states w ! j) \<in> {''succeeded'', ''failed''}"

lemma update_state_run:
  "update_state i f w = (Inr (), w\<lparr>pw_states := (pw_states w)[i := f (pw_states w ! i)]\<rparr>)"
  by (simp add: update_state_def modw_def)

lemma state_at_run: "state_at i w = (Inr (pw_states w ! i), w)"
  by (simp add: state_at_def gets_def)

lemma finished_view: "pw_states w' = pw_states w \<Longrightarrow> finished j w' = finished j w"
  by (simp add: finished_def)

text \<open>After the workflow: the answer, the status and the event.\<close>

definition conclude ::
  "nat \<Rightarrow> nat option \<Rightarrow> rat \<Rightarrow> step_value \<Rightarrow> (('s, 'z) platform_world_scheme, nat) prog" where
  "conclude i trace start r =
     bnd py_time (\<lambda>t.
      let j = (case r of RState k \<Rightarrow> k | RValue v \<Rightarrow> i) in
      thn (case r of RState k \<Rightarrow> ret () | RValue v \<Rightarrow> whenp (v \<noteq> JNull) (update_state i (\<lambda>s. s\<lparr>as_answer := v\<rparr>)))
      (bnd (state_at j) (\<lambda>s.
       thn (whenp (as_status s \<noteq> ''failed'') (update_state j mark_succeeded))
       (bnd (state_at j) (\<lambda>s'.
        thn (emit_for trace (\<lambda>tid. agent_end tid (as_status s') (Some ((t - start) * 1000))))
        (ret j))))))"

lemma run_workflow_conclude:
  "run_workflow rt i context trace =
     thn (update_state i mark_running) (bnd py_time (\<lambda>start. bnd (dispatch (rt_workflow rt) i context) (conclude i trace start)))"
  unfolding run_workflow_def conclude_def [abs_def] by (rule refl)

lemma update_when:
  "\<exists>w'. whenp b (update_state i f) w = (Inr (), w') \<and> length (pw_states w') = length (pw_states w) \<and> gauge w' = gauge w"
  by (simp add: whenp_def ret_def update_state_run gauge_def)

lemma answer_step:
  "\<exists>w'. (case r of RState k \<Rightarrow> ret () | RValue v \<Rightarrow> whenp (v \<noteq> JNull) (update_state i (\<lambda>s. s\<lparr>as_answer := v\<rparr>))) w = (Inr (), w') \<and>
     length (pw_states w') = length (pw_states w) \<and> gauge w' = gauge w"
  using update_when by (cases r) (auto simp: ret_def)

lemma succeed_step:
  assumes "j < length (pw_states w)"
  shows "\<exists>w'. whenp (as_status (pw_states w ! j) \<noteq> ''failed'') (update_state j mark_succeeded) w = (Inr (), w') \<and>
     finished j w' \<and> gauge w' = gauge w"
proof (cases "as_status (pw_states w ! j) = ''failed''")
  case True
  then show ?thesis using assms by (simp add: whenp_def ret_def finished_def)
next
  case False
  then show ?thesis using assms
    by (simp add: whenp_def update_state_run finished_def mark_succeeded_def gauge_def)
qed

lemma conclude_run:
  fixes w :: "('s, 'z) platform_world_scheme"
  assumes i: "i < length (pw_states w)" and r: "case r of RState k \<Rightarrow> k < length (pw_states w) | RValue v \<Rightarrow> True"
  shows "\<exists>j w'. conclude i trace start r w = (Inr j, w') \<and> finished j w' \<and> gauge w' = gauge w"
proof -
  let ?j = "case r of RState k \<Rightarrow> k | RValue v \<Rightarrow> i"
  obtain t w1 where 1: "py_time w = (Inr t, w1)" "view w1 = view w" by (rule quietE [OF quiet_clock(1)])
  have j: "?j < length (pw_states w1)" using i r view_states [OF 1(2)] by (simp split: step_value.splits)
  have g1: "gauge w1 = gauge w" by (rule view_gauge [OF 1(2)])
  obtain w2 where 2: "(case r of RState k \<Rightarrow> ret () | RValue v \<Rightarrow> whenp (v \<noteq> JNull) (update_state i (\<lambda>s. s\<lparr>as_answer := v\<rparr>))) w1 = (Inr (), w2)"
      "length (pw_states w2) = length (pw_states w1)" "gauge w2 = gauge w1"
    using answer_step [where r = r and i = i and w = w1] by blast
  obtain w3 where 3: "whenp (as_status (pw_states w2 ! ?j) \<noteq> ''failed'') (update_state ?j mark_succeeded) w2 = (Inr (), w3)"
      "finished ?j w3" "gauge w3 = gauge w2"
    using succeed_step [of ?j w2] j 2(2) by auto
  obtain w4 where 4: "emit_for trace (\<lambda>tid. agent_end tid (as_status (pw_states w3 ! ?j)) (Some ((t - start) * 1000))) w3 = (Inr (), w4)"
      "view w4 = view w3"
    by (rule quiet_unitE [OF quiet_emit_for [OF quiet_events(2)]])
  have "conclude i trace start r w = (Inr ?j, w4)"
    using 1(1) 2(1) 3(1) 4(1) by (simp add: conclude_def bnd_Inr thn_def state_at_run Let_def ret_def)
  moreover have "finished ?j w4 \<and> gauge w4 = gauge w"
    using 3 g1 2(3) finished_view [OF view_states [OF 4(2)]] view_gauge [OF 4(2)] by metis
  ultimately show ?thesis by blast
qed


lemma mark_running_step:
  "\<exists>w'. update_state i mark_running w = (Inr (), w') \<and> length (pw_states w') = length (pw_states w) \<and> gauge w' = gauge w"
  by (simp add: update_state_run gauge_def)

definition flow_keeps_gauge :: "('s, 'z) platform_world_scheme workflow \<Rightarrow> bool" where
  "flow_keeps_gauge flow \<longleftrightarrow> (\<forall>i c w. gauge (snd (dispatch flow i c w)) = gauge w)"

lemma run_workflow_ends:
  fixes w :: "('s, 'z) platform_world_scheme"
  assumes law: "lawful (rt_workflow rt)" and i: "i < length (pw_states w)"
  shows "case run_workflow rt i c trace w of
      (Inr j, w') \<Rightarrow> finished j w' | (Inl e, w') \<Rightarrow> i < length (pw_states w')"
proof -
  obtain w1 where 1: "update_state i mark_running w = (Inr (), w1)" "length (pw_states w1) = length (pw_states w)"
    using mark_running_step by blast
  obtain start w2 where 2: "py_time w1 = (Inr start, w2)" "view w2 = view w1" by (rule quietE [OF quiet_clock(1)])
  have i2: "i < length (pw_states w2)" using i 1 view_states [OF 2(2)] by simp
  obtain out w3 where d: "dispatch (rt_workflow rt) i c w2 = (out, w3)" by (cases "dispatch (rt_workflow rt) i c w2")
  have l: "length (pw_states w2) \<le> length (pw_states w3)" "case out of Inr (RState j) \<Rightarrow> j < length (pw_states w3) | _ \<Rightarrow> True"
    using law [unfolded lawful_def, rule_format, OF i2, of c] d by auto
  show ?thesis
  proof (cases out)
    case (Inl e)
    then show ?thesis using 1 2 d l i2 by (simp add: run_workflow_conclude thn_def bnd_def)
  next
    case (Inr r)
    have "case r of RState k \<Rightarrow> k < length (pw_states w3) | RValue v \<Rightarrow> True"
      using l(2) Inr by (simp split: step_value.splits)
    then obtain j w4 where "conclude i trace start r w3 = (Inr j, w4)" "finished j w4"
      using conclude_run [where i = i and w = w3 and r = r] i2 l(1) by fastforce
    then show ?thesis using 1 2 d Inr by (simp add: run_workflow_conclude thn_def bnd_def)
  qed
qed

lemma gauge_update [simp]: "gauge (w\<lparr>pw_states := ss\<rparr>) = gauge w"
  by (simp add: gauge_def)

lemma record_run_failure_run:
  fixes w :: "('s, 'z) platform_world_scheme"
  assumes "i < length (pw_states w)"
  shows "\<exists>w'. record_run_failure i trace e w = (Inr i, w') \<and> finished i w' \<and> gauge w' = gauge w"
proof -
  let ?w1 = "w\<lparr>pw_states := (pw_states w)[i := mark_failed (set_error (exn_name e) (exn_text e) (pw_states w ! i))]\<rparr>"
  obtain w2 where 2: "emit_for trace (\<lambda>tid. agent_error tid (exn_name e) (exn_text e)) ?w1 = (Inr (), w2)" "view w2 = view ?w1"
    by (rule quiet_unitE [OF quiet_emit_for [OF quiet_events(3)]])
  have "finished i ?w1" using assms by (simp add: finished_def mark_failed_def)
  then have "finished i w2 \<and> gauge w2 = gauge w"
    using finished_view [OF view_states [OF 2(2)]] view_gauge [OF 2(2)] by (metis gauge_update)
  then show ?thesis using 2 by (simp add: record_run_failure_def update_state_run thn_def bnd_def ret_def)
qed


lemma in_agent_context_run:
  fixes w :: "('s, 'z) platform_world_scheme"
  shows "\<exists>active w1. pw_states w1 = pw_states w \<and> gauge w1 = gauge w \<and>
    in_agent_context c body w = (case body active w1 of (out, w2) \<Rightarrow> (out, w2\<lparr>pw_context := pw_context w\<rparr>))"
proof -
  have "quiet (case c of Some x \<Rightarrow> ret x | None \<Rightarrow> new_agent_context)" by (cases c) (simp_all add: quiet_rules)
  then obtain active w1 where 1: "(case c of Some x \<Rightarrow> ret x | None \<Rightarrow> new_agent_context) w = (Inr active, w1)"
      "view w1 = view w" by (rule quietE)
  let ?w2 = "w1\<lparr>pw_context := Some active\<rparr>"
  have old: "pw_context w1 = pw_context w" using 1(2) by (simp add: view_def)
  have "in_agent_context c body w = (case body active ?w2 of (out, w2) \<Rightarrow> (out, w2\<lparr>pw_context := pw_context w\<rparr>))"
    using 1(1) old
    by (simp add: in_agent_context_def bnd_Inr gets_def thn_def modw_def try_else_def raise_def ret_def split: prod.splits sum.splits)
  moreover have "pw_states ?w2 = pw_states w \<and> gauge ?w2 = gauge w"
    using view_states [OF 1(2)] view_gauge [OF 1(2)] by (simp add: gauge_def)
  ultimately show ?thesis by blast
qed

lemma finish_run_step:
  fixes w :: "('s, 'z) platform_world_scheme"
  shows "\<exists>w'. finish_run obs trace w = (Inr (), w') \<and> pw_states w' = pw_states w \<and>
    gauge w' = gauge w + (if trace = None then 0 else - 1)"
  using addsE [OF adds_finish [of trace obs], of w] by (metis (full_types) old.unit.exhaust)

text \<open>The workflow with its \<open>except\<close> and \<open>finally\<close> parts.\<close>

definition protected ::
  "('s, 'z) platform_world_scheme agent_runtime \<Rightarrow> nat \<Rightarrow> nat option \<Rightarrow> agent_context \<Rightarrow>
   (('s, 'z) platform_world_scheme, nat) prog" where
  "protected rt i trace context =
     try_else
       (catch (run_workflow rt i context trace) (\<lambda>e. if is_exception e then record_run_failure i trace e else raise e))
       (\<lambda>e. thn (finish_run (rt_observability rt) trace) (raise e))
       (\<lambda>j. thn (finish_run (rt_observability rt) trace) (ret j))"

lemma guarded_run_protected: "guarded_run rt i trace = in_agent_context (rt_context rt) (protected rt i trace)"
  by (simp add: guarded_run_def protected_def [abs_def])

lemma protected_ends:
  fixes w :: "('s, 'z) platform_world_scheme"
  assumes law: "lawful (rt_workflow rt)" and i: "i < length (pw_states w)"
  shows "case protected rt i trace c w of (Inr j, w') \<Rightarrow> finished j w' | (Inl e, w') \<Rightarrow> \<not> is_exception e"
proof -
  obtain out w1 where 1: "run_workflow rt i c trace w = (out, w1)" by (cases "run_workflow rt i c trace w")
  have end1: "case out of Inr j \<Rightarrow> finished j w1 | Inl e \<Rightarrow> i < length (pw_states w1)"
    using run_workflow_ends [OF law i, of c trace] 1 by (simp split: sum.splits)
  let ?caught = "catch (run_workflow rt i c trace) (\<lambda>e. if is_exception e then record_run_failure i trace e else raise e)"
  obtain out2 w2 where c2: "?caught w = (out2, w2)" by (cases "?caught w")
  have e2: "case out2 of Inr j \<Rightarrow> finished j w2 | Inl e \<Rightarrow> \<not> is_exception e"
  proof (cases out)
    case (Inl e)
    then obtain w3 where "record_run_failure i trace e w1 = (Inr i, w3)" "finished i w3"
      using end1 record_run_failure_run [of i w1 trace e] by auto
    then show ?thesis using c2 1 Inl by (auto simp: catch_def raise_def split: if_splits)
  next
    case (Inr j)
    then show ?thesis using c2 1 end1 by (auto simp: catch_def)
  qed
  note 2 = c2 e2
  obtain w3 where 3: "finish_run (rt_observability rt) trace w2 = (Inr (), w3)" "pw_states w3 = pw_states w2"
    using finish_run_step by blast
  have "protected rt i trace c w = (out2, w3)"
    using 2(1) 3(1) by (cases out2) (simp_all add: protected_def try_else_def thn_def bnd_def raise_def ret_def)
  then show ?thesis using 2(2) finished_view [OF 3(2)] by (cases out2) simp_all
qed

lemma guarded_run_ends:
  fixes w :: "('s, 'z) platform_world_scheme"
  assumes law: "lawful (rt_workflow rt)" and i: "i < length (pw_states w)"
  shows "case guarded_run rt i trace w of (Inr j, w') \<Rightarrow> finished j w' | (Inl e, w') \<Rightarrow> \<not> is_exception e"
proof -
  obtain a w1 where 1: "pw_states w1 = pw_states w"
      "guarded_run rt i trace w = (case protected rt i trace a w1 of (out, w2) \<Rightarrow> (out, w2\<lparr>pw_context := pw_context w\<rparr>))"
    using in_agent_context_run [of w "rt_context rt" "protected rt i trace"] by (auto simp: guarded_run_protected)
  have "case protected rt i trace a w1 of (Inr j, w') \<Rightarrow> finished j w' | (Inl e, w') \<Rightarrow> \<not> is_exception e"
    using protected_ends [OF law, of i w1] i 1(1) by simp
  then show ?thesis using 1(2) by (auto simp: finished_def split: prod.splits sum.splits)
qed

section \<open>Runs of a request\<close>

text \<open>The runtime refuses a request when it has a policy that is enabled and does not accept it.\<close>

definition refuses :: "('s, 'z) platform_world_scheme agent_runtime \<Rightarrow> json \<Rightarrow> bool" where
  "refuses rt req = (case rt_security rt of None \<Rightarrow> False
     | Some p \<Rightarrow> \<not> accepts_input (rt_rx rt) p req)"

definition begin_if :: "('s, 'z) platform_world_scheme agent_runtime \<Rightarrow> nat \<Rightarrow> (('s, 'z) platform_world_scheme, nat option) prog" where
  "begin_if rt i = (if rt_observability rt then bnd (begin_run rt i) (\<lambda>t. ret (Some t)) else ret None)"

lemma begin_if_flow:
  "workflow_type flow = workflow_type (rt_workflow rt) \<Longrightarrow> begin_if (rt\<lparr>rt_workflow := flow\<rparr>) i = begin_if rt i"
  by (simp add: begin_if_def begin_run_def)

lemma begin_if_step:
  fixes w :: "('s, 'z) platform_world_scheme"
  shows "\<exists>trace w'. begin_if rt i w = (Inr trace, w') \<and> pw_states w' = pw_states w \<and> w_redis w' = w_redis w \<and>
    (trace = None) = (\<not> rt_observability rt) \<and> gauge w' = gauge w + (if trace = None then 0 else 1)"
proof -
  obtain t w1 where 1: "begin_run rt i w = (Inr t, w1)" "pw_states w1 = pw_states w" "gauge w1 = gauge w + 1" "w_redis w1 = w_redis w"
    by (rule addsE [OF adds_begin])
  show ?thesis using 1 by (cases "rt_observability rt") (simp_all add: begin_if_def bnd_Inr ret_def)
qed

lemma guard_verdict:
  fixes w :: "('s, 'z) platform_world_scheme"
  shows "\<exists>r w'. guard_check_input rx p req w = (Inr r, w') \<and> sr_passed r = accepts_input rx p req \<and>
    pw_states w' = pw_states w \<and> gauge w' = gauge w \<and> w_redis w' = w_redis w"
  using verdict_guard_input [of rx p req w] by (auto simp: verdict_def clock_only_def gauge_def)

text \<open>Whichever way a run goes, it has begun and come to one of two programs.\<close>

definition begun ::
  "('s, 'z) platform_world_scheme agent_runtime \<Rightarrow> ('s, 'z) platform_world_scheme \<Rightarrow> nat option \<Rightarrow>
   ('s, 'z) platform_world_scheme \<Rightarrow> bool" where
  "begun rt w trace w1 \<longleftrightarrow> pw_states w1 = pw_states w \<and> w_redis w1 = w_redis w \<and>
     (trace = None) = (\<not> rt_observability rt) \<and> gauge w1 = gauge w + (if trace = None then 0 else 1)"

definition refused_alike ::
  "('s, 'z) platform_world_scheme agent_runtime \<Rightarrow> nat \<Rightarrow> ('s, 'z) platform_world_scheme \<Rightarrow> nat option \<Rightarrow>
   security_result \<Rightarrow> ('s, 'z) platform_world_scheme \<Rightarrow> bool" where
  "refused_alike rt i w trace r w1 \<longleftrightarrow> (\<forall>flow. workflow_type flow = workflow_type (rt_workflow rt) \<longrightarrow>
     run_state (rt\<lparr>rt_workflow := flow\<rparr>) i w = refuse_run trace r i w1)"

lemma begun_trans:
  "begun rt w trace w1 \<Longrightarrow> pw_states w2 = pw_states w1 \<Longrightarrow> gauge w2 = gauge w1 \<Longrightarrow> w_redis w2 = w_redis w1 \<Longrightarrow>
   begun rt w trace w2"
  by (simp add: begun_def)

lemma run_state_accepted:
  fixes w :: "('s, 'z) platform_world_scheme"
  assumes "\<not> refuses rt (as_request (pw_states w ! i))"
  shows "\<exists>trace w1. begun rt w trace w1 \<and> run_state rt i w = guarded_run rt i trace w1"
proof -
  obtain trace w1 where 1: "begin_if rt i w = (Inr trace, w1)" "begun rt w trace w1"
    using begin_if_step [of rt i w] unfolding begun_def by blast
  have st: "pw_states w1 = pw_states w" using 1(2) by (simp add: begun_def)
  show ?thesis
  proof (cases "rt_security rt")
    case None
    then have "run_state rt i w = guarded_run rt i trace w1"
      using 1(1) by (simp add: run_state_def begin_if_def [symmetric] bnd_Inr)
    then show ?thesis using 1(2) by blast
  next
    case (Some p)
    show ?thesis
    proof (cases "sy_security_enabled p")
      case False
      then have "run_state rt i w = guarded_run rt i trace w1"
        using 1(1) Some by (simp add: run_state_def begin_if_def [symmetric] bnd_Inr)
      then show ?thesis using 1(2) by blast
    next
      case True
      obtain r w2 where r: "guard_check_input (rt_rx rt) p (as_request (pw_states w ! i)) w1 = (Inr r, w2)"
          "sr_passed r = accepts_input (rt_rx rt) p (as_request (pw_states w ! i))"
          "pw_states w2 = pw_states w1" "gauge w2 = gauge w1" "w_redis w2 = w_redis w1"
        using guard_verdict by blast
      have "run_state rt i w = guarded_run rt i trace w2"
        using 1(1) st Some r(1,2) True assms by (simp add: run_state_def begin_if_def [symmetric] bnd_Inr state_at_run refuses_def)
      then show ?thesis using begun_trans [OF 1(2) r(3-5)] by blast
    qed
  qed
qed

lemma run_state_enabled:
  "rt_security rt = Some p \<Longrightarrow> sy_security_enabled p \<Longrightarrow>
   run_state rt i = bnd (begin_if rt i) (\<lambda>trace. bnd (state_at i) (\<lambda>s.
     bnd (guard_check_input (rt_rx rt) p (as_request s)) (\<lambda>r.
     if sr_passed r then guarded_run rt i trace else refuse_run trace r i)))"
  by (simp add: run_state_def begin_if_def)

lemma run_state_refused:
  fixes w :: "('s, 'z) platform_world_scheme"
  assumes "refuses rt (as_request (pw_states w ! i))"
  shows "\<exists>trace r w1. begun rt w trace w1 \<and> refused_alike rt i w trace r w1"
proof -
  obtain p where p: "rt_security rt = Some p" "\<not> accepts_input (rt_rx rt) p (as_request (pw_states w ! i))"
    using assms by (auto simp: refuses_def split: option.splits)
  have en: "sy_security_enabled p" using p(2) by (simp add: accepts_input_def split: if_splits)
  obtain trace w1 where 1: "begin_if rt i w = (Inr trace, w1)" "begun rt w trace w1"
    using begin_if_step [of rt i w] unfolding begun_def by blast
  have st: "pw_states w1 = pw_states w" using 1(2) by (simp add: begun_def)
  obtain r w2 where r: "guard_check_input (rt_rx rt) p (as_request (pw_states w ! i)) w1 = (Inr r, w2)"
      "sr_passed r = accepts_input (rt_rx rt) p (as_request (pw_states w ! i))"
      "pw_states w2 = pw_states w1" "gauge w2 = gauge w1" "w_redis w2 = w_redis w1"
    using guard_verdict by blast
  have "run_state (rt\<lparr>rt_workflow := flow\<rparr>) i w = refuse_run trace r i w2"
    if "workflow_type flow = workflow_type (rt_workflow rt)" for flow
  proof -
    have b: "begin_if (rt\<lparr>rt_workflow := flow\<rparr>) i w = (Inr trace, w1)"
      using 1(1) begin_if_flow [OF that, of i] by simp
    show ?thesis using run_state_enabled [of "rt\<lparr>rt_workflow := flow\<rparr>" p i] b p en r(1,2) st by (simp add: bnd_Inr state_at_run)
  qed
  then have "refused_alike rt i w trace r w2" by (simp add: refused_alike_def)
  then show ?thesis using begun_trans [OF 1(2) r(3-5)] by blast
qed


section \<open>What a run answers\<close>

lemma refuse_run_step:
  fixes w :: "('s, 'z) platform_world_scheme"
  assumes "i < length (pw_states w)"
  shows "\<exists>w'. refuse_run trace r i w = (Inr i, w') \<and> finished i w' \<and> as_status (pw_states w' ! i) = ''failed'' \<and>
    as_error (pw_states w' ! i) = Some (dict_of [(''type'', JStr ''SecurityBlockedError''),
      (''message'', JStr (''Security blocked: '' @ join '', '' (sr_violations r)))]) \<and>
    (\<forall>k. k \<noteq> i \<longrightarrow> pw_states w' ! k = pw_states w ! k) \<and> length (pw_states w') = length (pw_states w) \<and>
    gauge w' = gauge w \<and> w_redis w' = w_redis w"
proof -
  obtain w1 where 1: "record_security_block trace r i w = (Inr (), w1)" "view w1 = view w" "w_redis w1 = w_redis w"
    by (rule quiet_unitE [OF quiet_run(3)])
  let ?f = "\<lambda>s. (set_error ''SecurityBlockedError'' (''Security blocked: '' @ join '', '' (sr_violations r))
        (mark_failed s))\<lparr>as_metadata := dset ''security_result'' (result_as_dict r) (as_metadata s)\<rparr>"
  let ?w2 = "w1\<lparr>pw_states := (pw_states w1)[i := ?f (pw_states w1 ! i)]\<rparr>"
  have q: "quiet (case trace of None \<Rightarrow> ret () | Some t \<Rightarrow> finish_trace (Some t))" by (intro quiet_rules)
  obtain w3 where 3: "(case trace of None \<Rightarrow> ret () | Some t \<Rightarrow> finish_trace (Some t)) ?w2 = (Inr (), w3)"
      "view w3 = view ?w2" "w_redis w3 = w_redis ?w2" by (rule quiet_unitE [OF q])
  have run: "refuse_run trace r i w = (Inr i, w3)"
    using 1(1) 3(1) by (simp add: refuse_run_def update_state_run thn_def bnd_Inr ret_def)
  have s3: "pw_states w3 = (pw_states w)[i := ?f (pw_states w ! i)]"
    using view_states [OF 3(2)] view_states [OF 1(2)] by simp
  have g: "gauge w3 = gauge w \<and> w_redis w3 = w_redis w"
    using view_gauge [OF 3(2)] view_gauge [OF 1(2)] 3(3) 1(3) by simp
  show ?thesis
    using run s3 g assms by (simp add: finished_def mark_failed_def set_error_def)
qed

lemma runtime_run_alloc:
  fixes w :: "('s, 'z) platform_world_scheme"
  shows "\<exists>w1. runtime_run rt req md w = run_state rt (length (pw_states w)) w1 \<and>
    as_request (pw_states w1 ! length (pw_states w)) = req \<and> take (length (pw_states w)) (pw_states w1) = pw_states w \<and>
    length (pw_states w1) = Suc (length (pw_states w)) \<and> gauge w1 = gauge w \<and> w_redis w1 = w_redis w \<and>
    (\<forall>flow. runtime_run (rt\<lparr>rt_workflow := flow\<rparr>) req md w = run_state (rt\<lparr>rt_workflow := flow\<rparr>) (length (pw_states w)) w1)"
  by (rule exI [of _ "w\<lparr>pw_states := pw_states w @ [(new_state req)\<lparr>as_metadata :=
        fmempty ++\<^sub>f rt_default_metadata rt ++\<^sub>f (case md of None \<Rightarrow> fmempty | Some m \<Rightarrow> m)\<rparr>]\<rparr>"])
     (simp add: runtime_run_def alloc_state_def bnd_def gets_def thn_def modw_def ret_def new_state_def)

text \<open>
  C23. A run always answers a state that has succeeded or failed, whatever the workflow did to it, except
  that an exit of the process goes through.
\<close>

theorem run_answers_finished_state:
  fixes w :: "('s, 'z) platform_world_scheme"
  assumes "lawful (rt_workflow rt)"
  shows "case runtime_run rt req md w of (Inr j, w') \<Rightarrow> finished j w' | (Inl e, w') \<Rightarrow> \<not> is_exception e"
proof -
  let ?i = "length (pw_states w)"
  obtain w1 where 1: "runtime_run rt req md w = run_state rt ?i w1" "as_request (pw_states w1 ! ?i) = req"
      "length (pw_states w1) = Suc ?i" "runtime_run rt req md w = run_state rt ?i w1"
    using runtime_run_alloc [of rt req md w] by blast
  show ?thesis
  proof (cases "refuses rt req")
    case True
    then obtain trace r w2 where 2: "begun rt w1 trace w2" "refused_alike rt ?i w1 trace r w2"
      using run_state_refused [of rt w1 ?i] 1(2) by auto
    have "run_state rt ?i w1 = refuse_run trace r ?i w2"
      using 2(2) [unfolded refused_alike_def, rule_format, of "rt_workflow rt"] by simp
    then show ?thesis using refuse_run_step [of ?i w2 trace r] 1 2(1) by (auto simp: begun_def)
  next
    case False
    then obtain trace w2 where 2: "begun rt w1 trace w2" "run_state rt ?i w1 = guarded_run rt ?i trace w2"
      using run_state_accepted [of rt w1 ?i] 1(2) by auto
    then show ?thesis using guarded_run_ends [OF assms, of ?i w2 trace] 1 by (simp add: begun_def)
  qed
qed

definition plain_runtime :: "security_policy option \<Rightarrow> ('s, 'z) platform_world_scheme agent_runtime" where
  "plain_runtime p = \<lparr>rt_workflow = Steps ''list'' [CallStep (\<lambda>v. raise (ValueError ''bad plan''))], rt_context = None,
     rt_default_metadata = fmempty, rt_observability = True, rt_security = p, rt_rx = (\<lambda>pat s. Some False)\<rparr>"

lemma plain_lawful: "lawful (rt_workflow (plain_runtime p))"
  by (simp add: lawful_def plain_runtime_def raise_def bnd_def)

theorem run_answers_finished_state_witness:
  "\<forall>w :: nat platform_world. case runtime_run (plain_runtime None) (JStr ''hi'') None w of
     (Inr j, w') \<Rightarrow> finished j w' | (Inl e, w') \<Rightarrow> \<not> is_exception e"
  by (intro allI) (rule run_answers_finished_state [OF plain_lawful])

lemma refused_run:
  fixes w :: "('s, 'z) platform_world_scheme"
  assumes "refuses rt req"
  shows "\<exists>w' message. runtime_run rt req md w = (Inr (length (pw_states w)), w') \<and>
    as_status (pw_states w' ! length (pw_states w)) = ''failed'' \<and>
    as_error (pw_states w' ! length (pw_states w)) =
      Some (dict_of [(''type'', JStr ''SecurityBlockedError''), (''message'', JStr message)]) \<and>
    take (length (pw_states w)) (pw_states w') = pw_states w \<and> w_redis w' = w_redis w \<and>
    (\<forall>flow. workflow_type flow = workflow_type (rt_workflow rt) \<longrightarrow>
       runtime_run (rt\<lparr>rt_workflow := flow\<rparr>) req md w = runtime_run rt req md w)"
proof -
  let ?i = "length (pw_states w)"
  obtain w1 where 1: "runtime_run rt req md w = run_state rt ?i w1" "as_request (pw_states w1 ! ?i) = req"
      "take ?i (pw_states w1) = pw_states w" "length (pw_states w1) = Suc ?i" "w_redis w1 = w_redis w"
      "\<forall>flow. runtime_run (rt\<lparr>rt_workflow := flow\<rparr>) req md w = run_state (rt\<lparr>rt_workflow := flow\<rparr>) ?i w1"
    using runtime_run_alloc [of rt req md w] by blast
  obtain trace r w2 where 2: "begun rt w1 trace w2" "refused_alike rt ?i w1 trace r w2"
    using run_state_refused [of rt w1 ?i] 1(2) assms by auto
  have st: "pw_states w2 = pw_states w1" "w_redis w2 = w_redis w1" using 2(1) by (simp_all add: begun_def)
  have all: "\<forall>flow. workflow_type flow = workflow_type (rt_workflow rt) \<longrightarrow>
      runtime_run (rt\<lparr>rt_workflow := flow\<rparr>) req md w = refuse_run trace r ?i w2"
    using 2(2) 1(6) by (simp add: refused_alike_def)
  then have same: "runtime_run rt req md w = refuse_run trace r ?i w2"
    by (metis agent_runtime.surjective agent_runtime.update_convs(1))
  obtain w3 where 3: "refuse_run trace r ?i w2 = (Inr ?i, w3)" "as_status (pw_states w3 ! ?i) = ''failed''"
      "as_error (pw_states w3 ! ?i) = Some (dict_of [(''type'', JStr ''SecurityBlockedError''),
      (''message'', JStr (''Security blocked: '' @ join '', '' (sr_violations r)))])"
      "\<forall>k. k \<noteq> ?i \<longrightarrow> pw_states w3 ! k = pw_states w2 ! k" "length (pw_states w3) = length (pw_states w2)"
      "w_redis w3 = w_redis w2"
    using refuse_run_step [of ?i w2 trace r] st 1(4) by auto
  have "take ?i (pw_states w3) = pw_states w"
    using 3(4,5) st(1) 1(3,4) by (auto simp: list_eq_iff_nth_eq)
  then show ?thesis using same all 3 st 1(5) by auto
qed


text \<open>
  C24. A request the policy does not accept runs nothing: the run answers a new state, failed with the
  violations as its error, the same whatever workflow of that type is configured; the other states and
  the store are as before.
\<close>

theorem refused_request_runs_nothing:
  fixes w :: "('s, 'z) platform_world_scheme"
  assumes "refuses rt req"
  shows "\<exists>w' message. runtime_run rt req md w = (Inr (length (pw_states w)), w') \<and>
    as_status (pw_states w' ! length (pw_states w)) = ''failed'' \<and>
    as_error (pw_states w' ! length (pw_states w)) =
      Some (dict_of [(''type'', JStr ''SecurityBlockedError''), (''message'', JStr message)]) \<and>
    take (length (pw_states w)) (pw_states w') = pw_states w \<and> w_redis w' = w_redis w \<and>
    (\<forall>flow. workflow_type flow = workflow_type (rt_workflow rt) \<longrightarrow>
       runtime_run (rt\<lparr>rt_workflow := flow\<rparr>) req md w = runtime_run rt req md w)"
  by (rule refused_run [OF assms])

lemma empty_request_refused: "refuses (plain_runtime (Some default_policy)) (JStr [])"
  by (simp add: refuses_def plain_runtime_def accepts_input_def valid_text_def default_policy_def extract_text_def)

theorem refused_request_runs_nothing_witness:
  "\<forall>w :: nat platform_world. \<exists>j w'. runtime_run (plain_runtime (Some default_policy)) (JStr []) None w = (Inr j, w') \<and>
     as_status (pw_states w' ! j) = ''failed''"
proof
  fix w :: "nat platform_world"
  show "\<exists>j w'. runtime_run (plain_runtime (Some default_policy)) (JStr []) None w = (Inr j, w') \<and>
     as_status (pw_states w' ! j) = ''failed''"
    using refused_request_runs_nothing [OF empty_request_refused, of None w] by blast
qed

section \<open>The gauge of running agents\<close>

lemma run_workflow_gauge:
  fixes w :: "('s, 'z) platform_world_scheme"
  assumes g: "flow_keeps_gauge (rt_workflow rt)" and law: "lawful (rt_workflow rt)" and i: "i < length (pw_states w)"
  shows "gauge (snd (run_workflow rt i c trace w)) = gauge w"
proof -
  obtain w1 where 1: "update_state i mark_running w = (Inr (), w1)" "length (pw_states w1) = length (pw_states w)" "gauge w1 = gauge w"
    using mark_running_step by blast
  obtain start w2 where 2: "py_time w1 = (Inr start, w2)" "view w2 = view w1" by (rule quietE [OF quiet_clock(1)])
  have i2: "i < length (pw_states w2)" using i 1 view_states [OF 2(2)] by simp
  obtain out w3 where d: "dispatch (rt_workflow rt) i c w2 = (out, w3)" by (cases "dispatch (rt_workflow rt) i c w2")
  have l: "length (pw_states w2) \<le> length (pw_states w3)" "case out of Inr (RState j) \<Rightarrow> j < length (pw_states w3) | _ \<Rightarrow> True"
    using law [unfolded lawful_def, rule_format, OF i2, of c] d by auto
  have g3: "gauge w3 = gauge w"
    using g [unfolded flow_keeps_gauge_def, rule_format, of i c w2] d 1(3) view_gauge [OF 2(2)] by simp
  show ?thesis
  proof (cases out)
    case (Inl e)
    then show ?thesis using 1 2 d g3 by (simp add: run_workflow_conclude thn_def bnd_def)
  next
    case (Inr r)
    have "case r of RState k \<Rightarrow> k < length (pw_states w3) | RValue v \<Rightarrow> True"
      using l(2) Inr by (simp split: step_value.splits)
    then obtain j w4 where "conclude i trace start r w3 = (Inr j, w4)" "gauge w4 = gauge w3"
      using conclude_run [where i = i and w = w3 and r = r] i2 l(1) by fastforce
    then show ?thesis using 1 2 d Inr g3 by (simp add: run_workflow_conclude thn_def bnd_def)
  qed
qed

lemma guarded_run_gauge:
  fixes w :: "('s, 'z) platform_world_scheme"
  assumes g: "flow_keeps_gauge (rt_workflow rt)" and law: "lawful (rt_workflow rt)" and i: "i < length (pw_states w)"
  shows "gauge (snd (guarded_run rt i trace w)) = gauge w + (if trace = None then 0 else - 1)"
proof -
  obtain a w1 where 1: "pw_states w1 = pw_states w" "gauge w1 = gauge w"
      "guarded_run rt i trace w = (case protected rt i trace a w1 of (out, w2) \<Rightarrow> (out, w2\<lparr>pw_context := pw_context w\<rparr>))"
    using in_agent_context_run [of w "rt_context rt" "protected rt i trace"] by (auto simp: guarded_run_protected)
  obtain out w2 where 2: "run_workflow rt i a trace w1 = (out, w2)" by (cases "run_workflow rt i a trace w1")
  have g2: "gauge w2 = gauge w" using run_workflow_gauge [OF g law, of i w1 a trace] i 1 2 by simp
  have e2: "case out of Inr j \<Rightarrow> finished j w2 | Inl e \<Rightarrow> i < length (pw_states w2)"
    using run_workflow_ends [OF law, of i w1 a trace] i 1 2 by (simp split: sum.splits)
  let ?caught = "catch (run_workflow rt i a trace) (\<lambda>e. if is_exception e then record_run_failure i trace e else raise e)"
  obtain out3 w3 where 3: "?caught w1 = (out3, w3)" by (cases "?caught w1")
  have g3: "gauge w3 = gauge w"
  proof (cases out)
    case (Inl e)
    then obtain w4 where "record_run_failure i trace e w2 = (Inr i, w4)" "gauge w4 = gauge w2"
      using e2 record_run_failure_run [of i w2 trace e] by auto
    then show ?thesis using 3 2 Inl g2 by (auto simp: catch_def raise_def split: if_splits)
  next
    case (Inr j)
    then show ?thesis using 3 2 g2 by (auto simp: catch_def)
  qed
  obtain w5 where 5: "finish_run (rt_observability rt) trace w3 = (Inr (), w5)"
      "gauge w5 = gauge w3 + (if trace = None then 0 else - 1)"
    using finish_run_step by blast
  have "protected rt i trace a w1 = (out3, w5)"
    using 3 5(1) by (cases out3) (simp_all add: protected_def try_else_def thn_def bnd_def raise_def ret_def)
  then show ?thesis using 1(3) g3 5(2) by (simp add: gauge_def)
qed

text \<open>
  C25. With observability on, a run counts itself in the gauge of running agents and takes itself out
  again however its workflow ended; a run whose request is refused only counts itself in, so each
  refusal leaves the gauge one higher.
\<close>

theorem running_gauge_after_run:
  fixes w :: "('s, 'z) platform_world_scheme"
  assumes "lawful (rt_workflow rt)" and "flow_keeps_gauge (rt_workflow rt)" and "rt_observability rt"
  shows "gauge (snd (runtime_run rt req md w)) = gauge w + (if refuses rt req then 1 else 0)"
proof -
  let ?i = "length (pw_states w)"
  obtain w1 where 1: "runtime_run rt req md w = run_state rt ?i w1" "as_request (pw_states w1 ! ?i) = req"
      "length (pw_states w1) = Suc ?i" "gauge w1 = gauge w"
    using runtime_run_alloc [of rt req md w] by blast
  show ?thesis
  proof (cases "refuses rt req")
    case True
    then obtain trace r w2 where 2: "begun rt w1 trace w2" "refused_alike rt ?i w1 trace r w2"
      using run_state_refused [of rt w1 ?i] 1(2) by auto
    have "run_state rt ?i w1 = refuse_run trace r ?i w2"
      using 2(2) [unfolded refused_alike_def, rule_format, of "rt_workflow rt"] by simp
    then show ?thesis using refuse_run_step [of ?i w2 trace r] 1 2(1) True assms(3) by (auto simp: begun_def)
  next
    case False
    then obtain trace w2 where 2: "begun rt w1 trace w2" "run_state rt ?i w1 = guarded_run rt ?i trace w2"
      using run_state_accepted [of rt w1 ?i] 1(2) by auto
    then show ?thesis using guarded_run_gauge [OF assms(2,1), of ?i w2 trace] 1 False assms(3) by (auto simp: begun_def)
  qed
qed

lemma plain_keeps_gauge: "flow_keeps_gauge (rt_workflow (plain_runtime p))"
  by (simp add: flow_keeps_gauge_def plain_runtime_def raise_def bnd_def)

theorem running_gauge_after_run_witness:
  "\<forall>w :: nat platform_world.
     gauge (snd (runtime_run (plain_runtime (Some default_policy)) (JStr []) None w)) = gauge w + 1"
proof
  fix w :: "nat platform_world"
  have o: "rt_observability (plain_runtime p :: nat platform_world agent_runtime)" for p by (simp add: plain_runtime_def)
  show "gauge (snd (runtime_run (plain_runtime (Some default_policy)) (JStr []) None w)) = gauge w + 1"
    using running_gauge_after_run [OF plain_lawful plain_keeps_gauge o, of "Some default_policy" "JStr []" None w]
    by (simp add: empty_request_refused)
qed

end
