(* ===== verification/Workflow_Correct.thy ===== *)
theory Workflow_Correct
  imports Platform_Quiet
begin

text \<open>
  The workflow engine: without a trace it is a plain loop over its nodes in the router's order, and with
  one every start of a node is followed by its end, also when the node raises. The histogram's buckets.
\<close>

section \<open>Order\<close>

lemma node_index_in: "node_index nodes k = Some n \<Longrightarrow> n \<in> set nodes \<and> nd_name n = k"
  unfolding node_index_def by (metis (mono_tags, lifting) find_Some_iff nth_mem set_rev)

lemma router_order_in:
  "names \<noteq> [] \<Longrightarrow> n \<in> set (router_order names nodes) \<Longrightarrow> n \<in> set nodes \<and> nd_name n \<in> set names"
  by (auto simp: router_order_def List.map_filter_def dest: node_index_in)

section \<open>The engine without a trace\<close>

definition untraced :: "('s, 'z) platform_world_scheme \<Rightarrow> bool" where
  "untraced w = (cl_active (pw_collector w) = None)"

definition starts_no_trace :: "('s, 'z) platform_world_scheme node \<Rightarrow> bool" where
  "starts_no_trace n = (\<forall>v c w. untraced w \<longrightarrow> untraced (snd (nd_execute n v c w)))"

text \<open>One node of the plain loop: a node that answers no state leaves the current one.\<close>

definition node_step ::
  "agent_context \<Rightarrow> ('s, 'z) platform_world_scheme node \<Rightarrow> nat \<Rightarrow> (('s, 'z) platform_world_scheme, nat) prog" where
  "node_step c n cur = bnd (nd_execute n (RState cur) c) (\<lambda>r. ret (case r of RState j \<Rightarrow> j | RValue v \<Rightarrow> cur))"

lemma run_node_untraced: "run_node n c cur None w = node_step c n cur w"
  by (simp add: run_node_def node_step_def close_node_span_def try_else_def bnd_def thn_def whenp_def ret_def raise_def
      split: prod.splits sum.splits)

lemma open_node_untraced: "untraced w \<Longrightarrow> open_node_span name w = (Inr None, w)"
  by (simp add: open_node_span_def untraced_def active_trace_id_def bnd_def gets_def ret_def)

lemma node_step_untraced: "starts_no_trace n \<Longrightarrow> untraced w \<Longrightarrow> untraced (snd (node_step c n cur w))"
  by (auto simp: starts_no_trace_def node_step_def bnd_def ret_def split: prod.splits sum.splits) (metis snd_conv)+

lemma run_nodes_untraced:
  fixes w :: "('s, 'z) platform_world_scheme"
  assumes "\<And>n. n \<in> set ns \<Longrightarrow> starts_no_trace n" and "untraced w"
  shows "run_nodes ns c cur None w = (case fold_prog (node_step c) ns cur w of
      (Inl e, w') \<Rightarrow> (Inl e, w') | (Inr j, w') \<Rightarrow> (Inr (j, None), w')) \<and>
    untraced (snd (fold_prog (node_step c) ns cur w))"
  using assms
proof (induction ns arbitrary: cur w)
  case (Cons n ns)
  have n: "starts_no_trace n" using Cons.prems(1) by simp
  obtain out w1 where s: "node_step c n cur w = (out, w1)" by (cases "node_step c n cur w")
  have u: "untraced w1" using node_step_untraced [OF n Cons.prems(2), of c cur] s by simp
  have first: "run_nodes (n # ns) c cur None w = bnd (run_node n c cur None) (\<lambda>cur'. run_nodes ns c cur' None) w"
    using open_node_untraced [OF Cons.prems(2)] by (simp add: bnd_def [of "open_node_span (nd_name n)"])
  show ?case
  proof (cases out)
    case (Inl e)
    then show ?thesis using s u first by (simp add: bnd_def run_node_untraced)
  next
    case (Inr j)
    then show ?thesis using s u first Cons.IH [of w1 j] Cons.prems(1) by (simp add: bnd_def run_node_untraced)
  qed
qed (simp add: ret_def)

text \<open>
  C26. With no trace active, running a workflow engine is running its nodes one after the other, in the
  order of the router, each on the state the last one answered, up to the first that raises.
\<close>

theorem engine_is_node_loop:
  fixes w :: "('s, 'z) platform_world_scheme"
  assumes "untraced w" and "\<And>n. n \<in> set (ordered_nodes en) \<Longrightarrow> starts_no_trace n"
  shows "engine_run en i c w = fold_prog (node_step c) (ordered_nodes en) i w"
proof -
  let ?loop = "fold_prog (node_step c) (ordered_nodes en) i w"
  have none: "gets active_trace_id w' = (Inr None, w')" if "untraced w'" for w' :: "('s, 'z) platform_world_scheme"
    using that by (simp add: gets_def active_trace_id_def untraced_def)
  obtain out w1 where l: "?loop = (out, w1)" by (cases ?loop)
  have r: "run_nodes (ordered_nodes en) c i None w = (case ?loop of
      (Inl e, w') \<Rightarrow> (Inl e, w') | (Inr j, w') \<Rightarrow> (Inr (j, None), w'))" "untraced (snd ?loop)"
    using run_nodes_untraced [OF assms(2,1), where c = c and cur = i] by simp_all
  have u: "untraced w1" using r(2) l by simp
  show ?thesis
    using r(1) l none [OF assms(1)] none [OF u]
    by (cases out) (simp_all add: engine_run_def Let_def bnd_def thn_def ret_def)
qed

definition answering_node :: "string \<Rightarrow> json \<Rightarrow> ('s, 'z) platform_world_scheme node" where
  "answering_node name v = \<lparr>nd_name = name, nd_execute = (\<lambda>r c. case r of
     RState i \<Rightarrow> thn (update_state i (set_answer v)) (ret (RState i)) | RValue x \<Rightarrow> ret (RValue x))\<rparr>"

definition two_node_engine :: "('s, 'z) platform_world_scheme workflow_engine" where
  "two_node_engine = \<lparr>we_router = Some [''b'', ''none'', ''a''],
     we_nodes = [answering_node ''a'' (JInt 1), answering_node ''b'' (JInt 2)]\<rparr>"

lemma answering_untraced: "starts_no_trace (answering_node name v)"
  by (auto simp: starts_no_trace_def answering_node_def untraced_def update_state_def modw_def thn_def bnd_def ret_def
      split: step_value.splits)

lemma two_nodes_ordered: "ordered_nodes two_node_engine = [answering_node ''b'' (JInt 2), answering_node ''a'' (JInt 1)]"
  by (simp add: ordered_nodes_def two_node_engine_def router_order_def node_index_def answering_node_def List.map_filter_def)

theorem engine_is_node_loop_witness:
  "\<forall>w :: nat platform_world. fst (engine_run two_node_engine 0
     \<lparr>ax_request_id = [], ax_trace_id = [], ax_run_id = [], ax_caller = [], ax_metadata = fmempty\<rparr>
     (w\<lparr>pw_collector := empty_collector\<rparr>)) = Inr 0"
proof
  fix w :: "nat platform_world"
  let ?c = "\<lparr>ax_request_id = [], ax_trace_id = [], ax_run_id = [], ax_caller = [], ax_metadata = fmempty\<rparr>"
  let ?w = "w\<lparr>pw_collector := empty_collector\<rparr>"
  have u: "untraced ?w" by (simp add: untraced_def empty_collector_def)
  have n: "starts_no_trace n" if "n \<in> set (ordered_nodes two_node_engine)" for n :: "nat platform_world node"
    using that answering_untraced by (auto simp: two_nodes_ordered)
  show "fst (engine_run two_node_engine 0 ?c ?w) = Inr 0"
    using engine_is_node_loop [where en = two_node_engine and i = 0 and c = ?c, OF u n]
    by (simp add: two_nodes_ordered node_step_def answering_node_def update_state_def modw_def thn_def bnd_def ret_def)
qed

section \<open>The engine with a trace\<close>

text \<open>How many more starts of nodes than ends of nodes were recorded.\<close>

definition type_count :: "string \<Rightarrow> event_object list \<Rightarrow> int" where
  "type_count ty es = int (length (filter (\<lambda>e. object_type e = ty) es))"

definition open_nodes :: "('s, 'z) platform_world_scheme \<Rightarrow> int" where
  "open_nodes w = (let es = cl_events (pw_collector w) in type_count ''node.start'' es - type_count ''node.end'' es)"

definition traced :: "('s, 'z) platform_world_scheme \<Rightarrow> bool" where
  "traced w \<longleftrightarrow> cl_active (pw_collector w) \<noteq> None"

text \<open>A program that answers, keeps a trace active and changes the number by \<open>d\<close>.\<close>

definition opens :: "int \<Rightarrow> (('s, 'z) platform_world_scheme, 'a) prog \<Rightarrow> bool" where
  "opens d m \<longleftrightarrow> (\<forall>w. traced w \<longrightarrow> (\<exists>x w'. m w = (Inr x, w') \<and> traced w' \<and> open_nodes w' = open_nodes w + d))"

lemma opensE:
  assumes "opens d m" and "traced w"
  obtains x w' where "m w = (Inr x, w')" "traced w'" "open_nodes w' = open_nodes w + d"
  using assms unfolding opens_def by blast

lemma opens_bnd:
  assumes "opens a m" and "\<And>x. opens b (f x)"
  shows "opens (a + b) (bnd m f)"
  unfolding opens_def
proof (intro allI impI)
  fix w :: "('a, 'b) platform_world_scheme"
  assume t: "traced w"
  obtain x w1 where 1: "m w = (Inr x, w1)" "traced w1" "open_nodes w1 = open_nodes w + a" by (rule opensE [OF assms(1) t])
  obtain y w2 where 2: "f x w1 = (Inr y, w2)" "traced w2" "open_nodes w2 = open_nodes w1 + b"
    by (rule opensE [OF assms(2) 1(2)])
  show "\<exists>y w'. bnd m f w = (Inr y, w') \<and> traced w' \<and> open_nodes w' = open_nodes w + (a + b)"
    using 1 2 by (simp add: bnd_def)
qed

lemma opens_bnd0: "opens 0 m \<Longrightarrow> (\<And>x. opens d (f x)) \<Longrightarrow> opens d (bnd m f)"
  using opens_bnd [of 0 m d f] by simp

lemma opens_thn0: "opens 0 m \<Longrightarrow> opens d k \<Longrightarrow> opens d (thn m k)"
  by (simp add: thn_def opens_bnd0)

lemma opens_last: "opens d m \<Longrightarrow> opens 0 k \<Longrightarrow> opens d (thn m k)"
  using opens_bnd [of d m 0 "\<lambda>_. k"] by (simp add: thn_def)

lemma opens_basic: "opens 0 (ret x)" "opens 0 (gets f)" "opens 0 py_time" "opens 0 py_uuid"
  by (auto simp: opens_def ret_def gets_def py_time_def py_uuid_def Let_def traced_def open_nodes_def)

lemma opens_with_collector:
  "(\<And>c. cl_events (f c) = cl_events c) \<Longrightarrow> (\<And>c. cl_active c \<noteq> None \<Longrightarrow> cl_active (f c) \<noteq> None) \<Longrightarrow> opens 0 (with_collector f)"
  by (simp add: opens_def with_collector_def modw_def traced_def open_nodes_def)

lemma opens_new: "opens 0 (new_span n a)" "opens 0 (new_trace md)" "opens 0 (span_finish st as s)"
  by (simp_all add: new_span_def new_trace_def span_finish_def opens_bnd0 opens_basic)

lemma opens_collector:
  "opens 0 (count n)" "opens 0 (trace_at i)" "opens 0 (put_trace i x)" "opens 0 (span_at p)" "opens 0 (start_trace md)"
  by (simp_all add: count_def with_metrics_def trace_at_def put_trace_def span_at_def start_trace_def opens_with_collector
      opens_basic opens_bnd0 opens_thn0 opens_new)

lemma opens_spans: "opens 0 (create_span n a)" "opens 0 (finish_span st p)"
  by (simp_all add: create_span_def finish_span_def opens_bnd0 opens_thn0 opens_basic opens_new opens_collector
      split: option.split)

definition type_weight :: "string \<Rightarrow> int" where
  "type_weight ty = (if ty = ''node.start'' then 1 else if ty = ''node.end'' then - 1 else 0)"

lemma object_type_with_id [simp]: "object_type (with_trace_id i e) = object_type e"
  by (cases e) simp_all

lemma opens_record: "opens (type_weight (object_type e)) (record_event e)"
proof -
  have "open_nodes (w\<lparr>pw_collector := pw_collector w\<lparr>cl_events := cl_events (pw_collector w) @ [e']\<rparr>\<rparr>) =
      open_nodes w + type_weight (object_type e')" for w :: "('a, 'b) platform_world_scheme" and e'
    by (simp add: open_nodes_def type_count_def type_weight_def Let_def)
  then show ?thesis
    by (auto simp: opens_def record_event_def with_collector_def modw_def traced_def split: option.split)
qed

lemma opens_emit:
  assumes "\<And>w. \<exists>e w'. m w = (Inr e, w') \<and> ev_type e = ty \<and> (traced w \<longrightarrow> traced w' \<and> open_nodes w' = open_nodes w)"
  shows "opens (type_weight ty) (emit m)"
  unfolding opens_def
proof (intro allI impI)
  fix w :: "('a, 'b) platform_world_scheme"
  assume t: "traced w"
  obtain e w1 where 1: "m w = (Inr e, w1)" "ev_type e = ty" "traced w1" "open_nodes w1 = open_nodes w"
    using assms [of w] t by blast
  obtain x w2 where "record_event (BaseEvent e) w1 = (Inr x, w2)" "traced w2" "open_nodes w2 = open_nodes w1 + type_weight ty"
    using opensE [OF opens_record [of "BaseEvent e"] 1(3)] 1(2) by auto
  then show "\<exists>x w'. emit m w = (Inr x, w') \<and> traced w' \<and> open_nodes w' = open_nodes w + type_weight ty"
    using 1 by (simp add: emit_def bnd_def)
qed

lemma opens_new_event: "opens (type_weight ty) (emit (new_event ty t sp pl))"
  by (rule opens_emit) (auto simp: new_event_def bnd_def ret_def py_time_def Let_def traced_def open_nodes_def)

lemma opens_node_events:
  "opens 1 (emit (node_start t sp n md))" "opens (- 1) (emit (node_end t sp n d st))"
  "opens 0 (emit (workflow_start t k ns))" "opens 0 (emit (workflow_end t k dr))"
  using opens_new_event [of "''node.start''"] opens_new_event [of "''node.end''"] opens_new_event [of "''workflow.start''"]
    opens_new_event [of "''workflow.end''"]
  by (simp_all add: node_start_def node_end_def workflow_start_def workflow_end_def type_weight_def)

lemma open_node_span_traced:
  fixes w :: "('s, 'z) platform_world_scheme"
  assumes "traced w"
  shows "\<exists>sp w'. open_node_span name w = (Inr (Some sp), w') \<and> traced w' \<and> open_nodes w' = open_nodes w + 1"
proof -
  obtain t where t: "active_trace_id w = Some t" using assms by (auto simp: active_trace_id_def traced_def)
  have rest: "opens 1 (bnd (create_span (''node.'' @ name) (dict_of [(''node'', JStr name)])) (\<lambda>p.
      bnd (span_at p) (\<lambda>s. thn (emit (node_start t (sp_id s) name None)) (thn (count (''node.'' @ name @ ''.count''))
        (ret (t, p))))))"
    by (intro opens_bnd0 opens_spans opens_collector opens_last opens_node_events opens_thn0 opens_basic)
  obtain x w' where x: "bnd (create_span (''node.'' @ name) (dict_of [(''node'', JStr name)])) (\<lambda>p.
      bnd (span_at p) (\<lambda>s. thn (emit (node_start t (sp_id s) name None)) (thn (count (''node.'' @ name @ ''.count''))
        (ret (t, p))))) w = (Inr x, w')" "traced w'" "open_nodes w' = open_nodes w + 1"
    by (rule opensE [OF rest assms])
  have "open_node_span name w = (Inr (Some x), w')"
    using x(1) t by (auto simp: open_node_span_def bnd_def gets_def thn_def ret_def split: prod.splits sum.splits)
  then show ?thesis using x(2,3) by blast
qed

lemma close_node_span_traced:
  fixes w :: "('s, 'z) platform_world_scheme"
  assumes "traced w"
  shows "\<exists>w'. close_node_span (Some sp) name st w = (Inr (), w') \<and> traced w' \<and> open_nodes w' = open_nodes w - 1"
proof -
  obtain t p where sp: "sp = (t, p)" by (cases sp)
  obtain u w1 where 1: "finish_span (Some st) p w = (Inr u, w1)" "traced w1" "open_nodes w1 = open_nodes w + 0"
    by (rule opensE [OF opens_spans(2) assms])
  have e: "opens (- 1) (bnd (span_at p) (\<lambda>s. emit (node_end t (sp_id s) name (sp_duration s) (span_status_text st))))"
    by (intro opens_bnd0 opens_collector opens_node_events)
  obtain v w2 where 2: "bnd (span_at p) (\<lambda>s. emit (node_end t (sp_id s) name (sp_duration s) (span_status_text st))) w1 = (Inr v, w2)"
      "traced w2" "open_nodes w2 = open_nodes w1 + - 1"
    by (rule opensE [OF e 1(2)])
  have "active_trace_id w1 \<noteq> None" using 1(2) by (simp add: traced_def active_trace_id_def)
  then have "close_node_span (Some sp) name st w = (Inr (), w2)"
    using sp 1(1) 2(1) by (simp add: close_node_span_def thn_def bnd_Inr gets_def whenp_def)
  then show ?thesis using 1 2 by simp
qed

text \<open>A node that keeps the trace active, leaves no node open and raises exceptions only.\<close>

definition node_ok :: "('s, 'z) platform_world_scheme node \<Rightarrow> bool" where
  "node_ok n \<longleftrightarrow> (\<forall>v c w. traced w \<longrightarrow> (case nd_execute n v c w of (out, w') \<Rightarrow>
     traced w' \<and> open_nodes w' = open_nodes w \<and> (case out of Inl e \<Rightarrow> is_exception e | Inr r \<Rightarrow> True)))"

lemma run_node_traced:
  fixes w :: "('s, 'z) platform_world_scheme"
  assumes "node_ok n" and "traced w"
  shows "traced (snd (run_node n c cur (Some sp) w)) \<and> open_nodes (snd (run_node n c cur (Some sp) w)) = open_nodes w - 1"
proof -
  obtain out w1 where 1: "nd_execute n (RState cur) c w = (out, w1)" by (cases "nd_execute n (RState cur) c w")
  have ok: "traced w1" "open_nodes w1 = open_nodes w" "case out of Inl e \<Rightarrow> is_exception e | Inr r \<Rightarrow> True"
    using assms(1) [unfolded node_ok_def, rule_format, OF assms(2), of "RState cur" c] 1 by auto
  obtain w2 where 2: "close_node_span (Some sp) (nd_name n) SpanOk w1 = (Inr (), w2)" "traced w2" "open_nodes w2 = open_nodes w1 - 1"
    using close_node_span_traced [OF ok(1)] by blast
  obtain w3 where 3: "close_node_span (Some sp) (nd_name n) SpanError w1 = (Inr (), w3)" "traced w3" "open_nodes w3 = open_nodes w1 - 1"
    using close_node_span_traced [OF ok(1)] by blast
  show ?thesis
    using 1 2 3 ok by (cases out) (simp_all add: run_node_def try_else_def thn_def bnd_Inr whenp_def raise_def ret_def)
qed

lemma run_nodes_traced:
  fixes w :: "('s, 'z) platform_world_scheme"
  assumes "\<And>n. n \<in> set ns \<Longrightarrow> node_ok n" and "traced w"
  shows "traced (snd (run_nodes ns c cur t w)) \<and> open_nodes (snd (run_nodes ns c cur t w)) = open_nodes w"
  using assms
proof (induction ns arbitrary: cur t w)
  case (Cons n ns)
  obtain sp w1 where 1: "open_node_span (nd_name n) w = (Inr (Some sp), w1)" "traced w1" "open_nodes w1 = open_nodes w + 1"
    using open_node_span_traced [OF Cons.prems(2)] by blast
  obtain out w2 where 2: "run_node n c cur (Some sp) w1 = (out, w2)" by (cases "run_node n c cur (Some sp) w1")
  have ok: "traced w2" "open_nodes w2 = open_nodes w"
    using run_node_traced [of n w1 c cur sp] Cons.prems(1) 1 2 by auto
  show ?case
  proof (cases out)
    case (Inl e)
    then show ?thesis using 1(1) 2 ok by (simp add: bnd_def)
  next
    case (Inr cur')
    then show ?thesis using 1(1) 2 ok Cons.IH [OF _ ok(1)] Cons.prems(1) by (simp add: bnd_def)
  qed
qed (simp add: ret_def)

text \<open>
  C27. With a trace active, a run of the engine records as many ends of nodes as starts, also when a node
  raises and the run stops there.
\<close>

theorem every_started_node_ends:
  fixes w :: "('s, 'z) platform_world_scheme"
  assumes "traced w" and "\<And>n. n \<in> set (ordered_nodes en) \<Longrightarrow> node_ok n"
  shows "open_nodes (snd (engine_run en i c w)) = open_nodes w"
proof -
  let ?ns = "ordered_nodes en"
  obtain t where t: "active_trace_id w = Some t" using assms(1) by (auto simp: active_trace_id_def traced_def)
  obtain u w1 where 1: "emit (workflow_start t (int (length ?ns)) (Some (map nd_name ?ns))) w = (Inr u, w1)"
      "traced w1" "open_nodes w1 = open_nodes w + 0" by (rule opensE [OF opens_node_events(3) assms(1)])
  obtain out w2 where 2: "run_nodes ?ns c i (Some t) w1 = (out, w2)" by (cases "run_nodes ?ns c i (Some t) w1")
  have ok: "traced w2" "open_nodes w2 = open_nodes w"
    using run_nodes_traced [OF assms(2) 1(2), of ?ns c i "Some t"] 2 1(3) by simp_all
  have start: "engine_run en i c w = bnd (run_nodes ?ns c i (Some t)) (\<lambda>(cur, trace).
       bnd (gets active_trace_id) (\<lambda>t1.
       thn (case trace of Some s \<Rightarrow> whenp (Some t \<noteq> None \<and> t1 \<noteq> None) (emit (workflow_end s (int (length ?ns)) None)) | None \<Rightarrow> ret ())
       (ret cur))) w1"
    using t 1(1) by (simp add: engine_run_def Let_def bnd_Inr gets_def thn_def)
  show ?thesis
  proof (cases out)
    case (Inl e)
    then show ?thesis using start 2 ok by (simp add: bnd_def)
  next
    case (Inr p)
    obtain cur tr where p: "p = (cur, tr)" by (cases p)
    have e: "opens 0 (case tr of Some s \<Rightarrow> whenp (Some t \<noteq> None \<and> t1 \<noteq> None) (emit (workflow_end s (int (length ?ns)) None)) | None \<Rightarrow> ret ())" for t1 :: "string option"
      by (simp add: whenp_def opens_node_events opens_basic split: option.split)
    obtain v w3 where "(case tr of Some s \<Rightarrow> whenp (Some t \<noteq> None \<and> active_trace_id w2 \<noteq> None) (emit (workflow_end s (int (length ?ns)) None)) | None \<Rightarrow> ret ()) w2 = (Inr v, w3)"
        "open_nodes w3 = open_nodes w2 + 0" using opensE [OF e ok(1)] by blast
    then show ?thesis using start 2 Inr p ok by (simp add: bnd_Inr gets_def thn_def ret_def)
  qed
qed

definition failing_node :: "string \<Rightarrow> ('s, 'z) platform_world_scheme node" where
  "failing_node name = \<lparr>nd_name = name, nd_execute = (\<lambda>r c. raise (ValueError ''no plan''))\<rparr>"

definition traced_world :: "('s, 'z) platform_world_scheme \<Rightarrow> ('s, 'z) platform_world_scheme" where
  "traced_world w = w\<lparr>pw_collector := empty_collector\<lparr>cl_traces := [\<lparr>tx_id = ''t'', tx_run_id = ''r'', tx_start = 0, tx_end = None,
     tx_duration = None, tx_spans = [], tx_metadata = fmempty\<rparr>], cl_active := Some 0\<rparr>\<rparr>"

theorem every_started_node_ends_witness:
  "\<forall>w :: nat platform_world. open_nodes (snd (engine_run \<lparr>we_router = None,
       we_nodes = [answering_node ''a'' JNull, failing_node ''b'', answering_node ''c'' JNull]\<rparr> 0
     \<lparr>ax_request_id = [], ax_trace_id = [], ax_run_id = [], ax_caller = [], ax_metadata = fmempty\<rparr> (traced_world w))) = 0"
proof
  fix w :: "nat platform_world"
  let ?c = "\<lparr>ax_request_id = [], ax_trace_id = [], ax_run_id = [], ax_caller = [], ax_metadata = fmempty\<rparr>"
  let ?en = "\<lparr>we_router = None, we_nodes = [answering_node ''a'' JNull, failing_node ''b'', answering_node ''c'' JNull]\<rparr>
    :: nat platform_world workflow_engine"
  have t: "traced (traced_world w)" by (simp add: traced_def traced_world_def)
  have a: "node_ok (answering_node name v)" for name v
    by (auto simp: node_ok_def answering_node_def traced_def open_nodes_def update_state_def modw_def thn_def bnd_def ret_def
        split: step_value.splits)
  have f: "node_ok (failing_node name)" for name by (simp add: node_ok_def failing_node_def raise_def)
  have n: "node_ok n" if "n \<in> set (ordered_nodes ?en)" for n :: "nat platform_world node"
    using that a f by (auto simp: ordered_nodes_def)
  have z: "open_nodes (traced_world w) = 0"
    by (simp add: open_nodes_def traced_world_def empty_collector_def type_count_def)
  show "open_nodes (snd (engine_run ?en 0 ?c (traced_world w))) = 0"
    using every_started_node_ends [where en = ?en and i = 0 and c = ?c, OF t n] z by simp
qed

end
