(* ===== verification/Workflow_Nodes.thy ===== *)
theory Workflow_Nodes
  imports Agent_Runtime Config
begin

text \<open>
  \<open>ai_platform/workflow/nodes\<close>: the planner, the tool node and the judge. The planners, the validator and
  the judge are given to the nodes, so they are parameters. A node works on the state it is given; on
  anything else it fails as an access to a missing attribute does.
\<close>

definition request_text :: "json \<Rightarrow> string" where
  "request_text req = (case req of JStr s \<Rightarrow> s | JObj d \<Rightarrow> py_str (dget_or d ''input'' (JStr [])) | v \<Rightarrow> py_str v)"

definition on_state ::
  "(nat \<Rightarrow> agent_context \<Rightarrow> ('w, unit) prog) \<Rightarrow> step_value \<Rightarrow> agent_context \<Rightarrow> ('w, step_value) prog" where
  "on_state f v c = (case v of RState i \<Rightarrow> thn (f i c) (ret (RState i)) | RValue x \<Rightarrow> raise (AttributeError ''request''))"

definition set_metadata :: "nat \<Rightarrow> (string \<times> json) list \<Rightarrow> (('s, 'z) platform_world_scheme, unit) prog" where
  "set_metadata i kvs = update_state i (\<lambda>s. s\<lparr>as_metadata := as_metadata s ++\<^sub>f dict_of kvs\<rparr>)"

section \<open>Planner\<close>

record 'w planner_node =
  pn_planner :: "string \<Rightarrow> ('w, dict \<times> dict) prog"
  pn_rule_planner :: "string \<Rightarrow> ('w, dict) prog"
  pn_validator :: "dict \<Rightarrow> ('w, dict) prog"
  pn_agent_mode :: "string option"
  pn_model :: string

definition no_llm_meta :: dict where
  "no_llm_meta = dict_of [(''llm_prompt_tokens'', JNull), (''llm_completion_tokens'', JNull), (''llm_total_tokens'', JNull)]"

definition planner_valid :: "dict \<Rightarrow> bool" where
  "planner_valid plan = truthy (dget_or plan ''_planner_valid'' (JBool True))"

definition invalid_plan :: dict where
  "invalid_plan = dict_of [(''tool'', JStr ''ask_user''), (''args'', JObj (dict_of [(''reason'', JStr ''planner output invalid'')])),
     (''_planner_valid'', JBool False)]"

text \<open>The mode: the node's own, else the state's, else the environment's.\<close>

definition selected_mode :: "env \<Rightarrow> string option \<Rightarrow> dict \<Rightarrow> string" where
  "selected_mode env own md =
     (let of_state = dget_or md ''agent_mode'' JNull in
      if own \<noteq> None \<and> own \<noteq> Some [] then the own
      else if truthy of_state then py_str of_state else getenv env ''AGENT_MODE'' ''rule'')"

definition planner_call_metadata :: "agent_context \<Rightarrow> dict \<Rightarrow> dict" where
  "planner_call_metadata c llm_meta =
     dict_of [(''caller'', JStr (or_default (ax_caller c) ''planner_node''))] ++\<^sub>f llm_meta"

text \<open>The plan, the meta data of the model's call and whether a fallback was used.\<close>

definition make_plan ::
  "('s, 'z) platform_world_scheme planner_node \<Rightarrow> env \<Rightarrow> nat \<Rightarrow> agent_context \<Rightarrow> bool \<Rightarrow> string \<Rightarrow>
   (('s, 'z) platform_world_scheme, dict \<times> dict \<times> bool) prog" where
  "make_plan n env i c use_llm text =
     (if use_llm then
        catch
          (bnd (pn_planner n text) (\<lambda>(plan, llm_meta).
           thn (update_state i (add_llm_call (getenv env ''LLM_GATEWAY_PROVIDER'' ''ollama_generate'') (pn_model n) (Some text)
                  None None None (Some (planner_call_metadata c llm_meta))))
           (ret (plan, llm_meta, False))))
          (\<lambda>e. if is_exception e then bnd (pn_rule_planner n text) (\<lambda>plan. ret (plan, no_llm_meta, True)) else raise e)
      else bnd (pn_rule_planner n text) (\<lambda>plan. ret (plan, no_llm_meta, False)))"

definition checked_plan ::
  "'w planner_node \<Rightarrow> bool \<Rightarrow> dict \<times> dict \<times> bool \<Rightarrow> ('w, dict \<times> dict \<times> bool) prog" where
  "checked_plan n use_llm made =
     (case made of (plan, llm_meta, fallback) \<Rightarrow>
      if use_llm then
        bnd (pn_validator n plan) (\<lambda>plan'.
        ret (if \<not> planner_valid plan \<or> \<not> planner_valid plan' then (invalid_plan, llm_meta, True)
             else (plan', llm_meta, fallback)))
      else ret (plan, llm_meta, fallback))"

definition planner_execute ::
  "('s, 'z) platform_world_scheme planner_node \<Rightarrow> env \<Rightarrow> nat \<Rightarrow> agent_context \<Rightarrow>
   (('s, 'z) platform_world_scheme, unit) prog" where
  "planner_execute n env i c =
     bnd (state_at i) (\<lambda>s.
     let text = request_text (as_request s); mode = selected_mode env (pn_agent_mode n) (as_metadata s);
         use_llm = (mode = ''ollama'' \<or> mode = ''llm'') in
     bnd (make_plan n env i c use_llm text) (\<lambda>made.
     bnd (checked_plan n use_llm made) (\<lambda>(plan, llm_meta, fallback).
     thn (update_state i (set_plan (JObj plan)))
     (set_metadata i [(''agent_mode'', JStr mode), (''planner_valid'', JBool (planner_valid plan)),
        (''planner_fallback'', JBool fallback), (''llm_meta'', JObj llm_meta)]))))"

definition planner_as_node :: "('s, 'z) platform_world_scheme planner_node \<Rightarrow> env \<Rightarrow> ('s, 'z) platform_world_scheme node" where
  "planner_as_node n env = \<lparr>nd_name = ''planner'', nd_execute = on_state (planner_execute n env)\<rparr>"

section \<open>Tools\<close>

text \<open>The steps of a plan: the items of \<open>steps\<close> for a workflow, else the plan itself.\<close>

definition items_of :: "json \<Rightarrow> ('w, json list) prog" where
  "items_of v = (case v of JArr xs \<Rightarrow> ret xs | JStr s \<Rightarrow> ret (map (\<lambda>ch. JStr [ch]) s)
     | JObj d \<Rightarrow> ret (map JStr (sorted_list_of_fset (fmdom d))) | _ \<Rightarrow> raise (TypeError ''object is not iterable''))"

definition plan_steps :: "dict \<Rightarrow> ('w, json list) prog" where
  "plan_steps plan = (if dget_or plan ''tool'' JNull = JStr ''workflow'' then items_of (dget_or plan ''steps'' JNull)
     else ret [JObj plan])"

record tool_progress =
  tg_tools :: "string list"
  tg_args :: dict
  tg_retries :: int
  tg_response :: string

definition args_dict :: "json \<Rightarrow> dict" where
  "args_dict args = (case args of JObj d \<Rightarrow> d | _ \<Rightarrow> fmempty)"

text \<open>\<open>int(v or 0)\<close>.\<close>

definition int_or_zero :: "json \<Rightarrow> ('w, int) prog" where
  "int_or_zero v = (if truthy v then lift (json_int v) else ret 0)"

definition record_attempt_result :: "nat \<Rightarrow> string \<Rightarrow> json \<Rightarrow> (('s, 'z) platform_world_scheme, unit) prog" where
  "record_attempt_result i tool attempt =
     bnd (as_dict attempt) (\<lambda>d.
     update_state i (add_tool_result (py_str (dget_or d ''tool'' (JStr tool))) (dget_or d ''result'' JNull)
       (dget_or d ''error'' JNull) None))"

text \<open>One step. The tool's name is a text; another value is taken as its text.\<close>

definition tool_step ::
  "('s, 'z) platform_world_scheme tool_executor \<Rightarrow> nat \<Rightarrow> agent_context \<Rightarrow> json \<Rightarrow> tool_progress \<Rightarrow>
   (('s, 'z) platform_world_scheme, tool_progress) prog" where
  "tool_step ex i c step g =
     bnd (as_dict step) (\<lambda>d.
     let tool = py_str (dget_or d ''tool'' (JStr ''ask_user'')); args = args_dict (dget_or d ''args'' (JObj fmempty)) in
     bnd (execute_tool ex tool (JObj args) (Some c)) (\<lambda>x.
     thn (if er_attempts x \<noteq> [] then for_each (er_attempts x) (record_attempt_result i tool)
          else update_state i (add_tool_result tool (er_result x) (text_or_null (er_error x)) None))
     (bnd (int_or_zero (dget_or (er_metadata x) ''retry_count'' (JInt 0))) (\<lambda>n.
      ret (g\<lparr>tg_tools := tg_tools g @ [tool], tg_args := tg_args g ++\<^sub>f args, tg_retries := tg_retries g + n,
        tg_response := py_str (dget_or (er_metadata x) ''response_text'' (JStr (tg_response g)))\<rparr>)))))"

definition estimated_tokens :: "json \<Rightarrow> tool_progress \<Rightarrow> int" where
  "estimated_tokens req g = max 60 (int (length (request_text req)) * 3 + int (length (tg_response g)) * 2 +
     tg_retries g * 25 + int (length (tg_tools g)) * 30)"

text \<open>The usage and its source, by the preference of the environment.\<close>

definition token_usage :: "string \<Rightarrow> json \<Rightarrow> int \<Rightarrow> ('w, int \<times> string) prog" where
  "token_usage prefer llm_total est =
     (if prefer = ''estimated'' then ret (est, ''estimated'')
      else if llm_total \<noteq> JNull then bnd (lift (json_int llm_total)) (\<lambda>n. ret (n, ''ollama''))
      else ret (est, if prefer = ''llm'' then ''estimated_fallback'' else ''estimated''))"

definition tool_node_execute ::
  "('s, 'z) platform_world_scheme tool_executor \<Rightarrow> string \<Rightarrow> env \<Rightarrow> nat \<Rightarrow> agent_context \<Rightarrow>
   (('s, 'z) platform_world_scheme, unit) prog" where
  "tool_node_execute ex done_text env i c =
     bnd (state_at i) (\<lambda>s.
     case as_plan s of
       JObj plan \<Rightarrow>
         bnd (plan_steps plan) (\<lambda>steps.
         bnd (fold_prog (tool_step ex i c) steps
                \<lparr>tg_tools = [], tg_args = fmempty, tg_retries = 0, tg_response = done_text\<rparr>) (\<lambda>g.
         thn (update_state i (set_answer (JStr (tg_response g))))
         (bnd (state_at i) (\<lambda>s'.
          bnd (as_dict (dget_or (as_metadata s') ''llm_meta'' (JObj fmempty))) (\<lambda>llm_meta.
          let llm_total = dget_or llm_meta ''llm_total_tokens'' JNull; est = estimated_tokens (as_request s') g in
          bnd (token_usage (lower (getenv env ''TOKEN_METRIC'' ''auto'')) llm_total est) (\<lambda>(usage, source).
          set_metadata i
            [(''called_tools'', JArr (map JStr (tg_tools g))), (''called_args'', JObj (tg_args g)),
             (''retry_count'', JInt (tg_retries g)), (''tool_calls_count'', JInt (int (length (tg_tools g)))),
             (''token_usage'', JInt usage), (''token_usage_estimated'', JInt est), (''token_usage_llm'', llm_total),
             (''token_usage_source'', JStr source),
             (''llm_prompt_tokens'', dget_or llm_meta ''llm_prompt_tokens'' JNull),
             (''llm_completion_tokens'', dget_or llm_meta ''llm_completion_tokens'' JNull),
             (''chaos_mode'', dget_or (exe_metadata ex) ''chaos_mode'' (JStr ''none''))]))))))
     | _ \<Rightarrow> raise (ValueError ''AgentState.plan must be a dict before ToolNode executes''))"

definition tool_as_node ::
  "('s, 'z) platform_world_scheme tool_executor \<Rightarrow> string \<Rightarrow> env \<Rightarrow> ('s, 'z) platform_world_scheme node" where
  "tool_as_node ex done_text env = \<lparr>nd_name = ''tool'', nd_execute = on_state (tool_node_execute ex done_text env)\<rparr>"

section \<open>Judge\<close>

definition expected_text :: "json \<Rightarrow> string" where
  "expected_text req =
     (case req of
        JObj d \<Rightarrow>
          (case dget d ''judge_expected'' of
             Some v \<Rightarrow> py_str v
           | None \<Rightarrow>
               let tools = dget_or d ''expected_tools'' JNull; args = dget_or d ''expected_args'' JNull in
               if tools \<noteq> JNull \<or> args \<noteq> JNull then ''expected_tools='' @ py_str tools @ '', expected_args='' @ py_str args
               else [])
      | _ \<Rightarrow> [])"

definition actual_text :: "json \<Rightarrow> string" where
  "actual_text answer = (if answer = JNull then [] else py_str answer)"

definition judge_execute ::
  "(string \<Rightarrow> string \<Rightarrow> string \<Rightarrow> (('s, 'z) platform_world_scheme, string) prog) \<Rightarrow> bool \<Rightarrow> nat \<Rightarrow> agent_context \<Rightarrow>
   (('s, 'z) platform_world_scheme, unit) prog" where
  "judge_execute judge enabled i c =
     (if \<not> enabled then set_metadata i [(''judge_enabled'', JBool False)]
      else bnd (state_at i) (\<lambda>s.
        bnd (judge (request_text (as_request s)) (expected_text (as_request s)) (actual_text (as_answer s))) (\<lambda>r.
        set_metadata i [(''judge_enabled'', JBool True), (''judge_result'', JStr r)])))"

definition judge_as_node ::
  "(string \<Rightarrow> string \<Rightarrow> string \<Rightarrow> (('s, 'z) platform_world_scheme, string) prog) \<Rightarrow> bool \<Rightarrow>
   ('s, 'z) platform_world_scheme node" where
  "judge_as_node judge enabled = \<lparr>nd_name = ''judge'', nd_execute = on_state (judge_execute judge enabled)\<rparr>"

end
