(* ===== verification/Evaluation.thy ===== *)
theory Evaluation
  imports Agent_Runtime
begin

text \<open>
  \<open>ai_platform/evaluation\<close>, the part every evaluation goes through: results and their merging, the
  engine, the metrics' helpers and the quality gate. An evaluator is a name and a program.
\<close>

section \<open>Numbers in texts\<close>

text \<open>\<open>f"{x:.nf}"\<close> and \<open>f"{x:.2%}"\<close>.\<close>

definition fixed_text :: "nat \<Rightarrow> rat \<Rightarrow> string" where
  "fixed_text n r =
     (let m = nat (round_even (\<bar>r\<bar> * 10 ^ n)) in
      (if r < 0 then ''-'' else []) @ nat_text (m div 10 ^ n) @ ''.'' @ pad_left n (nat_text (m mod 10 ^ n)))"

definition percent_text :: "rat \<Rightarrow> string" where
  "percent_text r = fixed_text 2 (r * 100) @ ''%''"

text \<open>A number that is compared or formatted.\<close>

definition as_number :: "json \<Rightarrow> ('w, rat) prog" where
  "as_number v = of_option (TypeError ''not a number'') (number_of v)"

section \<open>Metrics\<close>

definition tool_match :: "json \<Rightarrow> json \<Rightarrow> int" where
  "tool_match expected called = (if expected = called then 1 else 0)"

definition avg_or_none :: "rat list \<Rightarrow> rat option" where
  "avg_or_none vs = (if vs = [] then None else Some (sum_list vs / of_nat (length vs)))"

definition percentile_or_none :: "rat list \<Rightarrow> rat \<Rightarrow> rat option" where
  "percentile_or_none vs p =
     (if vs = [] then None
      else let arr = sort vs; n = int (length arr);
               rank = max 0 (min (round_even (p / 100 * of_int (n - 1))) (n - 1)) in
           Some (arr ! nat rank))"

text \<open>Equality of values: numbers and flags by their value; inside lists and dicts their types count, too.\<close>

definition py_equal :: "json \<Rightarrow> json \<Rightarrow> bool" where
  "py_equal a b = (case (number_of a, number_of b) of (Some x, Some y) \<Rightarrow> x = y | (None, None) \<Rightarrow> a = b | _ \<Rightarrow> False)"

text \<open>\<open>called_args.get(k) == v\<close>: an absent argument is equal to \<open>None\<close>.\<close>

definition arg_match :: "dict \<Rightarrow> dict \<Rightarrow> rat" where
  "arg_match expected called =
     (if expected = fmempty \<or> fmlookup expected ''missing_or_invalid'' \<noteq> None then 1
      else let ks = sorted_list_of_fset (fmdom expected) in
        of_nat (length (filter (\<lambda>k. py_equal (dget_or called k JNull) (dget_or expected k JNull)) ks)) / of_nat (length ks))"

section \<open>Results\<close>

record evaluation_result =
  el_success :: bool
  el_score :: "rat option"
  el_metrics :: dict
  el_details :: dict
  el_errors :: dict
  el_metadata :: dict
  el_security_score :: "rat option"

definition empty_result :: "bool \<Rightarrow> evaluation_result" where
  "empty_result ok = \<lparr>el_success = ok, el_score = None, el_metrics = fmempty, el_details = fmempty, el_errors = fmempty,
     el_metadata = fmempty, el_security_score = None\<rparr>"

text \<open>The entries of a dict under keys with the namespace in front.\<close>

definition namespaced :: "string \<Rightarrow> dict \<Rightarrow> dict" where
  "namespaced ns d = dict_of (map (\<lambda>k. (ns @ ''.'' @ k, dget_or d k JNull)) (sorted_list_of_fset (fmdom d)))"

definition merge_score :: "rat option \<Rightarrow> rat option \<Rightarrow> rat option" where
  "merge_score a b = (case b of None \<Rightarrow> a
     | Some y \<Rightarrow> (case a of None \<Rightarrow> Some y | Some x \<Rightarrow> Some ((x + y) / 2)))"

definition merge_security_score :: "rat option \<Rightarrow> rat option \<Rightarrow> rat option" where
  "merge_security_score a b = (case b of None \<Rightarrow> a
     | Some y \<Rightarrow> (case a of None \<Rightarrow> Some y | Some x \<Rightarrow> Some (min x y)))"

definition merge_result :: "string \<Rightarrow> evaluation_result \<Rightarrow> evaluation_result \<Rightarrow> evaluation_result" where
  "merge_result ns a b =
     \<lparr>el_success = (el_success a \<and> el_success b),
      el_score = merge_score (el_score a) (el_score b),
      el_metrics = el_metrics a ++\<^sub>f (if ns \<noteq> [] then namespaced ns (el_metrics b) else el_metrics b),
      el_details = (if ns \<noteq> [] then dset ns (JObj (el_details b)) (el_details a) else el_details a ++\<^sub>f el_details b),
      el_errors = (if ns \<noteq> [] then if el_errors b \<noteq> fmempty then dset ns (JObj (el_errors b)) (el_errors a) else el_errors a
        else el_errors a ++\<^sub>f el_errors b),
      el_metadata = (if ns \<noteq> [] then dset ns (JObj (el_metadata b)) (el_metadata a) else el_metadata a ++\<^sub>f el_metadata b),
      el_security_score = merge_security_score (el_security_score a) (el_security_score b)\<rparr>"

definition result_to_dict :: "evaluation_result \<Rightarrow> json" where
  "result_to_dict r = JObj (dict_of [(''success'', JBool (el_success r)), (''score'', opt_float (el_score r)),
     (''metrics'', JObj (el_metrics r)), (''details'', JObj (el_details r)), (''errors'', JObj (el_errors r)),
     (''metadata'', JObj (el_metadata r)), (''security_score'', opt_float (el_security_score r))])"

section \<open>Engine\<close>

text \<open>What is evaluated: a state of an agent, or another value (a batch of cases is a dict).\<close>

datatype eval_subject = OutState nat | OutValue json

record 'w evaluator =
  eo_name :: string
  eo_evaluate :: "eval_subject \<Rightarrow> ('w, evaluation_result) prog"

definition engine_add :: "'w evaluator \<Rightarrow> 'w evaluator list \<Rightarrow> 'w evaluator list" where
  "engine_add e es = es @ [e]"

definition risk_score :: "string \<Rightarrow> rat" where
  "risk_score level = (case map_of [(''none'', 100), (''low'', 85), (''medium'', 60), (''high'', 30), (''critical'', 0)] level of
     None \<Rightarrow> 50 | Some r \<Rightarrow> r)"

text \<open>A risk level that is no text is not one of the known ones; a list or a dict cannot be looked up.\<close>

definition risk_to_score :: "json \<Rightarrow> json \<Rightarrow> ('w, rat) prog" where
  "risk_to_score passed level =
     (if truthy passed then ret 100
      else (case level of JStr s \<Rightarrow> ret (risk_score s)
        | JArr xs \<Rightarrow> raise (TypeError ''unhashable type'') | JObj d \<Rightarrow> raise (TypeError ''unhashable type'') | _ \<Rightarrow> ret 50))"

definition extract_security_score :: "eval_subject \<Rightarrow> (('s, 'z) platform_world_scheme, rat option) prog" where
  "extract_security_score out =
     (case out of OutValue v \<Rightarrow> ret None
      | OutState i \<Rightarrow>
          bnd (state_at i) (\<lambda>s.
          let md = as_metadata s; sec = dget_or md ''security_result'' JNull; score = dget_or md ''security_score'' JNull in
          case sec of
            JObj d \<Rightarrow> if d \<noteq> fmempty then
                bnd (risk_to_score (dget_or d ''passed'' (JBool True)) (dget_or d ''risk_level'' (JStr ''none''))) (\<lambda>r. ret (Some r))
              else if score \<noteq> JNull then bnd (lift (json_float score)) (\<lambda>r. ret (Some r)) else ret None
          | _ \<Rightarrow> if score \<noteq> JNull then bnd (lift (json_float score)) (\<lambda>r. ret (Some r)) else ret None))"

definition merge_evaluator ::
  "eval_subject \<Rightarrow> ('s, 'z) platform_world_scheme evaluator \<Rightarrow> evaluation_result \<Rightarrow>
   (('s, 'z) platform_world_scheme, evaluation_result) prog" where
  "merge_evaluator out e combined = bnd (eo_evaluate e out) (\<lambda>r. ret (merge_result (eo_name e) combined r))"

definition assessed :: "rat option \<Rightarrow> evaluation_result \<Rightarrow> evaluation_result" where
  "assessed score r =
     (case score of
        None \<Rightarrow> r\<lparr>el_metrics := dset ''security_assessed'' (JBool False) (el_metrics r)\<rparr>
      | Some x \<Rightarrow> r\<lparr>el_metrics := dset ''security_assessed'' (JBool True) (dset ''security_score'' (JFloat x) (el_metrics r)),
          el_security_score := Some x\<rparr>)"

text \<open>The event at the end carries the trace id read at the start, empty when none was active then.\<close>

definition evaluate_output ::
  "('s, 'z) platform_world_scheme evaluator list \<Rightarrow> eval_subject \<Rightarrow>
   (('s, 'z) platform_world_scheme, evaluation_result) prog" where
  "evaluate_output es out =
     bnd py_time (\<lambda>start.
     bnd (gets active_trace_id) (\<lambda>t.
     thn (case t of None \<Rightarrow> ret () | Some trace \<Rightarrow> emit (evaluation_start trace (map eo_name es)))
     (bnd (fold_prog (merge_evaluator out) es (empty_result True)) (\<lambda>combined.
      bnd (extract_security_score out) (\<lambda>score.
      let r = assessed score combined in
      bnd py_time (\<lambda>now.
      bnd (gets active_trace_id) (\<lambda>t'.
      thn (whenp (t' \<noteq> None) (emit (evaluation_result_event (case t of None \<Rightarrow> [] | Some trace \<Rightarrow> trace)
             (el_score r) (el_success r) (Some (el_metrics r)) (Some ((now - start) * 1000)))))
      (ret r))))))))"

section \<open>Quality gate\<close>

definition gate_error :: "string \<Rightarrow> exn" where
  "gate_error message = OtherError ''AgentGateError'' message"

text \<open>A metric against a threshold; \<open>low\<close> tells on which side the error is.\<close>

definition gate_metric ::
  "dict \<Rightarrow> bool \<Rightarrow> (rat \<Rightarrow> string) \<Rightarrow> string \<Rightarrow> string \<Rightarrow> json \<Rightarrow> ('w, unit) prog" where
  "gate_metric g low fmt k bound v =
     bnd (dict_item g bound) (\<lambda>b.
     bnd (as_number v) (\<lambda>x. bnd (as_number b) (\<lambda>y.
     if (if low then x < y else x > y) then
       raise (gate_error (k @ (if low then '' too low: '' else '' too high: '') @ fmt x @
         (if low then '' (min '' else '' (max '') @ fmt y @ '')''))
     else ret ())))"

definition gate_required ::
  "dict \<Rightarrow> dict \<Rightarrow> bool \<Rightarrow> (rat \<Rightarrow> string) \<Rightarrow> string \<Rightarrow> string \<Rightarrow> ('w, unit) prog" where
  "gate_required g report low fmt k bound = bnd (dict_item report k) (gate_metric g low fmt k bound)"

definition gate_assert :: "dict \<Rightarrow> dict \<Rightarrow> ('w, unit) prog" where
  "gate_assert g report =
     thn (gate_required g report True percent_text ''tool_selection_accuracy'' ''tool_selection_accuracy_min'')
     (thn (gate_required g report True percent_text ''arg_accuracy'' ''arg_accuracy_min'')
     (thn (gate_required g report False (fixed_text 2) ''avg_tool_calls_per_task'' ''avg_tool_calls_per_task_max'')
     (thn (gate_required g report False percent_text ''retry_rate'' ''retry_rate_max'')
     (thn (gate_required g report False percent_text ''hallucination_rate'' ''hallucination_rate_max'')
     (gate_metric g False percent_text ''planner_invalid_rate'' ''planner_invalid_rate_max''
        (dget_or report ''planner_invalid_rate'' (JInt 0)))))))"

definition assert_pass :: "dict \<Rightarrow> dict \<Rightarrow> ('w, dict) prog" where
  "assert_pass g metrics = thn (gate_assert g metrics) (ret metrics)"

fun is_gate_error :: "exn \<Rightarrow> bool" where
  "is_gate_error (OtherError n s) = (n = ''AgentGateError'')"
| "is_gate_error _ = False"

definition gate_check_result :: "dict \<Rightarrow> dict \<Rightarrow> (('s, 'z) platform_world_scheme, bool) prog" where
  "gate_check_result g metrics =
     bnd (gets active_trace_id) (\<lambda>t.
     let trace = (case t of None \<Rightarrow> [] | Some x \<Rightarrow> x) in
     thn (whenp (t \<noteq> None) (emit (gate_check trace g)))
     (catch
       (thn (gate_assert g metrics)
        (bnd (gets active_trace_id) (\<lambda>t'.
         thn (whenp (t' \<noteq> None) (emit (gate_result_event trace True None (Some metrics)))) (ret True))))
       (\<lambda>e. if is_gate_error e then
            bnd (gets active_trace_id) (\<lambda>t'.
            thn (whenp (t' \<noteq> None) (emit (gate_result_event trace False (Some [exn_text e]) None))) (raise e))
          else raise e)))"

end
