(* ===== verification/Platform_Service.thy ===== *)
theory Platform_Service
  imports Evaluation Config
begin

text \<open>
  \<open>ai_platform/core\<close>: the platform's configuration, and the service that runs a request through the agent,
  the evaluation and the quality gate.
\<close>

section \<open>Configuration\<close>

record model_config =
  mc_provider :: string
  mc_model :: string
  mc_temperature :: rat
  mc_max_tokens :: int
  mc_timeout_seconds :: rat

record evaluation_config =
  ec_tool_selection_accuracy_min :: rat
  ec_arg_accuracy_min :: rat
  ec_avg_tool_calls_per_task_max :: rat
  ec_retry_rate_max :: rat
  ec_hallucination_rate_max :: rat
  ec_planner_invalid_rate_max :: rat

record platform_config =
  pc_model :: model_config
  pc_evaluation :: evaluation_config
  pc_security :: security_policy
  pc_mode :: string
  pc_observability_enabled :: bool
  pc_evaluation_enabled :: bool
  pc_quality_gate_enabled :: bool
  pc_timeout_seconds :: rat

definition default_model_config :: model_config where
  "default_model_config = \<lparr>mc_provider = ''mock'', mc_model = ''default'', mc_temperature = 1 / 10, mc_max_tokens = 2048,
     mc_timeout_seconds = 30\<rparr>"

definition default_evaluation_config :: evaluation_config where
  "default_evaluation_config = \<lparr>ec_tool_selection_accuracy_min = 7 / 10, ec_arg_accuracy_min = 7 / 10,
     ec_avg_tool_calls_per_task_max = 10, ec_retry_rate_max = 3 / 10, ec_hallucination_rate_max = 1 / 10,
     ec_planner_invalid_rate_max = 1 / 10\<rparr>"

definition default_platform_config :: platform_config where
  "default_platform_config = \<lparr>pc_model = default_model_config, pc_evaluation = default_evaluation_config,
     pc_security = default_policy, pc_mode = ''rule'', pc_observability_enabled = True, pc_evaluation_enabled = False,
     pc_quality_gate_enabled = False, pc_timeout_seconds = 60\<rparr>"

definition model_to_dict :: "model_config \<Rightarrow> dict" where
  "model_to_dict m = dict_of [(''provider'', JStr (mc_provider m)), (''model'', JStr (mc_model m)),
     (''temperature'', JFloat (mc_temperature m)), (''max_tokens'', JInt (mc_max_tokens m)),
     (''timeout_seconds'', JFloat (mc_timeout_seconds m))]"

definition field_float :: "dict \<Rightarrow> string \<Rightarrow> rat \<Rightarrow> ('w, rat) prog" where
  "field_float d k v = lift (json_float (dget_or d k (JFloat v)))"

definition field_text :: "dict \<Rightarrow> string \<Rightarrow> string \<Rightarrow> string" where
  "field_text d k v = py_str (dget_or d k (JStr v))"

definition model_from_dict :: "dict \<Rightarrow> ('w, model_config) prog" where
  "model_from_dict d =
     bnd (field_float d ''temperature'' (1 / 10)) (\<lambda>temp.
     bnd (field_int d ''max_tokens'' 2048) (\<lambda>tokens.
     bnd (field_float d ''timeout_seconds'' 30) (\<lambda>timeout.
     ret \<lparr>mc_provider = field_text d ''provider'' ''mock'', mc_model = field_text d ''model'' ''default'',
       mc_temperature = temp, mc_max_tokens = tokens, mc_timeout_seconds = timeout\<rparr>)))"

definition evaluation_to_dict :: "evaluation_config \<Rightarrow> dict" where
  "evaluation_to_dict e = dict_of
     [(''tool_selection_accuracy_min'', JFloat (ec_tool_selection_accuracy_min e)),
      (''arg_accuracy_min'', JFloat (ec_arg_accuracy_min e)),
      (''avg_tool_calls_per_task_max'', JFloat (ec_avg_tool_calls_per_task_max e)),
      (''retry_rate_max'', JFloat (ec_retry_rate_max e)), (''hallucination_rate_max'', JFloat (ec_hallucination_rate_max e)),
      (''planner_invalid_rate_max'', JFloat (ec_planner_invalid_rate_max e))]"

definition evaluation_from_dict :: "dict \<Rightarrow> ('w, evaluation_config) prog" where
  "evaluation_from_dict d =
     bnd (field_float d ''tool_selection_accuracy_min'' (7 / 10)) (\<lambda>a.
     bnd (field_float d ''arg_accuracy_min'' (7 / 10)) (\<lambda>b.
     bnd (field_float d ''avg_tool_calls_per_task_max'' 10) (\<lambda>c.
     bnd (field_float d ''retry_rate_max'' (3 / 10)) (\<lambda>e.
     bnd (field_float d ''hallucination_rate_max'' (1 / 10)) (\<lambda>f.
     bnd (field_float d ''planner_invalid_rate_max'' (1 / 10)) (\<lambda>g.
     ret \<lparr>ec_tool_selection_accuracy_min = a, ec_arg_accuracy_min = b, ec_avg_tool_calls_per_task_max = c,
       ec_retry_rate_max = e, ec_hallucination_rate_max = f, ec_planner_invalid_rate_max = g\<rparr>))))))"

definition platform_to_dict :: "platform_config \<Rightarrow> dict" where
  "platform_to_dict c = dict_of
     [(''model'', JObj (model_to_dict (pc_model c))), (''evaluation'', JObj (evaluation_to_dict (pc_evaluation c))),
      (''security'', JObj (policy_to_dict (pc_security c))), (''mode'', JStr (pc_mode c)),
      (''observability_enabled'', JBool (pc_observability_enabled c)), (''evaluation_enabled'', JBool (pc_evaluation_enabled c)),
      (''quality_gate_enabled'', JBool (pc_quality_gate_enabled c)), (''timeout_seconds'', JFloat (pc_timeout_seconds c))]"

text \<open>A section that is no dict has no \<open>get\<close>.\<close>

definition section_of :: "dict \<Rightarrow> string \<Rightarrow> ('w, dict) prog" where
  "section_of d k = as_dict (dget_or d k (JObj fmempty))"

definition platform_from_dict :: "dict \<Rightarrow> ('w, platform_config) prog" where
  "platform_from_dict d =
     bnd (bnd (section_of d ''model'') model_from_dict) (\<lambda>m.
     bnd (bnd (section_of d ''evaluation'') evaluation_from_dict) (\<lambda>e.
     bnd (bnd (section_of d ''security'') policy_from_dict) (\<lambda>p.
     bnd (field_float d ''timeout_seconds'' 60) (\<lambda>t.
     ret \<lparr>pc_model = m, pc_evaluation = e, pc_security = p, pc_mode = field_text d ''mode'' ''rule'',
       pc_observability_enabled = field_bool d ''observability_enabled'' True,
       pc_evaluation_enabled = field_bool d ''evaluation_enabled'' True,
       pc_quality_gate_enabled = field_bool d ''quality_gate_enabled'' True, pc_timeout_seconds = t\<rparr>))))"

definition switched_on :: "env \<Rightarrow> string \<Rightarrow> bool" where
  "switched_on env name = (getenv env name ''1'' \<notin> {''0'', ''false'', ''no''})"

definition platform_from_env :: "env \<Rightarrow> ('w, platform_config) prog" where
  "platform_from_env env =
     bnd (py_float (getenv env ''AGENT_LLM_TEMPERATURE'' ''0.1'')) (\<lambda>temp.
     bnd (py_int (getenv env ''AGENT_LLM_MAX_TOKENS'' ''2048'')) (\<lambda>tokens.
     bnd (py_float (getenv env ''AGENT_LLM_TIMEOUT'' ''30.0'')) (\<lambda>timeout.
     bnd (py_float (getenv env ''PLATFORM_TIMEOUT'' ''60.0'')) (\<lambda>t.
     ret \<lparr>pc_model = \<lparr>mc_provider = getenv env ''AGENT_LLM_PROVIDER'' ''mock'',
         mc_model = getenv env ''AGENT_LLM_MODEL'' ''default'', mc_temperature = temp, mc_max_tokens = tokens,
         mc_timeout_seconds = timeout\<rparr>,
       pc_evaluation = default_evaluation_config, pc_security = default_policy,
       pc_mode = getenv env ''AGENT_MODE'' ''rule'', pc_observability_enabled = switched_on env ''PLATFORM_OBSERVABILITY'',
       pc_evaluation_enabled = switched_on env ''PLATFORM_EVALUATION'',
       pc_quality_gate_enabled = switched_on env ''PLATFORM_QUALITY_GATE'', pc_timeout_seconds = t\<rparr>))))"

section \<open>Service\<close>

record platform_result =
  pr_success :: bool
  pr_answer :: json
  pr_score :: "rat option"
  pr_security_score :: json
  pr_trace_id :: string
  pr_evaluation :: json
  pr_gate :: json
  pr_error :: json
  pr_error_type :: json
  pr_violations :: json
  pr_metadata :: dict

definition plain_result :: "bool \<Rightarrow> string \<Rightarrow> platform_result" where
  "plain_result ok mode = \<lparr>pr_success = ok, pr_answer = JNull, pr_score = None, pr_security_score = JNull, pr_trace_id = [],
     pr_evaluation = JNull, pr_gate = JNull, pr_error = JNull, pr_error_type = JNull, pr_violations = JArr [],
     pr_metadata = dict_of [(''mode'', JStr mode)]\<rparr>"

definition platform_result_as_dict :: "platform_result \<Rightarrow> json" where
  "platform_result_as_dict r = JObj (dict_of [(''success'', JBool (pr_success r)), (''answer'', pr_answer r),
     (''score'', opt_float (pr_score r)), (''security_score'', pr_security_score r), (''trace_id'', JStr (pr_trace_id r)),
     (''evaluation'', pr_evaluation r), (''gate'', pr_gate r), (''error'', pr_error r), (''error_type'', pr_error_type r),
     (''violations'', pr_violations r), (''metadata'', JObj (pr_metadata r))])"

text \<open>The service: the runtime, the evaluators of its engine and the thresholds of its gate, if it has them.\<close>

record 'w platform_service =
  ps_runtime :: "'w agent_runtime"
  ps_evaluators :: "'w evaluator list option"
  ps_gate :: "dict option"
  ps_config :: platform_config

definition failed_answer :: "string \<Rightarrow> agent_state \<Rightarrow> platform_result" where
  "failed_answer mode s =
     (let err = (case as_error s of None \<Rightarrow> fmempty | Some d \<Rightarrow> d) in
      if err \<noteq> fmempty \<and> dget_or err ''type'' JNull = JStr ''SecurityBlockedError'' then
        (plain_result False mode)\<lparr>pr_error := dget_or err ''message'' (JStr ''Security blocked''),
          pr_error_type := JStr ''SecurityBlocked'',
          pr_violations := (case dget_or (as_metadata s) ''security_result'' (JObj fmempty) of
             JObj d \<Rightarrow> dget_or d ''violations'' (JArr []) | _ \<Rightarrow> JArr []),
          pr_security_score := dget_or (as_metadata s) ''security_score'' (JInt 0)\<rparr>
      else (plain_result False mode)\<lparr>pr_error := dget_or err ''message'' (JStr ''Agent execution failed''),
          pr_error_type := dget_or err ''type'' (JStr ''AgentError'')\<rparr>)"

definition raw_answer :: "string \<Rightarrow> json \<Rightarrow> string \<Rightarrow> platform_result" where
  "raw_answer mode answer trace = (plain_result True mode)\<lparr>pr_answer := answer, pr_trace_id := trace\<rparr>"

text \<open>The gate's verdict on an evaluation: \<open>None\<close> when there is no gate, and the result is dropped.\<close>

definition gated ::
  "('s, 'z) platform_world_scheme platform_service \<Rightarrow> string \<Rightarrow> json \<Rightarrow> string \<Rightarrow> evaluation_result \<Rightarrow>
   (('s, 'z) platform_world_scheme, platform_result option) prog" where
  "gated sv mode answer trace r =
     (let base = (plain_result True mode)\<lparr>pr_answer := answer, pr_score := el_score r,
            pr_security_score := opt_float (el_security_score r), pr_trace_id := trace, pr_evaluation := result_to_dict r\<rparr> in
      case (pc_quality_gate_enabled (ps_config sv), ps_gate sv) of
        (True, Some g) \<Rightarrow>
          try_else (assert_pass g (el_metrics r))
            (\<lambda>e. if is_exception e then ret (Some (base\<lparr>pr_success := False, pr_error := JStr (exn_text e),
                pr_error_type := JStr ''EvaluationFailed''\<rparr>)) else raise e)
            (\<lambda>report. ret (Some (base\<lparr>pr_gate := JObj report\<rparr>)))
      | _ \<Rightarrow> ret None)"

definition evaluate_answer ::
  "('s, 'z) platform_world_scheme platform_service \<Rightarrow> string \<Rightarrow> nat \<Rightarrow> json \<Rightarrow> string \<Rightarrow>
   (('s, 'z) platform_world_scheme, platform_result) prog" where
  "evaluate_answer sv mode j answer trace =
     (case (pc_evaluation_enabled (ps_config sv), ps_evaluators sv) of
        (True, Some es) \<Rightarrow>
          catch
            (bnd (bnd (evaluate_output es (OutState j)) (gated sv mode answer trace)) (\<lambda>o'.
             ret (case o' of None \<Rightarrow> raw_answer mode answer trace | Some r \<Rightarrow> r)))
            (\<lambda>e. if is_exception e then ret ((plain_result False mode)\<lparr>pr_answer := answer, pr_trace_id := trace,
                pr_error := JStr (exn_text e), pr_error_type := JStr ''EvaluationFailed''\<rparr>) else raise e)
      | _ \<Rightarrow> ret (raw_answer mode answer trace))"

definition effective_mode :: "('s, 'z) platform_world_scheme platform_service \<Rightarrow> string option \<Rightarrow> string" where
  "effective_mode sv mode = (case mode of Some m \<Rightarrow> if m \<noteq> [] then m else pc_mode (ps_config sv)
     | None \<Rightarrow> pc_mode (ps_config sv))"

definition service_run ::
  "('s, 'z) platform_world_scheme platform_service \<Rightarrow> json \<Rightarrow> string option \<Rightarrow> dict option \<Rightarrow>
   (('s, 'z) platform_world_scheme, platform_result) prog" where
  "service_run sv req mode metadata =
     (let m = effective_mode sv mode;
          md = dict_of [(''mode'', JStr m)] ++\<^sub>f (case metadata of None \<Rightarrow> fmempty | Some d \<Rightarrow> d) in
      try_else (runtime_run (ps_runtime sv) req (Some md))
        (\<lambda>e. if is_exception e then ret ((plain_result False m)\<lparr>pr_error := JStr (exn_text e),
            pr_error_type := JStr (exn_name e)\<rparr>) else raise e)
        (\<lambda>j. bnd (state_at j) (\<lambda>s.
          if as_status s = ''failed'' then ret (failed_answer m s)
          else bnd (gets active_trace_id) (\<lambda>t.
            evaluate_answer sv m j (as_answer s) (case t of None \<Rightarrow> [] | Some x \<Rightarrow> x)))))"

section \<open>Wiring\<close>

definition create_agent_runtime ::
  "platform_config \<Rightarrow> (string \<Rightarrow> string \<Rightarrow> bool option) \<Rightarrow> ('s, 'z) platform_world_scheme workflow \<Rightarrow>
   ('s, 'z) platform_world_scheme agent_runtime" where
  "create_agent_runtime c rx flow = \<lparr>rt_workflow = flow, rt_context = None, rt_default_metadata = fmempty,
     rt_observability = pc_observability_enabled c, rt_security = Some (pc_security c), rt_rx = rx\<rparr>"

definition create_tool_executor :: "platform_config \<Rightarrow> 'w tool_registry \<Rightarrow> string \<Rightarrow> 'w tool_executor" where
  "create_tool_executor c reg ask_text = \<lparr>exe_registry = reg, exe_metadata = fmempty, exe_security = Some (pc_security c),
     exe_ask_text = ask_text\<rparr>"

definition create_workflow_engine :: "string list option \<Rightarrow> 'w node list \<Rightarrow> 'w workflow_engine" where
  "create_workflow_engine router nodes = fold engine_register nodes \<lparr>we_router = router, we_nodes = []\<rparr>"

definition create_tool_registry :: "'w base_tool list \<Rightarrow> exn + 'w tool_registry" where
  "create_tool_registry tools = tools_register_all tools fmempty"

definition wired_service ::
  "platform_config \<Rightarrow> (string \<Rightarrow> string \<Rightarrow> bool option) \<Rightarrow> ('s, 'z) platform_world_scheme workflow \<Rightarrow>
   ('s, 'z) platform_world_scheme platform_service" where
  "wired_service c rx flow = \<lparr>ps_runtime = create_agent_runtime c rx flow,
     ps_evaluators = (if pc_evaluation_enabled c then Some [] else None),
     ps_gate = (if pc_quality_gate_enabled c then Some (evaluation_to_dict (pc_evaluation c)) else None), ps_config = c\<rparr>"

text \<open>
  The policy file: the contents under the resolved path, \<open>None\<close> when there is none; a missing file counts
  only when the path was given explicitly. Messages carry no path here.
\<close>

definition apply_policy_file ::
  "env \<Rightarrow> (exn + json) option \<Rightarrow> platform_config \<Rightarrow> ('w, platform_config) prog" where
  "apply_policy_file env contents c =
     (case contents of
        None \<Rightarrow> if strip (getenv env ''PLATFORM_SECURITY_POLICY'' []) \<noteq> [] then
            raise (OtherError ''PlatformError'' ''PLATFORM_SECURITY_POLICY points to missing file'')
          else ret c
      | Some x \<Rightarrow>
          bnd (catch (load_policy_file (Some x))
            (\<lambda>e. if exn_name e = ''PolicyFileError'' then
                raise (OtherError ''PlatformError'' (''invalid security policy file: '' @ exn_text e)) else raise e))
            (\<lambda>p. ret (c\<lparr>pc_security := p\<rparr>)))"

definition create_platform_service ::
  "env \<Rightarrow> (exn + json) option \<Rightarrow> platform_config option \<Rightarrow> (string \<Rightarrow> string \<Rightarrow> bool option) \<Rightarrow>
   ('s, 'z) platform_world_scheme workflow \<Rightarrow> ('v, ('s, 'z) platform_world_scheme platform_service) prog" where
  "create_platform_service env contents config rx flow =
     bnd (case config of Some c \<Rightarrow> ret c | None \<Rightarrow> apply_policy_file env contents default_platform_config) (\<lambda>c.
     ret (wired_service c rx flow))"

definition health :: "platform_config \<Rightarrow> json" where
  "health c = JObj (dict_of [(''status'', JStr ''healthy''), (''mode'', JStr (pc_mode c)),
     (''observability_enabled'', JBool (pc_observability_enabled c))])"

end
