(* ===== verification/Service_Correct.thy ===== *)
theory Service_Correct
  imports Platform_Service Runtime_Correct
begin

text \<open>
  What the platform's service answers: it always answers, a refused request is reported as such, the gate
  decides by its six bounds, and what becomes of an evaluation.
\<close>

section \<open>Gate\<close>

definition numeric :: "dict \<Rightarrow> string \<Rightarrow> rat \<Rightarrow> bool" where
  "numeric d k x \<longleftrightarrow> (\<exists>v. dget d k = Some v \<and> number_of v = Some x)"

lemma thn_raise [simp]: "thn (raise e) k = raise e"
  by (simp add: thn_def bnd_def raise_def)

lemma ret_run: "ret x w = (Inr x, w)" and raise_run: "raise e w = (Inl e, w)"
  by (simp_all add: ret_def raise_def)

text \<open>On numbers a comparison of the gate passes, or raises a gate error, and does nothing else.\<close>

definition decides :: "('w, unit) prog \<Rightarrow> bool \<Rightarrow> bool" where
  "decides m kept \<longleftrightarrow> (\<exists>message. m = (if kept then ret () else raise (gate_error message)))"

lemma gate_metric_decides:
  assumes "numeric g bound y" and "number_of v = Some x"
  shows "decides (gate_metric g low fmt k bound v) (if low then y \<le> x else x \<le> y)"
  using assms by (auto simp: decides_def gate_metric_def numeric_def dict_item_def as_number_def of_option_def)

lemma gate_required_decides:
  assumes "numeric g bound y" and "numeric m k x"
  shows "decides (gate_required g m low fmt k bound) (if low then y \<le> x else x \<le> y)"
proof -
  obtain v where v: "dget m k = Some v" "number_of v = Some x" using assms(2) by (auto simp: numeric_def)
  show ?thesis
    by (simp only: gate_required_def dict_item_def of_option_def v(1) option.case bnd_ret gate_metric_decides [OF assms(1) v(2)])
qed

lemma decides_thn:
  assumes "decides m kept" and "decides k kept'"
  shows "decides (thn m k) (kept \<and> kept')"
  using assms by (auto simp: decides_def)

text \<open>The metrics of a report, and whether they keep the thresholds.\<close>

record gate_metrics =
  gm_tool :: rat
  gm_arg :: rat
  gm_calls :: rat
  gm_retry :: rat
  gm_hallucination :: rat
  gm_planner :: rat

definition reports :: "dict \<Rightarrow> gate_metrics \<Rightarrow> bool" where
  "reports m x \<longleftrightarrow> numeric m ''tool_selection_accuracy'' (gm_tool x) \<and> numeric m ''arg_accuracy'' (gm_arg x) \<and>
     numeric m ''avg_tool_calls_per_task'' (gm_calls x) \<and> numeric m ''retry_rate'' (gm_retry x) \<and>
     numeric m ''hallucination_rate'' (gm_hallucination x) \<and>
     number_of (dget_or m ''planner_invalid_rate'' (JInt 0)) = Some (gm_planner x)"

definition keeps_bounds :: "evaluation_config \<Rightarrow> gate_metrics \<Rightarrow> bool" where
  "keeps_bounds c x \<longleftrightarrow>
     ec_tool_selection_accuracy_min c \<le> gm_tool x \<and> ec_arg_accuracy_min c \<le> gm_arg x \<and>
     gm_calls x \<le> ec_avg_tool_calls_per_task_max c \<and> gm_retry x \<le> ec_retry_rate_max c \<and>
     gm_hallucination x \<le> ec_hallucination_rate_max c \<and> gm_planner x \<le> ec_planner_invalid_rate_max c"

lemma thresholds:
  "numeric (evaluation_to_dict c) ''tool_selection_accuracy_min'' (ec_tool_selection_accuracy_min c)"
  "numeric (evaluation_to_dict c) ''arg_accuracy_min'' (ec_arg_accuracy_min c)"
  "numeric (evaluation_to_dict c) ''avg_tool_calls_per_task_max'' (ec_avg_tool_calls_per_task_max c)"
  "numeric (evaluation_to_dict c) ''retry_rate_max'' (ec_retry_rate_max c)"
  "numeric (evaluation_to_dict c) ''hallucination_rate_max'' (ec_hallucination_rate_max c)"
  "numeric (evaluation_to_dict c) ''planner_invalid_rate_max'' (ec_planner_invalid_rate_max c)"
  by (simp_all add: numeric_def evaluation_to_dict_def dict_of_def)

lemma gate_assert_decides:
  assumes "reports m x"
  shows "decides (gate_assert (evaluation_to_dict c) m) (keeps_bounds c x)"
proof -
  note r = assms [unfolded reports_def]
  note d = gate_required_decides [OF thresholds(1) r [THEN conjunct1], where low = True, simplified]
    gate_required_decides [OF thresholds(2) r [THEN conjunct2, THEN conjunct1], where low = True, simplified]
    gate_required_decides [OF thresholds(3) r [THEN conjunct2, THEN conjunct2, THEN conjunct1], where low = False, simplified]
    gate_required_decides [OF thresholds(4) r [THEN conjunct2, THEN conjunct2, THEN conjunct2, THEN conjunct1],
      where low = False, simplified]
    gate_required_decides [OF thresholds(5) r [THEN conjunct2, THEN conjunct2, THEN conjunct2, THEN conjunct2, THEN conjunct1],
      where low = False, simplified]
    gate_metric_decides [OF thresholds(6) r [THEN conjunct2, THEN conjunct2, THEN conjunct2, THEN conjunct2, THEN conjunct2],
      where low = False, simplified]
  show ?thesis unfolding gate_assert_def keeps_bounds_def by (intro decides_thn d)
qed

text \<open>
  C29. On a report with the six metrics the gate with the thresholds of a configuration passes exactly when
  no metric is on the wrong side of its bound, and otherwise raises a gate error; the report comes back
  unchanged.
\<close>

theorem gate_exact:
  fixes w :: 'w
  assumes "reports m x"
  shows "if keeps_bounds c x then assert_pass (evaluation_to_dict c) m w = (Inr m, w)
    else \<exists>message. assert_pass (evaluation_to_dict c) m w = (Inl (gate_error message), w)"
proof -
  have "decides (gate_assert (evaluation_to_dict c) m :: ('w, unit) prog) (keeps_bounds c x)"
    by (rule gate_assert_decides [OF assms])
  then show ?thesis by (auto simp: assert_pass_def decides_def ret_run raise_run)
qed

text \<open>The thresholds' own values pass the gate, and a lower tool accuracy does not.\<close>

theorem gate_exact_witness:
  "\<forall>w :: nat. \<exists>m. assert_pass (evaluation_to_dict default_evaluation_config) m w = (Inr m, w)"
proof
  fix w :: nat
  define x where "x = \<lparr>gm_tool = 1, gm_arg = 1, gm_calls = 2, gm_retry = 0, gm_hallucination = 0, gm_planner = 0\<rparr>"
  define m where "m = dict_of [(''tool_selection_accuracy'', JFloat 1), (''arg_accuracy'', JFloat 1),
    (''avg_tool_calls_per_task'', JFloat 2), (''retry_rate'', JFloat 0), (''hallucination_rate'', JFloat 0)]"
  have "reports m x" by (simp add: m_def x_def reports_def numeric_def dict_of_def dget_or_def)
  moreover have "keeps_bounds default_evaluation_config x" by (simp add: keeps_bounds_def default_evaluation_config_def x_def)
  ultimately show "\<exists>m. assert_pass (evaluation_to_dict default_evaluation_config) m w = (Inr m, w)"
    using gate_exact [of m x default_evaluation_config w] by auto
qed

section \<open>Evaluations in the service\<close>

text \<open>
  The engine puts the evaluator's name in front of every metric, so its result has none of the gate's
  metrics: every key has a dot or is one of the two of the security score.
\<close>

definition namespaced_only :: "dict \<Rightarrow> bool" where
  "namespaced_only d \<longleftrightarrow> (\<forall>k. fmlookup d k \<noteq> None \<longrightarrow> CHR ''.'' \<in> set k \<or> k \<in> {''security_assessed'', ''security_score''})"

lemma namespaced_only_empty: "namespaced_only fmempty"
  by (simp add: namespaced_only_def)

lemma dict_of_keys: "fmlookup (dict_of kvs) k \<noteq> None \<Longrightarrow> k \<in> fst ` set kvs"
  by (induction kvs rule: rev_induct) (auto simp: dict_of_def split: if_splits)

lemma namespaced_keys: "fmlookup (namespaced ns d) k \<noteq> None \<Longrightarrow> CHR ''.'' \<in> set k"
  using dict_of_keys [of "map (\<lambda>k. (ns @ ''.'' @ k, dget_or d k JNull)) (sorted_list_of_fset (fmdom d))" k]
  by (auto simp: namespaced_def)

lemma namespaced_only_merge:
  assumes "namespaced_only (el_metrics a)" and "ns \<noteq> []"
  shows "namespaced_only (el_metrics (merge_result ns a b))"
  using assms namespaced_keys [of ns "el_metrics b"]
  by (auto simp: namespaced_only_def merge_result_def split: if_splits)

lemma namespaced_only_assessed: "namespaced_only (el_metrics r) \<Longrightarrow> namespaced_only (el_metrics (assessed score r))"
  by (auto simp: namespaced_only_def assessed_def split: option.splits if_splits)

lemma evaluate_output_keys:
  assumes "\<forall>e\<in>set es. eo_name e \<noteq> []"
  shows "gives (\<lambda>r. namespaced_only (el_metrics r)) (\<lambda>_. True) (evaluate_output es out)"
proof -
  have merged: "gives (\<lambda>r. namespaced_only (el_metrics r)) (\<lambda>_. True) (fold_prog (merge_evaluator out) es (empty_result True))"
  proof (rule gives_fold_prog)
    show "namespaced_only (el_metrics (empty_result True))" by (simp add: empty_result_def namespaced_only_empty)
    show "gives (\<lambda>r. namespaced_only (el_metrics r)) (\<lambda>_. True) (merge_evaluator out e acc)"
      if "e \<in> set es" and "namespaced_only (el_metrics acc)" for e acc
      using that assms unfolding merge_evaluator_def
      by (intro gives_bnd [OF gives_any] gives_ret namespaced_only_merge) auto
  qed
  show ?thesis
    unfolding evaluate_output_def Let_def
    by (intro gives_bnd [OF gives_any] gives_thn gives_any gives_bnd [OF merged] gives_ret namespaced_only_assessed)
qed

lemma gate_needs_plain_metric:
  assumes "namespaced_only m"
  shows "assert_pass g m = raise (KeyError ''tool_selection_accuracy'')"
proof -
  have "dget m ''tool_selection_accuracy'' = None" using assms by (auto simp: namespaced_only_def)
  then show ?thesis by (simp add: assert_pass_def gate_assert_def gate_required_def dict_item_def of_option_def)
qed

definition evaluates :: "'w platform_service \<Rightarrow> bool" where
  "evaluates sv \<longleftrightarrow> pc_evaluation_enabled (ps_config sv) \<and> ps_evaluators sv \<noteq> None"

definition gates :: "'w platform_service \<Rightarrow> bool" where
  "gates sv \<longleftrightarrow> pc_quality_gate_enabled (ps_config sv) \<and> ps_gate sv \<noteq> None"

definition unevaluated :: "platform_result \<Rightarrow> bool" where
  "unevaluated r \<longleftrightarrow> pr_evaluation r = JNull \<and> pr_score r = None \<and> pr_gate r = JNull"

definition success_without_evaluation :: "'w platform_service \<Rightarrow> platform_result \<Rightarrow> bool" where
  "success_without_evaluation sv r \<longleftrightarrow> (pr_success r \<longrightarrow> unevaluated r \<and> \<not> (evaluates sv \<and> gates sv))"

lemma gives_state_at: "gives (\<lambda>_. True) E (state_at j)"
  by (simp add: state_at_def gives_gets)

lemma gated_fails:
  assumes "namespaced_only (el_metrics r)"
  shows "gives (\<lambda>o'. case o' of None \<Rightarrow> \<not> gates sv | Some p \<Rightarrow> \<not> pr_success p) (\<lambda>e. \<not> is_exception e) (gated sv mode answer trace r)"
proof (cases "gates sv")
  case True
  then obtain g where "pc_quality_gate_enabled (ps_config sv)" "ps_gate sv = Some g" by (auto simp: gates_def)
  then show ?thesis
    by (simp add: gated_def gate_needs_plain_metric [OF assms] try_else_def raise_def [abs_def] gives_def ret_def)
next
  case False
  then have "gated sv mode answer trace r = ret None"
    by (auto simp: gated_def gates_def Let_def split: bool.split option.split)
  then show ?thesis using False by (simp add: gives_ret)
qed

lemma evaluate_answer_bare:
  assumes "\<And>es e. ps_evaluators sv = Some es \<Longrightarrow> e \<in> set es \<Longrightarrow> eo_name e \<noteq> []"
  shows "gives (success_without_evaluation sv) (\<lambda>e. \<not> is_exception e) (evaluate_answer sv mode j answer trace)"
proof (cases "evaluates sv")
  case True
  then obtain es where es: "pc_evaluation_enabled (ps_config sv)" "ps_evaluators sv = Some es" by (auto simp: evaluates_def)
  let ?Q = "success_without_evaluation sv"
  have pick: "?Q (case o' of None \<Rightarrow> raw_answer mode answer trace | Some p \<Rightarrow> p)"
    if "case o' of None \<Rightarrow> \<not> gates sv | Some p \<Rightarrow> \<not> pr_success p" for o'
    using that by (cases o')
      (simp_all add: success_without_evaluation_def unevaluated_def raw_answer_def plain_result_def)
  have body: "gives ?Q (\<lambda>_. True) (bnd (bnd (evaluate_output es (OutState j)) (gated sv mode answer trace))
      (\<lambda>o'. ret (case o' of None \<Rightarrow> raw_answer mode answer trace | Some p \<Rightarrow> p)))"
    using es(2) assms by (intro gives_bnd [OF gives_bnd [OF evaluate_output_keys gives_weaken [OF gated_fails]]] gives_ret pick) auto
  have on: "pc_evaluation_enabled (ps_config sv) = True" using es(1) by simp
  show ?thesis
    unfolding evaluate_answer_def on es(2) prod.case option.case bool.case
    by (rule gives_catch [OF body])
      (simp add: gives_ret gives_raise success_without_evaluation_def plain_result_def)
next
  case False
  then have "evaluate_answer sv mode j answer trace = ret (raw_answer mode answer trace)"
    by (auto simp: evaluate_answer_def evaluates_def split: bool.split option.split)
  then show ?thesis using False
    by (simp add: gives_ret success_without_evaluation_def unevaluated_def raw_answer_def plain_result_def)
qed

text \<open>
  C28. The service always answers, and an answer with success carries no evaluation, score or gate report.
  With evaluation and gate both on no request succeeds at all, because the gate looks for metrics that the
  engine has renamed; with the gate off the evaluation's result is dropped.
\<close>

theorem success_has_no_evaluation:
  fixes w :: "('s, 'z) platform_world_scheme"
  assumes "\<And>es e. ps_evaluators sv = Some es \<Longrightarrow> e \<in> set es \<Longrightarrow> eo_name e \<noteq> []"
  shows "case service_run sv req mode md w of
     (Inl e, w') \<Rightarrow> \<not> is_exception e
   | (Inr r, w') \<Rightarrow> pr_success r \<longrightarrow> unevaluated r \<and> \<not> (evaluates sv \<and> gates sv)"
proof -
  have "gives (success_without_evaluation sv) (\<lambda>e. \<not> is_exception e) (service_run sv req mode md)"
    unfolding service_run_def Let_def
  proof (rule gives_try_else [OF gives_any], goal_cases)
    case (1 e)
    then show ?case by (simp add: gives_ret gives_raise success_without_evaluation_def plain_result_def)
  next
    case (2 j)
    have "success_without_evaluation sv (failed_answer m s)" for m s
      by (simp add: success_without_evaluation_def failed_answer_def plain_result_def Let_def)
    then show ?case
      by (intro gives_bnd [OF gives_state_at]) (auto intro!: gives_ret gives_bnd [OF gives_gets] evaluate_answer_bare dest: assms)
  qed
  from gives_case [OF this, of w] show ?thesis unfolding success_without_evaluation_def .
qed

text \<open>The service wired with evaluation and gate on.\<close>

definition checking_config :: platform_config where
  "checking_config = default_platform_config\<lparr>pc_evaluation_enabled := True, pc_quality_gate_enabled := True\<rparr>"

theorem success_has_no_evaluation_witness:
  "\<forall>w :: nat platform_world. case service_run (wired_service checking_config (\<lambda>p s. Some False) (Steps ''list'' [])) (JStr ''hi'') None None w of
     (Inl e, w') \<Rightarrow> \<not> is_exception e | (Inr r, w') \<Rightarrow> \<not> pr_success r"
proof
  fix w :: "nat platform_world"
  let ?sv = "wired_service checking_config (\<lambda>p s. Some False) (Steps ''list'' []) :: nat platform_world platform_service"
  have "evaluates ?sv \<and> gates ?sv"
    by (simp add: evaluates_def gates_def wired_service_def checking_config_def)
  moreover have "case service_run ?sv (JStr ''hi'') None None w of (Inl e, w') \<Rightarrow> \<not> is_exception e
      | (Inr r, w') \<Rightarrow> pr_success r \<longrightarrow> unevaluated r \<and> \<not> (evaluates ?sv \<and> gates ?sv)"
    by (rule success_has_no_evaluation) (auto simp: wired_service_def checking_config_def)
  ultimately show "case service_run ?sv (JStr ''hi'') None None w of (Inl e, w') \<Rightarrow> \<not> is_exception e | (Inr r, w') \<Rightarrow> \<not> pr_success r"
    by (simp split: prod.splits sum.splits)
qed

section \<open>Refused requests\<close>

text \<open>
  A request the policy does not accept is answered as such: without success, with the error type of a
  security block and no evaluation, the same whatever workflow of that type is configured, and the store is
  left alone.
\<close>

theorem refused_request_reported:
  fixes w :: "('s, 'z) platform_world_scheme"
  assumes "refuses (ps_runtime sv) req"
  shows "\<exists>r w'. service_run sv req mode md w = (Inr r, w') \<and> \<not> pr_success r \<and> pr_error_type r = JStr ''SecurityBlocked'' \<and>
    unevaluated r \<and> w_redis w' = w_redis w \<and>
    (\<forall>flow. workflow_type flow = workflow_type (rt_workflow (ps_runtime sv)) \<longrightarrow>
       service_run (sv\<lparr>ps_runtime := (ps_runtime sv)\<lparr>rt_workflow := flow\<rparr>\<rparr>) req mode md w = (Inr r, w'))"
proof -
  let ?i = "length (pw_states w)"
  let ?m = "effective_mode sv mode"
  let ?md = "dict_of [(''mode'', JStr ?m)] ++\<^sub>f (case md of None \<Rightarrow> fmempty | Some d \<Rightarrow> d)"
  obtain w' message where 1: "runtime_run (ps_runtime sv) req (Some ?md) w = (Inr ?i, w')"
      "as_status (pw_states w' ! ?i) = ''failed''"
      "as_error (pw_states w' ! ?i) = Some (dict_of [(''type'', JStr ''SecurityBlockedError''), (''message'', JStr message)])"
      "w_redis w' = w_redis w"
      "\<forall>flow. workflow_type flow = workflow_type (rt_workflow (ps_runtime sv)) \<longrightarrow>
         runtime_run ((ps_runtime sv)\<lparr>rt_workflow := flow\<rparr>) req (Some ?md) w = (Inr ?i, w')"
    using refused_run [OF assms, of "Some ?md" w] by metis
  let ?r = "failed_answer ?m (pw_states w' ! ?i)"
  have answer: "service_run sv' req mode md w = (Inr ?r, w')"
    if "runtime_run (ps_runtime sv') req (Some ?md) w = (Inr ?i, w')" and "ps_config sv' = ps_config sv" for sv'
  proof -
    have "effective_mode sv' mode = ?m" unfolding effective_mode_def that(2) ..
    then show ?thesis using that(1) 1(2) by (simp add: service_run_def Let_def try_else_def bnd_def state_at_run ret_def)
  qed
  have "dget_or (dict_of [(''type'', JStr ''SecurityBlockedError''), (''message'', JStr message)]) ''type'' JNull = JStr ''SecurityBlockedError''"
    and "dict_of [(''type'', JStr ''SecurityBlockedError''), (''message'', JStr message)] \<noteq> fmempty"
    by (simp_all add: dict_of_def dget_or_def)
  then have "\<not> pr_success ?r \<and> pr_error_type ?r = JStr ''SecurityBlocked'' \<and> unevaluated ?r"
    using 1(3) by (simp add: failed_answer_def plain_result_def unevaluated_def Let_def)
  then show ?thesis using answer [OF 1(1)] 1(4,5) answer
    by (intro exI [of _ ?r] exI [of _ w']) auto
qed

theorem refused_request_reported_witness:
  "\<forall>w :: nat platform_world. \<exists>r w'.
     service_run (wired_service default_platform_config (\<lambda>p s. Some False) (Steps ''list'' [])) (JStr []) None None w = (Inr r, w') \<and>
     pr_error_type r = JStr ''SecurityBlocked''"
proof
  fix w :: "nat platform_world"
  let ?sv = "wired_service default_platform_config (\<lambda>p s. Some False) (Steps ''list'' []) :: nat platform_world platform_service"
  have "refuses (ps_runtime ?sv) (JStr [])"
    by (simp add: refuses_def wired_service_def create_agent_runtime_def default_platform_config_def accepts_input_def
        valid_text_def default_policy_def extract_text_def)
  from refused_request_reported [OF this, of None None w]
  show "\<exists>r w'. service_run ?sv (JStr []) None None w = (Inr r, w') \<and> pr_error_type r = JStr ''SecurityBlocked''" by blast
qed

section \<open>Configuration\<close>

lemma model_roundtrip: "model_from_dict (model_to_dict m) w = (Inr m, w)"
  by (simp add: model_from_dict_def model_to_dict_def field_float_def field_int_def field_text_def dget_or_dict_of ret_run)

lemma evaluation_roundtrip: "evaluation_from_dict (evaluation_to_dict e) w = (Inr e, w)"
  by (simp add: evaluation_from_dict_def evaluation_to_dict_def field_float_def dget_or_dict_of ret_run)

lemma section_of_dict:
  "map_of (rev kvs) k = Some (JObj d) \<Longrightarrow> bnd (section_of (dict_of kvs) k) f = f d"
  by (simp add: section_of_def as_dict_def dget_or_dict_of)

text \<open>
  A platform configuration that is written to a dict and read back is the same configuration: model,
  thresholds, security policy with its roles, and the flags.
\<close>

theorem platform_config_roundtrip:
  "platform_from_dict (platform_to_dict c) w = (Inr c, w)"
proof -
  have parts: "model_from_dict (model_to_dict m) = ret m" "evaluation_from_dict (evaluation_to_dict e) = ret e"
    "policy_from_dict (policy_to_dict p) = ret p" for m e p
    by (rule ext, simp add: model_roundtrip evaluation_roundtrip policy_roundtrip ret_run)+
  show ?thesis
    unfolding platform_from_dict_def platform_to_dict_def
    by (simp add: section_of_dict parts field_float_def field_text_def field_bool_def dget_or_dict_of) (simp add: ret_run)
qed

end
