(* ===== verification/Llm_Config.thy ===== *)
theory Llm_Config
  imports Config
begin

text \<open>
  \<open>ai_platform/llm/config.py\<close>: the \<open>.env\<close> file, the gateway's configuration from arguments and environment,
  and the judge's from its YAML file. Files are given by their lines, \<open>None\<close> when there is none.
\<close>

section \<open>Texts\<close>

definition rstrip :: "string \<Rightarrow> string" where
  "rstrip s = rev (dropWhile is_ws (rev s))"

definition rstrip_char :: "char \<Rightarrow> string \<Rightarrow> string" where
  "rstrip_char c s = rev (dropWhile (\<lambda>d. d = c) (rev s))"

definition strip_char :: "char \<Rightarrow> string \<Rightarrow> string" where
  "strip_char c s = rstrip_char c (dropWhile (\<lambda>d. d = c) s)"

definition ends_with :: "string \<Rightarrow> string \<Rightarrow> bool" where
  "ends_with p s = starts_with (rev p) (rev s)"

definition quote_char :: char where
  "quote_char = CHR 0x22"

section \<open>The environment file\<close>

text \<open>The assignment in a line: comments, blank lines and lines without an equals sign have none.\<close>

definition env_assignment :: "string \<Rightarrow> (string \<times> string) option" where
  "env_assignment raw =
     (let line = strip raw in
      if line = [] \<or> starts_with ''#'' line then None
      else (case split_first (\<lambda>c. c = CHR ''='') line of
          (n, None) \<Rightarrow> None
        | (n, Some v) \<Rightarrow> Some (strip n, strip_char (CHR 0x27) (strip_char quote_char (strip v)))))"

definition set_default :: "string \<times> string \<Rightarrow> env \<Rightarrow> env" where
  "set_default nv env = (case nv of (n, v) \<Rightarrow> if n \<noteq> [] \<and> env n = None then env(n \<mapsto> v) else env)"

fun load_env_lines :: "string list \<Rightarrow> env \<Rightarrow> env" where
  "load_env_lines [] env = env"
| "load_env_lines (l # ls) env =
     load_env_lines ls (case env_assignment l of None \<Rightarrow> env | Some nv \<Rightarrow> set_default nv env)"

text \<open>The paths that have been loaded are kept; a path is read once.\<close>

definition load_env_file :: "(string \<Rightarrow> string list option) \<Rightarrow> string \<Rightarrow> string set \<times> env \<Rightarrow> string set \<times> env" where
  "load_env_file file path st =
     (case st of (loaded, env) \<Rightarrow>
      if path \<in> loaded then (loaded, env)
      else (insert path loaded, case file path of None \<Rightarrow> env | Some ls \<Rightarrow> load_env_lines ls env))"

definition managed_keys :: "string list" where
  "managed_keys = [''LLM_GATEWAY_PROVIDER'', ''LLM_GATEWAY_ENDPOINT'', ''LLM_GATEWAY_API_KEY'', ''LLM_GATEWAY_MODEL'',
     ''LLM_GATEWAY_TIMEOUT_SEC'']"

definition isolate_repo_env :: "string set \<times> env \<Rightarrow> string set \<times> env" where
  "isolate_repo_env st = ({}, fold (\<lambda>n env. env(n \<mapsto> [])) managed_keys (snd st))"

section \<open>Gateway\<close>

record gateway_config =
  gc_provider :: string
  gc_model :: string
  gc_endpoint :: string
  gc_api_key :: string
  gc_timeout_sec :: rat

definition default_openai_url :: string where
  "default_openai_url = ''https://dashscope.aliyuncs.com/compatible-mode/v1''"

definition default_ollama_url :: string where
  "default_ollama_url = ''http://localhost:11434''"

definition default_generate_url :: string where
  "default_generate_url = ''http://localhost:11434/api/generate''"

fun first_non_empty :: "string option list \<Rightarrow> string option" where
  "first_non_empty [] = None"
| "first_non_empty (None # vs) = first_non_empty vs"
| "first_non_empty (Some v # vs) = (if strip v \<noteq> [] then Some (strip v) else first_non_empty vs)"

definition or_empty :: "string option \<Rightarrow> string" where
  "or_empty v = (case v of None \<Rightarrow> [] | Some s \<Rightarrow> s)"

definition normalize_provider :: "string option \<Rightarrow> string" where
  "normalize_provider v =
     (let p = or_empty v in
      if p = [] then ''ollama_chat''
      else (case map_of [(''auto'', ''ollama_chat''), (''ollama'', ''ollama_generate''), (''openai'', ''openai_compatible''),
          (''openai_compatible'', ''openai_compatible''), (''ollama_chat'', ''ollama_chat''),
          (''ollama_generate'', ''ollama_generate''), (''mock'', ''mock'')] p of None \<Rightarrow> p | Some q \<Rightarrow> q))"

definition legacy_provider :: "env \<Rightarrow> string" where
  "legacy_provider env = normalize_provider (Some (or_default (lower (strip (getenv env ''LLM_BACKEND'' ''auto''))) ''auto''))"

definition default_endpoint :: "string \<Rightarrow> string" where
  "default_endpoint p = (if p = ''openai_compatible'' then default_openai_url
     else if p = ''ollama_generate'' then default_generate_url else default_ollama_url)"

text \<open>\<open>float(text)\<close> with a fallback; infinities and NaN are not modelled.\<close>

definition timeout_of :: "string option \<Rightarrow> rat" where
  "timeout_of v = (case v of None \<Rightarrow> 120 | Some s \<Rightarrow> (case read_float s of None \<Rightarrow> 120 | Some r \<Rightarrow> r))"

record gateway_args =
  ga_provider :: "string option"
  ga_model :: "string option"
  ga_endpoint :: "string option"
  ga_api_key :: "string option"
  ga_timeout_sec :: "rat option"

definition resolve_provider :: "env \<Rightarrow> gateway_args \<Rightarrow> string" where
  "resolve_provider env a =
     normalize_provider (first_non_empty [ga_provider a, env ''LLM_GATEWAY_PROVIDER'', Some (legacy_provider env)])"

definition resolve_model :: "env \<Rightarrow> gateway_args \<Rightarrow> string \<Rightarrow> string option" where
  "resolve_model env a p = first_non_empty [ga_model a, env ''LLM_GATEWAY_MODEL'', env ''LLM_MODEL'',
     Some (if p = ''openai_compatible'' then ''qwen-plus'' else ''qwen2.5:7b'')]"

definition resolve_endpoint :: "env \<Rightarrow> gateway_args \<Rightarrow> string \<Rightarrow> string option" where
  "resolve_endpoint env a p = first_non_empty [ga_endpoint a, env ''LLM_GATEWAY_ENDPOINT'',
     if p = ''openai_compatible'' then env ''LLM_BASE_URL'' else None,
     if p \<in> {''ollama_chat'', ''ollama_generate''} then env ''OLLAMA_ENDPOINT'' else None, Some (default_endpoint p)]"

definition resolve_key :: "env \<Rightarrow> string option \<Rightarrow> string" where
  "resolve_key env own = or_empty (first_non_empty [own, env ''LLM_GATEWAY_API_KEY'', env ''LLM_API_KEY'', Some []])"

text \<open>A timeout that is given is turned into its text and read again, so it is the timeout.\<close>

definition resolve_timeout :: "env \<Rightarrow> rat option \<Rightarrow> rat" where
  "resolve_timeout env own = (case own of Some t \<Rightarrow> t
     | None \<Rightarrow> timeout_of (first_non_empty [env ''LLM_GATEWAY_TIMEOUT_SEC'', env ''LLM_TIMEOUT_SEC'', Some ''120.0'']))"

definition load_gateway_config :: "env \<Rightarrow> gateway_args \<Rightarrow> gateway_config" where
  "load_gateway_config env a =
     (let p = resolve_provider env a in
      \<lparr>gc_provider = p, gc_model = or_empty (resolve_model env a p),
       gc_endpoint = or_default (or_empty (resolve_endpoint env a p)) (default_endpoint p),
       gc_api_key = resolve_key env (ga_api_key a), gc_timeout_sec = resolve_timeout env (ga_timeout_sec a)\<rparr>)"

section \<open>The judge's configuration\<close>

text \<open>One line of the simple YAML: a comment, the head of a section, or an entry of the section or of the top.\<close>

definition yaml_line :: "string \<Rightarrow> dict \<times> string \<Rightarrow> dict \<times> string" where
  "yaml_line raw st =
     (case st of (cfg, current) \<Rightarrow>
      let line = rstrip raw in
      if line = [] \<or> starts_with ''#'' (lstrip line) then st
      else if \<not> starts_with '' '' line \<and> ends_with '':'' line then
        (dset (butlast line) (JObj fmempty) cfg, butlast line)
      else (case split_first (\<lambda>c. c = CHR '':'') line of
          (k, None) \<Rightarrow> st
        | (k, Some v) \<Rightarrow>
            let key = strip k; val = JStr (strip_char quote_char (strip v)) in
            if current \<noteq> [] \<and> starts_with ''  '' line then
              (let cfg' = dsetdefault current (JObj fmempty) cfg in
               case dget_or cfg' current JNull of
                 JObj d \<Rightarrow> (dset current (JObj (dset key val d)) cfg', current)
               | _ \<Rightarrow> (cfg', current))
            else (dset key val cfg, current)))"

definition parse_simple_yaml :: "string list \<Rightarrow> dict" where
  "parse_simple_yaml ls = fst (fold yaml_line ls (fmempty, []))"

text \<open>The section \<open>judge\<close>; its values are texts, as the parser makes them.\<close>

definition judge_section :: "string list option \<Rightarrow> dict" where
  "judge_section file = (case file of None \<Rightarrow> fmempty
     | Some ls \<Rightarrow> (case dget_or (parse_simple_yaml ls) ''judge'' (JObj fmempty) of JObj d \<Rightarrow> d | _ \<Rightarrow> fmempty))"

definition text_of :: "dict \<Rightarrow> string \<Rightarrow> string option" where
  "text_of d k = (case dget d k of Some (JStr s) \<Rightarrow> Some s | _ \<Rightarrow> None)"

definition load_judge_config :: "env \<Rightarrow> string list option \<Rightarrow> gateway_config" where
  "load_judge_config env file =
     (let judge = judge_section file;
          p = normalize_provider (first_non_empty [env ''LLM_GATEWAY_PROVIDER'', text_of judge ''provider'',
            env ''LLM_BACKEND'', Some ''ollama_generate'']);
          endpoint = first_non_empty [env ''LLM_GATEWAY_ENDPOINT'', text_of judge ''endpoint'',
            if starts_with ''ollama'' p then env ''OLLAMA_ENDPOINT'' else None, Some (default_endpoint p)] in
      \<lparr>gc_provider = p,
       gc_model = or_default (or_empty (first_non_empty [env ''LLM_GATEWAY_MODEL'', text_of judge ''model'', env ''LLM_MODEL'',
         Some ''qwen2.5:7b''])) ''qwen2.5:7b'',
       gc_endpoint = or_default (or_empty endpoint) (default_endpoint p),
       gc_api_key = resolve_key env None, gc_timeout_sec = resolve_timeout env None\<rparr>)"

end
