(* ===== verification/Llm_Gateway.thy ===== *)
theory Llm_Gateway
  imports Llm_Config Collector
begin

text \<open>
  \<open>ai_platform/llm\<close>: requests and answers, the reading of JSON from a model's text, the providers and the
  gateway. The HTTP client and the JSON parser are parameters. A raised \<open>LLMError\<close> is a value of a sum, so
  a program's exceptions are the others.
\<close>

section \<open>Requests, answers and errors\<close>

datatype response_format = TextFormat | JsonFormat

record llm_request =
  lq_prompt :: string
  lq_system :: string
  lq_model :: "string option"
  lq_provider :: "string option"
  lq_format :: response_format
  lq_timeout_sec :: "rat option"
  lq_metadata :: dict

record llm_response =
  lp_content :: json
  lp_parsed_json :: json
  lp_provider :: string
  lp_model :: string
  lp_latency_ms :: rat
  lp_raw :: json
  lp_prompt_tokens :: "int option"
  lp_completion_tokens :: "int option"
  lp_total_tokens :: "int option"

text \<open>Without the field \<open>raw\<close>, which holds the exception or the body.\<close>

record llm_error =
  lx_provider :: string
  lx_model :: string
  lx_error_type :: string
  lx_retryable :: bool
  lx_message :: string

definition make_llm_error :: "string \<Rightarrow> string \<Rightarrow> string \<Rightarrow> bool \<Rightarrow> string \<Rightarrow> llm_error" where
  "make_llm_error provider model kind retryable message = \<lparr>lx_provider = provider, lx_model = model, lx_error_type = kind,
     lx_retryable = retryable, lx_message = message\<rparr>"

type_synonym 'w provider = "llm_request \<Rightarrow> ('w, llm_error + llm_response) prog"

definition given_or :: "string option \<Rightarrow> string \<Rightarrow> string" where
  "given_or v d = or_default (or_empty v) d"

section \<open>JSON in a text\<close>

text \<open>The text before and after the first occurrence.\<close>

fun cut_at :: "string \<Rightarrow> string \<Rightarrow> (string \<times> string) option" where
  "cut_at p [] = None"
| "cut_at p (c # s) =
     (if starts_with p (c # s) then Some ([], drop (length p) (c # s))
      else map_option (\<lambda>(a, b). (c # a, b)) (cut_at p s))"

definition fence :: string where
  "fence = replicate 3 (CHR 0x60)"

text \<open>The first pattern: the trimmed text between the first fence of JSON and the next fence.\<close>

definition fenced_json :: "string \<Rightarrow> string option" where
  "fenced_json s =
     (case cut_at (fence @ ''json'') s of None \<Rightarrow> None
      | Some (a, b) \<Rightarrow> map_option (\<lambda>(x, y). strip x) (cut_at fence b))"

text \<open>The text up to the last \<open>c\<close>, with it.\<close>

definition up_to_last :: "char \<Rightarrow> string \<Rightarrow> string" where
  "up_to_last c s = rev (dropWhile (\<lambda>d. d \<noteq> c) (rev s))"

text \<open>The second pattern: from the first opening bracket with a closing one after it to the last closing one.\<close>

fun bracketed_json :: "string \<Rightarrow> string option" where
  "bracketed_json [] = None"
| "bracketed_json (c # s) =
     (if c = CHR ''['' \<and> CHR '']'' \<in> set s then Some (c # up_to_last (CHR '']'') s)
      else if c = CHR ''{'' \<and> CHR ''}'' \<in> set s then Some (c # up_to_last (CHR ''}'') s)
      else bracketed_json s)"

definition extract_json_payload :: "(string \<Rightarrow> exn + json) \<Rightarrow> string \<Rightarrow> exn + json" where
  "extract_json_payload loads s =
     (case fenced_json s of Some x \<Rightarrow> loads x
      | None \<Rightarrow> (case bracketed_json s of Some x \<Rightarrow> loads x | None \<Rightarrow> loads s))"

text \<open>A content that is no text fails in the regular expression.\<close>

definition parsed_content :: "(string \<Rightarrow> exn + json) \<Rightarrow> response_format \<Rightarrow> json \<Rightarrow> ('w, json) prog" where
  "parsed_content loads fmt content =
     (case fmt of TextFormat \<Rightarrow> ret JNull
      | JsonFormat \<Rightarrow> (case content of JStr s \<Rightarrow> lift (extract_json_payload loads s)
          | _ \<Rightarrow> raise (TypeError ''expected string or bytes-like object'')))"

section \<open>HTTP\<close>

record http_call =
  hc_url :: string
  hc_payload :: json
  hc_headers :: "(string \<times> string) list"
  hc_timeout :: rat

text \<open>What a call ends with: the decoded body, a timeout or a status; other exceptions are raised.\<close>

datatype http_reply = Replied json | TimedOut | HttpStatus int string

type_synonym 'w http = "http_call \<Rightarrow> ('w, http_reply) prog"

text \<open>The \<open>try\<close> block of the providers; the name is the one their messages start with.\<close>

definition call_model :: "'w http \<Rightarrow> string \<Rightarrow> string \<Rightarrow> string \<Rightarrow> http_call \<Rightarrow> ('w, llm_error + json) prog" where
  "call_model http label provider model call =
     catch
       (bnd (http call) (\<lambda>r. ret (case r of
          Replied v \<Rightarrow> Inr v
        | TimedOut \<Rightarrow> Inl (make_llm_error provider model ''timeout'' True
            (label @ '' request timed out after '' @ py_str (JFloat (hc_timeout call)) @ ''s''))
        | HttpStatus code body \<Rightarrow> Inl (make_llm_error provider model ''http_error'' False
            (label @ '' API error '' @ int_text code @ '': '' @ body)))))
       (\<lambda>e. if is_exception e then ret (Inl (make_llm_error provider model (exn_name e) False (exn_text e))) else raise e)"

definition with_reply :: "(json \<Rightarrow> ('w, llm_response) prog) \<Rightarrow> llm_error + json \<Rightarrow> ('w, llm_error + llm_response) prog" where
  "with_reply f out = (case out of Inl x \<Rightarrow> ret (Inl x) | Inr raw \<Rightarrow> bnd (f raw) (\<lambda>r. ret (Inr r)))"

definition coerce_int :: "json \<Rightarrow> int option" where
  "coerce_int v = (case json_int v of Inl e \<Rightarrow> None | Inr n \<Rightarrow> Some n)"

definition sum_tokens :: "dict \<Rightarrow> int option" where
  "sum_tokens raw =
     (case (coerce_int (dget_or raw ''prompt_eval_count'' JNull), coerce_int (dget_or raw ''eval_count'' JNull)) of
        (Some a, Some b) \<Rightarrow> Some (a + b) | _ \<Rightarrow> None)"

section \<open>Providers\<close>

record provider_settings =
  vs_endpoint :: string
  vs_model :: string
  vs_api_key :: string
  vs_timeout_sec :: rat

definition request_timeout :: "provider_settings \<Rightarrow> llm_request \<Rightarrow> rat" where
  "request_timeout s q = (case lq_timeout_sec q of Some t \<Rightarrow> t | None \<Rightarrow> vs_timeout_sec s)"

definition chat_messages :: "llm_request \<Rightarrow> json list" where
  "chat_messages q =
     (if lq_system q \<noteq> [] then [JObj (dict_of [(''role'', JStr ''system''), (''content'', JStr (lq_system q))])] else []) @
     [JObj (dict_of [(''role'', JStr ''user''), (''content'', JStr (lq_prompt q))])]"

definition json_header :: "(string \<times> string) list" where
  "json_header = [(''Content-Type'', ''application/json'')]"

definition api_url :: "string \<Rightarrow> string \<Rightarrow> string" where
  "api_url path endpoint = (if ends_with path endpoint then endpoint else rstrip_char (CHR ''/'') endpoint @ path)"

definition ollama_chat_answer ::
  "(string \<Rightarrow> exn + json) \<Rightarrow> llm_request \<Rightarrow> string \<Rightarrow> string \<Rightarrow> rat \<Rightarrow> json \<Rightarrow> (('s, 'z) world_scheme, llm_response) prog" where
  "ollama_chat_answer loads q provider model started raw =
     bnd py_time (\<lambda>now.
     bnd (as_dict raw) (\<lambda>d.
     bnd (as_dict (dget_or d ''message'' (JObj fmempty))) (\<lambda>message.
     let content = dget_or message ''content'' (JStr []) in
     bnd (parsed_content loads (lq_format q) content) (\<lambda>parsed.
     ret \<lparr>lp_content = content, lp_parsed_json = parsed, lp_provider = provider, lp_model = model,
       lp_latency_ms = (now - started) * 1000, lp_raw = raw,
       lp_prompt_tokens = coerce_int (dget_or d ''prompt_eval_count'' JNull),
       lp_completion_tokens = coerce_int (dget_or d ''eval_count'' JNull), lp_total_tokens = sum_tokens d\<rparr>))))"

definition ollama_chat ::
  "(string \<Rightarrow> exn + json) \<Rightarrow> ('s, 'z) world_scheme http \<Rightarrow> provider_settings \<Rightarrow> ('s, 'z) world_scheme provider" where
  "ollama_chat loads http s q =
     (let provider = given_or (lq_provider q) ''ollama_chat''; model = given_or (lq_model q) (vs_model s) in
      bnd py_time (\<lambda>started.
      bnd (call_model http ''Ollama chat'' provider model
             \<lparr>hc_url = api_url ''/api/chat'' (vs_endpoint s),
               hc_payload = JObj (dict_of [(''model'', JStr model), (''messages'', JArr (chat_messages q)), (''stream'', JBool False)]),
               hc_headers = json_header, hc_timeout = request_timeout s q\<rparr>)
        (with_reply (ollama_chat_answer loads q provider model started))))"

text \<open>The \<open>strip()\<close> of a response that is no text fails.\<close>

definition stripped_text :: "json \<Rightarrow> ('w, string) prog" where
  "stripped_text v = (case v of JStr s \<Rightarrow> ret (strip s) | _ \<Rightarrow> raise (AttributeError ''strip''))"

definition ollama_generate_answer ::
  "(string \<Rightarrow> exn + json) \<Rightarrow> llm_request \<Rightarrow> string \<Rightarrow> string \<Rightarrow> rat \<Rightarrow> json \<Rightarrow> (('s, 'z) world_scheme, llm_response) prog" where
  "ollama_generate_answer loads q provider model started raw =
     bnd py_time (\<lambda>now.
     bnd (as_dict raw) (\<lambda>d.
     bnd (stripped_text (dget_or d ''response'' (JStr []))) (\<lambda>content.
     bnd (parsed_content loads (lq_format q) (JStr content)) (\<lambda>parsed.
     ret \<lparr>lp_content = JStr content, lp_parsed_json = parsed, lp_provider = provider, lp_model = model,
       lp_latency_ms = (now - started) * 1000, lp_raw = raw,
       lp_prompt_tokens = coerce_int (dget_or d ''prompt_eval_count'' JNull),
       lp_completion_tokens = coerce_int (dget_or d ''eval_count'' JNull), lp_total_tokens = sum_tokens d\<rparr>))))"

definition compose_prompt :: "string \<Rightarrow> string \<Rightarrow> string" where
  "compose_prompt system prompt = (if strip system \<noteq> [] then rstrip system @ [CHR 0x0A] @ prompt else prompt)"

definition ollama_generate ::
  "(string \<Rightarrow> exn + json) \<Rightarrow> ('s, 'z) world_scheme http \<Rightarrow> provider_settings \<Rightarrow> ('s, 'z) world_scheme provider" where
  "ollama_generate loads http s q =
     (let provider = given_or (lq_provider q) ''ollama_generate''; model = given_or (lq_model q) (vs_model s) in
      bnd py_time (\<lambda>started.
      bnd (call_model http ''Ollama generate'' provider model
             \<lparr>hc_url = vs_endpoint s,
               hc_payload = JObj (dict_of [(''model'', JStr model), (''prompt'', JStr (compose_prompt (lq_system q) (lq_prompt q))),
                 (''stream'', JBool False)]),
               hc_headers = json_header, hc_timeout = request_timeout s q\<rparr>)
        (with_reply (ollama_generate_answer loads q provider model started))))"

text \<open>\<open>choices[0]\<close>.\<close>

definition first_item :: "json \<Rightarrow> ('w, json) prog" where
  "first_item v =
     (case v of JArr (x # xs) \<Rightarrow> ret x | JArr [] \<Rightarrow> raise (OtherError ''IndexError'' ''list index out of range'')
      | JStr (c # s) \<Rightarrow> ret (JStr [c]) | JObj d \<Rightarrow> raise (KeyError ''0'')
      | _ \<Rightarrow> raise (TypeError ''object is not subscriptable''))"

definition openai_message :: "dict \<Rightarrow> ('w, json) prog" where
  "openai_message d =
     (let choices = dget_or d ''choices'' (JArr []) in
      if truthy choices then
        bnd (first_item choices) (\<lambda>c. bnd (subscript c ''message'') (\<lambda>m. subscript m ''content''))
      else ret (JStr []))"

definition openai_answer ::
  "(string \<Rightarrow> exn + json) \<Rightarrow> llm_request \<Rightarrow> string \<Rightarrow> string \<Rightarrow> rat \<Rightarrow> json \<Rightarrow> (('s, 'z) world_scheme, llm_response) prog" where
  "openai_answer loads q provider model started raw =
     bnd py_time (\<lambda>now.
     bnd (as_dict raw) (\<lambda>d.
     bnd (openai_message d) (\<lambda>message.
     bnd (parsed_content loads (lq_format q) message) (\<lambda>parsed.
     bnd (as_dict (dget_or d ''usage'' (JObj fmempty))) (\<lambda>usage.
     ret \<lparr>lp_content = message, lp_parsed_json = parsed, lp_provider = provider, lp_model = model,
       lp_latency_ms = (now - started) * 1000, lp_raw = raw,
       lp_prompt_tokens = coerce_int (dget_or usage ''prompt_tokens'' JNull),
       lp_completion_tokens = coerce_int (dget_or usage ''completion_tokens'' JNull),
       lp_total_tokens = coerce_int (dget_or usage ''total_tokens'' JNull)\<rparr>)))))"

definition openai_compatible ::
  "(string \<Rightarrow> exn + json) \<Rightarrow> ('s, 'z) world_scheme http \<Rightarrow> provider_settings \<Rightarrow> ('s, 'z) world_scheme provider" where
  "openai_compatible loads http s q =
     (let provider = given_or (lq_provider q) ''openai_compatible''; model = given_or (lq_model q) (vs_model s) in
      if vs_api_key s = [] then
        ret (Inl (make_llm_error provider model ''missing_api_key'' False ''LLM_API_KEY is required for openai_compatible provider''))
      else
        bnd py_time (\<lambda>started.
        bnd (call_model http ''OpenAI-compatible'' provider model
               \<lparr>hc_url = api_url ''/chat/completions'' (vs_endpoint s),
                 hc_payload = JObj (dict_of [(''model'', JStr model), (''messages'', JArr (chat_messages q))]),
                 hc_headers = json_header @ [(''Authorization'', ''Bearer '' @ vs_api_key s)],
                 hc_timeout = request_timeout s q\<rparr>)
          (with_reply (openai_answer loads q provider model started))))"

subsection \<open>The mock\<close>

record mock_settings =
  ms_response :: string
  ms_parsed_json :: json
  ms_error :: "(exn + llm_error) option"
  ms_latency_ms :: rat
  ms_provider_name :: string
  ms_model_name :: string

definition default_mock :: mock_settings where
  "default_mock = \<lparr>ms_response = [], ms_parsed_json = JNull, ms_error = None, ms_latency_ms = 0, ms_provider_name = ''mock'',
     ms_model_name = ''mock-model''\<rparr>"

definition mock_parsed :: "(string \<Rightarrow> exn + json) \<Rightarrow> mock_settings \<Rightarrow> response_format \<Rightarrow> ('w, json) prog" where
  "mock_parsed loads m fmt =
     (if ms_parsed_json m = JNull \<and> fmt = JsonFormat then
        if ms_response m \<noteq> [] then lift (extract_json_payload loads (ms_response m)) else ret (JObj fmempty)
      else ret (ms_parsed_json m))"

definition mock_generate :: "(string \<Rightarrow> exn + json) \<Rightarrow> mock_settings \<Rightarrow> 'w provider" where
  "mock_generate loads m q =
     (let provider = given_or (lq_provider q) (ms_provider_name m); model = given_or (lq_model q) (ms_model_name m) in
      case ms_error m of
        Some (Inr x) \<Rightarrow> ret (Inl x)
      | Some (Inl e) \<Rightarrow> ret (Inl (make_llm_error provider model (exn_name e) False (exn_text e)))
      | None \<Rightarrow>
          bnd (mock_parsed loads m (lq_format q)) (\<lambda>parsed.
          ret (Inr \<lparr>lp_content = JStr (ms_response m), lp_parsed_json = parsed, lp_provider = provider, lp_model = model,
            lp_latency_ms = ms_latency_ms m,
            lp_raw = JObj (dict_of [(''mock'', JBool True), (''metadata'', JObj (lq_metadata q))]),
            lp_prompt_tokens = None, lp_completion_tokens = None, lp_total_tokens = None\<rparr>)))"

section \<open>Gateway\<close>

record 'w gateway =
  gw_config :: gateway_config
  gw_providers :: "string \<Rightarrow> 'w provider option"

definition normalized_request :: "gateway_config \<Rightarrow> llm_request \<Rightarrow> llm_request" where
  "normalized_request c q = q\<lparr>lq_provider := Some (given_or (lq_provider q) (gc_provider c)),
     lq_model := Some (given_or (lq_model q) (gc_model c)),
     lq_timeout_sec := Some (case lq_timeout_sec q of Some t \<Rightarrow> t | None \<Rightarrow> gc_timeout_sec c)\<rparr>"

definition gateway_generate :: "'w gateway \<Rightarrow> 'w provider" where
  "gateway_generate g q =
     (let q' = normalized_request (gw_config g) q; name = or_empty (lq_provider q'); model = or_empty (lq_model q') in
      case gw_providers g name of
        None \<Rightarrow> ret (Inl (make_llm_error name model ''provider_not_found'' False (''Unknown LLM provider: '' @ name)))
      | Some generate \<Rightarrow>
          catch (generate q')
            (\<lambda>e. if is_exception e then ret (Inl (make_llm_error name model (exn_name e) False (exn_text e))) else raise e))"

text \<open>The endpoint of the configuration goes to the configured provider only.\<close>

definition settings_for :: "gateway_config \<Rightarrow> string \<Rightarrow> string \<Rightarrow> string \<Rightarrow> provider_settings" where
  "settings_for c name url key = \<lparr>vs_endpoint = (if gc_provider c = name then or_default (gc_endpoint c) url else url),
     vs_model = gc_model c, vs_api_key = key, vs_timeout_sec = gc_timeout_sec c\<rparr>"

definition default_providers ::
  "(string \<Rightarrow> exn + json) \<Rightarrow> ('s, 'z) world_scheme http \<Rightarrow> gateway_config \<Rightarrow> string \<Rightarrow> ('s, 'z) world_scheme provider option" where
  "default_providers loads http c = map_of
     [(''mock'', mock_generate loads default_mock),
      (''ollama_chat'', ollama_chat loads http (settings_for c ''ollama_chat'' default_ollama_url [])),
      (''ollama_generate'', ollama_generate loads http (settings_for c ''ollama_generate'' default_generate_url [])),
      (''openai_compatible'', openai_compatible loads http
         (settings_for c ''openai_compatible'' default_openai_url (gc_api_key c)))]"

definition default_gateway ::
  "(string \<Rightarrow> exn + json) \<Rightarrow> ('s, 'z) world_scheme http \<Rightarrow> gateway_config \<Rightarrow> ('s, 'z) world_scheme gateway" where
  "default_gateway loads http c = \<lparr>gw_config = c, gw_providers = default_providers loads http c\<rparr>"

end
