(* ===== verification/Llm_Correct.thy ===== *)
theory Llm_Correct
  imports Llm_Gateway
begin

text \<open>
  The gateway to the models: what the environment file sets, that a loaded configuration is complete, how
  the gateway fails, and where the API key goes.
\<close>

section \<open>The environment file\<close>

definition assignments :: "string list \<Rightarrow> (string \<times> string) list" where
  "assignments ls = concat (map (\<lambda>l. case env_assignment l of None \<Rightarrow> [] | Some nv \<Rightarrow> [nv]) ls)"

text \<open>
  Loading an environment file leaves every variable that is set as it is; a variable that is not set
  gets the value of the first line that assigns it, and a name that no line assigns stays unset.
\<close>

theorem env_file_first_wins:
  "load_env_lines ls env n =
     (case env n of Some v \<Rightarrow> Some v | None \<Rightarrow> if n = [] then None else map_of (assignments ls) n)"
proof (induction ls arbitrary: env)
  case Nil
  then show ?case by (simp add: assignments_def split: option.split)
next
  case (Cons l ls)
  then show ?case
    by (auto simp: assignments_def set_default_def split: option.splits prod.splits)
qed

corollary env_file_idempotent: "load_env_lines ls (load_env_lines ls env) = load_env_lines ls env"
  by (rule ext) (simp add: env_file_first_wins split: option.splits)

section \<open>Configuration\<close>

text \<open>A text that is not blank and has no blanks around it.\<close>

definition trimmed :: "string \<Rightarrow> bool" where
  "trimmed s \<longleftrightarrow> s \<noteq> [] \<and> strip s = s"

lemma strip_strip: "strip (strip s) = strip s"
proof -
  have ends: "s = [] \<or> (\<not> is_ws (hd s) \<and> \<not> is_ws (last s))" if "s = strip t" for s t
  proof -
    let ?u = "dropWhile is_ws t"
    let ?v = "dropWhile is_ws (rev ?u)"
    have s: "s = rev ?v" using that by (simp add: strip_def)
    have "?v = [] \<or> \<not> is_ws (hd ?v)" using hd_dropWhile [of is_ws "rev ?u"] by auto
    moreover have "?v = [] \<or> \<not> is_ws (last ?v)"
    proof (cases "?v = []")
      case False
      have "suffix ?v (rev ?u)" by (simp add: suffix_dropWhile)
      then have "last ?v = last (rev ?u)" using False by (metis suffix_def last_appendR)
      moreover have "?u \<noteq> []" using False by (metis dropWhile.simps(1) rev.simps(1))
      ultimately have "last ?v = hd ?u" by (simp add: last_rev)
      then show ?thesis using hd_dropWhile [of is_ws t] \<open>?u \<noteq> []\<close> by auto
    qed simp
    ultimately show ?thesis using s by (auto simp: hd_rev last_rev)
  qed
  have id: "strip u = u" if "u = [] \<or> (\<not> is_ws (hd u) \<and> \<not> is_ws (last u))" for u
  proof (cases "u = []")
    case False
    then have "dropWhile is_ws u = u" using that by (cases u) auto
    moreover have "dropWhile is_ws (rev u) = rev u" using that False by (cases "rev u") (auto simp: hd_rev [symmetric])
    ultimately show ?thesis by (simp add: strip_def)
  qed (simp add: strip_def)
  show ?thesis using id [OF ends [OF refl]] .
qed

lemma first_non_empty_trimmed: "first_non_empty vs = Some s \<Longrightarrow> trimmed s"
  by (induction vs rule: first_non_empty.induct) (auto simp: trimmed_def strip_strip split: if_splits)

lemma first_non_empty_last: "strip d \<noteq> [] \<Longrightarrow> first_non_empty (vs @ [Some d]) \<noteq> None"
  by (induction vs rule: first_non_empty.induct) auto

lemma trimmed_first: "strip d \<noteq> [] \<Longrightarrow> trimmed (or_empty (first_non_empty (vs @ [Some d])))"
  using first_non_empty_last [of d vs] first_non_empty_trimmed [of "vs @ [Some d]"] by (auto simp: or_empty_def)

lemma trimmed_normalize: "(\<And>s. v = Some s \<Longrightarrow> trimmed s) \<Longrightarrow> trimmed (normalize_provider v)"
  by (cases v) (auto simp: normalize_provider_def or_empty_def trimmed_def Let_def strip_def is_ws_def split: option.splits if_splits)

lemma trimmed_endpoint: "trimmed (default_endpoint p)"
  by (simp add: trimmed_def default_endpoint_def default_openai_url_def default_generate_url_def default_ollama_url_def
      strip_def is_ws_def)

definition complete :: "gateway_config \<Rightarrow> bool" where
  "complete c \<longleftrightarrow> trimmed (gc_provider c) \<and> trimmed (gc_model c) \<and> trimmed (gc_endpoint c)"

lemma or_default_trimmed: "trimmed a \<Longrightarrow> or_default a b = a"
  by (simp add: or_default_def trimmed_def)

lemma complete_configs:
  "complete (load_gateway_config env a) \<and> complete (load_judge_config env file)"
proof -
  have key: "trimmed (or_empty (first_non_empty (vs @ [Some (default_endpoint p)])))" for vs p
    using trimmed_endpoint [of p] by (intro trimmed_first) (simp add: trimmed_def)
  have plain: "strip ''qwen-plus'' \<noteq> []" "strip ''qwen2.5:7b'' \<noteq> []" "strip ''ollama_generate'' \<noteq> []"
    by (simp_all add: strip_def is_ws_def)
  have provider: "trimmed (normalize_provider (first_non_empty vs))" for vs
    by (rule trimmed_normalize) (rule first_non_empty_trimmed)
  have endpoint: "trimmed (or_default (or_empty (first_non_empty [v1, v2, v3, v4, Some (default_endpoint p)])) d)"
    "trimmed (or_default (or_empty (first_non_empty [v1, v2, v3, Some (default_endpoint p)])) d)" for v1 v2 v3 v4 p d
    using key [of "[v1, v2, v3, v4]" p] key [of "[v1, v2, v3]" p] by (simp_all add: or_default_trimmed)
  have model: "trimmed (or_empty (first_non_empty [v1, v2, v3, Some d]))" if "strip d \<noteq> []" for v1 v2 v3 d
    using trimmed_first [OF that, of "[v1, v2, v3]"] by simp
  have "trimmed (gc_model (load_gateway_config env a))"
    using model [OF plain(1)] model [OF plain(2)] by (simp add: load_gateway_config_def resolve_model_def Let_def)
  moreover have "trimmed (gc_model (load_judge_config env file))"
    using model [OF plain(2)] by (simp add: load_judge_config_def Let_def or_default_trimmed)
  ultimately show ?thesis
    using provider endpoint
    by (simp add: complete_def load_gateway_config_def load_judge_config_def resolve_provider_def resolve_endpoint_def Let_def)
qed

text \<open>
  Whatever the arguments, the environment and the YAML file are, the configurations of the gateway and
  of the judge have a provider, a model and an endpoint, none of them blank or with blanks around it.
\<close>

theorem configurations_complete:
  "complete (load_gateway_config env a) \<and> complete (load_judge_config env file)"
  by (rule complete_configs)

section \<open>Outcomes\<close>

text \<open>An error or an answer that names the provider and the model; only timeouts are worth a retry.\<close>

definition error_for :: "string \<Rightarrow> string \<Rightarrow> llm_error \<Rightarrow> bool" where
  "error_for p m x \<longleftrightarrow> lx_provider x = p \<and> lx_model x = m \<and> (lx_retryable x \<longrightarrow> lx_error_type x = ''timeout'')"

definition answer_for :: "string \<Rightarrow> string \<Rightarrow> llm_response \<Rightarrow> bool" where
  "answer_for p m r \<longleftrightarrow> lp_provider r = p \<and> lp_model r = m"

definition outcome_for :: "string \<Rightarrow> string \<Rightarrow> llm_error + llm_response \<Rightarrow> bool" where
  "outcome_for p m out \<longleftrightarrow> (case out of Inl x \<Rightarrow> error_for p m x | Inr r \<Rightarrow> answer_for p m r)"

lemma error_for_llm_error: "error_for p m (make_llm_error p m kind False message)" "error_for p m (make_llm_error p m ''timeout'' b message)"
  by (simp_all add: error_for_def make_llm_error_def)

lemma outcome_error: "outcome_for p m (Inl x) = error_for p m x"
  by (simp add: outcome_for_def)

lemma call_model_outcome:
  "gives (\<lambda>out. case out of Inl x \<Rightarrow> error_for p m x | Inr v \<Rightarrow> True) (\<lambda>_. True) (call_model http label p m call)"
  unfolding call_model_def
  by (rule gives_catch [OF gives_bnd [OF gives_any]])
    (auto intro!: gives_ret gives_raise simp: error_for_llm_error split: http_reply.split)

lemma with_reply_outcome:
  assumes "case out of Inl x \<Rightarrow> error_for p m x | Inr v \<Rightarrow> True" and "\<And>raw. gives (answer_for p m) (\<lambda>_. True) (f raw)"
  shows "gives (outcome_for p m) (\<lambda>_. True) (with_reply f out)"
  using assms by (cases out) (auto simp: with_reply_def outcome_for_def intro!: gives_ret gives_bnd [OF assms(2)])

lemma provider_outcome:
  assumes "\<And>started raw. gives (answer_for p m) (\<lambda>_. True) (f started raw)"
  shows "gives (outcome_for p m) (\<lambda>_. True) (bnd py_time (\<lambda>started. bnd (call_model http label p m call) (with_reply (f started))))"
  by (intro gives_bnd [OF gives_any] gives_bnd [OF call_model_outcome] with_reply_outcome assms)

lemma answers_named:
  "gives (answer_for p m) (\<lambda>_. True) (ollama_chat_answer loads q p m started raw)"
  "gives (answer_for p m) (\<lambda>_. True) (ollama_generate_answer loads q p m started raw)"
  "gives (answer_for p m) (\<lambda>_. True) (openai_answer loads q p m started raw)"
  unfolding ollama_chat_answer_def ollama_generate_answer_def openai_answer_def Let_def
  by (intro gives_bnd [OF gives_any] gives_ret; simp add: answer_for_def)+

lemma mock_outcome:
  "ms_error s = None \<Longrightarrow> gives (outcome_for (given_or (lq_provider q) (ms_provider_name s)) (given_or (lq_model q) (ms_model_name s)))
     (\<lambda>_. True) (mock_generate loads s q)"
  unfolding mock_generate_def Let_def
  by (simp, intro gives_bnd [OF gives_any] gives_ret) (simp add: outcome_for_def answer_for_def)

lemma providers_outcome:
  "gives (outcome_for (given_or (lq_provider q) ''ollama_chat'') (given_or (lq_model q) (vs_model s))) (\<lambda>_. True)
     (ollama_chat loads http s q)"
  "gives (outcome_for (given_or (lq_provider q) ''ollama_generate'') (given_or (lq_model q) (vs_model s))) (\<lambda>_. True)
     (ollama_generate loads http s q)"
  "gives (outcome_for (given_or (lq_provider q) ''openai_compatible'') (given_or (lq_model q) (vs_model s))) (\<lambda>_. True)
     (openai_compatible loads http s q)"
  unfolding ollama_chat_def ollama_generate_def openai_compatible_def Let_def
  by (auto intro!: provider_outcome answers_named gives_ret simp: outcome_error error_for_llm_error)

lemma given_or_Some [simp]: "n \<noteq> [] \<Longrightarrow> given_or (Some n) d = n"
  by (simp add: given_or_def or_empty_def or_default_def)

lemma default_provider_outcome:
  assumes "default_providers loads http c name = Some generate" and "lq_provider q = Some name" and "lq_model q = Some m" and "m \<noteq> []"
  shows "gives (outcome_for name m) (\<lambda>_. True) (generate q)"
  using assms providers_outcome [of q] mock_outcome [of default_mock q loads]
  by (auto simp: default_providers_def default_mock_def split: if_splits)

text \<open>
  C34. The gateway with its own providers answers every request, whatever the server, the JSON parser and
  the environment do: with a response or an error of its own, both of the provider and the model that the
  request and the configuration name, and an error is retryable only if the call timed out.
\<close>

theorem gateway_answers:
  "let c = load_gateway_config env a in
   case gateway_generate (default_gateway loads http c) q w of
      (Inl e, w') \<Rightarrow> \<not> is_exception e
    | (Inr out, w') \<Rightarrow> outcome_for (given_or (lq_provider q) (gc_provider c)) (given_or (lq_model q) (gc_model c)) out"
proof -
  let ?c = "load_gateway_config env a"
  let ?q = "normalized_request ?c q"
  let ?n = "given_or (lq_provider q) (gc_provider ?c)"
  let ?m = "given_or (lq_model q) (gc_model ?c)"
  have "gc_model ?c \<noteq> []" using complete_configs [of env a] by (simp add: complete_def trimmed_def)
  then have m: "?m \<noteq> []" by (simp add: given_or_def or_default_def)
  have q: "lq_provider ?q = Some ?n" "lq_model ?q = Some ?m" by (simp_all add: normalized_request_def)
  then have names: "or_empty (lq_provider ?q) = ?n" "or_empty (lq_model ?q) = ?m" by (simp_all add: or_empty_def)
  have "gives (outcome_for ?n ?m) (\<lambda>e. \<not> is_exception e) (gateway_generate (default_gateway loads http ?c) q)"
  proof (cases "default_providers loads http ?c ?n")
    case None
    then show ?thesis
      by (simp add: gateway_generate_def default_gateway_def names outcome_error error_for_llm_error gives_ret Let_def)
  next
    case (Some generate)
    have run: "gateway_generate (default_gateway loads http ?c) q = catch (generate ?q)
        (\<lambda>e. if is_exception e then ret (Inl (make_llm_error ?n ?m (exn_name e) False (exn_text e))) else raise e)"
      by (simp add: gateway_generate_def default_gateway_def Let_def Some names cong: if_cong)
    show ?thesis
      unfolding run
      by (rule gives_catch [OF default_provider_outcome [OF Some q m]])
        (simp add: outcome_error error_for_llm_error gives_ret gives_raise)
  qed
  from gives_case [OF this, of w] show ?thesis by (simp only: Let_def)
qed

section \<open>The API key\<close>

text \<open>
  A request that goes to another provider than the OpenAI-compatible one does not depend on the API
  key: with any two keys the gateway makes the same calls, gives the same outcome and leaves the same world.
\<close>

theorem key_stays_with_its_provider:
  assumes "given_or (lq_provider q) (gc_provider c) \<noteq> ''openai_compatible''"
  shows "gateway_generate (default_gateway loads http (c\<lparr>gc_api_key := k\<rparr>)) q w = gateway_generate (default_gateway loads http c) q w"
proof -
  let ?n = "given_or (lq_provider q) (gc_provider c)"
  have "default_providers loads http (c\<lparr>gc_api_key := k\<rparr>) ?n = default_providers loads http c ?n"
    using assms by (simp add: default_providers_def settings_for_def)
  moreover have "normalized_request (c\<lparr>gc_api_key := k\<rparr>) q = normalized_request c q"
    by (simp add: normalized_request_def cong: option.case_cong)
  moreover have "or_empty (lq_provider (normalized_request c q)) = ?n" by (simp add: normalized_request_def or_empty_def)
  ultimately show ?thesis by (simp add: gateway_generate_def default_gateway_def Let_def)
qed

definition demo_request :: llm_request where
  "demo_request = \<lparr>lq_prompt = ''hi'', lq_system = [], lq_model = None, lq_provider = Some ''ollama_chat'', lq_format = TextFormat,
     lq_timeout_sec = None, lq_metadata = fmempty\<rparr>"

definition keyed_config :: gateway_config where
  "keyed_config = \<lparr>gc_provider = ''openai_compatible'', gc_model = ''qwen-plus'', gc_endpoint = default_openai_url,
     gc_api_key = ''sk-12345678'', gc_timeout_sec = 120\<rparr>"

theorem key_stays_with_its_provider_witness:
  "\<forall>w :: nat world. gateway_generate (default_gateway (\<lambda>s. Inr JNull) (\<lambda>call. ret TimedOut) (keyed_config\<lparr>gc_api_key := []\<rparr>)) demo_request w =
     gateway_generate (default_gateway (\<lambda>s. Inr JNull) (\<lambda>call. ret TimedOut) keyed_config) demo_request w"
  by (intro allI key_stays_with_its_provider) (simp add: demo_request_def)

end
