(* ===== verification/Redaction.thy ===== *)
theory Redaction
  imports Config
begin

text \<open>
  \<open>ai_platform/security/redaction.py\<close>: secrets are replaced in texts that leave the platform, first the
  known values, then what looks like a key. The three regular expressions are written as matchers: the
  length of the match at a position, given the character before it. Letters are the ASCII ones.
\<close>

section \<open>Known values\<close>

definition redacted_mark :: string where
  "redacted_mark = ''***REDACTED***''"

definition secret_env_vars :: "string list" where
  "secret_env_vars = [''LLM_GATEWAY_API_KEY'', ''LLM_API_KEY'']"

definition active_secrets :: "env \<Rightarrow> string list" where
  "active_secrets env = filter (\<lambda>v. v \<noteq> []) (map (\<lambda>n. strip (getenv env n [])) secret_env_vars)"

definition mask_secret :: "nat \<Rightarrow> string \<Rightarrow> string" where
  "mask_secret keep v = (if length v \<le> keep * 2 then redacted_mark else take keep v @ ''****'')"

text \<open>\<open>text.replace(p, mark)\<close>, from the left and without overlaps.\<close>

fun replace_all :: "string \<Rightarrow> string \<Rightarrow> string" where
  "replace_all p [] = []"
| "replace_all p (c # s) =
     (if p \<noteq> [] \<and> starts_with p (c # s) then redacted_mark @ replace_all p (drop (length p - 1) s)
      else c # replace_all p s)"

section \<open>What looks like a key\<close>

type_synonym matcher = "char option \<Rightarrow> string \<Rightarrow> nat option"

definition is_alnum :: "char \<Rightarrow> bool" where
  "is_alnum c = (let n = of_char c :: nat in (48 \<le> n \<and> n \<le> 57) \<or> (65 \<le> n \<and> n \<le> 90) \<or> (97 \<le> n \<and> n \<le> 122))"

definition is_word :: "char \<Rightarrow> bool" where
  "is_word c = (is_alnum c \<or> c = CHR ''_'')"

definition is_key_char :: "char \<Rightarrow> bool" where
  "is_key_char c = (is_word c \<or> c = CHR ''-'')"

definition is_bearer_char :: "char \<Rightarrow> bool" where
  "is_bearer_char c = (is_key_char c \<or> c = CHR ''.'')"

definition is_value_char :: "char \<Rightarrow> bool" where
  "is_value_char c = (\<not> is_ws c \<and> c \<notin> {CHR '','', CHR '';'', CHR 0x22, CHR 0x27})"

text \<open>At least \<open>n\<close> characters of a class, as many as there are.\<close>

definition run_of :: "(char \<Rightarrow> bool) \<Rightarrow> nat \<Rightarrow> string \<Rightarrow> nat option" where
  "run_of cls n s = (let k = length (takeWhile cls s) in if n \<le> k then Some k else None)"

definition match_sk :: matcher where
  "match_sk prev s = (if starts_with ''sk-'' s then map_option (\<lambda>n. 3 + n) (run_of is_key_char 8 (drop 3 s)) else None)"

definition match_bearer :: matcher where
  "match_bearer prev s =
     (if starts_with ''bearer'' (lower s) then
        (let r = drop 6 s; k = length (takeWhile is_ws r) in
         if k = 0 then None else map_option (\<lambda>n. 6 + k + n) (run_of is_bearer_char 8 (drop k r)))
      else None)"

text \<open>After the name of a field: the end of the word, an equals sign or a colon, and the value.\<close>

definition field_value :: "string \<Rightarrow> nat option" where
  "field_value r =
     (if r \<noteq> [] \<and> is_word (hd r) then None
      else (let a = length (takeWhile is_ws r) in
        case drop a r of
          c # s \<Rightarrow> if c \<in> {CHR ''='', CHR '':''} then
              (let b = length (takeWhile is_ws s) in map_option (\<lambda>n. a + 1 + b + n) (run_of is_value_char 1 (drop b s)))
            else None
        | [] \<Rightarrow> None))"

fun match_names :: "string list \<Rightarrow> string \<Rightarrow> nat option" where
  "match_names [] s = None"
| "match_names (k # ks) s =
     (case (if starts_with k (lower s) then field_value (drop (length k) s) else None) of
        Some n \<Rightarrow> Some (length k + n) | None \<Rightarrow> match_names ks s)"

definition match_field :: matcher where
  "match_field prev s =
     (case prev of Some c \<Rightarrow> if is_word c then None
          else match_names [''api_key'', ''api-key'', ''apikey'', ''token'', ''secret'', ''password''] s
      | None \<Rightarrow> match_names [''api_key'', ''api-key'', ''apikey'', ''token'', ''secret'', ''password''] s)"

text \<open>\<open>pattern.sub(mark, text)\<close>; no match is empty.\<close>

fun sub_all :: "matcher \<Rightarrow> char option \<Rightarrow> string \<Rightarrow> string" where
  "sub_all m prev [] = []"
| "sub_all m prev (c # s) =
     (case m prev (c # s) of
        None \<Rightarrow> c # sub_all m (Some c) s
      | Some n \<Rightarrow> redacted_mark @ sub_all m (Some ((c # s) ! (n - 1))) (drop (n - 1) s))"

section \<open>Redaction\<close>

definition redact :: "env \<Rightarrow> string list option \<Rightarrow> string \<Rightarrow> string" where
  "redact env secrets s =
     (if s = [] then s
      else
        let known = (case secrets of Some xs \<Rightarrow> xs | None \<Rightarrow> active_secrets env);
            cleaned = fold (\<lambda>secret t. if secret \<noteq> [] then replace_all secret t else t) known s in
        fold (\<lambda>m t. sub_all m None t) [match_sk, match_bearer, match_field] cleaned)"

section \<open>Correctness\<close>

text \<open>A text with some parts of it replaced by the mark.\<close>

inductive covered :: "string \<Rightarrow> string \<Rightarrow> bool" where
  covered_end: "covered [] []"
| covered_keep: "covered s t \<Longrightarrow> covered (c # s) (c # t)"
| covered_mark: "covered s t \<Longrightarrow> covered (x @ s) (redacted_mark @ t)"

lemma covered_refl: "covered s s"
  by (induction s) (auto intro: covered.intros)

lemma covered_replace_all: "covered s (replace_all p s)"
proof (induction p s rule: replace_all.induct)
  case (2 p c s)
  show ?case
  proof (cases "p \<noteq> [] \<and> starts_with p (c # s)")
    case True
    then have "covered ((c # take (length p - 1) s) @ drop (length p - 1) s) (replace_all p (c # s))"
      unfolding replace_all.simps if_P [OF True] by (intro covered_mark 2(1)) auto
    then show ?thesis by simp
  next
    case False
    then show ?thesis using 2(2) by (auto intro: covered_keep)
  qed
qed (simp add: covered_end)

lemma covered_sub_all: "covered s (sub_all m prev s)"
proof (induction m prev s rule: sub_all.induct)
  case (2 m prev c s)
  show ?case
  proof (cases "m prev (c # s)")
    case None
    then show ?thesis using 2(1) by (simp add: covered_keep)
  next
    case (Some n)
    have "covered ((c # take (n - 1) s) @ drop (n - 1) s) (sub_all m prev (c # s))"
      unfolding sub_all.simps Some option.case by (intro covered_mark 2(2) [OF Some])
    then show ?thesis by simp
  qed
qed (simp add: covered_end)

text \<open>A secret that the mark cannot bring back.\<close>

definition maskable :: "string \<Rightarrow> bool" where
  "maskable p \<longleftrightarrow> CHR ''*'' \<notin> set p \<and> \<not> sublist p ''REDACTED''"

lemma sublist_star: "CHR ''*'' \<notin> set p \<Longrightarrow> sublist p (a @ CHR ''*'' # b) \<longleftrightarrow> sublist p a \<or> sublist p b"
proof (induction a)
  case Nil
  then show ?case by (cases p) (auto simp: sublist_Cons_right)
next
  case (Cons c a)
  have "prefix p (c # a @ CHR ''*'' # b) \<longleftrightarrow> prefix p (c # a)"
    using Cons.prems prefix_append [of p "c # a" "CHR ''*'' # b"] by (auto simp: prefix_Cons)
  then show ?case using Cons by (auto simp: sublist_Cons_right)
qed

lemma sublist_mark:
  assumes "maskable p"
  shows "sublist p (redacted_mark @ t) \<longleftrightarrow> sublist p t"
proof -
  have mark: "redacted_mark @ t = [] @ CHR ''*'' # [] @ CHR ''*'' # [] @ CHR ''*'' # ''REDACTED'' @ CHR ''*'' # [] @ CHR ''*'' # [] @ CHR ''*'' # t"
    by (simp add: redacted_mark_def)
  have "\<not> sublist p []" using assms by (auto simp: maskable_def)
  then show ?thesis using assms unfolding mark by (simp only: maskable_def sublist_star simp_thms)
qed

lemma covered_prefix: "covered s t \<Longrightarrow> CHR ''*'' \<notin> set p \<Longrightarrow> prefix p t \<Longrightarrow> prefix p s"
proof (induction arbitrary: p rule: covered.induct)
  case (covered_keep s t c)
  then show ?case by (cases p) auto
next
  case (covered_mark s t x)
  then show ?case by (cases p) (auto simp: redacted_mark_def)
qed simp

lemma covered_sublist: "covered s t \<Longrightarrow> maskable p \<Longrightarrow> sublist p t \<Longrightarrow> sublist p s"
proof (induction rule: covered.induct)
  case (covered_keep s t c)
  have "prefix p (c # s)" if "prefix p (c # t)"
    using covered_prefix [OF covered.covered_keep [OF covered_keep(1)] _ that] covered_keep(3) by (simp add: maskable_def)
  then show ?case using covered_keep by (auto simp: sublist_Cons_right)
next
  case (covered_mark s t x)
  then have "sublist p s" by (simp add: sublist_mark)
  then show ?case by (simp add: sublist_append)
qed simp

lemma replace_all_hides:
  assumes "maskable p"
  shows "\<not> sublist p (replace_all p s)"
  using assms
proof (induction p s rule: replace_all.induct)
  case (1 p)
  then show ?case by (auto simp: maskable_def)
next
  case (2 p c s)
  show ?case
  proof (cases "p \<noteq> [] \<and> starts_with p (c # s)")
    case True
    then show ?thesis using 2 by (simp add: sublist_mark)
  next
    case False
    have "p \<noteq> []" using 2(3) by (auto simp: maskable_def)
    then have no: "\<not> prefix p (c # s)" using False by (simp add: starts_with_prefix)
    have "\<not> prefix p (c # replace_all p s)"
      using covered_prefix [OF covered_keep [OF covered_replace_all], of p c p s] no 2(3) by (auto simp: maskable_def)
    then show ?thesis using 2(2) [OF False 2(3)] False by (auto simp: sublist_Cons_right)
  qed
qed

lemma fold_covered:
  "(\<And>x t. covered t (f x t)) \<Longrightarrow> maskable p \<Longrightarrow> sublist p (fold f xs t) \<Longrightarrow> sublist p t"
  by (induction xs arbitrary: t) (auto dest: covered_sublist)

lemma known_covered: "covered t (if secret \<noteq> [] then replace_all secret t else t)"
  by (simp add: covered_replace_all covered_refl)

lemma known_hidden:
  assumes "maskable p" and "p \<in> set secrets"
  shows "\<not> sublist p (fold (\<lambda>secret t. if secret \<noteq> [] then replace_all secret t else t) secrets s)"
proof
  assume *: "sublist p (fold (\<lambda>secret t. if secret \<noteq> [] then replace_all secret t else t) secrets s)"
  obtain as bs where secrets: "secrets = as @ p # bs" using assms(2) by (meson split_list)
  have "p \<noteq> []" using assms(1) by (auto simp: maskable_def)
  then have "sublist p (fold (\<lambda>secret t. if secret \<noteq> [] then replace_all secret t else t) bs
      (replace_all p (fold (\<lambda>secret t. if secret \<noteq> [] then replace_all secret t else t) as s)))"
    using * by (simp add: secrets)
  then have "sublist p (replace_all p (fold (\<lambda>secret t. if secret \<noteq> [] then replace_all secret t else t) as s))"
    by (rule fold_covered [OF known_covered assms(1)])
  then show False using replace_all_hides [OF assms(1)] by blast
qed

text \<open>
  C35. A secret that is given, or configured in the environment, does not occur in a redacted text, whatever
  the text is, unless it has a star in it or is a part of the word the mark is made of.
\<close>

theorem redacted_text_hides_secrets:
  assumes "p \<in> set (case secrets of Some xs \<Rightarrow> xs | None \<Rightarrow> active_secrets env)" and "maskable p"
  shows "\<not> occurs_in p (redact env secrets s)"
proof (cases "s = []")
  case True
  then show ?thesis using assms(2) by (auto simp: redact_def maskable_def)
next
  case False
  let ?known = "case secrets of Some xs \<Rightarrow> xs | None \<Rightarrow> active_secrets env"
  let ?cleaned = "fold (\<lambda>secret t. if secret \<noteq> [] then replace_all secret t else t) ?known s"
  have "\<not> sublist p (fold (\<lambda>m t. sub_all m None t) [match_sk, match_bearer, match_field] ?cleaned)"
    using fold_covered [OF covered_sub_all assms(2)] known_hidden [OF assms(2,1)] by (rule contrapos_nn [rotated])
  then show ?thesis using False by (simp add: redact_def Let_def occurs_in_sublist)
qed

text \<open>The key of the environment in the message of an exception.\<close>

theorem redacted_text_hides_secrets_witness:
  "\<not> occurs_in ''sk-12345678'' (redact [''LLM_API_KEY'' \<mapsto> '' sk-12345678 ''] None ''failed: Bearer sk-12345678'')"
proof (rule redacted_text_hides_secrets)
  show "''sk-12345678'' \<in> set (case None of Some xs \<Rightarrow> xs | None \<Rightarrow> active_secrets [''LLM_API_KEY'' \<mapsto> '' sk-12345678 ''])"
    by (simp add: active_secrets_def secret_env_vars_def getenv_def strip_def is_ws_def)
  show "maskable ''sk-12345678''" by (auto simp: maskable_def dest: set_mono_sublist)
qed

end
