(* ===== verification/Fabrication.thy ===== *)
theory Fabrication
  imports Evaluation Workflow_Nodes
begin

text \<open>
  \<open>ai_platform/evaluation/fabrication.py\<close>: claims in an agent's answer that the trace does not support.
  Texts are their UTF-8 bytes here; the three expressions for claims, which stand for finitely many texts,
  are lists of these in the order of the expression. The identifiers that the other four expressions find,
  whose word boundaries need Unicode's classes, and the text of \<open>json.dumps\<close> are parameters.
\<close>

section \<open>Words\<close>

definition utf8 :: "nat list \<Rightarrow> string" where
  "utf8 bs = map char_of bs"

definition w_placed :: string where
  "w_placed = utf8 [228, 184, 139, 229, 141, 149, 230, 136, 144, 229, 138, 159]"

definition w_order :: string where
  "w_order = utf8 [232, 174, 162, 229, 141, 149]"

definition w_already :: string where
  "w_already = utf8 [229, 183, 178]"

definition w_created_ok :: string where
  "w_created_ok = utf8 [229, 136, 155, 229, 187, 186, 230, 136, 144, 229, 138, 159]"

definition w_for_you :: string where
  "w_for_you = utf8 [228, 184, 186, 228, 189, 160]"

definition w_for_you2 :: string where
  "w_for_you2 = utf8 [228, 184, 186, 230, 130, 168]"

definition w_success :: string where
  "w_success = utf8 [230, 136, 144, 229, 138, 159]"

definition w_create :: string where
  "w_create = utf8 [229, 136, 155, 229, 187, 186]"

definition w_place :: string where
  "w_place = utf8 [228, 184, 139]"

definition w_le :: string where
  "w_le = utf8 [228, 186, 134]"

definition w_single :: string where
  "w_single = utf8 [229, 141, 149]"

definition w_cancel :: string where
  "w_cancel = utf8 [229, 143, 150, 230, 182, 136]"

definition w_withdraw :: string where
  "w_withdraw = utf8 [230, 146, 164, 229, 141, 149]"

definition w_revoke :: string where
  "w_revoke = utf8 [230, 146, 164, 233, 148, 128]"

definition w_done :: string where
  "w_done = utf8 [229, 174, 140, 230, 136, 144]"

definition w_create_order :: string where
  "w_create_order = utf8 [229, 136, 155, 229, 187, 186, 232, 174, 162, 229, 141, 149]"

definition w_cancel_order :: string where
  "w_cancel_order = utf8 [229, 143, 150, 230, 182, 136, 232, 174, 162, 229, 141, 149]"

definition status_words :: "string list" where
  "status_words = [utf8 [229, 183, 178, 229, 143, 145, 232, 180, 167],
     utf8 [229, 183, 178, 231, 173, 190, 230, 148, 182],
     utf8 [229, 183, 178, 230, 148, 175, 228, 187, 152],
     utf8 [229, 183, 178, 233, 128, 128, 230, 172, 190],
     utf8 [229, 190, 133, 230, 148, 175, 228, 187, 152],
     utf8 [233, 133, 141, 233, 128, 129, 228, 184, 173],
     utf8 [232, 191, 144, 232, 190, 147, 228, 184, 173],
     utf8 [230, 180, 190, 233, 128, 129, 228, 184, 173]]"

definition t_claims :: string where
  "t_claims = utf8 [229, 155, 158, 229, 164, 141, 229, 163, 176, 230, 152, 142, 227, 128, 140]"

definition t_but_all :: string where
  "t_but_all = utf8 [227, 128, 141, 239, 188, 140, 228, 189, 134]"

definition t_all_failed :: string where
    "t_all_failed = utf8 [231, 154, 132, 229, 133, 168, 233, 131, 168, 229, 176, 157, 232, 175, 149, 229, 157, 135,
    229, 164, 177, 232, 180, 165, 239, 188, 136]"

definition t_close :: string where
  "t_close = utf8 [239, 188, 137]"

definition t_never :: string where
    "t_never = utf8 [227, 128, 141, 239, 188, 140, 228, 189, 134, 228, 187, 142, 230, 156, 170, 232, 176, 131, 231,
    148, 168] @ '' ''"

definition t_status :: string where
    "t_status = utf8 [229, 155, 158, 229, 164, 141, 230, 150, 173, 232, 168, 128, 232, 174, 162, 229, 141, 149, 231,
    138, 182, 230, 128, 129, 227, 128, 140]"

definition t_no_query :: string where
    "t_no_query = utf8 [227, 128, 141, 239, 188, 140, 228, 189, 134, 230, 178, 161, 230, 156, 137, 228, 187, 187,
    228, 189, 149, 230, 136, 144, 229, 138, 159, 231, 154, 132, 230, 159, 165, 232, 175, 162, 239, 188, 136]"

definition t_id :: string where
    "t_id = utf8 [229, 155, 158, 229, 164, 141, 229, 135, 186, 231, 142, 176, 230, 160, 135, 232, 175, 134, 227,
    128, 140]"

definition t_no_id :: string where
    "t_no_id = utf8 [227, 128, 141, 239, 188, 140, 228, 189, 134, 229, 183, 165, 229, 133, 183, 232, 191, 148, 229,
    155, 158, 228, 184, 142, 232, 176, 131, 231, 148, 168, 229, 143, 130, 230, 149, 176, 228, 184, 173, 233, 131,
    189, 230, 178, 161, 230, 156, 137, 232, 191, 153, 228, 184, 170, 229, 128, 188]"

definition you_words :: "string list" where
  "you_words = [w_for_you, w_for_you2]"

definition create_claims :: "string list" where
  "create_claims = w_placed # [w_order @ a @ w_created_ok. a \<leftarrow> [w_already, []]] @
     [w_already @ y @ s @ v @ l @ e. y \<leftarrow> you_words, s \<leftarrow> [w_success, []], v \<leftarrow> [w_create, w_place], l \<leftarrow> [w_le, []],
        e \<leftarrow> [w_order, w_single]]"

definition cancel_claims :: "string list" where
  "cancel_claims = [v @ d. v \<leftarrow> [w_cancel, w_withdraw, w_revoke], d \<leftarrow> [w_success, w_done]] @
     [w_already @ y @ s @ v. y \<leftarrow> you_words, s \<leftarrow> [w_success, []], v \<leftarrow> [w_cancel, w_revoke, w_withdraw]]"

section \<open>Findings\<close>

record finding =
  fd_kind :: string
  fd_detail :: string
  fd_evidence :: dict

definition finding_as_dict :: "finding \<Rightarrow> json" where
  "finding_as_dict f = JObj (dict_of [(''kind'', JStr (fd_kind f)), (''detail'', JStr (fd_detail f)),
     (''evidence'', JObj (fd_evidence f))])"

text \<open>The shortest name before a suffix of a retry with its number.\<close>

definition is_number :: "string \<Rightarrow> bool" where
  "is_number s \<longleftrightarrow> s \<noteq> [] \<and> list_all (\<lambda>c. digit_val c \<noteq> None) s"

fun retry_base :: "string \<Rightarrow> string \<Rightarrow> string option" where
  "retry_base seen [] = None"
| "retry_base seen (c # s) =
     (if seen \<noteq> [] \<and> starts_with ''_retry_'' (c # s) \<and> is_number (drop 7 (c # s)) then Some seen
      else retry_base (seen @ [c]) s)"

definition base_tool_name :: "string \<Rightarrow> string" where
  "base_tool_name tool = (case retry_base [] tool of Some b \<Rightarrow> b | None \<Rightarrow> tool)"

text \<open>Without blanks; of these only the ASCII ones, no byte of another character is one of them.\<close>

definition is_blank :: "char \<Rightarrow> bool" where
  "is_blank c = (let n = of_char c :: nat in (9 \<le> n \<and> n \<le> 13) \<or> (28 \<le> n \<and> n \<le> 32))"

definition no_blanks :: "string \<Rightarrow> string" where
  "no_blanks s = filter (\<lambda>c. \<not> is_blank c) s"

definition result_ok :: "json \<Rightarrow> bool" where
  "result_ok r =
     (case r of JObj d \<Rightarrow>
        (case dget d ''ok'' of Some v \<Rightarrow> truthy v
         | None \<Rightarrow> (case dget_or d ''status_code'' JNull of JInt n \<Rightarrow> 200 \<le> n \<and> n < 300 | _ \<Rightarrow> False))
      | _ \<Rightarrow> False)"

text \<open>\<open>str(v or "")\<close>.\<close>

definition str_or_empty :: "json \<Rightarrow> string" where
  "str_or_empty v = (if truthy v then py_str v else [])"

definition entry_tool :: "dict \<Rightarrow> string" where
  "entry_tool d = str_or_empty (dget_or d ''tool'' JNull)"

text \<open>The tools that succeeded at least once, and those that were tried; sets, as lists.\<close>

definition successful_tools :: "json list \<Rightarrow> string list" where
  "successful_tools results = remdups (concat (map (\<lambda>v. case v of
       JObj d \<Rightarrow> if entry_tool d \<noteq> [] \<and> result_ok (dget_or d ''result'' JNull) then [base_tool_name (entry_tool d)] else []
     | _ \<Rightarrow> []) results))"

definition observed_tools :: "json list \<Rightarrow> json list \<Rightarrow> string list" where
  "observed_tools called results = remdups (filter (\<lambda>n. n \<noteq> []) (map (\<lambda>v. base_tool_name (py_str v)) called @
     concat (map (\<lambda>v. case v of JObj d \<Rightarrow> [base_tool_name (entry_tool d)] | _ \<Rightarrow> []) results)))"

text \<open>The matches of an expression that is a list of texts: at each position the first that fits.\<close>

fun find_words :: "string list \<Rightarrow> string \<Rightarrow> string list" where
  "find_words ws [] = []"
| "find_words ws (c # s) =
     (case find (\<lambda>w. starts_with w (c # s)) ws of
        Some w \<Rightarrow> w # find_words ws (drop (length w - 1) s)
      | None \<Rightarrow> find_words ws s)"

text \<open>The claims of the answer, each once, without what the user said.\<close>

definition add_claim :: "string \<Rightarrow> string \<Rightarrow> string list \<Rightarrow> string list" where
  "add_claim user_input x acc = (if occurs_in (no_blanks x) (no_blanks user_input) \<or> x \<in> set acc then acc else acc @ [x])"

definition claims_in_response :: "string \<Rightarrow> string list \<Rightarrow> string \<Rightarrow> string list" where
  "claims_in_response response ws user_input = fold (add_claim user_input) (find_words ws response) []"

text \<open>What is known of a case: the input, the calls and the results.\<close>

record facts =
  fa_input :: string
  fa_called :: "json list"
  fa_results :: "json list"

definition action_claims :: "(string \<times> string \<times> string list \<times> string) list" where
  "action_claims = [(''create_order'', w_create_order, create_claims, ''place_order''),
     (''cancel_order'', w_cancel_order, cancel_claims, ''cancel_order'')]"

definition unbacked_finding :: "facts \<Rightarrow> string \<Rightarrow> string \<Rightarrow> string \<Rightarrow> string \<Rightarrow> finding" where
  "unbacked_finding f action label tool claim =
     (let tried = tool \<in> set (observed_tools (fa_called f) (fa_results f)) in
      \<lparr>fd_kind = ''unbacked_action'',
       fd_detail = t_claims @ claim @ (if tried then t_but_all @ label @ t_all_failed @ tool @ t_close else t_never @ tool),
       fd_evidence = dict_of [(''action'', JStr action), (''claim'', JStr claim), (''required_tools'', text_list [tool]),
         (''attempted_tools'', text_list (if tried then [tool] else [])),
         (''successful_tools'', text_list (sort (successful_tools (fa_results f))))]\<rparr>)"

definition detect_unbacked_actions :: "facts \<Rightarrow> string \<Rightarrow> finding list" where
  "detect_unbacked_actions f response =
     concat (map (\<lambda>(action, label, ws, tool).
       case claims_in_response response ws (fa_input f) of
         [] \<Rightarrow> []
       | claim # _ \<Rightarrow> if tool \<in> set (successful_tools (fa_results f)) then [] else [unbacked_finding f action label tool claim])
       action_claims)"

definition detect_unsupported_status :: "facts \<Rightarrow> string \<Rightarrow> finding list" where
  "detect_unsupported_status f response =
     (case claims_in_response response status_words (fa_input f) of
        [] \<Rightarrow> []
      | claim # _ \<Rightarrow>
          if ''query_order'' \<in> set (successful_tools (fa_results f)) then []
          else [\<lparr>fd_kind = ''unsupported_status_claim'',
            fd_detail = t_status @ claim @ t_no_query @ ''query_order'' @ t_close,
            fd_evidence = dict_of [(''claim'', JStr claim), (''required_tools'', text_list [''query_order'']),
              (''attempted_tools'', text_list (if ''query_order'' \<in> set (observed_tools (fa_called f) (fa_results f))
                 then [''query_order''] else [])),
              (''successful_tools'', text_list (sort (successful_tools (fa_results f))))]\<rparr>])"

definition detect_fabricated_ids :: "string list \<Rightarrow> string \<Rightarrow> finding list" where
  "detect_fabricated_ids tokens corpus =
     map (\<lambda>token. \<lparr>fd_kind = ''fabricated_id'', fd_detail = t_id @ token @ t_no_id,
         fd_evidence = dict_of [(''identifier'', JStr token)]\<rparr>)
       (filter (\<lambda>token. \<not> occurs_in (no_blanks token) corpus) (rev (remdups (rev tokens))))"

section \<open>Detection\<close>

text \<open>What the library does: the matches of the four expressions in a text, in order, and the text of a value.\<close>

record text_tools =
  tt_identifiers :: "string \<Rightarrow> string list"
  tt_dumps :: "json \<Rightarrow> string"

definition grounding_corpus :: "text_tools \<Rightarrow> dict \<Rightarrow> string" where
  "grounding_corpus tt cs =
     (let args = dget_or cs ''called_args'' JNull; results = dget_or cs ''tool_results'' JNull in
      no_blanks (str_or_empty (dget_or cs ''input'' JNull) @ '' '' @
        tt_dumps tt (if truthy args then args else JObj fmempty) @ '' '' @
        tt_dumps tt (if truthy results then results else JArr [])))"

definition items_or_none :: "json \<Rightarrow> ('w, json list) prog" where
  "items_or_none v = (if truthy v then items_of v else ret [])"

definition has_trace_facts :: "dict \<Rightarrow> bool" where
  "has_trace_facts cs = truthy (dget_or cs ''tool_results'' JNull)"

definition detect_fabrications :: "text_tools \<Rightarrow> dict \<Rightarrow> ('w, finding list) prog" where
  "detect_fabrications tt cs =
     (let response = str_or_empty (dget_or cs ''final_response'' JNull) in
      if no_blanks response = [] \<or> \<not> has_trace_facts cs then ret []
      else
        bnd (items_or_none (dget_or cs ''tool_results'' JNull)) (\<lambda>results.
        bnd (items_or_none (dget_or cs ''called_tools'' JNull)) (\<lambda>called.
        let f = \<lparr>fa_input = str_or_empty (dget_or cs ''input'' JNull), fa_called = called, fa_results = results\<rparr> in
        ret (detect_unbacked_actions f response @ detect_unsupported_status f response @
          detect_fabricated_ids (tt_identifiers tt response) (grounding_corpus tt cs)))))"

definition summarize_findings :: "finding list \<Rightarrow> (string, nat) fmap" where
  "summarize_findings fs = fold (\<lambda>f m. fmupd (fd_kind f) (Suc (case fmlookup m (fd_kind f) of None \<Rightarrow> 0 | Some n \<Rightarrow> n)) m) fs fmempty"

end
