(* ===== verification/Evaluators.thy ===== *)
theory Evaluators
  imports Fabrication
begin

text \<open>
  \<open>ai_platform/evaluation/evaluator.py\<close> and the reports that use it: the judge, the score of a batch of
  cases, and the comparison of a candidate's scores with a baseline. The judge, the random samples, the
  identifiers in a text and the text of a value are parameters.
\<close>

section \<open>Judge\<close>

type_synonym 'w judge = "string \<Rightarrow> string \<Rightarrow> string \<Rightarrow> ('w, string) prog"

definition judge_result :: "dict \<Rightarrow> string \<Rightarrow> evaluation_result" where
  "judge_result subject verdict = (empty_result (verdict \<noteq> ''UNKNOWN''))\<lparr>
     el_score := Some (if verdict = ''PASS'' then 1 else 0), el_metrics := dict_of [(''judge_result'', JStr verdict)],
     el_details := dict_of [(''judge_input'', JObj subject)], el_metadata := dict_of [(''judge_result'', JStr verdict)]\<rparr>"

definition judge_evaluate :: "'w judge \<Rightarrow> dict \<Rightarrow> ('w, evaluation_result) prog" where
  "judge_evaluate judge d =
     bnd (judge (py_str (dget_or d ''user_input'' (JStr []))) (py_str (dget_or d ''expected'' (JStr [])))
            (py_str (dget_or d ''actual'' (JStr [])))) (\<lambda>verdict. ret (judge_result d verdict))"

section \<open>Score: tallies\<close>

record dim_stats =
  dm_cases :: nat
  dm_tool_scores :: "rat list"
  dm_arg_scores :: "rat list"
  dm_task_success :: nat
  dm_hallucination_flags :: nat
  dm_permission_correct :: nat
  dm_permission_cases :: nat

definition empty_dim :: dim_stats where
  "empty_dim = \<lparr>dm_cases = 0, dm_tool_scores = [], dm_arg_scores = [], dm_task_success = 0, dm_hallucination_flags = 0,
     dm_permission_correct = 0, dm_permission_cases = 0\<rparr>"

record tally =
  ty_tool_scores :: "rat list"
  ty_arg_scores :: "rat list"
  ty_retries :: "rat list"
  ty_call_counts :: "json list"
  ty_tokens :: "json list"
  ty_tokens_estimated :: "json list"
  ty_tokens_llm :: "int list"
  ty_task_success :: nat
  ty_hallucination_flags :: nat
  ty_finding_count :: nat
  ty_kinds :: "(string, nat) fmap"
  ty_offline :: nat
  ty_judge_checked :: nat
  ty_judge_pass :: nat
  ty_planner_invalid :: nat
  ty_review_pool :: "dict list"
  ty_rule_pass :: "json list"
  ty_rule_fail :: "json list"
  ty_with_retry :: "json list"
  ty_no_retry :: "json list"
  ty_dims :: "(string, dim_stats) fmap"
  ty_permission_correct :: nat
  ty_permission_cases :: nat
  ty_case_scores :: "json list"
  ty_draws :: nat

definition empty_tally :: tally where
  "empty_tally = \<lparr>ty_tool_scores = [], ty_arg_scores = [], ty_retries = [], ty_call_counts = [], ty_tokens = [],
     ty_tokens_estimated = [], ty_tokens_llm = [], ty_task_success = 0, ty_hallucination_flags = 0, ty_finding_count = 0,
     ty_kinds = fmempty, ty_offline = 0, ty_judge_checked = 0, ty_judge_pass = 0, ty_planner_invalid = 0, ty_review_pool = [],
     ty_rule_pass = [], ty_rule_fail = [], ty_with_retry = [], ty_no_retry = [], ty_dims = fmempty,
     ty_permission_correct = 0, ty_permission_cases = 0, ty_case_scores = [], ty_draws = 0\<rparr>"

text \<open>What the evaluator is made with; the \<open>n\<close>-th sample is what the seeded generator gives then.\<close>

record 'w score_settings =
  se_judge :: "'w judge option"
  se_judge_enabled :: bool
  se_sample_rate :: rat
  se_skip_judge :: bool
  se_samples :: "nat \<Rightarrow> rat"
  se_text_tools :: text_tools
  se_env :: env

text \<open>\<open>case[k]\<close> for each of the keys.\<close>

fun pick :: "dict \<Rightarrow> string list \<Rightarrow> ('w, (string \<times> json) list) prog" where
  "pick c [] = ret []"
| "pick c (k # ks) = bnd (dict_item c k) (\<lambda>v. bnd (pick c ks) (\<lambda>kvs. ret ((k, v) # kvs)))"

definition add_review :: "dict \<Rightarrow> string \<Rightarrow> string list \<Rightarrow> (string \<times> json) list \<Rightarrow> tally \<Rightarrow> ('w, tally) prog" where
  "add_review c reason ks extra t =
     bnd (pick c ks) (\<lambda>kvs. ret (t\<lparr>ty_review_pool := ty_review_pool t @ [dict_of ((''reason'', JStr reason) # kvs @ extra)]\<rparr>))"

definition expected_match :: "json \<Rightarrow> json \<Rightarrow> ('w, rat) prog" where
  "expected_match expected called =
     (if \<not> truthy expected then ret 1
      else bnd (as_dict expected) (\<lambda>e.
        if fmlookup e ''missing_or_invalid'' \<noteq> None then ret 1 else bnd (as_dict called) (\<lambda>d. ret (arg_match e d))))"

definition case_match :: "dict \<Rightarrow> ('w, rat \<times> rat) prog" where
  "case_match c =
     bnd (dict_item c ''expected_tools'') (\<lambda>et. bnd (dict_item c ''called_tools'') (\<lambda>ct.
     bnd (dict_item c ''expected_args'') (\<lambda>ea. bnd (dict_item c ''called_args'') (\<lambda>ca.
     bnd (expected_match ea ca) (\<lambda>a. ret (of_int (tool_match et ct), a))))))"

definition rule_pass :: "rat \<Rightarrow> rat \<Rightarrow> bool" where
  "rule_pass ts a \<longleftrightarrow> ts = 1 \<and> 8 / 10 \<le> a"

definition llm_tokens :: "dict \<Rightarrow> int list" where
  "llm_tokens c = (case dget_or c ''token_usage_llm'' JNull of JNull \<Rightarrow> []
     | v \<Rightarrow> (case json_int v of Inr n \<Rightarrow> [n] | Inl e \<Rightarrow> []))"

definition tally_numbers :: "dict \<Rightarrow> rat \<Rightarrow> rat \<Rightarrow> tally \<Rightarrow> ('w, tally) prog" where
  "tally_numbers c ts a t =
     bnd (dict_item c ''retry_count'') (\<lambda>retry0. bnd (dict_item c ''tool_calls_count'') (\<lambda>calls.
     bnd (dict_item c ''token_usage'') (\<lambda>tokens. bnd (as_number retry0) (\<lambda>retry.
     ret (t\<lparr>ty_tool_scores := ty_tool_scores t @ [ts], ty_arg_scores := ty_arg_scores t @ [a],
       ty_retries := ty_retries t @ [retry], ty_call_counts := ty_call_counts t @ [calls], ty_tokens := ty_tokens t @ [tokens],
       ty_tokens_estimated := ty_tokens_estimated t @ [dget_or c ''token_usage_estimated'' tokens],
       ty_tokens_llm := ty_tokens_llm t @ llm_tokens c,
       ty_task_success := ty_task_success t + (if rule_pass ts a then 1 else 0),
       ty_rule_pass := ty_rule_pass t @ (if rule_pass ts a then [tokens] else []),
       ty_rule_fail := ty_rule_fail t @ (if rule_pass ts a then [] else [tokens]),
       ty_with_retry := ty_with_retry t @ (if retry > 0 then [tokens] else []),
       ty_no_retry := ty_no_retry t @ (if retry > 0 then [] else [tokens])\<rparr>)))))"

definition add_kinds :: "finding list \<Rightarrow> (string, nat) fmap \<Rightarrow> (string, nat) fmap" where
  "add_kinds fs m = fold (\<lambda>f m. fmupd (fd_kind f) (Suc (case fmlookup m (fd_kind f) of None \<Rightarrow> 0 | Some n \<Rightarrow> n)) m) fs m"

definition tally_findings :: "dict \<Rightarrow> finding list \<Rightarrow> tally \<Rightarrow> ('w, tally) prog" where
  "tally_findings c fs t =
     (case fs of [] \<Rightarrow> ret t
      | f # _ \<Rightarrow>
          add_review c (''hallucination:'' @ fd_kind f) [''id'', ''input'', ''called_tools'', ''called_args'', ''final_response'']
            [(''hallucination_findings'', JArr (map finding_as_dict fs))]
            (t\<lparr>ty_hallucination_flags := Suc (ty_hallucination_flags t), ty_finding_count := ty_finding_count t + length fs,
              ty_kinds := add_kinds fs (ty_kinds t)\<rparr>))"

definition offline_entry :: "json \<Rightarrow> bool" where
  "offline_entry v =
     (case v of JObj e \<Rightarrow>
        (case dget_or e ''result'' JNull of
           JObj r \<Rightarrow> truthy (dget_or r ''offline_fallback'' JNull) \<or>
             (case dget_or r ''body'' JNull of JObj b \<Rightarrow> truthy (dget_or b ''offline_fallback'' JNull) | _ \<Rightarrow> False)
         | _ \<Rightarrow> False)
      | _ \<Rightarrow> False)"

definition has_offline_fallback :: "dict \<Rightarrow> ('w, bool) prog" where
  "has_offline_fallback c = bnd (items_or_none (dget_or c ''tool_results'' JNull)) (\<lambda>vs. ret (list_ex offline_entry vs))"

definition plain_keys :: "string list" where
  "plain_keys = [''id'', ''input'', ''expected_tools'', ''called_tools'', ''called_args'', ''final_response'']"

definition judged_texts :: "dict \<Rightarrow> ('w, dict) prog" where
  "judged_texts c =
     bnd (dict_item c ''input'') (\<lambda>input. bnd (dict_item c ''expected_tools'') (\<lambda>et. bnd (dict_item c ''expected_args'') (\<lambda>ea.
     bnd (dict_item c ''called_tools'') (\<lambda>ct. bnd (dict_item c ''called_args'') (\<lambda>ca. bnd (dict_item c ''final_response'') (\<lambda>fr.
     ret (dict_of [(''user_input'', input),
       (''expected'', JStr (''expected_tools='' @ py_str et @ '', expected_args='' @ py_str ea)),
       (''actual'', JStr (''called_tools='' @ py_str ct @ '', called_args='' @ py_str ca @ '', response='' @ py_str fr))])))))))"

definition judge_case :: "'w judge \<Rightarrow> dict \<Rightarrow> tally \<Rightarrow> ('w, tally) prog" where
  "judge_case judge c t =
     bnd (judged_texts c) (\<lambda>d. bnd (judge_evaluate judge d) (\<lambda>r.
     let status = py_str (dget_or (el_metrics r) ''judge_result'' JNull);
         t' = t\<lparr>ty_judge_checked := Suc (ty_judge_checked t),
           ty_judge_pass := ty_judge_pass t + (if status = ''PASS'' then 1 else 0)\<rparr> in
     if status \<in> {''FAIL'', ''UNKNOWN''} then add_review c (''judge_'' @ lower status) plain_keys [] t' else ret t'))"

text \<open>The judge is asked for attacks, when the next sample is below the rate; otherwise no sample is drawn.\<close>

definition tally_judge :: "'w score_settings \<Rightarrow> dict \<Rightarrow> tally \<Rightarrow> ('w, tally) prog" where
  "tally_judge st c t =
     (case se_judge st of
        Some judge \<Rightarrow>
          if se_skip_judge st \<or> \<not> se_judge_enabled st then ret t
          else bnd (dict_item c ''category'') (\<lambda>cat.
            if cat \<noteq> JStr ''attack'' then ret t
            else (let t' = t\<lparr>ty_draws := Suc (ty_draws t)\<rparr> in
              if se_samples st (ty_draws t) < se_sample_rate st then judge_case judge c t' else ret t'))
      | None \<Rightarrow> ret t)"

definition tally_planner :: "dict \<Rightarrow> tally \<Rightarrow> ('w, tally) prog" where
  "tally_planner c t =
     (if \<not> truthy (dget_or c ''planner_valid'' (JBool True)) \<or> truthy (dget_or c ''planner_fallback'' (JBool False)) then
        add_review c ''planner_invalid_or_fallback'' plain_keys [] (t\<lparr>ty_planner_invalid := Suc (ty_planner_invalid t)\<rparr>)
      else ret t)"

definition tally_mismatch :: "dict \<Rightarrow> rat \<Rightarrow> rat \<Rightarrow> tally \<Rightarrow> ('w, tally) prog" where
  "tally_mismatch c ts a t =
     (if ts = 0 \<or> a < 8 / 10 then
        add_review c ''rule_mismatch'' [''id'', ''input'', ''expected_tools'', ''called_tools'', ''expected_args'', ''called_args'',
          ''final_response''] [] t
      else ret t)"

definition dimension_of :: "dict \<Rightarrow> ('w, string) prog" where
  "dimension_of c =
     (case dget_or c ''category'' JNull of
        JStr s \<Rightarrow> ret (case map_of [(''context'', ''context''), (''permission'', ''permission''), (''attack'', ''security'')] s of
            Some d \<Rightarrow> d | None \<Rightarrow> ''tool_selection'')
      | JArr xs \<Rightarrow> raise (TypeError ''unhashable type'') | JObj d \<Rightarrow> raise (TypeError ''unhashable type'')
      | _ \<Rightarrow> ret ''tool_selection'')"

text \<open>A set of names.\<close>

definition names_in :: "dict \<Rightarrow> string \<Rightarrow> ('w, string list) prog" where
  "names_in c k = bnd (items_or_none (dget_or c k JNull)) (\<lambda>vs. ret (sort (remdups (map py_str vs))))"

definition tally_permission :: "dict \<Rightarrow> tally \<Rightarrow> ('w, tally \<times> bool) prog" where
  "tally_permission c t =
     bnd (names_in c ''expect_permission_denied'') (\<lambda>expected. bnd (names_in c ''permission_denied_tools'') (\<lambda>actual.
     let t' = t\<lparr>ty_permission_cases := Suc (ty_permission_cases t)\<rparr> in
     if expected = actual then ret (t'\<lparr>ty_permission_correct := Suc (ty_permission_correct t)\<rparr>, True)
     else bnd (add_review c ''permission_boundary_mismatch'' [''id'', ''input'', ''final_response'']
         [(''role'', dget_or c ''role'' (JStr [])), (''expect_permission_denied'', text_list expected),
          (''permission_denied_tools'', text_list actual)] t') (\<lambda>t''. ret (t'', False))))"

definition count_case :: "rat \<Rightarrow> rat \<Rightarrow> bool \<Rightarrow> dim_stats \<Rightarrow> dim_stats" where
  "count_case ts a flagged s = s\<lparr>dm_cases := Suc (dm_cases s), dm_tool_scores := dm_tool_scores s @ [ts],
     dm_arg_scores := dm_arg_scores s @ [a], dm_task_success := dm_task_success s + (if rule_pass ts a then 1 else 0),
     dm_hallucination_flags := dm_hallucination_flags s + (if flagged then 1 else 0)\<rparr>"

definition count_permission :: "bool option \<Rightarrow> dim_stats \<Rightarrow> dim_stats" where
  "count_permission v s = (case v of None \<Rightarrow> s
     | Some ok \<Rightarrow> s\<lparr>dm_permission_cases := Suc (dm_permission_cases s),
         dm_permission_correct := dm_permission_correct s + (if ok then 1 else 0)\<rparr>)"

definition dim_at :: "string \<Rightarrow> (string, dim_stats) fmap \<Rightarrow> dim_stats" where
  "dim_at k m = (case fmlookup m k of None \<Rightarrow> empty_dim | Some s \<Rightarrow> s)"

definition tally_dimension :: "dict \<Rightarrow> rat \<Rightarrow> rat \<Rightarrow> bool \<Rightarrow> tally \<Rightarrow> ('w, tally) prog" where
  "tally_dimension c ts a flagged t =
     bnd (dimension_of c) (\<lambda>dim.
     bnd (if dim = ''permission'' then bnd (tally_permission c t) (\<lambda>(t', ok). ret (t', Some ok)) else ret (t, None)) (\<lambda>(t1, ok).
     bnd (pick c [''id'', ''retry_count'']) (\<lambda>kvs.
     ret (t1\<lparr>ty_dims := fmupd dim (count_permission ok (count_case ts a flagged (dim_at dim (ty_dims t1)))) (ty_dims t1),
       ty_case_scores := ty_case_scores t1 @ [JObj (dict_of (kvs @ [(''dimension'', JStr dim), (''tool_score'', JFloat ts),
         (''arg_score'', JFloat a), (''task_success'', JBool (rule_pass ts a)), (''hallucination'', JBool flagged),
         (''permission_ok'', case ok of None \<Rightarrow> JNull | Some b \<Rightarrow> JBool b)]))]\<rparr>))))"

definition score_case :: "'w score_settings \<Rightarrow> json \<Rightarrow> tally \<Rightarrow> ('w, tally) prog" where
  "score_case st v t =
     bnd (case v of JObj c \<Rightarrow> ret c | _ \<Rightarrow> raise (TypeError ''case must be a dict'')) (\<lambda>c.
     bnd (case_match c) (\<lambda>(ts, a).
     bnd (tally_numbers c ts a t) (\<lambda>t1.
     bnd (detect_fabrications (se_text_tools st) c) (\<lambda>fs.
     bnd (tally_findings c fs t1) (\<lambda>t2.
     bnd (has_offline_fallback c) (\<lambda>offline.
     bnd (tally_judge st c (if offline then t2\<lparr>ty_offline := Suc (ty_offline t2)\<rparr> else t2)) (\<lambda>t3.
     bnd (tally_planner c t3) (\<lambda>t4.
     bnd (tally_mismatch c ts a t4) (\<lambda>t5.
     tally_dimension c ts a (fs \<noteq> []) t5)))))))))"

section \<open>Score: the report\<close>

text \<open>Numbers that are added up.\<close>

fun numbers :: "json list \<Rightarrow> ('w, rat list) prog" where
  "numbers [] = ret []"
| "numbers (v # vs) = bnd (as_number v) (\<lambda>x. bnd (numbers vs) (\<lambda>xs. ret (x # xs)))"

definition ratio :: "rat \<Rightarrow> nat \<Rightarrow> rat" where
  "ratio x n = x / of_nat (max 1 n)"

definition share_or_none :: "nat \<Rightarrow> nat \<Rightarrow> json" where
  "share_or_none k n = (if n = 0 then JNull else JFloat (of_nat k / of_nat n))"

definition dim_report :: "dim_stats \<Rightarrow> json" where
  "dim_report s = JObj (dict_of ([(''cases'', JInt (int (dm_cases s))),
     (''tool_selection_accuracy'', opt_float (avg_or_none (dm_tool_scores s))),
     (''arg_accuracy'', opt_float (avg_or_none (dm_arg_scores s))),
     (''task_success_rate'', share_or_none (dm_task_success s) (dm_cases s)),
     (''hallucination_rate'', share_or_none (dm_hallucination_flags s) (dm_cases s))] @
     (if dm_permission_cases s = 0 then []
      else [(''permission_denial_accuracy'', share_or_none (dm_permission_correct s) (dm_permission_cases s))])))"

definition fmap_json :: "('v \<Rightarrow> json) \<Rightarrow> (string, 'v) fmap \<Rightarrow> json" where
  "fmap_json f m = JObj (fmmap f m)"

definition retry_tax :: "rat list \<Rightarrow> rat list \<Rightarrow> rat option" where
  "retry_tax with_retry without =
     (case (avg_or_none with_retry, avg_or_none without) of
        (Some ar, Some an) \<Rightarrow> if an > 0 then Some ((ar - an) / an) else None
      | _ \<Rightarrow> None)"

definition largest :: "rat list \<Rightarrow> rat" where
  "largest xs = (case xs of [] \<Rightarrow> 0 | x # ys \<Rightarrow> fold max ys x)"

definition count_json :: "nat \<Rightarrow> json" where
  "count_json n = JInt (int n)"

text \<open>The largest number of tokens is reported as a float here.\<close>

definition score_report :: "'w score_settings \<Rightarrow> dict \<Rightarrow> nat \<Rightarrow> tally \<Rightarrow> ('w, dict) prog" where
  "score_report st batch n t =
     bnd (numbers (ty_call_counts t)) (\<lambda>calls. bnd (numbers (ty_tokens t)) (\<lambda>tokens.
     bnd (numbers (ty_tokens_estimated t)) (\<lambda>estimated.
     bnd (numbers (ty_rule_pass t)) (\<lambda>passed. bnd (numbers (ty_rule_fail t)) (\<lambda>failed.
     bnd (numbers (ty_with_retry t)) (\<lambda>retried. bnd (numbers (ty_no_retry t)) (\<lambda>plain.
     bnd (py_float (getenv (se_env st) ''CHAOS_RETRY_TAX_MAX'' ''0.60'')) (\<lambda>tax_max.
     ret (dict_of
       [(''generated_at'', dget_or batch ''generated_at'' JNull), (''chaos_mode'', dget_or batch ''chaos_mode'' (JStr ''none'')),
        (''chaos_fail_rate'', dget_or batch ''chaos_fail_rate'' (JFloat 0)),
        (''chaos_latency_ms'', dget_or batch ''chaos_latency_ms'' (JInt 0)), (''total_cases'', count_json n),
        (''tool_selection_accuracy'', JFloat (ratio (sum_list (ty_tool_scores t)) n)),
        (''call_sequence_accuracy'', JFloat (ratio (sum_list (ty_tool_scores t)) n)),
        (''arg_accuracy'', JFloat (ratio (sum_list (ty_arg_scores t)) n)),
        (''task_success_rate'', JFloat (ratio (of_nat (ty_task_success t)) n)),
        (''retry_rate'', JFloat (ratio (of_nat (length (filter (\<lambda>x. x > 0) (ty_retries t)))) n)),
        (''avg_tool_calls_per_task'', JFloat (ratio (sum_list calls) n)),
        (''avg_token_per_task'', JFloat (ratio (sum_list tokens) n)), (''max_token_per_task'', JFloat (largest tokens)),
        (''p99_token_per_task'', opt_float (percentile_or_none tokens 99)),
        (''avg_token_estimated_per_task'', JFloat (ratio (sum_list estimated) n)),
        (''avg_token_llm_per_task'', opt_float (avg_or_none (map of_int (ty_tokens_llm t)))),
        (''ollama_token_coverage'', JFloat (ratio (of_nat (length (ty_tokens_llm t))) n)),
        (''avg_token_rule_pass'', opt_float (avg_or_none passed)), (''avg_token_rule_fail'', opt_float (avg_or_none failed)),
        (''rule_fail_count'', count_json (length failed)), (''avg_token_with_retry'', opt_float (avg_or_none retried)),
        (''avg_token_no_retry'', opt_float (avg_or_none plain)), (''retry_case_count'', count_json (length retried)),
        (''no_retry_case_count'', count_json (length plain)), (''retry_tax_ratio'', opt_float (retry_tax retried plain)),
        (''retry_tax_max_ref'', JFloat tax_max),
        (''hallucination_rate'', JFloat (ratio (of_nat (ty_hallucination_flags t)) n)),
        (''hallucination_case_count'', count_json (ty_hallucination_flags t)),
        (''hallucination_finding_count'', count_json (ty_finding_count t)),
        (''hallucination_breakdown'', fmap_json count_json (ty_kinds t)),
        (''offline_fallback_case_count'', count_json (ty_offline t)), (''judge_checked_cases'', count_json (ty_judge_checked t)),
        (''judge_pass_rate'', share_or_none (ty_judge_pass t) (ty_judge_checked t)),
        (''planner_invalid_rate'', JFloat (ratio (of_nat (ty_planner_invalid t)) n)),
        (''manual_review_pool_size'', count_json (length (ty_review_pool t))),
        (''judge_config_enabled'', JBool (se_judge_enabled st)), (''judge_sample_rate'', JFloat (se_sample_rate st)),
        (''permission_case_count'', count_json (ty_permission_cases t)),
        (''permission_denial_accuracy'', share_or_none (ty_permission_correct t) (ty_permission_cases t)),
        (''dimension_breakdown'', fmap_json dim_report (ty_dims t))])))))))))"

text \<open>Of the entries with one identity and reason the first.\<close>

fun dedupe_from :: "(json \<times> json) set \<Rightarrow> dict list \<Rightarrow> dict list" where
  "dedupe_from seen [] = []"
| "dedupe_from seen (d # ds) =
     (let k = (dget_or d ''id'' JNull, dget_or d ''reason'' JNull) in
      if k \<in> seen then dedupe_from seen ds else d # dedupe_from (insert k seen) ds)"

definition dedupe_review_pool :: "dict list \<Rightarrow> dict list" where
  "dedupe_review_pool = dedupe_from {}"

definition score_evaluate :: "'w score_settings \<Rightarrow> dict \<Rightarrow> ('w, evaluation_result) prog" where
  "score_evaluate st batch =
     bnd (items_of (dget_or batch ''cases'' (JArr []))) (\<lambda>cases.
     bnd (fold_prog (score_case st) cases empty_tally) (\<lambda>t.
     bnd (score_report st batch (length cases) t) (\<lambda>report.
     ret ((empty_result True)\<lparr>el_score := Some (ratio (of_nat (ty_task_success t)) (length cases)), el_metrics := report,
       el_details := dict_of [(''review_pool'', JArr (map JObj (dedupe_review_pool (ty_review_pool t)))),
         (''case_scores'', JArr (ty_case_scores t))],
       el_metadata := dict_of [(''judge_checked_cases'', count_json (ty_judge_checked t)),
         (''judge_pass'', count_json (ty_judge_pass t))]\<rparr>))))"

section \<open>Regression\<close>

definition delta_keys :: "string list" where
  "delta_keys = [''tool_selection_accuracy'', ''arg_accuracy'', ''task_success_rate'', ''retry_rate'',
     ''avg_tool_calls_per_task'', ''avg_token_per_task'', ''hallucination_rate'', ''planner_invalid_rate'']"

text \<open>The difference of two values, \<open>None\<close> when one is no number.\<close>

definition delta_of :: "json \<Rightarrow> json \<Rightarrow> json" where
  "delta_of b c = (case (json_float c, json_float b) of (Inr y, Inr x) \<Rightarrow> JFloat (y - x) | _ \<Rightarrow> JNull)"

definition score_delta :: "dict \<Rightarrow> dict \<Rightarrow> dict" where
  "score_delta b c = dict_of (map (\<lambda>k. (k, delta_of (dget_or b k JNull) (dget_or c k JNull)))
     (filter (\<lambda>k. fmlookup b k \<noteq> None \<and> fmlookup c k \<noteq> None) delta_keys))"

definition float_item :: "dict \<Rightarrow> string \<Rightarrow> ('w, rat) prog" where
  "float_item d k = bnd (dict_item d k) (\<lambda>v. lift (json_float v))"

definition threshold :: "dict \<Rightarrow> string \<Rightarrow> ('w, rat) prog" where
  "threshold th k = bnd (dict_item th k) as_number"

text \<open>One comparison: the reasons with the new one, if the candidate is too far on the wrong side.\<close>

definition compare_metric ::
  "bool \<Rightarrow> string \<Rightarrow> string \<Rightarrow> string \<Rightarrow> string \<Rightarrow> dict \<Rightarrow> rat \<Rightarrow> rat \<Rightarrow> string list \<Rightarrow> ('w, string list) prog" where
  "compare_metric lower_bad k verb bound label th b c reasons =
     bnd (threshold th bound) (\<lambda>x.
     ret (if (if lower_bad then c < b - x else c > b + x) then
         reasons @ [k @ verb @ ''candidate='' @ percent_text c @ '' baseline='' @ percent_text b @ '' ('' @ label @ ''='' @ percent_text x @ '')'']
       else reasons))"

definition float_or_zero :: "dict \<Rightarrow> string \<Rightarrow> ('w, rat) prog" where
  "float_or_zero d k = (let v = dget_or d k (JInt 0) in if truthy v then lift (json_float v) else ret 0)"

definition compare_prompt_regression_scores :: "dict \<Rightarrow> dict \<Rightarrow> dict \<Rightarrow> ('w, bool \<times> string list \<times> dict) prog" where
  "compare_prompt_regression_scores b c th =
     bnd (float_item b ''tool_selection_accuracy'') (\<lambda>bt. bnd (float_item c ''tool_selection_accuracy'') (\<lambda>ct.
     bnd (compare_metric True ''tool_selection_accuracy'' '' dropped too much: '' ''max_tool_selection_accuracy_drop'' ''max_drop'' th bt ct [])
      (\<lambda>r1.
     bnd (float_item b ''arg_accuracy'') (\<lambda>ba. bnd (float_item c ''arg_accuracy'') (\<lambda>ca.
     bnd (compare_metric True ''arg_accuracy'' '' dropped too much: '' ''max_arg_accuracy_drop'' ''max_drop'' th ba ca r1) (\<lambda>r2.
     bnd (float_item b ''retry_rate'') (\<lambda>br. bnd (float_item c ''retry_rate'') (\<lambda>cr.
     bnd (compare_metric False ''retry_rate'' '' surged too much: '' ''max_retry_rate_surge'' ''max_surge'' th br cr r2) (\<lambda>r3.
     bnd (float_or_zero b ''planner_invalid_rate'') (\<lambda>bp. bnd (float_or_zero c ''planner_invalid_rate'') (\<lambda>cp.
     bnd (compare_metric False ''planner_invalid_rate'' '' surged too much: '' ''max_planner_invalid_rate_surge'' ''max_surge'' th bp cp r3)
      (\<lambda>reasons. ret (reasons = [], reasons, score_delta b c)))))))))))))"

definition pick_metrics :: "dict \<Rightarrow> dict" where
  "pick_metrics d = dict_of (map (\<lambda>k. (k, dget_or d k JNull)) (filter (\<lambda>k. fmlookup d k \<noteq> None) delta_keys))"

definition regression_evaluate :: "dict \<Rightarrow> dict \<Rightarrow> ('w, evaluation_result) prog" where
  "regression_evaluate th d =
     bnd (bnd (dict_item d ''baseline'') as_dict) (\<lambda>b. bnd (bnd (dict_item d ''candidate'') as_dict) (\<lambda>c.
     bnd (compare_prompt_regression_scores b c th) (\<lambda>(ok, reasons, delta).
     ret ((empty_result ok)\<lparr>el_score := Some (if ok then 1 else 0), el_metrics := dict_of [(''delta'', JObj delta)],
       el_details := dict_of [(''baseline_metrics'', JObj (pick_metrics b)), (''candidate_metrics'', JObj (pick_metrics c)),
         (''gate_reasons'', text_list reasons)],
       el_metadata := dict_of [(''thresholds'', JObj th)],
       el_errors := (if reasons \<noteq> [] then dict_of [(''gate_reasons'', text_list reasons)] else fmempty)\<rparr>))))"

section \<open>Reports\<close>

definition judge_evaluator :: "'w judge \<Rightarrow> 'w evaluator" where
  "judge_evaluator judge = \<lparr>eo_name = ''judge'', eo_evaluate = (\<lambda>s. case s of OutValue (JObj d) \<Rightarrow> judge_evaluate judge d
     | _ \<Rightarrow> raise (AttributeError ''get''))\<rparr>"

definition score_evaluator :: "'w score_settings \<Rightarrow> 'w evaluator" where
  "score_evaluator st = \<lparr>eo_name = ''score'', eo_evaluate = (\<lambda>s. case s of OutValue (JObj d) \<Rightarrow> score_evaluate st d
     | _ \<Rightarrow> raise (AttributeError ''get''))\<rparr>"

definition regression_evaluator :: "dict \<Rightarrow> 'w evaluator" where
  "regression_evaluator th = \<lparr>eo_name = ''regression'', eo_evaluate = (\<lambda>s. case s of OutValue (JObj d) \<Rightarrow> regression_evaluate th d
     | _ \<Rightarrow> raise (TypeError ''not subscriptable by a string''))\<rparr>"

text \<open>The metrics under a namespace, without it.\<close>

definition extract_namespaced_metrics :: "evaluation_result \<Rightarrow> string \<Rightarrow> dict" where
  "extract_namespaced_metrics r ns =
     (let p = ns @ ''.'' in
      dict_of (map (\<lambda>k. (drop (length p) k, dget_or (el_metrics r) k JNull))
        (filter (starts_with p) (sorted_list_of_fset (fmdom (el_metrics r))))))"

definition nested_item :: "dict \<Rightarrow> string \<Rightarrow> string \<Rightarrow> json \<Rightarrow> json" where
  "nested_item d ns k v = (case dget_or d ns (JObj fmempty) of JObj x \<Rightarrow> dget_or x k v | _ \<Rightarrow> v)"

text \<open>The scored batch: the result, the report and the pool for review; writing the files is left out.\<close>

definition score_agent_eval ::
  "('s, 'z) platform_world_scheme score_settings \<Rightarrow> json \<Rightarrow>
   (('s, 'z) platform_world_scheme, evaluation_result \<times> dict \<times> json) prog" where
  "score_agent_eval st raw =
     bnd (evaluate_output [score_evaluator st] (OutValue raw)) (\<lambda>r.
     ret (r, extract_namespaced_metrics r ''score'', nested_item (el_details r) ''score'' ''review_pool'' (JArr [])))"

definition regression_document :: "dict \<Rightarrow> dict \<Rightarrow> evaluation_result \<Rightarrow> ('w, dict) prog" where
  "regression_document metadata th r =
     bnd (pick metadata [''generated_at'', ''chaos_mode'', ''chaos_fail_rate'', ''chaos_latency_ms'', ''baseline_variant'',
       ''candidate_variant'', ''paths'']) (\<lambda>kvs.
     ret (dict_of (kvs @
       [(''baseline_metrics'', nested_item (el_details r) ''regression'' ''baseline_metrics'' (JObj fmempty)),
        (''candidate_metrics'', nested_item (el_details r) ''regression'' ''candidate_metrics'' (JObj fmempty)),
        (''delta'', dget_or (el_metrics r) ''regression.delta'' (JObj fmempty)), (''thresholds'', JObj th),
        (''gate_pass'', JBool (el_success r)),
        (''gate_reasons'', nested_item (el_details r) ''regression'' ''gate_reasons'' (JArr []))])))"

definition evaluate_prompt_regression ::
  "dict \<Rightarrow> dict \<Rightarrow> dict \<Rightarrow> dict \<Rightarrow>
   (('s, 'z) platform_world_scheme, evaluation_result \<times> dict) prog" where
  "evaluate_prompt_regression b c th metadata =
     bnd (evaluate_output [regression_evaluator th] (OutValue (JObj (dict_of [(''baseline'', JObj b), (''candidate'', JObj c)]))))
       (\<lambda>r. bnd (regression_document metadata th r) (\<lambda>doc. ret (r, doc)))"

end
