(* ===== verification/Evaluators_Correct.thy ===== *)
theory Evaluators_Correct
  imports Evaluators Service_Correct
begin

text \<open>
  The evaluators: the score of a batch is the share of its cases that pass, its report fits the gate, a
  regression is found exactly when a bound is broken, and what counts as unsupported.
\<close>

section \<open>Counting cases\<close>

lemma gives_fold_counted:
  assumes "I ys acc" and "\<And>ys x acc. I ys acc \<Longrightarrow> gives (I (ys @ [x])) E (f x acc)"
  shows "gives (I (ys @ xs)) E (fold_prog f xs acc)"
  using assms(1)
proof (induction xs arbitrary: ys acc)
  case (Cons x xs)
  show ?case
    using Cons.IH [of "ys @ [x]"] by (auto intro: gives_bnd [OF assms(2) [OF Cons.prems]])
qed (simp add: gives_ret)

text \<open>Whether the calls of a case match what is expected of it.\<close>

definition arg_score :: "json \<Rightarrow> json \<Rightarrow> rat" where
  "arg_score expected called =
     (if \<not> truthy expected then 1
      else (case expected of
          JObj e \<Rightarrow> if fmlookup e ''missing_or_invalid'' \<noteq> None then 1 else (case called of JObj d \<Rightarrow> arg_match e d | _ \<Rightarrow> 0)
        | _ \<Rightarrow> 0))"

definition tools_match :: "dict \<Rightarrow> bool" where
  "tools_match c \<longleftrightarrow> dget_or c ''expected_tools'' JNull = dget_or c ''called_tools'' JNull"

definition args_score :: "dict \<Rightarrow> rat" where
  "args_score c = arg_score (dget_or c ''expected_args'' JNull) (dget_or c ''called_args'' JNull)"

definition passes :: "json \<Rightarrow> bool" where
  "passes v \<longleftrightarrow> (case v of JObj c \<Rightarrow> tools_match c \<and> 8 / 10 \<le> args_score c | _ \<Rightarrow> False)"

lemma share_bounds: "k \<le> n \<Longrightarrow> 0 \<le> (of_nat k :: rat) / of_nat n \<and> (of_nat k :: rat) / of_nat n \<le> 1"
  by (cases "n = 0") (auto simp: divide_le_eq)

lemma arg_match_bounds: "0 \<le> arg_match e d \<and> arg_match e d \<le> 1"
  unfolding arg_match_def Let_def by (auto intro!: share_bounds [THEN conjunct1] share_bounds [THEN conjunct2])

lemma arg_score_bounds: "0 \<le> arg_score e d \<and> arg_score e d \<le> 1"
  using arg_match_bounds by (auto simp: arg_score_def split: json.splits)

lemma gives_dict_item: "gives (\<lambda>v. v = dget_or d k JNull) (\<lambda>_. True) (dict_item d k)"
  by (auto simp: dict_item_def of_option_def dget_or_def gives_ret gives_raise split: option.splits)

lemma gives_expected_match: "gives (\<lambda>a. a = arg_score e d) (\<lambda>_. True) (expected_match e d)"
  by (cases e; cases d) (auto simp: expected_match_def arg_score_def as_dict_def gives_ret gives_raise)

lemma gives_case_match:
  "gives (\<lambda>(ts, a). ts = (if tools_match c then 1 else 0) \<and> a = args_score c) (\<lambda>_. True) (case_match c)"
  unfolding case_match_def
  by (intro gives_bnd [OF gives_dict_item] gives_bnd [OF gives_expected_match] gives_ret)
    (auto simp: tools_match_def args_score_def tool_match_def gives_ret)

text \<open>The counters the report's rates are made of.\<close>

definition core :: "tally \<Rightarrow> rat list \<times> rat list \<times> rat list \<times> nat \<times> nat \<times> nat" where
  "core t = (ty_tool_scores t, ty_arg_scores t, ty_retries t, ty_task_success t, ty_hallucination_flags t, ty_planner_invalid t)"

definition flagged :: "bool \<Rightarrow> rat list \<times> rat list \<times> rat list \<times> nat \<times> nat \<times> nat \<Rightarrow> rat list \<times> rat list \<times> rat list \<times> nat \<times> nat \<times> nat" where
  "flagged b = (\<lambda>(ts, as, rs, s, h, p). (ts, as, rs, s, h + (if b then 1 else 0), p))"

definition invalid :: "bool \<Rightarrow> rat list \<times> rat list \<times> rat list \<times> nat \<times> nat \<times> nat \<Rightarrow> rat list \<times> rat list \<times> rat list \<times> nat \<times> nat \<times> nat" where
  "invalid b = (\<lambda>(ts, as, rs, s, h, p). (ts, as, rs, s, h, p + (if b then 1 else 0)))"

lemma core_simps [simp]:
  "core (t\<lparr>ty_review_pool := rp\<rparr>) = core t" "core (t\<lparr>ty_draws := k\<rparr>) = core t" "core (t\<lparr>ty_offline := k\<rparr>) = core t"
  "core (t\<lparr>ty_judge_checked := k, ty_judge_pass := k'\<rparr>) = core t" "core (t\<lparr>ty_judge_checked := k\<rparr>) = core t"
  "core (t\<lparr>ty_permission_cases := k\<rparr>) = core t"
  "core (t\<lparr>ty_permission_cases := k, ty_permission_correct := k'\<rparr>) = core t"
  "core (t\<lparr>ty_dims := ds, ty_case_scores := cs\<rparr>) = core t"
  "core (t\<lparr>ty_hallucination_flags := Suc (ty_hallucination_flags t), ty_finding_count := k, ty_kinds := ks\<rparr>) = flagged True (core t)"
  "core (t\<lparr>ty_planner_invalid := Suc (ty_planner_invalid t)\<rparr>) = invalid True (core t)"
  "flagged False x = x" "invalid False x = x"
  by (simp_all add: core_def flagged_def invalid_def split_beta)

lemma gives_add_review: "core t = x \<Longrightarrow> gives (\<lambda>t'. core t' = x) (\<lambda>_. True) (add_review c reason ks extra t)"
  unfolding add_review_def by (intro gives_bnd [OF gives_any] gives_ret) simp

lemma gives_tally_findings: "gives (\<lambda>t'. core t' = flagged (fs \<noteq> []) (core t)) (\<lambda>_. True) (tally_findings c fs t)"
  by (cases fs) (auto simp: tally_findings_def intro!: gives_ret gives_add_review)

lemma gives_judge_case: "core t = x \<Longrightarrow> gives (\<lambda>t'. core t' = x) (\<lambda>_. True) (judge_case judge c t)"
  unfolding judge_case_def Let_def
  by (intro gives_bnd [OF gives_any]) (auto intro!: gives_ret gives_add_review)

lemma gives_tally_judge: "gives (\<lambda>t'. core t' = core t) (\<lambda>_. True) (tally_judge st c t)"
  by (auto simp: tally_judge_def Let_def split: option.split intro!: gives_ret gives_bnd [OF gives_any] gives_judge_case)

lemma gives_tally_planner: "\<exists>b. gives (\<lambda>t'. core t' = invalid b (core t)) (\<lambda>_. True) (tally_planner c t)"
proof (cases "\<not> truthy (dget_or c ''planner_valid'' (JBool True)) \<or> truthy (dget_or c ''planner_fallback'' (JBool False))")
  case True
  then show ?thesis
    by (intro exI [of _ True]) (simp add: tally_planner_def gives_add_review)
next
  case False
  then show ?thesis by (intro exI [of _ False]) (simp add: tally_planner_def gives_ret)
qed

lemma gives_tally_mismatch: "gives (\<lambda>t'. core t' = core t) (\<lambda>_. True) (tally_mismatch c ts a t)"
  by (simp add: tally_mismatch_def gives_ret gives_add_review)

lemma gives_tally_permission: "gives (\<lambda>(t', ok). core t' = core t) (\<lambda>_. True) (tally_permission c t)"
  unfolding tally_permission_def Let_def
  by (intro gives_bnd [OF gives_any]) (auto intro!: gives_ret gives_bnd [OF gives_add_review])

lemma gives_tally_dimension: "gives (\<lambda>t'. core t' = core t) (\<lambda>_. True) (tally_dimension c ts a b t)"
proof -
  have step: "gives (\<lambda>(t', ok). core t' = core t) (\<lambda>_. True)
      (if dim = ''permission'' then bnd (tally_permission c t) (\<lambda>(t', ok). ret (t', Some ok)) else ret (t, None))" for dim
    by (auto intro!: gives_ret gives_bnd [OF gives_tally_permission])
  show ?thesis
    unfolding tally_dimension_def
    by (rule gives_bnd [OF gives_any], rule gives_bnd [OF step])
      (auto simp del: pick.simps intro!: gives_ret gives_bnd [OF gives_any])
qed

text \<open>A case adds its scores, and is counted as a success exactly when it passes.\<close>

definition scored :: "rat \<Rightarrow> rat \<Rightarrow> rat \<Rightarrow> bool \<Rightarrow> rat list \<times> rat list \<times> rat list \<times> nat \<times> nat \<times> nat \<Rightarrow> rat list \<times> rat list \<times> rat list \<times> nat \<times> nat \<times> nat" where
  "scored x a r ok = (\<lambda>(ts, as, rs, s, h, p). (ts @ [x], as @ [a], rs @ [r], s + (if ok then 1 else 0), h, p))"

lemma gives_tally_numbers:
  "gives (\<lambda>t'. \<exists>r. core t' = scored ts a r (rule_pass ts a) (core t)) (\<lambda>_. True) (tally_numbers c ts a t)"
  unfolding tally_numbers_def
  by (intro gives_bnd [OF gives_any] gives_ret) (auto simp: core_def scored_def)

definition grown :: "json \<Rightarrow> tally \<Rightarrow> tally \<Rightarrow> bool" where
  "grown v t t' \<longleftrightarrow> (\<exists>x a r b b'. core t' = invalid b (flagged b' (scored x a r (passes v) (core t))) \<and>
     x \<in> {0, 1} \<and> 0 \<le> a \<and> a \<le> 1)"

lemma grownI:
  "core t' = invalid b (flagged b' (scored x a r (passes v) (core t))) \<Longrightarrow> x \<in> {0, 1} \<Longrightarrow> 0 \<le> a \<and> a \<le> 1 \<Longrightarrow> grown v t t'"
  unfolding grown_def by blast

lemma gives_score_case:
  fixes st :: "'w score_settings"
  shows "gives (grown v t) (\<lambda>_. True) (score_case st v t)"
proof (cases v)
  case (JObj c)
  let ?x = "if tools_match c then 1 else 0 :: rat"
  let ?a = "args_score c"
  have ok: "rule_pass ?x ?a = passes v" by (simp add: rule_pass_def passes_def JObj)
  have last: "gives (\<lambda>t'. \<exists>b. core t' = invalid b z) (\<lambda>_. True)
      (bnd (tally_judge st c t2) (\<lambda>t3. bnd (tally_planner c t3) (\<lambda>t4. bnd (tally_mismatch c ts a t4) (\<lambda>t5.
         tally_dimension c ts a f t5))))" if "core t2 = z" for t2 z ts a f
  proof (rule gives_bnd [OF gives_tally_judge])
    fix t3 assume 3: "core t3 = core t2"
    obtain b where b: "gives (\<lambda>t'. core t' = invalid b (core t3)) (\<lambda>_. True) (tally_planner c t3 :: ('w, tally) prog)"
      using gives_tally_planner by blast
    show "gives (\<lambda>t'. \<exists>b. core t' = invalid b z) (\<lambda>_. True)
      (bnd (tally_planner c t3) (\<lambda>t4. bnd (tally_mismatch c ts a t4) (\<lambda>t5. tally_dimension c ts a f t5)) :: ('w, tally) prog)"
      by (intro gives_bnd [OF b] gives_bnd [OF gives_tally_mismatch] gives_weaken [OF gives_tally_dimension])
        (use that 3 in auto)
  qed
  have body: "gives (grown v t) (\<lambda>_. True)
      (bnd (tally_findings c fs t1) (\<lambda>t2. bnd (has_offline_fallback c) (\<lambda>offline.
       bnd (tally_judge st c (if offline then t2\<lparr>ty_offline := Suc (ty_offline t2)\<rparr> else t2)) (\<lambda>t3.
       bnd (tally_planner c t3) (\<lambda>t4. bnd (tally_mismatch c ?x ?a t4) (\<lambda>t5. tally_dimension c ?x ?a (fs \<noteq> []) t5))))))"
    if "core t1 = scored ?x ?a r (passes v) (core t)" for fs t1 r
  proof (rule gives_bnd [OF gives_tally_findings], rule gives_bnd [OF gives_any])
    fix t2 offline assume 2: "core t2 = flagged (fs \<noteq> []) (core t1)"
    have "core (if offline then t2\<lparr>ty_offline := Suc (ty_offline t2)\<rparr> else t2) = flagged (fs \<noteq> []) (core t1)"
      using 2 by simp
    note rest = last [OF this, of ?x ?a "fs \<noteq> []"]
    show "gives (grown v t) (\<lambda>_. True)
      (bnd (tally_judge st c (if offline then t2\<lparr>ty_offline := Suc (ty_offline t2)\<rparr> else t2)) (\<lambda>t3.
       bnd (tally_planner c t3) (\<lambda>t4. bnd (tally_mismatch c ?x ?a t4) (\<lambda>t5. tally_dimension c ?x ?a (fs \<noteq> []) t5))))"
    proof (rule gives_weaken [OF rest])
      fix t' assume "\<exists>b. core t' = invalid b (flagged (fs \<noteq> []) (core t1))"
      then show "grown v t t'"
        using that arg_score_bounds [of "dget_or c ''expected_args'' JNull" "dget_or c ''called_args'' JNull"]
        by (elim exE) (rule grownI [of _ _ "fs \<noteq> []" ?x ?a r], simp_all add: args_score_def)
    qed simp
  qed
  show ?thesis
    unfolding score_case_def JObj json.case bnd_ret
  proof (rule gives_bnd [OF gives_case_match], clarify)
    show "gives (grown (JObj c) t) (\<lambda>_. True) (bnd (tally_numbers c ?x ?a t) (\<lambda>t1.
      bnd (detect_fabrications (se_text_tools st) c) (\<lambda>fs. bnd (tally_findings c fs t1) (\<lambda>t2.
      bnd (has_offline_fallback c) (\<lambda>offline.
      bnd (tally_judge st c (if offline then t2\<lparr>ty_offline := Suc (ty_offline t2)\<rparr> else t2)) (\<lambda>t3.
      bnd (tally_planner c t3) (\<lambda>t4. bnd (tally_mismatch c ?x ?a t4) (\<lambda>t5. tally_dimension c ?x ?a (fs \<noteq> []) t5))))))))"
      by (rule gives_bnd [OF gives_tally_numbers], elim exE, rule gives_bnd [OF gives_any], rule body [unfolded JObj])
        (simp add: ok JObj)
  qed
qed (simp_all add: score_case_def gives_raise)

definition counted :: "json list \<Rightarrow> tally \<Rightarrow> bool" where
  "counted vs t \<longleftrightarrow> (case core t of (ts, as, rs, s, h, p) \<Rightarrow>
     length ts = length vs \<and> set ts \<subseteq> {0, 1} \<and> length as = length vs \<and> (\<forall>a\<in>set as. 0 \<le> a \<and> a \<le> 1) \<and>
     length rs = length vs \<and> s = length (filter passes vs) \<and> h \<le> length vs \<and> p \<le> length vs)"

lemma counted_grown: "counted vs t \<Longrightarrow> grown v t t' \<Longrightarrow> counted (vs @ [v]) t'"
  by (auto simp: counted_def grown_def scored_def flagged_def invalid_def split: prod.splits)

lemma counted_empty: "counted [] empty_tally"
  by (simp add: counted_def core_def empty_tally_def)

lemma gives_counted: "gives (counted vs) (\<lambda>_. True) (fold_prog (score_case st) vs empty_tally)"
proof -
  have "gives (counted (ys @ [x])) (\<lambda>_. True) (score_case st x acc)" if "counted ys acc" for ys x acc
    by (rule gives_weaken [OF gives_score_case counted_grown [OF that]]) simp_all
  from gives_fold_counted [where I = counted, OF counted_empty this] show ?thesis by simp
qed

text \<open>
  C30. The score of a batch is the share of its cases that pass: the called tools are the expected ones, and
  at least four fifths of the expected arguments are given; an empty batch scores zero.
\<close>

theorem score_is_pass_rate:
  "case score_evaluate st (dict_of [(''cases'', JArr vs)]) w of
     (Inl e, w') \<Rightarrow> True
   | (Inr r, w') \<Rightarrow> el_score r = Some (of_nat (length (filter passes vs)) / of_nat (max 1 (length vs)))"
proof -
  have "gives (\<lambda>r. el_score r = Some (of_nat (length (filter passes vs)) / of_nat (max 1 (length vs)))) (\<lambda>_. True)
      (score_evaluate st (dict_of [(''cases'', JArr vs)]))"
    unfolding score_evaluate_def
    by (simp add: dget_or_dict_of items_of_def,
        intro gives_bnd [OF gives_counted] gives_bnd [OF gives_any] gives_ret)
      (auto simp: counted_def core_def ratio_def)
  from gives_case [OF this, of w] show ?thesis .
qed

section \<open>The report and the gate\<close>

lemma sum_ratio_bounds:
  fixes xs :: "rat list"
  assumes "\<forall>x\<in>set xs. 0 \<le> x \<and> x \<le> 1" and "length xs = n"
  shows "0 \<le> ratio (sum_list xs) n \<and> ratio (sum_list xs) n \<le> 1"
proof -
  have "0 \<le> sum_list xs \<and> sum_list xs \<le> of_nat (length xs)" using assms(1) by (induction xs) auto
  then show ?thesis using assms(2) by (auto simp: ratio_def divide_le_eq)
qed

lemma count_ratio_bounds: "k \<le> n \<Longrightarrow> 0 \<le> ratio (of_nat k) n \<and> ratio (of_nat k) n \<le> 1"
  by (auto simp: ratio_def divide_le_eq)

definition rates_in_bounds :: "gate_metrics \<Rightarrow> bool" where
  "rates_in_bounds x \<longleftrightarrow> list_all (\<lambda>v. 0 \<le> v \<and> v \<le> 1) [gm_tool x, gm_arg x, gm_retry x, gm_hallucination x, gm_planner x]"

lemma gives_score_report:
  "gives (\<lambda>m. \<exists>calls. reports m \<lparr>gm_tool = ratio (sum_list (ty_tool_scores t)) n, gm_arg = ratio (sum_list (ty_arg_scores t)) n,
      gm_calls = calls, gm_retry = ratio (of_nat (length (filter (\<lambda>x. x > 0) (ty_retries t)))) n,
      gm_hallucination = ratio (of_nat (ty_hallucination_flags t)) n, gm_planner = ratio (of_nat (ty_planner_invalid t)) n\<rparr>)
     (\<lambda>_. True) (score_report st batch n t)"
  unfolding score_report_def
  by (intro gives_bnd [OF gives_any] gives_ret) (simp add: reports_def numeric_def dget_dict_of dget_or_dict_of)

text \<open>
  C31. The report of a scored batch has the six metrics the gate needs, and the five rates among them are
  between zero and one, whatever the cases are.
\<close>

theorem score_report_fits_gate:
  "case score_evaluate st batch w of
     (Inl e, w') \<Rightarrow> True
   | (Inr r, w') \<Rightarrow> \<exists>x. reports (el_metrics r) x \<and> rates_in_bounds x"
proof -
  have bounds: "rates_in_bounds \<lparr>gm_tool = ratio (sum_list (ty_tool_scores t)) n, gm_arg = ratio (sum_list (ty_arg_scores t)) n,
      gm_calls = calls, gm_retry = ratio (of_nat (length (filter (\<lambda>x. x > 0) (ty_retries t)))) n,
      gm_hallucination = ratio (of_nat (ty_hallucination_flags t)) n, gm_planner = ratio (of_nat (ty_planner_invalid t)) n\<rparr>"
    if "counted vs t" and "n = length vs" for vs t n calls
  proof -
    have c: "set (ty_tool_scores t) \<subseteq> {0, 1}" "\<forall>a\<in>set (ty_arg_scores t). 0 \<le> a \<and> a \<le> 1"
        "length (ty_tool_scores t) = n" "length (ty_arg_scores t) = n" "length (ty_retries t) = n"
        "ty_hallucination_flags t \<le> n" "ty_planner_invalid t \<le> n"
      using that by (auto simp: counted_def core_def)
    have "\<forall>x\<in>set (ty_tool_scores t). 0 \<le> x \<and> x \<le> 1" using c(1) by fastforce
    moreover have "length (filter (\<lambda>x. x > 0) (ty_retries t)) \<le> n" using c(5) length_filter_le by metis
    ultimately show ?thesis
      using sum_ratio_bounds c count_ratio_bounds by (simp add: rates_in_bounds_def)
  qed
  have "gives (\<lambda>r. \<exists>x. reports (el_metrics r) x \<and> rates_in_bounds x) (\<lambda>_. True) (score_evaluate st batch)"
    unfolding score_evaluate_def
    by (rule gives_bnd [OF gives_any], rule gives_bnd [OF gives_counted], rule gives_bnd [OF gives_score_report])
      (auto intro!: gives_ret bounds)
  from gives_case [OF this, of w] show ?thesis .
qed

section \<open>Namespaces\<close>

lemma dict_of_map:
  "inj_on f (insert k (set ks)) \<Longrightarrow> dget (dict_of (map (\<lambda>k. (f k, g k)) ks)) (f k) = (if k \<in> set ks then Some (g k) else None)"
proof (induction ks)
  case Nil
  then show ?case by (simp add: dict_of_def)
next
  case (Cons x ks)
  have "inj_on f (insert k (set ks))" using Cons.prems by (rule inj_on_subset) auto
  moreover have "f x = f k \<longleftrightarrow> x = k" using inj_on_eq_iff [OF Cons.prems, of x k] by simp
  ultimately show ?case using Cons.IH by (auto simp: dget_dict_of map_add_def split: option.splits)
qed

lemma dget_or_Some: "dget d k = Some v \<Longrightarrow> dget_or d k x = v"
  by (simp add: dget_or_def)

lemma namespaced_lookup: "dget (namespaced ns d) (ns @ ''.'' @ k) = dget d k"
proof -
  have "dget (namespaced ns d) (ns @ ''.'' @ k) = (if k \<in> fset (fmdom d) then Some (dget_or d k JNull) else None)"
    unfolding namespaced_def
    by (subst dict_of_map [where f = "\<lambda>k. ns @ ''.'' @ k" and k = k]) (simp_all add: inj_on_def)
  then show ?thesis by (auto simp: dget_or_def fmlookup_dom_iff split: option.splits)
qed

text \<open>
  What the engine files under an evaluator's name comes back unchanged: the metrics taken from the
  engine's result of one evaluator are the metrics of the evaluator.
\<close>

theorem namespaced_metrics_roundtrip:
  assumes "ns \<noteq> []"
  shows "extract_namespaced_metrics (assessed score (merge_result ns (empty_result ok) r)) ns = el_metrics r"
proof (rule fmap_ext)
  fix k
  let ?r = "assessed score (merge_result ns (empty_result ok) r)"
  let ?M = "el_metrics ?r" and ?p = "ns @ ''.''"
  have "?p @ k \<noteq> ''security_assessed'' \<and> ?p @ k \<noteq> ''security_score''"
  proof -
    have "CHR ''.'' \<in> set (?p @ k)" by simp
    moreover have "CHR ''.'' \<notin> set ''security_assessed''" "CHR ''.'' \<notin> set ''security_score''" by simp_all
    ultimately show ?thesis by metis
  qed
  then have key: "dget ?M (?p @ k) = dget (el_metrics r) k"
    using assms namespaced_lookup [of ns "el_metrics r" k]
    by (cases "dget (el_metrics r) k") (auto simp: assessed_def merge_result_def empty_result_def split: option.splits)
  let ?ks = "filter (starts_with ?p) (sorted_list_of_fset (fmdom ?M))"
  have inj: "inj_on (drop (length ?p)) (insert (?p @ k) (set ?ks))"
    by (rule inj_onI) (auto simp: starts_with_prefix prefix_def)
  have "dget (extract_namespaced_metrics ?r ns) (drop (length ?p) (?p @ k)) =
      (if ?p @ k \<in> set ?ks then Some (dget_or ?M (?p @ k) JNull) else None)"
    unfolding extract_namespaced_metrics_def Let_def by (rule dict_of_map [OF inj])
  then show "dget (extract_namespaced_metrics ?r ns) k = dget (el_metrics r) k"
    using key by (cases "dget ?M (?p @ k)") (auto simp: starts_with_prefix dget_or_def fmlookup_dom_iff)
qed

theorem namespaced_metrics_roundtrip_witness:
  "\<forall>r. extract_namespaced_metrics (assessed (Some 100) (merge_result ''score'' (empty_result True) r)) ''score'' = el_metrics r"
  by (intro allI namespaced_metrics_roundtrip) simp

section \<open>Regression\<close>

text \<open>The scores a comparison needs, and the bounds on their change.\<close>

record regression_scores =
  rg_tool :: rat
  rg_arg :: rat
  rg_retry :: rat
  rg_planner :: rat

definition has_float :: "dict \<Rightarrow> string \<Rightarrow> rat \<Rightarrow> bool" where
  "has_float d k x \<longleftrightarrow> (\<exists>v. dget d k = Some v \<and> json_float v = Inr x)"

definition scores :: "dict \<Rightarrow> regression_scores \<Rightarrow> bool" where
  "scores d s \<longleftrightarrow> has_float d ''tool_selection_accuracy'' (rg_tool s) \<and> has_float d ''arg_accuracy'' (rg_arg s) \<and>
     has_float d ''retry_rate'' (rg_retry s) \<and> has_float d ''planner_invalid_rate'' (rg_planner s)"

definition bounds_of :: "dict \<Rightarrow> regression_scores \<Rightarrow> bool" where
  "bounds_of th s \<longleftrightarrow> numeric th ''max_tool_selection_accuracy_drop'' (rg_tool s) \<and> numeric th ''max_arg_accuracy_drop'' (rg_arg s) \<and>
     numeric th ''max_retry_rate_surge'' (rg_retry s) \<and> numeric th ''max_planner_invalid_rate_surge'' (rg_planner s)"

definition no_regression :: "regression_scores \<Rightarrow> regression_scores \<Rightarrow> regression_scores \<Rightarrow> bool" where
  "no_regression b c m \<longleftrightarrow> rg_tool b - rg_tool c \<le> rg_tool m \<and> rg_arg b - rg_arg c \<le> rg_arg m \<and>
     rg_retry c - rg_retry b \<le> rg_retry m \<and> rg_planner c - rg_planner b \<le> rg_planner m"

lemma float_item_ret: "has_float d k x \<Longrightarrow> float_item d k = ret x"
  by (auto simp: has_float_def float_item_def dict_item_def of_option_def)

lemma read_float_empty: "read_float [] = None"
  by (simp add: read_float_def read_signed_def read_unsigned_float_def read_mantissa_def split_first_def)

lemma truthy_float: "json_float v = Inr x \<Longrightarrow> \<not> truthy v \<Longrightarrow> x = 0"
  by (cases v) (auto simp: read_float_empty split: option.splits)

lemma float_or_zero_ret: "has_float d k x \<Longrightarrow> float_or_zero d k = ret x"
  using truthy_float by (fastforce simp: has_float_def float_or_zero_def dget_or_def)

text \<open>A comparison gives a reason exactly when the bound is broken.\<close>

definition reasons_of :: "('w, string list) prog \<Rightarrow> string list \<Rightarrow> bool \<Rightarrow> bool" where
  "reasons_of m before kept \<longleftrightarrow> (\<exists>line. m = ret (if kept then before else before @ [line]))"

lemma compare_metric_reasons:
  "numeric th bound x \<Longrightarrow>
   reasons_of (compare_metric low k verb bound label th b c before) before (if low then b - c \<le> x else c - b \<le> x)"
  by (auto simp: reasons_of_def compare_metric_def threshold_def numeric_def dict_item_def of_option_def as_number_def not_less
      algebra_simps)

lemma reasons_ret: "reasons_of m before kept \<Longrightarrow> \<exists>rs. m = ret rs \<and> (rs = [] \<longleftrightarrow> before = [] \<and> kept)"
  by (auto simp: reasons_of_def)

lemma compare_exact:
  fixes w :: 'w
  assumes b: "scores b sb" and c: "scores c sc" and th: "bounds_of th m"
  shows "\<exists>reasons. compare_prompt_regression_scores b c th = (ret (no_regression sb sc m, reasons, score_delta b c)
      :: ('w, bool \<times> string list \<times> dict) prog) \<and> (reasons = [] \<longleftrightarrow> no_regression sb sc m)"
proof -
  have floats: "float_item d ''tool_selection_accuracy'' = (ret (rg_tool s) :: ('w, rat) prog)"
    "float_item d ''arg_accuracy'' = (ret (rg_arg s) :: ('w, rat) prog)"
    "float_item d ''retry_rate'' = (ret (rg_retry s) :: ('w, rat) prog)"
    "float_or_zero d ''planner_invalid_rate'' = (ret (rg_planner s) :: ('w, rat) prog)" if "scores d s" for d s
    using that by (auto simp: scores_def intro: float_item_ret float_or_zero_ret)
  have bounds: "numeric th ''max_tool_selection_accuracy_drop'' (rg_tool m)" "numeric th ''max_arg_accuracy_drop'' (rg_arg m)"
    "numeric th ''max_retry_rate_surge'' (rg_retry m)" "numeric th ''max_planner_invalid_rate_surge'' (rg_planner m)"
    using th by (simp_all add: bounds_of_def)
  obtain r1 where 1: "compare_metric True ''tool_selection_accuracy'' '' dropped too much: '' ''max_tool_selection_accuracy_drop'' ''max_drop''
      th (rg_tool sb) (rg_tool sc) [] = (ret r1 :: ('w, string list) prog)" "r1 = [] \<longleftrightarrow> ([] :: string list) = [] \<and> rg_tool sb - rg_tool sc \<le> rg_tool m"
    using reasons_ret [OF compare_metric_reasons [OF bounds(1), where low = True, unfolded if_True]] by blast
  obtain r2 where 2: "compare_metric True ''arg_accuracy'' '' dropped too much: '' ''max_arg_accuracy_drop'' ''max_drop''
      th (rg_arg sb) (rg_arg sc) r1 = (ret r2 :: ('w, string list) prog)" "r2 = [] \<longleftrightarrow> r1 = [] \<and> rg_arg sb - rg_arg sc \<le> rg_arg m"
    using reasons_ret [OF compare_metric_reasons [OF bounds(2), where low = True, unfolded if_True]] by blast
  obtain r3 where 3: "compare_metric False ''retry_rate'' '' surged too much: '' ''max_retry_rate_surge'' ''max_surge''
      th (rg_retry sb) (rg_retry sc) r2 = (ret r3 :: ('w, string list) prog)" "r3 = [] \<longleftrightarrow> r2 = [] \<and> rg_retry sc - rg_retry sb \<le> rg_retry m"
    using reasons_ret [OF compare_metric_reasons [OF bounds(3), where low = False, unfolded if_False]] by blast
  obtain r4 where 4: "compare_metric False ''planner_invalid_rate'' '' surged too much: '' ''max_planner_invalid_rate_surge'' ''max_surge''
      th (rg_planner sb) (rg_planner sc) r3 = (ret r4 :: ('w, string list) prog)" "r4 = [] \<longleftrightarrow> r3 = [] \<and> rg_planner sc - rg_planner sb \<le> rg_planner m"
    using reasons_ret [OF compare_metric_reasons [OF bounds(4), where low = False, unfolded if_False]] by blast
  have all: "r4 = [] \<longleftrightarrow> no_regression sb sc m" using 1(2) 2(2) 3(2) 4(2) by (auto simp: no_regression_def)
  have "compare_prompt_regression_scores b c th = (ret (r4 = [], r4, score_delta b c) :: ('w, bool \<times> string list \<times> dict) prog)"
    unfolding compare_prompt_regression_scores_def
    by (simp only: floats [OF b] floats [OF c] 1(1) 2(1) 3(1) 4(1) bnd_ret)
  then show ?thesis using all by (intro exI [of _ r4]) simp
qed

text \<open>
  C32. Comparing a candidate with a baseline succeeds exactly when no score is worse than its bound allows:
  tool and argument accuracy do not drop by more, retry and invalid-plan rate do not rise by more; otherwise
  the result is a failure with reasons.
\<close>

theorem regression_exact:
  fixes w :: 'w
  assumes "scores b sb" and "scores c sc" and "bounds_of th m"
  shows "\<exists>r. regression_evaluate th (dict_of [(''baseline'', JObj b), (''candidate'', JObj c)]) w = (Inr r, w) \<and>
    (el_success r \<longleftrightarrow> no_regression sb sc m) \<and> (el_errors r = fmempty \<longleftrightarrow> no_regression sb sc m) \<and>
    el_score r = Some (if no_regression sb sc m then 1 else 0)"
proof -
  obtain reasons where c: "compare_prompt_regression_scores b c th = (ret (no_regression sb sc m, reasons, score_delta b c)
      :: ('w, bool \<times> string list \<times> dict) prog)" "reasons = [] \<longleftrightarrow> no_regression sb sc m"
    using compare_exact [OF assms] by blast
  have items: "bnd (dict_item (dict_of [(''baseline'', JObj b), (''candidate'', JObj c)]) ''baseline'') as_dict = (ret b :: ('w, dict) prog)"
    "bnd (dict_item (dict_of [(''baseline'', JObj b), (''candidate'', JObj c)]) ''candidate'') as_dict = (ret c :: ('w, dict) prog)"
    by (simp_all add: dict_item_def dget_dict_of of_option_def as_dict_def)
  have "dict_of [(''gate_reasons'', x)] \<noteq> fmempty" for x by (simp add: dict_of_def)
  then show ?thesis
    using c(2) by (simp add: regression_evaluate_def items c(1) ret_run empty_result_def)
qed

definition demo_scores :: "rat \<Rightarrow> dict" where
  "demo_scores x = dict_of [(''tool_selection_accuracy'', JFloat x), (''arg_accuracy'', JFloat 1), (''retry_rate'', JFloat 0),
     (''planner_invalid_rate'', JFloat 0)]"

definition demo_bounds :: dict where
  "demo_bounds = dict_of [(''max_tool_selection_accuracy_drop'', JFloat (1 / 10)), (''max_arg_accuracy_drop'', JFloat (1 / 10)),
     (''max_retry_rate_surge'', JFloat (1 / 10)), (''max_planner_invalid_rate_surge'', JFloat (1 / 10))]"

theorem regression_exact_witness:
  "\<forall>w :: nat. \<exists>r. regression_evaluate demo_bounds (dict_of [(''baseline'', JObj (demo_scores 1)), (''candidate'', JObj (demo_scores (8 / 10)))]) w
     = (Inr r, w) \<and> \<not> el_success r"
proof
  fix w :: nat
  have s: "scores (demo_scores x) \<lparr>rg_tool = x, rg_arg = 1, rg_retry = 0, rg_planner = 0\<rparr>" for x
    by (simp add: scores_def demo_scores_def has_float_def dget_dict_of)
  have b: "bounds_of demo_bounds \<lparr>rg_tool = 1 / 10, rg_arg = 1 / 10, rg_retry = 1 / 10, rg_planner = 1 / 10\<rparr>"
    by (simp add: bounds_of_def demo_bounds_def numeric_def dget_dict_of)
  show "\<exists>r. regression_evaluate demo_bounds (dict_of [(''baseline'', JObj (demo_scores 1)), (''candidate'', JObj (demo_scores (8 / 10)))]) w
      = (Inr r, w) \<and> \<not> el_success r"
    using regression_exact [OF s [of 1] s [of "8 / 10"] b, of w] by (auto simp: no_regression_def)
qed

section \<open>Unsupported claims\<close>

lemma underscore_no_number: "CHR ''_'' \<in> set s \<Longrightarrow> \<not> is_number s"
proof -
  have "digit_val (CHR ''_'') = None" by (simp add: digit_val_def)
  then show "CHR ''_'' \<in> set s \<Longrightarrow> \<not> is_number s" by (auto simp: is_number_def list_all_iff)
qed

lemma retry_base_suffix:
  assumes "is_number n" and "seen @ t \<noteq> []"
  shows "retry_base seen (t @ ''_retry_'' @ n) = Some (seen @ t)"
  using assms(2)
proof (induction t arbitrary: seen)
  case Nil
  then show ?case using assms(1) by simp
next
  case (Cons c t)
  have "(c # t) @ ''_retry_'' @ n = ((c # t) @ ''_retry'') @ CHR ''_'' # n" by simp
  moreover have "7 - length ((c # t) @ ''_retry'') = 0" by simp
  ultimately have "drop 7 ((c # t) @ ''_retry_'' @ n) = drop 7 ((c # t) @ ''_retry'') @ CHR ''_'' # n"
    by (metis drop_0 drop_append)
  then have "CHR ''_'' \<in> set (drop 7 ((c # t) @ ''_retry_'' @ n))" by (metis in_set_conv_decomp)
  then have "retry_base seen ((c # t) @ ''_retry_'' @ n) = retry_base (seen @ [c]) (t @ ''_retry_'' @ n)"
    using underscore_no_number by simp
  then show ?case using Cons.IH [of "seen @ [c]"] by simp
qed

text \<open>An attempt of a retry counts for its tool.\<close>

lemma base_tool_name_retry: "t \<noteq> [] \<Longrightarrow> is_number n \<Longrightarrow> base_tool_name (t @ ''_retry_'' @ n) = t"
  using retry_base_suffix [of n "[]" t] by (simp add: base_tool_name_def)

lemma successful_tools_iff:
  "n \<in> set (successful_tools results) \<longleftrightarrow>
     (\<exists>d. JObj d \<in> set results \<and> entry_tool d \<noteq> [] \<and> result_ok (dget_or d ''result'' JNull) \<and> base_tool_name (entry_tool d) = n)"
  by (force simp: successful_tools_def split: json.splits if_splits)

lemma fold_add_claim_grows: "set acc \<subseteq> set (fold (add_claim input) xs acc)"
proof (induction xs arbitrary: acc)
  case (Cons x xs)
  have "set acc \<subseteq> set (add_claim input x acc)" by (auto simp: add_claim_def)
  then show ?case using Cons.IH [of "add_claim input x acc"] by auto
qed simp

lemma claims_empty:
  "claims_in_response response ws input = [] \<longleftrightarrow> (\<forall>x\<in>set (find_words ws response). occurs_in (no_blanks x) (no_blanks input))"
proof -
  have "fold (add_claim input) xs [] = [] \<longleftrightarrow> (\<forall>x\<in>set xs. occurs_in (no_blanks x) (no_blanks input))" for xs
  proof (induction xs)
    case (Cons x xs)
    show ?case
    proof (cases "occurs_in (no_blanks x) (no_blanks input)")
      case True
      then show ?thesis using Cons.IH by (simp add: add_claim_def)
    next
      case False
      then have "x \<in> set (fold (add_claim input) (x # xs) [])"
        using fold_add_claim_grows [of "[x]" input xs] by (simp add: add_claim_def)
      then show ?thesis using False by (metis empty_iff list.set(1) list.set_intros(1))
    qed
  qed simp
  then show ?thesis by (simp add: claims_in_response_def)
qed

definition succeeded :: "json list \<Rightarrow> string \<Rightarrow> bool" where
  "succeeded results tool \<longleftrightarrow>
     (\<exists>d. JObj d \<in> set results \<and> result_ok (dget_or d ''result'' JNull) \<and> base_tool_name (entry_tool d) = tool)"

text \<open>
  C33. An answer is found to claim an action it did not do exactly when, for one of the known actions, it has
  words for the action that the user did not use, and no attempt of the action's tool, its retries
  included, succeeded.
\<close>

theorem unbacked_actions_exact:
  "detect_unbacked_actions f response \<noteq> [] \<longleftrightarrow>
     (\<exists>(action, label, ws, tool)\<in>set action_claims.
        (\<exists>x\<in>set (find_words ws response). \<not> occurs_in (no_blanks x) (no_blanks (fa_input f))) \<and> \<not> succeeded (fa_results f) tool)"
proof -
  have s: "tool \<in> set (successful_tools (fa_results f)) \<longleftrightarrow> succeeded (fa_results f) tool" if "tool \<noteq> []" for tool
    using that by (auto simp: successful_tools_iff succeeded_def base_tool_name_def)
  have claim: "claims_in_response response ws (fa_input f) \<noteq> [] \<longleftrightarrow>
      (\<exists>x\<in>set (find_words ws response). \<not> occurs_in (no_blanks x) (no_blanks (fa_input f)))" for ws
    using claims_empty by blast
  have one: "(case claims_in_response response ws (fa_input f) of [] \<Rightarrow> []
       | c # cs \<Rightarrow> if tool \<in> set (successful_tools (fa_results f)) then [] else [unbacked_finding f action label tool c]) \<noteq> [] \<longleftrightarrow>
      claims_in_response response ws (fa_input f) \<noteq> [] \<and> \<not> tool \<in> set (successful_tools (fa_results f))" for action label ws tool
    by (simp split: list.split)
  show ?thesis
    unfolding detect_unbacked_actions_def using one claim s by (simp add: action_claims_def del: One_nat_def)
qed

end
