(* ===== verification/Release_Gate.thy ===== *)
theory Release_Gate
  imports Evaluators Llm_Gateway
begin

text \<open>
  The gates of the delivery pipeline: \<open>quality_gate.py\<close>, \<open>unified_quality_gate.py\<close> and, under
  \<open>agent-eval/scripts\<close>, the agent's gate with its thresholds and the local judge. Reports are read through a
  parameter, what is printed is left out, and the reports are dicts.
\<close>

section \<open>Failing\<close>

definition gate_failure :: "string \<Rightarrow> exn" where
  "gate_failure msg = OtherError ''QualityGateError'' msg"

definition fail_gate :: "string \<Rightarrow> ('w, 'a) prog" where
  "fail_gate msg = raise (gate_failure msg)"

fun is_gate_failure :: "exn \<Rightarrow> bool" where
  "is_gate_failure (OtherError n s) = (n = ''QualityGateError'')"
| "is_gate_failure _ = False"

definition severity_rank :: "string \<Rightarrow> nat" where
  "severity_rank level = (case map_of [(''low'', 1), (''medium'', 2), (''high'', 3)] (lower level) of None \<Rightarrow> 2 | Some n \<Rightarrow> n)"

section \<open>Retries\<close>

text \<open>One attempt: an exit with code zero passes, another exit or a failure of the gate may be retried.\<close>

definition gate_attempt ::
  "('w, string option) prog \<Rightarrow> (exn \<Rightarrow> ('w, string option) prog) \<Rightarrow> ('w, string option) prog" where
  "gate_attempt check again =
     catch check (\<lambda>e. case e of SystemExit code \<Rightarrow> if code = 0 then ret None else again e
       | _ \<Rightarrow> if is_gate_failure e then again e else raise e)"

text \<open>With \<open>n\<close> retries left.\<close>

fun check_loop ::
  "rat \<Rightarrow> (('s, 'z) world_scheme, string option) prog \<Rightarrow> nat \<Rightarrow> (('s, 'z) world_scheme, string option) prog" where
  "check_loop delay check 0 = gate_attempt check raise"
| "check_loop delay check (Suc n) =
     gate_attempt check (\<lambda>e. thn (whenp (delay > 0) (py_sleep delay)) (check_loop delay check n))"

definition run_check_with_retries ::
  "env \<Rightarrow> (('s, 'z) world_scheme, string option) prog \<Rightarrow> (('s, 'z) world_scheme, string option) prog" where
  "run_check_with_retries env check =
     bnd (py_int (getenv env ''QUALITY_GATE_RETRY_ATTEMPTS'' ''1'')) (\<lambda>attempts.
     bnd (py_int (getenv env ''QUALITY_GATE_RETRY_DELAY_MS'' ''1000'')) (\<lambda>delay_ms.
     check_loop (of_int (max 0 delay_ms) / 1000) check (nat (max 1 attempts) - 1)))"

section \<open>Reports\<close>

text \<open>What the gates read: whether a report exists, and its contents; opening a missing one raises.\<close>

record 'w report_io =
  ri_exists :: "string \<Rightarrow> ('w, bool) prog"
  ri_load :: "string \<Rightarrow> ('w, json) prog"

text \<open>\<open>d.get(k) or {}\<close>.\<close>

definition sub_dict :: "dict \<Rightarrow> string \<Rightarrow> ('w, dict) prog" where
  "sub_dict d k = (let v = dget_or d k JNull in if truthy v then as_dict v else ret fmempty)"

definition is_on :: "env \<Rightarrow> string \<Rightarrow> string \<Rightarrow> bool" where
  "is_on env name d = (lower (strip (getenv env name d)) \<in> {''1'', ''true'', ''yes'', ''on''})"

definition check_report_freshness :: "env \<Rightarrow> dict \<Rightarrow> string \<Rightarrow> (('s, 'z) world_scheme, unit) prog" where
  "check_report_freshness env data name =
     (if getenv env ''QUALITY_GATE_CHECK_FRESHNESS'' ''1'' = ''0'' then ret ()
      else bnd (py_int (getenv env ''QUALITY_GATE_MAX_REPORT_AGE_SEC'' ''3600'')) (\<lambda>max_age.
        case dget_or data ''generated_at'' JNull of
          JNull \<Rightarrow> fail_gate (name @ '' report missing generated_at'')
        | v \<Rightarrow> bnd py_time (\<lambda>now.
            case json_int v of
              Inl e \<Rightarrow> fail_gate (name @ '' report has invalid generated_at: '' @ py_str v)
            | Inr at' \<Rightarrow>
                let age = trunc now - at' in
                if age < 0 then fail_gate (name @ '' report generated_at is in the future'')
                else if age > max_age then fail_gate (name @ '' report is stale: age='' @ int_text age @ ''s > max='' @ int_text max_age @
                  ''s (rerun producer step in this pipeline)'')
                else ret ())))"

section \<open>Benchmark\<close>

record benchmark_thresholds =
  bt_error_rate :: rat
  bt_p99 :: rat
  bt_factor :: rat
  bt_unstable :: rat
  bt_stdev :: rat

definition load_benchmark_thresholds :: "env \<Rightarrow> ('w, benchmark_thresholds) prog" where
  "load_benchmark_thresholds env =
     bnd (py_float (getenv env ''QUALITY_GATE_ERROR_RATE_MAX'' ''0.05'')) (\<lambda>e.
     bnd (py_float (getenv env ''QUALITY_GATE_P99_MS_MAX'' ''450'')) (\<lambda>p.
     bnd (py_float (getenv env ''QUALITY_GATE_P95_REGRESSION_FACTOR_MAX'' ''1.10'')) (\<lambda>f.
     bnd (py_float (getenv env ''QUALITY_GATE_UNSTABLE_RATE_MAX'' ''0.35'')) (\<lambda>u.
     bnd (py_float (getenv env ''QUALITY_GATE_P95_STDEV_MAX'' ''0'')) (\<lambda>s.
     ret \<lparr>bt_error_rate = e, bt_p99 = p, bt_factor = f, bt_unstable = u, bt_stdev = s\<rparr>)))))"

definition number_at :: "json \<Rightarrow> string \<Rightarrow> ('w, rat) prog" where
  "number_at v k = bnd (subscript v k) as_number"

definition fail_when :: "bool \<Rightarrow> string \<Rightarrow> ('w, unit) prog" where
  "fail_when bad msg = (if bad then fail_gate msg else ret ())"

definition ms_text :: "rat \<Rightarrow> string" where
  "ms_text x = fixed_text 1 x @ ''ms''"

text \<open>The five comparisons of a report with the thresholds.\<close>

definition check_benchmark_data :: "benchmark_thresholds \<Rightarrow> dict \<Rightarrow> ('w, unit) prog" where
  "check_benchmark_data t data =
     bnd (dict_item data ''baseline'') (\<lambda>baseline. bnd (dict_item data ''protected'') (\<lambda>protected.
     bnd (number_at protected ''error_rate'') (\<lambda>err.
     thn (fail_when (err > bt_error_rate t) (''protected error_rate too high: '' @ percent_text err @ '' > '' @ percent_text (bt_error_rate t)))
     (bnd (number_at protected ''p99_ms'') (\<lambda>p99.
     thn (fail_when (p99 > bt_p99 t) (''protected p99 too high: '' @ ms_text p99 @ '' > '' @ ms_text (bt_p99 t)))
     (bnd (number_at baseline ''p95_ms'') (\<lambda>base. bnd (number_at protected ''p95_ms'') (\<lambda>p95.
     let p95_limit = base * bt_factor t in
     thn (fail_when (p95 > p95_limit) (''protected p95 regressed too much: '' @ ms_text p95 @ '' > '' @ ms_text p95_limit @
       '' (factor='' @ fixed_text 2 (bt_factor t) @ '')''))
     (bnd (number_at protected ''degraded_rate'') (\<lambda>degraded.
     thn (fail_when (degraded + err > bt_unstable t) (''degraded+error too high: '' @ percent_text (degraded + err) @ '' > '' @
       percent_text (bt_unstable t)))
     (bnd (sub_dict data ''protected_summary'') (\<lambda>summary. bnd (sub_dict summary ''summary'') (\<lambda>inner.
      bnd (sub_dict inner ''p95_ms'') (\<lambda>p95s. bnd (float_or_zero p95s ''stdev'') (\<lambda>stdev.
      fail_when (bt_stdev t > 0 \<and> stdev > bt_stdev t) (''protected p95 jitter too high: '' @ ms_text stdev @ '' > '' @
        ms_text (bt_stdev t)))))))))))))))))"

definition check_benchmark_gate :: "('s, 'z) world_scheme report_io \<Rightarrow> env \<Rightarrow> (('s, 'z) world_scheme, string option) prog" where
  "check_benchmark_gate io env =
     bnd (ri_load io ''reports/benchmark_latest.json'') (\<lambda>v. bnd (as_dict v) (\<lambda>data.
     thn (check_report_freshness env data ''benchmark'')
     (bnd (load_benchmark_thresholds env) (\<lambda>t. thn (check_benchmark_data t data) (ret None)))))"

section \<open>Security\<close>

definition severity_of :: "json \<Rightarrow> ('w, string) prog" where
  "severity_of item = bnd (as_dict item) (\<lambda>d. ret (lower (py_str (dget_or d ''severity'' (JStr ''low'')))))"

definition highest_severity :: "json list \<Rightarrow> ('w, nat) prog" where
  "highest_severity items =
     fold_prog (\<lambda>item highest. bnd (severity_of item) (\<lambda>s. ret (max highest (severity_rank s)))) items 0"

definition check_security_gate :: "('s, 'z) world_scheme report_io \<Rightarrow> env \<Rightarrow> (('s, 'z) world_scheme, string option) prog" where
  "check_security_gate io env =
     (let threshold = severity_rank (lower (getenv env ''SECURITY_FAIL_ON'' ''medium'')) in
      bnd (ri_exists io ''reports/security_scan_latest.json'') (\<lambda>found.
      if \<not> found then
        if getenv env ''QUALITY_GATE_REQUIRE_SECURITY'' ''1'' \<noteq> ''0'' then
          fail_gate ''security report missing: reports/security_scan_latest.json (run security_scan.py first)''
        else ret (Some ''SKIPPED'')
      else
        bnd (ri_load io ''reports/security_scan_latest.json'') (\<lambda>v. bnd (as_dict v) (\<lambda>data.
        thn (check_report_freshness env data ''security'')
        (bnd (items_of (dget_or data ''findings'' (JArr []))) (\<lambda>items. bnd (highest_severity items) (\<lambda>highest.
         thn (fail_when (highest \<ge> threshold) ''security findings reached fail threshold'') (ret (Some ''PASS'')))))))))"

section \<open>Trend\<close>

definition check_trend_values :: "env \<Rightarrow> rat \<Rightarrow> rat \<Rightarrow> ('w, string option) prog" where
  "check_trend_values env prev cur =
     (if prev \<le> 0 then ret (Some ''SKIPPED'')
      else bnd (py_float (getenv env ''UNIFIED_GATE_TREND_PROTECTED_P95_RATIO_MAX'' ''1.15'')) (\<lambda>max_ratio.
        thn (fail_when (cur / prev > max_ratio) (''protected p95 vs history median ratio too high: '' @ fixed_text 3 (cur / prev) @ '' > '' @
          fixed_text 3 max_ratio @ '' (current='' @ ms_text cur @ '', history_median='' @ ms_text prev @ '')''))
        (ret (Some ''PASS''))))"

definition check_trend_data :: "env \<Rightarrow> dict \<Rightarrow> ('w, string option) prog" where
  "check_trend_data env data =
     bnd (sub_dict data ''previous_medians'') (\<lambda>previous. bnd (sub_dict data ''current'') (\<lambda>current.
     let p = dget_or previous ''protected_p95_ms'' JNull; c = dget_or current ''protected_p95_ms'' JNull in
     if p = JNull \<or> c = JNull then ret (Some ''SKIPPED'')
     else (case (json_float p, json_float c) of
         (Inr prev, Inr cur) \<Rightarrow> check_trend_values env prev cur
       | _ \<Rightarrow> ret (Some ''SKIPPED''))))"

definition check_benchmark_trend_gate :: "('s, 'z) world_scheme report_io \<Rightarrow> env \<Rightarrow> (('s, 'z) world_scheme, string option) prog" where
  "check_benchmark_trend_gate io env =
     (if \<not> is_on env ''UNIFIED_GATE_TREND_ENABLED'' ''0'' then ret (Some ''SKIPPED'')
      else bnd (ri_exists io ''reports/benchmark_trend_latest.json'') (\<lambda>found.
        if \<not> found then
          if lower (strip (getenv env ''UNIFIED_GATE_TREND_REQUIRE_REPORT'' ''1'')) \<in> {''0'', ''false'', ''no'', ''off''} then ret (Some ''SKIPPED'')
          else fail_gate ''benchmark trend report missing: reports/benchmark_trend_latest.json (run benchmark_compare.py first)''
        else
          bnd (ri_load io ''reports/benchmark_trend_latest.json'') (\<lambda>v. bnd (as_dict v) (\<lambda>data.
          thn (if is_on env ''UNIFIED_GATE_TREND_CHECK_FRESHNESS'' ''0'' then check_report_freshness env data ''benchmark_trend'' else ret ())
          (check_trend_data env data)))))"

text \<open>\<open>main\<close> of \<open>quality_gate.py\<close>: a failed gate exits with code one.\<close>

definition quality_gate_main :: "('s, 'z) world_scheme report_io \<Rightarrow> env \<Rightarrow> (('s, 'z) world_scheme, unit) prog" where
  "quality_gate_main io env =
     catch
       (thn (run_check_with_retries env (check_benchmark_gate io env))
         (thn (run_check_with_retries env (check_security_gate io env)) (ret ())))
       (\<lambda>e. if is_gate_failure e then raise (SystemExit 1) else raise e)"

section \<open>Agent\<close>

definition gate_defaults :: "(string \<times> rat) list" where
  "gate_defaults = [(''tool_selection_accuracy_min'', 85 / 100), (''arg_accuracy_min'', 80 / 100), (''avg_tool_calls_per_task_max'', 35 / 10),
     (''retry_rate_max'', 20 / 100), (''hallucination_rate_max'', 10 / 100), (''planner_invalid_rate_max'', 15 / 100)]"

definition prompt_regression_defaults :: "(string \<times> rat) list" where
  "prompt_regression_defaults = [(''max_tool_selection_accuracy_drop'', 0), (''max_arg_accuracy_drop'', 5 / 100),
     (''max_retry_rate_surge'', 15 / 100), (''max_planner_invalid_rate_surge'', 10 / 100)]"

text \<open>
  The judge's own reader of the YAML file: an entry under a section whose head a later top-level entry has
  replaced by a text fails.
\<close>

definition judge_yaml_line :: "string \<Rightarrow> dict \<times> string \<Rightarrow> (exn + dict \<times> string)" where
  "judge_yaml_line raw st =
     (case st of (cfg, current) \<Rightarrow>
      let line = rstrip raw in
      if line = [] \<or> starts_with ''#'' (lstrip line) then Inr st
      else if \<not> starts_with '' '' line \<and> ends_with '':'' line then Inr (dset (butlast line) (JObj fmempty) cfg, butlast line)
      else (case split_first (\<lambda>c. c = CHR '':'') line of
          (k, None) \<Rightarrow> Inr st
        | (k, Some v) \<Rightarrow>
            let key = strip k; val = JStr (strip_char quote_char (strip v)) in
            if current \<noteq> [] \<and> starts_with ''  '' line then
              (case dget cfg current of
                 Some (JObj d) \<Rightarrow> Inr (dset current (JObj (dset key val d)) cfg, current)
               | _ \<Rightarrow> Inl (TypeError ''item assignment''))
            else Inr (dset key val cfg, current)))"

fun judge_yaml :: "string list \<Rightarrow> dict \<times> string \<Rightarrow> exn + dict" where
  "judge_yaml [] st = Inr (fst st)"
| "judge_yaml (l # ls) st = (case judge_yaml_line l st of Inl e \<Rightarrow> Inl e | Inr st' \<Rightarrow> judge_yaml ls st')"

text \<open>The lines of the configuration, \<open>None\<close> when the file cannot be read.\<close>

definition judge_config_file :: "string list option \<Rightarrow> exn + dict" where
  "judge_config_file file = (case file of None \<Rightarrow> Inl (OtherError ''FileNotFoundError'' ''eval_config.yaml'')
     | Some ls \<Rightarrow> judge_yaml ls (fmempty, []))"

definition number_or :: "rat \<Rightarrow> json \<Rightarrow> rat" where
  "number_or d v = (case v of JNull \<Rightarrow> d | _ \<Rightarrow> (case json_float v of Inr x \<Rightarrow> x | Inl e \<Rightarrow> d))"

definition configured :: "(string \<times> rat) list \<Rightarrow> dict \<Rightarrow> dict" where
  "configured defaults g = dict_of (map (\<lambda>(k, d). (k, JFloat (number_or d (dget_or g k JNull)))) defaults)"

text \<open>Without the section, or with a text in its place, the defaults hold.\<close>

definition load_thresholds :: "string \<Rightarrow> (string \<times> rat) list \<Rightarrow> string list option \<Rightarrow> dict" where
  "load_thresholds name defaults file =
     (case judge_config_file file of
        Inl e \<Rightarrow> configured defaults fmempty
      | Inr cfg \<Rightarrow> (case dget_or cfg name (JObj fmempty) of JObj g \<Rightarrow> configured defaults g | _ \<Rightarrow> configured defaults fmempty))"

definition load_gate_thresholds :: "string list option \<Rightarrow> dict" where
  "load_gate_thresholds = load_thresholds ''gate'' gate_defaults"

definition load_prompt_regression_thresholds :: "string list option \<Rightarrow> dict" where
  "load_prompt_regression_thresholds = load_thresholds ''prompt_regression'' prompt_regression_defaults"

definition load_judge_sampling_config :: "string list option \<Rightarrow> ('w, bool \<times> rat) prog" where
  "load_judge_sampling_config file =
     bnd (lift (judge_config_file file)) (\<lambda>cfg. bnd (as_dict (dget_or cfg ''judge'' (JObj fmempty))) (\<lambda>j.
     let rate = (case json_float (dget_or j ''sample_rate'' (JStr ''1'')) of Inr x \<Rightarrow> x | Inl e \<Rightarrow> 1) in
     ret (lower (py_str (dget_or j ''enabled'' (JStr ''true''))) \<in> {''true'', ''1'', ''yes''}, max 0 (min 1 rate))))"

text \<open>The agent's gate, whose failures are errors of the platform's gate.\<close>

definition check_agent_eval_gate ::
  "('s, 'z) world_scheme report_io \<Rightarrow> string list option \<Rightarrow> (('s, 'z) world_scheme, dict) prog" where
  "check_agent_eval_gate io file =
     bnd (ri_load io ''agent-eval/reports/agent_eval_latest.json'') (\<lambda>v. bnd (lift (json_dict v)) (\<lambda>report.
     assert_pass (load_gate_thresholds file) report))"

section \<open>Judge\<close>

text \<open>The verdict on a text: an exception is no verdict. The prompt, which is not ASCII, is a parameter.\<close>

definition verdict_of :: "llm_error + llm_response \<Rightarrow> string" where
  "verdict_of out =
     (case out of Inl x \<Rightarrow> ''UNKNOWN''
      | Inr r \<Rightarrow> (case lp_content r of JStr s \<Rightarrow> if occurs_in ''PASS'' (upper (strip s)) then ''PASS'' else ''FAIL'' | _ \<Rightarrow> ''UNKNOWN''))"

definition local_llm_judge ::
  "(gateway_config \<Rightarrow> 'w gateway) \<Rightarrow> env \<Rightarrow> string list option \<Rightarrow> (string \<Rightarrow> string \<Rightarrow> string \<Rightarrow> string) \<Rightarrow> 'w judge" where
  "local_llm_judge make_gateway env file prompt user_input expected actual =
     (let c = load_judge_config env file in
      catch
        (bnd (gateway_generate (make_gateway c) \<lparr>lq_prompt = prompt user_input expected actual, lq_system = [],
            lq_model = Some (gc_model c), lq_provider = Some (gc_provider c), lq_format = TextFormat,
            lq_timeout_sec = Some (gc_timeout_sec c),
            lq_metadata = dict_of [(''caller'', JStr ''judge_local.local_llm_judge'')]\<rparr>)
          (\<lambda>out. ret (verdict_of out)))
        (\<lambda>e. if is_exception e then ret ''UNKNOWN'' else raise e))"

section \<open>Unified gate\<close>

text \<open>One check of the unified gate: its status, and the reason when it fails.\<close>

definition unified_check ::
  "string \<Rightarrow> ('w, string option) prog \<Rightarrow> (exn \<Rightarrow> bool) \<Rightarrow> ('w, string \<times> string list) prog" where
  "unified_check name check caught =
     try_else check
       (\<lambda>e. if caught e then ret (''FAIL'', [name @ '': '' @ exn_text e]) else raise e)
       (\<lambda>r. ret (case r of None \<Rightarrow> ''PASS'' | Some s \<Rightarrow> if s \<noteq> [] then s else ''PASS'', []))"

definition unified_agent ::
  "('s, 'z) world_scheme report_io \<Rightarrow> env \<Rightarrow> string list option \<Rightarrow> (('s, 'z) world_scheme, string \<times> string list) prog" where
  "unified_agent io env file =
     (if is_on env ''UNIFIED_GATE_SKIP_AGENT'' ''0'' then ret (''SKIPPED'', [])
      else bnd (ri_exists io ''agent-eval/reports/agent_eval_latest.json'') (\<lambda>found.
        if \<not> found then
          ret (''FAIL'', [''agent_eval: missing agent-eval/reports/agent_eval_latest.json (run agent-eval score step first)''])
        else unified_check ''agent_eval'' (thn (check_agent_eval_gate io file) (ret None)) is_gate_error))"

definition unified_document :: "int \<Rightarrow> (string \<times> string \<times> string list) list \<Rightarrow> dict" where
  "unified_document now checks =
     (let reasons = concat (map (\<lambda>(n, s, rs). rs) checks) in
      dict_of [(''final_decision'', JStr (if reasons = [] then ''PASS'' else ''FAIL'')), (''generated_at'', JInt now),
        (''reasons'', text_list reasons), (''checks'', JObj (dict_of (map (\<lambda>(n, s, rs). (n, JStr s)) checks)))])"

definition run_unified ::
  "('s, 'z) world_scheme report_io \<Rightarrow> env \<Rightarrow> string list option \<Rightarrow> (('s, 'z) world_scheme, dict) prog" where
  "run_unified io env file =
     bnd (unified_check ''benchmark'' (run_check_with_retries env (check_benchmark_gate io env)) is_gate_failure) (\<lambda>(b, br).
     bnd (unified_check ''security'' (run_check_with_retries env (check_security_gate io env)) is_gate_failure) (\<lambda>(s, sr).
     bnd (unified_check ''benchmark_trend'' (run_check_with_retries env (check_benchmark_trend_gate io env)) is_gate_failure) (\<lambda>(t, tr).
     bnd (unified_agent io env file) (\<lambda>(a, ar).
     bnd py_time (\<lambda>now.
     ret (unified_document (trunc now) [(''benchmark'', b, br), (''security'', s, sr), (''benchmark_trend'', t, tr), (''agent_eval'', a, ar)]))))))"

end
