(* ===== verification/Release_Gate_Correct.thy ===== *)
theory Release_Gate_Correct
  imports Release_Gate Evaluators_Correct Service_Correct
begin

text \<open>
  The gates of the pipeline: the decision of the unified gate agrees with its checks, the security gate
  decides by the worst finding, and the agent's gate always has its six thresholds.
\<close>

section \<open>Unified decision\<close>

text \<open>What a check returns is no failure; failures are raised.\<close>

definition never_fails :: "('w, string option) prog \<Rightarrow> bool" where
  "never_fails = gives (\<lambda>r. r \<noteq> Some ''FAIL'') (\<lambda>_. True)"

lemma never_fails_raise: "never_fails (raise e)"
  unfolding never_fails_def by (rule gives_raise) simp

lemma never_fails_attempt: "never_fails check \<Longrightarrow> (\<And>e. never_fails (again e)) \<Longrightarrow> never_fails (gate_attempt check again)"
  unfolding never_fails_def gate_attempt_def
  by (erule gives_catch) (auto split: exn.split intro: gives_ret gives_raise)

lemma never_fails_loop: "never_fails check \<Longrightarrow> never_fails (check_loop delay check n)"
proof (induction n)
  case 0
  then show ?case by (simp add: never_fails_attempt never_fails_raise)
next
  case (Suc n)
  then have "never_fails (thn (whenp (delay > 0) (py_sleep delay)) (check_loop delay check n))"
    unfolding never_fails_def by (intro gives_thn gives_any) simp
  then show ?case using Suc.prems by (simp add: never_fails_attempt)
qed

lemma never_fails_retries: "never_fails check \<Longrightarrow> never_fails (run_check_with_retries env check)"
  unfolding run_check_with_retries_def never_fails_def
  by (intro gives_bnd [OF gives_any] never_fails_loop [unfolded never_fails_def])

lemma gates_never_fail:
  "never_fails (check_benchmark_gate io env)" "never_fails (check_security_gate io env)"
  "never_fails (check_benchmark_trend_gate io env)"
proof -
  show "never_fails (check_benchmark_gate io env)"
    unfolding check_benchmark_gate_def never_fails_def
    by (intro gives_bnd [OF gives_any] gives_thn gives_any gives_ret) simp
  show "never_fails (check_security_gate io env)"
    unfolding check_security_gate_def never_fails_def Let_def fail_gate_def
    by (intro gives_bnd [OF gives_any]) (auto intro!: gives_ret gives_raise gives_bnd [OF gives_any] gives_thn [OF gives_any])
  have data: "gives (\<lambda>r. r \<noteq> Some ''FAIL'') (\<lambda>_. True) (check_trend_data env data)" for data
    unfolding check_trend_data_def check_trend_values_def Let_def
    by (intro gives_bnd [OF gives_any]) (auto intro!: gives_ret gives_bnd [OF gives_any] gives_thn [OF gives_any] split: sum.split)
  show "never_fails (check_benchmark_trend_gate io env)"
    unfolding check_benchmark_trend_gate_def never_fails_def fail_gate_def
    by (auto intro!: gives_ret gives_raise gives_bnd [OF gives_any] gives_thn [OF gives_any] data)
qed

definition consistent :: "string \<times> string list \<Rightarrow> bool" where
  "consistent c \<longleftrightarrow> (fst c = ''FAIL'' \<longleftrightarrow> snd c \<noteq> [])"

lemma unified_check_consistent:
  assumes "never_fails check"
  shows "gives consistent (\<lambda>_. True) (unified_check name check caught)"
  unfolding unified_check_def
proof (rule gives_try_else [OF assms [unfolded never_fails_def]])
  show "gives consistent (\<lambda>_. True) (if caught e then ret (''FAIL'', [name @ '': '' @ exn_text e]) else raise e)" for e
    by (simp add: gives_ret gives_raise consistent_def)
  show "gives consistent (\<lambda>_. True) (ret (case r of None \<Rightarrow> ''PASS'' | Some s \<Rightarrow> if s \<noteq> [] then s else ''PASS'', []))"
    if "r \<noteq> Some ''FAIL''" for r :: "string option"
    using that by (intro gives_ret) (auto simp: consistent_def split: option.split)
qed

lemma unified_agent_consistent: "gives consistent (\<lambda>_. True) (unified_agent io env file)"
proof -
  have "never_fails (thn (check_agent_eval_gate io file) (ret None))"
    unfolding never_fails_def by (intro gives_thn gives_any gives_ret) simp
  then show ?thesis
    unfolding unified_agent_def
    by (auto intro!: gives_ret gives_bnd [OF gives_any] unified_check_consistent simp: consistent_def)
qed

definition decided :: "dict \<Rightarrow> bool" where
  "decided doc \<longleftrightarrow> (\<exists>b s t a. dget_or doc ''checks'' JNull = JObj (dict_of [(''benchmark'', JStr b), (''security'', JStr s),
       (''benchmark_trend'', JStr t), (''agent_eval'', JStr a)]) \<and>
     dget_or doc ''final_decision'' JNull = JStr (if ''FAIL'' \<in> {b, s, t, a} then ''FAIL'' else ''PASS''))"

text \<open>
  C36. Whatever the reports hold, the document of the unified gate lists the four checks, and its decision
  is to fail exactly when one of them failed.
\<close>

theorem unified_decision_agrees:
  "case run_unified io env file w of
     (Inl e, w') \<Rightarrow> True
   | (Inr doc, w') \<Rightarrow> \<exists>b s t a.
       dget_or doc ''checks'' JNull = JObj (dict_of [(''benchmark'', JStr b), (''security'', JStr s),
         (''benchmark_trend'', JStr t), (''agent_eval'', JStr a)]) \<and>
       dget_or doc ''final_decision'' JNull = JStr (if ''FAIL'' \<in> {b, s, t, a} then ''FAIL'' else ''PASS'')"
proof -
  have final: "decided (unified_document now [(''benchmark'', b, br), (''security'', s, sr), (''benchmark_trend'', t, tr), (''agent_eval'', a, ar)])"
    if "consistent (b, br)" "consistent (s, sr)" "consistent (t, tr)" "consistent (a, ar)" for b br s sr t tr a ar now
    unfolding decided_def
  proof (intro exI conjI)
    have reasons: "br @ sr @ tr @ ar = [] \<longleftrightarrow> ''FAIL'' \<notin> {b, s, t, a}"
      using that unfolding consistent_def by auto
    show "dget_or (unified_document now [(''benchmark'', b, br), (''security'', s, sr), (''benchmark_trend'', t, tr), (''agent_eval'', a, ar)])
        ''checks'' JNull = JObj (dict_of [(''benchmark'', JStr b), (''security'', JStr s), (''benchmark_trend'', JStr t), (''agent_eval'', JStr a)])"
      by (simp add: unified_document_def dget_or_dict_of)
    have "(br = [] \<and> sr = [] \<and> tr = [] \<and> ar = []) = (''FAIL'' \<notin> {b, s, t, a})" using reasons by simp
    then show "dget_or (unified_document now [(''benchmark'', b, br), (''security'', s, sr), (''benchmark_trend'', t, tr), (''agent_eval'', a, ar)])
        ''final_decision'' JNull = JStr (if ''FAIL'' \<in> {b, s, t, a} then ''FAIL'' else ''PASS'')"
      by (cases "''FAIL'' \<in> {b, s, t, a}") (simp_all only: unified_document_def dget_or_dict_of Let_def, simp_all)
  qed
  have "gives decided (\<lambda>_. True) (run_unified io env file)"
    unfolding run_unified_def
    by (rule gives_bnd [OF unified_check_consistent [OF never_fails_retries [OF gates_never_fail(1)]]], clarify,
        rule gives_bnd [OF unified_check_consistent [OF never_fails_retries [OF gates_never_fail(2)]]], clarify,
        rule gives_bnd [OF unified_check_consistent [OF never_fails_retries [OF gates_never_fail(3)]]], clarify,
        rule gives_bnd [OF unified_agent_consistent], clarify, rule gives_bnd [OF gives_any])
      (rule gives_ret, rule final)
  from gives_case [OF this, of w] show ?thesis unfolding decided_def .
qed

section \<open>Security\<close>

definition rank_of :: "dict \<Rightarrow> nat" where
  "rank_of d = severity_rank (lower (py_str (dget_or d ''severity'' (JStr ''low''))))"

lemma highest_severity_run: "highest_severity (map JObj fs) = ret (foldl max 0 (map rank_of fs))"
proof -
  have "fold_prog (\<lambda>item highest. bnd (severity_of item) (\<lambda>s. ret (max highest (severity_rank s)))) (map JObj fs) n =
      ret (foldl max n (map rank_of fs))" for n
    by (induction fs arbitrary: n) (simp_all add: severity_of_def as_dict_def rank_of_def)
  then show ?thesis by (simp add: highest_severity_def)
qed

lemma foldl_max_less: "foldl max n xs < (k :: nat) \<longleftrightarrow> n < k \<and> (\<forall>x\<in>set xs. x < k)"
  by (induction xs arbitrary: n) auto

lemma lower_char_idem: "lower_char (lower_char c) = lower_char c"
  by (simp add: lower_char_def Let_def)

lemma lower_idem: "lower (lower s) = lower s"
  by (simp add: lower_def lower_char_idem)

lemma rank_lower: "severity_rank (lower l) = severity_rank l"
  by (simp only: severity_rank_def lower_idem)

lemma rank_positive: "0 < severity_rank l"
  by (simp add: severity_rank_def)

text \<open>
  C37. On a fresh report the security gate passes exactly when every finding ranks below the configured
  level, and otherwise fails the gate; it changes nothing more.
\<close>

theorem security_findings_exact:
  assumes "ri_exists io ''reports/security_scan_latest.json'' w = (Inr True, w1)"
    and "ri_load io ''reports/security_scan_latest.json'' w1 = (Inr (JObj data), w2)"
    and "check_report_freshness env data ''security'' w2 = (Inr (), w3)"
    and "dget_or data ''findings'' (JArr []) = JArr (map JObj fs)"
  shows "check_security_gate io env w =
    ((if \<forall>f\<in>set fs. rank_of f < severity_rank (getenv env ''SECURITY_FAIL_ON'' ''medium'')
      then Inr (Some ''PASS'') else Inl (gate_failure ''security findings reached fail threshold'')), w3)"
proof -
  have highest: "highest_severity (map JObj fs) w3 = (Inr (foldl max 0 (map rank_of fs)), w3)"
    by (simp add: highest_severity_run ret_def)
  show ?thesis
    unfolding check_security_gate_def Let_def rank_lower
    by (simp add: bnd_def thn_def assms highest as_dict_def items_of_def ret_def)
      (auto simp: fail_when_def fail_gate_def foldl_max_less rank_positive foldl_max_less [THEN arg_cong [of _ _ Not], unfolded not_less] raise_def ret_def)
qed

text \<open>A level the gate does not know ranks as medium: a critical finding passes a gate set to high.\<close>

definition sample_finding :: dict where
  "sample_finding = dict_of [(''severity'', JStr ''critical'')]"

definition sample_env :: env where
  "sample_env = map_of [(''QUALITY_GATE_CHECK_FRESHNESS'', ''0''), (''SECURITY_FAIL_ON'', ''high'')]"

theorem security_findings_exact_witness:
  "\<forall>w :: nat world. check_security_gate
     \<lparr>ri_exists = \<lambda>p. ret True, ri_load = \<lambda>p. ret (JObj (dict_of [(''findings'', JArr (map JObj [sample_finding]))]))\<rparr>
     sample_env w = (Inr (Some ''PASS''), w)"
proof
  fix w :: "nat world"
  have "rank_of sample_finding = 2" "severity_rank ''high'' = 3"
    by (simp_all add: rank_of_def sample_finding_def dget_or_dict_of) (simp_all add: severity_rank_def lower_def lower_char_def)
  then show "check_security_gate
     \<lparr>ri_exists = \<lambda>p. ret True, ri_load = \<lambda>p. ret (JObj (dict_of [(''findings'', JArr (map JObj [sample_finding]))]))\<rparr>
     sample_env w = (Inr (Some ''PASS''), w)"
    by (subst security_findings_exact [where fs = "[sample_finding]"])
      (simp_all add: ret_def getenv_def sample_env_def check_report_freshness_def, simp_all add: dget_or_dict_of)
qed

section \<open>Agent\<close>

lemma gate_thresholds_configured: "\<exists>c. load_gate_thresholds file = evaluation_to_dict c"
proof -
  have "\<exists>c. configured gate_defaults g = evaluation_to_dict c" for g
    by (rule exI [of _ "\<lparr>ec_tool_selection_accuracy_min = number_or (85 / 100) (dget_or g ''tool_selection_accuracy_min'' JNull),
        ec_arg_accuracy_min = number_or (80 / 100) (dget_or g ''arg_accuracy_min'' JNull),
        ec_avg_tool_calls_per_task_max = number_or (35 / 10) (dget_or g ''avg_tool_calls_per_task_max'' JNull),
        ec_retry_rate_max = number_or (20 / 100) (dget_or g ''retry_rate_max'' JNull),
        ec_hallucination_rate_max = number_or (10 / 100) (dget_or g ''hallucination_rate_max'' JNull),
        ec_planner_invalid_rate_max = number_or (15 / 100) (dget_or g ''planner_invalid_rate_max'' JNull)\<rparr>"])
      (simp add: configured_def gate_defaults_def evaluation_to_dict_def)
  then show ?thesis
    unfolding load_gate_thresholds_def load_thresholds_def by (auto split: sum.split json.split)
qed

text \<open>
  On a report with the six metrics the agent's gate decides as the platform's gate does, with thresholds
  that are always there.
\<close>

lemma agent_gate_exact:
  fixes w :: "('a, 'b) world_scheme"
  assumes "ri_load io ''agent-eval/reports/agent_eval_latest.json'' w = (Inr (JObj report), w1)" "reports report x"
  shows "\<exists>c. load_gate_thresholds file = evaluation_to_dict c \<and>
    (if keeps_bounds c x then check_agent_eval_gate io file w = (Inr report, w1)
     else \<exists>message. check_agent_eval_gate io file w = (Inl (gate_error message), w1))"
proof -
  obtain c where c: "load_gate_thresholds file = evaluation_to_dict c"
    using gate_thresholds_configured by blast
  have "check_agent_eval_gate io file w = assert_pass (evaluation_to_dict c) report w1"
    by (simp add: check_agent_eval_gate_def c bnd_def assms(1) ret_def)
  moreover have "decides (gate_assert (evaluation_to_dict c) report :: (('a, 'b) world_scheme, unit) prog) (keeps_bounds c x)"
    by (rule gate_assert_decides [OF assms(2)])
  ultimately show ?thesis
    by (intro exI [of _ c]) (auto simp: c assert_pass_def decides_def ret_run raise_run)
qed

end
