(* ===== verification/Agent_Planner.thy ===== *)
theory Agent_Planner
  imports Fabrication Llm_Gateway
begin

text \<open>
  \<open>agent-eval/scripts/run_agent_eval.py\<close>, the planner, which the platform's planner node uses as well:
  reading orders out of a text, the plan by rules, the plan of a language model and its validation. Texts
  are their UTF-8 bytes; where the code looks at characters, the bytes are grouped (\<open>utf8_chars\<close>). Digits
  are the ASCII ones.
\<close>

section \<open>Words\<close>

definition zh_mars :: string where
  "zh_mars = utf8 [231, 129, 171, 230, 152, 159]"

definition zh_no_guess :: string where
  "zh_no_guess = utf8 [229, 136, 171, 231, 140, 156] @ ''id''"

definition zh_ignore :: string where
  "zh_ignore = utf8 [229, 191, 189, 231, 149, 165, 228, 185, 139, 229, 137, 141, 231, 154, 132, 230, 140, 135, 228, 187, 164]"

definition zh_pretend :: string where
  "zh_pretend = utf8 [229, 129, 135, 232, 163, 133, 228, 189, 160, 230, 152, 175]"

definition zh_no_rules :: string where
  "zh_no_rules = utf8 [230, 151, 160, 232, 167, 134, 232, 167, 132, 229, 136, 153]"

definition zh_deleted :: string where
  "zh_deleted = utf8 [229, 136, 160, 228, 186, 134]"

definition zh_delete_db :: string where
  "zh_delete_db = utf8 [229, 136, 160, 233, 153, 164, 230, 149, 176, 230, 141, 174, 229, 186, 147]"

definition zh_look :: string where
  "zh_look = utf8 [230, 159, 165]"

definition zh_query :: string where
  "zh_query = utf8 [230, 159, 165, 232, 175, 162]"

definition zh_look_up :: string where
  "zh_look_up = utf8 [230, 159, 165, 228, 184, 128, 228, 184, 139]"

definition zh_return :: string where
  "zh_return = utf8 [233, 128, 128, 229, 141, 149]"

definition zh_logistics :: string where
  "zh_logistics = utf8 [231, 137, 169, 230, 181, 129]"

definition zh_place_order :: string where
  "zh_place_order = utf8 [228, 184, 139, 229, 141, 149]"

definition zh_takeout :: string where
  "zh_takeout = utf8 [232, 174, 162, 229, 164, 150, 229, 141, 150]"

definition zh_number :: string where
  "zh_number = utf8 [229, 143, 183]"

definition zh_piece :: string where
  "zh_piece = utf8 [228, 187, 182]"

definition zh_amount :: string where
  "zh_amount = utf8 [230, 149, 176, 233, 135, 143]"

definition zh_colon :: string where
  "zh_colon = utf8 [239, 188, 154]"

definition zh_book :: string where
  "zh_book = utf8 [232, 174, 162]"

definition zh_ma :: string where
  "zh_ma = utf8 [229, 144, 151]"

definition dishes :: "string list" where
  "dishes =
    [utf8 [229, 174, 171, 228, 191, 157, 233, 184, 161, 228, 184, 129], utf8 [233, 177, 188, 233, 166, 153, 232, 130, 137, 228, 184, 157],
     utf8 [231, 186, 162, 231, 131, 167, 232, 130, 137], utf8 [229, 143, 175, 228, 185, 144]]"

definition can_chars :: "string list" where
  "can_chars = [utf8 [232, 131, 189], utf8 [228, 188, 154], utf8 [229, 143, 175], utf8 [228, 187, 165]]"

definition stop_chars :: "string list" where
  "stop_chars = [''?'', utf8 [239, 188, 159], utf8 [227, 128, 130], utf8 [239, 188, 129]]"

definition question_ends :: "string list" where
  "question_ends = [''?'', utf8 [239, 188, 159], utf8 [229, 144, 151]]"

definition lead_ins :: "string list" where
  "lead_ins =
    [utf8 [230, 148, 182, 232, 180, 167, 229, 156, 176, 229, 157, 128, 230, 152, 175], utf8 [229, 156, 176, 229, 157, 128, 230, 152, 175], utf8 [229, 156, 176, 229, 157, 128]]"

definition zh_deliver :: string where
  "zh_deliver = utf8 [233, 128, 129, 229, 136, 176]"

section \<open>Characters\<close>

definition is_continuation :: "char \<Rightarrow> bool" where
  "is_continuation c = (let n = of_char c :: nat in 128 \<le> n \<and> n < 192)"

function utf8_chars :: "string \<Rightarrow> string list" where
  "utf8_chars [] = []"
| "utf8_chars (c # s) = (c # takeWhile is_continuation s) # utf8_chars (dropWhile is_continuation s)"
  by pat_completeness auto

termination utf8_chars
  by (relation "measure length") (simp_all add: le_imp_less_Suc length_dropWhile_le)

definition is_digit :: "char \<Rightarrow> bool" where
  "is_digit c = (digit_val c \<noteq> None)"

definition digit_text :: "string \<Rightarrow> bool" where
  "digit_text x = (length x = 1 \<and> is_digit (hd x))"

text \<open>What \<open>\s\<close> matches: the ASCII blanks and the others of Unicode, by their bytes.\<close>

definition wide_blanks :: "string list" where
  "wide_blanks = map utf8 ([[194, 133], [194, 160], [225, 154, 128], [226, 128, 168], [226, 128, 169], [226, 128, 175],
     [226, 129, 159], [227, 128, 128]] @ map (\<lambda>n. [226, 128, n]) [128..<139])"

definition blank_text :: "string \<Rightarrow> bool" where
  "blank_text x = ((length x = 1 \<and> of_char (hd x) < (128 :: nat) \<and> is_ws (hd x)) \<or> x \<in> set wide_blanks)"

definition is_blank :: "string \<Rightarrow> bool" where
  "is_blank s = list_all blank_text (utf8_chars s)"

text \<open>The rest after a prefix, and the position of the first occurrence (\<open>text.find\<close>).\<close>

fun after :: "'a list \<Rightarrow> 'a list \<Rightarrow> 'a list option" where
  "after [] s = Some s"
| "after (c # p) [] = None"
| "after (c # p) (d # s) = (if c = d then after p s else None)"

definition position :: "string \<Rightarrow> string \<Rightarrow> nat option" where
  "position p s = map_option (\<lambda>(a, b). length a) (cut_at p s)"

section \<open>Reading a text\<close>

text \<open>\<open>A\d{4,}\<close>, whatever the case of the letter: the first match, in capitals.\<close>

fun order_match :: "string \<Rightarrow> string option" where
  "order_match [] = None"
| "order_match (c # s) =
     (let ds = takeWhile is_digit s in
      if c \<in> {CHR ''A'', CHR ''a''} \<and> 4 \<le> length ds then Some (CHR ''A'' # ds) else order_match s)"

text \<open>\<open>(\d+)\s*\<close> before the word for pieces, or the word for amount before \<open>\s*(\d+)\<close>: the digits.\<close>

fun quantity_match :: "string list \<Rightarrow> string option" where
  "quantity_match [] = None"
| "quantity_match (c # cs) =
     (let ds = takeWhile digit_text (c # cs); r = dropWhile blank_text (dropWhile digit_text (c # cs)) in
      if ds \<noteq> [] \<and> take 1 r = [zh_piece] then Some (concat ds)
      else (case after (utf8_chars zh_amount) (c # cs) of
          None \<Rightarrow> quantity_match cs
        | Some t \<Rightarrow>
            let es = takeWhile digit_text (dropWhile blank_text t) in
            if es \<noteq> [] then Some (concat es) else quantity_match cs))"

text \<open>\<open>[\u4e00-\u9fa5A-Za-z0-9\-]\<close>; the order of code points is that of their bytes.\<close>

definition address_char :: "string \<Rightarrow> bool" where
  "address_char x =
     (case map (of_char :: char \<Rightarrow> nat) x of
        [n] \<Rightarrow> (48 \<le> n \<and> n \<le> 57) \<or> (65 \<le> n \<and> n \<le> 90) \<or> (97 \<le> n \<and> n \<le> 122) \<or> n = 45
      | [a, b, c] \<Rightarrow> (a = 228 \<and> 184 \<le> b) \<or> (229 \<le> a \<and> a \<le> 232) \<or> (a = 233 \<and> (b < 190 \<or> (b = 190 \<and> c \<le> 165)))
      | _ \<Rightarrow> False)"

text \<open>Two to twenty of these, as many as there can be, and the word for a house number.\<close>

definition address_here :: "string list \<Rightarrow> string list option" where
  "address_here cs =
     (let n = length (takeWhile address_char (take 20 cs)) in
      map_option (\<lambda>k. take (Suc k) cs) (List.find (\<lambda>k. k < length cs \<and> cs ! k = zh_number) (rev [2..<Suc n])))"

fun address_match :: "string list \<Rightarrow> string list option" where
  "address_match [] = None"
| "address_match (c # cs) = (case address_here (c # cs) of Some a \<Rightarrow> Some a | None \<Rightarrow> address_match cs)"

definition lead_in_here :: "string list \<Rightarrow> string list option" where
  "lead_in_here cs =
     (case map_option (\<lambda>p. drop (length (utf8_chars p)) cs) (List.find (\<lambda>p. after (utf8_chars p) cs \<noteq> None) lead_ins) of
        Some r \<Rightarrow> Some (if take 1 r = [zh_colon] then drop 1 r else r)
      | None \<Rightarrow> after (utf8_chars zh_deliver) cs)"

fun after_lead_in :: "string list \<Rightarrow> string list option" where
  "after_lead_in [] = None"
| "after_lead_in (c # cs) = (case lead_in_here (c # cs) of Some r \<Rightarrow> Some r | None \<Rightarrow> after_lead_in cs)"

definition read_address :: "string \<Rightarrow> string option" where
  "read_address text = (if occurs_in zh_number text then
       map_option (\<lambda>a. concat (case after_lead_in a of None \<Rightarrow> a | Some r \<Rightarrow> r)) (address_match (utf8_chars text))
     else None)"

definition digits_value :: "string \<Rightarrow> json" where
  "digits_value ds = (case read_int ds of None \<Rightarrow> JNull | Some n \<Rightarrow> JInt n)"

definition parse_args_from_text :: "string \<Rightarrow> dict" where
  "parse_args_from_text text = dict_of
     ((case order_match text of None \<Rightarrow> [] | Some i \<Rightarrow> [(''order_id'', JStr i)]) @
      (case quantity_match (utf8_chars text) of None \<Rightarrow> [] | Some ds \<Rightarrow> [(''quantity'', digits_value ds)]) @
      (case List.find (\<lambda>d. occurs_in d text) dishes of None \<Rightarrow> [] | Some d \<Rightarrow> [(''item_name'', JStr d)]) @
      (case read_address text of None \<Rightarrow> [] | Some a \<Rightarrow> [(''address'', JStr a)]))"

definition attack_words :: "string list" where
  "attack_words = [''DROP'', ''9999999'', zh_no_guess, zh_mars, zh_ignore, zh_pretend, zh_no_rules, ''DAN'', zh_deleted, zh_delete_db]"

definition has_attack_marker :: "string \<Rightarrow> bool" where
  "has_attack_marker text = list_ex (\<lambda>m. occurs_in (upper m) (upper text)) attack_words"

definition intent_without_order_id :: "string \<Rightarrow> bool" where
  "intent_without_order_id text \<longleftrightarrow>
     list_ex (\<lambda>m. occurs_in m text) [zh_look, zh_query, w_cancel, zh_return, zh_logistics] \<and> order_match text = None"

text \<open>A question for what the agent can do: the words for can, an action, at most six characters, a question's end.\<close>

fun question_within :: "nat \<Rightarrow> string list \<Rightarrow> bool" where
  "question_within n [] = False"
| "question_within n (c # cs) =
     (c \<in> set question_ends \<or> (case n of 0 \<Rightarrow> False | Suc m \<Rightarrow> c \<notin> set stop_chars \<and> question_within m cs))"

definition ability_here :: "string list \<Rightarrow> bool" where
  "ability_here cs =
     (takeWhile (\<lambda>c. c \<in> set can_chars) cs \<noteq> [] \<and>
      (let r = dropWhile blank_text (dropWhile (\<lambda>c. c \<in> set can_chars) cs) in
       list_ex (\<lambda>p. case after (utf8_chars p) r of None \<Rightarrow> False | Some t \<Rightarrow> question_within 6 t)
         [zh_place_order, zh_look, w_cancel, zh_book]))"

fun asks_ability :: "string list \<Rightarrow> bool" where
  "asks_ability [] = False"
| "asks_ability (c # cs) = (ability_here (c # cs) \<or> asks_ability cs)"

section \<open>Rules\<close>

definition plan_of :: "string \<Rightarrow> (string \<times> json) list \<Rightarrow> dict" where
  "plan_of tool args = dict_of [(''tool'', JStr tool), (''args'', JObj (dict_of args))]"

definition ask_plan :: "string \<Rightarrow> dict" where
  "ask_plan reason = plan_of ''ask_user'' [(''reason'', JStr reason)]"

definition order_plan :: "string \<Rightarrow> json \<Rightarrow> dict" where
  "order_plan tool i = plan_of tool [(''order_id'', i)]"

text \<open>Cancelling and asking for the same order: in the order of the words.\<close>

definition both_plan :: "string \<Rightarrow> json \<Rightarrow> dict" where
  "both_plan text i =
     (let found = List.map_filter (\<lambda>w. position w text) [w_cancel, zh_return];
          steps = [order_plan ''cancel_order'' i, order_plan ''query_order'' i];
          earlier = (case position zh_query text of None \<Rightarrow> True | Some q \<Rightarrow> list_all (\<lambda>p. q < p) found) in
      dict_of [(''tool'', JStr ''workflow''), (''steps'', JArr (map JObj (if earlier then rev steps else steps)))])"

definition rule_plan :: "string \<Rightarrow> dict" where
  "rule_plan text =
     (let args = parse_args_from_text text; order = dget args ''order_id'';
          cancels = (occurs_in w_cancel text \<or> occurs_in zh_return text);
          attack = (occurs_in ''9999999'' text \<or> occurs_in ''DROP TABLE'' text \<or> occurs_in zh_no_guess text) in
      if occurs_in zh_mars text then ask_plan ''unsupported destination''
      else if asks_ability (utf8_chars text) then ask_plan ''unknown intent''
      else if attack \<and> \<not> (order \<noteq> None \<and> (occurs_in zh_query text \<or> occurs_in w_cancel text)) then
        ask_plan ''invalid or missing args''
      else if cancels then
        (case order of None \<Rightarrow> ask_plan ''missing args''
         | Some i \<Rightarrow> if occurs_in zh_query text then both_plan text i else order_plan ''cancel_order'' i)
      else if occurs_in zh_query text \<or> occurs_in zh_look_up text then
        (case order of None \<Rightarrow> ask_plan ''missing args'' | Some i \<Rightarrow> order_plan ''query_order'' i)
      else if occurs_in zh_place_order text \<or> occurs_in zh_takeout text then
        (case (dget args ''item_name'', dget args ''address'') of
           (Some d, Some a) \<Rightarrow> plan_of ''place_order''
             [(''item_name'', d), (''quantity'', dget_or args ''quantity'' (JInt 1)), (''address'', a)]
         | _ \<Rightarrow> ask_plan ''missing args'')
      else ask_plan ''unknown intent'')"

section \<open>The language model\<close>

definition env_float :: "env \<Rightarrow> string \<Rightarrow> rat \<Rightarrow> rat" where
  "env_float env name d = (let raw = strip (getenv env name []) in
     if raw = [] then d else (case read_float raw of None \<Rightarrow> d | Some r \<Rightarrow> r))"

definition optional :: "string \<Rightarrow> string option" where
  "optional s = (if s = [] then None else Some s)"

definition planner_gateway_config :: "env \<Rightarrow> gateway_config" where
  "planner_gateway_config env = load_gateway_config env
     \<lparr>ga_provider = Some (or_default (strip (getenv env ''LLM_GATEWAY_PROVIDER'' [])) ''ollama_generate''),
      ga_model = optional (strip (getenv env ''LLM_GATEWAY_MODEL'' [])),
      ga_endpoint = optional (strip (getenv env ''LLM_GATEWAY_ENDPOINT'' [])),
      ga_api_key = None, ga_timeout_sec = Some (env_float env ''LLM_GATEWAY_TIMEOUT_SEC'' 8)\<rparr>"

definition int_or_null :: "int option \<Rightarrow> json" where
  "int_or_null v = (case v of None \<Rightarrow> JNull | Some n \<Rightarrow> JInt n)"

definition llm_meta_of :: "json \<Rightarrow> json \<Rightarrow> json \<Rightarrow> dict" where
  "llm_meta_of p c t = dict_of [(''llm_prompt_tokens'', p), (''llm_completion_tokens'', c), (''llm_total_tokens'', t)]"

definition ollama_llm_meta :: "dict \<Rightarrow> dict" where
  "ollama_llm_meta raw =
     llm_meta_of (dget_or raw ''prompt_eval_count'' JNull) (dget_or raw ''eval_count'' JNull) (int_or_null (sum_tokens raw))"

definition planner_llm_meta_from_response :: "llm_response \<Rightarrow> dict" where
  "planner_llm_meta_from_response r =
     llm_meta_of (int_or_null (lp_prompt_tokens r)) (int_or_null (lp_completion_tokens r)) (int_or_null (lp_total_tokens r))"

definition rejected_plan :: "string \<Rightarrow> dict" where
  "rejected_plan reason = fmupd ''_planner_valid'' (JBool False) (ask_plan reason)"

text \<open>\<open>\{.*\}\<close>, over lines: from the first opening brace to the last closing one.\<close>

fun braced :: "string \<Rightarrow> string option" where
  "braced [] = None"
| "braced (c # s) = (if c = CHR ''{'' \<and> CHR ''}'' \<in> set s then Some (c # up_to_last (CHR ''}'') s) else braced s)"

text \<open>The plan in a body: what is no JSON object is rejected.\<close>

definition plan_in_body :: "(string \<Rightarrow> exn + json) \<Rightarrow> string \<Rightarrow> dict" where
  "plan_in_body loads body =
     (case braced body of
        None \<Rightarrow> rejected_plan ''invalid planner output''
      | Some x \<Rightarrow> (case loads x of
          Inr (JObj d) \<Rightarrow> fmupd ''_planner_valid'' (JBool True) d
        | _ \<Rightarrow> rejected_plan ''json parse fail''))"

text \<open>The prompt, which is not ASCII, is a parameter of the suffix and the text; an error of the gateway is raised.\<close>

definition plan_with_llm ::
  "(gateway_config \<Rightarrow> 'w gateway) \<Rightarrow> (string \<Rightarrow> exn + json) \<Rightarrow> (string \<Rightarrow> string \<Rightarrow> string) \<Rightarrow> env \<Rightarrow> string \<Rightarrow>
   ('w, dict \<times> dict) prog" where
  "plan_with_llm make_gateway loads prompt env text =
     (let c = planner_gateway_config env in
      bnd (gateway_generate (make_gateway c)
             \<lparr>lq_prompt = prompt (strip (getenv env ''AGENT_PROMPT_SUFFIX'' [])) text, lq_system = [], lq_model = Some (gc_model c),
              lq_provider = Some (gc_provider c), lq_format = TextFormat, lq_timeout_sec = Some (gc_timeout_sec c),
              lq_metadata = dict_of [(''caller'', JStr ''run_agent_eval.plan_with_llm'')]\<rparr>) (\<lambda>out.
      case out of
        Inl x \<Rightarrow> raise (OtherError ''LLMError'' (lx_message x))
      | Inr r \<Rightarrow> (case lp_content r of
          JStr s \<Rightarrow> ret (plan_in_body loads (strip s), planner_llm_meta_from_response r)
        | _ \<Rightarrow> raise (AttributeError ''strip''))))"

section \<open>Validation\<close>

text \<open>\<open>v in {...}\<close> for a set of texts: lists and dicts cannot be hashed.\<close>

definition in_texts :: "json \<Rightarrow> string list \<Rightarrow> exn + bool" where
  "in_texts v ts = (case v of JStr s \<Rightarrow> Inr (s \<in> set ts) | JArr xs \<Rightarrow> Inl (TypeError ''unhashable type: list'')
     | JObj d \<Rightarrow> Inl (TypeError ''unhashable type: dict'') | _ \<Rightarrow> Inr False)"

definition step_tools :: "string list" where
  "step_tools = [''place_order'', ''query_order'', ''cancel_order'', ''ask_user'']"

definition allowed_tools :: "string list" where
  "allowed_tools = step_tools @ [''workflow'']"

definition call_of :: "dict \<Rightarrow> (string \<times> json) list" where
  "call_of d = [(''tool'', dget_or d ''tool'' JNull), (''args'', JObj (args_dict (dget_or d ''args'' (JObj fmempty))))]"

text \<open>The steps of a workflow, or the reason for which they are rejected.\<close>

fun sanitize_steps :: "json list \<Rightarrow> exn + string + json list" where
  "sanitize_steps [] = Inr (Inr [])"
| "sanitize_steps (JObj d # vs) =
     (case in_texts (dget_or d ''tool'' JNull) step_tools of
        Inl e \<Rightarrow> Inl e
      | Inr False \<Rightarrow> Inr (Inl ''workflow tool not allowed'')
      | Inr True \<Rightarrow> (case sanitize_steps vs of
          Inr (Inr ys) \<Rightarrow> Inr (Inr (JObj (dict_of (call_of d)) # ys))
        | r \<Rightarrow> r))"
| "sanitize_steps (v # vs) = Inr (Inl ''invalid workflow step'')"

definition lacks_args :: "string \<Rightarrow> dict \<Rightarrow> bool" where
  "lacks_args tool args \<longleftrightarrow>
     (tool = ''place_order'' \<and> (is_blank (py_str (dget_or args ''item_name'' (JStr []))) \<or> is_blank (py_str (dget_or args ''address'' (JStr []))))) \<or>
     (tool \<in> {''query_order'', ''cancel_order''} \<and> \<not> truthy (dget_or args ''order_id'' JNull))"

definition validate_steps :: "dict \<Rightarrow> exn + dict" where
  "validate_steps plan =
     (case dget_or plan ''steps'' JNull of
        JArr (v # vs) \<Rightarrow> (case sanitize_steps (v # vs) of
          Inl e \<Rightarrow> Inl e
        | Inr (Inl reason) \<Rightarrow> Inr (rejected_plan reason)
        | Inr (Inr ys) \<Rightarrow> Inr (dict_of [(''tool'', JStr ''workflow''), (''steps'', JArr ys),
            (''_planner_valid'', dget_or plan ''_planner_valid'' (JBool True))]))
      | _ \<Rightarrow> Inr (rejected_plan ''invalid workflow steps''))"

definition validate_call :: "string \<Rightarrow> dict \<Rightarrow> dict" where
  "validate_call tool plan =
     (if lacks_args tool (args_dict (dget_or plan ''args'' (JObj fmempty)))
      then fmupd ''_planner_valid'' (JBool True) (ask_plan ''missing args'')
      else dict_of (call_of plan @ [(''_planner_valid'', dget_or plan ''_planner_valid'' (JBool True))]))"

definition validate_plan :: "json \<Rightarrow> exn + dict" where
  "validate_plan v =
     (case v of
        JObj plan \<Rightarrow> (case in_texts (dget_or plan ''tool'' JNull) allowed_tools of
          Inl e \<Rightarrow> Inl e
        | Inr False \<Rightarrow> Inr (rejected_plan ''tool not allowed'')
        | Inr True \<Rightarrow>
            let tool = py_str (dget_or plan ''tool'' JNull) in
            if tool = ''workflow'' then validate_steps plan else Inr (validate_call tool plan))
      | _ \<Rightarrow> Inr (rejected_plan ''plan not object''))"

text \<open>The planner node with its own planners, for which the model is named by the environment.\<close>

definition default_planner_node ::
  "(gateway_config \<Rightarrow> 'w gateway) \<Rightarrow> (string \<Rightarrow> exn + json) \<Rightarrow> (string \<Rightarrow> string \<Rightarrow> string) \<Rightarrow> env \<Rightarrow> string option \<Rightarrow>
   'w planner_node" where
  "default_planner_node make_gateway loads prompt env mode =
     \<lparr>pn_planner = plan_with_llm make_gateway loads prompt env, pn_rule_planner = \<lambda>text. ret (rule_plan text),
      pn_validator = \<lambda>plan. lift (validate_plan (JObj plan)), pn_agent_mode = mode,
      pn_model = or_default (strip (getenv env ''LLM_GATEWAY_MODEL'' [])) (getenv env ''OLLAMA_MODEL'' ''qwen2.5:7b'')\<rparr>"

end
