(* ===== verification/Agent_Planner_Correct.thy ===== *)
theory Agent_Planner_Correct
  imports Agent_Planner
begin

text \<open>
  The planner: a validated plan names known tools and, outside of workflows, has the arguments its tool
  needs; a plan by rules never asks for or cancels an order that the text does not name.
\<close>

section \<open>Validation\<close>

definition known_call :: "dict \<Rightarrow> bool" where
  "known_call d \<longleftrightarrow> (\<exists>tool args. dget d ''tool'' = Some (JStr tool) \<and> tool \<in> set step_tools \<and> dget d ''args'' = Some (JObj args))"

definition has_args :: "string \<Rightarrow> dict \<Rightarrow> bool" where
  "has_args tool args =
     (if tool = ''place_order'' then \<not> is_blank (py_str (dget_or args ''item_name'' (JStr []))) \<and> \<not> is_blank (py_str (dget_or args ''address'' (JStr [])))
      else if tool = ''query_order'' \<or> tool = ''cancel_order'' then truthy (dget_or args ''order_id'' JNull)
      else True)"

lemma lacks_args_iff: "lacks_args tool args \<longleftrightarrow> \<not> has_args tool args"
  by (auto simp: lacks_args_def has_args_def)

definition complete_call :: "dict \<Rightarrow> bool" where
  "complete_call d \<longleftrightarrow> (\<exists>tool args. dget d ''tool'' = Some (JStr tool) \<and> tool \<in> set step_tools \<and>
     dget d ''args'' = Some (JObj args) \<and> has_args tool args)"

definition known_workflow :: "dict \<Rightarrow> bool" where
  "known_workflow d \<longleftrightarrow> (\<exists>ds. dget d ''tool'' = Some (JStr ''workflow'') \<and> dget d ''steps'' = Some (JArr (map JObj ds)) \<and>
     ds \<noteq> [] \<and> list_all known_call ds)"

lemma ask_plan_complete: "complete_call (ask_plan reason)" "complete_call (fmupd ''_planner_valid'' b (ask_plan reason))"
  by (simp_all add: complete_call_def ask_plan_def plan_of_def dget_dict_of step_tools_def has_args_def)

lemma rejected_plan_complete: "complete_call (rejected_plan reason)"
  by (simp add: rejected_plan_def ask_plan_complete)

lemma in_texts_Inr: "in_texts v ts = Inr True \<Longrightarrow> \<exists>s. v = JStr s \<and> s \<in> set ts"
  by (cases v) (auto simp: in_texts_def)

lemma in_texts_Inl: "in_texts v ts = Inl e \<Longrightarrow> \<exists>s. e = TypeError s"
  by (cases v) (auto simp: in_texts_def)

lemma verdict_cases: obtains (err) e where "r = Inl e" | (no) "r = Inr False" | (yes) "r = Inr True"
  by (cases r; cases "projr r") auto

lemma steps_cases: obtains (err) e where "r = Inl e" | (rejected) t where "r = Inr (Inl t)" | (kept) ys where "r = Inr (Inr ys)"
  by (cases r; cases "projr r") auto

lemma call_of_known:
  assumes "in_texts (dget_or d ''tool'' JNull) step_tools = Inr True"
  shows "known_call (dict_of (call_of d))"
  using in_texts_Inr [OF assms] by (auto simp: known_call_def call_of_def dget_dict_of)

lemma sanitize_steps_known:
  "case sanitize_steps vs of Inl e \<Rightarrow> (\<exists>s. e = TypeError s) | Inr (Inl reason) \<Rightarrow> True
   | Inr (Inr ys) \<Rightarrow> (\<exists>ds. ys = map JObj ds \<and> length ds = length vs \<and> list_all known_call ds)"
proof (induction vs rule: sanitize_steps.induct)
  case (2 d vs)
  show ?case
  proof (cases "in_texts (dget_or d ''tool'' JNull) step_tools" rule: verdict_cases)
    case (err e)
    then show ?thesis using in_texts_Inl [OF err] by simp
  next
    case no
    then show ?thesis by simp
  next
    case yes
    note ih = 2 [OF yes refl] and known = call_of_known [OF yes]
    show ?thesis
    proof (cases "sanitize_steps vs" rule: steps_cases)
      case (kept ys)
      with ih obtain ds where "ys = map JObj ds" "length ds = length vs" "list_all known_call ds" by auto
      then have "\<exists>ds. JObj (dict_of (call_of d)) # ys = map JObj ds \<and> length ds = length (JObj d # vs) \<and> list_all known_call ds"
        using known by (intro exI [of _ "dict_of (call_of d) # ds"]) simp
      then show ?thesis by (simp only: sanitize_steps.simps yes kept sum.case bool.case)
    qed (use ih yes in simp_all)
  qed
qed simp_all

lemma validate_steps_known:
  assumes "validate_steps plan = r"
  shows "case r of Inl e \<Rightarrow> (\<exists>s. e = TypeError s) | Inr d \<Rightarrow> complete_call d \<or> known_workflow d"
proof (cases "\<exists>v vs. dget_or plan ''steps'' JNull = JArr (v # vs)")
  case True
  then obtain v vs where steps: "dget_or plan ''steps'' JNull = JArr (v # vs)" by blast
  show ?thesis
  proof (cases "sanitize_steps (v # vs)")
    case (Inl e)
    then show ?thesis using sanitize_steps_known [of "v # vs"] assms by (auto simp: validate_steps_def steps)
  next
    case (Inr r')
    show ?thesis
    proof (cases r')
      case (Inl reason)
      then show ?thesis using assms \<open>sanitize_steps (v # vs) = Inr r'\<close>
        by (auto simp: validate_steps_def steps rejected_plan_complete)
    next
      case (Inr ys)
      with sanitize_steps_known [of "v # vs"] \<open>sanitize_steps (v # vs) = Inr r'\<close> obtain ds where
        ds: "ys = map JObj ds" "length ds = length (v # vs)" "list_all known_call ds" by auto
      then have "ds \<noteq> []" by auto
      with ds have "known_workflow (dict_of [(''tool'', JStr ''workflow''), (''steps'', JArr ys),
          (''_planner_valid'', dget_or plan ''_planner_valid'' (JBool True))])"
        unfolding known_workflow_def by (intro exI [of _ ds]) (simp add: dget_dict_of)
      then show ?thesis using assms Inr \<open>sanitize_steps (v # vs) = Inr r'\<close> by (auto simp: validate_steps_def steps)
    qed
  qed
next
  case False
  then have "validate_steps plan = Inr (rejected_plan ''invalid workflow steps'')"
    by (auto simp: validate_steps_def split: json.split list.split)
  then show ?thesis using assms rejected_plan_complete by auto
qed

lemma validate_call_complete:
  assumes "tool \<in> set step_tools" "dget_or plan ''tool'' JNull = JStr tool"
  shows "complete_call (validate_call tool plan)"
  using assms ask_plan_complete
  by (auto simp: validate_call_def lacks_args_iff) (auto simp: complete_call_def call_of_def dget_dict_of)

text \<open>
  C38. Whatever a model gives as its plan, its validation ends with a plan the executor knows: a call of one
  of the four tools with the arguments this tool needs, or a workflow with at least one step, whose steps are
  calls of the four tools with some arguments. Otherwise it raises a type error, and nothing else.
\<close>

theorem validated_plan_known:
  "case validate_plan v of Inl e \<Rightarrow> \<exists>s. e = TypeError s | Inr d \<Rightarrow> complete_call d \<or> known_workflow d"
proof (cases v)
  case (JObj plan)
  show ?thesis
  proof (cases "in_texts (dget_or plan ''tool'' JNull) allowed_tools" rule: verdict_cases)
    case (err e)
    then show ?thesis using in_texts_Inl [OF err] by (simp add: validate_plan_def JObj)
  next
    case no
    then show ?thesis by (simp add: validate_plan_def JObj rejected_plan_complete)
  next
    case yes
    then obtain tool where tool: "dget_or plan ''tool'' JNull = JStr tool" "tool \<in> set allowed_tools"
      using in_texts_Inr by blast
    show ?thesis
    proof (cases "tool = ''workflow''")
      case True
      then show ?thesis using validate_steps_known [of plan, OF refl] yes tool(1)
        by (simp add: validate_plan_def JObj)
    next
      case False
      then have "tool \<in> set step_tools" using tool(2) by (auto simp: allowed_tools_def)
      from validate_call_complete [OF this tool(1)] False yes tool(1) show ?thesis
        by (simp add: validate_plan_def JObj)
    qed
  qed
qed (simp_all add: validate_plan_def rejected_plan_complete)

text \<open>A workflow's steps are not checked for their arguments: a cancellation of no order passes.\<close>

lemma workflow_args_unchecked:
  "validate_plan (JObj (dict_of [(''tool'', JStr ''workflow''), (''steps'', JArr [JObj (dict_of [(''tool'', JStr ''cancel_order'')])])])) =
   Inr (dict_of [(''tool'', JStr ''workflow''),
     (''steps'', JArr [JObj (dict_of [(''tool'', JStr ''cancel_order''), (''args'', JObj fmempty)])]), (''_planner_valid'', JBool True)])"
  by (simp add: validate_plan_def in_texts_def dget_or_dict_of allowed_tools_def step_tools_def validate_steps_def call_of_def args_dict_def)

section \<open>Rules\<close>

definition order_of_call :: "dict \<Rightarrow> json" where
  "order_of_call d = dget_or (args_dict (dget_or d ''args'' JNull)) ''order_id'' JNull"

text \<open>A call that does not touch an existing order, or touches the one the text names.\<close>

definition names_given_order :: "string \<Rightarrow> dict \<Rightarrow> bool" where
  "names_given_order text d \<longleftrightarrow>
     dget_or d ''tool'' JNull \<in> JStr ` {''ask_user'', ''place_order''} \<or>
     (\<exists>i. order_match text = Some i \<and> order_of_call d = JStr i)"

definition calls_of :: "dict \<Rightarrow> dict list" where
  "calls_of plan = (if dget_or plan ''tool'' JNull = JStr ''workflow''
     then (case dget_or plan ''steps'' JNull of JArr vs \<Rightarrow> map args_dict vs | _ \<Rightarrow> []) else [plan])"

lemma ask_names: "list_all (names_given_order text) (calls_of (ask_plan reason))"
  by (simp add: calls_of_def ask_plan_def plan_of_def dget_or_dict_of names_given_order_def)

lemma place_names: "list_all (names_given_order text) (calls_of (plan_of ''place_order'' args))"
  by (simp add: calls_of_def plan_of_def dget_or_dict_of names_given_order_def)

lemma order_names:
  assumes "order_match text = Some i" "tool \<noteq> ''workflow''"
  shows "names_given_order text (order_plan tool (JStr i))" "calls_of (order_plan tool (JStr i)) = [order_plan tool (JStr i)]"
  using assms
  by (simp_all add: calls_of_def order_plan_def plan_of_def dget_or_dict_of names_given_order_def order_of_call_def args_dict_def)

lemma both_names:
  assumes "order_match text = Some i"
  shows "list_all (names_given_order text) (calls_of (both_plan text (JStr i)))"
  using order_names(1) [OF assms]
  by (auto simp: calls_of_def both_plan_def dget_or_dict_of args_dict_def Let_def)

lemma parsed_order: "dget (parse_args_from_text text) ''order_id'' = map_option JStr (order_match text)"
  by (auto simp: parse_args_from_text_def dget_dict_of map_add_def split: option.split)

text \<open>
  C39. A plan by rules asks for an order or cancels one only if the text names one, and then this one: every
  call of the plan either touches no existing order or is for the order found in the text.
\<close>

theorem rule_plan_never_guesses: "list_all (names_given_order text) (calls_of (rule_plan text))"
proof (cases "order_match text")
  case None
  then show ?thesis
    unfolding rule_plan_def Let_def parsed_order None
    by (simp add: ask_names place_names split: option.split)
next
  case (Some i)
  note o = order_names [OF Some, of "''cancel_order''"] order_names [OF Some, of "''query_order''"]
  show ?thesis
    unfolding rule_plan_def Let_def parsed_order Some
    by (simp add: ask_names place_names both_names [OF Some] o split: option.split)
qed

end
