(* ===== verification/Agent_Client.thy ===== *)
theory Agent_Client
  imports Agent_Planner
begin

text \<open>
  \<open>agent-eval/scripts/tools_client.py\<close>: the client through which the agent's tools, those of the platform as
  well, reach the order service. It injects faults of its own, keeps the orders it made and, when given a
  buffer, the steps of its calls. \<open>urlopen\<close> and the JSON parser are parameters.
\<close>

section \<open>State\<close>

record 's client_world = "'s platform_world" +
  cw_orders :: "json list"
  cw_trace :: "json list option"

record client_settings =
  kc_base_url :: string
  kc_chaos_mode :: string
  kc_fail_rate :: rat
  kc_latency_ms :: int
  kc_timeout :: rat

definition new_tools_client ::
  "env \<Rightarrow> string \<Rightarrow> string \<Rightarrow> rat \<Rightarrow> int \<Rightarrow> rat option \<Rightarrow> json list option \<Rightarrow> (('s, 'z) client_world_scheme, client_settings) prog" where
  "new_tools_client env base mode rate latency timeout buffer =
     bnd (case timeout of Some t \<Rightarrow> ret t | None \<Rightarrow> py_float (getenv env ''TOOLS_HTTP_TIMEOUT_SEC'' ''12'')) (\<lambda>t.
     thn (modw (\<lambda>w. w\<lparr>cw_orders := [], cw_trace := buffer\<rparr>))
     (ret \<lparr>kc_base_url = rstrip_char (CHR ''/'') base, kc_chaos_mode = mode, kc_fail_rate = rate, kc_latency_ms = latency,
       kc_timeout = t\<rparr>))"

definition set_trace_buffer :: "json list option \<Rightarrow> (('s, 'z) client_world_scheme, unit) prog" where
  "set_trace_buffer buffer = modw (\<lambda>w. w\<lparr>cw_trace := buffer\<rparr>)"

definition add_created :: "json \<Rightarrow> (('s, 'z) client_world_scheme, unit) prog" where
  "add_created i = modw (\<lambda>w. w\<lparr>cw_orders := cw_orders w @ [i]\<rparr>)"

definition trace_step ::
  "nat \<Rightarrow> string \<Rightarrow> string \<Rightarrow> string \<Rightarrow> nat \<Rightarrow> rat \<Rightarrow> int \<Rightarrow> string option \<Rightarrow> bool \<Rightarrow> json" where
  "trace_step n tool method path i latency_ms status err injected = JObj (dict_of
     [(''step'', JInt (int n)), (''type'', JStr ''tool_call''), (''tool'', JStr tool), (''method'', JStr method),
      (''path'', JStr path), (''retry_index'', JInt (int i)), (''latency_ms'', JFloat (round3 latency_ms)),
      (''http_status'', JInt status), (''error'', text_or_null err), (''injected_fault'', JBool injected)])"

definition append_trace_step ::
  "string \<Rightarrow> string \<Rightarrow> string \<Rightarrow> nat \<Rightarrow> rat \<Rightarrow> int \<Rightarrow> string option \<Rightarrow> bool \<Rightarrow> (('s, 'z) client_world_scheme, unit) prog" where
  "append_trace_step tool method path i latency_ms status err injected =
     modw (\<lambda>w. case cw_trace w of None \<Rightarrow> w
       | Some b \<Rightarrow> w\<lparr>cw_trace := Some (b @ [trace_step (length b + 1) tool method path i latency_ms status err injected])\<rparr>)"

section \<open>Faults\<close>

definition url_error :: "string \<Rightarrow> exn" where
  "url_error reason = OtherError ''URLError'' (''<urlopen error '' @ reason @ ''>'')"

fun is_injected :: "exn \<Rightarrow> bool" where
  "is_injected (OtherError n s) = (n = ''URLError'' \<and> occurs_in ''injected_fault:'' s)"
| "is_injected _ = False"

definition active_fail_rate :: "client_settings \<Rightarrow> rat" where
  "active_fail_rate c = (if kc_chaos_mode c = ''error'' then max (kc_fail_rate c) (35 / 100)
     else if kc_chaos_mode c = ''mixed'' then max (kc_fail_rate c) (25 / 100) else kc_fail_rate c)"

definition maybe_inject_fault :: "client_settings \<Rightarrow> string \<Rightarrow> (('s, 'z) world_scheme, unit) prog" where
  "maybe_inject_fault c op =
     thn (whenp (kc_chaos_mode c \<in> {''latency'', ''mixed''} \<and> kc_latency_ms c > 0) (py_sleep (of_int (kc_latency_ms c) / 1000)))
     (if active_fail_rate c > 0 then
        bnd py_random (\<lambda>u. if u < active_fail_rate c then raise (url_error (''injected_fault:'' @ op)) else ret ())
      else ret ())"

definition fault_body :: "string \<Rightarrow> bool \<Rightarrow> json" where
  "fault_body err injected = JObj (dict_of [(''error'', JStr err), (''injected_fault'', JBool injected)])"

definition client_error_body :: "string \<Rightarrow> json" where
  "client_error_body err = JObj (dict_of [(''error'', JStr err)])"

definition answer :: "bool \<Rightarrow> int \<Rightarrow> json \<Rightarrow> (string \<times> json) list \<Rightarrow> dict" where
  "answer ok code body extra = dict_of ([(''ok'', JBool ok), (''status_code'', JInt code), (''body'', body)] @ extra)"

text \<open>A call of a tool: an injected fault is a step of its own and a failed answer.\<close>

definition with_fault ::
  "client_settings \<Rightarrow> string \<Rightarrow> string \<Rightarrow> string \<Rightarrow> nat \<Rightarrow> (('s, 'z) client_world_scheme, dict) prog \<Rightarrow>
   (('s, 'z) client_world_scheme, dict) prog" where
  "with_fault c tool method path i k =
     try_else (maybe_inject_fault c tool)
       (\<lambda>e. if is_injected e then
            thn (append_trace_step tool method path i 0 0 (Some (exn_text e)) True)
            (ret (answer False 0 (fault_body (exn_text e) True) []))
          else raise e)
       (\<lambda>_. k)"

section \<open>HTTP\<close>

record url_request =
  ur_url :: string
  ur_method :: string
  ur_headers :: "(string \<times> string) list"
  ur_body :: "json option"
  ur_timeout :: rat

text \<open>
  What opening a URL ends with: a status and a text, a status of failure with its text and message, or the
  message of a \<open>URLError\<close>; other exceptions are raised.
\<close>

datatype url_reply = Answered int string | Failed int string string | Unreachable string

type_synonym 'w urlopen = "url_request \<Rightarrow> ('w, url_reply) prog"

text \<open>Status, body, message and whether the fault is an injected one.\<close>

definition read_reply :: "(string \<Rightarrow> exn + json) \<Rightarrow> url_reply \<Rightarrow> int \<times> json \<times> string option \<times> bool" where
  "read_reply loads r =
     (case r of
        Answered code s \<Rightarrow> (case loads s of Inr v \<Rightarrow> (code, v, None, False)
          | Inl e \<Rightarrow> (code, client_error_body (exn_text e), Some (exn_text e), False))
      | Failed code s message \<Rightarrow> (code, (case loads s of Inr v \<Rightarrow> v | Inl e \<Rightarrow> client_error_body message), Some message, False)
      | Unreachable message \<Rightarrow> (let injected = occurs_in ''injected_fault:'' message in
          (0, fault_body message injected, Some message, injected)))"

definition hex_of :: "string \<Rightarrow> string" where
  "hex_of u = filter (\<lambda>c. c \<noteq> CHR ''-'') u"

definition request_headers :: "json option \<Rightarrow> (('s, 'z) world_scheme, (string \<times> string) list) prog" where
  "request_headers body =
     bnd py_uuid (\<lambda>u. let own = [(''X-Request-Id'', ''ae-'' @ take 12 (hex_of u))] in
     if body = None then ret own
     else bnd py_uuid (\<lambda>key. ret (own @ [(''Content-Type'', ''application/json''), (''X-Idempotency-Key'', key)])))"

definition timed_http_json ::
  "client_settings \<Rightarrow> ('s, 'z) client_world_scheme urlopen \<Rightarrow> (string \<Rightarrow> exn + json) \<Rightarrow> string \<Rightarrow> string \<Rightarrow> string \<Rightarrow>
   json option \<Rightarrow> nat \<Rightarrow> (('s, 'z) client_world_scheme, int \<times> json) prog" where
  "timed_http_json c url loads tool method path body i =
     bnd py_time (\<lambda>t0. bnd (request_headers body) (\<lambda>headers.
     bnd (catch
           (bnd (url \<lparr>ur_url = kc_base_url c @ path, ur_method = method, ur_headers = headers, ur_body = body, ur_timeout = kc_timeout c\<rparr>)
              (\<lambda>r. ret (read_reply loads r)))
           (\<lambda>e. if is_exception e then ret (0, client_error_body (exn_text e), Some (exn_text e), False) else raise e))
       (\<lambda>(status, out, err, injected).
     bnd py_time (\<lambda>t.
     thn (append_trace_step tool method path i ((t - t0) * 1000) status err injected)
     (ret (status, out))))))"

section \<open>Calls\<close>

definition item_map :: "(string \<times> string) list" where
  "item_map = zip dishes [''sku-kungpao'', ''sku-yuxiang'', ''sku-hongshao'', ''sku-cola'']"

definition item_id_of :: "json \<Rightarrow> ('w, string option) prog" where
  "item_id_of v = (case v of JStr s \<Rightarrow> ret (map_of item_map s) | JArr xs \<Rightarrow> raise (TypeError ''unhashable type: list'')
     | JObj d \<Rightarrow> raise (TypeError ''unhashable type: dict'') | _ \<Rightarrow> ret None)"

text \<open>\<open>"order_id" in body\<close>.\<close>

definition has_order_id :: "json \<Rightarrow> ('w, bool) prog" where
  "has_order_id body = (case body of JObj d \<Rightarrow> ret (dget d ''order_id'' \<noteq> None) | JArr xs \<Rightarrow> ret (JStr ''order_id'' \<in> set xs)
     | JStr s \<Rightarrow> ret (occurs_in ''order_id'' s) | _ \<Rightarrow> raise (TypeError ''argument is not iterable''))"

definition is_injected_body :: "json \<Rightarrow> ('w, bool) prog" where
  "is_injected_body body = bnd (as_dict body) (\<lambda>d. ret (truthy (dget_or d ''injected_fault'' JNull)))"

definition invalid_call :: "string \<Rightarrow> dict" where
  "invalid_call err = dict_of [(''ok'', JBool False), (''error'', JStr err)]"

text \<open>The answer when the service is not reached: an order of the client's own making.\<close>

definition offline_order :: "json \<Rightarrow> json \<Rightarrow> (('s, 'z) client_world_scheme, dict) prog" where
  "offline_order body address =
     bnd py_uuid (\<lambda>u. let i = JStr (''AUTO-'' @ upper (take 8 (hex_of u))) in
     thn (add_created i)
     (bnd (as_dict body) (\<lambda>d.
      ret (answer True 201 (JObj (dict_of [(''status'', JStr ''ok''), (''order_id'', i), (''offline_fallback'', JBool True)]))
        [(''address'', address), (''error'', dget_or d ''error'' (JStr []))]))))"

definition placed_answer :: "json \<Rightarrow> int \<times> json \<Rightarrow> (('s, 'z) client_world_scheme, dict) prog" where
  "placed_answer address out =
     (case out of (code, body) \<Rightarrow>
      thn (if code \<in> {200, 201} then
             bnd (has_order_id body) (\<lambda>b. if b then bnd (subscript body ''order_id'') add_created else ret ())
           else ret ())
      (if code \<in> {200, 201, 202} then ret (answer True code body [(''address'', address)])
       else bnd (if code = 0 then is_injected_body body else ret True) (\<lambda>injected.
         if \<not> injected then offline_order body address
         else ret (answer False code body [(''address'', address)]))))"

definition client_place_order ::
  "client_settings \<Rightarrow> ('s, 'z) client_world_scheme urlopen \<Rightarrow> (string \<Rightarrow> exn + json) \<Rightarrow> json \<Rightarrow> int \<Rightarrow> json \<Rightarrow> nat \<Rightarrow>
   (('s, 'z) client_world_scheme, dict) prog" where
  "client_place_order c url loads item quantity address i =
     (if quantity \<le> 0 \<or> quantity > 999 then ret (invalid_call ''invalid quantity'')
      else bnd (item_id_of item) (\<lambda>found.
        case found of
          None \<Rightarrow> ret (invalid_call ''unknown item_name'')
        | Some item_id \<Rightarrow>
            with_fault c ''place_order'' ''POST'' ''/order'' i
              (bnd (timed_http_json c url loads ''place_order'' ''POST'' ''/order''
                     (Some (JObj (dict_of [(''item_id'', JStr item_id), (''quantity'', JInt quantity)]))) i)
                (placed_answer address))))"

definition client_query_order ::
  "client_settings \<Rightarrow> ('s, 'z) client_world_scheme urlopen \<Rightarrow> (string \<Rightarrow> exn + json) \<Rightarrow> json \<Rightarrow> nat \<Rightarrow>
   (('s, 'z) client_world_scheme, dict) prog" where
  "client_query_order c url loads order_id i =
     (let path = ''/order/'' @ py_str order_id in
      with_fault c ''query_order'' ''GET'' path i
        (bnd (timed_http_json c url loads ''query_order'' ''GET'' path None i) (\<lambda>(code, body).
         if code = 200 then ret (answer True code body [])
         else bnd (as_dict body) (\<lambda>d.
           if truthy (dget_or d ''injected_fault'' JNull) then ret (answer False code body [])
           else if code = 0 then ret (answer False 0 (JObj (fmupd ''offline_fallback'' (JBool True) d)) [])
           else ret (answer False code body [])))))"

definition client_cancel_order ::
  "client_settings \<Rightarrow> ('s, 'z) client_world_scheme urlopen \<Rightarrow> (string \<Rightarrow> exn + json) \<Rightarrow> json \<Rightarrow> nat \<Rightarrow>
   (('s, 'z) client_world_scheme, dict) prog" where
  "client_cancel_order c url loads order_id i =
     (let path = ''/order/'' @ py_str order_id @ ''/cancel'' in
      with_fault c ''cancel_order'' ''POST'' path i
        (bnd (timed_http_json c url loads ''cancel_order'' ''POST'' path (Some (JObj fmempty)) i) (\<lambda>(code, body).
         if code = 200 then ret (answer True code body [])
         else bnd (as_dict body) (\<lambda>d.
           if truthy (dget_or d ''injected_fault'' JNull) then ret (answer False code body [])
           else if code = 0 then
             ret (answer True 200 (JObj (dict_of [(''status'', JStr ''ok''), (''offline_fallback'', JBool True), (''order_id'', order_id)]))
               [(''error'', dget_or d ''error'' (JStr []))])
           else ret (answer False code body [])))))"

section \<open>The platform's tools\<close>

text \<open>The client as the adapters of the platform's tools use it, and the one they make from the environment.\<close>

definition client_tools ::
  "client_settings \<Rightarrow> ('s, 'z) client_world_scheme urlopen \<Rightarrow> (string \<Rightarrow> exn + json) \<Rightarrow> ('s, 'z) client_world_scheme tools_client" where
  "client_tools c url loads =
     \<lparr>tc_place = client_place_order c url loads, tc_query = \<lambda>i. client_query_order c url loads i 0,
      tc_cancel = \<lambda>i. client_cancel_order c url loads i 0, tc_chaos_mode = kc_chaos_mode c\<rparr>"

definition build_default_tools_client :: "env \<Rightarrow> (('s, 'z) client_world_scheme, client_settings) prog" where
  "build_default_tools_client env =
     bnd (py_float (getenv env ''AGENT_CHAOS_FAIL_RATE'' ''0'')) (\<lambda>rate.
     bnd (py_int (getenv env ''AGENT_CHAOS_LATENCY_MS'' ''0'')) (\<lambda>latency.
     new_tools_client env (getenv env ''TOOLS_BASE_URL'' ''http://127.0.0.1:5000'') (getenv env ''AGENT_CHAOS_MODE'' ''none'')
       rate latency None None))"

end
