(* ===== verification/Agent_Client_Correct.thy ===== *)
theory Agent_Client_Correct
  imports Agent_Client
begin

text \<open>
  The tools' client: the steps it records are numbered, and what it answers when the order service cannot be
  reached.
\<close>

section \<open>Recorded steps\<close>

definition numbered :: "('s, 'z) client_world_scheme \<Rightarrow> bool" where
  "numbered w = (case cw_trace w of None \<Rightarrow> True
     | Some b \<Rightarrow> map (\<lambda>v. dget_or (args_dict v) ''step'' JNull) b = map (\<lambda>n. JInt (int n)) [1..<Suc (length b)])"

lemma keeps_append_trace_step: "keeps numbered (append_trace_step tool method path i l s e f)"
  unfolding append_trace_step_def
  by (auto simp: keeps_def modw_def numbered_def trace_step_def args_dict_def dget_or_dict_of split: option.splits)

lemma keeps_clock_client:
  "keeps numbered py_time" "keeps numbered py_uuid" "keeps numbered py_random" "keeps numbered (py_sleep d)"
  "keeps numbered (add_created v)"
  by (simp_all add: keeps_def numbered_def effect_defs modw_def add_created_def Let_def)

lemmas client_keeps = keeps_append_trace_step keeps_clock_client

lemma keeps_with_fault:
  assumes "keeps numbered k"
  shows "keeps numbered (with_fault c tool method path i k)"
  unfolding with_fault_def maybe_inject_fault_def
  by (auto intro!: prog_intros client_keeps assms split: option.split)

lemma keeps_timed_http_json:
  assumes "\<And>q. keeps numbered (url q)"
  shows "keeps numbered (timed_http_json c url loads tool method path body i)"
  unfolding timed_http_json_def request_headers_def Let_def
  by (auto intro!: prog_intros client_keeps assms)

lemma keeps_placed_answer: "keeps numbered (placed_answer address out)"
  unfolding placed_answer_def has_order_id_def is_injected_body_def offline_order_def Let_def
  by (cases out) (auto intro!: prog_intros client_keeps split: json.split)

lemma keeps_item_id_of: "keeps P (item_id_of v)"
  unfolding item_id_of_def by (auto intro!: prog_intros split: json.split)

lemma keeps_calls:
  assumes "\<And>q. keeps numbered (url q)"
  shows "keeps numbered (client_place_order c url loads item n address i)" "keeps numbered (client_query_order c url loads order_id i)"
    "keeps numbered (client_cancel_order c url loads order_id i)"
  unfolding client_place_order_def client_query_order_def client_cancel_order_def Let_def
  by (auto intro!: prog_intros keeps_with_fault keeps_timed_http_json [OF assms] keeps_placed_answer keeps_item_id_of split: option.split)

section \<open>An order service that is not reached\<close>

text \<open>A client that injects no faults.\<close>

definition quiet :: "client_settings \<Rightarrow> bool" where
  "quiet c \<longleftrightarrow> active_fail_rate c \<le> 0 \<and> (kc_chaos_mode c \<in> {''latency'', ''mixed''} \<longrightarrow> kc_latency_ms c \<le> 0)"

lemma quiet_with_fault: "quiet c \<Longrightarrow> with_fault c tool method path i k = k"
  by (auto simp: quiet_def with_fault_def maybe_inject_fault_def whenp_def try_else_def ret_def thn_def bnd_def fun_eq_iff)

definition down :: "string \<Rightarrow> 'w urlopen" where
  "down m = (\<lambda>q. ret (Unreachable m))"

lemma down_http:
  assumes "\<not> occurs_in ''injected_fault:'' m"
  shows "\<exists>w'. timed_http_json c (down m) loads tool method path body i w = (Inr (0, fault_body m False), w')"
  using assms
  by (simp add: timed_http_json_def down_def read_reply_def request_headers_def catch_def bnd_def thn_def ret_def py_time_def py_uuid_def
      append_trace_step_def modw_def Let_def)

lemma down_place:
  assumes "quiet c" "\<not> occurs_in ''injected_fault:'' m" "map_of item_map item = Some s" "0 < n" "n \<le> 999"
  shows "\<exists>r body i' w'. client_place_order c (down m) loads (JStr item) n address i w = (Inr r, w') \<and> dict_ok r \<and>
    dget r ''body'' = Some (JObj body) \<and> dget body ''order_id'' = Some (JStr i') \<and> i' \<noteq> [] \<and> JStr i' \<in> set (cw_orders w')"
proof -
  from down_http [OF assms(2)] obtain w1 where
    http: "timed_http_json c (down m) loads ''place_order'' ''POST'' ''/order''
        (Some (JObj (dict_of [(''item_id'', JStr s), (''quantity'', JInt n)]))) i w = (Inr (0, fault_body m False), w1)" by blast
  show ?thesis
    using assms(3-5)
    by (simp add: client_place_order_def quiet_with_fault [OF assms(1)] item_id_of_def bnd_def [of "timed_http_json _ _ _ _ _ _ _ _"] http)
      (simp add: placed_answer_def is_injected_body_def fault_body_def as_dict_def dget_or_dict_of offline_order_def answer_def dict_ok_def
        add_created_def modw_def py_uuid_def bnd_def thn_def ret_def Let_def dget_dict_of)
qed

lemma down_cancel:
  assumes "quiet c" "\<not> occurs_in ''injected_fault:'' m"
  shows "\<exists>r w'. client_cancel_order c (down m) loads order_id i w = (Inr r, w') \<and> dict_ok r"
proof -
  from down_http [OF assms(2)] obtain w1 where
    http: "timed_http_json c (down m) loads ''cancel_order'' ''POST'' (''/order/'' @ py_str order_id @ ''/cancel'') (Some (JObj fmempty)) i w =
      (Inr (0, fault_body m False), w1)" by blast
  show ?thesis
    unfolding client_cancel_order_def Let_def quiet_with_fault [OF assms(1)] bnd_def [of "timed_http_json _ _ _ _ _ _ _ _"] http
    by (simp add: bnd_def)
      (simp add: fault_body_def as_dict_def dget_or_dict_of answer_def dict_ok_def ret_def)
qed

lemma place_retries_done: "dict_ok res \<Longrightarrow> place_retries c params n i res attempts = ret (res, attempts, i)"
  by (cases n) simp_all

text \<open>
  C40. When nothing can be reached, the platform's tool for placing an order answers with success all the
  same, and tells the user the number of an order: one that the client made up and counts among the orders it
  created.
\<close>

theorem unreachable_order_confirmed:
  fixes w :: "('s, 'z) client_world_scheme"
  assumes "quiet c" and "\<not> occurs_in ''injected_fault:'' m"
    and "dget params ''item_name'' = Some (JStr item)" and "map_of item_map item = Some s"
    and "dget params ''quantity'' = Some (JInt n)" and "0 < n" and "n \<le> 999"
  shows "\<exists>r i w'. execute_place_order tx (client_tools c (down m) loads) retries params w = (Inr (Executed r), w') \<and> er_ok r \<and>
    dget (er_metadata r) ''response_text'' = Some (JStr (rx_order_ok tx @ i)) \<and> JStr i \<in> set (cw_orders w')"
proof -
  obtain r body i w' where placed: "client_place_order c (down m) loads (JStr item) n (dget_or params ''address'' (JStr [])) 0 w = (Inr r, w')" and
    r: "dict_ok r" "dget r ''body'' = Some (JObj body)" "dget body ''order_id'' = Some (JStr i)" "i \<noteq> []" "JStr i \<in> set (cw_orders w')"
    using down_place [OF assms(1,2,4,6,7)] by blast
  have call: "place_call (client_tools c (down m) loads) params 0 w = (Inr r, w')"
    using placed assms(3,5) by (simp add: place_call_def client_tools_def dget_or_def)
  have reply: "placed_text tx r = ret (rx_order_ok tx @ i)"
    using r by (simp add: placed_text_def as_dict_def dget_or_def)
  have "execute_place_order tx (client_tools c (down m) loads) retries params w =
      (Inr (Executed (legacy_result (client_tools c (down m) loads :: ('s, 'z) client_world_scheme tools_client) ''place_order'' r [tool_attempt ''place_order'' r] (rx_order_ok tx @ i) 0)), w')"
    unfolding execute_place_order_def by (simp add: bnd_def [of "place_call _ _ _"] call place_retries_done [OF r(1)] reply) (simp add: ret_def)
  then show ?thesis using r by (auto simp: legacy_result_def dget_dict_of)
qed

definition plain_client :: client_settings where
  "plain_client = \<lparr>kc_base_url = ''http://127.0.0.1:5000'', kc_chaos_mode = ''none'', kc_fail_rate = 0, kc_latency_ms = 0, kc_timeout = 12\<rparr>"

definition sample_order :: dict where
  "sample_order = dict_of [(''item_name'', JStr (dishes ! 3)), (''quantity'', JInt 2)]"

theorem unreachable_order_confirmed_witness:
  "\<forall>tx loads. \<forall>w :: nat client_world. \<exists>r i w'. execute_place_order tx (client_tools plain_client (down ''refused'') loads) 2 sample_order w =
     (Inr (Executed r), w') \<and> er_ok r \<and> dget (er_metadata r) ''response_text'' = Some (JStr (rx_order_ok tx @ i)) \<and> JStr i \<in> set (cw_orders w')"
proof (intro allI)
  fix tx :: reply_texts and loads :: "string \<Rightarrow> exn + json" and w :: "nat client_world"
  have "map_of item_map (dishes ! 3) = Some ''sku-cola''"
    by (simp add: item_map_def dishes_def utf8_def)
  moreover have "quiet plain_client" by (simp add: quiet_def plain_client_def active_fail_rate_def)
  moreover have "\<not> occurs_in ''injected_fault:'' ''refused''" by simp
  ultimately show "\<exists>r i w'. execute_place_order tx (client_tools plain_client (down ''refused'') loads) 2 sample_order w =
     (Inr (Executed r), w') \<and> er_ok r \<and> dget (er_metadata r) ''response_text'' = Some (JStr (rx_order_ok tx @ i)) \<and> JStr i \<in> set (cw_orders w')"
    by (intro unreachable_order_confirmed [where n = 2 and item = "dishes ! 3"]) (simp_all add: sample_order_def dget_dict_of)
qed

end
