(* ===== verification/Spec2Isabelle.thy ===== *)
theory Spec2Isabelle
  imports Rate_Limiter_Correct Retry_Correct Breaker_Correct Breaker_Window Chaos_Correct Chaos_Stop
    Idempotency_Guarantees Order_Correct Order_Lifecycle Http_Correct Tools_Correct Runtime_Correct Workflow_Correct
    Workflow_Nodes Service_Correct Llm_Correct Redaction Evaluators_Correct Release_Gate_Correct
    Agent_Planner_Correct Agent_Client_Correct
begin

text \<open>
  This library verifies the programs of the repository: the order service (\<open>app\<close>,
  \<open>chaos_service\<close>, \<open>lua\<close>), a web service with rate limiting, retries, a circuit breaker, idempotent
  orders and programmable faults; the AI platform (\<open>ai_platform\<close>), which runs an agent's workflow
  under security checks, records what it did, evaluates it and asks language models through a gateway;
  and the gates of the delivery pipeline (\<open>quality_gate.py\<close>, \<open>unified_quality_gate.py\<close>, the gate and the
  judge of \<open>agent-eval/scripts\<close>), which decide from the reports whether a version passes.

  The shape of the model. Handlers are programs \<open>('w, 'a) prog\<close> of the theory Prelude: functions from
  a world to a value or an exception, and the next world. A world is a record: the clock with its
  ticks, the random samples and identifiers still to come, counters, observations, log lines, pauses,
  and the content of the store. The service extends it with the settings of the chaos layer and the
  experiments of a request (\<open>chaos_world\<close>), and with what the hooks keep of a request and the traffic
  queue (\<open>http_world\<close>); the platform extends it with the collector, the states of the runs, the active
  context and the logger's trace (\<open>platform_world\<close>). Every raise is a value of the type \<open>exn\<close>. Python's
  floats are exact rationals, its dicts with text keys finite maps, texts lists of characters with
  codes below 256, untyped values of the type \<open>json\<close>.

  Redis is not part of the repository. Its commands are a record \<open>R\<close> that every definition takes which
  calls the store; each command gets the time and may fail. What the program relies on is the locale
  \<open>reliable_store\<close> of Redis_Store (a text is held until its expiry, a set member until it is
  removed, a failing command changes nothing). Fake_Redis models the store double of
  \<open>tests/conftest.py\<close> and interprets the locale with it (\<open>fr\<close>), so the laws hold of code that is in
  the repository. Lemmas about the clock are proved in \<open>clock_invariant\<close> (Clock), which is interpreted
  for a clock that stands still and for one that only moves forward.

  Theories and sources.
  \<^item> Prelude: values, texts, exceptions, the monad, the world. Redis_Store, Fake_Redis, Clock,
    Demo_World and Demo_Chaos_World: the store, the clock and the worlds of the witnesses.
  \<^item> Config: \<open>app/config\<close>, \<open>app/context.py\<close> (the runtime's attributes are the record \<open>ctx\<close>).
  \<^item> Rate_Limiter: \<open>chaos_service/rate_limiter.py\<close>, \<open>lua/*.lua\<close>. Rate_Limiter_Correct: the sliding
    window admits at most the limit in any interval of its length, the fixed window exactly the limit
    in a bucket, a failing store rejects nobody, forged addresses are ignored.
  \<^item> Retry: \<open>chaos_service/retry.py\<close>. Retry_Correct: bounds of the backoff, the deadline, refinement of
    a plain loop.
  \<^item> Breaker: \<open>chaos_service/resilience\<close> with its Lua script. Breaker_Correct: who is admitted in which
    state, the single probe, what its outcome does. Breaker_Window: the counts of the shared window.
  \<^item> Chaos_Model, Chaos_Control: \<open>chaos_service/chaos\<close>, \<open>chaos_service/fault_injection.py\<close>. Chaos_Correct,
    Chaos_Stop: the kill switch, the limits, the store of experiments, the gauge, the emergency stop.
  \<^item> Idempotency: \<open>chaos_service/store.py\<close>. Idempotency_Correct, Idempotency_Guarantees: one owner of a
    key, replays, releases, and that waiting ends.
  \<^item> Order_Service: \<open>app/repository\<close>, \<open>app/service\<close>. Order_Correct, Order_Lifecycle: a success is a stored
    order, a repetition is answered from the record, reads and cancellations refine a small machine,
    and an invalid request can hold the breaker's probe.
  \<^item> Http_Model, Http_Api, Traffic: \<open>app/api\<close>, \<open>app/exceptions\<close>, \<open>app/observability/middleware.py\<close>,
    \<open>chaos_service/traffic.py\<close>. Http_Correct: the admin token, the order route, the gauge of requests in
    progress, the masking of recorded traffic.
  \<^item> Observability, Collector: \<open>ai_platform/observability\<close>, \<open>ai_platform/agent/state.py\<close> and
    \<open>context.py\<close>. Security: \<open>ai_platform/security\<close>. Platform_Tools: \<open>ai_platform/tools\<close>. Agent_Runtime:
    \<open>ai_platform/workflow\<close>, \<open>ai_platform/agent/runtime.py\<close>. Security_Correct, Tools_Correct,
    Runtime_Correct, Workflow_Correct: what the checks pass, that a refused call or request runs
    nothing, that calls and runs always answer, the gauge of running agents, and the engine against a
    plain loop. Platform_Quiet: what recording leaves alone. Workflow_Nodes:
    \<open>ai_platform/workflow/nodes\<close>, the planner, the tool node and the judge.
  \<^item> Evaluation: \<open>ai_platform/evaluation\<close>, its results, engine, metrics and gate. Platform_Service:
    \<open>ai_platform/core\<close>, the configuration and the service. Service_Correct: what the gate decides, that
    every request is answered, what an answer says of its evaluation, the configuration as a dict.
  \<^item> Llm_Config, Llm_Gateway: \<open>ai_platform/llm\<close>. Llm_Correct: every request is answered, with a response or
    an error of the gateway, and the key goes to its own provider only. Redaction:
    \<open>ai_platform/security/redaction.py\<close> and that no secret is left in a text.
  \<^item> Fabrication: \<open>ai_platform/evaluation/fabrication.py\<close>. Evaluators: \<open>ai_platform/evaluation/evaluator.py\<close>
    and \<open>report\<close>. Evaluators_Correct: scores are pass rates, a report of a batch fits the gate, a
    comparison decides by its bounds, claims of actions that were not done.
  \<^item> Agent_Planner: the planner of \<open>agent-eval/scripts/run_agent_eval.py\<close>, which the planner node uses by
    default. Agent_Planner_Correct: what a validated plan is, and that plans by rules touch only the order
    that the text names. Agent_Client: \<open>agent-eval/scripts/tools_client.py\<close>, the default client of the
    platform's tools. Agent_Client_Correct: its recorded steps, and what it answers when nothing is reached.
  \<^item> Release_Gate: the gates of the pipeline. Release_Gate_Correct: the unified decision, the security
    gate, the thresholds of the agent's gate.

  Properties of many steps are proved with three small calculi over programs: \<open>keeps\<close> for an invariant
  of the world, \<open>answers\<close> for what a call returns, and \<open>gives Q E m\<close> (Prelude), which says that what \<open>m\<close>
  returns satisfies \<open>Q\<close> and what it raises satisfies \<open>E\<close>, whatever the world is. Their rules follow the
  combinators of the monad.

  Objects that the source shares and changes in place are kept by their place in a list of the world:
  the states of agent runs, traces, spans. Python's regular expressions are a parameter where a policy
  or a rule brings its own; the fixed expression of the traffic recorder is written out. What a tool,
  a node of a workflow or a client does is a program in a record, a parameter of what uses it.

  Fuel. The retry loop, the polling of an idempotent request and the scan of the store are loops with
  fuel: the number of attempts of the policy, the number of polls that fit into the waiting time
  (\<open>wait_fuel\<close>, enough by \<open>waiting_ends\<close>), and the scan's cursor, which the store's law bounds. All other
  recursion is structural.

  Not modelled. Threads and locks: one operation runs at a time; Redis runs a script as one step.
  Registration with Flask and FastAPI, the Prometheus metric objects (a metric is its name and labels),
  log formatting, process start and network clients: they are glue or input and output. The client of
  the language models, the JSON parser and what the planners, validators and judges given to the platform
  do are parameters; the ones it takes by default are modelled. The texts of Markdown reports. The scripts for benchmarks, scans, reports and
  demonstrations, and those of \<open>agent-eval\<close> other than the gate, the judge, the planner and the tools'
  client: they are not part of the running programs. \<open>AppRuntime.update_setting\<close>, which replaces any attribute by name. Rounding of
  floating point numbers, infinities and NaN. Characters with codes above 255.
\<close>

end
